(* ===== verification/Cpms_Prelude.thy ===== *)
theory Cpms_Prelude
  imports Main "HOL-Library.AList" "HOL-Library.Sublist" "HOL-Library.Char_ord"
    "HOL-Library.List_Lexorder"
begin

text \<open>
  What every component of the development shares: the parts of the Go language and of its
  standard library that the program's own code relies on, and the proof collections.

  \<^item> Go's \<open>int\<close> and \<open>uint64\<close> are integers with the 64-bit wrap-around written out
    (\<open>wrap64\<close>, \<open>uwrap64\<close>), used wherever the source adds to a counter.
  \<^item> \<open>time.Time\<close> is an instant (nanoseconds since Go's zero time) and a zone offset;
    \<open>time.Duration\<close> is an integer number of nanoseconds. The monotonic clock reading is left
    out.
  \<^item> A Go string is a list of bytes. \<open>strings.EqualFold\<close>, \<open>strings.TrimSpace\<close>,
    \<open>strconv.Itoa\<close> and \<open>strconv.Atoi\<close> are functions on it.
  \<^item> A Go map is an association list with distinct keys. Go iterates over a map in no fixed
    order; the order of the list stands for the order one run happens to see, so a theorem for
    every list is a theorem for every order.
  \<^item> A slice that can be \<open>nil\<close> is an optional list.
\<close>

named_theorems go_simps \<open>definitions of the Go library functions\<close>
named_theorems inv_defs \<open>definitions of the invariants\<close>
named_theorems inv_intros \<open>every operation keeps the invariants\<close>

section \<open>Integers\<close>

definition wrap64 :: "int \<Rightarrow> int" where
  "wrap64 i = (i + 2 ^ 63) mod 2 ^ 64 - 2 ^ 63"

definition uwrap64 :: "int \<Rightarrow> int" where
  "uwrap64 i = i mod 2 ^ 64"

definition max_int64 :: int where
  "max_int64 = 2 ^ 63 - 1"

definition int64_range :: "int \<Rightarrow> bool" where
  "int64_range i \<longleftrightarrow> - (2 ^ 63) \<le> i \<and> i < 2 ^ 63"

lemma wrap64_range: "int64_range (wrap64 i)"
proof -
  have "0 \<le> (i + 2 ^ 63) mod 2 ^ 64" and "(i + 2 ^ 63) mod 2 ^ 64 < (2 ^ 64 :: int)"
    by simp_all
  then show ?thesis by (simp add: wrap64_def int64_range_def)
qed

lemma wrap64_id: "int64_range i \<Longrightarrow> wrap64 i = i"
  by (simp add: wrap64_def int64_range_def)

lemma wrap64_inc: "0 \<le> i \<Longrightarrow> i < max_int64 \<Longrightarrow> wrap64 (i + 1) = i + 1"
  by (rule wrap64_id) (simp add: int64_range_def max_int64_def)

lemma uwrap64_inc: "0 \<le> i \<Longrightarrow> i + 1 < 2 ^ 64 \<Longrightarrow> uwrap64 (i + 1) = i + 1"
  by (simp add: uwrap64_def)

section \<open>Time\<close>

datatype gotime = GoTime (instant: int) (zone: int)

type_synonym duration = int

definition zero_time :: gotime where
  "zero_time = GoTime 0 0"

definition IsZero :: "gotime \<Rightarrow> bool" where
  [go_simps]: "IsZero t \<longleftrightarrow> instant t = 0"

definition UTC :: "gotime \<Rightarrow> gotime" where
  [go_simps]: "UTC t = GoTime (instant t) 0"

definition time_After :: "gotime \<Rightarrow> gotime \<Rightarrow> bool" where
  [go_simps]: "time_After t u \<longleftrightarrow> instant u < instant t"

definition time_Equal :: "gotime \<Rightarrow> gotime \<Rightarrow> bool" where
  [go_simps]: "time_Equal t u \<longleftrightarrow> instant t = instant u"

definition time_Add :: "gotime \<Rightarrow> duration \<Rightarrow> gotime" where
  [go_simps]: "time_Add t d = GoTime (instant t + d) (zone t)"

text \<open>\<open>Time.Sub\<close> saturates at the largest and the smallest duration.\<close>

definition time_Sub :: "gotime \<Rightarrow> gotime \<Rightarrow> duration" where
  [go_simps]: "time_Sub t u = max (- (2 ^ 63)) (min max_int64 (instant t - instant u))"

definition Second :: duration where
  "Second = 1000000000"

definition Minute :: duration where
  "Minute = 60 * Second"

lemma UTC_UTC [simp]: "UTC (UTC t) = UTC t"
  by (simp add: UTC_def)

lemma instant_UTC [simp]: "instant (UTC t) = instant t"
  by (simp add: UTC_def)

section \<open>Strings\<close>

definition to_lower :: "char \<Rightarrow> char" where
  "to_lower c = (if CHR ''A'' \<le> c \<and> c \<le> CHR ''Z'' then char_of (of_char c + (32::nat)) else c)"

text \<open>
  The key of \<open>strings.EqualFold\<close>: ASCII letters fold to lower case, and the two code points
  outside ASCII that fold into it, the Kelvin sign (bytes E2 84 AA) and the long s (bytes C5 BF),
  fold to \<open>k\<close> and \<open>s\<close>. Two strings of which one is ASCII are equal under \<open>EqualFold\<close> exactly
  when their keys are equal; case pairs with both sides outside ASCII are not folded here.
\<close>

fun fold_key :: "string \<Rightarrow> string" where
  "fold_key [] = []"
| "fold_key (a # s) =
     (if a = CHR 0xE2 \<and> take 2 s = [CHR 0x84, CHR 0xAA] then CHR ''k'' # fold_key (drop 2 s)
      else if a = CHR 0xC5 \<and> take 1 s = [CHR 0xBF] then CHR ''s'' # fold_key (drop 1 s)
      else to_lower a # fold_key s)"

declare fold_key.simps [simp del]

definition EqualFold :: "string \<Rightarrow> string \<Rightarrow> bool" where
  [go_simps]: "EqualFold s t \<longleftrightarrow> fold_key s = fold_key t"

lemma EqualFold_refl [simp]: "EqualFold s s"
  by (simp add: EqualFold_def)

lemma EqualFold_sym: "EqualFold s t \<longleftrightarrow> EqualFold t s"
  by (auto simp: EqualFold_def)

lemma EqualFold_trans: "EqualFold s t \<Longrightarrow> EqualFold t u \<Longrightarrow> EqualFold s u"
  by (simp add: EqualFold_def)

text \<open>
  \<open>strings.TrimRight\<close> with one character, and \<open>strings.TrimSpace\<close>: the code points that
  \<open>unicode.IsSpace\<close> accepts, each as its UTF-8 bytes, are taken off both ends.
\<close>

definition trim_right :: "(char \<Rightarrow> bool) \<Rightarrow> string \<Rightarrow> string" where
  "trim_right p s = rev (dropWhile p (rev s))"

definition space_runes :: "string list" where
  "space_runes =
     [[CHR '' ''], [CHR 0x09], [CHR 0x0A], [CHR 0x0B], [CHR 0x0C], [CHR 0x0D],
      [CHR 0xC2, CHR 0x85], [CHR 0xC2, CHR 0xA0], [CHR 0xE1, CHR 0x9A, CHR 0x80]] @
     map (\<lambda>c. [CHR 0xE2, CHR 0x80, c])
       [CHR 0x80, CHR 0x81, CHR 0x82, CHR 0x83, CHR 0x84, CHR 0x85, CHR 0x86, CHR 0x87, CHR 0x88,
        CHR 0x89, CHR 0x8A, CHR 0xA8, CHR 0xA9, CHR 0xAF] @
     [[CHR 0xE2, CHR 0x81, CHR 0x9F], [CHR 0xE3, CHR 0x80, CHR 0x80]]"

definition starts_with :: "string list \<Rightarrow> string \<Rightarrow> string option" where
  "starts_with ts s = List.find (\<lambda>t. t \<noteq> [] \<and> take (length t) s = t) ts"

lemma starts_with_Some: "starts_with ts s = Some t \<Longrightarrow> t \<noteq> [] \<and> take (length t) s = t \<and> t \<in> set ts"
  by (auto simp: starts_with_def find_Some_iff)

lemma starts_with_shorter: "starts_with ts s = Some t \<Longrightarrow> length (drop (length t) s) < length s"
  by (drule starts_with_Some) (cases s; auto simp: Suc_le_eq)

function strip :: "string list \<Rightarrow> string \<Rightarrow> string" where
  "strip ts s = (case starts_with ts s of None \<Rightarrow> s | Some t \<Rightarrow> strip ts (drop (length t) s))"
  by pat_completeness auto
termination
  by (relation "measure (length \<circ> snd)") (simp_all del: length_drop add: starts_with_shorter)

declare strip.simps [simp del]

lemma starts_with_strip [simp]: "starts_with ts (strip ts s) = None"
proof (induction ts s rule: strip.induct)
  case (1 ts s)
  then show ?case by (subst strip.simps) (auto split: option.splits)
qed

definition TrimSpace :: "string \<Rightarrow> string" where
  "TrimSpace s = rev (strip (map rev space_runes) (rev (strip space_runes s)))"

lemma strip_Nil [simp]: "strip ts [] = []"
  by (subst strip.simps) (auto split: option.splits dest: starts_with_Some)

lemma TrimSpace_Nil [simp]: "TrimSpace [] = []"
  by (simp add: TrimSpace_def)


fun join :: "string \<Rightarrow> string list \<Rightarrow> string" where
  "join sep [] = []"
| "join sep [s] = s"
| "join sep (s # t # ts) = s @ sep @ join sep (t # ts)"

fun split_on :: "char \<Rightarrow> string \<Rightarrow> string list" where
  "split_on c [] = [[]]"
| "split_on c (x # xs) =
     (if x = c then [] # split_on c xs
      else (case split_on c xs of [] \<Rightarrow> [[x]] | s # ss \<Rightarrow> (x # s) # ss))"

lemma split_on_nonempty [simp]: "split_on c s \<noteq> []"
  by (induction s) (auto split: list.splits)

lemma trim_right_fixed: "trim_right p s = [] \<or> \<not> p (last (trim_right p s))"
proof (cases "dropWhile p (rev s)")
  case Nil
  then show ?thesis by (simp add: trim_right_def)
next
  case (Cons c cs)
  then have "\<not> p (hd (dropWhile p (rev s)))" by (metis hd_dropWhile list.distinct(1))
  with Cons show ?thesis by (simp add: trim_right_def)
qed

section \<open>Decimal numbers: strconv.Itoa and strconv.Atoi\<close>

definition digit_char :: "nat \<Rightarrow> char" where
  "digit_char n = char_of (48 + n)"

definition digit_val :: "char \<Rightarrow> nat option" where
  "digit_val c = (if CHR ''0'' \<le> c \<and> c \<le> CHR ''9'' then Some (of_char c - 48) else None)"

fun nat_digits :: "nat \<Rightarrow> string" where
  "nat_digits n = (if n < 10 then [digit_char n]
                   else nat_digits (n div 10) @ [digit_char (n mod 10)])"

declare nat_digits.simps [simp del]

definition Itoa :: "int \<Rightarrow> string" where
  "Itoa i = (if i < 0 then CHR ''-'' # nat_digits (nat (- i)) else nat_digits (nat i))"

fun digits_val :: "nat \<Rightarrow> string \<Rightarrow> nat option" where
  "digits_val acc [] = Some acc"
| "digits_val acc (c # cs) =
     (case digit_val c of None \<Rightarrow> None | Some d \<Rightarrow> digits_val (10 * acc + d) cs)"

definition parse_nat :: "string \<Rightarrow> nat option" where
  "parse_nat s = (if s = [] then None else digits_val 0 s)"

definition in_range64 :: "int \<Rightarrow> int option" where
  "in_range64 i = (if int64_range i then Some i else None)"

definition Atoi :: "string \<Rightarrow> int option" where
  "Atoi s = (case s of
       [] \<Rightarrow> None
     | c # cs \<Rightarrow>
         if c = CHR ''-'' then Option.bind (parse_nat cs) (\<lambda>n. in_range64 (- int n))
         else if c = CHR ''+'' then Option.bind (parse_nat cs) (\<lambda>n. in_range64 (int n))
         else Option.bind (parse_nat s) (\<lambda>n. in_range64 (int n)))"

lemma less_10_cases:
  "(n::nat) < 10 \<Longrightarrow> n = 0 \<or> n = 1 \<or> n = 2 \<or> n = 3 \<or> n = 4 \<or> n = 5 \<or> n = 6 \<or> n = 7 \<or> n = 8 \<or> n = 9"
  by arith

lemma digit_val_char: "n < 10 \<Longrightarrow> digit_val (digit_char n) = Some n"
  by (drule less_10_cases) (elim disjE; simp add: digit_val_def digit_char_def less_eq_char_def)

lemma digit_char_not_sign:
  "n < 10 \<Longrightarrow> digit_char n \<noteq> CHR ''-'' \<and> digit_char n \<noteq> CHR ''+''"
  by (drule less_10_cases) (elim disjE; simp add: digit_char_def char_of_eq_iff)

lemma digits_val_append:
  "digits_val acc (xs @ ys) = Option.bind (digits_val acc xs) (\<lambda>a. digits_val a ys)"
  by (induction xs arbitrary: acc) (auto split: option.splits)

lemma nat_digits_nonempty [simp]: "nat_digits n \<noteq> []"
  by (subst nat_digits.simps) simp

lemma digits_val_nat_digits: "digits_val 0 (nat_digits n) = Some n"
proof (induction n rule: nat_digits.induct)
  case (1 n)
  show ?case
  proof (cases "n < 10")
    case True
    then show ?thesis by (subst nat_digits.simps) (simp add: digit_val_char)
  next
    case False
    with 1 have "digits_val 0 (nat_digits (n div 10)) = Some (n div 10)" by simp
    with False show ?thesis
      by (subst nat_digits.simps) (simp add: digits_val_append digit_val_char)
  qed
qed

lemma hd_nat_digits: "hd (nat_digits n) \<noteq> CHR ''-'' \<and> hd (nat_digits n) \<noteq> CHR ''+''"
proof (induction n rule: nat_digits.induct)
  case (1 n)
  show ?case
  proof (cases "n < 10")
    case True
    then show ?thesis by (subst (1 2) nat_digits.simps) (simp add: digit_char_not_sign)
  next
    case False
    with 1 show ?thesis by (subst (1 2) nat_digits.simps) simp
  qed
qed

lemma parse_nat_digits: "parse_nat (nat_digits n) = Some n"
  by (simp add: parse_nat_def digits_val_nat_digits)

lemma Atoi_Itoa: "int64_range i \<Longrightarrow> Atoi (Itoa i) = Some i"
proof (cases "i < 0")
  case True
  assume "int64_range i"
  with True show ?thesis
    by (simp add: Itoa_def Atoi_def parse_nat_digits in_range64_def)
next
  case False
  assume i: "int64_range i"
  obtain c cs where d: "nat_digits (nat i) = c # cs"
    by (cases "nat_digits (nat i)") auto
  then have "c \<noteq> CHR ''-'' \<and> c \<noteq> CHR ''+''"
    using hd_nat_digits [of "nat i"] by simp
  then have "Atoi (nat_digits (nat i)) = Option.bind (parse_nat (nat_digits (nat i))) (\<lambda>n. in_range64 (int n))"
    by (simp add: Atoi_def d)
  with i False show ?thesis
    by (simp add: Itoa_def parse_nat_digits in_range64_def)
qed

lemma Atoi_range: "Atoi s = Some i \<Longrightarrow> int64_range i"
  by (auto simp: Atoi_def in_range64_def bind_eq_Some_conv split: list.splits if_splits)

lemma Itoa_inj: "int64_range i \<Longrightarrow> int64_range j \<Longrightarrow> Itoa i = Itoa j \<Longrightarrow> i = j"
  by (metis Atoi_Itoa option.inject)

section \<open>Go maps as association lists\<close>

abbreviation m_put :: "'k \<Rightarrow> 'v \<Rightarrow> ('k \<times> 'v) list \<Rightarrow> ('k \<times> 'v) list" where
  "m_put \<equiv> AList.update"

abbreviation m_del :: "'k \<Rightarrow> ('k \<times> 'v) list \<Rightarrow> ('k \<times> 'v) list" where
  "m_del \<equiv> AList.delete"

abbreviation m_keys :: "('k \<times> 'v) list \<Rightarrow> 'k list" where
  "m_keys m \<equiv> map fst m"

abbreviation m_vals :: "('k \<times> 'v) list \<Rightarrow> 'v list" where
  "m_vals m \<equiv> map snd m"

text \<open>Indexing a Go map with an absent key gives the zero value of its type.\<close>

definition m_get :: "'v \<Rightarrow> ('k \<times> 'v) list \<Rightarrow> 'k \<Rightarrow> 'v" where
  "m_get zero m k = (case map_of m k of None \<Rightarrow> zero | Some v \<Rightarrow> v)"

lemma map_of_put [simp]: "map_of (m_put k v m) = (map_of m)(k \<mapsto> v)"
  by (rule update_conv')

lemma map_of_del [simp]: "map_of (m_del k m) = (map_of m)(k := None)"
  by (rule delete_conv')

lemma distinct_put [simp]: "distinct (m_keys m) \<Longrightarrow> distinct (m_keys (m_put k v m))"
  by (rule distinct_update)

lemma distinct_del [simp]: "distinct (m_keys m) \<Longrightarrow> distinct (m_keys (m_del k m))"
  by (rule distinct_delete)

lemma m_get_put [simp]: "m_get z (m_put k v m) k' = (if k' = k then v else m_get z m k')"
  by (simp add: m_get_def)

declare map_of_eq_Some_iff [simp del] Some_eq_map_of_iff [simp del]

lemma in_vals_iff:
  "distinct (m_keys m) \<Longrightarrow> v \<in> set (m_vals m) \<longleftrightarrow> (\<exists>k. map_of m k = Some v)"
  by (auto simp: image_iff map_of_eq_Some_iff intro!: bexI)

lemma find_in_set: "List.find P xs = Some x \<Longrightarrow> x \<in> set xs \<and> P x"
  by (auto simp: find_Some_iff)

lemma keys_put: "set (m_keys (m_put k v m)) = insert k (set (m_keys m))"
  by (simp add: dom_update dom_map_of_conv_image_fst [symmetric])

lemma keys_del: "set (m_keys (m_del k m)) = set (m_keys m) - {k}"
  by (simp add: dom_map_of_conv_image_fst [symmetric])

section \<open>Optional slices\<close>

type_synonym 'a slice = "'a list option"

definition elems :: "'a slice \<Rightarrow> 'a list" where
  "elems s = (case s of None \<Rightarrow> [] | Some xs \<Rightarrow> xs)"

lemma elems_simps [simp]: "elems None = []" "elems (Some xs) = xs"
  by (simp_all add: elems_def)

section \<open>Transition systems\<close>

text \<open>
  The interface every state machine of the development is proved against: initial states, a step
  relation and an invariant that the initial states have and every step keeps. The invariant then
  holds in every state a run reaches.
\<close>

locale transition_system =
  fixes initial :: "'s \<Rightarrow> bool"
    and step :: "'s \<Rightarrow> 's \<Rightarrow> bool"
    and inv :: "'s \<Rightarrow> bool"
  assumes inv_initial: "initial s \<Longrightarrow> inv s"
    and inv_step: "inv s \<Longrightarrow> step s t \<Longrightarrow> inv t"
begin

lemma inv_steps: "step\<^sup>*\<^sup>* s t \<Longrightarrow> inv s \<Longrightarrow> inv t"
  by (induction rule: rtranclp_induct) (auto intro: inv_step)

lemma inv_reachable: "initial s \<Longrightarrow> step\<^sup>*\<^sup>* s t \<Longrightarrow> inv t"
  using inv_steps inv_initial by blast

end

end
