(* ===== verification/Go_Time.thy ===== *)
theory Go_Time
  imports Cpms_Prelude
begin

text \<open>
  The text forms of \<open>time.Duration\<close> and \<open>time.Time\<close> that the program reads and writes:
  \<open>Duration.String\<close>, \<open>time.ParseDuration\<close>, and the RFC 3339 layout of \<open>Time.Format\<close> and
  \<open>time.Parse\<close>. A fraction of a unit is computed exactly and rounded down, where Go multiplies
  floats. \<open>parse_rfc3339\<close> takes the strict grammar of RFC 3339 with an upper-case \<open>T\<close> and
  \<open>Z\<close>. The round trips of the timestamps the program itself writes and of its
  positive durations are proved below.
\<close>

section \<open>Durations\<close>

definition is_digit :: "char \<Rightarrow> bool" where
  "is_digit c \<longleftrightarrow> CHR ''0'' \<le> c \<and> c \<le> CHR ''9''"

fun pad_digits :: "nat \<Rightarrow> nat \<Rightarrow> string" where
  "pad_digits 0 n = []"
| "pad_digits (Suc k) n = pad_digits k (n div 10) @ [digit_char (n mod 10)]"

definition frac_string :: "nat \<Rightarrow> nat \<Rightarrow> string" where
  "frac_string k v = (if v = 0 then [] else CHR ''.'' # trim_right (\<lambda>c. c = CHR ''0'') (pad_digits k v))"

text \<open>\<open>Duration.String\<close>: the largest unit that leaves a leading digit, hours at most.\<close>

definition duration_string :: "duration \<Rightarrow> string" where
  "duration_string d =
     (if d = 0 then ''0s'' else
      let u = nat \<bar>d\<bar>;
          sign = (if d < 0 then ''-'' else []);
          body =
            (if u < 1000 then nat_digits u @ ''ns''
             else if u < 1000000 then nat_digits (u div 1000) @ frac_string 3 (u mod 1000) @ [CHR 0xC2, CHR 0xB5] @ ''s''
             else if u < 1000000000 then nat_digits (u div 1000000) @ frac_string 6 (u mod 1000000) @ ''ms''
             else
               let secs = u div 1000000000; f = frac_string 9 (u mod 1000000000);
                   s = nat_digits (secs mod 60) @ f @ ''s'';
                   m = (if 60 \<le> secs then nat_digits (secs div 60 mod 60) @ ''m'' else []);
                   h = (if 3600 \<le> secs then nat_digits (secs div 3600) @ ''h'' else [])
               in h @ m @ s)
      in sign @ body)"

definition duration_unit :: "string \<Rightarrow> int option" where
  "duration_unit u = map_of
     [(''ns'', 1), (''us'', 1000), ([CHR 0xC2, CHR 0xB5] @ ''s'', 1000), ([CHR 0xCE, CHR 0xBC] @ ''s'', 1000),
      (''ms'', 1000000), (''s'', 1000000000), (''m'', 60000000000), (''h'', 3600000000000)] u"

definition digits_of :: "string \<Rightarrow> int" where
  "digits_of s = (case digits_val 0 s of None \<Rightarrow> 0 | Some n \<Rightarrow> int n)"

lemma rest_shorter:
  assumes "takeWhile p s \<noteq> []" and "length s \<le> n"
  shows "length (dropWhile p s) < n"
proof -
  have "length s = length (takeWhile p s) + length (dropWhile p s)"
    by (metis length_append takeWhile_dropWhile_id)
  with assms show ?thesis by (cases "takeWhile p s") auto
qed

text \<open>
  The loop of \<open>time.ParseDuration\<close>: a number with an optional fraction, then a unit, until the
  text is used up. Each component and the running sum must stay within \<open>2 ^ 63\<close>.
\<close>

definition unit_char :: "char \<Rightarrow> bool" where
  "unit_char c \<longleftrightarrow> c \<noteq> CHR ''.'' \<and> \<not> is_digit c"

definition parse_component :: "string \<Rightarrow> (int \<times> string) option" where
  "parse_component s =
     (let whole = takeWhile is_digit s; s1 = dropWhile is_digit s;
          dot = (s1 \<noteq> [] \<and> hd s1 = CHR ''.'');
          frac = (if dot then takeWhile is_digit (tl s1) else []);
          s2 = (if dot then dropWhile is_digit (tl s1) else s1);
          unit = takeWhile unit_char s2; rest = dropWhile unit_char s2
      in if whole = [] \<and> frac = [] then None
         else if unit = [] then None
         else case duration_unit unit of
           None \<Rightarrow> None
         | Some k \<Rightarrow>
             let v = digits_of whole * k + digits_of frac * k div 10 ^ length frac
             in if 2 ^ 63 < digits_of whole \<or> 2 ^ 63 < v then None else Some (v, rest))"

lemma parse_component_shorter:
  assumes "parse_component s = Some (v, rest)"
  shows "length rest < length s"
proof -
  let ?s1 = "dropWhile is_digit s"
  have "length ?s1 \<le> length s" by (rule length_dropWhile_le)
  moreover have "length (dropWhile is_digit (tl ?s1)) \<le> length ?s1"
    using length_dropWhile_le [of is_digit "tl ?s1"] by auto
  ultimately have "length (dropWhile is_digit (tl ?s1)) \<le> length s" by (rule le_trans [rotated])
  with \<open>length ?s1 \<le> length s\<close> assms show ?thesis
    by (auto simp: parse_component_def Let_def rest_shorter split: if_splits option.splits)
qed

lemma digits_of_nonneg [simp]: "0 \<le> digits_of w"
  by (simp add: digits_of_def split: option.splits)

lemma parse_component_nonneg:
  assumes "parse_component s = Some (v, rest)"
  shows "0 \<le> v"
proof -
  have unit: "duration_unit u = Some k \<Longrightarrow> 0 \<le> k" for u k
    by (auto simp: duration_unit_def split: if_splits)
  from assms show ?thesis
    unfolding parse_component_def Let_def
    by (auto dest!: unit simp: pos_imp_zdiv_nonneg_iff split: if_splits option.splits)
qed

function parse_components :: "int \<Rightarrow> string \<Rightarrow> int option" where
  "parse_components acc s =
     (if s = [] then Some acc else
      case parse_component s of
        None \<Rightarrow> None
      | Some (v, rest) \<Rightarrow> if 2 ^ 63 < acc + v then None else parse_components (acc + v) rest)"
  by pat_completeness auto
termination
  by (relation "measure (\<lambda>(acc, s). length s)") (auto dest: parse_component_shorter)

declare parse_components.simps [simp del]

definition ParseDuration :: "string \<Rightarrow> duration option" where
  "ParseDuration s =
     (let neg = (s \<noteq> [] \<and> hd s = CHR ''-'');
          body = (if s \<noteq> [] \<and> hd s \<in> {CHR ''-'', CHR ''+''} then tl s else s)
      in if body = ''0'' then Some 0
         else if body = [] then None
         else case parse_components 0 body of
           None \<Rightarrow> None
         | Some d \<Rightarrow> if neg then Some (- d) else if max_int64 < d then None else Some d)"

lemma parse_components_bound:
  "parse_components acc s = Some d \<Longrightarrow> 0 \<le> acc \<Longrightarrow> acc \<le> 2 ^ 63 \<Longrightarrow> 0 \<le> d \<and> d \<le> 2 ^ 63"
proof (induction acc s rule: parse_components.induct)
  case (1 acc s)
  then show ?case
    by (subst (asm) (2) parse_components.simps)
       (auto dest: parse_component_nonneg split: if_splits option.splits)
qed

lemma ParseDuration_range: "ParseDuration s = Some d \<Longrightarrow> int64_range d"
  using parse_components_bound [of 0]
  by (fastforce simp: ParseDuration_def Let_def int64_range_def max_int64_def
      split: if_splits option.splits)

section \<open>RFC 3339\<close>

definition leap_year :: "int \<Rightarrow> bool" where
  "leap_year y \<longleftrightarrow> y mod 4 = 0 \<and> (y mod 100 \<noteq> 0 \<or> y mod 400 = 0)"

definition month_lengths :: "bool \<Rightarrow> int list" where
  "month_lengths leap = [31, if leap then 29 else 28, 31, 30, 31, 30, 31, 31, 30, 31, 30, 31]"

text \<open>Days from 1 January of year 1 to 1 January of year \<open>y\<close>.\<close>

definition days_before_year :: "int \<Rightarrow> int" where
  "days_before_year y = 365 * (y - 1) + (y - 1) div 4 - (y - 1) div 100 + (y - 1) div 400"

fun days_before_month :: "int list \<Rightarrow> nat \<Rightarrow> int" where
  "days_before_month ls 0 = 0"
| "days_before_month [] (Suc m) = 0"
| "days_before_month (l # ls) (Suc m) = l + days_before_month ls m"

fun month_day :: "int list \<Rightarrow> int \<Rightarrow> nat \<times> int" where
  "month_day [] d = (0, d)"
| "month_day (l # ls) d = (if d < l then (0, d) else let (m, r) = month_day ls (d - l) in (Suc m, r))"

text \<open>The year of a day number and the day within it, by the 400, 100, 4 and 1 year cycles.\<close>

definition year_of_days :: "int \<Rightarrow> int \<times> int" where
  "year_of_days d =
     (let c = d div 146097; r = d mod 146097;
          a = min 3 (r div 36524); r1 = r - a * 36524;
          b = r1 div 1461; r2 = r1 mod 1461;
          e = min 3 (r2 div 365)
      in (400 * c + 100 * a + 4 * b + e + 1, r2 - e * 365))"

definition format_civil :: "string \<Rightarrow> gotime \<Rightarrow> string" where
  "format_civil frac t =
     (let secs = instant t div Second + zone t;
          (y, yday) = year_of_days (secs div 86400);
          (m, d) = month_day (month_lengths (leap_year y)) yday;
          sod = nat (secs mod 86400);
          off = zone t div 60;
          z = (if zone t = 0 then ''Z''
               else (if off < 0 then ''-'' else ''+'') @ pad_digits 2 (nat \<bar>off\<bar> div 60) @ '':'' @ pad_digits 2 (nat \<bar>off\<bar> mod 60))
      in pad_digits 4 (nat y) @ ''-'' @ pad_digits 2 (m + 1) @ ''-'' @ pad_digits 2 (nat d + 1) @ ''T''
         @ pad_digits 2 (sod div 3600) @ '':'' @ pad_digits 2 (sod div 60 mod 60) @ '':'' @ pad_digits 2 (sod mod 60)
         @ frac @ z)"

text \<open>The layouts \<open>time.RFC3339\<close> and \<open>time.RFC3339Nano\<close> (the one \<open>encoding/json\<close> writes).\<close>

definition format_rfc3339 :: "gotime \<Rightarrow> string" where
  "format_rfc3339 t = format_civil [] t"

definition format_rfc3339nano :: "gotime \<Rightarrow> string" where
  "format_rfc3339nano t = format_civil (frac_string 9 (nat (instant t mod Second))) t"

text \<open>The years that \<open>time.Time.MarshalJSON\<close> accepts, for a time in UTC.\<close>

definition four_digit_year :: "gotime \<Rightarrow> bool" where
  "four_digit_year t \<longleftrightarrow> 0 \<le> instant t \<and> instant t < days_before_year 10000 * 86400 * Second"

definition take_num :: "nat \<Rightarrow> string \<Rightarrow> (int \<times> string) option" where
  "take_num k s = (if k \<le> length s \<and> list_all is_digit (take k s)
                   then Some (digits_of (take k s), drop k s) else None)"

definition take_char :: "char \<Rightarrow> string \<Rightarrow> string option" where
  "take_char c s = (case s of [] \<Rightarrow> None | x # xs \<Rightarrow> if x = c then Some xs else None)"

definition take_frac :: "string \<Rightarrow> (int \<times> string) option" where
  "take_frac s = (case take_char (CHR ''.'') s of
       None \<Rightarrow> Some (0, s)
     | Some r \<Rightarrow> let ds = takeWhile is_digit r; n = take 9 ds
                 in if ds = [] then None else Some (digits_of n * 10 ^ (9 - length n), dropWhile is_digit r))"

definition take_zone :: "string \<Rightarrow> int option" where
  "take_zone s = (if s = ''Z'' then Some 0 else
     case s of [] \<Rightarrow> None
     | c # r \<Rightarrow> if c \<notin> {CHR ''+'', CHR ''-''} then None else
         Option.bind (take_num 2 r) (\<lambda>(h, r). Option.bind (take_char (CHR '':'') r) (\<lambda>r.
         Option.bind (take_num 2 r) (\<lambda>(m, r).
           if r \<noteq> [] \<or> 24 < h \<or> 60 \<le> m then None
           else Some ((if c = CHR ''-'' then -1 else 1) * (3600 * h + 60 * m))))))"

definition civil_time :: "int \<Rightarrow> int \<Rightarrow> int \<Rightarrow> int \<Rightarrow> int \<Rightarrow> int \<Rightarrow> int \<Rightarrow> int \<Rightarrow> gotime option" where
  "civil_time y m d hh mm ss nanos off =
     (let ls = month_lengths (leap_year y)
      in if m < 1 \<or> 12 < m \<or> d < 1 \<or> ls ! nat (m - 1) < d \<or> 24 \<le> hh \<or> 60 \<le> mm \<or> 60 \<le> ss then None
         else Some (GoTime (((days_before_year y + days_before_month ls (nat (m - 1)) + (d - 1)) * 86400
                             + 3600 * hh + 60 * mm + ss - off) * Second + nanos) off))"

definition parse_rfc3339 :: "string \<Rightarrow> gotime option" where
  "parse_rfc3339 s =
     Option.bind (take_num 4 s) (\<lambda>(y, s). Option.bind (take_char (CHR ''-'') s) (\<lambda>s.
     Option.bind (take_num 2 s) (\<lambda>(m, s). Option.bind (take_char (CHR ''-'') s) (\<lambda>s.
     Option.bind (take_num 2 s) (\<lambda>(d, s). Option.bind (take_char (CHR ''T'') s) (\<lambda>s.
     Option.bind (take_num 2 s) (\<lambda>(hh, s). Option.bind (take_char (CHR '':'') s) (\<lambda>s.
     Option.bind (take_num 2 s) (\<lambda>(mm, s). Option.bind (take_char (CHR '':'') s) (\<lambda>s.
     Option.bind (take_num 2 s) (\<lambda>(ss, s). Option.bind (take_frac s) (\<lambda>(nanos, s).
     Option.bind (take_zone s) (\<lambda>off. civil_time y m d hh mm ss nanos off)))))))))))))"

section \<open>The round trip of the timestamps the program writes\<close>

lemma is_digit_char [simp]: "n < 10 \<Longrightarrow> is_digit (digit_char n)"
  by (drule less_10_cases) (elim disjE; simp add: is_digit_def digit_char_def less_eq_char_def)

lemma length_pad_digits [simp]: "length (pad_digits k n) = k"
  by (induction k arbitrary: n) auto

lemma list_all_pad_digits [simp]: "list_all is_digit (pad_digits k n)"
  by (induction k arbitrary: n) auto

lemma digits_val_pad_digits: "n < 10 ^ k \<Longrightarrow> digits_val 0 (pad_digits k n) = Some n"
proof (induction k arbitrary: n)
  case 0
  then show ?case by simp
next
  case (Suc k)
  then have "digits_val 0 (pad_digits k (n div 10)) = Some (n div 10)"
    by (auto intro!: Suc.IH)
  then show ?case by (simp add: digits_val_append digit_val_char)
qed

lemma take_num_pad: "n < 10 ^ k \<Longrightarrow> take_num k (pad_digits k n @ r) = Some (int n, r)"
  by (simp add: take_num_def digits_of_def digits_val_pad_digits)

lemma take_char_Cons [simp]: "take_char c (c # r) = Some r"
  by (simp add: take_char_def)

lemma days_before_year_mono: "x \<le> y \<Longrightarrow> days_before_year x \<le> days_before_year y"
proof -
  assume "x \<le> y"
  then have q: "(x - 1) div 4 \<le> (y - 1) div 4" and c: "(x - 1) div 400 \<le> (y - 1) div 400"
    by (simp_all add: zdiv_mono1)
  have h: "z div 100 = z div 4 div 25" for z :: int
    by (simp add: zdiv_zmult2_eq [symmetric])
  have "(x - 1) div 4 - (x - 1) div 4 div 25 \<le> (y - 1) div 4 - (y - 1) div 4 div 25"
    using q by linarith
  moreover have "365 * (x - 1) \<le> 365 * (y - 1)" using \<open>x \<le> y\<close> by simp
  moreover have sums: "a \<le> a' \<Longrightarrow> b - b1 \<le> b' - b1' \<Longrightarrow> e \<le> e' \<Longrightarrow> a + b - b1 + e \<le> a' + b' - b1' + e'"
    for a a' b b' b1 b1' e e' :: int by linarith
  ultimately show ?thesis
    unfolding days_before_year_def h by (intro sums c)
qed

lemma days_before_year_of_days:
  assumes "year_of_days d = (y, yd)"
  shows "days_before_year y + yd = d \<and> 0 \<le> yd \<and> yd < (if leap_year y then 366 else 365)"
proof -
  define c r where "c = d div 146097" and "r = d mod 146097"
  define a where "a = min 3 (r div 36524)"
  define r1 where "r1 = r - a * 36524"
  define b r2 where "b = r1 div 1461" and "r2 = r1 mod 1461"
  define e where "e = min 3 (r2 div 365)"
  note defs = c_def r_def a_def r1_def b_def r2_def e_def
  have y: "y = 400 * c + 100 * a + 4 * b + e + 1" and yd: "yd = r2 - e * 365"
    using assms unfolding year_of_days_def Let_def defs by (simp_all only: prod.inject)
  have d: "d = 146097 * c + r" and r: "0 \<le> r" "r < 146097" by (simp_all add: c_def r_def)
  have a: "0 \<le> a" "a \<le> 3" using r by (auto simp: a_def)
  have r1: "0 \<le> r1" "a < 3 \<longrightarrow> r1 < 36524" "r1 < 36525" using r unfolding r1_def a_def by linarith+
  have b: "0 \<le> b" "b \<le> 24" "r1 = 1461 * b + r2" "0 \<le> r2" "r2 < 1461"
    using r1 unfolding b_def r2_def by simp_all
  have e: "0 \<le> e" "e \<le> 3" using b by (auto simp: e_def)
  have yd0: "0 \<le> yd" "yd \<le> 365" "e < 3 \<longrightarrow> yd < 365" using b unfolding yd e_def by linarith+
  have q4: "(400 * c + 100 * a + 4 * b + e) div 4 = 100 * c + 25 * a + b" using e by linarith
  have q100: "(400 * c + 100 * a + 4 * b + e) div 100 = 4 * c + a" using e b by linarith
  have q400: "(400 * c + 100 * a + 4 * b + e) div 400 = c" using e b a by linarith
  have "r = 36524 * a + 1461 * b + r2" using b(3) by (simp add: r1_def)
  then have "days_before_year y + yd = d"
    using q4 q100 q400 by (simp add: y days_before_year_def d yd)
  moreover have "yd < (if leap_year y then 366 else 365)"
  proof (cases "yd = 365")
    case True
    with yd0 e have e3: "e = 3" by linarith
    have "y mod 4 = 0" using e3 by (simp add: y)
    moreover have "b = 24 \<Longrightarrow> a = 3"
      using True e3 a b r1 unfolding yd by linarith
    moreover have "b \<noteq> 24 \<Longrightarrow> y mod 100 \<noteq> 0"
    proof -
      assume "b \<noteq> 24"
      have "y = 4 * (b + 1) + 100 * (4 * c + a)" using e3 by (simp add: y)
      then have "y mod 100 = 4 * (b + 1) mod 100" by (metis mod_mult_self2)
      with b \<open>b \<noteq> 24\<close> show "y mod 100 \<noteq> 0" by simp
    qed
    moreover have "b = 24 \<Longrightarrow> a = 3 \<Longrightarrow> y mod 400 = 0"
      using e3 by (simp add: y)
    ultimately have "leap_year y" by (cases "b = 24") (simp_all add: leap_year_def)
    with True show ?thesis by simp
  next
    case False
    with yd0 show ?thesis by auto
  qed
  ultimately show ?thesis using yd0 by simp
qed

lemma month_day_bounds:
  assumes "month_day ls d = (m, r)" and "0 \<le> d" and "d < sum_list ls"
  shows "m < length ls \<and> 0 \<le> r \<and> r < ls ! m \<and> days_before_month ls m + r = d"
  using assms
proof (induction ls d arbitrary: m r rule: month_day.induct)
  case (1 d)
  then show ?case by simp
next
  case (2 l ls d)
  then show ?case by (fastforce simp: Let_def split: if_splits prod.splits)
qed

lemma sum_month_lengths: "sum_list (month_lengths l) = (if l then 366 else 365)"
  by (simp add: month_lengths_def)

lemma month_length_le: "m < 12 \<Longrightarrow> month_lengths l ! m \<le> 31"
  by (auto simp: month_lengths_def nth_Cons' split: if_splits)

lemma seconds_of_day: "3600 * (n div 3600) + 60 * (n div 60 mod 60) + n mod 60 = (n::nat)"
proof -
  have "n div 3600 = n div 60 div 60" by (simp add: div_mult2_eq [symmetric])
  moreover have "60 * (n div 60 div 60) + n div 60 mod 60 = n div 60" by simp
  moreover have "60 * (n div 60) + n mod 60 = n" by simp
  ultimately show ?thesis by linarith
qed

lemma digits_val_zeros:
  "digits_val 0 xs = Some v \<Longrightarrow> digits_val 0 (xs @ replicate j (CHR ''0'')) = Some (v * 10 ^ j)"
proof (induction j)
  case 0
  then show ?case by simp
next
  case (Suc j)
  have zero: "digit_val (CHR ''0'') = Some 0" by (simp add: digit_val_def)
  have snoc: "xs @ replicate (Suc j) (CHR ''0'') = (xs @ replicate j (CHR ''0'')) @ [CHR ''0'']"
    by (simp only: replicate_Suc replicate_append_same [symmetric] append_assoc)
  have "digits_val 0 (xs @ replicate j (CHR ''0'')) = Some (v * 10 ^ j)" by (rule Suc.IH [OF Suc.prems])
  then show ?case
    unfolding snoc digits_val_append [of 0 "xs @ replicate j (CHR ''0'')"] by (simp add: zero)
qed

lemma digits_val_all_digits: "list_all is_digit s \<Longrightarrow> \<exists>v. digits_val acc s = Some v"
  by (induction s arbitrary: acc) (auto simp: digit_val_def is_digit_def)

lemma trim_right_replicate:
  "s = trim_right (\<lambda>x. x = c) s @ replicate (length s - length (trim_right (\<lambda>x. x = c) s)) c"
proof -
  have "rev s = takeWhile (\<lambda>x. x = c) (rev s) @ dropWhile (\<lambda>x. x = c) (rev s)" by simp
  moreover have "takeWhile (\<lambda>x. x = c) (rev s) = replicate (length (takeWhile (\<lambda>x. x = c) (rev s))) c"
    by (rule replicate_length_same [symmetric]) (auto dest: set_takeWhileD)
  ultimately have "s = rev (dropWhile (\<lambda>x. x = c) (rev s)) @ replicate (length (takeWhile (\<lambda>x. x = c) (rev s))) c"
    by (metis rev_append rev_replicate rev_rev_ident)
  then show ?thesis by (metis trim_right_def add_diff_cancel_left' length_append length_replicate)
qed

lemma take_frac_string:
  assumes "n < 10 ^ 9"
  shows "take_frac (frac_string 9 n @ ''Z'') = Some (int n, ''Z'')"
proof (cases "n = 0")
  case True
  then show ?thesis by (simp add: frac_string_def take_frac_def take_char_def)
next
  case False
  define p d where "p = pad_digits 9 n" and "d = trim_right (\<lambda>c. c = CHR ''0'') p"
  define j where "j = 9 - length d"
  have p: "p = d @ replicate j (CHR ''0'')"
    using trim_right_replicate [of p "CHR ''0''"] by (simp add: d_def j_def p_def)
  have digs: "list_all is_digit d"
    using list_all_pad_digits [of 9 n] p by (simp add: p_def [symmetric])
  then obtain v where v: "digits_val 0 d = Some v" using digits_val_all_digits by blast
  have "length d \<le> 9" using arg_cong [OF p, of length] by (simp add: p_def)
  have "v * 10 ^ j = n"
    using digits_val_zeros [OF v, of j] digits_val_pad_digits [OF assms] p by (simp add: p_def [symmetric])
  then have val: "digits_of d * 10 ^ (9 - length d) = int n"
    by (auto simp: digits_of_def v j_def [symmetric])
  have "d \<noteq> []" using False v \<open>v * 10 ^ j = n\<close> by auto
  have "is_digit (CHR ''Z'') = False" by (simp add: is_digit_def less_eq_char_def)
  with digs have tw: "takeWhile is_digit (d @ ''Z'') = d" "dropWhile is_digit (d @ ''Z'') = ''Z''"
    by (auto simp: list_all_iff takeWhile_append2 dropWhile_append2)
  show ?thesis
    using False \<open>d \<noteq> []\<close> \<open>length d \<le> 9\<close> val tw
    by (simp add: frac_string_def take_frac_def p_def [symmetric] d_def [symmetric])
qed

text \<open>
  A timestamp formatted in UTC with a four-digit year and a fraction of nanoseconds is read back
  as the same instant.
\<close>

lemma parse_format_civil:
  assumes year: "four_digit_year t" and n: "n < 10 ^ 9"
  shows "parse_rfc3339 (format_civil (frac_string 9 n) (UTC t)) = Some (GoTime (instant t div Second * Second + int n) 0)"
proof -
  define secs where "secs = instant t div Second"
  obtain y yd where yd: "year_of_days (secs div 86400) = (y, yd)" by (cases "year_of_days (secs div 86400)")
  obtain m r where mr: "month_day (month_lengths (leap_year y)) yd = (m, r)"
    by (cases "month_day (month_lengths (leap_year y)) yd")
  have secs: "0 \<le> secs" "secs < days_before_year 10000 * 86400"
    using year by (auto simp: four_digit_year_def secs_def Second_def days_before_year_def pos_imp_zdiv_nonneg_iff)
  note d = days_before_year_of_days [OF yd]
  note md = month_day_bounds [OF mr, unfolded sum_month_lengths]
  have m: "m < 12" "0 \<le> r" "r < month_lengths (leap_year y) ! m"
      "days_before_month (month_lengths (leap_year y)) m + r = yd"
    using md d by (simp_all add: month_lengths_def)
  then have "r < 31" using month_length_le [of m "leap_year y"] by linarith
  have "secs div 86400 < days_before_year 10000" using secs by (simp add: days_before_year_def)
  then have "y < 10000" using d days_before_year_mono [of 10000 y] by (auto simp: not_le [symmetric])
  moreover have "0 \<le> y"
  proof (rule ccontr)
    assume "\<not> 0 \<le> y"
    then have "days_before_year y \<le> days_before_year (-1)" by (intro days_before_year_mono) simp
    moreover have "days_before_year (-1) = -731" by (simp add: days_before_year_def)
    moreover have "0 \<le> secs div 86400" using secs(1) by (simp add: pos_imp_zdiv_nonneg_iff)
    moreover have "yd < 366" using d by (simp split: if_splits)
    moreover have "days_before_year y + yd = secs div 86400" using d by simp
    ultimately show False by linarith
  qed
  ultimately have y: "0 \<le> y" "y < 10000" by simp_all
  define sod where "sod = nat (secs mod 86400)"
  have sod: "sod < 86400" "int sod = secs mod 86400" by (simp_all add: sod_def nat_less_iff)
  have nums: "nat y < 10 ^ 4" "m + 1 < 10 ^ 2" "nat r + 1 < 10 ^ 2" "sod div 3600 < 10 ^ 2"
      "sod div 60 mod 60 < 10 ^ 2" "sod mod 60 < 10 ^ 2"
    using y m \<open>r < 31\<close> sod by auto
  have clock: "3600 * int (sod div 3600) + 60 * int (sod div 60 mod 60) + int (sod mod 60) = secs mod 86400"
    unfolding sod(2) [symmetric] using seconds_of_day [of sod] by linarith
  have day: "(days_before_year y + days_before_month (month_lengths (leap_year y)) m + r) * 86400
      + 3600 * int (sod div 3600) + 60 * int (sod div 60 mod 60) + int (sod mod 60) = secs"
  proof -
    have "days_before_year y + days_before_month (month_lengths (leap_year y)) m + r = secs div 86400"
      using d m(4) by linarith
    then show ?thesis using clock by (simp only: add.assoc) simp
  qed
  have "\<not> 24 \<le> int (sod div 3600)" "\<not> 60 \<le> int (sod div 60 mod 60)" "\<not> 60 \<le> int (sod mod 60)"
    using sod(1) by simp_all
  moreover have "\<not> month_lengths (leap_year y) ! m < r + 1" using m by simp
  ultimately have civil: "civil_time y (int m + 1) (r + 1) (int (sod div 3600)) (int (sod div 60 mod 60))
      (int (sod mod 60)) (int n) 0 = Some (GoTime (secs * Second + int n) 0)"
    using m(1,2) day unfolding civil_time_def Let_def by (simp only: nat_int add_diff_cancel_right') simp
  have fmt: "format_civil (frac_string 9 n) (UTC t) = pad_digits 4 (nat y) @ ''-'' @ pad_digits 2 (m + 1) @ ''-''
      @ pad_digits 2 (nat r + 1) @ ''T'' @ pad_digits 2 (sod div 3600) @ '':''
      @ pad_digits 2 (sod div 60 mod 60) @ '':'' @ pad_digits 2 (sod mod 60) @ frac_string 9 n @ ''Z''"
    using yd mr by (simp add: format_civil_def UTC_def secs_def sod_def Let_def)
  have comm: "1 + int m = int m + 1" "1 + r = r + 1" by simp_all
  have ints: "int (nat y) = y" "int (m + 1) = int m + 1" "int (nat r + 1) = r + 1"
    using y m by simp_all
  show ?thesis
    unfolding fmt parse_rfc3339_def
    using nums civil ints take_frac_string [OF n]
    by (simp add: take_num_pad take_zone_def take_char_def secs_def comm)
qed

corollary parse_format_rfc3339:
  "four_digit_year t \<Longrightarrow> parse_rfc3339 (format_rfc3339 (UTC t)) = Some (GoTime (instant t div Second * Second) 0)"
  using parse_format_civil [of t 0] by (simp add: format_rfc3339_def frac_string_def)

corollary parse_format_rfc3339nano:
  assumes "four_digit_year t"
  shows "parse_rfc3339 (format_rfc3339nano (UTC t)) = Some (UTC t)"
proof -
  have n: "nat (instant t mod Second) < 10 ^ 9" by (simp add: Second_def nat_less_iff)
  have "int (nat (instant t mod Second)) = instant t mod Second" by (simp add: Second_def)
  with parse_format_civil [OF assms n] show ?thesis
    by (simp add: format_rfc3339nano_def UTC_def)
qed

section \<open>Durations print and parse back\<close>

lemma list_all_nat_digits [simp]: "list_all is_digit (nat_digits n)"
proof (induction n rule: nat_digits.induct)
  case (1 n)
  then show ?case by (subst nat_digits.simps) simp
qed

lemma takeWhile_all_then:
  "list_all p xs \<Longrightarrow> ys = [] \<or> \<not> p (hd ys) \<Longrightarrow> takeWhile p (xs @ ys) = xs \<and> dropWhile p (xs @ ys) = ys"
  by (induction xs) (cases ys; auto)+

lemma frac_string_digits:
  assumes "0 < v" and "v < 10 ^ m"
  shows "\<exists>d. frac_string m v = CHR ''.'' # d \<and> list_all is_digit d \<and> d \<noteq> [] \<and> digits_of d * 10 ^ m div 10 ^ length d = int v"
proof -
  define p d where "p = pad_digits m v" and "d = trim_right (\<lambda>c. c = CHR ''0'') p"
  obtain j where p: "p = d @ replicate j (CHR ''0'')" using trim_right_replicate d_def by blast
  have all: "list_all is_digit d" using list_all_pad_digits [of m v] p by (simp add: p_def [symmetric])
  then obtain w where w: "digits_val 0 d = Some w" using digits_val_all_digits by blast
  have v: "w * 10 ^ j = v"
    using digits_val_zeros [OF w, of j] digits_val_pad_digits [OF assms(2)] p by (simp add: p_def [symmetric])
  have m: "m = length d + j" using length_pad_digits [of m v] p by (simp add: p_def [symmetric])
  have "digits_of d * 10 ^ m div 10 ^ length d = int v"
    by (simp add: digits_of_def w m power_add flip: v)
  moreover have "d \<noteq> []" using w v assms(1) by auto
  ultimately show ?thesis using all assms(1) by (auto simp: frac_string_def p_def [symmetric] d_def [symmetric])
qed

text \<open>One component: a number, a fraction of a decimal unit, and the unit.\<close>

lemma parse_component_string:
  assumes "v < 10 ^ m" and "v = 0 \<or> k = 10 ^ m" and "duration_unit unit = Some k" and "list_all unit_char unit" and "unit \<noteq> []"
    and "rest = [] \<or> is_digit (hd rest)" and "int n \<le> 2 ^ 63" and "int n * k + int v \<le> 2 ^ 63"
  shows "parse_component (nat_digits n @ frac_string m v @ unit @ rest) = Some (int n * k + int v, rest)"
proof -
  have u: "\<not> is_digit (hd (unit @ rest))" "hd (unit @ rest) \<noteq> CHR ''.''" "unit @ rest \<noteq> []"
    using assms(4,5) by (cases unit; simp add: unit_char_def)+
  have r: "rest = [] \<or> \<not> unit_char (hd rest)" using assms(6) by (auto simp: unit_char_def)
  have dot: "\<not> is_digit CHR ''.''" by code_simp
  have n: "digits_of (nat_digits n) = int n" by (simp add: digits_of_def digits_val_nat_digits)
  note tw = takeWhile_all_then [of is_digit "nat_digits n"] takeWhile_all_then [OF assms(4) r]
  show ?thesis
  proof (cases "v = 0")
    case True
    with u tw(1) [of "unit @ rest"] tw(2) n assms(3,5,7,8) show ?thesis
      by (simp add: parse_component_def frac_string_def Let_def digits_of_def)
  next
    case False
    then obtain d where d: "frac_string m v = CHR ''.'' # d" "list_all is_digit d" "d \<noteq> []" "digits_of d * 10 ^ m div 10 ^ length d = int v"
      using frac_string_digits assms(1) by blast
    with False u tw(1) [of "CHR ''.'' # d @ unit @ rest"] tw(2) takeWhile_all_then [OF d(2), of "unit @ rest"] n dot assms(2,3,5,7,8)
    show ?thesis by (simp add: parse_component_def Let_def)
  qed
qed

lemma parse_components_string:
  assumes "v < 10 ^ m" and "v = 0 \<or> k = 10 ^ m" and "duration_unit unit = Some k" and "list_all unit_char unit" and "unit \<noteq> []"
    and "rest = [] \<or> is_digit (hd rest)" and "1 \<le> k" and "0 \<le> acc" and "acc + (int n * k + int v) \<le> 2 ^ 63"
  shows "parse_components acc (nat_digits n @ frac_string m v @ unit @ rest) = parse_components (acc + (int n * k + int v)) rest"
proof -
  have "int n * 1 \<le> int n * k" by (rule mult_left_mono) (use assms(7) in simp_all)
  then have "int n \<le> 2 ^ 63" "int n * k + int v \<le> 2 ^ 63" using assms(8,9) by linarith+
  from parse_component_string [OF assms(1-6) this] assms(9) show ?thesis
    by (subst parse_components.simps) simp
qed

lemma duration_units:
  "duration_unit ''ns'' = Some 1" "duration_unit ([CHR 0xC2, CHR 0xB5] @ ''s'') = Some 1000" "duration_unit ''ms'' = Some 1000000"
  "duration_unit ''s'' = Some 1000000000" "duration_unit ''m'' = Some 60000000000" "duration_unit ''h'' = Some 3600000000000"
  by (simp_all add: duration_unit_def)

lemma unit_chars:
  "list_all unit_char ''ns''" "list_all unit_char ([CHR 0xC2, CHR 0xB5] @ ''s'')" "list_all unit_char ''ms''"
  "list_all unit_char ''s''" "list_all unit_char ''m''" "list_all unit_char ''h''"
  by code_simp+


lemma no_fraction: "frac_string m 0 = []"
  by (simp add: frac_string_def)

lemma hd_digits [simp]: "is_digit (hd (nat_digits n))" "is_digit (hd (nat_digits n @ x))"
  using list_all_nat_digits [of n] nat_digits_nonempty [of n] by (cases "nat_digits n"; auto)+

lemma component_plain:
  assumes "duration_unit unit = Some k" and "list_all unit_char unit" and "unit \<noteq> []" and "rest = [] \<or> is_digit (hd rest)"
    and "1 \<le> k" and "0 \<le> acc" and "acc + int n * k \<le> 2 ^ 63"
  shows "parse_components acc (nat_digits n @ unit @ rest) = parse_components (acc + int n * k) rest"
  using parse_components_string [of 0 0 k unit rest acc n] assms by (simp add: no_fraction)

lemma of_nat_div_mod: "int (u div k) * int k + int (u mod k) = int u"
  by (metis div_mult_mod_eq of_nat_add of_nat_mult)

lemma seconds_string:
  assumes "0 \<le> acc" and "acc + int u \<le> 2 ^ 63"
  shows "parse_components acc (nat_digits (u div 1000000000) @ frac_string 9 (u mod 1000000000) @ ''s'') = Some (acc + int u)"
proof -
  have "int (u div 1000000000) * 1000000000 + int (u mod 1000000000) = int u" using of_nat_div_mod [of u 1000000000] by simp
  then show ?thesis
    using parse_components_string [of "u mod 1000000000" 9 1000000000 "''s''" "[]" acc "u div 1000000000"] assms duration_units(4) unit_chars(4)
    by (simp add: parse_components.simps [of _ "[]"])
qed

text \<open>A whole duration: hours, minutes and seconds, or one of the smaller units.\<close>

lemma parse_clock:
  fixes u :: nat
  defines "secs \<equiv> u div 1000000000"
  assumes "int u \<le> 2 ^ 63"
  shows "parse_components 0 ((if 3600 \<le> secs then nat_digits (secs div 3600) @ ''h'' else [])
      @ (if 60 \<le> secs then nat_digits (secs div 60 mod 60) @ ''m'' else [])
      @ nat_digits (secs mod 60) @ frac_string 9 (u mod 1000000000) @ ''s'') = Some (int u)"
proof -
  define h m r where "h = secs div 3600" and "m = secs div 60 mod 60" and "r = (secs mod 60) * 1000000000 + u mod 1000000000"
  have r: "r div 1000000000 = secs mod 60" "r mod 1000000000 = u mod 1000000000" by (simp_all add: r_def)
  have "secs = 3600 * h + 60 * m + secs mod 60" using seconds_of_day [of secs] by (simp add: h_def m_def)
  then have "u = (3600 * h + 60 * m + secs mod 60) * 1000000000 + u mod 1000000000" unfolding secs_def by (metis div_mult_mod_eq)
  then have u: "int u = int h * 3600000000000 + int m * 60000000000 + int r" by (simp add: r_def algebra_simps)
  note s = seconds_string [of _ r, unfolded r]
  have mm: "parse_components acc (nat_digits m @ ''m'' @ nat_digits (secs mod 60) @ frac_string 9 (u mod 1000000000) @ ''s'')
      = Some (acc + int m * 60000000000 + int r)" if "0 \<le> acc" "acc + int m * 60000000000 + int r \<le> 2 ^ 63" for acc
    using component_plain [OF duration_units(5) unit_chars(5), of "nat_digits (secs mod 60) @ frac_string 9 (u mod 1000000000) @ ''s''" acc m]
      s [of "acc + int m * 60000000000"] that by simp
  have hh: "parse_components 0 (nat_digits h @ ''h'' @ nat_digits m @ ''m'' @ nat_digits (secs mod 60) @ frac_string 9 (u mod 1000000000) @ ''s'')
      = Some (int u)"
    using component_plain [OF duration_units(6) unit_chars(6), of "nat_digits m @ ''m'' @ nat_digits (secs mod 60) @ frac_string 9 (u mod 1000000000) @ ''s''" 0 h]
      mm [of "int h * 3600000000000"] u assms(2) by simp
  consider "3600 \<le> secs" | "secs < 3600" "60 \<le> secs" "h = 0" | "secs < 60" "h = 0" "m = 0" by (cases "3600 \<le> secs"; cases "60 \<le> secs") (auto simp: h_def m_def)
  then show ?thesis
  proof cases
    case 1
    with hh show ?thesis by (simp add: h_def m_def)
  next
    case 2
    with mm [of 0] u assms(2) show ?thesis by (simp add: m_def)
  next
    case 3
    with s [of 0] u assms(2) show ?thesis by simp
  qed
qed

lemma parse_duration_string:
  assumes "0 < d" and "d \<le> max_int64"
  shows "ParseDuration (duration_string d) = Some d"
proof -
  define u where "u = nat d"
  define body where "body = (if u < 1000 then nat_digits u @ ''ns''
             else if u < 1000000 then nat_digits (u div 1000) @ frac_string 3 (u mod 1000) @ [CHR 0xC2, CHR 0xB5] @ ''s''
             else if u < 1000000000 then nat_digits (u div 1000000) @ frac_string 6 (u mod 1000000) @ ''ms''
             else (if 3600 \<le> u div 1000000000 then nat_digits (u div 1000000000 div 3600) @ ''h'' else [])
               @ (if 60 \<le> u div 1000000000 then nat_digits (u div 1000000000 div 60 mod 60) @ ''m'' else [])
               @ nat_digits (u div 1000000000 mod 60) @ frac_string 9 (u mod 1000000000) @ ''s'')"
  have u: "int u = d" "int u \<le> 2 ^ 63" using assms by (simp_all add: u_def max_int64_def)
  have str: "duration_string d = body" using assms(1) by (simp add: duration_string_def body_def u_def Let_def)
  have "parse_components 0 body = Some (int u)"
  proof -
    consider "u < 1000" | "1000 \<le> u" "u < 1000000" | "1000000 \<le> u" "u < 1000000000" | "1000000000 \<le> u" by linarith
    then show ?thesis
    proof cases
      case 1
      then show ?thesis using component_plain [OF duration_units(1) unit_chars(1), of "[]" 0 u] u
        by (simp add: body_def parse_components.simps [of _ "[]"])
    next
      case 2
      have "int (u div 1000) * 1000 + int (u mod 1000) = int u" using of_nat_div_mod [of u 1000] by simp
      with 2 show ?thesis
        using parse_components_string [of "u mod 1000" 3 1000 "[CHR 0xC2, CHR 0xB5] @ ''s''" "[]" 0 "u div 1000", OF _ _ duration_units(2) unit_chars(2)] u
        by (simp add: body_def parse_components.simps [of _ "[]"])
    next
      case 3
      have "int (u div 1000000) * 1000000 + int (u mod 1000000) = int u" using of_nat_div_mod [of u 1000000] by simp
      with 3 show ?thesis
        using parse_components_string [of "u mod 1000000" 6 1000000 "''ms''" "[]" 0 "u div 1000000", OF _ _ duration_units(3) unit_chars(3)] u
        by (simp add: body_def parse_components.simps [of _ "[]"])
    next
      case 4
      then show ?thesis using parse_clock [OF u(2)] by (simp add: body_def)
    qed
  qed
  moreover have "is_digit (hd body) \<and> body \<noteq> []" by (simp add: body_def)
  then have "hd body \<notin> {CHR ''-'', CHR ''+''}" "body \<noteq> []" by (auto simp: is_digit_def less_eq_char_def)
  moreover have "last body = CHR ''s''" by (simp add: body_def)
  then have "body \<noteq> ''0''" by auto
  ultimately show ?thesis unfolding str ParseDuration_def Let_def using u assms by simp
qed

end
