(* ===== verification/Core_Bus.thy ===== *)
theory Core_Bus
  imports Go_Time
begin

text \<open>
  Package \<open>internal/core\<close>, first part: the status vocabulary (\<open>status.go\<close>), the events and the
  event bus (\<open>event.go\<close>). A subscriber's channel is its list of buffered events, at most
  \<open>subscriberBuffer\<close> long; publishing appends to it or counts a drop, and never waits.
\<close>

section \<open>EVSE status (status.go)\<close>

text \<open>\<open>NoStatus\<close> is the empty string, the zero value of the Go type.\<close>

datatype EVSEStatus = StatusAvailable | StatusBlocked | StatusCharging | StatusInoperative
  | StatusOutOfOrder | StatusPlanned | StatusRemoved | StatusReserved | StatusUnknown | NoStatus

definition status_string :: "EVSEStatus \<Rightarrow> string" where
  "status_string s = (case s of StatusAvailable \<Rightarrow> ''AVAILABLE'' | StatusBlocked \<Rightarrow> ''BLOCKED''
     | StatusCharging \<Rightarrow> ''CHARGING'' | StatusInoperative \<Rightarrow> ''INOPERATIVE'' | StatusOutOfOrder \<Rightarrow> ''OUTOFORDER''
     | StatusPlanned \<Rightarrow> ''PLANNED'' | StatusRemoved \<Rightarrow> ''REMOVED'' | StatusReserved \<Rightarrow> ''RESERVED''
     | StatusUnknown \<Rightarrow> ''UNKNOWN'' | NoStatus \<Rightarrow> [])"

definition effectiveStatus :: "bool \<Rightarrow> EVSEStatus \<Rightarrow> EVSEStatus \<Rightarrow> EVSEStatus" where
  "effectiveStatus online station connector =
     (if \<not> online then StatusUnknown
      else if station = StatusOutOfOrder \<or> station = StatusInoperative then station
      else if connector = NoStatus then StatusUnknown
      else connector)"

lemma effectiveStatus_never_empty: "effectiveStatus on st c \<noteq> NoStatus"
  by (auto simp: effectiveStatus_def)

section \<open>Events (event.go)\<close>

datatype EventKind = EventChargePointConnected | EventChargePointDisconnected | EventBootNotified
  | EventHeartbeat | EventStationStatusChanged | EventEVSEStatusChanged | EventTransactionStarted
  | EventTransactionStopped | EventMeterValues | EventReservationCreated | EventReservationEnded

record Event =
  ev_Kind :: EventKind
  ev_At :: gotime
  ev_ChargePointID :: string
  ev_EVSEUID :: string
  ev_From :: EVSEStatus
  ev_To :: EVSEStatus
  ev_ErrorCode :: string
  ev_TransactionID :: string
  ev_ReservationID :: int
  ev_IDTag :: string
  ev_Detail :: string

text \<open>An event with every field that a literal does not name at its zero value.\<close>

definition mkEvent :: "EventKind \<Rightarrow> gotime \<Rightarrow> string \<Rightarrow> Event" where
  "mkEvent k at cp = \<lparr>ev_Kind = k, ev_At = at, ev_ChargePointID = cp, ev_EVSEUID = [], ev_From = NoStatus,
     ev_To = NoStatus, ev_ErrorCode = [], ev_TransactionID = [], ev_ReservationID = 0, ev_IDTag = [],
     ev_Detail = []\<rparr>"

definition arrow :: string where
  "arrow = [CHR 0xE2, CHR 0x86, CHR 0x92]"

definition Event_String :: "Event \<Rightarrow> string" where
  "Event_String e = (case ev_Kind e of
       EventEVSEStatusChanged \<Rightarrow>
         ev_EVSEUID e @ '' '' @ status_string (ev_From e) @ arrow @ status_string (ev_To e)
         @ (if ev_ErrorCode e \<noteq> [] \<and> ev_ErrorCode e \<noteq> ''NoError'' then '' ('' @ ev_ErrorCode e @ '')'' else [])
     | EventStationStatusChanged \<Rightarrow>
         ev_ChargePointID e @ '' station '' @ status_string (ev_From e) @ arrow @ status_string (ev_To e)
     | EventChargePointConnected \<Rightarrow> ev_ChargePointID e @ '' connected''
     | EventChargePointDisconnected \<Rightarrow>
         ev_ChargePointID e @ '' disconnected'' @ (if ev_Detail e \<noteq> [] then '': '' @ ev_Detail e else [])
     | EventBootNotified \<Rightarrow> ev_ChargePointID e @ '' booted ('' @ ev_Detail e @ '')''
     | EventHeartbeat \<Rightarrow> ev_ChargePointID e @ '' heartbeat''
     | EventTransactionStarted \<Rightarrow>
         ev_ChargePointID e @ '' transaction '' @ ev_TransactionID e @ '' started on '' @ ev_EVSEUID e
         @ '' (tag '' @ ev_IDTag e @ '')''
     | EventTransactionStopped \<Rightarrow> ev_ChargePointID e @ '' transaction '' @ ev_TransactionID e @ '' stopped''
     | EventReservationCreated \<Rightarrow>
         ev_EVSEUID e @ '' reserved for tag '' @ ev_IDTag e @ '' until '' @ ev_Detail e
         @ '' (reservation '' @ Itoa (ev_ReservationID e) @ '')''
     | EventReservationEnded \<Rightarrow>
         ev_EVSEUID e @ '' reservation '' @ Itoa (ev_ReservationID e) @ '' ended: '' @ ev_Detail e
     | EventMeterValues \<Rightarrow> ev_EVSEUID e @ '' meter values: '' @ ev_Detail e)"

section \<open>The bus (event.go)\<close>

definition subscriberBuffer :: nat where
  "subscriberBuffer = 256"

record subscriber =
  sub_name :: string
  sub_ch :: "Event list"
  sub_drops :: int

text \<open>
  Subscribers are pointers in Go; here each has a handle, the number of its allocation. A
  cancelled subscriber leaves the bus and its channel is closed: what is still buffered can be
  read, nothing more is sent.
\<close>

record bus =
  b_subs :: "(nat \<times> subscriber) list"
  b_closed :: "(nat \<times> subscriber) list"
  b_next :: nat

definition newBus :: bus where
  "newBus = \<lparr>b_subs = [], b_closed = [], b_next = 0\<rparr>"

definition Subscribe :: "string \<Rightarrow> bus \<Rightarrow> bus \<times> nat" where
  "Subscribe name b =
     (b\<lparr>b_subs := m_put (b_next b) \<lparr>sub_name = name, sub_ch = [], sub_drops = 0\<rparr> (b_subs b),
        b_next := Suc (b_next b)\<rparr>, b_next b)"

text \<open>The function \<open>Subscribe\<close> returns; \<open>once\<close> makes a second call do nothing.\<close>

definition bus_cancel :: "nat \<Rightarrow> bus \<Rightarrow> bus" where
  "bus_cancel h b = (case map_of (b_subs b) h of
       None \<Rightarrow> b
     | Some s \<Rightarrow> b\<lparr>b_subs := m_del h (b_subs b), b_closed := m_put h s (b_closed b)\<rparr>)"

definition offer :: "Event \<Rightarrow> subscriber \<Rightarrow> subscriber" where
  "offer e s = (if length (sub_ch s) < subscriberBuffer then s\<lparr>sub_ch := sub_ch s @ [e]\<rparr>
                else s\<lparr>sub_drops := uwrap64 (sub_drops s + 1)\<rparr>)"

definition bus_publish :: "Event \<Rightarrow> bus \<Rightarrow> bus" where
  "bus_publish e b = b\<lparr>b_subs := map (\<lambda>(h, s). (h, offer e s)) (b_subs b)\<rparr>"

definition publishAll :: "Event list \<Rightarrow> bus \<Rightarrow> bus" where
  "publishAll es b = fold bus_publish es b"

text \<open>A consumer receives from its channel.\<close>

definition bus_receive :: "nat \<Rightarrow> bus \<Rightarrow> bus \<times> Event option" where
  "bus_receive h b = (case map_of (b_subs b) h of
       None \<Rightarrow> (b, None)
     | Some s \<Rightarrow> (case sub_ch s of
           [] \<Rightarrow> (b, None)
         | e # es \<Rightarrow> (b\<lparr>b_subs := m_put h (s\<lparr>sub_ch := es\<rparr>) (b_subs b)\<rparr>, Some e)))"

definition bus_Drops :: "bus \<Rightarrow> (string \<times> int) list" where
  "bus_Drops b = fold (\<lambda>(h, s) out. if 0 < sub_drops s then m_put (sub_name s) (sub_drops s) out else out)
                   (b_subs b) []"

section \<open>What a subscriber sees\<close>

definition bus_inv :: "bus \<Rightarrow> bool" where
  [inv_defs]: "bus_inv b \<longleftrightarrow> distinct (m_keys (b_subs b)) \<and> (\<forall>h \<in> set (m_keys (b_subs b)). h < b_next b)
     \<and> (\<forall>s \<in> set (m_vals (b_subs b)). length (sub_ch s) \<le> subscriberBuffer)"

lemma keys_publish [simp]: "m_keys (b_subs (bus_publish e b)) = m_keys (b_subs b)"
  by (induction "b_subs b") (auto simp: bus_publish_def)

lemma map_of_publish [simp]: "map_of (b_subs (bus_publish e b)) h = map_option (offer e) (map_of (b_subs b) h)"
  by (simp add: bus_publish_def map_of_map)

lemma offer_bound: "length (sub_ch s) \<le> subscriberBuffer \<Longrightarrow> length (sub_ch (offer e s)) \<le> subscriberBuffer"
  by (simp add: offer_def)

lemma newBus_inv [inv_intros]: "bus_inv newBus"
  by (simp add: newBus_def bus_inv_def)

lemma publish_inv [inv_intros]: "bus_inv b \<Longrightarrow> bus_inv (bus_publish e b)"
  unfolding bus_inv_def keys_publish
  by (fastforce simp: bus_publish_def intro: offer_bound)

lemma publishAll_inv [inv_intros]: "bus_inv b \<Longrightarrow> bus_inv (publishAll es b)"
  unfolding publishAll_def by (induction es arbitrary: b) (auto intro: publish_inv)

lemma in_vals_put: "s \<in> set (m_vals (m_put k v m)) \<Longrightarrow> s = v \<or> s \<in> set (m_vals m)"
  by (induction m) (auto split: if_splits)

lemma in_vals_del: "s \<in> set (m_vals (m_del k m)) \<Longrightarrow> s \<in> set (m_vals m)"
  by (auto simp: AList.delete_eq)

lemma Subscribe_inv [inv_intros]: "bus_inv b \<Longrightarrow> bus_inv (fst (Subscribe n b))"
  by (auto simp: Subscribe_def bus_inv_def keys_put less_SucI simp del: set_map dest!: in_vals_put)

lemma cancel_inv [inv_intros]: "bus_inv b \<Longrightarrow> bus_inv (bus_cancel h b)"
  by (auto simp: bus_cancel_def bus_inv_def keys_del simp del: set_map dest!: in_vals_del split: option.splits)

text \<open>
  One subscriber's history: the events published since it subscribed, what it received, what is
  buffered and how many it lost.
\<close>

datatype bus_action = Publish Event | Receive

fun sub_run :: "subscriber \<Rightarrow> bus_action list \<Rightarrow> subscriber \<times> Event list" where
  "sub_run s [] = (s, [])"
| "sub_run s (Publish e # as) = sub_run (offer e s) as"
| "sub_run s (Receive # as) = (case sub_ch s of
       [] \<Rightarrow> sub_run s as
     | e # es \<Rightarrow> let (s', got) = sub_run (s\<lparr>sub_ch := es\<rparr>) as in (s', e # got))"

fun published :: "bus_action list \<Rightarrow> Event list" where
  "published [] = []"
| "published (Publish e # as) = e # published as"
| "published (Receive # as) = published as"

lemma sub_run_history:
  assumes "sub_run s as = (s', got)"
  shows "\<exists>kept. subseq kept (published as) \<and> sub_ch s @ kept = got @ sub_ch s'
    \<and> (0 \<le> sub_drops s \<and> sub_drops s + int (length (published as)) < 2 ^ 64 \<longrightarrow>
         int (length (published as)) = int (length kept) + (sub_drops s' - sub_drops s))"
  using assms
proof (induction s as arbitrary: s' got rule: sub_run.induct)
  case (1 s)
  then show ?case by auto
next
  case (2 s e as)
  then obtain kept where k: "subseq kept (published as)" "sub_ch (offer e s) @ kept = got @ sub_ch s'"
      "0 \<le> sub_drops (offer e s) \<and> sub_drops (offer e s) + int (length (published as)) < 2 ^ 64 \<longrightarrow>
         int (length (published as)) = int (length kept) + (sub_drops s' - sub_drops (offer e s))"
    by auto
  show ?case
  proof (cases "length (sub_ch s) < subscriberBuffer")
    case True
    then show ?thesis using k by (intro exI [of _ "e # kept"]) (auto simp: offer_def)
  next
    case False
    then show ?thesis using k
      by (intro exI [of _ kept]) (auto simp: offer_def uwrap64_def list_emb_Cons)
  qed
next
  case (3 s as)
  then show ?case
  proof (cases "sub_ch s")
    case Nil
    with 3 show ?thesis by simp
  next
    case (Cons e es)
    with "3.prems" obtain got' where g: "sub_run (s\<lparr>sub_ch := es\<rparr>) as = (s', got')" "got = e # got'"
      by (auto split: prod.splits)
    from "3.IH"(2) [OF Cons g(1)] g(2) Cons show ?thesis by auto
  qed
qed

lemma sub_run_bound: "length (sub_ch s) \<le> subscriberBuffer \<Longrightarrow> length (sub_ch (fst (sub_run s as))) \<le> subscriberBuffer"
  by (induction s as rule: sub_run.induct)
     (auto simp: offer_bound split: list.splits prod.splits)

text \<open>The same history on the bus, with one consumer reading from its handle.\<close>

fun bus_run :: "nat \<Rightarrow> bus_action list \<Rightarrow> bus \<Rightarrow> bus \<times> Event list" where
  "bus_run h [] b = (b, [])"
| "bus_run h (Publish e # as) b = bus_run h as (bus_publish e b)"
| "bus_run h (Receive # as) b =
     (let (b1, r) = bus_receive h b; (b2, got) = bus_run h as b1
      in (b2, (case r of None \<Rightarrow> got | Some e \<Rightarrow> e # got)))"

lemma bus_run_sub_run:
  assumes "map_of (b_subs b) h = Some s"
  shows "map_of (b_subs (fst (bus_run h as b))) h = Some (fst (sub_run s as))
    \<and> snd (bus_run h as b) = snd (sub_run s as)"
  using assms
proof (induction as arbitrary: b s)
  case Nil
  then show ?case by simp
next
  case (Cons a as)
  show ?case
  proof (cases a)
    case (Publish e)
    with Cons.prems Cons.IH [of "bus_publish e b" "offer e s"] show ?thesis by simp
  next
    case Receive
    show ?thesis
    proof (cases "sub_ch s")
      case Nil
      with Receive Cons.prems Cons.IH [of b s] show ?thesis
        by (auto simp: bus_receive_def split: prod.splits)
    next
      case (Cons e es)
      with Receive Cons.prems Cons.IH [of "b\<lparr>b_subs := m_put h (s\<lparr>sub_ch := es\<rparr>) (b_subs b)\<rparr>" "s\<lparr>sub_ch := es\<rparr>"]
      show ?thesis by (auto simp: bus_receive_def split: prod.splits)
    qed
  qed
qed

end
