(* ===== verification/Config.thy ===== *)
theory Config
  imports Go_Time
begin

text \<open>
  The configuration file as the rest of the program sees it
  (\<open>internal/config/config.go\<close>, \<open>duration.go\<close> and the normalisation of \<open>load.go\<close>): the
  records, the defaults, the trimming that runs before validation, and the two lookups that link
  the OCPI uid of an EVSE with its OCPP connector id.
\<close>

section \<open>Durations as written by the operator (duration.go)\<close>

record Duration =
  dur_raw :: string
  dur_dur :: duration

definition NewDuration :: "duration \<Rightarrow> Duration" where
  "NewDuration d = \<lparr>dur_raw = duration_string d, dur_dur = d\<rparr>"

definition dur_unset :: "Duration \<Rightarrow> bool" where
  "dur_unset d \<longleftrightarrow> dur_raw d = []"

definition dur_setDefault :: "duration \<Rightarrow> Duration \<Rightarrow> Duration" where
  "dur_setDefault v d = d\<lparr>dur_raw := duration_string v, dur_dur := v\<rparr>"

text \<open>\<open>Duration.parse\<close>: \<open>None\<close> is the parse error, which leaves the value as it was.\<close>

definition dur_parse :: "Duration \<Rightarrow> Duration option" where
  "dur_parse d = (case ParseDuration (dur_raw d) of None \<Rightarrow> None | Some v \<Rightarrow> Some (d\<lparr>dur_dur := v\<rparr>))"

section \<open>The configuration (config.go)\<close>

record Charger =
  ch_ID :: string
  ch_IP :: string
  ch_OCPPVersion :: string
  ch_HeartbeatInterval :: Duration
  ch_HeartbeatTimeout :: Duration
  ch_CallTimeout :: Duration

record Listeners =
  ls_OCPPBind :: string
  ls_OCPIBind :: string

record Auth =
  au_DefaultIDTag :: string

record Push =
  pu_Debounce :: Duration
  pu_MaxRetries :: int

record OCPI =
  oc_CountryCode :: string
  oc_PartyID :: string
  oc_PublicBaseURL :: string
  oc_TokenA :: string
  oc_TokenC :: string
  oc_Push :: Push

record Coordinates =
  co_Latitude :: string
  co_Longitude :: string

record Connector =
  cn_ID :: string
  cn_Standard :: string
  cn_Format :: string
  cn_PowerType :: string
  cn_MaxVoltage :: int
  cn_MaxAmperage :: int
  cn_MaxElectricPower :: int

record EVSE =
  e_UID :: string
  e_EVSEID :: string
  e_OCPPConnectorID :: int
  e_Connectors :: "Connector list"

record Location =
  lo_ID :: string
  lo_Name :: string
  lo_Address :: string
  lo_City :: string
  lo_PostalCode :: string
  lo_Country :: string
  lo_Coordinates :: Coordinates
  lo_EVSEs :: "EVSE list"

record Config =
  cfg_Charger :: Charger
  cfg_Server :: Listeners
  cfg_Auth :: Auth
  cfg_OCPI :: OCPI
  cfg_Location :: Location

definition DefaultOCPPVersion :: string where "DefaultOCPPVersion = ''1.6''"
definition DefaultHeartbeatInterval :: duration where "DefaultHeartbeatInterval = 60 * Second"
definition DefaultHeartbeatTimeout :: duration where "DefaultHeartbeatTimeout = 90 * Second"
definition DefaultCallTimeout :: duration where "DefaultCallTimeout = 30 * Second"
definition DefaultOCPPBind :: string where "DefaultOCPPBind = ''0.0.0.0:9000''"
definition DefaultOCPIBind :: string where "DefaultOCPIBind = ''0.0.0.0:8080''"
definition DefaultPushDebounce :: duration where "DefaultPushDebounce = 500 * 1000000"
definition DefaultPushMaxRetries :: int where "DefaultPushMaxRetries = 5"

abbreviation cfg_EVSEs :: "Config \<Rightarrow> EVSE list" where
  "cfg_EVSEs c \<equiv> lo_EVSEs (cfg_Location c)"

definition EVSEByUID :: "Config \<Rightarrow> string \<Rightarrow> EVSE option" where
  "EVSEByUID c uid = List.find (\<lambda>e. e_UID e = uid) (cfg_EVSEs c)"

definition EVSEByConnectorID :: "Config \<Rightarrow> int \<Rightarrow> EVSE option" where
  "EVSEByConnectorID c cid = List.find (\<lambda>e. e_OCPPConnectorID e = cid) (cfg_EVSEs c)"

definition default_dur :: "duration \<Rightarrow> Duration \<Rightarrow> Duration" where
  "default_dur v d = (if dur_unset d then dur_setDefault v d else d)"

definition default_str :: "string \<Rightarrow> string \<Rightarrow> string" where
  "default_str v s = (if s = [] then v else s)"

definition applyDefaults :: "Config \<Rightarrow> Config" where
  "applyDefaults c =
     (let ch = cfg_Charger c; sv = cfg_Server c; oc = cfg_OCPI c; p = oc_Push oc
      in c\<lparr>cfg_Charger := ch\<lparr>ch_OCPPVersion := default_str DefaultOCPPVersion (ch_OCPPVersion ch),
                            ch_HeartbeatInterval := default_dur DefaultHeartbeatInterval (ch_HeartbeatInterval ch),
                            ch_HeartbeatTimeout := default_dur DefaultHeartbeatTimeout (ch_HeartbeatTimeout ch),
                            ch_CallTimeout := default_dur DefaultCallTimeout (ch_CallTimeout ch)\<rparr>,
            cfg_Server := sv\<lparr>ls_OCPPBind := default_str DefaultOCPPBind (ls_OCPPBind sv),
                           ls_OCPIBind := default_str DefaultOCPIBind (ls_OCPIBind sv)\<rparr>,
            cfg_OCPI := oc\<lparr>oc_Push := p\<lparr>pu_Debounce := default_dur DefaultPushDebounce (pu_Debounce p),
                                        pu_MaxRetries := (if pu_MaxRetries p = 0 then DefaultPushMaxRetries
                                                          else pu_MaxRetries p)\<rparr>\<rparr>\<rparr>)"

section \<open>Normalisation (load.go)\<close>

definition normalize_Connector :: "Connector \<Rightarrow> Connector" where
  "normalize_Connector x = x\<lparr>cn_ID := TrimSpace (cn_ID x), cn_Standard := TrimSpace (cn_Standard x),
     cn_Format := TrimSpace (cn_Format x), cn_PowerType := TrimSpace (cn_PowerType x)\<rparr>"

definition normalize_EVSE :: "EVSE \<Rightarrow> EVSE" where
  "normalize_EVSE e = e\<lparr>e_UID := TrimSpace (e_UID e), e_EVSEID := TrimSpace (e_EVSEID e),
     e_Connectors := map normalize_Connector (e_Connectors e)\<rparr>"

definition normalize_Config :: "Config \<Rightarrow> Config" where
  "normalize_Config c =
     (let ch = cfg_Charger c; sv = cfg_Server c; oc = cfg_OCPI c; l = cfg_Location c; co = lo_Coordinates l
      in c\<lparr>cfg_Charger := ch\<lparr>ch_ID := TrimSpace (ch_ID ch), ch_IP := TrimSpace (ch_IP ch),
                            ch_OCPPVersion := TrimSpace (ch_OCPPVersion ch)\<rparr>,
            cfg_Server := sv\<lparr>ls_OCPPBind := TrimSpace (ls_OCPPBind sv), ls_OCPIBind := TrimSpace (ls_OCPIBind sv)\<rparr>,
            cfg_Auth := (cfg_Auth c)\<lparr>au_DefaultIDTag := TrimSpace (au_DefaultIDTag (cfg_Auth c))\<rparr>,
            cfg_OCPI := oc\<lparr>oc_CountryCode := TrimSpace (oc_CountryCode oc), oc_PartyID := TrimSpace (oc_PartyID oc),
                          oc_PublicBaseURL := trim_right (\<lambda>x. x = CHR ''/'') (TrimSpace (oc_PublicBaseURL oc)),
                          oc_TokenA := TrimSpace (oc_TokenA oc), oc_TokenC := TrimSpace (oc_TokenC oc)\<rparr>,
            cfg_Location := l\<lparr>lo_ID := TrimSpace (lo_ID l), lo_Country := TrimSpace (lo_Country l),
                             lo_Coordinates := co\<lparr>co_Latitude := TrimSpace (co_Latitude co),
                                                  co_Longitude := TrimSpace (co_Longitude co)\<rparr>,
                             lo_EVSEs := map normalize_EVSE (lo_EVSEs l)\<rparr>\<rparr>)"

section \<open>Lookups\<close>

lemma EVSEByUID_Some: "EVSEByUID c uid = Some e \<Longrightarrow> e \<in> set (cfg_EVSEs c) \<and> e_UID e = uid"
  by (auto simp: EVSEByUID_def dest: find_in_set)

lemma EVSEByConnectorID_Some:
  "EVSEByConnectorID c n = Some e \<Longrightarrow> e \<in> set (cfg_EVSEs c) \<and> e_OCPPConnectorID e = n"
  by (auto simp: EVSEByConnectorID_def dest: find_in_set)

lemma find_unique:
  assumes "distinct (map f xs)" and "x \<in> set xs"
  shows "List.find (\<lambda>y. f y = f x) xs = Some x"
  using assms by (induction xs) (auto simp: image_iff)

text \<open>
  Where uids and connector ids are each used once, the two addressing schemes translate into
  each other without loss.
\<close>

lemma EVSE_addressing_roundtrip:
  assumes "distinct (map e_UID (cfg_EVSEs c))" and "distinct (map e_OCPPConnectorID (cfg_EVSEs c))"
    and "e \<in> set (cfg_EVSEs c)"
  shows "EVSEByUID c (e_UID e) = Some e" and "EVSEByConnectorID c (e_OCPPConnectorID e) = Some e"
  using assms by (simp_all add: EVSEByUID_def EVSEByConnectorID_def find_unique)

lemma duration_string_nonempty: "duration_string d \<noteq> []"
  unfolding duration_string_def Let_def
  by (simp only: append_is_Nil_conv list.distinct simp_thms split: if_split)

lemma default_dur_idem [simp]: "default_dur v (default_dur v d) = default_dur v d"
  by (simp add: default_dur_def dur_unset_def dur_setDefault_def)

lemma default_str_idem [simp]: "default_str v (default_str v s) = default_str v s"
  by (simp add: default_str_def)

lemma applyDefaults_idem: "applyDefaults (applyDefaults c) = applyDefaults c"
  by (simp add: applyDefaults_def Let_def DefaultPushMaxRetries_def)

lemma applyDefaults_set:
  "\<not> dur_unset (ch_HeartbeatInterval (cfg_Charger (applyDefaults c)))"
  "\<not> dur_unset (ch_HeartbeatTimeout (cfg_Charger (applyDefaults c)))"
  "\<not> dur_unset (ch_CallTimeout (cfg_Charger (applyDefaults c)))"
  "ch_OCPPVersion (cfg_Charger (applyDefaults c)) \<noteq> []"
  by (simp_all add: applyDefaults_def Let_def default_dur_def default_str_def dur_unset_def
      dur_setDefault_def duration_string_nonempty DefaultOCPPVersion_def)

end
