(* ===== verification/Json.thy ===== *)
theory Json
  imports Go_Time "HOL-Library.Monad_Syntax"
begin

text \<open>
  JSON documents as \<open>encoding/json\<close> sees them after lexing: the tree of a document, and decoding
  into Go values. Decoding follows the package's documented rules: object keys match a field
  without regard to case, later keys override earlier ones, unknown keys are ignored, \<open>null\<close>
  leaves the field as it is, and a value of the wrong kind is an error (\<open>None\<close>). The text of a
  document is below this model: a byte string is related to its tree by a parameter where the
  source reads bytes.
\<close>

datatype json = JNull | JBool bool | JNum int | JFloat string | JStr string
  | JArr "json list" | JObj "(string \<times> json) list"

definition dec_int :: "json \<Rightarrow> int option" where
  "dec_int j = (case j of JNum i \<Rightarrow> in_range64 i | _ \<Rightarrow> None)"

definition dec_string :: "json \<Rightarrow> string option" where
  "dec_string j = (case j of JStr s \<Rightarrow> Some s | _ \<Rightarrow> None)"

definition dec_bool :: "json \<Rightarrow> bool option" where
  "dec_bool j = (case j of JBool b \<Rightarrow> Some b | _ \<Rightarrow> None)"

definition dec_time :: "json \<Rightarrow> gotime option" where
  "dec_time j = (case j of JStr s \<Rightarrow> parse_rfc3339 s | _ \<Rightarrow> None)"

fun dec_all :: "(json \<Rightarrow> 'a option) \<Rightarrow> json list \<Rightarrow> 'a list option" where
  "dec_all d [] = Some []"
| "dec_all d (j # js) = do {x \<leftarrow> d j; xs \<leftarrow> dec_all d js; Some (x # xs)}"

definition dec_slice :: "(json \<Rightarrow> 'a option) \<Rightarrow> json \<Rightarrow> 'a slice option" where
  "dec_slice d j = (case j of JArr js \<Rightarrow> map_option Some (dec_all d js) | _ \<Rightarrow> None)"

definition dec_pointer :: "(json \<Rightarrow> 'a option) \<Rightarrow> json \<Rightarrow> 'a option option" where
  "dec_pointer d j = map_option Some (d j)"

text \<open>A struct: its fields from an object; \<open>null\<close> is the zero value.\<close>

definition dec_struct :: "'a \<Rightarrow> ((string \<times> json) list \<Rightarrow> 'a option) \<Rightarrow> json \<Rightarrow> 'a option" where
  "dec_struct zero f j = (case j of JObj kvs \<Rightarrow> f kvs | JNull \<Rightarrow> Some zero | _ \<Rightarrow> None)"

fun dec_field :: "(json \<Rightarrow> 'a option) \<Rightarrow> 'a \<Rightarrow> string \<Rightarrow> (string \<times> json) list \<Rightarrow> 'a option" where
  "dec_field d v name [] = Some v"
| "dec_field d v name ((k, j) # kvs) =
     (if EqualFold k name \<and> j \<noteq> JNull
      then (case d j of None \<Rightarrow> None | Some v' \<Rightarrow> dec_field d v' name kvs)
      else dec_field d v name kvs)"

lemma dec_all_map: "(\<And>x. x \<in> set xs \<Longrightarrow> d (e x) = Some x) \<Longrightarrow> dec_all d (map e xs) = Some xs"
  by (induction xs) auto

lemma dec_simps [simp]:
  "dec_string (JStr s) = Some s" "dec_bool (JBool b) = Some b"
  "dec_int (JNum i) = in_range64 i" "dec_time (JStr s) = parse_rfc3339 s"
  "dec_slice d (JArr js) = map_option Some (dec_all d js)"
  "dec_struct z f (JObj kvs) = f kvs"
  by (simp_all add: dec_string_def dec_bool_def dec_int_def dec_time_def dec_slice_def dec_struct_def)

lemma in_range64_Some [simp]: "int64_range i \<Longrightarrow> in_range64 i = Some i"
  by (simp add: in_range64_def)

end
