(* ===== verification/State.thy ===== *)
theory State
  imports Json
begin

text \<open>
  Package \<open>internal/state\<close>: the contents of \<open>state.json\<close> (\<open>state.go\<close>) and the store that keeps
  it in memory and on disk (\<open>store.go\<close>).

  The directory that holds the state file is a partial map from file names to contents. A write
  goes through a temporary file whose fresh name the operating system chooses, so the name and the
  step that fails, if one does, are an argument (\<open>write_env\<close>). The bytes of a file are its JSON
  tree, or \<open>None\<close> for text that is no JSON.
\<close>

section \<open>The data transfer objects (state.go)\<close>

definition state_Version :: int where
  "state_Version = 1"

record Endpoint =
  ep_Identifier :: string
  ep_Role :: string
  ep_URL :: string

record PartyRole =
  pr_CountryCode :: string
  pr_PartyID :: string
  pr_Role :: string

record OCPIRegistration =
  reg_RegisteredAt :: gotime
  reg_TokenB :: string
  reg_VersionsURL :: string
  reg_Version :: string
  reg_Endpoints :: "Endpoint slice"
  reg_Roles :: "PartyRole slice"

record StReservation =
  sr_ID :: int
  sr_OCPIReservationID :: string
  sr_ChargePointID :: string
  sr_EVSEUID :: string
  sr_IDTag :: string
  sr_ExpiresAt :: gotime
  sr_CreatedAt :: gotime
  sr_Source :: string
  sr_ResponseURL :: string

record StTransaction =
  stx_ID :: string
  stx_ChargePointID :: string
  stx_EVSEUID :: string
  stx_ConnectorID :: int
  stx_IDTag :: string
  stx_MeterStart :: int
  stx_StartedAt :: gotime
  stx_ReservationID :: int

record State =
  st_Version :: int
  st_OCPI :: "OCPIRegistration option"
  st_NextReservationID :: int
  st_NextTransactionID :: int
  st_NextRemoteStartID :: int
  st_Reservations :: "StReservation slice"
  st_Transactions :: "StTransaction slice"

definition empty_State :: State where
  "empty_State = \<lparr>st_Version = state_Version, st_OCPI = None, st_NextReservationID = 0,
     st_NextTransactionID = 0, st_NextRemoteStartID = 0, st_Reservations = Some [],
     st_Transactions = Some []\<rparr>"

text \<open>
  \<open>clone\<close>: reservations and transactions become non-nil copies; the endpoints and roles of the
  registration are appended to a nil slice, so an empty one becomes nil.
\<close>

definition clone_nil :: "'a slice \<Rightarrow> 'a slice" where
  "clone_nil s = (if elems s = [] then None else Some (elems s))"

definition clone_State :: "State \<Rightarrow> State" where
  "clone_State s = s\<lparr>st_Reservations := Some (elems (st_Reservations s)),
     st_Transactions := Some (elems (st_Transactions s)),
     st_OCPI := map_option (\<lambda>reg. reg\<lparr>reg_Endpoints := clone_nil (reg_Endpoints reg),
                                      reg_Roles := clone_nil (reg_Roles reg)\<rparr>) (st_OCPI s)\<rparr>"

definition utc_StReservation :: "StReservation \<Rightarrow> StReservation" where
  "utc_StReservation r = r\<lparr>sr_ExpiresAt := UTC (sr_ExpiresAt r), sr_CreatedAt := UTC (sr_CreatedAt r)\<rparr>"

definition utc_StTransaction :: "StTransaction \<Rightarrow> StTransaction" where
  "utc_StTransaction t = t\<lparr>stx_StartedAt := UTC (stx_StartedAt t)\<rparr>"

definition normalize_State :: "State \<Rightarrow> State" where
  "normalize_State s = s\<lparr>st_Version := state_Version,
     st_Reservations := Some (map utc_StReservation (elems (st_Reservations s))),
     st_Transactions := Some (map utc_StTransaction (elems (st_Transactions s))),
     st_OCPI := map_option (\<lambda>reg. reg\<lparr>reg_RegisteredAt := UTC (reg_RegisteredAt reg)\<rparr>) (st_OCPI s)\<rparr>"

section \<open>The file format\<close>

definition enc_time :: "gotime \<Rightarrow> json" where
  "enc_time t = JStr (format_rfc3339nano t)"

definition omit_empty :: "string \<Rightarrow> string \<Rightarrow> (string \<times> json) list" where
  "omit_empty k s = (if s = [] then [] else [(k, JStr s)])"

definition enc_slice :: "('a \<Rightarrow> json) \<Rightarrow> 'a slice \<Rightarrow> json" where
  "enc_slice e s = (case s of None \<Rightarrow> JNull | Some xs \<Rightarrow> JArr (map e xs))"

definition enc_StReservation :: "StReservation \<Rightarrow> json" where
  "enc_StReservation r = JObj ([(''id'', JNum (sr_ID r))]
     @ omit_empty ''ocpi_reservation_id'' (sr_OCPIReservationID r)
     @ [(''charge_point_id'', JStr (sr_ChargePointID r)), (''evse_uid'', JStr (sr_EVSEUID r)),
        (''id_tag'', JStr (sr_IDTag r)), (''expires_at'', enc_time (sr_ExpiresAt r)),
        (''created_at'', enc_time (sr_CreatedAt r)), (''source'', JStr (sr_Source r))]
     @ omit_empty ''response_url'' (sr_ResponseURL r))"

definition enc_StTransaction :: "StTransaction \<Rightarrow> json" where
  "enc_StTransaction t = JObj ([(''id'', JStr (stx_ID t)), (''charge_point_id'', JStr (stx_ChargePointID t)),
      (''evse_uid'', JStr (stx_EVSEUID t)), (''connector_id'', JNum (stx_ConnectorID t)),
      (''id_tag'', JStr (stx_IDTag t)), (''meter_start'', JNum (stx_MeterStart t)),
      (''started_at'', enc_time (stx_StartedAt t))]
     @ (if stx_ReservationID t = 0 then [] else [(''reservation_id'', JNum (stx_ReservationID t))]))"

definition enc_Endpoint :: "Endpoint \<Rightarrow> json" where
  "enc_Endpoint e = JObj [(''identifier'', JStr (ep_Identifier e)), (''role'', JStr (ep_Role e)),
     (''url'', JStr (ep_URL e))]"

definition enc_PartyRole :: "PartyRole \<Rightarrow> json" where
  "enc_PartyRole p = JObj [(''country_code'', JStr (pr_CountryCode p)), (''party_id'', JStr (pr_PartyID p)),
     (''role'', JStr (pr_Role p))]"

definition enc_OCPIRegistration :: "OCPIRegistration \<Rightarrow> json" where
  "enc_OCPIRegistration r = JObj [(''registered_at'', enc_time (reg_RegisteredAt r)),
     (''token_b'', JStr (reg_TokenB r)), (''versions_url'', JStr (reg_VersionsURL r)),
     (''version'', JStr (reg_Version r)), (''endpoints'', enc_slice enc_Endpoint (reg_Endpoints r)),
     (''roles'', enc_slice enc_PartyRole (reg_Roles r))]"

definition enc_State :: "State \<Rightarrow> json" where
  "enc_State s = JObj ([(''version'', JNum (st_Version s))]
     @ (case st_OCPI s of None \<Rightarrow> [] | Some r \<Rightarrow> [(''ocpi'', enc_OCPIRegistration r)])
     @ [(''next_reservation_id'', JNum (st_NextReservationID s)),
        (''next_transaction_id'', JNum (st_NextTransactionID s)),
        (''next_remote_start_id'', JNum (st_NextRemoteStartID s)),
        (''reservations'', enc_slice enc_StReservation (st_Reservations s)),
        (''transactions'', enc_slice enc_StTransaction (st_Transactions s))])"

text \<open>\<open>json.MarshalIndent\<close> fails only on a timestamp whose year has no four digits.\<close>

definition encodable :: "State \<Rightarrow> bool" where
  "encodable s \<longleftrightarrow>
     list_all (\<lambda>r. four_digit_year (sr_ExpiresAt r) \<and> four_digit_year (sr_CreatedAt r)) (elems (st_Reservations s))
     \<and> list_all (\<lambda>t. four_digit_year (stx_StartedAt t)) (elems (st_Transactions s))
     \<and> (case st_OCPI s of None \<Rightarrow> True | Some r \<Rightarrow> four_digit_year (reg_RegisteredAt r))"

definition dec_StReservation :: "json \<Rightarrow> StReservation option" where
  "dec_StReservation = dec_struct \<lparr>sr_ID = 0, sr_OCPIReservationID = [], sr_ChargePointID = [],
       sr_EVSEUID = [], sr_IDTag = [], sr_ExpiresAt = zero_time, sr_CreatedAt = zero_time, sr_Source = [],
       sr_ResponseURL = []\<rparr>
     (\<lambda>kvs. do {
        i \<leftarrow> dec_field dec_int 0 ''id'' kvs;
        o' \<leftarrow> dec_field dec_string [] ''ocpi_reservation_id'' kvs;
        c \<leftarrow> dec_field dec_string [] ''charge_point_id'' kvs;
        u \<leftarrow> dec_field dec_string [] ''evse_uid'' kvs;
        t \<leftarrow> dec_field dec_string [] ''id_tag'' kvs;
        e \<leftarrow> dec_field dec_time zero_time ''expires_at'' kvs;
        a \<leftarrow> dec_field dec_time zero_time ''created_at'' kvs;
        s \<leftarrow> dec_field dec_string [] ''source'' kvs;
        r \<leftarrow> dec_field dec_string [] ''response_url'' kvs;
        Some \<lparr>sr_ID = i, sr_OCPIReservationID = o', sr_ChargePointID = c, sr_EVSEUID = u, sr_IDTag = t,
          sr_ExpiresAt = e, sr_CreatedAt = a, sr_Source = s, sr_ResponseURL = r\<rparr>})"

definition dec_StTransaction :: "json \<Rightarrow> StTransaction option" where
  "dec_StTransaction = dec_struct \<lparr>stx_ID = [], stx_ChargePointID = [], stx_EVSEUID = [],
       stx_ConnectorID = 0, stx_IDTag = [], stx_MeterStart = 0, stx_StartedAt = zero_time, stx_ReservationID = 0\<rparr>
     (\<lambda>kvs. do {
        i \<leftarrow> dec_field dec_string [] ''id'' kvs;
        c \<leftarrow> dec_field dec_string [] ''charge_point_id'' kvs;
        u \<leftarrow> dec_field dec_string [] ''evse_uid'' kvs;
        n \<leftarrow> dec_field dec_int 0 ''connector_id'' kvs;
        t \<leftarrow> dec_field dec_string [] ''id_tag'' kvs;
        m \<leftarrow> dec_field dec_int 0 ''meter_start'' kvs;
        a \<leftarrow> dec_field dec_time zero_time ''started_at'' kvs;
        r \<leftarrow> dec_field dec_int 0 ''reservation_id'' kvs;
        Some \<lparr>stx_ID = i, stx_ChargePointID = c, stx_EVSEUID = u, stx_ConnectorID = n, stx_IDTag = t,
          stx_MeterStart = m, stx_StartedAt = a, stx_ReservationID = r\<rparr>})"

definition dec_Endpoint :: "json \<Rightarrow> Endpoint option" where
  "dec_Endpoint = dec_struct \<lparr>ep_Identifier = [], ep_Role = [], ep_URL = []\<rparr>
     (\<lambda>kvs. do {
        i \<leftarrow> dec_field dec_string [] ''identifier'' kvs;
        r \<leftarrow> dec_field dec_string [] ''role'' kvs;
        u \<leftarrow> dec_field dec_string [] ''url'' kvs;
        Some \<lparr>ep_Identifier = i, ep_Role = r, ep_URL = u\<rparr>})"

definition dec_PartyRole :: "json \<Rightarrow> PartyRole option" where
  "dec_PartyRole = dec_struct \<lparr>pr_CountryCode = [], pr_PartyID = [], pr_Role = []\<rparr>
     (\<lambda>kvs. do {
        c \<leftarrow> dec_field dec_string [] ''country_code'' kvs;
        p \<leftarrow> dec_field dec_string [] ''party_id'' kvs;
        r \<leftarrow> dec_field dec_string [] ''role'' kvs;
        Some \<lparr>pr_CountryCode = c, pr_PartyID = p, pr_Role = r\<rparr>})"

definition dec_OCPIRegistration :: "json \<Rightarrow> OCPIRegistration option" where
  "dec_OCPIRegistration = dec_struct \<lparr>reg_RegisteredAt = zero_time, reg_TokenB = [], reg_VersionsURL = [],
       reg_Version = [], reg_Endpoints = None, reg_Roles = None\<rparr>
     (\<lambda>kvs. do {
        a \<leftarrow> dec_field dec_time zero_time ''registered_at'' kvs;
        t \<leftarrow> dec_field dec_string [] ''token_b'' kvs;
        u \<leftarrow> dec_field dec_string [] ''versions_url'' kvs;
        v \<leftarrow> dec_field dec_string [] ''version'' kvs;
        e \<leftarrow> dec_field (dec_slice dec_Endpoint) None ''endpoints'' kvs;
        r \<leftarrow> dec_field (dec_slice dec_PartyRole) None ''roles'' kvs;
        Some \<lparr>reg_RegisteredAt = a, reg_TokenB = t, reg_VersionsURL = u, reg_Version = v,
          reg_Endpoints = e, reg_Roles = r\<rparr>})"

definition dec_State :: "json \<Rightarrow> State option" where
  "dec_State = dec_struct \<lparr>st_Version = 0, st_OCPI = None, st_NextReservationID = 0,
       st_NextTransactionID = 0, st_NextRemoteStartID = 0, st_Reservations = None, st_Transactions = None\<rparr>
     (\<lambda>kvs. do {
        v \<leftarrow> dec_field dec_int 0 ''version'' kvs;
        p \<leftarrow> dec_field (dec_pointer dec_OCPIRegistration) None ''ocpi'' kvs;
        nr \<leftarrow> dec_field dec_int 0 ''next_reservation_id'' kvs;
        nt \<leftarrow> dec_field dec_int 0 ''next_transaction_id'' kvs;
        ns \<leftarrow> dec_field dec_int 0 ''next_remote_start_id'' kvs;
        rs \<leftarrow> dec_field (dec_slice dec_StReservation) None ''reservations'' kvs;
        ts \<leftarrow> dec_field (dec_slice dec_StTransaction) None ''transactions'' kvs;
        Some \<lparr>st_Version = v, st_OCPI = p, st_NextReservationID = nr, st_NextTransactionID = nt,
          st_NextRemoteStartID = ns, st_Reservations = rs, st_Transactions = ts\<rparr>})"

section \<open>The store (store.go)\<close>

datatype state_error =
    NotJSON | NoVersion | NewerVersion int | UnsupportedVersion int
  | EncodeFailed | CreateFailed | WriteFailed | SyncFailed | CloseFailed | RenameFailed
  | ReadFailed

type_synonym contents = "json option"
type_synonym directory = "string \<Rightarrow> contents option"

definition parse_State :: "contents \<Rightarrow> state_error + State" where
  "parse_State data =
     (case data of None \<Rightarrow> Inl NotJSON
      | Some j \<Rightarrow>
          (case dec_struct None (dec_field (dec_pointer dec_int) None ''version'') j of
             None \<Rightarrow> Inl NotJSON
           | Some None \<Rightarrow> Inl NoVersion
           | Some (Some v) \<Rightarrow>
               if state_Version < v then Inl (NewerVersion v)
               else if v \<noteq> state_Version then Inl (UnsupportedVersion v)
               else (case dec_State j of None \<Rightarrow> Inl NotJSON | Some st \<Rightarrow> Inr (normalize_State st))))"

record Store =
  s_path :: string
  s_state :: State
  s_dir :: directory

text \<open>
  \<open>Open\<close>; \<open>read_ok\<close> is whether reading an existing file succeeds.
\<close>

definition Open :: "bool \<Rightarrow> string \<Rightarrow> directory \<Rightarrow> state_error + Store" where
  "Open read_ok path dir =
     (case dir path of
        None \<Rightarrow> Inr \<lparr>s_path = path, s_state = empty_State, s_dir = dir\<rparr>
      | Some data \<Rightarrow>
          if \<not> read_ok then Inl ReadFailed
          else (case parse_State data of Inl e \<Rightarrow> Inl e
                | Inr st \<Rightarrow> Inr \<lparr>s_path = path, s_state = st, s_dir = dir\<rparr>))"

definition Get :: "Store \<Rightarrow> State" where
  "Get s = clone_State (s_state s)"

datatype write_step = Create | Write | Sync | Close | Rename

record write_env =
  w_tmp :: string
  w_fail :: "write_step option"

text \<open>
  \<open>write\<close> as the sequence of directories it goes through: the temporary file is created, filled,
  synced, closed and renamed over the state file. Where a step fails, the temporary file is
  removed and the step's error returned; the steps after it do not happen.
\<close>

definition write_steps :: "write_env \<Rightarrow> string \<Rightarrow> contents \<Rightarrow> directory \<Rightarrow> (write_step \<times> directory) list" where
  "write_steps w path data dir =
     [(Create, dir(w_tmp w \<mapsto> None)), (Write, dir(w_tmp w \<mapsto> data)), (Sync, dir(w_tmp w \<mapsto> data)),
      (Close, dir(w_tmp w \<mapsto> data)), (Rename, (dir(w_tmp w := None))(path \<mapsto> data))]"

definition step_error :: "write_step \<Rightarrow> state_error" where
  "step_error x = (case x of Create \<Rightarrow> CreateFailed | Write \<Rightarrow> WriteFailed | Sync \<Rightarrow> SyncFailed
     | Close \<Rightarrow> CloseFailed | Rename \<Rightarrow> RenameFailed)"

fun run_steps :: "write_step option \<Rightarrow> string \<Rightarrow> (write_step \<times> directory) list \<Rightarrow> directory
    \<Rightarrow> directory list \<times> state_error option" where
  "run_steps fail tmp [] dir = ([], None)"
| "run_steps fail tmp ((x, d) # xs) dir =
     (if fail = Some x
      then (if x = Create then ([dir], Some (step_error x)) else ([dir(tmp := None)], Some (step_error x)))
      else let (ds, e) = run_steps fail tmp xs d in (d # ds, e))"

definition write_trace :: "write_env \<Rightarrow> State \<Rightarrow> Store \<Rightarrow> directory list \<times> state_error option" where
  "write_trace w st s =
     (if \<not> encodable st then ([s_dir s], Some EncodeFailed)
      else run_steps (w_fail w) (w_tmp w) (write_steps w (s_path s) (Some (enc_State st)) (s_dir s)) (s_dir s))"

definition store_write :: "write_env \<Rightarrow> State \<Rightarrow> Store \<Rightarrow> Store \<times> state_error option" where
  "store_write w st s =
     (let (ds, e) = write_trace w st s in (s\<lparr>s_dir := last ds\<rparr>, e))"

text \<open>\<open>Update\<close> with a function that cannot fail, as core uses it, and with one that can.\<close>

definition Update :: "write_env \<Rightarrow> (State \<Rightarrow> 'e + State) \<Rightarrow> Store \<Rightarrow> Store \<times> ('e + state_error) option" where
  "Update w f s =
     (case f (clone_State (s_state s)) of
        Inl e \<Rightarrow> (s, Some (Inl e))
      | Inr st \<Rightarrow>
          let next = normalize_State st in
          (case store_write w next s of
             (s', Some e) \<Rightarrow> (s', Some (Inr e))
           | (s', None) \<Rightarrow> (s'\<lparr>s_state := next\<rparr>, None)))"

section \<open>The file format round trip\<close>

text \<open>The keys of the file are in lower case, so folding does not change them.\<close>

lemma fold_state_keys:
  "fold_key ''id'' = ''id''"
  "fold_key ''ocpi_reservation_id'' = ''ocpi_reservation_id''"
  "fold_key ''charge_point_id'' = ''charge_point_id''"
  "fold_key ''evse_uid'' = ''evse_uid''"
  "fold_key ''id_tag'' = ''id_tag''"
  "fold_key ''expires_at'' = ''expires_at''"
  "fold_key ''created_at'' = ''created_at''"
  "fold_key ''source'' = ''source''"
  "fold_key ''response_url'' = ''response_url''"
  "fold_key ''connector_id'' = ''connector_id''"
  "fold_key ''meter_start'' = ''meter_start''"
  "fold_key ''started_at'' = ''started_at''"
  "fold_key ''reservation_id'' = ''reservation_id''"
  "fold_key ''identifier'' = ''identifier''"
  "fold_key ''role'' = ''role''"
  "fold_key ''url'' = ''url''"
  "fold_key ''country_code'' = ''country_code''"
  "fold_key ''party_id'' = ''party_id''"
  "fold_key ''registered_at'' = ''registered_at''"
  "fold_key ''token_b'' = ''token_b''"
  "fold_key ''versions_url'' = ''versions_url''"
  "fold_key ''version'' = ''version''"
  "fold_key ''endpoints'' = ''endpoints''"
  "fold_key ''roles'' = ''roles''"
  "fold_key ''ocpi'' = ''ocpi''"
  "fold_key ''next_reservation_id'' = ''next_reservation_id''"
  "fold_key ''next_transaction_id'' = ''next_transaction_id''"
  "fold_key ''next_remote_start_id'' = ''next_remote_start_id''"
  "fold_key ''reservations'' = ''reservations''"
  "fold_key ''transactions'' = ''transactions''"
  by code_simp+

lemmas dec_key_simps = EqualFold_def fold_state_keys

definition utc_year :: "gotime \<Rightarrow> bool" where
  "utc_year t \<longleftrightarrow> UTC t = t \<and> four_digit_year t"

lemma parse_enc_time: "utc_year t \<Longrightarrow> parse_rfc3339 (format_rfc3339nano t) = Some t"
  using parse_format_rfc3339nano [of t] by (simp add: utc_year_def)

lemma dec_field_omit_empty:
  assumes "\<not> EqualFold k name"
  shows "dec_field d v name (omit_empty k s @ kvs) = dec_field d v name kvs"
  using assms by (simp add: omit_empty_def)

lemma dec_field_omit_empty_same:
  "dec_field dec_string [] k (omit_empty k s @ kvs) = dec_field dec_string s k kvs"
  by (simp add: omit_empty_def)

lemma dec_enc_StReservation:
  assumes "int64_range (sr_ID r)" and "utc_year (sr_ExpiresAt r)" and "utc_year (sr_CreatedAt r)"
  shows "dec_StReservation (enc_StReservation r) = Some r"
  using assms
  by (cases r) (simp add: dec_StReservation_def enc_StReservation_def dec_key_simps enc_time_def
      parse_enc_time omit_empty_def)

lemma dec_enc_StTransaction:
  assumes "int64_range (stx_ConnectorID t)" and "int64_range (stx_MeterStart t)"
    and "int64_range (stx_ReservationID t)" and "utc_year (stx_StartedAt t)"
  shows "dec_StTransaction (enc_StTransaction t) = Some t"
  using assms
  by (cases t) (simp add: dec_StTransaction_def enc_StTransaction_def dec_key_simps enc_time_def
      parse_enc_time)

lemma dec_enc_Endpoint: "dec_Endpoint (enc_Endpoint e) = Some e"
  by (cases e) (simp add: dec_Endpoint_def enc_Endpoint_def dec_key_simps)

lemma dec_enc_PartyRole: "dec_PartyRole (enc_PartyRole p) = Some p"
  by (cases p) (simp add: dec_PartyRole_def enc_PartyRole_def dec_key_simps)

lemma dec_all_Endpoints: "dec_all dec_Endpoint (map enc_Endpoint xs) = Some xs"
  by (rule dec_all_map) (rule dec_enc_Endpoint)

lemma dec_all_PartyRoles: "dec_all dec_PartyRole (map enc_PartyRole xs) = Some xs"
  by (rule dec_all_map) (rule dec_enc_PartyRole)

lemma dec_enc_OCPIRegistration:
  assumes "utc_year (reg_RegisteredAt r)"
  shows "dec_OCPIRegistration (enc_OCPIRegistration r) = Some r"
  using assms
  by (cases r; cases "reg_Endpoints r"; cases "reg_Roles r")
     (simp_all add: dec_OCPIRegistration_def enc_OCPIRegistration_def dec_key_simps enc_time_def
      parse_enc_time enc_slice_def dec_all_Endpoints dec_all_PartyRoles)

text \<open>The states the store holds: in UTC, with four-digit years and 64-bit numbers.\<close>

definition state_ok :: "State \<Rightarrow> bool" where
  "state_ok s \<longleftrightarrow>
     int64_range (st_NextReservationID s) \<and> int64_range (st_NextTransactionID s)
     \<and> int64_range (st_NextRemoteStartID s)
     \<and> list_all (\<lambda>r. int64_range (sr_ID r)) (elems (st_Reservations s))
     \<and> list_all (\<lambda>t. int64_range (stx_ConnectorID t) \<and> int64_range (stx_MeterStart t)
                    \<and> int64_range (stx_ReservationID t)) (elems (st_Transactions s))"

definition utc_State :: "State \<Rightarrow> bool" where
  "utc_State s \<longleftrightarrow>
     list_all (\<lambda>r. UTC (sr_ExpiresAt r) = sr_ExpiresAt r \<and> UTC (sr_CreatedAt r) = sr_CreatedAt r)
       (elems (st_Reservations s))
     \<and> list_all (\<lambda>t. UTC (stx_StartedAt t) = stx_StartedAt t) (elems (st_Transactions s))
     \<and> (case st_OCPI s of None \<Rightarrow> True | Some r \<Rightarrow> UTC (reg_RegisteredAt r) = reg_RegisteredAt r)"

lemma dec_enc_State:
  assumes "state_ok s" and "utc_State s" and "encodable s" and "int64_range (st_Version s)"
  shows "dec_State (enc_State s) = Some s"
proof -
  have rs: "dec_all dec_StReservation (map enc_StReservation (elems (st_Reservations s))) = Some (elems (st_Reservations s))"
    using assms by (intro dec_all_map dec_enc_StReservation)
      (auto simp: state_ok_def utc_State_def encodable_def utc_year_def list_all_iff)
  have ts: "dec_all dec_StTransaction (map enc_StTransaction (elems (st_Transactions s))) = Some (elems (st_Transactions s))"
    using assms by (intro dec_all_map dec_enc_StTransaction)
      (auto simp: state_ok_def utc_State_def encodable_def utc_year_def list_all_iff)
  have reg: "dec_OCPIRegistration (enc_OCPIRegistration r) = Some r" if "st_OCPI s = Some r" for r
    using assms that by (intro dec_enc_OCPIRegistration) (simp add: utc_State_def encodable_def utc_year_def)
  have obj: "enc_OCPIRegistration r \<noteq> JNull" for r by (simp add: enc_OCPIRegistration_def)
  show ?thesis
    using assms(1,4) rs ts reg
    by (cases s; cases "st_OCPI s"; cases "st_Reservations s"; cases "st_Transactions s")
       (simp_all add: dec_State_def enc_State_def dec_key_simps enc_slice_def dec_pointer_def obj state_ok_def)
qed

section \<open>What the store promises\<close>

lemma utc_idem [simp]:
  "utc_StReservation (utc_StReservation r) = utc_StReservation r"
  "utc_StTransaction (utc_StTransaction t) = utc_StTransaction t"
  by (simp_all add: utc_StReservation_def utc_StTransaction_def)

lemma normalize_State_idem: "normalize_State (normalize_State s) = normalize_State s"
  by (simp add: normalize_State_def option.map_comp comp_def)

lemma utc_normalize_State: "utc_State (normalize_State s)"
  by (auto simp: utc_State_def normalize_State_def utc_StReservation_def utc_StTransaction_def
      list_all_iff split: option.splits)

lemma state_ok_normalize: "state_ok s \<Longrightarrow> state_ok (normalize_State s)"
  by (auto simp: state_ok_def normalize_State_def utc_StReservation_def utc_StTransaction_def list_all_iff)

lemma version_range: "int64_range state_Version"
  by (simp add: int64_range_def state_Version_def)

lemma parse_enc_State:
  assumes "state_ok s" and "encodable s" and "normalize_State s = s"
  shows "parse_State (Some (enc_State s)) = Inr s"
proof -
  have v: "st_Version s = state_Version" using arg_cong [OF assms(3), of st_Version]
    by (simp add: normalize_State_def)
  have utc: "utc_State s" using utc_normalize_State [of s] assms(3) by simp
  have "dec_struct None (dec_field (dec_pointer dec_int) None ''version'') (enc_State s) = Some (Some state_Version)"
    by (cases "st_OCPI s")
       (simp_all add: enc_State_def dec_key_simps dec_pointer_def v version_range)
  then show ?thesis
    using dec_enc_State [OF assms(1) utc assms(2)] assms(3) version_range
    by (simp add: parse_State_def v)
qed

text \<open>
  The invariant of an open store: its state is in normal form, and opening the file again would
  give the same store.
\<close>

definition store_inv :: "Store \<Rightarrow> bool" where
  [inv_defs]: "store_inv s \<longleftrightarrow> normalize_State (s_state s) = s_state s
     \<and> Open True (s_path s) (s_dir s) = Inr s"

text \<open>The operating system gives a temporary name that no file has, the state file included.\<close>

definition fresh_tmp :: "write_env \<Rightarrow> Store \<Rightarrow> bool" where
  "fresh_tmp w s \<longleftrightarrow> s_dir s (w_tmp w) = None \<and> w_tmp w \<noteq> s_path s"

lemma empty_State_normal: "normalize_State empty_State = empty_State"
  by (simp add: normalize_State_def empty_State_def)

lemma Open_store_inv: "Open True path dir = Inr s \<Longrightarrow> store_inv s"
  by (auto simp: Open_def store_inv_def empty_State_normal normalize_State_idem parse_State_def
      split: option.splits sum.splits if_splits)

lemma fun_upd_None_same: "m x = None \<Longrightarrow> m(x := None) = m"
  by auto

lemma run_steps_write:
  assumes "dir tmp = None"
  shows "run_steps f tmp (write_steps w path data dir) dir =
    (case f of None \<Rightarrow> (map snd (write_steps w path data dir), None)
     | Some Create \<Rightarrow> ([dir], Some CreateFailed)
     | Some Write \<Rightarrow> ([dir(w_tmp w \<mapsto> None), (dir(w_tmp w \<mapsto> None))(tmp := None)], Some WriteFailed)
     | Some Sync \<Rightarrow> ([dir(w_tmp w \<mapsto> None), dir(w_tmp w \<mapsto> data), (dir(w_tmp w \<mapsto> data))(tmp := None)], Some SyncFailed)
     | Some Close \<Rightarrow> ([dir(w_tmp w \<mapsto> None), dir(w_tmp w \<mapsto> data), dir(w_tmp w \<mapsto> data), (dir(w_tmp w \<mapsto> data))(tmp := None)], Some CloseFailed)
     | Some Rename \<Rightarrow> ([dir(w_tmp w \<mapsto> None), dir(w_tmp w \<mapsto> data), dir(w_tmp w \<mapsto> data), dir(w_tmp w \<mapsto> data), (dir(w_tmp w \<mapsto> data))(tmp := None)], Some RenameFailed))"
  by (cases f; simp add: write_steps_def step_error_def; cases "the f"; simp add: step_error_def)

lemma store_write_fail:
  assumes "store_write w st s = (s', Some e)" and "fresh_tmp w s"
  shows "s' = s"
proof (cases "encodable st")
  case False
  with assms show ?thesis by (simp add: store_write_def write_trace_def)
next
  case True
  have "s_dir s (w_tmp w) = None" using assms(2) by (simp add: fresh_tmp_def)
  with assms(1) True show ?thesis
    by (auto simp: store_write_def write_trace_def run_steps_write fun_upd_None_same
        split: option.splits write_step.splits)
qed

lemma store_write_ok:
  assumes "store_write w st s = (s', None)" and "fresh_tmp w s"
  shows "encodable st \<and> s' = s\<lparr>s_dir := (s_dir s)(s_path s \<mapsto> Some (enc_State st))\<rparr>"
proof -
  have f: "s_dir s (w_tmp w) = None" using assms(2) by (simp add: fresh_tmp_def)
  have enc: "encodable st" using assms(1) by (auto simp: store_write_def write_trace_def split: if_splits)
  then have "w_fail w = None"
    using assms(1) f by (auto simp: store_write_def write_trace_def run_steps_write
        split: option.splits write_step.splits)
  with assms(1) enc f show ?thesis
    by (simp add: store_write_def write_trace_def run_steps_write write_steps_def fun_upd_None_same)
qed

text \<open>
  The contract core relies on (its interface \<open>Store\<close>), with the law it needs on top: what a
  restart reads is what \<open>get\<close> returns.
\<close>

locale durable_store =
  fixes get :: "'s \<Rightarrow> State"
    and upd :: "'w \<Rightarrow> (State \<Rightarrow> State) \<Rightarrow> 's \<Rightarrow> 's \<times> 'e option"
    and reload :: "'s \<Rightarrow> 's option"
    and valid :: "'s \<Rightarrow> bool"
    and admissible :: "'w \<Rightarrow> 's \<Rightarrow> bool"
  assumes upd_fail: "admissible w s \<Longrightarrow> upd w f s = (s', Some e) \<Longrightarrow> s' = s"
    and upd_get: "admissible w s \<Longrightarrow> upd w f s = (s', None) \<Longrightarrow> get s' = clone_State (normalize_State (f (get s)))"
    and upd_valid: "admissible w s \<Longrightarrow> valid s \<Longrightarrow> state_ok (f (get s)) \<Longrightarrow> valid (fst (upd w f s))"
    and reload_valid: "valid s \<Longrightarrow> reload s = Some s"
begin

text \<open>An update that reports success survives a restart; one that reports failure changes nothing.\<close>

lemma upd_survives:
  assumes "valid s" and "admissible w s" and "state_ok (f (get s))" and "upd w f s = (s', r)"
  shows "\<exists>t. reload s' = Some t
    \<and> get t = (if r = None then clone_State (normalize_State (f (get s))) else get s)"
proof -
  have "valid s'" using upd_valid [of w s f] assms by simp
  moreover have "get s' = (if r = None then clone_State (normalize_State (f (get s))) else get s)"
  proof (cases r)
    case None
    with assms show ?thesis using upd_get [of w s f s'] by simp
  next
    case (Some e)
    with assms show ?thesis using upd_fail [of w s f s' e] by simp
  qed
  ultimately show ?thesis using reload_valid by auto
qed

end

definition update_State :: "write_env \<Rightarrow> (State \<Rightarrow> State) \<Rightarrow> Store \<Rightarrow> Store \<times> (unit + state_error) option" where
  "update_State w f s = Update w (\<lambda>st. Inr (f st)) s"

definition reopen :: "Store \<Rightarrow> Store option" where
  "reopen s = (case Open True (s_path s) (s_dir s) of Inl _ \<Rightarrow> None | Inr s' \<Rightarrow> Some s')"

lemma Update_fail:
  "fresh_tmp w s \<Longrightarrow> Update w f s = (s', Some e) \<Longrightarrow> s' = s"
  by (auto simp: Update_def Let_def split: sum.splits prod.splits option.splits dest: store_write_fail)

lemma Update_ok:
  assumes "Update w f s = (s', None)" and "fresh_tmp w s"
  shows "\<exists>st. f (Get s) = Inr st \<and> encodable (normalize_State st)
    \<and> s' = s\<lparr>s_state := normalize_State st,
             s_dir := (s_dir s)(s_path s \<mapsto> Some (enc_State (normalize_State st)))\<rparr>"
  using assms
  by (auto simp: Update_def Get_def Let_def split: sum.splits prod.splits option.splits dest!: store_write_ok)

lemma Update_store_inv:
  assumes "store_inv s" and "fresh_tmp w s"
    and ok: "\<And>st. f (Get s) = Inr st \<Longrightarrow> state_ok st"
  shows "store_inv (fst (Update w f s))"
proof (cases "snd (Update w f s)")
  case (Some e)
  then show ?thesis using assms Update_fail [of w s f "fst (Update w f s)" e] by (simp add: prod_eq_iff)
next
  case None
  then obtain st where st: "f (Get s) = Inr st" "encodable (normalize_State st)"
      "fst (Update w f s) = s\<lparr>s_state := normalize_State st,
         s_dir := (s_dir s)(s_path s \<mapsto> Some (enc_State (normalize_State st)))\<rparr>"
    using Update_ok [of w f s "fst (Update w f s)"] assms(2) by (auto simp: prod_eq_iff)
  have "parse_State (Some (enc_State (normalize_State st))) = Inr (normalize_State st)"
    using st ok by (intro parse_enc_State state_ok_normalize normalize_State_idem)
  then show ?thesis unfolding st(3) by (simp add: store_inv_def Open_def normalize_State_idem)
qed

interpretation file_store: durable_store Get update_State reopen store_inv fresh_tmp
proof
  show "s' = s" if "fresh_tmp w s" and "update_State w f s = (s', Some e)" for w s f s' e
    using that by (auto simp: update_State_def dest: Update_fail)
  show "Get s' = clone_State (normalize_State (f (Get s)))"
    if "fresh_tmp w s" and "update_State w f s = (s', None)" for w s f s'
    using Update_ok [OF that(2) [unfolded update_State_def] that(1)] by (auto simp: Get_def)
  show "store_inv (fst (update_State w f s))"
    if "fresh_tmp w s" and "store_inv s" and "state_ok (f (Get s))" for w s f
    using that by (auto simp: update_State_def intro: Update_store_inv)
  show "reopen s = Some s" if "store_inv s" for s
    using that by (simp add: reopen_def store_inv_def)
qed

text \<open>
  A crash in the middle of a write: in every directory the write goes through, the state file
  holds the old contents or the complete new ones.
\<close>

lemma write_trace_atomic:
  assumes "fresh_tmp w s" and "d \<in> set (fst (write_trace w st s))"
  shows "d (s_path s) = s_dir s (s_path s) \<or> d (s_path s) = Some (Some (enc_State st))"
proof -
  have f: "s_dir s (w_tmp w) = None" "w_tmp w \<noteq> s_path s" using assms(1) by (simp_all add: fresh_tmp_def)
  with assms(2) show ?thesis
    by (auto simp: write_trace_def run_steps_write write_steps_def
        split: if_splits option.splits write_step.splits)
qed

end
