(* ===== verification/Core_Service.thy ===== *)
theory Core_Service
  imports Core_Bus Config State
begin

text \<open>
  Package \<open>internal/core\<close>, second part (\<open>service.go\<close> and the data of \<open>reservations.go\<close>): the
  domain state, the changes a connected charge point causes, and the snapshot readers get.

  A method that takes the service's lock is a function from the state to the state and its
  result. The clock is an argument: \<open>now\<close> is what \<open>s.now()\<close> returns, one reading per call of a
  method. Logging has no effect on the state and is left out.
\<close>

section \<open>Data\<close>

record BootInfo =
  bi_Vendor :: string
  bi_Model :: string
  bi_SerialNumber :: string
  bi_FirmwareVersion :: string
  bi_At :: gotime

definition BootInfo_String :: "BootInfo \<Rightarrow> string" where
  "BootInfo_String b = bi_Vendor b
     @ (if bi_Model b \<noteq> [] then '' '' @ bi_Model b else [])
     @ (if bi_FirmwareVersion b \<noteq> [] then '' fw '' @ bi_FirmwareVersion b else [])"

record Transaction =
  tx_ID :: string
  tx_EVSEUID :: string
  tx_ConnectorID :: int
  tx_IDTag :: string
  tx_MeterStart :: int
  tx_StartedAt :: gotime
  tx_ReservationID :: int
  tx_StoppedAt :: gotime
  tx_MeterStop :: int
  tx_Reason :: string
  tx_seq :: int

definition tx_Active :: "Transaction \<Rightarrow> bool" where
  "tx_Active t \<longleftrightarrow> IsZero (tx_StoppedAt t)"

record Disconnect =
  dc_At :: gotime
  dc_Reason :: string

record chargePointState =
  cp_id :: string
  cp_online :: bool
  cp_boot :: BootInfo
  cp_lastSeen :: gotime
  cp_lastDisconnect :: Disconnect
  cp_station :: EVSEStatus
  cp_order :: "string list"
  cp_connectorIDs :: "(string \<times> int) list"
  cp_reported :: "(string \<times> EVSEStatus) list"
  cp_errorCode :: "(string \<times> string) list"
  cp_effective :: "(string \<times> EVSEStatus) list"
  cp_transactions :: "(string \<times> Transaction) list"

text \<open>The reservations of \<open>reservations.go\<close>, which the service record holds.\<close>

datatype ReservationStatus = ReservationPending | ReservationActive | ReservationCancelling

record Reservation =
  r_ID :: int
  r_OCPIReservationID :: string
  r_ChargePointID :: string
  r_EVSEUID :: string
  r_ConnectorID :: int
  r_IDTag :: string
  r_ExpiresAt :: gotime
  r_CreatedAt :: gotime
  r_Source :: string
  r_ResponseURL :: string
  r_Status :: ReservationStatus

text \<open>A scheduled call of \<open>expire\<close>.\<close>

record timer =
  tm_after :: duration
  tm_id :: int
  tm_expiresAt :: gotime

record reservation =
  rs_res :: Reservation
  rs_timer :: "timer option"

record Service =
  svc_cfg :: "Config option"
  svc_bus :: bus
  svc_store :: "Store option"
  svc_cps :: "(string \<times> chargePointState) list"
  svc_reservations :: "(int \<times> reservation) list"
  svc_txSeq :: int
  svc_nextReservationID :: int
  svc_nextTransactionID :: int
  svc_nextRemoteStartID :: int

section \<open>One charge point\<close>

definition no_boot :: BootInfo where
  "no_boot = \<lparr>bi_Vendor = [], bi_Model = [], bi_SerialNumber = [], bi_FirmwareVersion = [], bi_At = zero_time\<rparr>"

definition newChargePoint :: "string \<Rightarrow> chargePointState" where
  "newChargePoint i = \<lparr>cp_id = i, cp_online = False, cp_boot = no_boot, cp_lastSeen = zero_time,
     cp_lastDisconnect = \<lparr>dc_At = zero_time, dc_Reason = []\<rparr>, cp_station = StatusAvailable, cp_order = [],
     cp_connectorIDs = [], cp_reported = [], cp_errorCode = [], cp_effective = [], cp_transactions = []\<rparr>"

definition addEVSE :: "string \<Rightarrow> int \<Rightarrow> chargePointState \<Rightarrow> chargePointState" where
  "addEVSE uid connectorID cp =
     (if map_of (cp_effective cp) uid \<noteq> None then cp
      else cp\<lparr>cp_order := cp_order cp @ [uid], cp_connectorIDs := m_put uid connectorID (cp_connectorIDs cp),
              cp_effective := m_put uid StatusUnknown (cp_effective cp)\<rparr>)"

definition wanted :: "chargePointState \<Rightarrow> string \<Rightarrow> EVSEStatus" where
  "wanted cp uid = effectiveStatus (cp_online cp) (cp_station cp) (m_get NoStatus (cp_reported cp) uid)"

definition status_changed :: "gotime \<Rightarrow> chargePointState \<Rightarrow> string \<Rightarrow> EVSEStatus \<Rightarrow> EVSEStatus \<Rightarrow> Event" where
  "status_changed at cp uid got want = (mkEvent EventEVSEStatusChanged at (cp_id cp))
     \<lparr>ev_EVSEUID := uid, ev_From := got, ev_To := want, ev_ErrorCode := m_get [] (cp_errorCode cp) uid\<rparr>"

fun recompute_loop :: "gotime \<Rightarrow> string list \<Rightarrow> chargePointState \<Rightarrow> chargePointState \<times> Event list" where
  "recompute_loop at [] cp = (cp, [])"
| "recompute_loop at (uid # uids) cp =
     (let want = wanted cp uid; got = m_get NoStatus (cp_effective cp) uid
      in if got = want then recompute_loop at uids cp
         else let cp1 = cp\<lparr>cp_effective := m_put uid want (cp_effective cp)\<rparr>;
                  (cp2, evs) = recompute_loop at uids cp1
              in (cp2, status_changed at cp uid got want # evs))"

definition recompute :: "gotime \<Rightarrow> chargePointState \<Rightarrow> chargePointState \<times> Event list" where
  "recompute at cp = recompute_loop at (cp_order cp) cp"

section \<open>The service\<close>

definition ensure :: "Service \<Rightarrow> string \<Rightarrow> chargePointState" where
  "ensure s i = (case map_of (svc_cps s) i of Some cp \<Rightarrow> cp | None \<Rightarrow> newChargePoint i)"

definition put_cp :: "string \<Rightarrow> chargePointState \<Rightarrow> Service \<Rightarrow> Service" where
  "put_cp i cp s = s\<lparr>svc_cps := m_put i cp (svc_cps s)\<rparr>"

definition evseUID :: "Service \<Rightarrow> string \<Rightarrow> int \<Rightarrow> string" where
  "evseUID s cpID connectorID =
     (let synthetic = cpID @ ''-'' @ Itoa connectorID
      in case svc_cfg s of
           None \<Rightarrow> synthetic
         | Some c \<Rightarrow> if cpID = ch_ID (cfg_Charger c)
                     then (case EVSEByConnectorID c connectorID of Some e \<Rightarrow> e_UID e | None \<Rightarrow> synthetic)
                     else synthetic)"

definition svc_publish :: "Event list \<Rightarrow> Service \<Rightarrow> Service" where
  "svc_publish es s = s\<lparr>svc_bus := publishAll es (svc_bus s)\<rparr>"

definition Connected :: "gotime \<Rightarrow> string \<Rightarrow> Service \<Rightarrow> Service" where
  "Connected now cpID s =
     (let cp = (ensure s cpID)\<lparr>cp_online := True, cp_lastSeen := now\<rparr>;
          (cp', evs) = recompute now cp
      in svc_publish (mkEvent EventChargePointConnected now cpID # evs) (put_cp cpID cp' s))"

definition Disconnected :: "gotime \<Rightarrow> string \<Rightarrow> string \<Rightarrow> Service \<Rightarrow> Service" where
  "Disconnected now cpID reason s =
     (let cp = ensure s cpID
      in if \<not> cp_online cp then put_cp cpID cp s
         else let cp1 = cp\<lparr>cp_online := False, cp_lastDisconnect := \<lparr>dc_At = now, dc_Reason = reason\<rparr>\<rparr>;
                  (cp', evs) = recompute now cp1
              in svc_publish ((mkEvent EventChargePointDisconnected now cpID)\<lparr>ev_Detail := reason\<rparr> # evs)
                   (put_cp cpID cp' s))"

definition Booted :: "gotime \<Rightarrow> string \<Rightarrow> BootInfo \<Rightarrow> Service \<Rightarrow> Service" where
  "Booted now cpID info s =
     (let info' = info\<lparr>bi_At := now\<rparr>
      in svc_publish [(mkEvent EventBootNotified now cpID)\<lparr>ev_Detail := BootInfo_String info'\<rparr>]
           (put_cp cpID ((ensure s cpID)\<lparr>cp_boot := info', cp_lastSeen := now\<rparr>) s))"

definition Seen :: "gotime \<Rightarrow> string \<Rightarrow> Service \<Rightarrow> Service" where
  "Seen now cpID s = put_cp cpID ((ensure s cpID)\<lparr>cp_lastSeen := now\<rparr>) s"

definition Heartbeat :: "gotime \<Rightarrow> string \<Rightarrow> Service \<Rightarrow> Service" where
  "Heartbeat now cpID s =
     svc_publish [mkEvent EventHeartbeat now cpID] (put_cp cpID ((ensure s cpID)\<lparr>cp_lastSeen := now\<rparr>) s)"

text \<open>The two branches of \<open>SetConnectorStatus\<close>: connector 0 is the station as a whole.\<close>

definition apply_status :: "gotime \<Rightarrow> Service \<Rightarrow> string \<Rightarrow> int \<Rightarrow> EVSEStatus \<Rightarrow> string \<Rightarrow> chargePointState
    \<Rightarrow> chargePointState \<times> Event list" where
  "apply_status now s cpID connectorID status errorCode cp =
     (if connectorID = 0
      then (if cp_station cp \<noteq> status
            then (cp\<lparr>cp_station := status\<rparr>,
                  [(mkEvent EventStationStatusChanged now cpID)
                     \<lparr>ev_From := cp_station cp, ev_To := status, ev_ErrorCode := errorCode\<rparr>])
            else (cp, []))
      else let uid = evseUID s cpID connectorID; cpa = addEVSE uid connectorID cp
           in (cpa\<lparr>cp_reported := m_put uid status (cp_reported cpa),
                   cp_errorCode := m_put uid errorCode (cp_errorCode cpa)\<rparr>, []))"

definition SetConnectorStatus :: "gotime \<Rightarrow> string \<Rightarrow> int \<Rightarrow> EVSEStatus \<Rightarrow> string \<Rightarrow> Service \<Rightarrow> Service" where
  "SetConnectorStatus now cpID connectorID status errorCode s =
     (let (cp1, evs1) = apply_status now s cpID connectorID status errorCode ((ensure s cpID)\<lparr>cp_lastSeen := now\<rparr>);
          (cp2, evs2) = recompute now cp1
      in svc_publish (evs1 @ evs2) (put_cp cpID cp2 s))"

definition RecordMeterValues :: "gotime \<Rightarrow> string \<Rightarrow> int \<Rightarrow> string \<Rightarrow> Service \<Rightarrow> Service" where
  "RecordMeterValues now cpID connectorID summary s =
     (let uid = evseUID s cpID connectorID;
          cp = (addEVSE uid connectorID (ensure s cpID))\<lparr>cp_lastSeen := now\<rparr>
      in svc_publish [(mkEvent EventMeterValues now cpID)\<lparr>ev_EVSEUID := uid, ev_Detail := summary\<rparr>]
           (put_cp cpID cp s))"

definition find_status :: "(string \<times> chargePointState) list \<Rightarrow> string \<Rightarrow> EVSEStatus option" where
  "find_status cps uid = fold (\<lambda>(i, cp) acc. case acc of Some x \<Rightarrow> Some x | None \<Rightarrow> map_of (cp_effective cp) uid) cps None"

definition svc_EVSEStatus :: "Service \<Rightarrow> string \<Rightarrow> EVSEStatus option" where
  "svc_EVSEStatus s uid = find_status (svc_cps s) uid"

definition IsOnline :: "Service \<Rightarrow> string \<Rightarrow> bool" where
  "IsOnline s cpID = (case map_of (svc_cps s) cpID of None \<Rightarrow> False | Some cp \<Rightarrow> cp_online cp)"

section \<open>Snapshots\<close>

record EVSESnapshot =
  es_UID :: string
  es_ConnectorID :: int
  es_Status :: EVSEStatus
  es_ErrorCode :: string

record ChargePointSnapshot =
  cs_ID :: string
  cs_Online :: bool
  cs_Boot :: BootInfo
  cs_LastSeen :: gotime
  cs_LastDisconnect :: Disconnect
  cs_StationStatus :: EVSEStatus
  cs_EVSEs :: "EVSESnapshot list"
  cs_Transactions :: "Transaction list"
  cs_Reservations :: "Reservation list"

definition reservationsLocked :: "Service \<Rightarrow> string \<Rightarrow> Reservation list" where
  "reservationsLocked s cpID =
     sort_key r_ID (filter (\<lambda>r. r_ChargePointID r = cpID) (map rs_res (m_vals (svc_reservations s))))"

definition snapshot_cp :: "Service \<Rightarrow> chargePointState \<Rightarrow> ChargePointSnapshot" where
  "snapshot_cp s cp = \<lparr>cs_ID = cp_id cp, cs_Online = cp_online cp, cs_Boot = cp_boot cp,
     cs_LastSeen = cp_lastSeen cp, cs_LastDisconnect = cp_lastDisconnect cp, cs_StationStatus = cp_station cp,
     cs_EVSEs = map (\<lambda>uid. \<lparr>es_UID = uid, es_ConnectorID = m_get 0 (cp_connectorIDs cp) uid,
                            es_Status = m_get NoStatus (cp_effective cp) uid,
                            es_ErrorCode = m_get [] (cp_errorCode cp) uid\<rparr>) (cp_order cp),
     cs_Transactions = sort_key tx_seq (m_vals (cp_transactions cp)),
     cs_Reservations = reservationsLocked s (cp_id cp)\<rparr>"

type_synonym Snapshot = "ChargePointSnapshot list"

definition svc_Snapshot :: "Service \<Rightarrow> Snapshot" where
  "svc_Snapshot s = sort_key cs_ID (map (snapshot_cp s) (m_vals (svc_cps s)))"

definition Snapshot_ChargePoint :: "Snapshot \<Rightarrow> string \<Rightarrow> ChargePointSnapshot option" where
  "Snapshot_ChargePoint snap i = List.find (\<lambda>cp. cs_ID cp = i) snap"

section \<open>Recomputing the effective status\<close>

lemma recompute_loop_frame:
  "recompute_loop at uids cp = (cp', evs) \<Longrightarrow> cp' = cp\<lparr>cp_effective := cp_effective cp'\<rparr>"
proof (induction at uids cp arbitrary: cp' evs rule: recompute_loop.induct)
  case (2 at uid uids cp)
  then show ?case
    by (fastforce simp: Let_def split: if_splits prod.splits)
qed simp

lemma wanted_effective [simp]: "wanted (cp\<lparr>cp_effective := e\<rparr>) = wanted cp"
  by (rule ext) (simp add: wanted_def)

lemma wanted_nonempty [simp]: "wanted cp uid \<noteq> NoStatus"
  by (simp add: wanted_def effectiveStatus_never_empty)

lemma recompute_loop_effective:
  assumes "recompute_loop at uids cp = (cp', evs)"
  shows "map_of (cp_effective cp') = (\<lambda>uid. if uid \<in> set uids then Some (wanted cp uid) else map_of (cp_effective cp) uid)"
  using assms
proof (induction at uids cp arbitrary: cp' evs rule: recompute_loop.induct)
  case (1 at cp)
  then show ?case by simp
next
  case (2 at uid uids cp)
  show ?case
  proof (cases "m_get NoStatus (cp_effective cp) uid = wanted cp uid")
    case True
    with wanted_nonempty [of cp uid] have "map_of (cp_effective cp) uid = Some (wanted cp uid)"
      by (auto simp: m_get_def wanted_nonempty [symmetric] split: option.splits)
    moreover have "recompute_loop at uids cp = (cp', evs)" using "2.prems" True by simp
    ultimately show ?thesis using "2.IH"(1) [OF refl refl True] by (auto simp: fun_eq_iff)
  next
    case False
    with "2.prems" obtain evs' where
      r: "recompute_loop at uids (cp\<lparr>cp_effective := m_put uid (wanted cp uid) (cp_effective cp)\<rparr>) = (cp', evs')"
      by (auto simp: Let_def split: prod.splits)
    from "2.IH"(2) [OF refl refl False refl r] show ?thesis by (auto simp: fun_eq_iff)
  qed
qed

lemma recompute_loop_events:
  assumes "recompute_loop at uids cp = (cp', evs)" and "distinct uids"
  shows "evs = map (\<lambda>uid. status_changed at cp uid (m_get NoStatus (cp_effective cp) uid) (wanted cp uid))
                 (filter (\<lambda>uid. m_get NoStatus (cp_effective cp) uid \<noteq> wanted cp uid) uids)"
  using assms
proof (induction at uids cp arbitrary: cp' evs rule: recompute_loop.induct)
  case (1 at cp)
  then show ?case by simp
next
  case (2 at uid uids cp)
  show ?case
  proof (cases "m_get NoStatus (cp_effective cp) uid = wanted cp uid")
    case True
    then show ?thesis using "2.IH"(1) [OF refl refl True] "2.prems" by simp
  next
    case False
    let ?cp = "cp\<lparr>cp_effective := m_put uid (wanted cp uid) (cp_effective cp)\<rparr>"
    from "2.prems" False obtain evs' where r: "recompute_loop at uids ?cp = (cp', evs')"
      and e: "evs = status_changed at cp uid (m_get NoStatus (cp_effective cp) uid) (wanted cp uid) # evs'"
      by (auto simp: Let_def split: prod.splits)
    have other: "m_get NoStatus (cp_effective ?cp) u = m_get NoStatus (cp_effective cp) u" if "u \<in> set uids" for u
      using that "2.prems"(2) by auto
    have ev: "status_changed at ?cp u g w = status_changed at cp u g w" for u g w
      by (simp add: status_changed_def)
    from "2.IH"(2) [OF refl refl False refl r] "2.prems"(2) other show ?thesis
      by (simp add: e False ev cong: filter_cong map_cong)
  qed
qed

lemma recompute_loop_keys:
  "recompute_loop at uids cp = (cp', evs) \<Longrightarrow> distinct (m_keys (cp_effective cp)) \<Longrightarrow> distinct (m_keys (cp_effective cp'))"
proof (induction at uids cp arbitrary: cp' evs rule: recompute_loop.induct)
  case (2 at uid uids cp)
  then show ?case by (fastforce simp: Let_def split: if_splits prod.splits)
qed simp

section \<open>The invariant of a charge point\<close>

definition cp_inv :: "chargePointState \<Rightarrow> bool" where
  [inv_defs]: "cp_inv cp \<longleftrightarrow>
     distinct (cp_order cp) \<and> distinct (m_keys (cp_effective cp)) \<and> distinct (m_keys (cp_transactions cp))
     \<and> dom (map_of (cp_effective cp)) = set (cp_order cp)
     \<and> dom (map_of (cp_connectorIDs cp)) = set (cp_order cp)
     \<and> dom (map_of (cp_reported cp)) \<subseteq> set (cp_order cp)
     \<and> (\<forall>k t. map_of (cp_transactions cp) k = Some t \<longrightarrow> tx_ID t = k)"

text \<open>The statuses the rest of the program reads are the ones the reports imply.\<close>

definition cp_consistent :: "chargePointState \<Rightarrow> bool" where
  "cp_consistent cp \<longleftrightarrow> (\<forall>uid \<in> set (cp_order cp). map_of (cp_effective cp) uid = Some (wanted cp uid))"

lemma newChargePoint_inv [inv_intros]: "cp_inv (newChargePoint i)"
  by (simp add: newChargePoint_def cp_inv_def)

lemma newChargePoint_consistent: "cp_consistent (newChargePoint i)"
  by (simp add: newChargePoint_def cp_consistent_def)

lemma addEVSE_inv [inv_intros]:
  assumes "cp_inv cp"
  shows "cp_inv (addEVSE uid c cp)"
proof (cases "map_of (cp_effective cp) uid")
  case None
  then have "uid \<notin> set (cp_order cp)" using assms by (auto simp: cp_inv_def domIff)
  with assms None show ?thesis by (auto simp: addEVSE_def cp_inv_def)
qed (use assms in \<open>simp add: addEVSE_def\<close>)

lemma recompute_frame:
  "recompute at cp = (cp', evs) \<Longrightarrow> cp' = cp\<lparr>cp_effective := cp_effective cp'\<rparr>"
  unfolding recompute_def by (rule recompute_loop_frame)

lemma recompute_effective:
  assumes "recompute at cp = (cp', evs)"
  shows "map_of (cp_effective cp') =
    (\<lambda>uid. if uid \<in> set (cp_order cp) then Some (wanted cp uid) else map_of (cp_effective cp) uid)"
  using assms unfolding recompute_def by (rule recompute_loop_effective)

lemma recompute_events:
  assumes "recompute at cp = (cp', evs)" and "cp_inv cp"
  shows "evs = map (\<lambda>uid. status_changed at cp uid (m_get NoStatus (cp_effective cp) uid) (wanted cp uid))
                 (filter (\<lambda>uid. m_get NoStatus (cp_effective cp) uid \<noteq> wanted cp uid) (cp_order cp))"
  using assms unfolding recompute_def cp_inv_def by (intro recompute_loop_events) auto

lemma recompute_fields:
  assumes "recompute at cp = (cp', evs)"
  shows "cp_order cp' = cp_order cp" "cp_online cp' = cp_online cp" "cp_station cp' = cp_station cp"
    "cp_reported cp' = cp_reported cp" "cp_transactions cp' = cp_transactions cp" "cp_id cp' = cp_id cp"
    "cp_connectorIDs cp' = cp_connectorIDs cp" "cp_errorCode cp' = cp_errorCode cp" "wanted cp' = wanted cp"
proof -
  obtain e where "cp' = cp\<lparr>cp_effective := e\<rparr>" using recompute_frame [OF assms] by blast
  then show "cp_order cp' = cp_order cp" "cp_online cp' = cp_online cp" "cp_station cp' = cp_station cp"
    "cp_reported cp' = cp_reported cp" "cp_transactions cp' = cp_transactions cp" "cp_id cp' = cp_id cp"
    "cp_connectorIDs cp' = cp_connectorIDs cp" "cp_errorCode cp' = cp_errorCode cp" "wanted cp' = wanted cp"
    by simp_all
qed

lemma recompute_inv:
  assumes "recompute at cp = (cp', evs)" and "cp_inv cp"
  shows "cp_inv cp'" and "cp_consistent cp'"
proof -
  note f = recompute_fields [OF assms(1)] and e = recompute_effective [OF assms(1)]
  have k: "distinct (m_keys (cp_effective cp'))"
    using assms recompute_loop_keys unfolding recompute_def cp_inv_def by blast
  have "dom (map_of (cp_effective cp')) = set (cp_order cp)"
    using assms(2) by (auto simp: e dom_def cp_inv_def split: if_splits)
  with assms(2) k show "cp_inv cp'" by (simp add: cp_inv_def f)
  show "cp_consistent cp'" by (simp add: cp_consistent_def f e)
qed

text \<open>
  A status-change event is a step of a log: replaying the events on the statuses before the
  change gives the statuses after it. This is what a subscriber that mirrors the station needs.
\<close>

definition replay :: "Event \<Rightarrow> (string \<rightharpoonup> EVSEStatus) \<Rightarrow> (string \<rightharpoonup> EVSEStatus)" where
  "replay e m = (if ev_Kind e = EventEVSEStatusChanged then m(ev_EVSEUID e \<mapsto> ev_To e) else m)"

lemma fold_replay_status_changed:
  "fold replay (map (\<lambda>uid. status_changed at cp uid (f uid) (g uid)) uids) m =
     (\<lambda>uid. if uid \<in> set uids then Some (g uid) else m uid)"
  by (induction uids arbitrary: m) (auto simp: replay_def status_changed_def mkEvent_def fun_eq_iff)

lemma recompute_replay:
  assumes "recompute at cp = (cp', evs)" and "cp_inv cp"
  shows "fold replay evs (map_of (cp_effective cp)) = map_of (cp_effective cp')"
proof (rule ext)
  fix uid
  have "uid \<in> set (cp_order cp) \<Longrightarrow> m_get NoStatus (cp_effective cp) uid = wanted cp uid
      \<Longrightarrow> map_of (cp_effective cp) uid = Some (wanted cp uid)"
    using wanted_nonempty [of cp uid] by (cases "map_of (cp_effective cp) uid") (auto simp: m_get_def)
  then show "fold replay evs (map_of (cp_effective cp)) uid = map_of (cp_effective cp') uid"
    unfolding recompute_events [OF assms] fold_replay_status_changed recompute_effective [OF assms(1)]
    by auto
qed

end
