(* ===== verification/Core_Persist.thy ===== *)
theory Core_Persist
  imports Core_Service
begin

text \<open>
  Package \<open>internal/core\<close>, third part (\<open>persist.go\<close>, \<open>New\<close> and \<open>Close\<close> of \<open>service.go\<close>): what of
  the domain state survives a restart, how it is written and how it is read back.

  \<open>persist\<close> is two sections of code: under the lock it reads what is to be written
  (\<open>persist_fn\<close>, the function it hands to \<open>Store.Update\<close>), then it writes without the lock
  (\<open>commit\<close>). The sequential operations use their composition; the interleaving semantics of
  \<open>Core_Interleaving\<close> lets other operations run in between.
\<close>

section \<open>Timers\<close>

definition stopTimer :: "reservation \<Rightarrow> reservation" where
  "stopTimer r = r\<lparr>rs_timer := None\<rparr>"

definition armLocked :: "gotime \<Rightarrow> reservation \<Rightarrow> reservation" where
  "armLocked now r = (stopTimer r)
     \<lparr>rs_timer := Some \<lparr>tm_after = time_Sub (r_ExpiresAt (rs_res r)) now, tm_id = r_ID (rs_res r),
                        tm_expiresAt = r_ExpiresAt (rs_res r)\<rparr>\<rparr>"

definition connectorID :: "Service \<Rightarrow> string \<Rightarrow> int option" where
  "connectorID s uid = (case svc_cfg s of None \<Rightarrow> None
     | Some c \<Rightarrow> map_option e_OCPPConnectorID (EVSEByUID c uid))"

section \<open>Writing\<close>

definition to_StReservation :: "Reservation \<Rightarrow> StReservation" where
  "to_StReservation r = \<lparr>sr_ID = r_ID r, sr_OCPIReservationID = r_OCPIReservationID r,
     sr_ChargePointID = r_ChargePointID r, sr_EVSEUID = r_EVSEUID r, sr_IDTag = r_IDTag r,
     sr_ExpiresAt = r_ExpiresAt r, sr_CreatedAt = r_CreatedAt r, sr_Source = r_Source r,
     sr_ResponseURL = r_ResponseURL r\<rparr>"

definition to_StTransaction :: "string \<Rightarrow> Transaction \<Rightarrow> StTransaction" where
  "to_StTransaction cpID tx = \<lparr>stx_ID = tx_ID tx, stx_ChargePointID = cpID, stx_EVSEUID = tx_EVSEUID tx,
     stx_ConnectorID = tx_ConnectorID tx, stx_IDTag = tx_IDTag tx, stx_MeterStart = tx_MeterStart tx,
     stx_StartedAt = tx_StartedAt tx, stx_ReservationID = tx_ReservationID tx\<rparr>"

definition active_reservations :: "Service \<Rightarrow> Reservation list" where
  "active_reservations s = filter (\<lambda>r. r_Status r = ReservationActive) (map rs_res (m_vals (svc_reservations s)))"

definition active_transactions :: "Service \<Rightarrow> (string \<times> Transaction) list" where
  "active_transactions s =
     concat (map (\<lambda>cp. map (Pair (cp_id cp)) (filter tx_Active (m_vals (cp_transactions cp)))) (m_vals (svc_cps s)))"

definition persistableLocked :: "Service \<Rightarrow> StReservation list \<times> StTransaction list" where
  "persistableLocked s =
     (sort_key sr_ID (map to_StReservation (active_reservations s)),
      map (\<lambda>(cpID, tx). to_StTransaction cpID tx) (sort_key (tx_seq \<circ> snd) (active_transactions s)))"

definition persist_fn :: "Service \<Rightarrow> State \<Rightarrow> State" where
  "persist_fn s st =
     (let (reservations, transactions) = persistableLocked s
      in st\<lparr>st_NextReservationID := svc_nextReservationID s, st_NextTransactionID := svc_nextTransactionID s,
            st_NextRemoteStartID := svc_nextRemoteStartID s, st_Reservations := Some reservations,
            st_Transactions := Some transactions\<rparr>)"

type_synonym persist_error = "unit + state_error"

definition commit :: "write_env \<Rightarrow> (State \<Rightarrow> State) \<Rightarrow> Service \<Rightarrow> Service \<times> persist_error option" where
  "commit w f s = (case svc_store s of None \<Rightarrow> (s, None)
     | Some store \<Rightarrow> let (store', e) = update_State w f store in (s\<lparr>svc_store := Some store'\<rparr>, e))"

definition persist :: "write_env \<Rightarrow> Service \<Rightarrow> Service \<times> persist_error option" where
  "persist w s = (if svc_store s = None then (s, None) else commit w (persist_fn s) s)"

definition persistOrLog :: "write_env \<Rightarrow> Service \<Rightarrow> Service" where
  "persistOrLog w s = fst (persist w s)"

section \<open>Reading back\<close>

definition load_transaction :: "StTransaction \<Rightarrow> Service \<Rightarrow> Service" where
  "load_transaction t s =
     (let cp = addEVSE (stx_EVSEUID t) (stx_ConnectorID t) (ensure s (stx_ChargePointID t));
          seq = uwrap64 (svc_txSeq s + 1);
          tx = \<lparr>tx_ID = stx_ID t, tx_EVSEUID = stx_EVSEUID t, tx_ConnectorID = stx_ConnectorID t,
                tx_IDTag = stx_IDTag t, tx_MeterStart = stx_MeterStart t, tx_StartedAt = stx_StartedAt t,
                tx_ReservationID = stx_ReservationID t, tx_StoppedAt = zero_time, tx_MeterStop = 0,
                tx_Reason = [], tx_seq = seq\<rparr>;
          cp' = cp\<lparr>cp_transactions := m_put (stx_ID t) tx (cp_transactions cp)\<rparr>;
          s' = (put_cp (stx_ChargePointID t) cp' s)\<lparr>svc_txSeq := seq\<rparr>
      in case Atoi (stx_ID t) of None \<Rightarrow> s'
         | Some n \<Rightarrow> s'\<lparr>svc_nextTransactionID := max (svc_nextTransactionID s') (wrap64 (n + 1))\<rparr>)"

definition from_StReservation :: "int \<Rightarrow> StReservation \<Rightarrow> reservation" where
  "from_StReservation c r = \<lparr>rs_res = \<lparr>r_ID = sr_ID r, r_OCPIReservationID = sr_OCPIReservationID r,
     r_ChargePointID = sr_ChargePointID r, r_EVSEUID = sr_EVSEUID r, r_ConnectorID = c,
     r_IDTag = sr_IDTag r, r_ExpiresAt = sr_ExpiresAt r, r_CreatedAt = sr_CreatedAt r,
     r_Source = sr_Source r, r_ResponseURL = sr_ResponseURL r, r_Status = ReservationActive\<rparr>, rs_timer = None\<rparr>"

definition load_reservation :: "gotime \<Rightarrow> StReservation \<Rightarrow> Service \<times> bool \<Rightarrow> Service \<times> bool" where
  "load_reservation now r = (\<lambda>(s, dropped).
     (if \<not> time_After (sr_ExpiresAt r) now then (s, True)
      else case connectorID s (sr_EVSEUID r) of None \<Rightarrow> (s, True)
      | Some c \<Rightarrow>
         (s\<lparr>svc_reservations := m_put (sr_ID r) (armLocked now (from_StReservation c r)) (svc_reservations s),
            svc_nextReservationID := max (svc_nextReservationID s) (wrap64 (sr_ID r + 1))\<rparr>, dropped)))"

definition loadLocked :: "gotime \<Rightarrow> State \<Rightarrow> Service \<Rightarrow> Service \<times> bool" where
  "loadLocked now st s =
     (let s0 = s\<lparr>svc_nextReservationID := max (st_NextReservationID st) 1,
                 svc_nextTransactionID := max (st_NextTransactionID st) 1,
                 svc_nextRemoteStartID := max (st_NextRemoteStartID st) 1\<rparr>;
          s1 = fold load_transaction (elems (st_Transactions st)) s0
      in fold (load_reservation now) (elems (st_Reservations st)) (s1, False))"

definition load :: "write_env \<Rightarrow> gotime \<Rightarrow> Store \<Rightarrow> Service \<Rightarrow> Service" where
  "load w now store s =
     (let (s', dropped) = loadLocked now (Get store) s
      in if dropped then fst (persist w s') else s')"

text \<open>\<open>New\<close>: the configured charge point with its EVSEs, then what the store holds.\<close>

definition New_memory :: "Config option \<Rightarrow> Store option \<Rightarrow> Service" where
  "New_memory cfg store =
     (let s = \<lparr>svc_cfg = cfg, svc_bus = newBus, svc_store = store, svc_cps = [], svc_reservations = [],
               svc_txSeq = 0, svc_nextReservationID = 1, svc_nextTransactionID = 1, svc_nextRemoteStartID = 1\<rparr>
      in case cfg of None \<Rightarrow> s
         | Some c \<Rightarrow>
             let cp = fold (\<lambda>e. addEVSE (e_UID e) (e_OCPPConnectorID e)) (cfg_EVSEs c)
                        (newChargePoint (ch_ID (cfg_Charger c)))
             in put_cp (cp_id cp) cp s)"

definition New :: "write_env \<Rightarrow> gotime \<Rightarrow> Config option \<Rightarrow> Store option \<Rightarrow> Service" where
  "New w now cfg store =
     (case store of None \<Rightarrow> New_memory cfg store
      | Some st \<Rightarrow> load w now st (New_memory cfg store))"

definition svc_Close :: "Service \<Rightarrow> Service" where
  "svc_Close s = s\<lparr>svc_reservations := map (\<lambda>(i, r). (i, stopTimer r)) (svc_reservations s)\<rparr>"

end
