(* ===== verification/Core_Reservations.thy ===== *)
theory Core_Reservations
  imports Core_Persist
begin

text \<open>
  Package \<open>internal/core\<close>, fourth part (\<open>reservations.go\<close>): the lifecycle of a reservation. An
  operation that writes to the store is a section under the lock (\<open>_locked\<close>), the write, and
  what follows it.
\<close>

definition ReservationExpired :: string where "ReservationExpired = ''expired''"
definition ReservationCancelled :: string where "ReservationCancelled = ''cancelled''"
definition ReservationConsumed :: string where "ReservationConsumed = ''consumed''"
definition ReservationRejected :: string where "ReservationRejected = ''rejected''"
definition ReservationTimeout :: string where "ReservationTimeout = ''timeout''"
definition ReservationFailed :: string where "ReservationFailed = ''failed''"

datatype core_error = UnknownEVSEError string | ErrAlreadyReserved string | RecordingError persist_error

definition reservationOnLocked :: "Service \<Rightarrow> string \<Rightarrow> reservation option" where
  "reservationOnLocked s uid = List.find (\<lambda>r. r_EVSEUID (rs_res r) = uid) (m_vals (svc_reservations s))"

definition BeginReservation_locked :: "gotime \<Rightarrow> Reservation \<Rightarrow> Service \<Rightarrow> core_error + Service \<times> Reservation" where
  "BeginReservation_locked now r s =
     (case connectorID s (r_EVSEUID r) of
        None \<Rightarrow> Inl (UnknownEVSEError (r_EVSEUID r))
      | Some c \<Rightarrow>
          if reservationOnLocked s (r_EVSEUID r) \<noteq> None then Inl (ErrAlreadyReserved (r_EVSEUID r))
          else let i = svc_nextReservationID s;
                   r' = r\<lparr>r_ID := i, r_ConnectorID := c, r_CreatedAt := now, r_Status := ReservationPending\<rparr>
               in Inr (s\<lparr>svc_nextReservationID := wrap64 (i + 1),
                         svc_reservations := m_put i \<lparr>rs_res = r', rs_timer = None\<rparr> (svc_reservations s)\<rparr>, r'))"

text \<open>What \<open>BeginReservation\<close> does when its write failed.\<close>

definition BeginReservation_undo :: "int \<Rightarrow> Service \<Rightarrow> Service" where
  "BeginReservation_undo i s = s\<lparr>svc_reservations := m_del i (svc_reservations s)\<rparr>"

definition BeginReservation :: "write_env \<Rightarrow> gotime \<Rightarrow> Reservation \<Rightarrow> Service \<Rightarrow> Service \<times> (core_error + Reservation)" where
  "BeginReservation w now r s =
     (case BeginReservation_locked now r s of
        Inl e \<Rightarrow> (s, Inl e)
      | Inr (s1, r') \<Rightarrow>
          (case persist w s1 of
             (s2, Some e) \<Rightarrow> (BeginReservation_undo (r_ID r') s2, Inl (RecordingError e))
           | (s2, None) \<Rightarrow> (s2, Inr r')))"

definition reservation_event :: "EventKind \<Rightarrow> gotime \<Rightarrow> Reservation \<Rightarrow> string \<Rightarrow> Event" where
  "reservation_event k now r detail = (mkEvent k now (r_ChargePointID r))
     \<lparr>ev_EVSEUID := r_EVSEUID r, ev_ReservationID := r_ID r, ev_IDTag := r_IDTag r, ev_Detail := detail\<rparr>"

definition ActivateReservation_locked :: "gotime \<Rightarrow> int \<Rightarrow> Service \<Rightarrow> (Service \<times> Reservation) option" where
  "ActivateReservation_locked now i s =
     (case map_of (svc_reservations s) i of
        None \<Rightarrow> None
      | Some r \<Rightarrow>
          if r_Status (rs_res r) \<noteq> ReservationPending then None
          else let r' = armLocked now (r\<lparr>rs_res := (rs_res r)\<lparr>r_Status := ReservationActive\<rparr>\<rparr>)
               in Some (s\<lparr>svc_reservations := m_put i r' (svc_reservations s)\<rparr>, rs_res r'))"

definition ActivateReservation :: "write_env \<Rightarrow> gotime \<Rightarrow> int \<Rightarrow> Service \<Rightarrow> Service \<times> Reservation option" where
  "ActivateReservation w now i s =
     (case ActivateReservation_locked now i s of
        None \<Rightarrow> (s, None)
      | Some (s1, r) \<Rightarrow>
          (svc_publish [reservation_event EventReservationCreated now r (format_rfc3339 (UTC (r_ExpiresAt r)))]
             (fst (persist w s1)), Some r))"

definition endLocked :: "gotime \<Rightarrow> reservation \<Rightarrow> string \<Rightarrow> Service \<Rightarrow> Service \<times> Event" where
  "endLocked now r reason s =
     (s\<lparr>svc_reservations := m_del (r_ID (rs_res r)) (svc_reservations s)\<rparr>,
      reservation_event EventReservationEnded now (rs_res r) reason)"

definition EndReservation_locked :: "gotime \<Rightarrow> int \<Rightarrow> string \<Rightarrow> Service
    \<Rightarrow> (Service \<times> Reservation \<times> bool \<times> Event) option" where
  "EndReservation_locked now i reason s =
     (case map_of (svc_reservations s) i of
        None \<Rightarrow> None
      | Some r \<Rightarrow>
          let cancelling = r_Status (rs_res r) = ReservationCancelling; (s1, e) = endLocked now r reason s
          in Some (s1, rs_res r, cancelling, e))"

definition EndReservation :: "write_env \<Rightarrow> gotime \<Rightarrow> int \<Rightarrow> string \<Rightarrow> Service \<Rightarrow> Service \<times> Reservation option" where
  "EndReservation w now i reason s =
     (case EndReservation_locked now i reason s of
        None \<Rightarrow> (s, None)
      | Some (s1, r, cancelling, e) \<Rightarrow>
          if cancelling then (s1, Some r)
          else (svc_publish [e] (persistOrLog w s1), Some r))"

definition OrphanReservation_locked :: "int \<Rightarrow> Service \<Rightarrow> (Service \<times> Reservation) option" where
  "OrphanReservation_locked i s =
     (case map_of (svc_reservations s) i of
        None \<Rightarrow> None
      | Some r \<Rightarrow>
          if r_Status (rs_res r) \<noteq> ReservationPending then None
          else let r' = (stopTimer r)\<lparr>rs_res := (rs_res r)\<lparr>r_Status := ReservationCancelling\<rparr>\<rparr>
               in Some (s\<lparr>svc_reservations := m_put i r' (svc_reservations s)\<rparr>, rs_res r'))"

definition OrphanReservation :: "gotime \<Rightarrow> int \<Rightarrow> string \<Rightarrow> Service \<Rightarrow> Service \<times> Reservation option" where
  "OrphanReservation now i reason s =
     (case OrphanReservation_locked i s of
        None \<Rightarrow> (s, None)
      | Some (s1, r) \<Rightarrow> (svc_publish [reservation_event EventReservationEnded now r reason] s1, Some r))"

definition ActiveReservation :: "Service \<Rightarrow> string \<Rightarrow> Reservation option" where
  "ActiveReservation s uid = (case reservationOnLocked s uid of
       None \<Rightarrow> None
     | Some r \<Rightarrow> if r_Status (rs_res r) \<noteq> ReservationActive then None else Some (rs_res r))"

definition expire_locked :: "gotime \<Rightarrow> int \<Rightarrow> gotime \<Rightarrow> Service \<Rightarrow> (Service \<times> Event) option" where
  "expire_locked now i expiresAt s =
     (case map_of (svc_reservations s) i of
        None \<Rightarrow> None
      | Some r \<Rightarrow>
          if r_Status (rs_res r) \<noteq> ReservationActive \<or> \<not> time_Equal (r_ExpiresAt (rs_res r)) expiresAt then None
          else Some (endLocked now r ReservationExpired s))"

definition expire :: "write_env \<Rightarrow> gotime \<Rightarrow> int \<Rightarrow> gotime \<Rightarrow> Service \<Rightarrow> Service" where
  "expire w now i expiresAt s =
     (case expire_locked now i expiresAt s of
        None \<Rightarrow> s
      | Some (s1, e) \<Rightarrow> svc_publish [e] (persistOrLog w s1))"

end
