(* ===== verification/Core_Transactions.thy ===== *)
theory Core_Transactions
  imports Core_Reservations
begin

text \<open>
  Package \<open>internal/core\<close>, fifth part (\<open>transactions.go\<close>): charging sessions, the ids handed out for
  them, and how a session redeems a reservation.
\<close>

record TransactionStart =
  ts_ID :: string
  ts_ConnectorID :: int
  ts_IDTag :: string
  ts_MeterStart :: int
  ts_ReservationID :: int
  ts_At :: gotime

definition NextTransactionID_locked :: "Service \<Rightarrow> Service \<times> int" where
  "NextTransactionID_locked s =
     (s\<lparr>svc_nextTransactionID := wrap64 (svc_nextTransactionID s + 1)\<rparr>, svc_nextTransactionID s)"

definition NextTransactionID :: "write_env \<Rightarrow> Service \<Rightarrow> Service \<times> int" where
  "NextTransactionID w s = (let (s1, i) = NextTransactionID_locked s in (fst (persist w s1), i))"

definition NextRemoteStartID_locked :: "Service \<Rightarrow> Service \<times> int" where
  "NextRemoteStartID_locked s =
     (s\<lparr>svc_nextRemoteStartID := wrap64 (svc_nextRemoteStartID s + 1)\<rparr>, svc_nextRemoteStartID s)"

definition NextRemoteStartID :: "write_env \<Rightarrow> Service \<Rightarrow> Service \<times> (persist_error + int)" where
  "NextRemoteStartID w s =
     (let (s1, i) = NextRemoteStartID_locked s
      in case persist w s1 of (s2, Some e) \<Rightarrow> (s2, Inl e) | (s2, None) \<Rightarrow> (s2, Inr i))"

definition redeemedLocked :: "Service \<Rightarrow> string \<Rightarrow> string \<Rightarrow> TransactionStart \<Rightarrow> reservation option" where
  "redeemedLocked s cpID uid t =
     (let byTag = List.find (\<lambda>r. r_ChargePointID (rs_res r) = cpID \<and> r_EVSEUID (rs_res r) = uid
                    \<and> r_Status (rs_res r) = ReservationActive \<and> EqualFold (r_IDTag (rs_res r)) (ts_IDTag t))
                  (m_vals (svc_reservations s))
      in if ts_ReservationID t \<noteq> 0
         then (case map_of (svc_reservations s) (ts_ReservationID t) of
                 Some r \<Rightarrow> if r_ChargePointID (rs_res r) = cpID \<and> r_Status (rs_res r) = ReservationActive
                           then Some r else byTag
               | None \<Rightarrow> byTag)
         else byTag)"

definition reservationOnEVSELocked :: "Service \<Rightarrow> string \<Rightarrow> string \<Rightarrow> reservation option" where
  "reservationOnEVSELocked s cpID uid =
     List.find (\<lambda>r. r_ChargePointID (rs_res r) = cpID \<and> r_EVSEUID (rs_res r) = uid
                  \<and> r_Status (rs_res r) = ReservationActive) (m_vals (svc_reservations s))"

definition StartTransaction_locked :: "gotime \<Rightarrow> string \<Rightarrow> TransactionStart \<Rightarrow> Service
    \<Rightarrow> Service \<times> Transaction \<times> Event list" where
  "StartTransaction_locked now cpID t s =
     (let uid = evseUID s cpID (ts_ConnectorID t);
          cp = addEVSE uid (ts_ConnectorID t) (ensure s cpID);
          seq = uwrap64 (svc_txSeq s + 1);
          tx = \<lparr>tx_ID = ts_ID t, tx_EVSEUID = uid, tx_ConnectorID = ts_ConnectorID t, tx_IDTag = ts_IDTag t,
                tx_MeterStart = ts_MeterStart t, tx_StartedAt = ts_At t, tx_ReservationID = ts_ReservationID t,
                tx_StoppedAt = zero_time, tx_MeterStop = 0, tx_Reason = [], tx_seq = seq\<rparr>;
          (s1, tx', events) =
            (case redeemedLocked s cpID uid t of
               Some r \<Rightarrow> (case endLocked now r ReservationConsumed s of
                           (s', e) \<Rightarrow> (s', tx\<lparr>tx_ReservationID := r_ID (rs_res r)\<rparr>, [e]))
             | None \<Rightarrow> (case reservationOnEVSELocked s cpID uid of
                           Some r \<Rightarrow> (case endLocked now r ReservationFailed s of (s', e) \<Rightarrow> (s', tx, [e]))
                         | None \<Rightarrow> (s, tx, [])));
          cp' = cp\<lparr>cp_transactions := m_put (ts_ID t) tx' (cp_transactions cp), cp_lastSeen := now\<rparr>
      in ((put_cp cpID cp' s1)\<lparr>svc_txSeq := seq\<rparr>, tx', events))"

definition tx_started_event :: "string \<Rightarrow> Transaction \<Rightarrow> Event" where
  "tx_started_event cpID tx = (mkEvent EventTransactionStarted (tx_StartedAt tx) cpID)
     \<lparr>ev_EVSEUID := tx_EVSEUID tx, ev_TransactionID := tx_ID tx, ev_IDTag := tx_IDTag tx\<rparr>"

definition StartTransaction :: "write_env \<Rightarrow> gotime \<Rightarrow> string \<Rightarrow> TransactionStart \<Rightarrow> Service \<Rightarrow> Service \<times> Transaction" where
  "StartTransaction w now cpID t s =
     (let t' = (if IsZero (ts_At t) then t\<lparr>ts_At := now\<rparr> else t);
          (s1, tx, events) = StartTransaction_locked now cpID t' s
      in (svc_publish (tx_started_event cpID tx # events) (fst (persist w s1)), tx))"

definition StopTransaction_locked :: "gotime \<Rightarrow> string \<Rightarrow> string \<Rightarrow> int \<Rightarrow> string \<Rightarrow> gotime \<Rightarrow> Service
    \<Rightarrow> Service \<times> Transaction option" where
  "StopTransaction_locked now cpID txID meterStop reason at s =
     (let cp = ensure s cpID
      in case map_of (cp_transactions cp) txID of
           None \<Rightarrow> (put_cp cpID cp s, None)
         | Some tx \<Rightarrow>
             if \<not> tx_Active tx then (put_cp cpID cp s, None)
             else let tx' = tx\<lparr>tx_StoppedAt := at, tx_MeterStop := meterStop, tx_Reason := reason\<rparr>
                  in (put_cp cpID (cp\<lparr>cp_transactions := m_put txID tx' (cp_transactions cp),
                                      cp_lastSeen := now\<rparr>) s, Some tx'))"

definition StopTransaction :: "write_env \<Rightarrow> gotime \<Rightarrow> string \<Rightarrow> string \<Rightarrow> int \<Rightarrow> string \<Rightarrow> gotime \<Rightarrow> Service
    \<Rightarrow> Service \<times> Transaction option" where
  "StopTransaction w now cpID txID meterStop reason at s =
     (let at' = (if IsZero at then now else at)
      in case StopTransaction_locked now cpID txID meterStop reason at' s of
           (s1, None) \<Rightarrow> (s1, None)
         | (s1, Some tx) \<Rightarrow>
             (svc_publish [(mkEvent EventTransactionStopped at' cpID)
                 \<lparr>ev_EVSEUID := tx_EVSEUID tx, ev_TransactionID := txID, ev_IDTag := tx_IDTag tx,
                  ev_Detail := reason\<rparr>] (fst (persist w s1)), Some tx))"

definition ActiveTransactions :: "Service \<Rightarrow> string \<Rightarrow> Transaction list" where
  "ActiveTransactions s uid =
     concat (map (\<lambda>cp. filter (\<lambda>tx. tx_EVSEUID tx = uid \<and> tx_Active tx) (m_vals (cp_transactions cp)))
       (m_vals (svc_cps s)))"

end
