(* ===== verification/Core_Invariant.thy ===== *)
theory Core_Invariant
  imports Core_Transactions
begin

text \<open>
  The invariant of the domain service and its preservation by every operation of
  \<open>internal/core\<close>: charge points keyed by their id, effective statuses that follow from the
  reports, reservations keyed by an id that was handed out, at most one of them per EVSE, an
  armed expiry exactly on the active ones.
\<close>

declare map_of_eq_Some_iff [simp del] Some_eq_map_of_iff [simp del]

section \<open>Charge points\<close>

definition tx_range :: "Transaction \<Rightarrow> bool" where
  "tx_range t \<longleftrightarrow> int64_range (tx_ConnectorID t) \<and> int64_range (tx_MeterStart t) \<and> int64_range (tx_ReservationID t)"

text \<open>
  A status is what the reports imply. An EVSE that no report has named may still have the
  UNKNOWN it was registered with.
\<close>

definition cp_faithful :: "chargePointState \<Rightarrow> bool" where
  "cp_faithful cp \<longleftrightarrow> (\<forall>uid \<in> set (cp_order cp).
     map_of (cp_effective cp) uid = Some (wanted cp uid)
     \<or> map_of (cp_reported cp) uid = None \<and> map_of (cp_effective cp) uid = Some StatusUnknown)"

definition cp_ok :: "string \<Rightarrow> chargePointState \<Rightarrow> bool" where
  [inv_defs]: "cp_ok i cp \<longleftrightarrow> cp_id cp = i \<and> cp_inv cp \<and> cp_faithful cp \<and> (\<forall>t \<in> set (m_vals (cp_transactions cp)). tx_range t)"

definition cps_inv :: "(string \<times> chargePointState) list \<Rightarrow> bool" where
  [inv_defs]: "cps_inv cps \<longleftrightarrow> distinct (m_keys cps) \<and> (\<forall>i cp. map_of cps i = Some cp \<longrightarrow> cp_ok i cp)"

lemma cp_consistent_faithful: "cp_consistent cp \<Longrightarrow> cp_faithful cp"
  by (simp add: cp_consistent_def cp_faithful_def)

lemma newChargePoint_ok [inv_intros]: "cp_ok i (newChargePoint i)"
  using newChargePoint_inv [of i] cp_consistent_faithful [OF newChargePoint_consistent, of i]
  by (simp add: cp_ok_def newChargePoint_def)

lemma ensure_ok [inv_intros]: "cps_inv (svc_cps s) \<Longrightarrow> cp_ok i (ensure s i)"
  by (auto simp: cps_inv_def ensure_def intro: newChargePoint_ok split: option.splits)

lemma put_ok: "cps_inv cps \<Longrightarrow> cp_ok i cp \<Longrightarrow> cps_inv (m_put i cp cps)"
  by (simp add: cps_inv_def)

lemma addEVSE_fields [simp]:
  "cp_id (addEVSE u c cp) = cp_id cp" "cp_online (addEVSE u c cp) = cp_online cp"
  "cp_station (addEVSE u c cp) = cp_station cp" "cp_reported (addEVSE u c cp) = cp_reported cp"
  "cp_errorCode (addEVSE u c cp) = cp_errorCode cp" "cp_transactions (addEVSE u c cp) = cp_transactions cp"
  "cp_boot (addEVSE u c cp) = cp_boot cp" "cp_lastDisconnect (addEVSE u c cp) = cp_lastDisconnect cp"
  "wanted (addEVSE u c cp) = wanted cp"
  by (simp_all add: addEVSE_def wanted_def fun_eq_iff)

lemma addEVSE_order:
  "cp_inv cp \<Longrightarrow> set (cp_order (addEVSE u c cp)) = insert u (set (cp_order cp))"
  by (auto simp: addEVSE_def cp_inv_def domIff)

lemma addEVSE_ok [inv_intros]:
  assumes "cp_ok i cp"
  shows "cp_ok i (addEVSE u c cp)"
proof (cases "map_of (cp_effective cp) u")
  case None
  then have u: "u \<notin> set (cp_order cp)" using assms unfolding cp_ok_def cp_inv_def by blast
  then have "u \<notin> dom (map_of (cp_reported cp))" using assms unfolding cp_ok_def cp_inv_def by blast
  then have "map_of (cp_reported cp) u = None" by (simp add: domIff)
  with assms None u have "cp_faithful (addEVSE u c cp)"
    by (auto simp: cp_ok_def cp_faithful_def addEVSE_def wanted_def)
  with assms show ?thesis by (simp add: cp_ok_def addEVSE_inv)
qed (use assms in \<open>simp add: addEVSE_def\<close>)

lemma recompute_ok:
  assumes "recompute at cp = (cp', evs)" and "cp_inv cp" and "cp_id cp = i"
    and "\<forall>t \<in> set (m_vals (cp_transactions cp)). tx_range t"
  shows "cp_ok i cp'"
  using recompute_inv [OF assms(1,2)] recompute_fields [OF assms(1)] assms(3,4)
  by (simp add: cp_ok_def cp_consistent_faithful)

text \<open>Updates of the fields the invariant does not read.\<close>

lemma cp_ok_fields [simp]:
  "cp_ok i (cp\<lparr>cp_lastSeen := t\<rparr>) = cp_ok i cp" "cp_ok i (cp\<lparr>cp_boot := b\<rparr>) = cp_ok i cp"
  by (simp_all add: cp_ok_def cp_inv_def cp_faithful_def wanted_def)

lemma cp_inv_fields [simp]:
  "cp_inv (cp\<lparr>cp_lastSeen := t\<rparr>) = cp_inv cp" "cp_inv (cp\<lparr>cp_online := b\<rparr>) = cp_inv cp"
  "cp_inv (cp\<lparr>cp_lastDisconnect := d\<rparr>) = cp_inv cp" "cp_inv (cp\<lparr>cp_station := st\<rparr>) = cp_inv cp"
  "cp_inv (cp\<lparr>cp_errorCode := e\<rparr>) = cp_inv cp"
  by (simp_all add: cp_inv_def)

lemma cp_ok_put_tx:
  assumes "cp_ok i cp" and "tx_ID t = k" and "tx_range t"
  shows "cp_ok i (cp\<lparr>cp_transactions := m_put k t (cp_transactions cp)\<rparr>)"
proof -
  have "\<forall>x \<in> set (m_vals (m_put k t (cp_transactions cp))). tx_range x"
    using assms(1,3) in_vals_put [of _ k t "cp_transactions cp"] unfolding cp_ok_def by blast
  with assms show ?thesis by (simp add: cp_ok_def cp_inv_def cp_faithful_def wanted_def)
qed

section \<open>Reservations\<close>

definition timer_ok :: "reservation \<Rightarrow> bool" where
  "timer_ok r \<longleftrightarrow>
     (case rs_timer r of None \<Rightarrow> r_Status (rs_res r) \<noteq> ReservationActive
      | Some t \<Rightarrow> r_Status (rs_res r) = ReservationActive \<and> tm_id t = r_ID (rs_res r)
                  \<and> tm_expiresAt t = r_ExpiresAt (rs_res r))"

definition res_ok :: "Config option \<Rightarrow> int \<Rightarrow> int \<Rightarrow> reservation \<Rightarrow> bool" where
  "res_ok cfg next i r \<longleftrightarrow> r_ID (rs_res r) = i \<and> 1 \<le> i \<and> i < next \<and> timer_ok r
     \<and> (\<exists>c e. cfg = Some c \<and> EVSEByUID c (r_EVSEUID (rs_res r)) = Some e
              \<and> r_ConnectorID (rs_res r) = e_OCPPConnectorID e)"

definition exclusive :: "(int \<times> reservation) list \<Rightarrow> bool" where
  "exclusive rs \<longleftrightarrow> (\<forall>i j r r'. map_of rs i = Some r \<longrightarrow> map_of rs j = Some r'
     \<longrightarrow> r_EVSEUID (rs_res r) = r_EVSEUID (rs_res r') \<longrightarrow> i = j)"

definition res_inv :: "Config option \<Rightarrow> int \<Rightarrow> (int \<times> reservation) list \<Rightarrow> bool" where
  [inv_defs]: "res_inv cfg next rs \<longleftrightarrow> distinct (m_keys rs) \<and> exclusive rs
     \<and> (\<forall>i r. map_of rs i = Some r \<longrightarrow> res_ok cfg next i r)"

lemma res_inv_empty [inv_intros]: "res_inv cfg n []"
  by (simp add: res_inv_def exclusive_def)

lemma res_inv_del [inv_intros]: "res_inv cfg n rs \<Longrightarrow> res_inv cfg n (m_del i rs)"
  by (auto simp: res_inv_def exclusive_def split: if_splits)

lemma res_inv_mono: "res_inv cfg n rs \<Longrightarrow> n \<le> m \<Longrightarrow> res_inv cfg m rs"
  by (fastforce simp: res_inv_def res_ok_def)

lemma res_inv_update:
  assumes "res_inv cfg n rs" and "map_of rs i = Some r" and "r_EVSEUID (rs_res r') = r_EVSEUID (rs_res r)"
    and "res_ok cfg n i r'"
  shows "res_inv cfg n (m_put i r' rs)"
  using assms by (auto simp: res_inv_def exclusive_def)

lemma res_inv_new:
  assumes "res_inv cfg n rs" and "\<And>r'. r' \<in> set (m_vals rs) \<Longrightarrow> r_EVSEUID (rs_res r') \<noteq> r_EVSEUID (rs_res r)"
    and "res_ok cfg n i r"
  shows "res_inv cfg n (m_put i r rs)"
proof -
  have "r_EVSEUID (rs_res r') \<noteq> r_EVSEUID (rs_res r)" if "map_of rs j = Some r'" for j r'
    using assms(1,2) that in_vals_iff [of rs r'] by (auto simp: res_inv_def)
  then show ?thesis using assms(1,3) by (fastforce simp: res_inv_def exclusive_def)
qed

section \<open>The service\<close>

definition ids_inv :: "Service \<Rightarrow> bool" where
  [inv_defs]: "ids_inv s \<longleftrightarrow>
     1 \<le> svc_nextReservationID s \<and> svc_nextReservationID s \<le> max_int64
     \<and> 1 \<le> svc_nextTransactionID s \<and> svc_nextTransactionID s \<le> max_int64
     \<and> 1 \<le> svc_nextRemoteStartID s \<and> svc_nextRemoteStartID s \<le> max_int64"

definition svc_inv :: "Service \<Rightarrow> bool" where
  "svc_inv s \<longleftrightarrow> cps_inv (svc_cps s) \<and> res_inv (svc_cfg s) (svc_nextReservationID s) (svc_reservations s)
     \<and> ids_inv s \<and> bus_inv (svc_bus s)"

lemma svc_publish_inv [simp]: "svc_inv s \<Longrightarrow> svc_inv (svc_publish es s)"
  by (simp add: svc_inv_def svc_publish_def ids_inv_def publishAll_inv)

lemma svc_publish_fields [simp]:
  "svc_reservations (svc_publish es s) = svc_reservations s" "svc_cps (svc_publish es s) = svc_cps s"
  "svc_cfg (svc_publish es s) = svc_cfg s" "svc_store (svc_publish es s) = svc_store s"
  "svc_nextReservationID (svc_publish es s) = svc_nextReservationID s"
  "svc_nextTransactionID (svc_publish es s) = svc_nextTransactionID s"
  by (simp_all add: svc_publish_def)

lemma persist_frame [simp]:
  "svc_reservations (fst (persist w s)) = svc_reservations s" "svc_cps (fst (persist w s)) = svc_cps s"
  "svc_cfg (fst (persist w s)) = svc_cfg s" "svc_bus (fst (persist w s)) = svc_bus s"
  "svc_nextReservationID (fst (persist w s)) = svc_nextReservationID s"
  "svc_nextTransactionID (fst (persist w s)) = svc_nextTransactionID s"
  by (auto simp: persist_def commit_def split: option.splits prod.splits)

lemma put_cp_inv: "svc_inv s \<Longrightarrow> cp_ok i cp \<Longrightarrow> svc_inv (put_cp i cp s)"
  by (simp add: svc_inv_def put_cp_def ids_inv_def put_ok)

lemma put_publish_inv: "svc_inv s \<Longrightarrow> cp_ok i cp \<Longrightarrow> svc_inv (svc_publish es (put_cp i cp s))"
  by (simp add: put_cp_inv)

lemma svc_inv_ensure: "svc_inv s \<Longrightarrow> cp_ok i (ensure s i)"
  by (simp add: svc_inv_def ensure_ok)

lemma cp_ok_dest: "cp_ok i cp \<Longrightarrow> cp_inv cp \<and> cp_id cp = i \<and> (\<forall>t \<in> set (m_vals (cp_transactions cp)). tx_range t)"
  by (simp add: cp_ok_def)

lemma commit_inv [inv_intros]: "svc_inv s \<Longrightarrow> svc_inv (fst (commit w f s))"
  by (auto simp: commit_def svc_inv_def ids_inv_def split: option.splits prod.splits)

lemma persist_inv [inv_intros]: "svc_inv s \<Longrightarrow> svc_inv (fst (persist w s))"
  by (simp add: persist_def commit_inv)

subsection \<open>What the station causes\<close>

lemma Seen_inv: "svc_inv s \<Longrightarrow> svc_inv (Seen now i s)"
  by (simp add: Seen_def put_cp_inv svc_inv_ensure)

lemma Heartbeat_inv: "svc_inv s \<Longrightarrow> svc_inv (Heartbeat now i s)"
  by (simp add: Heartbeat_def put_publish_inv svc_inv_ensure)

lemma Booted_inv: "svc_inv s \<Longrightarrow> svc_inv (Booted now i info s)"
  by (simp add: Booted_def Let_def put_publish_inv svc_inv_ensure)

lemma Connected_inv:
  assumes "svc_inv s" shows "svc_inv (Connected now i s)"
proof -
  let ?cp = "(ensure s i)\<lparr>cp_online := True, cp_lastSeen := now\<rparr>"
  obtain cp' evs where r: "recompute now ?cp = (cp', evs)" by (rule prod.exhaust)
  have "cp_ok i cp'" using cp_ok_dest [OF svc_inv_ensure [OF assms, of i]]
    by (intro recompute_ok [OF r]) simp_all
  then show ?thesis using assms by (simp add: Connected_def r put_publish_inv)
qed

lemma Disconnected_inv:
  assumes "svc_inv s" shows "svc_inv (Disconnected now i reason s)"
proof -
  let ?cp = "(ensure s i)\<lparr>cp_online := False, cp_lastDisconnect := \<lparr>dc_At = now, dc_Reason = reason\<rparr>\<rparr>"
  obtain cp' evs where r: "recompute now ?cp = (cp', evs)" by (rule prod.exhaust)
  have "cp_ok i cp'" using cp_ok_dest [OF svc_inv_ensure [OF assms, of i]]
    by (intro recompute_ok [OF r]) simp_all
  then show ?thesis using assms
    by (simp add: Disconnected_def Let_def r put_publish_inv put_cp_inv svc_inv_ensure)
qed

lemma apply_status_inv:
  assumes "cp_inv cp" and "apply_status now s i c st err cp = (cp1, evs)"
  shows "cp_inv cp1" "cp_id cp1 = cp_id cp" "cp_transactions cp1 = cp_transactions cp" "cp_online cp1 = cp_online cp"
proof -
  let ?u = "evseUID s i c" and ?cpa = "addEVSE (evseUID s i c) c cp"
  have "cp_inv (?cpa\<lparr>cp_reported := m_put ?u st (cp_reported ?cpa), cp_errorCode := m_put ?u err (cp_errorCode ?cpa)\<rparr>)"
    using addEVSE_inv [OF assms(1), of ?u c] addEVSE_order [OF assms(1), of ?u c] by (auto simp: cp_inv_def)
  with assms show "cp_inv cp1" by (auto simp: apply_status_def Let_def split: if_splits)
  show "cp_id cp1 = cp_id cp" "cp_transactions cp1 = cp_transactions cp" "cp_online cp1 = cp_online cp"
    using assms(2) by (auto simp: apply_status_def Let_def split: if_splits)
qed

lemma SetConnectorStatus_inv:
  assumes "svc_inv s" shows "svc_inv (SetConnectorStatus now i c st err s)"
proof -
  let ?cp = "(ensure s i)\<lparr>cp_lastSeen := now\<rparr>"
  note e = cp_ok_dest [OF svc_inv_ensure [OF assms, of i]]
  obtain cp1 evs1 where a: "apply_status now s i c st err ?cp = (cp1, evs1)" by (rule prod.exhaust)
  obtain cp2 evs2 where r: "recompute now cp1 = (cp2, evs2)" by (rule prod.exhaust)
  have "cp_inv ?cp" using e by simp
  from apply_status_inv [OF this a] e have "cp_ok i cp2" by (intro recompute_ok [OF r]) simp_all
  then show ?thesis using assms by (simp add: SetConnectorStatus_def a r put_publish_inv)
qed

lemma RecordMeterValues_inv: "svc_inv s \<Longrightarrow> svc_inv (RecordMeterValues now i c m s)"
  by (simp add: RecordMeterValues_def Let_def put_publish_inv addEVSE_ok svc_inv_ensure)

subsection \<open>Reservations and transactions\<close>

lemma connectorID_Some:
  "connectorID s uid = Some c \<longleftrightarrow> (\<exists>cfg e. svc_cfg s = Some cfg \<and> EVSEByUID cfg uid = Some e \<and> c = e_OCPPConnectorID e)"
  by (auto simp: connectorID_def split: option.splits)

lemma reservationOnLocked_None:
  "reservationOnLocked s uid = None \<longleftrightarrow> (\<forall>r \<in> set (m_vals (svc_reservations s)). r_EVSEUID (rs_res r) \<noteq> uid)"
  by (auto simp: reservationOnLocked_def find_None_iff)

lemma BeginReservation_locked_Inr:
  assumes "BeginReservation_locked now r s = Inr (s', r')"
  shows "connectorID s (r_EVSEUID r) = Some (r_ConnectorID r') \<and> reservationOnLocked s (r_EVSEUID r) = None
    \<and> r_ID r' = svc_nextReservationID s \<and> r_Status r' = ReservationPending \<and> r_EVSEUID r' = r_EVSEUID r
    \<and> r_ChargePointID r' = r_ChargePointID r \<and> r_IDTag r' = r_IDTag r \<and> r_ExpiresAt r' = r_ExpiresAt r
    \<and> s' = s\<lparr>svc_nextReservationID := wrap64 (svc_nextReservationID s + 1),
             svc_reservations := m_put (svc_nextReservationID s) \<lparr>rs_res = r', rs_timer = None\<rparr> (svc_reservations s)\<rparr>"
  using assms by (auto simp: BeginReservation_locked_def Let_def split: option.splits if_splits)

lemma BeginReservation_locked_inv:
  assumes "svc_inv s" and "BeginReservation_locked now r s = Inr (s', r')" and "svc_nextReservationID s < max_int64"
  shows "svc_inv s'"
proof -
  note b = BeginReservation_locked_Inr [OF assms(2)]
  let ?n = "svc_nextReservationID s" and ?r = "\<lparr>rs_res = r', rs_timer = None\<rparr> :: reservation"
  have pos: "1 \<le> ?n" using assms(1) by (simp add: svc_inv_def ids_inv_def)
  then have inc: "wrap64 (?n + 1) = ?n + 1" using assms(3) by (simp add: wrap64_inc)
  have ok: "res_ok (svc_cfg s) (?n + 1) ?n ?r"
    using b pos by (auto simp: res_ok_def timer_ok_def connectorID_Some)
  have "res_inv (svc_cfg s) (?n + 1) (m_put ?n ?r (svc_reservations s))"
  proof (rule res_inv_new [OF res_inv_mono _ ok])
    show "res_inv (svc_cfg s) ?n (svc_reservations s)" using assms(1) by (simp add: svc_inv_def)
    show "r_EVSEUID (rs_res x) \<noteq> r_EVSEUID (rs_res ?r)" if "x \<in> set (m_vals (svc_reservations s))" for x
      using b that unfolding reservationOnLocked_None by auto
  qed simp
  then show ?thesis using assms(1,3) b inc pos
    by (simp add: svc_inv_def ids_inv_def)
qed

lemma svc_inv_del: "svc_inv s \<Longrightarrow> svc_inv (s\<lparr>svc_reservations := m_del i (svc_reservations s)\<rparr>)"
  by (simp add: svc_inv_def ids_inv_def res_inv_del)

lemma BeginReservation_undo_inv: "svc_inv s \<Longrightarrow> svc_inv (BeginReservation_undo i s)"
  by (simp add: BeginReservation_undo_def svc_inv_del)

lemma endLocked_inv: "svc_inv s \<Longrightarrow> endLocked now r reason s = (s', e) \<Longrightarrow> svc_inv s'"
  by (auto simp: endLocked_def svc_inv_del)

lemma svc_inv_update:
  assumes "svc_inv s" and "map_of (svc_reservations s) i = Some r"
    and "r_EVSEUID (rs_res r') = r_EVSEUID (rs_res r)" and "r_ID (rs_res r') = r_ID (rs_res r)"
    and "r_ConnectorID (rs_res r') = r_ConnectorID (rs_res r)" and "timer_ok r'"
  shows "svc_inv (s\<lparr>svc_reservations := m_put i r' (svc_reservations s)\<rparr>)"
proof -
  have "res_ok (svc_cfg s) (svc_nextReservationID s) i r" using assms(1,2) by (simp add: svc_inv_def res_inv_def)
  then have "res_ok (svc_cfg s) (svc_nextReservationID s) i r'" using assms by (simp add: res_ok_def)
  then show ?thesis using assms res_inv_update by (simp add: svc_inv_def ids_inv_def)
qed

lemma ActivateReservation_locked_inv:
  "svc_inv s \<Longrightarrow> ActivateReservation_locked now i s = Some (s', r) \<Longrightarrow> svc_inv s'"
  by (auto simp: ActivateReservation_locked_def Let_def armLocked_def stopTimer_def timer_ok_def
      split: option.splits if_splits intro!: svc_inv_update)

lemma OrphanReservation_locked_inv:
  "svc_inv s \<Longrightarrow> OrphanReservation_locked i s = Some (s', r) \<Longrightarrow> svc_inv s'"
  by (auto simp: OrphanReservation_locked_def Let_def stopTimer_def timer_ok_def
      split: option.splits if_splits intro!: svc_inv_update)

lemma EndReservation_locked_inv:
  "svc_inv s \<Longrightarrow> EndReservation_locked now i reason s = Some (s', x) \<Longrightarrow> svc_inv s'"
  by (auto simp: EndReservation_locked_def Let_def split: option.splits prod.splits intro: endLocked_inv)

lemma expire_locked_inv:
  "svc_inv s \<Longrightarrow> expire_locked now i t s = Some (s', e) \<Longrightarrow> svc_inv s'"
  by (auto simp: expire_locked_def split: option.splits if_splits intro: endLocked_inv)

lemma NextTransactionID_locked_inv:
  "svc_inv s \<Longrightarrow> svc_nextTransactionID s < max_int64 \<Longrightarrow> svc_inv (fst (NextTransactionID_locked s))"
  by (simp add: NextTransactionID_locked_def svc_inv_def ids_inv_def wrap64_inc)

lemma NextRemoteStartID_locked_inv:
  "svc_inv s \<Longrightarrow> svc_nextRemoteStartID s < max_int64 \<Longrightarrow> svc_inv (fst (NextRemoteStartID_locked s))"
  by (simp add: NextRemoteStartID_locked_def svc_inv_def ids_inv_def wrap64_inc)

lemma res_id_range:
  assumes "svc_inv s" and "r \<in> set (m_vals (svc_reservations s))"
  shows "map_of (svc_reservations s) (r_ID (rs_res r)) = Some r" and "int64_range (r_ID (rs_res r))"
    and "1 \<le> r_ID (rs_res r)" and "r_ID (rs_res r) < svc_nextReservationID s"
proof -
  have "distinct (m_keys (svc_reservations s))" using assms(1) by (simp add: svc_inv_def res_inv_def)
  then obtain i where i: "map_of (svc_reservations s) i = Some r" using assms(2) in_vals_iff by metis
  then have ok: "res_ok (svc_cfg s) (svc_nextReservationID s) i r" using assms(1) by (simp add: svc_inv_def res_inv_def)
  with i show "map_of (svc_reservations s) (r_ID (rs_res r)) = Some r" "1 \<le> r_ID (rs_res r)"
    "r_ID (rs_res r) < svc_nextReservationID s" by (simp_all add: res_ok_def)
  from ok assms(1) show "int64_range (r_ID (rs_res r))"
    by (auto simp: res_ok_def svc_inv_def ids_inv_def int64_range_def max_int64_def)
qed

definition start_range :: "TransactionStart \<Rightarrow> bool" where
  "start_range t \<longleftrightarrow> int64_range (ts_ConnectorID t) \<and> int64_range (ts_MeterStart t) \<and> int64_range (ts_ReservationID t)"

lemma redeemedLocked_in: "redeemedLocked s cpID uid t = Some r \<Longrightarrow> r \<in> set (m_vals (svc_reservations s))"
  by (auto simp: redeemedLocked_def Let_def image_iff split: if_splits option.splits
      dest!: find_in_set map_of_SomeD intro: bexI [rotated])

lemma reservationOnEVSELocked_in:
  "reservationOnEVSELocked s cpID uid = Some r \<Longrightarrow> r \<in> set (m_vals (svc_reservations s))"
  by (auto simp: reservationOnEVSELocked_def dest!: find_in_set)

text \<open>
  What a session start does to the reservations: the redeemed one ends as consumed; failing that,
  the active one on the EVSE ends as failed; otherwise none ends.
\<close>

definition start_ends :: "Service \<Rightarrow> string \<Rightarrow> TransactionStart \<Rightarrow> (reservation \<times> string) option" where
  "start_ends s cpID t = (let uid = evseUID s cpID (ts_ConnectorID t) in
     case redeemedLocked s cpID uid t of Some r \<Rightarrow> Some (r, ReservationConsumed)
     | None \<Rightarrow> map_option (\<lambda>r. (r, ReservationFailed)) (reservationOnEVSELocked s cpID uid))"

definition start_reservation :: "Service \<Rightarrow> string \<Rightarrow> TransactionStart \<Rightarrow> int" where
  "start_reservation s cpID t = (case redeemedLocked s cpID (evseUID s cpID (ts_ConnectorID t)) t of
     Some r \<Rightarrow> r_ID (rs_res r) | None \<Rightarrow> ts_ReservationID t)"

lemma StartTransaction_locked_eq:
  fixes s cpID t
  defines "uid \<equiv> evseUID s cpID (ts_ConnectorID t)"
  defines "cp \<equiv> addEVSE uid (ts_ConnectorID t) (ensure s cpID)"
  defines "tx \<equiv> \<lparr>tx_ID = ts_ID t, tx_EVSEUID = uid, tx_ConnectorID = ts_ConnectorID t, tx_IDTag = ts_IDTag t,
                tx_MeterStart = ts_MeterStart t, tx_StartedAt = ts_At t, tx_ReservationID = start_reservation s cpID t,
                tx_StoppedAt = zero_time, tx_MeterStop = 0, tx_Reason = [], tx_seq = uwrap64 (svc_txSeq s + 1)\<rparr>"
  shows "StartTransaction_locked now cpID t s =
    ((put_cp cpID (cp\<lparr>cp_transactions := m_put (ts_ID t) tx (cp_transactions cp), cp_lastSeen := now\<rparr>) s)
       \<lparr>svc_reservations := (case start_ends s cpID t of None \<Rightarrow> svc_reservations s
                             | Some (r, _) \<Rightarrow> m_del (r_ID (rs_res r)) (svc_reservations s)),
        svc_txSeq := uwrap64 (svc_txSeq s + 1)\<rparr>, tx,
     (case start_ends s cpID t of None \<Rightarrow> []
      | Some (r, reason) \<Rightarrow> [reservation_event EventReservationEnded now (rs_res r) reason]))"
  unfolding assms StartTransaction_locked_def start_ends_def start_reservation_def Let_def endLocked_def put_cp_def
  by (auto split: option.splits)

lemma StartTransaction_locked_inv:
  assumes "svc_inv s" and "start_range t"
  shows "svc_inv (fst (StartTransaction_locked now cpID t s))"
proof -
  let ?uid = "evseUID s cpID (ts_ConnectorID t)"
  let ?cp = "addEVSE ?uid (ts_ConnectorID t) (ensure s cpID)"
  have rng: "int64_range (start_reservation s cpID t)"
    using assms res_id_range(2) [OF assms(1) redeemedLocked_in]
    by (auto simp: start_reservation_def start_range_def split: option.splits)
  have cp: "cp_ok cpID ?cp" using assms(1) by (intro addEVSE_ok svc_inv_ensure)
  have "cp_ok cpID (?cp\<lparr>cp_transactions := m_put (ts_ID t) tx (cp_transactions ?cp), cp_lastSeen := now\<rparr>)"
    if "tx_ID tx = ts_ID t" "tx_range tx" for tx
    using cp_ok_put_tx [OF cp that] by simp
  then show ?thesis using assms rng unfolding StartTransaction_locked_eq
    by (auto simp: svc_inv_def ids_inv_def put_cp_def res_inv_del tx_range_def start_range_def
        intro!: put_ok split: option.splits)
qed

lemma StopTransaction_locked_inv:
  assumes "svc_inv s"
  shows "svc_inv (fst (StopTransaction_locked now cpID txID m reason at s))"
proof -
  note e = svc_inv_ensure [OF assms, of cpID]
  have "cp_ok cpID ((ensure s cpID)\<lparr>cp_transactions := m_put txID (tx\<lparr>tx_StoppedAt := at, tx_MeterStop := m,
      tx_Reason := reason\<rparr>) (cp_transactions (ensure s cpID)), cp_lastSeen := now\<rparr>)"
    if "map_of (cp_transactions (ensure s cpID)) txID = Some tx" for tx
  proof -
    have "tx_range tx" "tx_ID tx = txID" using e that
      by (fastforce simp: cp_ok_def cp_inv_def dest: map_of_SomeD)+
    then show ?thesis using cp_ok_put_tx [OF e, of "tx\<lparr>tx_StoppedAt := at, tx_MeterStop := m, tx_Reason := reason\<rparr>" txID]
      by (simp add: tx_range_def)
  qed
  then show ?thesis using assms e
    by (auto simp: StopTransaction_locked_def Let_def put_cp_inv split: option.splits)
qed

section \<open>The file\<close>

text \<open>What core leaves in the store, and what a restart relies on.\<close>

definition stored_inv :: "State \<Rightarrow> bool" where
  [inv_defs]: "stored_inv st \<longleftrightarrow> state_ok st
     \<and> (elems (st_Reservations st) \<noteq> [] \<longrightarrow> 1 \<le> st_NextReservationID st)
     \<and> distinct (map sr_EVSEUID (elems (st_Reservations st)))
     \<and> (\<forall>r \<in> set (elems (st_Reservations st)). 1 \<le> sr_ID r \<and> sr_ID r < st_NextReservationID st)"

lemma stored_inv_empty [inv_intros]: "stored_inv empty_State"
  by (simp add: stored_inv_def empty_State_def state_ok_def int64_range_def)

lemma stored_inv_clone [simp]: "stored_inv (clone_State st) = stored_inv st"
  by (simp add: stored_inv_def clone_State_def state_ok_def)

lemma utc_StReservation_fields [simp]:
  "sr_ID (utc_StReservation r) = sr_ID r" "sr_EVSEUID (utc_StReservation r) = sr_EVSEUID r"
  by (simp_all add: utc_StReservation_def)

lemma stored_inv_normalize: "stored_inv st \<Longrightarrow> stored_inv (normalize_State st)"
  unfolding stored_inv_def using state_ok_normalize [of st]
  by (auto simp: normalize_State_def comp_def)

lemma sort_key_filter_map_distinct:
  "distinct (map f xs) \<Longrightarrow> distinct (map f (sort_key g xs))"
  by (metis distinct_map distinct_sort inj_on_cong set_sort)

lemma exclusive_distinct:
  assumes "distinct (m_keys rs)" and "exclusive rs"
  shows "distinct (map (\<lambda>r. r_EVSEUID (rs_res r)) (m_vals rs))"
proof -
  have "inj_on (\<lambda>p. r_EVSEUID (rs_res (snd p))) (set rs)"
  proof (rule inj_onI)
    fix p q assume "p \<in> set rs" "q \<in> set rs" and eq: "r_EVSEUID (rs_res (snd p)) = r_EVSEUID (rs_res (snd q))"
    then have m: "map_of rs (fst p) = Some (snd p)" "map_of rs (fst q) = Some (snd q)"
      using assms(1) by (simp_all add: map_of_eq_Some_iff)
    with assms(2) eq have "fst p = fst q" unfolding exclusive_def by blast
    with m show "p = q" by (simp add: prod_eq_iff)
  qed
  moreover have "distinct rs" using assms(1) by (simp add: distinct_map)
  ultimately show ?thesis by (simp add: distinct_map comp_def)
qed

lemma active_transactions_range:
  assumes "svc_inv s" and "(cpID, tx) \<in> set (active_transactions s)"
  shows "tx_range tx"
proof -
  obtain cp where cp: "cp \<in> set (m_vals (svc_cps s))" "tx \<in> set (m_vals (cp_transactions cp))"
    using assms(2) by (force simp: active_transactions_def)
  then obtain i where "map_of (svc_cps s) i = Some cp"
    using assms(1) in_vals_iff [of "svc_cps s" cp] by (auto simp: svc_inv_def cps_inv_def)
  then show ?thesis using assms(1) cp(2) unfolding svc_inv_def cps_inv_def cp_ok_def by blast
qed

lemma persist_fn_stored:
  assumes "svc_inv s"
  shows "stored_inv (persist_fn s st)"
proof -
  let ?rs = "map to_StReservation (active_reservations s)"
  have ids: "1 \<le> sr_ID r \<and> sr_ID r < svc_nextReservationID s \<and> int64_range (sr_ID r)" if r: "r \<in> set ?rs" for r
  proof -
    obtain x where "x \<in> set (m_vals (svc_reservations s))" "r = to_StReservation (rs_res x)"
      using r unfolding active_reservations_def by auto
    then show ?thesis using res_id_range [OF assms] by (simp add: to_StReservation_def)
  qed
  have "distinct (map (\<lambda>r. r_EVSEUID (rs_res r)) (m_vals (svc_reservations s)))"
    using assms by (intro exclusive_distinct) (simp_all add: svc_inv_def res_inv_def)
  then have "distinct (map sr_EVSEUID ?rs)"
    by (simp add: active_reservations_def to_StReservation_def comp_def distinct_map_filter
        flip: map_map [of "r_EVSEUID" "rs_res"])
  then have d: "distinct (map sr_EVSEUID (sort_key sr_ID ?rs))" by (rule sort_key_filter_map_distinct)
  have "state_ok (persist_fn s st)"
    using assms ids active_transactions_range [OF assms]
    by (auto simp: state_ok_def persist_fn_def persistableLocked_def list_all_iff svc_inv_def ids_inv_def
        int64_range_def max_int64_def to_StTransaction_def tx_range_def)
  moreover have "1 \<le> svc_nextReservationID s" using assms by (simp add: svc_inv_def ids_inv_def)
  ultimately show ?thesis using ids d
    by (simp add: stored_inv_def persist_fn_def persistableLocked_def)
qed

section \<open>Restarting\<close>

lemma load_transaction_inv:
  assumes "svc_inv s" and "int64_range (stx_ConnectorID t)" and "int64_range (stx_MeterStart t)"
    and "int64_range (stx_ReservationID t)"
  shows "svc_inv (load_transaction t s)"
    and "svc_nextReservationID (load_transaction t s) = svc_nextReservationID s"
    and "svc_reservations (load_transaction t s) = svc_reservations s"
    and "svc_store (load_transaction t s) = svc_store s" and "svc_cfg (load_transaction t s) = svc_cfg s"
proof -
  let ?cp = "addEVSE (stx_EVSEUID t) (stx_ConnectorID t) (ensure s (stx_ChargePointID t))"
  have cp: "cp_ok (stx_ChargePointID t) ?cp" using assms(1) by (intro addEVSE_ok svc_inv_ensure)
  have "cp_ok (stx_ChargePointID t) (?cp\<lparr>cp_transactions := m_put (stx_ID t) tx (cp_transactions ?cp)\<rparr>)"
    if "tx_ID tx = stx_ID t" "tx_range tx" for tx
    using cp_ok_put_tx [OF cp that] by simp
  moreover have "wrap64 (n + 1) \<le> max_int64" for n
    using wrap64_range [of "n + 1"] by (simp add: int64_range_def max_int64_def)
  ultimately show "svc_inv (load_transaction t s)"
    using assms by (auto simp: load_transaction_def Let_def svc_inv_def ids_inv_def put_cp_def tx_range_def
        split: option.splits intro!: put_ok)
qed (auto simp: load_transaction_def Let_def put_cp_def split: option.splits)

lemma load_transactions_inv:
  assumes "svc_inv s"
    and "list_all (\<lambda>t. int64_range (stx_ConnectorID t) \<and> int64_range (stx_MeterStart t)
                    \<and> int64_range (stx_ReservationID t)) ts"
  shows "svc_inv (fold load_transaction ts s)
    \<and> svc_nextReservationID (fold load_transaction ts s) = svc_nextReservationID s
    \<and> svc_reservations (fold load_transaction ts s) = svc_reservations s
    \<and> svc_store (fold load_transaction ts s) = svc_store s \<and> svc_cfg (fold load_transaction ts s) = svc_cfg s"
  using assms by (induction ts arbitrary: s) (simp_all add: load_transaction_inv)

lemma loaded_reservation:
  "r_ID (rs_res (armLocked now (from_StReservation c r))) = sr_ID r"
  "r_EVSEUID (rs_res (armLocked now (from_StReservation c r))) = sr_EVSEUID r"
  "r_ConnectorID (rs_res (armLocked now (from_StReservation c r))) = c"
  "timer_ok (armLocked now (from_StReservation c r))"
  by (simp_all add: armLocked_def stopTimer_def from_StReservation_def timer_ok_def)

lemma load_reservation_cases:
  "fst (load_reservation now r (s, d)) = s
   \<or> (\<exists>res. fst (load_reservation now r (s, d)) =
        s\<lparr>svc_reservations := m_put (sr_ID r) res (svc_reservations s),
           svc_nextReservationID := max (svc_nextReservationID s) (wrap64 (sr_ID r + 1))\<rparr>
      \<and> connectorID s (sr_EVSEUID r) = Some (r_ConnectorID (rs_res res))
      \<and> r_ID (rs_res res) = sr_ID r \<and> r_EVSEUID (rs_res res) = sr_EVSEUID r \<and> timer_ok res)"
proof (cases "connectorID s (sr_EVSEUID r)")
  case (Some c)
  then show ?thesis using loaded_reservation [of now c r]
    by (cases "time_After (sr_ExpiresAt r) now")
       (auto simp: load_reservation_def intro!: exI [of _ "armLocked now (from_StReservation c r)"])
qed (simp add: load_reservation_def)

lemma load_reservation_inv:
  assumes "svc_inv s" and "1 \<le> sr_ID r" and "sr_ID r < svc_nextReservationID s"
    and fresh: "\<And>r'. r' \<in> set (m_vals (svc_reservations s)) \<Longrightarrow> r_EVSEUID (rs_res r') \<noteq> sr_EVSEUID r"
    and eq: "load_reservation now r (s, d) = (s', d')"
  shows "svc_inv s'" and "svc_nextReservationID s' = svc_nextReservationID s"
    and "svc_store s' = svc_store s" and "svc_cfg s' = svc_cfg s"
    and "\<And>r'. r' \<in> set (m_vals (svc_reservations s')) \<Longrightarrow>
           r_EVSEUID (rs_res r') = sr_EVSEUID r \<or> r' \<in> set (m_vals (svc_reservations s))"
proof -
  have ub: "svc_nextReservationID s \<le> max_int64" using assms(1) by (simp add: svc_inv_def ids_inv_def)
  then have inc: "max (svc_nextReservationID s) (wrap64 (sr_ID r + 1)) = svc_nextReservationID s"
    using assms(2,3) by (simp add: wrap64_inc)
  consider "s' = s" | res where "s' = s\<lparr>svc_reservations := m_put (sr_ID r) res (svc_reservations s)\<rparr>"
      "connectorID s (sr_EVSEUID r) = Some (r_ConnectorID (rs_res res))"
      "r_ID (rs_res res) = sr_ID r" "r_EVSEUID (rs_res res) = sr_EVSEUID r" "timer_ok res"
    using load_reservation_cases [of now r s d] eq inc by auto
  then have "svc_inv s' \<and> svc_nextReservationID s' = svc_nextReservationID s \<and> svc_store s' = svc_store s
    \<and> svc_cfg s' = svc_cfg s \<and> (\<forall>r' \<in> set (m_vals (svc_reservations s')).
           r_EVSEUID (rs_res r') = sr_EVSEUID r \<or> r' \<in> set (m_vals (svc_reservations s)))"
  proof cases
    case 1 with assms(1) show ?thesis by simp
  next
    case 2
    have "res_ok (svc_cfg s) (svc_nextReservationID s) (sr_ID r) res"
      using 2 assms(2,3) by (auto simp: res_ok_def connectorID_Some)
    moreover have "res_inv (svc_cfg s) (svc_nextReservationID s) (svc_reservations s)"
      using assms(1) by (simp add: svc_inv_def)
    ultimately have "res_inv (svc_cfg s) (svc_nextReservationID s) (m_put (sr_ID r) res (svc_reservations s))"
      using fresh 2(4) by (intro res_inv_new) auto
    then show ?thesis using 2 assms(1) in_vals_put [of _ "sr_ID r" res "svc_reservations s"]
      unfolding svc_inv_def ids_inv_def by auto
  qed
  then show "svc_inv s'" "svc_nextReservationID s' = svc_nextReservationID s"
    "svc_store s' = svc_store s" "svc_cfg s' = svc_cfg s"
    "\<And>r'. r' \<in> set (m_vals (svc_reservations s')) \<Longrightarrow>
           r_EVSEUID (rs_res r') = sr_EVSEUID r \<or> r' \<in> set (m_vals (svc_reservations s))" by blast+
qed

lemma load_reservations_inv:
  assumes "svc_inv s" and "\<forall>r \<in> set rs. 1 \<le> sr_ID r \<and> sr_ID r < svc_nextReservationID s"
    and "distinct (map sr_EVSEUID rs)"
    and "\<forall>r \<in> set rs. \<forall>r' \<in> set (m_vals (svc_reservations s)). r_EVSEUID (rs_res r') \<noteq> sr_EVSEUID r"
    and "fold (load_reservation now) rs (s, d) = (s', d')"
  shows "svc_inv s' \<and> svc_nextReservationID s' = svc_nextReservationID s \<and> svc_store s' = svc_store s
    \<and> svc_cfg s' = svc_cfg s"
  using assms
proof (induction rs arbitrary: s d)
  case (Cons r rs)
  obtain s1 d1 where l: "load_reservation now r (s, d) = (s1, d1)" by (rule prod.exhaust)
  note one = load_reservation_inv [OF Cons.prems(1) _ _ _ l]
  have s1: "svc_inv s1" "svc_nextReservationID s1 = svc_nextReservationID s" "svc_store s1 = svc_store s" "svc_cfg s1 = svc_cfg s"
    using one(1-4) Cons.prems(2,4) by auto
  have "\<forall>x \<in> set rs. \<forall>r' \<in> set (m_vals (svc_reservations s1)). r_EVSEUID (rs_res r') \<noteq> sr_EVSEUID x"
  proof (intro ballI)
    fix x r' assume x: "x \<in> set rs" and "r' \<in> set (m_vals (svc_reservations s1))"
    then have "r_EVSEUID (rs_res r') = sr_EVSEUID r \<or> r' \<in> set (m_vals (svc_reservations s))"
      using one(5) Cons.prems(2,4) by auto
    then show "r_EVSEUID (rs_res r') \<noteq> sr_EVSEUID x" using x Cons.prems(3,4) by auto
  qed
  then show ?case using Cons.IH [OF s1(1), of d1] Cons.prems(2,3,5) s1 l by simp
qed simp

lemma loadLocked_inv:
  assumes "svc_inv s" and "svc_reservations s = []" and "stored_inv st" and "loadLocked now st s = (s', d)"
  shows "svc_inv s'" and "svc_nextReservationID s' = max (st_NextReservationID st) 1"
    and "svc_store s' = svc_store s" and "svc_cfg s' = svc_cfg s"
proof -
  let ?s0 = "s\<lparr>svc_nextReservationID := max (st_NextReservationID st) 1,
     svc_nextTransactionID := max (st_NextTransactionID st) 1, svc_nextRemoteStartID := max (st_NextRemoteStartID st) 1\<rparr>"
  let ?s1 = "fold load_transaction (elems (st_Transactions st)) ?s0"
  have "svc_inv ?s0" using assms(1-3)
    by (auto simp: svc_inv_def ids_inv_def stored_inv_def state_ok_def int64_range_def max_int64_def res_inv_empty)
  from load_transactions_inv [OF this, of "elems (st_Transactions st)"]
  have s1: "svc_inv ?s1" "svc_nextReservationID ?s1 = max (st_NextReservationID st) 1" "svc_reservations ?s1 = []"
    "svc_store ?s1 = svc_store s" "svc_cfg ?s1 = svc_cfg s"
    using assms(2,3) by (auto simp: stored_inv_def state_ok_def)
  have f: "fold (load_reservation now) (elems (st_Reservations st)) (?s1, False) = (s', d)"
    using assms(4) by (simp add: loadLocked_def Let_def)
  have "\<forall>r \<in> set (elems (st_Reservations st)). 1 \<le> sr_ID r \<and> sr_ID r < svc_nextReservationID ?s1"
    using assms(3) s1(2) by (auto simp: stored_inv_def)
  moreover have "distinct (map sr_EVSEUID (elems (st_Reservations st)))" using assms(3) by (simp add: stored_inv_def)
  ultimately have "svc_inv s' \<and> svc_nextReservationID s' = svc_nextReservationID ?s1 \<and> svc_store s' = svc_store ?s1
      \<and> svc_cfg s' = svc_cfg ?s1"
    using s1(3) by (intro load_reservations_inv [OF s1(1) _ _ _ f]) auto
  with s1 show "svc_inv s'" "svc_nextReservationID s' = max (st_NextReservationID st) 1"
    "svc_store s' = svc_store s" "svc_cfg s' = svc_cfg s" by auto
qed

lemma fold_addEVSE_ok: "cp_ok i cp \<Longrightarrow> cp_ok i (fold (\<lambda>e. addEVSE (e_UID e) (e_OCPPConnectorID e)) es cp)"
  by (induction es arbitrary: cp) (auto intro: addEVSE_ok)

lemma New_memory_inv: "svc_inv (New_memory cfg store)"
proof -
  let ?s = "\<lparr>svc_cfg = cfg, svc_bus = newBus, svc_store = store, svc_cps = [], svc_reservations = [],
               svc_txSeq = 0, svc_nextReservationID = 1, svc_nextTransactionID = 1, svc_nextRemoteStartID = 1\<rparr>"
  have s: "svc_inv ?s" by (simp add: svc_inv_def cps_inv_def res_inv_empty ids_inv_def max_int64_def newBus_inv)
  show ?thesis
  proof (cases cfg)
    case (Some c)
    let ?cp = "fold (\<lambda>e. addEVSE (e_UID e) (e_OCPPConnectorID e)) (cfg_EVSEs c) (newChargePoint (ch_ID (cfg_Charger c)))"
    have "cp_ok (ch_ID (cfg_Charger c)) ?cp" by (intro fold_addEVSE_ok newChargePoint_ok)
    moreover from this have "cp_id ?cp = ch_ID (cfg_Charger c)" by (simp add: cp_ok_def)
    ultimately show ?thesis using s Some put_cp_inv [of ?s] by (simp add: New_memory_def Let_def)
  qed (use s in \<open>simp add: New_memory_def\<close>)
qed

lemma New_memory_fields [simp]:
  "svc_reservations (New_memory cfg store) = []" "svc_store (New_memory cfg store) = store"
  "svc_cfg (New_memory cfg store) = cfg"
  by (auto simp: New_memory_def Let_def put_cp_def split: option.splits)

text \<open>
  A started service satisfies the invariant when the file it was started from does, and so does
  the store it holds.
\<close>

definition svc_stored :: "Service \<Rightarrow> Store \<Rightarrow> bool" where
  "svc_stored s st \<longleftrightarrow> svc_store s = Some st \<and> store_inv st \<and> stored_inv (s_state st)
     \<and> st_NextReservationID (s_state st) \<le> svc_nextReservationID s"

lemma commit_stored:
  assumes "svc_store s = Some st" and "store_inv st" and "stored_inv (s_state st)" and "fresh_tmp w st"
    and "svc_inv snap" and "commit w (persist_fn snap) s = (s', e)"
  obtains st' where "s' = s\<lparr>svc_store := Some st'\<rparr>" and "store_inv st'" and "stored_inv (s_state st')"
    and "e = None \<Longrightarrow> st_NextReservationID (s_state st') = svc_nextReservationID snap"
    and "e \<noteq> None \<Longrightarrow> st' = st"
proof -
  obtain st' where u: "update_State w (persist_fn snap) st = (st', e)" and s': "s' = s\<lparr>svc_store := Some st'\<rparr>"
    using assms(1,6) by (auto simp: commit_def split: prod.splits)
  have ok: "stored_inv (persist_fn snap (Get st))" using assms(5) by (rule persist_fn_stored)
  have inv: "store_inv st'"
    using file_store.upd_valid [OF assms(4,2), of "persist_fn snap"] ok u by (simp add: stored_inv_def)
  show ?thesis
  proof (cases e)
    case None
    then have st': "s_state st' = normalize_State (persist_fn snap (Get st))"
      using Update_ok [OF u [unfolded None update_State_def] assms(4)] by auto
    then have "stored_inv (s_state st')" using stored_inv_normalize [OF ok] by simp
    moreover have "st_NextReservationID (s_state st') = svc_nextReservationID snap"
      by (simp add: st' normalize_State_def persist_fn_def Let_def split: prod.split)
    ultimately show ?thesis using that [OF s' inv] None by simp
  next
    case (Some x)
    then have "st' = st" using file_store.upd_fail [OF assms(4)] u by blast
    then show ?thesis using that [OF s' inv] Some assms(3) by simp
  qed
qed

lemma New_inv:
  assumes "store_inv st" and "stored_inv (s_state st)" and "fresh_tmp w st"
  shows "svc_inv (New w now cfg (Some st))"
    and "svc_nextReservationID (New w now cfg (Some st)) = max (st_NextReservationID (s_state st)) 1"
    and "\<exists>st'. svc_stored (New w now cfg (Some st)) st' \<and> st_NextReservationID (s_state st) \<le> st_NextReservationID (s_state st')"
proof -
  let ?m = "New_memory cfg (Some st)"
  obtain s d where l: "loadLocked now (Get st) ?m = (s, d)" by (rule prod.exhaust)
  have g: "stored_inv (Get st)" using assms(2) by (simp add: Get_def)
  have n: "st_NextReservationID (Get st) = st_NextReservationID (s_state st)"
    by (simp add: Get_def clone_State_def)
  note s = loadLocked_inv [OF New_memory_inv New_memory_fields(1) g l]
  have new: "New w now cfg (Some st) = (if d then fst (persist w s) else s)"
    by (simp add: New_def load_def l)
  have "svc_inv (New w now cfg (Some st))
    \<and> svc_nextReservationID (New w now cfg (Some st)) = max (st_NextReservationID (s_state st)) 1
    \<and> (\<exists>st'. svc_stored (New w now cfg (Some st)) st' \<and> st_NextReservationID (s_state st) \<le> st_NextReservationID (s_state st'))"
  proof (cases d)
    case False
    then show ?thesis using s n assms by (auto simp: new svc_stored_def)
  next
    case True
    have sst: "svc_store s = Some st" using s(3) by simp
    obtain s2 e where p: "persist w s = (s2, e)" by (rule prod.exhaust)
    then have c: "commit w (persist_fn s) s = (s2, e)" using sst by (simp add: persist_def)
    have "svc_inv s2" using persist_inv [OF s(1), of w] p by simp
    then show ?thesis
      by (rule_tac commit_stored [OF sst assms s(1) c]; cases e)
         (use s n True p assms(2) in \<open>auto simp: new svc_stored_def\<close>)
  qed
  then show "svc_inv (New w now cfg (Some st))"
    "svc_nextReservationID (New w now cfg (Some st)) = max (st_NextReservationID (s_state st)) 1"
    "\<exists>st'. svc_stored (New w now cfg (Some st)) st' \<and> st_NextReservationID (s_state st) \<le> st_NextReservationID (s_state st')"
    by auto
qed

end
