(* ===== verification/Core_Interleaving.thy ===== *)
theory Core_Interleaving
  imports Core_Invariant
begin

text \<open>
  The service as a concurrent program. Its methods run on many goroutines: each takes the lock for
  a section that changes the maps (\<open>core_exec\<close>), and writes to the store outside it, one writer at a
  time, while other sections run. A step of \<open>core_step\<close> is one such section, the start or the end of a
  write, the undoing of a reservation whose write failed, or a restart: an orderly one, a crash, or
  a crash in the middle of a write. What is proved holds for every interleaving.
\<close>

declare map_of_eq_Some_iff [simp del] Some_eq_map_of_iff [simp del]

section \<open>The sections under the lock\<close>

datatype core_op =
    OpConnected gotime string
  | OpDisconnected gotime string string
  | OpBooted gotime string BootInfo
  | OpSeen gotime string
  | OpHeartbeat gotime string
  | OpStatus gotime string int EVSEStatus string
  | OpMeterValues gotime string int string
  | OpBegin gotime Reservation
  | OpUndo int
  | OpActivate gotime int
  | OpEnd gotime int string
  | OpOrphan gotime int string
  | OpExpire gotime int gotime
  | OpNextTransactionID
  | OpNextRemoteStartID
  | OpStart gotime string TransactionStart
  | OpStop gotime string string int string gotime

text \<open>The new state, and the reservation events the method publishes once it has released the lock.\<close>

fun core_exec :: "core_op \<Rightarrow> Service \<Rightarrow> Service \<times> Event list" where
  "core_exec (OpConnected now cp) s = (Connected now cp s, [])"
| "core_exec (OpDisconnected now cp reason) s = (Disconnected now cp reason s, [])"
| "core_exec (OpBooted now cp info) s = (Booted now cp info s, [])"
| "core_exec (OpSeen now cp) s = (Seen now cp s, [])"
| "core_exec (OpHeartbeat now cp) s = (Heartbeat now cp s, [])"
| "core_exec (OpStatus now cp c st err) s = (SetConnectorStatus now cp c st err s, [])"
| "core_exec (OpMeterValues now cp c m) s = (RecordMeterValues now cp c m s, [])"
| "core_exec (OpBegin now r) s = (case BeginReservation_locked now r s of Inl e \<Rightarrow> (s, []) | Inr (s', r') \<Rightarrow> (s', []))"
| "core_exec (OpUndo i) s = (BeginReservation_undo i s, [])"
| "core_exec (OpActivate now i) s = (case ActivateReservation_locked now i s of None \<Rightarrow> (s, [])
     | Some (s', r) \<Rightarrow> (s', [reservation_event EventReservationCreated now r (format_rfc3339 (UTC (r_ExpiresAt r)))]))"
| "core_exec (OpEnd now i reason) s = (case EndReservation_locked now i reason s of None \<Rightarrow> (s, [])
     | Some (s', r, cancelling, e) \<Rightarrow> (s', if cancelling then [] else [e]))"
| "core_exec (OpOrphan now i reason) s = (case OrphanReservation_locked i s of None \<Rightarrow> (s, [])
     | Some (s', r) \<Rightarrow> (s', [reservation_event EventReservationEnded now r reason]))"
| "core_exec (OpExpire now i t) s = (case expire_locked now i t s of None \<Rightarrow> (s, []) | Some (s', e) \<Rightarrow> (s', [e]))"
| "core_exec OpNextTransactionID s = (fst (NextTransactionID_locked s), [])"
| "core_exec OpNextRemoteStartID s = (fst (NextRemoteStartID_locked s), [])"
| "core_exec (OpStart now cp t) s = (case StartTransaction_locked now cp t s of (s', tx, evs) \<Rightarrow> (s', evs))"
| "core_exec (OpStop now cp tx m reason at) s = (fst (StopTransaction_locked now cp tx m reason at s), [])"

text \<open>Arguments are Go ints, and no counter is at its last value.\<close>

fun op_ok :: "core_op \<Rightarrow> Service \<Rightarrow> bool" where
  "op_ok (OpBegin now r) s = (svc_nextReservationID s < max_int64)"
| "op_ok OpNextTransactionID s = (svc_nextTransactionID s < max_int64)"
| "op_ok OpNextRemoteStartID s = (svc_nextRemoteStartID s < max_int64)"
| "op_ok (OpStart now cp t) s = start_range t"
| "op_ok op s = True"

lemmas station_ops_inv = Connected_inv Disconnected_inv Booted_inv Seen_inv Heartbeat_inv
  SetConnectorStatus_inv RecordMeterValues_inv BeginReservation_undo_inv NextTransactionID_locked_inv
  NextRemoteStartID_locked_inv StopTransaction_locked_inv

lemma core_exec_inv:
  assumes "svc_inv s" and "op_ok op s"
  shows "svc_inv (fst (core_exec op s))"
proof (cases op)
  case (OpStart now cp t)
  then show ?thesis using assms StartTransaction_locked_inv [of s t now cp] by (auto split: prod.splits)
qed (use assms in \<open>auto simp: station_ops_inv split: option.splits sum.splits prod.splits
      intro: BeginReservation_locked_inv ActivateReservation_locked_inv EndReservation_locked_inv
        OrphanReservation_locked_inv expire_locked_inv\<close>)

lemmas exec_defs = Connected_def Disconnected_def Booted_def Seen_def Heartbeat_def
  SetConnectorStatus_def RecordMeterValues_def BeginReservation_undo_def
  NextTransactionID_locked_def NextRemoteStartID_locked_def StopTransaction_locked_def svc_publish_def put_cp_def

lemmas locked_defs = ActivateReservation_locked_def EndReservation_locked_def OrphanReservation_locked_def
  expire_locked_def endLocked_def BeginReservation_undo_def

lemma station_ops_frame [simp]:
  "svc_store (Connected now i s) = svc_store s" "svc_reservations (Connected now i s) = svc_reservations s"
  "svc_nextReservationID (Connected now i s) = svc_nextReservationID s"
  "svc_store (Disconnected now i rs s) = svc_store s" "svc_reservations (Disconnected now i rs s) = svc_reservations s"
  "svc_nextReservationID (Disconnected now i rs s) = svc_nextReservationID s"
  "svc_store (SetConnectorStatus now i c st e s) = svc_store s"
  "svc_reservations (SetConnectorStatus now i c st e s) = svc_reservations s"
  "svc_nextReservationID (SetConnectorStatus now i c st e s) = svc_nextReservationID s"
  by (simp_all add: exec_defs Let_def split: prod.split)

lemma StopTransaction_frame [simp]:
  "svc_store (fst (StopTransaction_locked now cp tx m rs at s)) = svc_store s"
  "svc_reservations (fst (StopTransaction_locked now cp tx m rs at s)) = svc_reservations s"
  "svc_nextReservationID (fst (StopTransaction_locked now cp tx m rs at s)) = svc_nextReservationID s"
  by (simp_all add: StopTransaction_locked_def Let_def put_cp_def split: option.split)

lemma core_exec_frame:
  assumes "svc_inv s" and "op_ok op s"
  shows "svc_store (fst (core_exec op s)) = svc_store s"
    and "svc_nextReservationID s \<le> svc_nextReservationID (fst (core_exec op s))"
proof -
  have n: "svc_nextReservationID s < max_int64 \<Longrightarrow> wrap64 (svc_nextReservationID s + 1) = svc_nextReservationID s + 1"
    using assms(1) by (simp add: svc_inv_def ids_inv_def wrap64_inc)
  show "svc_store (fst (core_exec op s)) = svc_store s"
    using assms(2) by (cases op)
      (auto simp: locked_defs Let_def NextTransactionID_locked_def NextRemoteStartID_locked_def Booted_def Seen_def
        Heartbeat_def RecordMeterValues_def svc_publish_def put_cp_def StartTransaction_locked_eq
        split: option.splits sum.splits prod.splits dest!: BeginReservation_locked_Inr)
  show "svc_nextReservationID s \<le> svc_nextReservationID (fst (core_exec op s))"
    using assms(2) n by (cases op)
      (auto simp: locked_defs Let_def NextTransactionID_locked_def NextRemoteStartID_locked_def Booted_def Seen_def
        Heartbeat_def RecordMeterValues_def svc_publish_def put_cp_def StartTransaction_locked_eq
        split: option.splits sum.splits prod.splits dest!: BeginReservation_locked_Inr)
qed

section \<open>How often the end of a reservation is reported\<close>

text \<open>
  \<open>ended_due\<close> is 1 for an id whose end is still to be reported: one that is not handed out yet, or
  whose reservation is pending or active. It is 0 once the reservation is being cancelled (its end
  is reported by then) or gone.
\<close>

definition ended_due :: "int \<Rightarrow> Service \<Rightarrow> nat" where
  "ended_due i s = (if svc_nextReservationID s \<le> i then 1
     else case map_of (svc_reservations s) i of None \<Rightarrow> 0
       | Some r \<Rightarrow> if r_Status (rs_res r) = ReservationCancelling then 0 else 1)"

definition ended_count :: "int \<Rightarrow> Event list \<Rightarrow> nat" where
  "ended_count i evs = length (filter (\<lambda>e. ev_Kind e = EventReservationEnded \<and> ev_ReservationID e = i) evs)"

lemma ended_count_simps [simp]:
  "ended_count i [] = 0" "ended_count i (xs @ ys) = ended_count i xs + ended_count i ys"
  "ended_count i [reservation_event EventReservationEnded now r d] = (if r_ID r = i then 1 else 0)"
  "ended_count i [reservation_event EventReservationCreated now r d] = 0"
  by (simp_all add: ended_count_def reservation_event_def mkEvent_def)

lemma svc_inv_lookup:
  assumes "svc_inv s" and "map_of (svc_reservations s) i = Some r"
  shows "r_ID (rs_res r) = i" and "i < svc_nextReservationID s" and "1 \<le> i"
    and "r \<in> set (m_vals (svc_reservations s))"
  using assms by (auto simp: svc_inv_def res_inv_def res_ok_def image_iff dest: map_of_SomeD intro: bexI [rotated])

lemma ended_due_del:
  assumes "svc_inv s" and "map_of (svc_reservations s) k = Some r" and "r_Status (rs_res r) \<noteq> ReservationCancelling"
  shows "(if k = i then 1 else 0) + ended_due i (s\<lparr>svc_reservations := m_del k (svc_reservations s)\<rparr>) = ended_due i s"
  using assms svc_inv_lookup [OF assms(1,2)] by (auto simp: ended_due_def)

lemma start_ends_Some:
  assumes "svc_inv s" and "start_ends s cp t = Some (r, reason)"
  shows "map_of (svc_reservations s) (r_ID (rs_res r)) = Some r" and "r_Status (rs_res r) = ReservationActive"
proof -
  have "r \<in> set (m_vals (svc_reservations s)) \<and> r_Status (rs_res r) = ReservationActive"
  proof (cases "redeemedLocked s cp (evseUID s cp (ts_ConnectorID t)) t")
    case None
    then have "reservationOnEVSELocked s cp (evseUID s cp (ts_ConnectorID t)) = Some r"
      using assms(2) by (auto simp: start_ends_def Let_def)
    then show ?thesis using reservationOnEVSELocked_in
      by (auto simp: reservationOnEVSELocked_def dest: find_in_set)
  next
    case (Some r')
    then have "r' = r" using assms(2) by (simp add: start_ends_def Let_def)
    with Some show ?thesis using redeemedLocked_in [OF Some]
      by (auto simp: redeemedLocked_def Let_def dest!: find_in_set split: if_splits option.splits)
  qed
  then show "map_of (svc_reservations s) (r_ID (rs_res r)) = Some r" "r_Status (rs_res r) = ReservationActive"
    using res_id_range(1) [OF assms(1)] by auto
qed

lemma ended_due_cong:
  "svc_reservations s' = svc_reservations s \<Longrightarrow> svc_nextReservationID s' = svc_nextReservationID s
   \<Longrightarrow> ended_due i s' = ended_due i s"
  by (simp add: ended_due_def)

text \<open>Every section but the undoing of the reservation itself reports exactly what was due.\<close>

lemma core_exec_ended:
  assumes "svc_inv s" and "op_ok op s" and "op \<noteq> OpUndo i"
  shows "ended_count i (snd (core_exec op s)) + ended_due i (fst (core_exec op s)) = ended_due i s"
proof (cases op)
  case (OpBegin now r)
  have n: "wrap64 (svc_nextReservationID s + 1) = svc_nextReservationID s + 1"
    using assms OpBegin by (simp add: svc_inv_def ids_inv_def wrap64_inc)
  show ?thesis
    using n by (auto simp: OpBegin ended_due_def split: sum.splits prod.splits option.splits if_splits
        dest!: BeginReservation_locked_Inr)
next
  case (OpUndo k)
  then show ?thesis using assms(3) by (simp add: BeginReservation_undo_def ended_due_def)
next
  case (OpActivate now k)
  then show ?thesis by (auto simp: ActivateReservation_locked_def Let_def ended_due_def armLocked_def stopTimer_def
        split: option.splits)
next
  case (OpEnd now k reason)
  show ?thesis
  proof (cases "map_of (svc_reservations s) k")
    case (Some r)
    note l = svc_inv_lookup [OF assms(1) Some]
    show ?thesis
    proof (cases "r_Status (rs_res r) = ReservationCancelling")
      case True
      then show ?thesis using Some l by (simp add: OpEnd EndReservation_locked_def endLocked_def ended_due_def)
    next
      case False
      then show ?thesis using ended_due_del [OF assms(1) Some False, of i] Some l
        by (simp add: OpEnd EndReservation_locked_def endLocked_def)
    qed
  qed (simp add: OpEnd EndReservation_locked_def)
next
  case (OpOrphan now k reason)
  then show ?thesis using svc_inv_lookup [OF assms(1), of k]
    by (auto simp: OrphanReservation_locked_def stopTimer_def Let_def ended_due_def split: option.splits)
next
  case (OpExpire now k t)
  show ?thesis
  proof (cases "map_of (svc_reservations s) k")
    case (Some r)
    then show ?thesis using ended_due_del [OF assms(1) Some, of i] svc_inv_lookup [OF assms(1) Some]
      by (auto simp: OpExpire expire_locked_def endLocked_def)
  qed (simp add: OpExpire expire_locked_def)
next
  case (OpStart now cp t)
  show ?thesis
  proof (cases "start_ends s cp t")
    case None
    then show ?thesis using OpStart by (simp add: StartTransaction_locked_eq put_cp_def ended_due_def)
  next
    case (Some p)
    obtain r reason where p: "p = (r, reason)" by (rule prod.exhaust)
    note r = start_ends_Some [OF assms(1) Some [unfolded p]]
    show ?thesis using svc_inv_lookup(2) [OF assms(1) r(1)] r OpStart Some p
      by (auto simp: StartTransaction_locked_eq put_cp_def ended_due_def)
  qed
qed (simp_all add: Booted_def Seen_def Heartbeat_def RecordMeterValues_def NextTransactionID_locked_def
      NextRemoteStartID_locked_def svc_publish_def put_cp_def Let_def ended_due_def)

fun core_run :: "core_op list \<Rightarrow> Service \<Rightarrow> Service \<times> Event list" where
  "core_run [] s = (s, [])"
| "core_run (op # ops) s = (let r1 = core_exec op s; r2 = core_run ops (fst r1) in (fst r2, snd r1 @ snd r2))"

fun run_ok :: "core_op list \<Rightarrow> Service \<Rightarrow> bool" where
  "run_ok [] s = True"
| "run_ok (op # ops) s = (op_ok op s \<and> run_ok ops (fst (core_exec op s)))"

lemma core_run_inv: "svc_inv s \<Longrightarrow> run_ok ops s \<Longrightarrow> svc_inv (fst (core_run ops s))"
  by (induction ops arbitrary: s) (auto simp: Let_def core_exec_inv)

lemma core_run_next:
  "svc_inv s \<Longrightarrow> run_ok ops s \<Longrightarrow> svc_nextReservationID s \<le> svc_nextReservationID (fst (core_run ops s))"
proof (induction ops arbitrary: s)
  case (Cons op ops)
  then show ?case using core_exec_frame(2) [of s op] core_exec_inv [of s op] by (fastforce simp: Let_def)
qed simp

lemma core_run_ended:
  assumes "svc_inv s" and "run_ok ops s" and "OpUndo i \<notin> set ops"
  shows "ended_count i (snd (core_run ops s)) + ended_due i (fst (core_run ops s)) = ended_due i s"
  using assms
proof (induction ops arbitrary: s)
  case (Cons op ops)
  obtain s1 e1 where e: "core_exec op s = (s1, e1)" by (rule prod.exhaust)
  then have "svc_inv s1" using core_exec_inv [of s op] Cons.prems by simp
  moreover have "ended_count i e1 + ended_due i s1 = ended_due i s"
    using core_exec_ended [of s op i] Cons.prems e by auto
  ultimately show ?case using Cons.IH [of s1] Cons.prems e by (simp add: Let_def)
qed simp

section \<open>Reservations that are not active\<close>

text \<open>
  A pending reservation, or one being cancelled, belongs to the call that made it: only that call
  activates, ends, orphans or undoes it. Every other section leaves it as it is, so the call finds it
  again after waiting for the station.
\<close>

fun foreign :: "int \<Rightarrow> core_op \<Rightarrow> bool" where
  "foreign i (OpUndo k) = (k \<noteq> i)"
| "foreign i (OpActivate now k) = (k \<noteq> i)"
| "foreign i (OpEnd now k reason) = (k \<noteq> i)"
| "foreign i (OpOrphan now k reason) = (k \<noteq> i)"
| "foreign i op = True"

lemma foreign_keeps:
  assumes "svc_inv s" and "op_ok op s" and "foreign i op" and r: "map_of (svc_reservations s) i = Some r"
    and "r_Status (rs_res r) \<noteq> ReservationActive"
  shows "map_of (svc_reservations (fst (core_exec op s))) i = Some r"
proof (cases op)
  case (OpBegin now x)
  have "i < svc_nextReservationID s" using svc_inv_lookup [OF assms(1) r] by simp
  then show ?thesis using r by (auto simp: OpBegin split: sum.splits prod.splits dest!: BeginReservation_locked_Inr)
next
  case (OpEnd now k reason)
  then show ?thesis using assms(3) r svc_inv_lookup(1) [OF assms(1), of k]
    by (auto simp: EndReservation_locked_def endLocked_def split: option.splits)
next
  case (OpExpire now k t)
  then show ?thesis using assms(5) r svc_inv_lookup(1) [OF assms(1), of k]
    by (auto simp: expire_locked_def endLocked_def split: option.splits)
next
  case (OpStart now cp t)
  show ?thesis
  proof (cases "start_ends s cp t")
    case (Some p)
    obtain x reason where p: "p = (x, reason)" by (rule prod.exhaust)
    have "r_ID (rs_res x) \<noteq> i"
      using start_ends_Some [OF assms(1) Some [unfolded p]] assms(5) r by auto
    then show ?thesis using r OpStart Some p by (simp add: StartTransaction_locked_eq put_cp_def)
  qed (use r OpStart in \<open>simp add: StartTransaction_locked_eq put_cp_def\<close>)
qed (use assms(3) r in \<open>auto simp: ActivateReservation_locked_def OrphanReservation_locked_def
      BeginReservation_undo_def Booted_def Seen_def Heartbeat_def RecordMeterValues_def NextTransactionID_locked_def
      NextRemoteStartID_locked_def svc_publish_def put_cp_def Let_def split: option.splits\<close>)

lemma foreign_run_keeps:
  assumes "svc_inv s" and "run_ok ops s" and "list_all (foreign i) ops" and "map_of (svc_reservations s) i = Some r"
    and "r_Status (rs_res r) \<noteq> ReservationActive"
  shows "map_of (svc_reservations (fst (core_run ops s))) i = Some r"
  using assms
proof (induction ops arbitrary: s)
  case (Cons op ops)
  then show ?case using foreign_keeps [of s op i r] core_exec_inv [of s op] by (simp add: Let_def)
qed simp

section \<open>Interleavings, writes and restarts\<close>

text \<open>
  \<open>cw_writing\<close> is the write in progress: who started it, when it is \<open>BeginReservation\<close> for some id, and
  the service as it was when the writer read it. \<open>cw_begun\<close> holds the ids whose \<open>BeginReservation\<close> has
  not finished its write, \<open>cw_failed\<close> those whose write failed and that are still to be undone,
  \<open>cw_issued\<close> those that \<open>BeginReservation\<close> returned, in this run of the program and all before: the ids
  that may have reached a station.
\<close>

record core_world =
  cw_svc :: Service
  cw_writing :: "(int option \<times> Service) option"
  cw_begun :: "int list"
  cw_failed :: "int list"
  cw_issued :: "int list"

fun in_memory :: "core_op \<Rightarrow> bool" where
  "in_memory (OpBegin now r) = False"
| "in_memory (OpUndo i) = False"
| "in_memory op = True"

definition who_list :: "int option \<Rightarrow> int list" where
  "who_list who = (case who of None \<Rightarrow> [] | Some i \<Rightarrow> [i])"

definition without :: "int option \<Rightarrow> int list \<Rightarrow> int list" where
  "without who xs = filter (\<lambda>x. x \<notin> set (who_list who)) xs"

text \<open>The directories a crash can leave: the one before or after a write, or one in its middle.\<close>

definition crash_dir :: "(int option \<times> Service) option \<Rightarrow> Store \<Rightarrow> directory \<Rightarrow> bool" where
  "crash_dir writing st d \<longleftrightarrow> d = s_dir st \<or> (\<exists>who snap w. writing = Some (who, snap) \<and> fresh_tmp w st
     \<and> d \<in> set (fst (write_trace w (normalize_State (persist_fn snap (Get st))) st)))"

inductive core_step :: "core_world \<Rightarrow> core_world \<Rightarrow> bool" where
  exec: "in_memory op \<Longrightarrow> op_ok op (cw_svc W) \<Longrightarrow> core_step W (W\<lparr>cw_svc := fst (core_exec op (cw_svc W))\<rparr>)"
| publish: "core_step W (W\<lparr>cw_svc := svc_publish es (cw_svc W)\<rparr>)"
| begin_reservation: "BeginReservation_locked now r (cw_svc W) = Inr (s', r') \<Longrightarrow> svc_nextReservationID (cw_svc W) < max_int64
    \<Longrightarrow> core_step W (W\<lparr>cw_svc := s', cw_begun := r_ID r' # cw_begun W\<rparr>)"
| write_start: "cw_writing W = None \<Longrightarrow> set (who_list who) \<subseteq> set (cw_begun W)
    \<Longrightarrow> core_step W (W\<lparr>cw_writing := Some (who, cw_svc W)\<rparr>)"
| write_ok: "cw_writing W = Some (who, snap) \<Longrightarrow> svc_store (cw_svc W) = Some st \<Longrightarrow> fresh_tmp w st
    \<Longrightarrow> commit w (persist_fn snap) (cw_svc W) = (s', None)
    \<Longrightarrow> core_step W (W\<lparr>cw_svc := s', cw_writing := None, cw_begun := without who (cw_begun W),
                       cw_issued := who_list who @ cw_issued W\<rparr>)"
| write_failed: "cw_writing W = Some (who, snap) \<Longrightarrow> svc_store (cw_svc W) = Some st \<Longrightarrow> fresh_tmp w st
    \<Longrightarrow> commit w (persist_fn snap) (cw_svc W) = (s', Some e)
    \<Longrightarrow> core_step W (W\<lparr>cw_svc := s', cw_writing := None, cw_begun := without who (cw_begun W),
                       cw_failed := who_list who @ cw_failed W\<rparr>)"
| undo: "i \<in> set (cw_failed W)
    \<Longrightarrow> core_step W (W\<lparr>cw_svc := BeginReservation_undo i (cw_svc W), cw_failed := without (Some i) (cw_failed W)\<rparr>)"
| restart: "svc_store (cw_svc W) = Some st \<Longrightarrow> crash_dir (cw_writing W) st d \<Longrightarrow> Open True (s_path st) d = Inr st'
    \<Longrightarrow> fresh_tmp w st'
    \<Longrightarrow> core_step W \<lparr>cw_svc = New w now cfg (Some st'), cw_writing = None, cw_begun = [], cw_failed = [],
                     cw_issued = cw_issued W\<rparr>"

text \<open>The first start, on a directory without a state file.\<close>

definition core_initial :: "core_world \<Rightarrow> bool" where
  "core_initial W \<longleftrightarrow> (\<exists>w now cfg st. s_dir st (s_path st) = None \<and> s_state st = empty_State \<and> fresh_tmp w st
     \<and> W = \<lparr>cw_svc = New w now cfg (Some st), cw_writing = None, cw_begun = [], cw_failed = [], cw_issued = []\<rparr>)"

definition writing_ok :: "core_world \<Rightarrow> Store \<Rightarrow> bool" where
  "writing_ok W st \<longleftrightarrow> (case cw_writing W of None \<Rightarrow> True
     | Some (who, snap) \<Rightarrow> svc_inv snap \<and> st_NextReservationID (s_state st) \<le> svc_nextReservationID snap
         \<and> svc_nextReservationID snap \<le> svc_nextReservationID (cw_svc W)
         \<and> (\<forall>i \<in> set (who_list who). i \<in> set (cw_begun W) \<and> i < svc_nextReservationID snap))"

definition world_inv :: "core_world \<Rightarrow> bool" where
  [inv_defs]: "world_inv W \<longleftrightarrow> svc_inv (cw_svc W)
     \<and> (\<exists>st. svc_stored (cw_svc W) st \<and> writing_ok W st
            \<and> (\<forall>i \<in> set (cw_issued W). i < st_NextReservationID (s_state st)))
     \<and> (\<forall>i \<in> set (cw_begun W @ cw_failed W). i < svc_nextReservationID (cw_svc W))
     \<and> distinct (cw_begun W @ cw_failed W @ cw_issued W)"

lemma crash_reopen:
  assumes "store_inv st" and "stored_inv (s_state st)" and "crash_dir wr st d" and "Open True (s_path st) d = Inr st'"
    and wr: "\<And>who snap. wr = Some (who, snap) \<Longrightarrow> svc_inv snap \<and> st_NextReservationID (s_state st) \<le> svc_nextReservationID snap"
  shows "store_inv st' \<and> stored_inv (s_state st') \<and> st_NextReservationID (s_state st) \<le> st_NextReservationID (s_state st')"
proof -
  have same: "s_state st' = s_state st" if "d (s_path st) = s_dir st (s_path st)"
    using that assms(1,4) unfolding store_inv_def Open_def
    by (auto split: option.splits sum.splits if_splits dest: arg_cong [where f = s_state])
  have "stored_inv (s_state st') \<and> st_NextReservationID (s_state st) \<le> st_NextReservationID (s_state st')"
  proof (cases "d (s_path st) = s_dir st (s_path st)")
    case True
    then show ?thesis using same assms(2) by simp
  next
    case False
    then obtain who snap w where w: "wr = Some (who, snap)" "fresh_tmp w st"
      "d \<in> set (fst (write_trace w (normalize_State (persist_fn snap (Get st))) st))"
      using assms(3) by (auto simp: crash_dir_def)
    let ?n = "normalize_State (persist_fn snap (Get st))"
    have ok: "stored_inv (persist_fn snap (Get st))" using wr w(1) persist_fn_stored by blast
    have d: "d (s_path st) = Some (Some (enc_State ?n))" using write_trace_atomic [OF w(2,3)] False by blast
    have "encodable ?n" using w(3) False by (auto simp: write_trace_def split: if_splits)
    then have "parse_State (Some (enc_State ?n)) = Inr ?n"
      using ok by (intro parse_enc_State state_ok_normalize normalize_State_idem) (simp_all add: stored_inv_def)
    then have "s_state st' = ?n" using assms(4) d by (auto simp: Open_def)
    moreover have "st_NextReservationID ?n = svc_nextReservationID snap"
      by (simp add: normalize_State_def persist_fn_def Let_def split: prod.split)
    ultimately show ?thesis using wr w(1) stored_inv_normalize [OF ok] by auto
  qed
  then show ?thesis using Open_store_inv [OF assms(4)] by simp
qed

lemma world_initial: "core_initial W \<Longrightarrow> world_inv W"
proof -
  assume "core_initial W"
  then obtain w now cfg st where st: "s_dir st (s_path st) = None" "s_state st = empty_State" "fresh_tmp w st"
    and W: "W = \<lparr>cw_svc = New w now cfg (Some st), cw_writing = None, cw_begun = [], cw_failed = [], cw_issued = []\<rparr>"
    by (auto simp: core_initial_def)
  have "store_inv st" using st by (simp add: store_inv_def Open_def empty_State_normal)
  moreover have "stored_inv (s_state st)" using st stored_inv_empty by simp
  ultimately show ?thesis using New_inv [of st w now cfg] st(3) by (auto simp: W world_inv_def writing_ok_def)
qed

lemma svc_stored_frame:
  "svc_stored s st \<Longrightarrow> svc_store s' = svc_store s \<Longrightarrow> svc_nextReservationID s \<le> svc_nextReservationID s' \<Longrightarrow> svc_stored s' st"
  by (simp add: svc_stored_def)

text \<open>A section that keeps the store and only advances the counter.\<close>

lemma world_section:
  assumes "world_inv W" and "svc_inv s'" and "svc_store s' = svc_store (cw_svc W)"
    and "svc_nextReservationID (cw_svc W) \<le> svc_nextReservationID s'"
  shows "world_inv (W\<lparr>cw_svc := s'\<rparr>)"
proof -
  obtain st where st: "svc_stored (cw_svc W) st" "writing_ok W st" "\<forall>i \<in> set (cw_issued W). i < st_NextReservationID (s_state st)"
    using assms(1) by (auto simp: world_inv_def)
  have "svc_stored s' st" using svc_stored_frame [OF st(1) assms(3,4)] .
  moreover have "writing_ok (W\<lparr>cw_svc := s'\<rparr>) st" using st(2) assms(4)
    by (fastforce simp: writing_ok_def split: option.splits)
  ultimately have "\<exists>st. svc_stored s' st \<and> writing_ok (W\<lparr>cw_svc := s'\<rparr>) st \<and> (\<forall>i \<in> set (cw_issued W). i < st_NextReservationID (s_state st))"
    using st(3) by blast
  moreover have "\<forall>i \<in> set (cw_begun W @ cw_failed W). i < svc_nextReservationID s'"
    using assms(1,4) unfolding world_inv_def by fastforce
  ultimately show ?thesis using assms(1,2) by (simp add: world_inv_def)
qed

lemma world_begin:
  assumes "world_inv W" and "BeginReservation_locked now r (cw_svc W) = Inr (s', r')"
    and "svc_nextReservationID (cw_svc W) < max_int64"
  shows "world_inv (W\<lparr>cw_svc := s', cw_begun := r_ID r' # cw_begun W\<rparr>)"
proof -
  let ?n = "svc_nextReservationID (cw_svc W)"
  note b = BeginReservation_locked_Inr [OF assms(2)]
  have inv: "svc_inv (cw_svc W)" using assms(1) by (simp add: world_inv_def)
  have n: "svc_nextReservationID s' = ?n + 1" using b assms(3) inv by (simp add: svc_inv_def ids_inv_def wrap64_inc)
  have w: "world_inv (W\<lparr>cw_svc := s'\<rparr>)"
    using assms b n BeginReservation_locked_inv [OF inv assms(2,3)] by (intro world_section) simp_all
  have "i < ?n" if "i \<in> set (cw_begun W @ cw_failed W @ cw_issued W)" for i
    using that assms(1) unfolding world_inv_def svc_stored_def by fastforce
  then have "?n \<notin> set (cw_begun W @ cw_failed W @ cw_issued W)" by blast
  moreover obtain st where "svc_stored s' st" and wo: "writing_ok (W\<lparr>cw_svc := s'\<rparr>) st"
    and "\<forall>i \<in> set (cw_issued W). i < st_NextReservationID (s_state st)"
    using w by (auto simp: world_inv_def)
  moreover from wo have "writing_ok (W\<lparr>cw_svc := s', cw_begun := r_ID r' # cw_begun W\<rparr>) st"
    by (auto simp: writing_ok_def split: option.splits)
  ultimately show ?thesis using w n b by (auto simp: world_inv_def)
qed

lemma without_who [simp]: "set (without who xs) = set xs - set (who_list who)"
  by (auto simp: without_def)

lemma distinct_without: "distinct xs \<Longrightarrow> distinct (without who xs)"
  by (simp add: without_def)

lemma distinct_who_list [simp]: "distinct (who_list who)"
  by (simp add: who_list_def split: option.splits)

lemma world_write:
  assumes "world_inv W" and wr: "cw_writing W = Some (who, snap)" and "svc_store (cw_svc W) = Some st"
    and "fresh_tmp w st" and c: "commit w (persist_fn snap) (cw_svc W) = (s', e)"
  shows "world_inv (W\<lparr>cw_svc := s', cw_writing := None, cw_begun := without who (cw_begun W),
      cw_failed := (if e = None then [] else who_list who) @ cw_failed W,
      cw_issued := (if e = None then who_list who else []) @ cw_issued W\<rparr>)"
proof -
  have st: "svc_stored (cw_svc W) st" "writing_ok W st" "\<forall>i \<in> set (cw_issued W). i < st_NextReservationID (s_state st)"
    using assms(1,3) by (auto simp: world_inv_def svc_stored_def)
  then have sn: "svc_inv snap" "st_NextReservationID (s_state st) \<le> svc_nextReservationID snap"
    "svc_nextReservationID snap \<le> svc_nextReservationID (cw_svc W)"
    "\<forall>i \<in> set (who_list who). i \<in> set (cw_begun W) \<and> i < svc_nextReservationID snap"
    by (simp_all add: writing_ok_def wr)
  have so: "store_inv st" "stored_inv (s_state st)" using st(1) by (simp_all add: svc_stored_def)
  obtain st' where s': "s' = (cw_svc W)\<lparr>svc_store := Some st'\<rparr>" and i': "store_inv st'" "stored_inv (s_state st')"
    and ok: "e = None \<Longrightarrow> st_NextReservationID (s_state st') = svc_nextReservationID snap" and fail: "e \<noteq> None \<Longrightarrow> st' = st"
    using commit_stored [OF assms(3) so assms(4) sn(1) c] by metis
  have "svc_inv s'" using assms(1) s' by (simp add: world_inv_def svc_inv_def ids_inv_def)
  moreover have "svc_stored s' st'" using st(1) i' ok fail sn(3) by (cases e) (auto simp: svc_stored_def s')
  moreover have "\<forall>i \<in> set ((if e = None then who_list who else []) @ cw_issued W). i < st_NextReservationID (s_state st')"
    using st(3) sn(2,4) ok fail by (cases e) auto
  moreover have "distinct (without who (cw_begun W) @ ((if e = None then [] else who_list who) @ cw_failed W)
      @ (if e = None then who_list who else []) @ cw_issued W)"
    using assms(1) sn(4) unfolding world_inv_def by (cases e) (auto intro: distinct_without)
  moreover have "\<forall>i \<in> set (cw_begun W @ cw_failed W). i < svc_nextReservationID s'"
    using assms(1) s' by (simp add: world_inv_def)
  ultimately show ?thesis using sn(4) by (auto simp: world_inv_def writing_ok_def split: if_splits)
qed

lemma writing_ok_failed [simp]: "writing_ok (W\<lparr>cw_failed := x\<rparr>) st = writing_ok W st"
  by (simp add: writing_ok_def split: option.split)

lemma world_step:
  assumes "world_inv W" and "core_step W W'"
  shows "world_inv W'"
proof -
  have inv: "svc_inv (cw_svc W)" using assms(1) by (simp add: world_inv_def)
  from assms(2) show ?thesis
  proof cases
    case (exec op)
    then show ?thesis using assms(1) core_exec_inv [OF inv] core_exec_frame [OF inv] by (simp add: world_section)
  next
    case (publish es)
    then show ?thesis using world_section [OF assms(1) svc_publish_inv [OF inv, of es]]
      by (simp add: svc_publish_def)
  next
    case (begin_reservation now r s' r')
    then show ?thesis using world_begin [OF assms(1)] by simp
  next
    case (write_start who)
    then show ?thesis using assms(1) by (auto simp: world_inv_def writing_ok_def svc_stored_def)
  next
    case (write_ok who snap st w s')
    then show ?thesis using world_write [OF assms(1), of who snap st w s' None] by simp
  next
    case (write_failed who snap st w s' e)
    then show ?thesis using world_write [OF assms(1), of who snap st w s' "Some e"] by simp
  next
    case (undo i)
    have "world_inv (W\<lparr>cw_svc := BeginReservation_undo i (cw_svc W)\<rparr>)"
      by (rule world_section [OF assms(1) BeginReservation_undo_inv [OF inv]]) (simp_all add: BeginReservation_undo_def)
    then have "world_inv ((W\<lparr>cw_svc := BeginReservation_undo i (cw_svc W)\<rparr>)\<lparr>cw_failed := without (Some i) (cw_failed W)\<rparr>)"
      unfolding world_inv_def writing_ok_failed by (auto intro: distinct_without)
    with undo show ?thesis by simp
  next
    case (restart st d st' w now cfg)
    have st: "svc_stored (cw_svc W) st" "writing_ok W st" "\<forall>i \<in> set (cw_issued W). i < st_NextReservationID (s_state st)"
      using restart assms(1) by (auto simp: world_inv_def svc_stored_def)
    then have "store_inv st' \<and> stored_inv (s_state st') \<and> st_NextReservationID (s_state st) \<le> st_NextReservationID (s_state st')"
      using restart by (intro crash_reopen [of st "cw_writing W" d]) (auto simp: svc_stored_def writing_ok_def)
    then show ?thesis using New_inv [of st' w now cfg] restart st(3) assms(1)
      by (fastforce simp: world_inv_def writing_ok_def)
  qed
qed

interpretation core: transition_system core_initial core_step world_inv
  by unfold_locales (auto intro: world_initial world_step)

end
