(* ===== verification/Core_Restart.thy ===== *)
theory Core_Restart
  imports Core_Invariant
begin

text \<open>
  What a restart brings back (\<open>persist.go\<close>, read together with \<open>store.go\<close>): \<open>persist\<close>, a new process that opens the
  file, and \<open>New\<close> restore the active reservations that have not expired, the running sessions and the three counters.
\<close>

declare map_of_eq_Some_iff [simp del] Some_eq_map_of_iff [simp del]

section \<open>Keyed lists\<close>

definition keyed :: "('a \<Rightarrow> 'k) \<Rightarrow> 'a list \<Rightarrow> ('k \<times> 'a) list" where
  "keyed f xs = map (\<lambda>x. (f x, x)) xs"

lemma keyed_simps [simp]: "keyed f [] = []" "keyed f (x # xs) = (f x, x) # keyed f xs"
  by (simp_all add: keyed_def)

lemma keyed_iff: "distinct (map f xs) \<Longrightarrow> map_of (keyed f xs) k = Some x \<longleftrightarrow> x \<in> set xs \<and> f x = k"
  by (induction xs) (auto simp: image_iff)

lemma keyed_None: "map_of (keyed f xs) k = None \<longleftrightarrow> k \<notin> f ` set xs"
  by (induction xs) auto

section \<open>Reservations\<close>

lemma load_reservation_cfg: "connectorID (fst (load_reservation now r (s, d))) = connectorID s"
  using load_reservation_cases [of now r s d] by (auto simp: connectorID_def fun_eq_iff)

lemma load_reservations_lookup:
  "distinct (map sr_ID rs) \<Longrightarrow>
   map_of (svc_reservations (fst (fold (load_reservation now) rs (s, d)))) i =
     (case map_of (keyed sr_ID rs) i of
        Some r \<Rightarrow> if time_After (sr_ExpiresAt r) now \<and> connectorID s (sr_EVSEUID r) \<noteq> None
                  then Some (armLocked now (from_StReservation (the (connectorID s (sr_EVSEUID r))) r))
                  else map_of (svc_reservations s) i
      | None \<Rightarrow> map_of (svc_reservations s) i)"
proof (induction rs arbitrary: s d)
  case (Cons r rs)
  obtain s1 d1 where l: "load_reservation now r (s, d) = (s1, d1)" by (rule prod.exhaust)
  have c: "connectorID s1 = connectorID s" using load_reservation_cfg [of now r s d] l by simp
  have m: "map_of (svc_reservations s1) i = (if sr_ID r = i \<and> time_After (sr_ExpiresAt r) now \<and> connectorID s (sr_EVSEUID r) \<noteq> None
      then Some (armLocked now (from_StReservation (the (connectorID s (sr_EVSEUID r))) r)) else map_of (svc_reservations s) i)"
    using l by (auto simp: load_reservation_def split: if_splits option.splits)
  show ?case
  proof (cases "sr_ID r = i")
    case True
    then have "map_of (keyed sr_ID rs) i = None" using Cons.prems by (auto simp: keyed_None)
    then show ?thesis using Cons.IH [of s1 d1] Cons.prems True l m by simp
  next
    case False
    then show ?thesis using Cons.IH [of s1 d1] Cons.prems l m c by (auto split: option.split)
  qed
qed simp

section \<open>Sessions\<close>

abbreviation tx_key :: "StTransaction \<Rightarrow> string \<times> string" where
  "tx_key t \<equiv> (stx_ChargePointID t, stx_ID t)"

text \<open>The session \<open>k\<close> of charge point \<open>cp\<close> as the state file would hold it, and whether it runs.\<close>

definition session :: "Service \<Rightarrow> string \<Rightarrow> string \<Rightarrow> (StTransaction \<times> bool) option" where
  "session s cp k = map_option (\<lambda>tx. (to_StTransaction cp tx, tx_Active tx)) (map_of (cp_transactions (ensure s cp)) k)"

lemma session_load_transaction:
  "session (load_transaction t s) cp k = (if (cp, k) = tx_key t then Some (t, True) else session s cp k)"
  by (auto simp: session_def load_transaction_def Let_def put_cp_def ensure_def to_StTransaction_def tx_Active_def IsZero_def
      zero_time_def split: option.split)

lemma session_load_transactions:
  "distinct (map tx_key ts) \<Longrightarrow> session (fold load_transaction ts s) cp k =
     (case map_of (keyed tx_key ts) (cp, k) of Some t \<Rightarrow> Some (t, True) | None \<Rightarrow> session s cp k)"
proof (induction ts arbitrary: s)
  case (Cons t ts)
  show ?case
  proof (cases "tx_key t = (cp, k)")
    case True
    then have "map_of (keyed tx_key ts) (cp, k) = None" using Cons.prems by (auto simp: keyed_None)
    then show ?thesis using Cons.IH [of "load_transaction t s"] Cons.prems True by (simp add: session_load_transaction)
  next
    case False
    then show ?thesis using Cons.IH [of "load_transaction t s"] Cons.prems by (auto simp: session_load_transaction split: option.split)
  qed
qed simp

lemma session_reservation [simp]: "session (s\<lparr>svc_reservations := rs, svc_nextReservationID := n\<rparr>) = session s"
  by (simp add: session_def ensure_def fun_eq_iff)

lemma session_load_reservations: "session (fst (fold (load_reservation now) rs (s, d))) = session s"
proof (induction rs arbitrary: s d)
  case (Cons r rs)
  obtain s1 d1 where l: "load_reservation now r (s, d) = (s1, d1)" by (rule prod.exhaust)
  then have "session s1 = session s" using load_reservation_cases [of now r s d] by auto
  then show ?case using Cons.IH [of s1 d1] l by simp
qed simp

lemma fold_addEVSE_transactions:
  "cp_transactions (fold (\<lambda>e. addEVSE (e_UID e) (e_OCPPConnectorID e)) es c) = cp_transactions c"
  by (induction es arbitrary: c) simp_all

lemma session_New_memory: "session (New_memory cfg store) cp k = None"
  by (auto simp: session_def New_memory_def Let_def put_cp_def ensure_def fold_addEVSE_transactions newChargePoint_def
      split: option.split)

section \<open>What was written\<close>

lemma key_unique:
  assumes "distinct (map f xs)" and "x \<in> set xs" and "y \<in> set xs" and "f x = f y"
  shows "x = y"
  using assms by (auto simp: distinct_map inj_on_def)

lemma distinct_sort_key: "distinct (map f (sort_key g xs)) = distinct (map f xs)"
  by (simp add: distinct_map)

lemma active_reservations_keys:
  assumes "svc_inv s"
  shows "distinct (map r_ID (active_reservations s))"
proof -
  have rs: "distinct (m_keys (svc_reservations s))" using assms by (simp add: svc_inv_def res_inv_def)
  have "r_ID (rs_res r) = i" if "(i, r) \<in> set (svc_reservations s)" for i r
    using assms that rs by (auto simp: svc_inv_def res_inv_def res_ok_def)
  then have "map (r_ID \<circ> rs_res) (m_vals (svc_reservations s)) = m_keys (svc_reservations s)" by auto
  then have "distinct (map r_ID (map rs_res (m_vals (svc_reservations s))))" using rs by (simp only: map_map o_assoc)
  then show ?thesis unfolding active_reservations_def by (rule distinct_map_filter)
qed

lemma active_reservations_iff:
  assumes "svc_inv s"
  shows "r \<in> set (active_reservations s) \<and> r_ID r = i \<longleftrightarrow>
    (\<exists>x. map_of (svc_reservations s) i = Some x \<and> r = rs_res x \<and> r_Status r = ReservationActive)"
proof
  assume "r \<in> set (active_reservations s) \<and> r_ID r = i"
  then obtain x where "x \<in> set (m_vals (svc_reservations s))" "r = rs_res x" "r_Status r = ReservationActive" "r_ID r = i"
    unfolding active_reservations_def by auto
  then show "\<exists>x. map_of (svc_reservations s) i = Some x \<and> r = rs_res x \<and> r_Status r = ReservationActive"
    using res_id_range(1) [OF assms] by auto
next
  assume "\<exists>x. map_of (svc_reservations s) i = Some x \<and> r = rs_res x \<and> r_Status r = ReservationActive"
  then obtain x where x: "map_of (svc_reservations s) i = Some x" "r = rs_res x" "r_Status r = ReservationActive" by blast
  then have "x \<in> set (m_vals (svc_reservations s))" by (auto simp: image_iff dest: map_of_SomeD intro: bexI [rotated])
  moreover have "r_ID r = i" using assms x by (auto simp: svc_inv_def res_inv_def res_ok_def)
  ultimately show "r \<in> set (active_reservations s) \<and> r_ID r = i" using x unfolding active_reservations_def by auto
qed

lemma active_transactions_iff:
  assumes "svc_inv s"
  shows "(cp, tx) \<in> set (active_transactions s) \<and> tx_ID tx = k \<longleftrightarrow>
    map_of (cp_transactions (ensure s cp)) k = Some tx \<and> tx_Active tx"
proof -
  have cps: "cps_inv (svc_cps s)" using assms by (simp add: svc_inv_def)
  have cp: "c \<in> set (m_vals (svc_cps s)) \<and> cp_id c = cp \<longleftrightarrow> map_of (svc_cps s) cp = Some c" for c
    using cps by (auto simp: cps_inv_def cp_ok_def image_iff in_vals_iff simp del: set_map)
  have tx: "t \<in> set (m_vals (cp_transactions c)) \<and> tx_ID t = k \<longleftrightarrow> map_of (cp_transactions c) k = Some t"
    if "map_of (svc_cps s) cp = Some c" for c t
    using cps that by (auto simp: cps_inv_def cp_ok_def cp_inv_def in_vals_iff simp del: set_map)
  have "(cp, tx) \<in> set (active_transactions s) \<longleftrightarrow> (\<exists>c. (c \<in> set (m_vals (svc_cps s)) \<and> cp_id c = cp)
      \<and> tx \<in> set (m_vals (cp_transactions c)) \<and> tx_Active tx)"
    unfolding active_transactions_def set_concat set_map [of _ "m_vals _"] by (auto simp del: set_map) auto
  then have "(cp, tx) \<in> set (active_transactions s) \<longleftrightarrow>
      (\<exists>c. map_of (svc_cps s) cp = Some c \<and> tx \<in> set (m_vals (cp_transactions c)) \<and> tx_Active tx)"
    unfolding cp .
  then show ?thesis using tx by (auto simp: ensure_def newChargePoint_def split: option.split)
qed

lemma distinct_pairs:
  assumes "distinct (map g xs)" and "\<forall>x \<in> set xs. distinct (map h (f x))"
  shows "distinct (map (\<lambda>(a, b). (a, h b)) (concat (map (\<lambda>x. map (Pair (g x)) (f x)) xs)))"
  using assms
proof (induction xs)
  case (Cons x xs)
  have "distinct (map (\<lambda>b. (g x, h b)) (f x))" using Cons.prems by (auto simp: distinct_map inj_on_def)
  then show ?case using Cons by (auto simp: comp_def split_def)
qed simp

lemma active_transactions_keys:
  assumes "svc_inv s"
  shows "distinct (map (\<lambda>(cp, tx). (cp, tx_ID tx)) (active_transactions s))"
  unfolding active_transactions_def
proof (rule distinct_pairs)
  have cps: "cps_inv (svc_cps s)" using assms by (simp add: svc_inv_def)
  then have d: "distinct (m_keys (svc_cps s))" by (simp add: cps_inv_def)
  have "cp_id c = i" if "(i, c) \<in> set (svc_cps s)" for i c
    using cps that d by (simp add: cps_inv_def cp_ok_def)
  then have "map (cp_id \<circ> snd) (svc_cps s) = m_keys (svc_cps s)" by auto
  then show "distinct (map cp_id (m_vals (svc_cps s)))" using d by (simp only: map_map)
  show "\<forall>c \<in> set (m_vals (svc_cps s)). distinct (map tx_ID (filter tx_Active (m_vals (cp_transactions c))))"
  proof
    fix c assume "c \<in> set (m_vals (svc_cps s))"
    then obtain i where "map_of (svc_cps s) i = Some c" using in_vals_iff [OF d] by blast
    then have c: "cp_inv c" using cps by (simp add: cps_inv_def cp_ok_def)
    then have "tx_ID t = k" if "(k, t) \<in> set (cp_transactions c)" for k t using that by (simp add: cp_inv_def)
    then have "map (tx_ID \<circ> snd) (cp_transactions c) = m_keys (cp_transactions c)" by auto
    then have "distinct (map tx_ID (m_vals (cp_transactions c)))" using c by (simp only: map_map cp_inv_def)
    then show "distinct (map tx_ID (filter tx_Active (m_vals (cp_transactions c))))" by (rule distinct_map_filter)
  qed
qed

section \<open>The round trip\<close>

text \<open>The stored list of an invariant service, as \<open>New\<close> reads it after the file was written and opened again.\<close>

lemma written_reservations:
  assumes "svc_inv s"
  defines "rs \<equiv> map utc_StReservation (sort_key sr_ID (map to_StReservation (active_reservations s)))"
  shows "distinct (map sr_ID rs)"
    and "map_of (keyed sr_ID rs) i = (case map_of (svc_reservations s) i of None \<Rightarrow> None
           | Some x \<Rightarrow> if r_Status (rs_res x) = ReservationActive then Some (utc_StReservation (to_StReservation (rs_res x))) else None)"
proof -
  have "distinct (map (sr_ID \<circ> to_StReservation) (active_reservations s))"
    using active_reservations_keys [OF assms(1)] by (simp add: comp_def to_StReservation_def)
  then show d: "distinct (map sr_ID rs)" by (simp add: rs_def comp_def distinct_sort_key)
  have "t \<in> set rs \<and> sr_ID t = i \<longleftrightarrow>
      (\<exists>r. (r \<in> set (active_reservations s) \<and> r_ID r = i) \<and> t = utc_StReservation (to_StReservation r))" for t
    by (auto simp: rs_def to_StReservation_def utc_StReservation_def image_image)
  then have m: "map_of (keyed sr_ID rs) i = Some t \<longleftrightarrow> (\<exists>x. map_of (svc_reservations s) i = Some x
      \<and> r_Status (rs_res x) = ReservationActive \<and> t = utc_StReservation (to_StReservation (rs_res x)))" for t
    unfolding keyed_iff [OF d] active_reservations_iff [OF assms(1)] by blast
  show "map_of (keyed sr_ID rs) i = (case map_of (svc_reservations s) i of None \<Rightarrow> None
      | Some x \<Rightarrow> if r_Status (rs_res x) = ReservationActive then Some (utc_StReservation (to_StReservation (rs_res x))) else None)"
    using m by (cases "map_of (keyed sr_ID rs) i") (fastforce split: option.split)+
qed

lemma written_transactions:
  assumes "svc_inv s"
  defines "ts \<equiv> map utc_StTransaction (map (\<lambda>(cpID, tx). to_StTransaction cpID tx) (sort_key (tx_seq \<circ> snd) (active_transactions s)))"
  shows "distinct (map tx_key ts)"
    and "map_of (keyed tx_key ts) (cp, k) = (case map_of (cp_transactions (ensure s cp)) k of None \<Rightarrow> None
           | Some tx \<Rightarrow> if tx_Active tx then Some (utc_StTransaction (to_StTransaction cp tx)) else None)"
proof -
  have "map tx_key ts = map (\<lambda>(cp, tx). (cp, tx_ID tx)) (sort_key (tx_seq \<circ> snd) (active_transactions s))"
    by (simp add: ts_def to_StTransaction_def utc_StTransaction_def comp_def split_def)
  then show d: "distinct (map tx_key ts)" using active_transactions_keys [OF assms(1)] by (simp only: distinct_sort_key)
  have "t \<in> set ts \<and> tx_key t = (cp, k) \<longleftrightarrow>
      (\<exists>tx. ((cp, tx) \<in> set (active_transactions s) \<and> tx_ID tx = k) \<and> t = utc_StTransaction (to_StTransaction cp tx))" for t
    by (force simp: ts_def to_StTransaction_def utc_StTransaction_def)
  then have m: "map_of (keyed tx_key ts) (cp, k) = Some t \<longleftrightarrow> (\<exists>tx. map_of (cp_transactions (ensure s cp)) k = Some tx
      \<and> tx_Active tx \<and> t = utc_StTransaction (to_StTransaction cp tx))" for t
    unfolding keyed_iff [OF d] active_transactions_iff [OF assms(1)] by blast
  show "map_of (keyed tx_key ts) (cp, k) = (case map_of (cp_transactions (ensure s cp)) k of None \<Rightarrow> None
           | Some tx \<Rightarrow> if tx_Active tx then Some (utc_StTransaction (to_StTransaction cp tx)) else None)"
    using m by (cases "map_of (keyed tx_key ts) (cp, k)") (fastforce split: option.split)+
qed

lemma persisted_state:
  assumes "svc_inv s" and "svc_stored s st" and "fresh_tmp w st" and "persist w s = (s', None)"
  obtains st' where "svc_store s' = Some st'" and "store_inv st'" and "reopen st' = Some st'"
    and "Get st' = clone_State (normalize_State (persist_fn s (Get st)))"
proof -
  have st: "svc_store s = Some st" "store_inv st" using assms(2) by (simp_all add: svc_stored_def)
  obtain st' where u: "update_State w (persist_fn s) st = (st', None)" and s': "svc_store s' = Some st'"
    using assms(4) st by (auto simp: persist_def commit_def split: prod.splits)
  have "state_ok (persist_fn s (Get st))" using persist_fn_stored [OF assms(1)] by (simp add: stored_inv_def)
  then have "store_inv st'" using file_store.upd_valid [OF assms(3) st(2), of "persist_fn s"] u by simp
  then show thesis using that s' file_store.reload_valid file_store.upd_get [OF assms(3) u] by blast
qed

lemma from_to_StReservation:
  "r_Status r = ReservationActive \<Longrightarrow> from_StReservation (r_ConnectorID r) (utc_StReservation (to_StReservation r)) =
     \<lparr>rs_res = r\<lparr>r_ExpiresAt := UTC (r_ExpiresAt r), r_CreatedAt := UTC (r_CreatedAt r)\<rparr>, rs_timer = None\<rparr>"
  by (cases r) (simp add: from_StReservation_def utc_StReservation_def to_StReservation_def)

lemma to_StReservation_fields:
  "time_After (sr_ExpiresAt (utc_StReservation (to_StReservation r))) now = time_After (r_ExpiresAt r) now"
  "sr_EVSEUID (to_StReservation r) = r_EVSEUID r"
  by (simp_all add: utc_StReservation_def to_StReservation_def time_After_def)

lemma restarted_reservations:
  assumes "svc_inv s" and "Get st' = clone_State (normalize_State (persist_fn s st0))"
  shows "map_of (svc_reservations (New w now (svc_cfg s) (Some st'))) i =
    (case map_of (svc_reservations s) i of None \<Rightarrow> None
     | Some x \<Rightarrow> if r_Status (rs_res x) = ReservationActive \<and> time_After (r_ExpiresAt (rs_res x)) now
                 then Some (armLocked now \<lparr>rs_res = (rs_res x)\<lparr>r_ExpiresAt := UTC (r_ExpiresAt (rs_res x)),
                                                          r_CreatedAt := UTC (r_CreatedAt (rs_res x))\<rparr>, rs_timer = None\<rparr>)
                 else None)"
proof -
  let ?rs = "map utc_StReservation (sort_key sr_ID (map to_StReservation (active_reservations s)))"
  let ?m = "New_memory (svc_cfg s) (Some st')"
  define s1 where "s1 = fold load_transaction (elems (st_Transactions (Get st')))
    (?m\<lparr>svc_nextReservationID := max (st_NextReservationID (Get st')) 1, svc_nextTransactionID := max (st_NextTransactionID (Get st')) 1,
        svc_nextRemoteStartID := max (st_NextRemoteStartID (Get st')) 1\<rparr>)"
  have "svc_cfg (load_transaction t x) = svc_cfg x \<and> svc_reservations (load_transaction t x) = svc_reservations x" for t x
    by (auto simp: load_transaction_def Let_def put_cp_def split: option.splits)
  then have "svc_cfg (fold load_transaction ts x) = svc_cfg x \<and> svc_reservations (fold load_transaction ts x) = svc_reservations x" for ts x
    by (induction ts arbitrary: x) simp_all
  then have s1: "connectorID s1 = connectorID s" "svc_reservations s1 = []"
    by (auto simp: s1_def connectorID_def fun_eq_iff)
  have rs: "elems (st_Reservations (Get st')) = ?rs"
    by (simp add: assms(2) clone_State_def normalize_State_def persist_fn_def persistableLocked_def)
  have n: "svc_reservations (New w now (svc_cfg s) (Some st')) = svc_reservations (fst (fold (load_reservation now) ?rs (s1, False)))"
    by (simp add: New_def load_def loadLocked_def Let_def rs s1_def split: prod.split)
  have c: "connectorID s (r_EVSEUID (rs_res x)) = Some (r_ConnectorID (rs_res x))"
    if "map_of (svc_reservations s) i = Some x" for x
    using assms(1) that unfolding connectorID_Some svc_inv_def res_inv_def res_ok_def by blast
  show ?thesis
    unfolding n load_reservations_lookup [OF written_reservations(1) [OF assms(1)]] written_reservations(2) [OF assms(1)] s1
    by (auto dest!: c simp: to_StReservation_fields from_to_StReservation split: option.splits)
qed

lemma restarted_sessions:
  assumes "svc_inv s" and "Get st' = clone_State (normalize_State (persist_fn s st0))"
  shows "session (New w now (svc_cfg s) (Some st')) cp k =
    (case map_of (cp_transactions (ensure s cp)) k of None \<Rightarrow> None
     | Some tx \<Rightarrow> if tx_Active tx then Some (utc_StTransaction (to_StTransaction cp tx), True) else None)"
proof -
  let ?ts = "map utc_StTransaction (map (\<lambda>(cpID, tx). to_StTransaction cpID tx) (sort_key (tx_seq \<circ> snd) (active_transactions s)))"
  let ?m = "New_memory (svc_cfg s) (Some st')"
  define s0 where "s0 = ?m\<lparr>svc_nextReservationID := max (st_NextReservationID (Get st')) 1,
    svc_nextTransactionID := max (st_NextTransactionID (Get st')) 1, svc_nextRemoteStartID := max (st_NextRemoteStartID (Get st')) 1\<rparr>"
  have s0: "session s0 = session ?m" by (simp add: s0_def session_def ensure_def fun_eq_iff)
  have ts: "elems (st_Transactions (Get st')) = ?ts"
    by (simp add: assms(2) clone_State_def normalize_State_def persist_fn_def persistableLocked_def)
  have p: "session (fst (persist w x)) = session x" for x by (simp add: session_def ensure_def fun_eq_iff)
  have "session (New w now (svc_cfg s) (Some st')) =
      session (fst (fold (load_reservation now) (elems (st_Reservations (Get st'))) (fold load_transaction ?ts s0, False)))"
    by (simp add: New_def load_def loadLocked_def Let_def ts s0_def p split: prod.split)
  then have "session (New w now (svc_cfg s) (Some st')) cp k = session (fold load_transaction ?ts s0) cp k"
    by (simp add: session_load_reservations)
  then show ?thesis
    unfolding session_load_transactions [OF written_transactions(1) [OF assms(1)]] written_transactions(2) [OF assms(1)] s0 session_New_memory
    by (simp split: option.split)
qed

section \<open>Counters\<close>

lemma load_transaction_next:
  "svc_nextTransactionID s \<le> svc_nextTransactionID (load_transaction t s)"
  "Atoi (stx_ID t) = Some n \<Longrightarrow> n < max_int64 \<Longrightarrow> n < svc_nextTransactionID (load_transaction t s)"
proof -
  show "svc_nextTransactionID s \<le> svc_nextTransactionID (load_transaction t s)"
    by (simp add: load_transaction_def Let_def put_cp_def split: option.split)
  assume "Atoi (stx_ID t) = Some n" and "n < max_int64"
  then show "n < svc_nextTransactionID (load_transaction t s)"
    using Atoi_range [of "stx_ID t" n] wrap64_id [of "n + 1"]
    by (simp add: load_transaction_def Let_def put_cp_def int64_range_def max_int64_def less_max_iff_disj)
qed

lemma load_transactions_next:
  assumes "t \<in> set ts" and "Atoi (stx_ID t) = Some n" and "n < max_int64"
  shows "n < svc_nextTransactionID (fold load_transaction ts s)"
proof -
  have mono: "svc_nextTransactionID s \<le> svc_nextTransactionID (fold load_transaction ts s)" for s ts
    by (induction ts arbitrary: s) (auto intro: order_trans load_transaction_next(1))
  show ?thesis using assms(1)
  proof (induction ts arbitrary: s)
    case (Cons x ts)
    then show ?case using load_transaction_next(2) [OF assms(2,3), of s] mono [of "load_transaction t s" ts] by auto
  qed simp
qed

lemma load_reservations_next:
  "svc_nextTransactionID (fst (fold (load_reservation now) rs (s, d))) = svc_nextTransactionID s"
proof (induction rs arbitrary: s d)
  case (Cons r rs)
  obtain s1 d1 where l: "load_reservation now r (s, d) = (s1, d1)" by (rule prod.exhaust)
  then have "svc_nextTransactionID s1 = svc_nextTransactionID s" using load_reservation_cases [of now r s d] by auto
  then show ?case using Cons.IH [of s1 d1] l by simp
qed simp

end
