(* ===== verification/Examples.thy ===== *)
theory Examples
  imports Core_Interleaving Core_Restart
begin

text \<open>
  A small installation, on which the properties are evaluated: one charge point with two EVSEs, an
  empty state directory, and the run in which a reservation is made, written, and the program then
  dies and starts again.
\<close>

definition example_EVSE :: "string \<Rightarrow> int \<Rightarrow> EVSE" where
  "example_EVSE uid n = \<lparr>e_UID = uid, e_EVSEID = uid, e_OCPPConnectorID = n, e_Connectors = []\<rparr>"

definition example_cfg :: Config where
  "example_cfg = \<lparr>
     cfg_Charger = \<lparr>ch_ID = ''CP1'', ch_IP = [], ch_OCPPVersion = ''1.6'', ch_HeartbeatInterval = NewDuration (60 * Second),
                    ch_HeartbeatTimeout = NewDuration (90 * Second), ch_CallTimeout = NewDuration (30 * Second)\<rparr>,
     cfg_Server = \<lparr>ls_OCPPBind = DefaultOCPPBind, ls_OCPIBind = DefaultOCPIBind\<rparr>,
     cfg_Auth = \<lparr>au_DefaultIDTag = ''TAG''\<rparr>,
     cfg_OCPI = \<lparr>oc_CountryCode = ''DE'', oc_PartyID = ''ABC'', oc_PublicBaseURL = [], oc_TokenA = [], oc_TokenC = [],
                 oc_Push = \<lparr>pu_Debounce = NewDuration DefaultPushDebounce, pu_MaxRetries = DefaultPushMaxRetries\<rparr>\<rparr>,
     cfg_Location = \<lparr>lo_ID = ''L1'', lo_Name = [], lo_Address = [], lo_City = [], lo_PostalCode = [], lo_Country = ''DEU'',
                     lo_Coordinates = \<lparr>co_Latitude = ''50.0'', co_Longitude = ''8.0''\<rparr>,
                     lo_EVSEs = [example_EVSE ''E1'' 1, example_EVSE ''E2'' 2]\<rparr>\<rparr>"

text \<open>Noon on 1 January 2024 UTC, and an hour later.\<close>

definition example_now :: gotime where
  "example_now = the (parse_rfc3339 ''2024-01-01T12:00:00Z'')"

definition example_expiry :: gotime where
  "example_expiry = the (parse_rfc3339 ''2024-01-01T13:00:00Z'')"

definition example_reservation :: "string \<Rightarrow> Reservation" where
  "example_reservation uid = \<lparr>r_ID = 0, r_OCPIReservationID = [], r_ChargePointID = ''CP1'', r_EVSEUID = uid, r_ConnectorID = 0,
     r_IDTag = ''TAG'', r_ExpiresAt = example_expiry, r_CreatedAt = zero_time, r_Source = ''test'', r_ResponseURL = [],
     r_Status = ReservationPending\<rparr>"

text \<open>The service without a store, and with one reservation waiting for the station's answer.\<close>

definition example_svc :: Service where
  "example_svc = New_memory (Some example_cfg) None"

definition example_pending :: Service where
  "example_pending = fst (core_run [OpBegin example_now (example_reservation ''E1'')] example_svc)"

definition example_active :: Service where
  "example_active = fst (core_run [OpBegin example_now (example_reservation ''E1''), OpActivate example_now 1] example_svc)"

lemma example_svc_inv: "svc_inv example_svc"
  by (simp add: example_svc_def New_memory_inv)

lemma example_connectors [simp]:
  "svc_cfg s = Some example_cfg \<Longrightarrow> connectorID s ''E1'' = Some 1"
  "svc_cfg s = Some example_cfg \<Longrightarrow> connectorID s ''E2'' = Some 2"
  by (simp_all add: connectorID_def EVSEByUID_def example_cfg_def example_EVSE_def)

lemma example_svc_fields [simp]:
  "svc_cfg example_svc = Some example_cfg" "svc_reservations example_svc = []" "svc_nextReservationID example_svc = 1"
  "svc_store example_svc = None"
  by (simp_all add: example_svc_def New_memory_def Let_def put_cp_def split: option.split)

lemma example_begin:
  "BeginReservation_locked example_now (example_reservation ''E1'') example_svc =
     Inr (example_pending, (example_reservation ''E1'')\<lparr>r_ID := 1, r_ConnectorID := 1, r_CreatedAt := example_now\<rparr>)"
  by (simp add: BeginReservation_locked_def example_pending_def example_reservation_def reservationOnLocked_def
      Let_def split: option.split)

lemma example_ops_ok:
  "run_ok [OpBegin example_now (example_reservation ''E1'')] example_svc"
  "run_ok [OpBegin example_now (example_reservation ''E1''), OpActivate example_now 1] example_svc"
  by (simp_all add: max_int64_def)

lemma example_pending_inv: "svc_inv example_pending"
  unfolding example_pending_def by (rule core_run_inv [OF example_svc_inv example_ops_ok(1)])

lemma example_active_inv: "svc_inv example_active"
  unfolding example_active_def by (rule core_run_inv [OF example_svc_inv example_ops_ok(2)])

lemma begin_state:
  "BeginReservation_locked now r s = Inr (s', r') \<Longrightarrow>
   s' = s\<lparr>svc_nextReservationID := wrap64 (svc_nextReservationID s + 1),
          svc_reservations := m_put (svc_nextReservationID s) \<lparr>rs_res = r', rs_timer = None\<rparr> (svc_reservations s)\<rparr>"
  by (simp add: BeginReservation_locked_Inr)

lemma example_pending_fields [simp]:
  "svc_reservations example_pending = [(1, \<lparr>rs_res = (example_reservation ''E1'')\<lparr>r_ID := 1, r_ConnectorID := 1,
     r_CreatedAt := example_now\<rparr>, rs_timer = None\<rparr>)]"
  "svc_nextReservationID example_pending = 2" "svc_cfg example_pending = Some example_cfg"
  "svc_store example_pending = None"
  by (simp_all add: begin_state [OF example_begin] wrap64_def)

lemma example_active_eq:
  "example_active = example_pending\<lparr>svc_reservations := [(1, armLocked example_now \<lparr>rs_res = (example_reservation ''E1'')\<lparr>r_ID := 1,
      r_ConnectorID := 1, r_CreatedAt := example_now, r_Status := ReservationActive\<rparr>, rs_timer = None\<rparr>)]\<rparr>"
proof -
  have "example_active = fst (core_run [OpActivate example_now 1] example_pending)"
    by (simp add: example_active_def example_pending_def Let_def)
  then show ?thesis by (simp add: ActivateReservation_locked_def example_reservation_def Let_def)
qed

lemma example_active_cfg: "svc_cfg example_active = Some example_cfg"
  using arg_cong [OF example_active_eq, of svc_cfg] by simp

lemma example_active_on: "\<exists>r. ActiveReservation example_active ''E1'' = Some r \<and> r_ID r = 1"
  using arg_cong [OF example_active_eq, of svc_reservations]
  by (simp add: ActiveReservation_def reservationOnLocked_def example_reservation_def armLocked_def stopTimer_def)

section \<open>The service with its file\<close>

definition example_env :: write_env where
  "example_env = \<lparr>w_tmp = ''state.tmp'', w_fail = None\<rparr>"

definition example_store :: Store where
  "example_store = \<lparr>s_path = ''state.json'', s_state = empty_State, s_dir = (\<lambda>_. None)\<rparr>"

definition world0 :: core_world where
  "world0 = \<lparr>cw_svc = New example_env example_now (Some example_cfg) (Some example_store), cw_writing = None,
     cw_begun = [], cw_failed = [], cw_issued = []\<rparr>"

definition world1 :: core_world where
  "world1 = world0\<lparr>cw_svc := fst (projr (BeginReservation_locked example_now (example_reservation ''E1'') (cw_svc world0))),
     cw_begun := [1]\<rparr>"

definition world2 :: core_world where
  "world2 = world1\<lparr>cw_writing := Some (Some 1, cw_svc world1)\<rparr>"

definition world3 :: core_world where
  "world3 = world2\<lparr>cw_svc := fst (commit example_env (persist_fn (cw_svc world1)) (cw_svc world2)), cw_writing := None,
     cw_begun := [], cw_issued := [1]\<rparr>"

definition world4 :: core_world where
  "world4 = \<lparr>cw_svc = New example_env example_now (Some example_cfg) (svc_store (cw_svc world3)), cw_writing = None,
     cw_begun = [], cw_failed = [], cw_issued = [1]\<rparr>"

lemma fresh_example [simp]: "fresh_tmp example_env example_store"
  by (simp add: fresh_tmp_def example_env_def example_store_def)

lemma world0_initial: "core_initial world0"
  unfolding core_initial_def world0_def
  by (rule exI [of _ example_env], rule exI [of _ example_now], rule exI [of _ "Some example_cfg"], rule exI [of _ example_store])
    (simp add: fresh_example, simp add: example_store_def)

lemma world0_fields:
  "svc_cfg (cw_svc world0) = Some example_cfg" "svc_reservations (cw_svc world0) = []"
  "svc_nextReservationID (cw_svc world0) = 1" "svc_store (cw_svc world0) = Some example_store"
  "active_transactions (cw_svc world0) = []" "svc_nextTransactionID (cw_svc world0) = 1" "svc_nextRemoteStartID (cw_svc world0) = 1"
  by (simp_all add: world0_def New_def load_def loadLocked_def Get_def clone_State_def example_store_def empty_State_def Let_def
      clone_nil_def New_memory_def put_cp_def active_transactions_def newChargePoint_def addEVSE_def
      example_cfg_def example_EVSE_def)

lemma world0_begin:
  "BeginReservation_locked example_now (example_reservation ''E1'') (cw_svc world0) =
     Inr (cw_svc world1, (example_reservation ''E1'')\<lparr>r_ID := 1, r_ConnectorID := 1, r_CreatedAt := example_now\<rparr>)"
  by (simp add: BeginReservation_locked_def world1_def world0_fields example_reservation_def reservationOnLocked_def Let_def)

lemma world1_fields:
  "svc_nextReservationID (cw_svc world1) = 2" "svc_store (cw_svc world1) = Some example_store"
  "active_transactions (cw_svc world1) = []" "active_reservations (cw_svc world1) = []"
  "svc_nextTransactionID (cw_svc world1) = 1" "svc_nextRemoteStartID (cw_svc world1) = 1"
  using world0_fields(5)
  by (simp_all add: begin_state [OF world0_begin] wrap64_def world0_fields active_transactions_def active_reservations_def
      example_reservation_def)

lemma world2_write:
  "commit example_env (persist_fn (cw_svc world1)) (cw_svc world2) = (cw_svc world3, None)"
  by (simp add: world3_def world2_def commit_def world1_fields update_State_def Update_def store_write_def write_trace_def
      persist_fn_def persistableLocked_def example_env_def example_store_def encodable_def normalize_State_def
      clone_State_def empty_State_def write_steps_def Let_def)

lemma world3_store:
  obtains st where "svc_store (cw_svc world3) = Some st" and "fresh_tmp example_env st" and "s_path st = ''state.json''"
    and "st_NextReservationID (s_state st) = 2"
  using that by (simp add: world3_def world2_def commit_def world1_fields update_State_def Update_def store_write_def write_trace_def
      persist_fn_def persistableLocked_def example_env_def example_store_def encodable_def normalize_State_def
      clone_State_def empty_State_def write_steps_def Let_def fresh_tmp_def)

lemma example_reserved: "core_step\<^sup>*\<^sup>* world0 world1"
proof -
  have "core_step world0 (world0\<lparr>cw_svc := cw_svc world1,
      cw_begun := r_ID ((example_reservation ''E1'')\<lparr>r_ID := 1, r_ConnectorID := 1, r_CreatedAt := example_now\<rparr>) # cw_begun world0\<rparr>)"
    by (rule core_step.begin_reservation [OF world0_begin]) (simp add: world0_fields max_int64_def)
  then show ?thesis by (intro r_into_rtranclp) (simp add: world1_def world0_def)
qed

lemma example_written: "core_step\<^sup>*\<^sup>* world0 world3"
proof -
  have "core_step world1 world2"
    unfolding world2_def by (rule core_step.write_start) (simp_all add: world1_def world0_def who_list_def)
  moreover have "core_step world2 (world2\<lparr>cw_svc := cw_svc world3, cw_writing := None, cw_begun := without (Some 1) (cw_begun world2),
      cw_issued := who_list (Some 1) @ cw_issued world2\<rparr>)"
    by (rule core_step.write_ok [OF _ _ fresh_example world2_write]) (simp_all add: world2_def world1_fields)
  moreover have "world2\<lparr>cw_svc := cw_svc world3, cw_writing := None, cw_begun := without (Some 1) (cw_begun world2),
      cw_issued := who_list (Some 1) @ cw_issued world2\<rparr> = world3"
    by (simp add: world3_def world2_def world1_def world0_def without_def who_list_def)
  ultimately show ?thesis using example_reserved by (metis rtranclp.rtrancl_into_rtrancl)
qed

lemma example_restarted: "core_step\<^sup>*\<^sup>* world0 world4" and world4_next: "svc_nextReservationID (cw_svc world4) = 2"
proof -
  obtain st where st: "svc_store (cw_svc world3) = Some st" "fresh_tmp example_env st" "s_path st = ''state.json''"
    "st_NextReservationID (s_state st) = 2" by (rule world3_store)
  have "world_inv world3" by (rule core.inv_reachable [OF world0_initial example_written])
  then have i: "store_inv st" "stored_inv (s_state st)" using st(1) by (auto simp: world_inv_def svc_stored_def)
  then have "Open True (s_path st) (s_dir st) = Inr st" by (simp add: store_inv_def)
  then have "core_step world3 \<lparr>cw_svc = New example_env example_now (Some example_cfg) (Some st), cw_writing = None,
      cw_begun = [], cw_failed = [], cw_issued = cw_issued world3\<rparr>"
    by (intro core_step.restart [OF st(1) _ _ st(2), where d = "s_dir st"]) (simp_all add: crash_dir_def)
  then have "core_step world3 world4" by (simp add: world4_def st(1)) (simp add: world3_def)
  with example_written show "core_step\<^sup>*\<^sup>* world0 world4" by (rule rtranclp.rtrancl_into_rtrancl)
  show "svc_nextReservationID (cw_svc world4) = 2" using New_inv(2) [OF i st(2)] by (simp add: world4_def st)
qed

lemma world4_fields: "svc_cfg (cw_svc world4) = Some example_cfg" "svc_reservations (cw_svc world4) = []"
  by (simp_all add: world4_def world3_def world2_def commit_def world1_fields update_State_def Update_def store_write_def write_trace_def
      persist_fn_def persistableLocked_def example_env_def example_store_def encodable_def normalize_State_def
      clone_State_def empty_State_def write_steps_def Let_def New_def load_def loadLocked_def Get_def)

text \<open>The reservation of \<open>world1\<close> once the station has accepted it, not written yet.\<close>

definition stored_active :: Service where
  "stored_active = fst (core_exec (OpActivate example_now 1) (cw_svc world1))"

lemma stored_active_inv: "svc_inv stored_active"
proof -
  have "svc_inv (cw_svc world1)" using core.inv_reachable [OF world0_initial example_reserved] by (simp add: world_inv_def)
  then show ?thesis unfolding stored_active_def by (rule core_exec_inv) simp
qed

lemma stored_active_res:
  "svc_reservations stored_active = [(1, armLocked example_now \<lparr>rs_res = (example_reservation ''E1'')\<lparr>r_ID := 1, r_ConnectorID := 1,
     r_CreatedAt := example_now, r_Status := ReservationActive\<rparr>, rs_timer = None\<rparr>)]"
  "svc_store stored_active = Some example_store" "svc_cfg stored_active = Some example_cfg" "svc_nextReservationID stored_active = 2"
  "active_transactions stored_active = []"
  using world1_fields(3)
  by (simp_all add: stored_active_def ActivateReservation_locked_def begin_state [OF world0_begin] world0_fields wrap64_def
      example_reservation_def active_transactions_def Let_def)

lemma stored_active_stored: "svc_stored stored_active example_store"
  using core.inv_initial [OF world0_initial] world0_fields
  by (auto simp: svc_stored_def stored_active_res world_inv_def example_store_def empty_State_def)

lemma example_times: "four_digit_year (UTC example_now)" "four_digit_year (UTC example_expiry)" and
  example_later: "time_After example_expiry example_now"
  by code_simp+

lemma stored_active_persist: "persist example_env stored_active = (fst (persist example_env stored_active), None)"
  by (simp add: persist_def stored_active_res commit_def update_State_def Update_def store_write_def write_trace_def
      persist_fn_def persistableLocked_def active_reservations_def example_env_def example_store_def encodable_def normalize_State_def
      clone_State_def empty_State_def write_steps_def Let_def armLocked_def stopTimer_def to_StReservation_def utc_StReservation_def
      example_reservation_def example_times)

lemma world4_cp:
  obtains cp where "map_of (svc_cps (cw_svc world4)) ''CP1'' = Some cp" and "''E1'' \<in> set (cp_order cp)" and "\<not> cp_online cp"
  using that
  by (simp add: world4_def world3_def world2_def commit_def world1_fields update_State_def Update_def store_write_def write_trace_def
      persist_fn_def persistableLocked_def example_env_def example_store_def encodable_def normalize_State_def
      clone_State_def empty_State_def write_steps_def Let_def New_def load_def loadLocked_def Get_def New_memory_def put_cp_def
      example_cfg_def example_EVSE_def newChargePoint_def addEVSE_def)

lemma example_cps: "\<exists>cp. svc_cps example_svc = [(''CP1'', cp)] \<and> cp_station cp = StatusAvailable"
  by (simp add: example_svc_def New_memory_def put_cp_def Let_def example_cfg_def example_EVSE_def newChargePoint_def addEVSE_def)

lemma connected_example:
  "evseUID (Connected example_now ''CP1'' example_svc) ''CP1'' 1 = ''E1''"
  "cp_online (ensure (Connected example_now ''CP1'' example_svc) ''CP1'')"
  "cp_station (ensure (Connected example_now ''CP1'' example_svc) ''CP1'') = StatusAvailable"
  "svc_EVSEStatus (SetConnectorStatus example_now ''CP1'' 1 st [] (Connected example_now ''CP1'' example_svc)) ''E1''
     = map_of (cp_effective (ensure (SetConnectorStatus example_now ''CP1'' 1 st [] (Connected example_now ''CP1'' example_svc)) ''CP1'')) ''E1''"
proof -
  obtain cp where cp: "svc_cps example_svc = [(''CP1'', cp)]" "cp_station cp = StatusAvailable" using example_cps by blast
  obtain cp1 e1 where r: "recompute example_now (cp\<lparr>cp_online := True, cp_lastSeen := example_now\<rparr>) = (cp1, e1)" by (rule prod.exhaust)
  note f = recompute_fields [OF r]
  show "evseUID (Connected example_now ''CP1'' example_svc) ''CP1'' 1 = ''E1''"
    by (simp add: evseUID_def Connected_def Let_def put_cp_def example_cfg_def EVSEByConnectorID_def example_EVSE_def split: prod.split)
  show "cp_online (ensure (Connected example_now ''CP1'' example_svc) ''CP1'')"
    "cp_station (ensure (Connected example_now ''CP1'' example_svc) ''CP1'') = StatusAvailable"
    using cp f by (simp_all add: ensure_def Connected_def put_cp_def r)
  show "svc_EVSEStatus (SetConnectorStatus example_now ''CP1'' 1 st [] (Connected example_now ''CP1'' example_svc)) ''E1''
     = map_of (cp_effective (ensure (SetConnectorStatus example_now ''CP1'' 1 st [] (Connected example_now ''CP1'' example_svc)) ''CP1'')) ''E1''"
    using cp by (simp add: ensure_def Connected_def put_cp_def r SetConnectorStatus_def svc_EVSEStatus_def find_status_def split: prod.split)
qed

end
