(* ===== verification/Core_Properties.thy ===== *)
theory Core_Properties
  imports Examples
begin

text \<open>
  What the domain core (\<open>internal/core\<close> and \<open>internal/state\<close>) promises: exclusive reservations and
  unique ids under every interleaving and across crashes, ends that are reported once, durable
  state, statuses that follow from the reports, and subscribers that miss nothing unnoticed.
\<close>

declare map_of_eq_Some_iff [simp del] Some_eq_map_of_iff [simp del]

section \<open>Reservations under interleavings and crashes\<close>

text \<open>
  C1. In every world that the program can reach from its first start, whatever sections ran, writes
  failed and crashes happened, at most one reservation stands on an EVSE; each is filed under its
  own id, which was handed out, and exactly the active ones have an expiry timer, for their own id
  and expiry.
\<close>

theorem reservations_exclusive:
  assumes "core_initial W" and "core_step\<^sup>*\<^sup>* W W'"
    and "map_of (svc_reservations (cw_svc W')) i = Some r"
  shows "r_ID (rs_res r) = i \<and> 1 \<le> i \<and> i < svc_nextReservationID (cw_svc W')
    \<and> (rs_timer r \<noteq> None \<longleftrightarrow> r_Status (rs_res r) = ReservationActive)
    \<and> (\<forall>t. rs_timer r = Some t \<longrightarrow> tm_id t = i \<and> tm_expiresAt t = r_ExpiresAt (rs_res r))
    \<and> (\<forall>j r'. map_of (svc_reservations (cw_svc W')) j = Some r' \<and> r_EVSEUID (rs_res r') = r_EVSEUID (rs_res r) \<longrightarrow> j = i)"
proof -
  have inv: "svc_inv (cw_svc W')" using core.inv_reachable [OF assms(1,2)] by (simp add: world_inv_def)
  have ok: "res_ok (svc_cfg (cw_svc W')) (svc_nextReservationID (cw_svc W')) i r"
    using inv assms(3) by (simp add: svc_inv_def res_inv_def)
  have "exclusive (svc_reservations (cw_svc W'))" using inv by (simp add: svc_inv_def res_inv_def)
  then have "\<forall>j r'. map_of (svc_reservations (cw_svc W')) j = Some r' \<and> r_EVSEUID (rs_res r') = r_EVSEUID (rs_res r) \<longrightarrow> j = i"
    using assms(3) unfolding exclusive_def by blast
  then show ?thesis using ok by (auto simp: res_ok_def timer_ok_def split: option.splits)
qed

theorem reservations_exclusive_witness:
  "core_initial world0 \<and> core_step\<^sup>*\<^sup>* world0 world1
   \<and> (\<exists>r. map_of (svc_reservations (cw_svc world1)) 1 = Some r \<and> r_ID (rs_res r) = 1
        \<and> (\<forall>j r'. map_of (svc_reservations (cw_svc world1)) j = Some r' \<and> r_EVSEUID (rs_res r') = r_EVSEUID (rs_res r) \<longrightarrow> j = 1))"
proof -
  obtain r where r: "map_of (svc_reservations (cw_svc world1)) 1 = Some r"
    by (simp add: begin_state [OF world0_begin] world0_fields)
  show ?thesis using reservations_exclusive [OF world0_initial example_reserved r] r world0_initial example_reserved by blast
qed

text \<open>
  C2. The ids that \<open>BeginReservation\<close> has returned, and that may therefore have reached a station, are
  all different, and the next one it hands out is none of them: not in this run of the program, and
  not after any number of restarts and crashes, even in the middle of a write.
\<close>

theorem issued_ids_unique:
  assumes "core_initial W" and "core_step\<^sup>*\<^sup>* W W'"
    and "BeginReservation_locked now r (cw_svc W') = Inr (s', r')"
  shows "distinct (cw_issued W') \<and> r_ID r' \<notin> set (cw_issued W') \<and> r_ID r' \<notin> set (cw_begun W')"
proof -
  have inv: "world_inv W'" by (rule core.inv_reachable [OF assms(1,2)])
  obtain st where "svc_stored (cw_svc W') st" "\<forall>i \<in> set (cw_issued W'). i < st_NextReservationID (s_state st)"
    using inv by (auto simp: world_inv_def)
  then have "\<forall>i \<in> set (cw_issued W'). i < svc_nextReservationID (cw_svc W')"
    unfolding svc_stored_def by fastforce
  moreover have "r_ID r' = svc_nextReservationID (cw_svc W')" using BeginReservation_locked_Inr [OF assms(3)] by simp
  ultimately show ?thesis using inv unfolding world_inv_def by fastforce
qed

theorem issued_ids_unique_witness:
  "core_initial world0 \<and> core_step\<^sup>*\<^sup>* world0 world4 \<and> cw_issued world4 = [1]
   \<and> (\<exists>s' r'. BeginReservation_locked example_now (example_reservation ''E1'') (cw_svc world4) = Inr (s', r')
        \<and> r_ID r' = 2 \<and> r_ID r' \<notin> set (cw_issued world4))"
proof -
  have c: "svc_cfg (cw_svc world4) = Some example_cfg" "svc_reservations (cw_svc world4) = []"
    by (rule world4_fields)+
  obtain s' r' where b: "BeginReservation_locked example_now (example_reservation ''E1'') (cw_svc world4) = Inr (s', r')" "r_ID r' = 2"
    using c world4_next by (simp add: BeginReservation_locked_def reservationOnLocked_def example_reservation_def Let_def)
  show ?thesis using issued_ids_unique [OF world0_initial example_restarted b(1)] b world0_initial example_restarted
    by (auto simp: world4_def)
qed

text \<open>
  C3. The end of a reservation is reported once. Whatever sections run after a reservation was begun, in
  any order (its own undoing apart, which precedes any report), its ReservationEnded event has been
  published exactly once if the reservation is gone or is being cancelled, and not at all while it
  is pending or active.
\<close>

theorem ended_exactly_once:
  assumes "svc_inv s" and "svc_nextReservationID s < max_int64" and "BeginReservation_locked now r s = Inr (s1, r1)"
    and "run_ok ops s1" and "OpUndo (r_ID r1) \<notin> set ops"
  shows "ended_count (r_ID r1) (snd (core_run ops s1)) =
    (case map_of (svc_reservations (fst (core_run ops s1))) (r_ID r1) of
       None \<Rightarrow> 1 | Some x \<Rightarrow> if r_Status (rs_res x) = ReservationCancelling then 1 else 0)"
proof -
  note b = BeginReservation_locked_Inr [OF assms(3)]
  have inv: "svc_inv s1" by (rule BeginReservation_locked_inv [OF assms(1,3,2)])
  have n: "svc_nextReservationID s1 = r_ID r1 + 1"
    using b assms(1,2) by (simp add: svc_inv_def ids_inv_def wrap64_inc)
  have due: "ended_due (r_ID r1) s1 = 1" using b n by (auto simp: ended_due_def)
  have "svc_nextReservationID s1 \<le> svc_nextReservationID (fst (core_run ops s1))"
    by (rule core_run_next [OF inv assms(4)])
  then have "ended_due (r_ID r1) (fst (core_run ops s1)) =
    (case map_of (svc_reservations (fst (core_run ops s1))) (r_ID r1) of None \<Rightarrow> 0
       | Some x \<Rightarrow> if r_Status (rs_res x) = ReservationCancelling then 0 else 1)"
    using n by (simp add: ended_due_def)
  then show ?thesis using core_run_ended [OF inv assms(4,5)] due by (auto split: option.splits if_splits)
qed

theorem ended_exactly_once_witness:
  "ended_count 1 (snd (core_run [OpOrphan example_now 1 ReservationTimeout, OpEnd example_now 1 ReservationTimeout] example_pending)) = 1"
  using ended_exactly_once [OF example_svc_inv _ example_begin,
      of "[OpOrphan example_now 1 ReservationTimeout, OpEnd example_now 1 ReservationTimeout]"]
  by (simp add: max_int64_def example_reservation_def Let_def OrphanReservation_locked_def EndReservation_locked_def endLocked_def)

section \<open>Durable state\<close>

text \<open>
  C5. What \<open>persist\<close> has written is what a new process starts with. After a successful write the file can be
  opened, and the service built from it holds exactly the active reservations whose expiry is still
  ahead, each with its timer armed again, exactly the sessions that were running, all of them still
  running, and the same next reservation id.
\<close>

theorem restart_restores:
  assumes "svc_inv s" and "svc_stored s st" and "fresh_tmp w st" and "persist w s = (s', None)"
  shows "\<exists>st'. svc_store s' = Some st' \<and> reopen st' = Some st' \<and> (\<forall>w' now. fresh_tmp w' st' \<longrightarrow>
    (let new = New w' now (svc_cfg s) (Some st') in
      svc_nextReservationID new = svc_nextReservationID s
      \<and> (\<forall>i. map_of (svc_reservations new) i = (case map_of (svc_reservations s) i of None \<Rightarrow> None
           | Some x \<Rightarrow> if r_Status (rs_res x) = ReservationActive \<and> time_After (r_ExpiresAt (rs_res x)) now
                       then Some (armLocked now \<lparr>rs_res = (rs_res x)\<lparr>r_ExpiresAt := UTC (r_ExpiresAt (rs_res x)),
                                                          r_CreatedAt := UTC (r_CreatedAt (rs_res x))\<rparr>, rs_timer = None\<rparr>)
                       else None))
      \<and> (\<forall>cp k. session new cp k = (case map_of (cp_transactions (ensure s cp)) k of None \<Rightarrow> None
           | Some tx \<Rightarrow> if tx_Active tx then Some (utc_StTransaction (to_StTransaction cp tx), True) else None))))"
proof -
  obtain st' where st': "svc_store s' = Some st'" "store_inv st'" "reopen st' = Some st'"
    and g: "Get st' = clone_State (normalize_State (persist_fn s (Get st)))"
    by (rule persisted_state [OF assms])
  have n: "st_NextReservationID (s_state st') = svc_nextReservationID s"
    using arg_cong [OF g, of st_NextReservationID]
    by (simp add: Get_def clone_State_def normalize_State_def persist_fn_def Let_def split: prod.splits)
  have "stored_inv (Get st')" unfolding g stored_inv_clone
    by (rule stored_inv_normalize [OF persist_fn_stored [OF assms(1)]])
  then have si: "stored_inv (s_state st')" by (simp add: Get_def)
  have "1 \<le> svc_nextReservationID s" using assms(1) by (simp add: svc_inv_def ids_inv_def)
  then have "svc_nextReservationID (New w' now (svc_cfg s) (Some st')) = svc_nextReservationID s" if "fresh_tmp w' st'" for w' now
    using New_inv(2) [OF st'(2) si that] n by simp
  then show ?thesis using st' restarted_reservations [OF assms(1) g] restarted_sessions [OF assms(1) g]
    by (simp add: Let_def)
qed

theorem restart_restores_witness:
  "\<exists>st'. svc_store (fst (persist example_env stored_active)) = Some st' \<and> reopen st' = Some st' \<and> (\<forall>w'. fresh_tmp w' st' \<longrightarrow>
     map_option (r_Status \<circ> rs_res) (map_of (svc_reservations (New w' example_now (Some example_cfg) (Some st'))) 1) = Some ReservationActive)"
  using restart_restores [OF stored_active_inv stored_active_stored fresh_example stored_active_persist]
  by (elim exE) (auto simp: Let_def stored_active_res example_later armLocked_def stopTimer_def example_reservation_def)

text \<open>
  C13. An update of the state file that reports success is there after a restart; one that reports an
  error, from any step of the write, has changed neither the file nor the state in memory.
\<close>

theorem update_durable:
  assumes "store_inv s" and "fresh_tmp w s" and "state_ok (f (Get s))" and "update_State w f s = (s', r)"
  shows "reopen s' = Some s' \<and> (r = None \<longrightarrow> Get s' = clone_State (normalize_State (f (Get s)))) \<and> (r \<noteq> None \<longrightarrow> s' = s)"
proof -
  have "store_inv s'" using file_store.upd_valid [of w s f] assms by simp
  then show ?thesis using file_store.reload_valid file_store.upd_get file_store.upd_fail assms(2,4) by blast
qed

theorem update_durable_witness:
  "reopen (fst (update_State example_env (\<lambda>st. st\<lparr>st_NextTransactionID := 7\<rparr>) example_store))
     = Some (fst (update_State example_env (\<lambda>st. st\<lparr>st_NextTransactionID := 7\<rparr>) example_store))
   \<and> st_NextTransactionID (Get (fst (update_State example_env (\<lambda>st. st\<lparr>st_NextTransactionID := 7\<rparr>) example_store))) = 7
   \<and> fst (update_State (example_env\<lparr>w_fail := Some Sync\<rparr>) (\<lambda>st. st\<lparr>st_NextTransactionID := 7\<rparr>) example_store) = example_store"
proof -
  let ?f = "\<lambda>st. st\<lparr>st_NextTransactionID := 7\<rparr>"
  have inv: "store_inv example_store"
    by (simp add: store_inv_def example_store_def Open_def empty_State_normal)
  have ok: "state_ok (?f (Get example_store))"
    by (simp add: state_ok_def Get_def clone_State_def example_store_def empty_State_def int64_range_def)
  have f: "fresh_tmp (example_env\<lparr>w_fail := Some Sync\<rparr>) example_store"
    using fresh_example by (simp add: fresh_tmp_def)
  obtain s' r where u: "update_State example_env ?f example_store = (s', r)" by (rule prod.exhaust)
  then have r: "r = None"
    by (auto simp: update_State_def Update_def store_write_def write_trace_def encodable_def normalize_State_def clone_State_def
        empty_State_def example_store_def example_env_def write_steps_def Let_def)
  obtain s2 r2 where u2: "update_State (example_env\<lparr>w_fail := Some Sync\<rparr>) ?f example_store = (s2, r2)" by (rule prod.exhaust)
  then have r2: "r2 \<noteq> None"
    by (auto simp: update_State_def Update_def store_write_def write_trace_def encodable_def normalize_State_def clone_State_def
        empty_State_def example_store_def example_env_def write_steps_def Let_def step_error_def)
  show ?thesis using update_durable [OF inv fresh_example ok u] update_durable [OF inv f ok u2] u u2 r r2
    by (simp add: clone_State_def normalize_State_def)
qed

text \<open>
  C6. A crash during a write loses nothing: whichever of the directories the write goes through is
  the one a new process finds, it opens the file and has either the state from before the write or
  the complete new one.
\<close>

theorem crash_atomic:
  assumes "store_inv s" and "fresh_tmp w s" and "state_ok st" and "d \<in> set (fst (write_trace w (normalize_State st) s))"
  shows "\<exists>t. Open True (s_path s) d = Inr t \<and> s_state t \<in> {s_state s, normalize_State st}"
proof -
  have "d (s_path s) = s_dir s (s_path s) \<or> d (s_path s) = Some (Some (enc_State (normalize_State st))) \<and> encodable (normalize_State st)"
    using write_trace_atomic [OF assms(2,4)] assms(4) by (auto simp: write_trace_def split: if_splits)
  then show ?thesis
  proof
    assume "d (s_path s) = s_dir s (s_path s)"
    then have "Open True (s_path s) d = Inr (s\<lparr>s_dir := d\<rparr>)"
      using assms(1) unfolding store_inv_def Open_def by (cases s) (auto split: option.splits sum.splits)
    then show ?thesis by simp
  next
    assume d: "d (s_path s) = Some (Some (enc_State (normalize_State st))) \<and> encodable (normalize_State st)"
    then have "parse_State (Some (enc_State (normalize_State st))) = Inr (normalize_State st)"
      using assms(3) by (intro parse_enc_State state_ok_normalize normalize_State_idem) simp_all
    then show ?thesis using d by (simp add: Open_def)
  qed
qed

theorem crash_atomic_witness:
  "\<exists>t. Open True ''state.json'' (hd (fst (write_trace example_env (normalize_State (empty_State\<lparr>st_NextTransactionID := 7\<rparr>)) example_store))) = Inr t
     \<and> st_NextTransactionID (s_state t) \<in> {0, 7}"
proof -
  let ?ds = "fst (write_trace example_env (normalize_State (empty_State\<lparr>st_NextTransactionID := 7\<rparr>)) example_store)"
  have "?ds \<noteq> []"
    by (simp add: write_trace_def encodable_def normalize_State_def empty_State_def write_steps_def example_env_def)
  then have d: "hd ?ds \<in> set ?ds" by simp
  have inv: "store_inv example_store"
    by (simp add: store_inv_def example_store_def Open_def empty_State_normal)
  have ok: "state_ok (empty_State\<lparr>st_NextTransactionID := 7\<rparr>)"
    by (simp add: state_ok_def empty_State_def int64_range_def)
  show ?thesis
    using crash_atomic [OF inv fresh_example ok d]
    by (auto simp: example_store_def empty_State_def normalize_State_def)
qed

section \<open>Statuses and events\<close>

text \<open>
  C14. In every reachable world the status shown for an EVSE follows from what the station reported: an
  offline station shows UNKNOWN everywhere, and where a connector of an online station has reported,
  the status shown is the station's if that is OUTOFORDER or INOPERATIVE and the connector's own
  otherwise.
\<close>

theorem status_follows_reports:
  assumes "core_initial W" and "core_step\<^sup>*\<^sup>* W W'" and "map_of (svc_cps (cw_svc W')) i = Some cp" and "uid \<in> set (cp_order cp)"
  shows "(\<not> cp_online cp \<longrightarrow> map_of (cp_effective cp) uid = Some StatusUnknown)
    \<and> (\<forall>st. cp_online cp \<and> map_of (cp_reported cp) uid = Some st \<and> st \<noteq> NoStatus \<longrightarrow>
         map_of (cp_effective cp) uid =
           Some (if cp_station cp \<in> {StatusOutOfOrder, StatusInoperative} then cp_station cp else st))"
proof -
  have "svc_inv (cw_svc W')" using core.inv_reachable [OF assms(1,2)] by (simp add: world_inv_def)
  then have "cp_faithful cp" using assms(3) by (simp add: svc_inv_def cps_inv_def cp_ok_def)
  then show ?thesis using assms(4) by (auto simp: cp_faithful_def wanted_def effectiveStatus_def m_get_def)
qed

theorem status_follows_reports_witness:
  "\<exists>cp. map_of (svc_cps (cw_svc world4)) ''CP1'' = Some cp \<and> map_of (cp_effective cp) ''E1'' = Some StatusUnknown"
proof -
  obtain cp where cp: "map_of (svc_cps (cw_svc world4)) ''CP1'' = Some cp" "''E1'' \<in> set (cp_order cp)" "\<not> cp_online cp"
    by (rule world4_cp)
  show ?thesis using status_follows_reports [OF world0_initial example_restarted cp(1,2)] cp by blast
qed

text \<open>
  C15. A status report takes effect at once: after \<open>SetConnectorStatus\<close> for a connector, the EVSE that
  carries it shows the status that the report, the station's own status and the connection imply,
  and every other EVSE of the station that was consistent shows the same as before.
\<close>

theorem report_takes_effect:
  assumes "svc_inv s" and "c \<noteq> 0" and cp: "cp = ensure s i" and cp': "cp' = ensure (SetConnectorStatus now i c st err s) i"
  shows "map_of (cp_effective cp') (evseUID s i c) = Some (effectiveStatus (cp_online cp) (cp_station cp) st)
    \<and> (\<forall>uid \<in> set (cp_order cp). uid \<noteq> evseUID s i c \<longrightarrow>
         map_of (cp_effective cp') uid = Some (effectiveStatus (cp_online cp) (cp_station cp) (m_get NoStatus (cp_reported cp) uid)))"
proof -
  let ?uid = "evseUID s i c"
  let ?a = "addEVSE ?uid c (cp\<lparr>cp_lastSeen := now\<rparr>)"
  let ?b = "?a\<lparr>cp_reported := m_put ?uid st (cp_reported ?a), cp_errorCode := m_put ?uid err (cp_errorCode ?a)\<rparr>"
  have ap: "apply_status now s i c st err ((ensure s i)\<lparr>cp_lastSeen := now\<rparr>) = (?b, [])"
    using assms(2) by (simp add: apply_status_def Let_def cp)
  obtain cp2 evs where r: "recompute now ?b = (cp2, evs)" by (rule prod.exhaust)
  have cp2: "cp' = cp2" using ap r cp by (simp add: cp' SetConnectorStatus_def ensure_def put_cp_def)
  have "cp_inv cp" using svc_inv_ensure [OF assms(1), of i] by (simp add: cp cp_ok_def)
  then have ord: "set (cp_order ?b) = insert ?uid (set (cp_order cp))"
    using addEVSE_order [of "cp\<lparr>cp_lastSeen := now\<rparr>" ?uid c] by simp
  have w: "wanted ?b uid = effectiveStatus (cp_online cp) (cp_station cp) (if uid = ?uid then st else m_get NoStatus (cp_reported cp) uid)" for uid
    by (simp add: wanted_def)
  show ?thesis unfolding cp2 recompute_effective [OF r] ord w by simp
qed

theorem report_takes_effect_witness:
  "svc_EVSEStatus (SetConnectorStatus example_now ''CP1'' 1 StatusCharging [] (Connected example_now ''CP1'' example_svc)) ''E1'' = Some StatusCharging"
proof -
  let ?s = "Connected example_now ''CP1'' example_svc"
  have inv: "svc_inv ?s" by (rule Connected_inv [OF example_svc_inv])
  have e: "evseUID ?s ''CP1'' 1 = ''E1''" "cp_online (ensure ?s ''CP1'')" "cp_station (ensure ?s ''CP1'') = StatusAvailable"
    "\<And>st. svc_EVSEStatus (SetConnectorStatus example_now ''CP1'' 1 st [] ?s) ''E1''
      = map_of (cp_effective (ensure (SetConnectorStatus example_now ''CP1'' 1 st [] ?s) ''CP1'')) ''E1''"
    by (rule connected_example)+
  show ?thesis using report_takes_effect [OF inv _ refl refl, of 1 example_now "''CP1''" StatusCharging "[]"] e
    by (simp add: effectiveStatus_def)
qed

text \<open>
  C16. The status events are a faithful log. Recomputing the statuses of a station publishes one event
  for each EVSE whose status changes and none for the others, with the old and the new status in it;
  a subscriber that applies the events to the statuses it knew has the statuses after the change.
\<close>

theorem status_events_faithful:
  assumes "cp_inv cp" and "recompute at cp = (cp', evs)"
  shows "fold replay evs (map_of (cp_effective cp)) = map_of (cp_effective cp')
    \<and> distinct (map ev_EVSEUID evs)
    \<and> set (map ev_EVSEUID evs) = {uid \<in> set (cp_order cp). map_of (cp_effective cp) uid \<noteq> map_of (cp_effective cp') uid}
    \<and> (\<forall>e \<in> set evs. map_of (cp_effective cp) (ev_EVSEUID e) = Some (ev_From e)
           \<and> map_of (cp_effective cp') (ev_EVSEUID e) = Some (ev_To e))"
proof (intro conjI)
  note e = recompute_events [OF assms(2,1)] and f = recompute_effective [OF assms(2)]
  have known: "map_of (cp_effective cp) uid = Some (m_get NoStatus (cp_effective cp) uid)" if "uid \<in> set (cp_order cp)" for uid
    using assms(1) that by (cases "map_of (cp_effective cp) uid") (auto simp: cp_inv_def m_get_def domIff)
  have uids: "map ev_EVSEUID evs = filter (\<lambda>uid. m_get NoStatus (cp_effective cp) uid \<noteq> wanted cp uid) (cp_order cp)"
    unfolding e by (simp add: status_changed_def comp_def)
  show "fold replay evs (map_of (cp_effective cp)) = map_of (cp_effective cp')" by (rule recompute_replay [OF assms(2,1)])
  show "distinct (map ev_EVSEUID evs)" unfolding uids using assms(1) by (simp add: cp_inv_def)
  show "set (map ev_EVSEUID evs) = {uid \<in> set (cp_order cp). map_of (cp_effective cp) uid \<noteq> map_of (cp_effective cp') uid}"
    unfolding uids f using known by auto
  show "\<forall>x \<in> set evs. map_of (cp_effective cp) (ev_EVSEUID x) = Some (ev_From x)
           \<and> map_of (cp_effective cp') (ev_EVSEUID x) = Some (ev_To x)"
    unfolding e f using known by (auto simp: status_changed_def)
qed

theorem status_events_faithful_witness:
  "map ev_EVSEUID (snd (recompute example_now ((addEVSE ''E1'' 1 (newChargePoint ''CP1''))\<lparr>cp_online := True, cp_station := StatusInoperative\<rparr>))) = [''E1'']"
proof -
  let ?cp = "(addEVSE ''E1'' 1 (newChargePoint ''CP1''))\<lparr>cp_online := True, cp_station := StatusInoperative\<rparr>"
  obtain cp' evs where r: "recompute example_now ?cp = (cp', evs)" by (rule prod.exhaust)
  have inv: "cp_inv ?cp" using addEVSE_inv [OF newChargePoint_inv] by simp
  note p = status_events_faithful [OF inv r]
  have "set (map ev_EVSEUID evs) = {''E1''}"
    unfolding p [THEN conjunct2, THEN conjunct2, THEN conjunct1] recompute_effective [OF r]
    by (auto simp: addEVSE_def newChargePoint_def wanted_def effectiveStatus_def)
  then show ?thesis using p r by (cases "map ev_EVSEUID evs") (auto simp: subset_singleton_iff)
qed

text \<open>
  C17. A slow subscriber loses events and never order, and knows how many. Over any sequence of publishes and
  receives, what a subscriber received followed by what its channel still holds is what the channel
  held at the start followed by a subsequence of the published events; the channel never holds more
  than its capacity, and the drop counter has grown by exactly the number of events left out.
\<close>

theorem subscriber_history:
  assumes "map_of (b_subs b) h = Some s" and "length (sub_ch s) \<le> subscriberBuffer"
    and "0 \<le> sub_drops s" and "sub_drops s + int (length (published as)) < 2 ^ 64"
  shows "\<exists>s' kept. map_of (b_subs (fst (bus_run h as b))) h = Some s' \<and> length (sub_ch s') \<le> subscriberBuffer
    \<and> subseq kept (published as) \<and> sub_ch s @ kept = snd (bus_run h as b) @ sub_ch s'
    \<and> int (length (published as)) = int (length kept) + (sub_drops s' - sub_drops s)"
proof -
  obtain s' got where r: "sub_run s as = (s', got)" by (rule prod.exhaust)
  have "map_of (b_subs (fst (bus_run h as b))) h = Some s' \<and> snd (bus_run h as b) = got"
    using bus_run_sub_run [OF assms(1), of as] r by simp
  moreover have "length (sub_ch s') \<le> subscriberBuffer" using sub_run_bound [OF assms(2), of as] r by simp
  ultimately show ?thesis using sub_run_history [OF r] assms(3,4) by blast
qed

theorem subscriber_history_witness:
  "\<exists>s' kept. map_of (b_subs (fst (bus_run 0 [Publish (mkEvent EventHeartbeat example_now ''CP1''), Receive] (fst (Subscribe ''log'' newBus))))) 0 = Some s'
    \<and> kept = snd (bus_run 0 [Publish (mkEvent EventHeartbeat example_now ''CP1''), Receive] (fst (Subscribe ''log'' newBus))) @ sub_ch s'
    \<and> sub_drops s' = 1 - int (length kept)"
  using subscriber_history [of "fst (Subscribe ''log'' newBus)" 0 "\<lparr>sub_name = ''log'', sub_ch = [], sub_drops = 0\<rparr>"
      "[Publish (mkEvent EventHeartbeat example_now ''CP1''), Receive]"]
  by (force simp: Subscribe_def newBus_def subscriberBuffer_def)

section \<open>Configuration and formats\<close>

text \<open>
  C35. A state file that was written can be read: encoding a normalised state whose integers are 64-bit and whose years have
  four digits, and parsing the result, gives the state back, with every field, nil and empty slices included.
\<close>

theorem state_file_roundtrip:
  assumes "state_ok s" and "encodable s" and "normalize_State s = s"
  shows "parse_State (Some (enc_State s)) = Inr s"
  by (rule parse_enc_State [OF assms])

theorem state_file_roundtrip_witness:
  "parse_State (Some (enc_State (empty_State\<lparr>st_NextReservationID := 3\<rparr>))) = Inr (empty_State\<lparr>st_NextReservationID := 3\<rparr>)"
  by (rule state_file_roundtrip) (simp_all add: state_ok_def empty_State_def int64_range_def encodable_def normalize_State_def)

text \<open>
  C36. A session id that survived a restart is not handed out again: when a service has been built from a state file, the next
  transaction id is above the numeric id of every session the file held.
\<close>

theorem restart_ids_fresh:
  assumes "t \<in> set (elems (st_Transactions (Get st)))" and "Atoi (stx_ID t) = Some n" and "n < max_int64"
  shows "n < svc_nextTransactionID (New w now cfg (Some st))"
proof -
  obtain s where s: "New w now cfg (Some st) = s \<or> New w now cfg (Some st) = fst (persist w s)"
    and l: "s = fst (loadLocked now (Get st) (New_memory cfg (Some st)))"
    by (auto simp: New_def load_def split: prod.splits)
  have "n < svc_nextTransactionID s" unfolding l loadLocked_def Let_def load_reservations_next
    by (rule load_transactions_next [OF assms])
  then show ?thesis using s by auto
qed

theorem restart_ids_fresh_witness:
  "8 < svc_nextTransactionID (New example_env example_now (Some example_cfg) (Some (example_store\<lparr>s_state := empty_State\<lparr>st_Transactions :=
      Some [\<lparr>stx_ID = ''8'', stx_ChargePointID = ''CP1'', stx_EVSEUID = ''E1'', stx_ConnectorID = 1, stx_IDTag = ''TAG'', stx_MeterStart = 0,
             stx_StartedAt = example_now, stx_ReservationID = 0\<rparr>]\<rparr>\<rparr>)))"
proof -
  have "Atoi ''8'' = Some 8" by code_simp
  then show ?thesis by (intro restart_ids_fresh) (auto simp: Get_def clone_State_def max_int64_def)
qed

end
