(* ===== verification/Ocpp.thy ===== *)
theory Ocpp
  imports Json Config
begin

text \<open>
  Package \<open>internal/ocpp\<close> (\<open>ocpp.go\<close>, \<open>chargepoint.go\<close>, \<open>probe.go\<close>) and the framing of
  \<open>internal/ocpp/ocppj/frame.go\<close>: versions and subprotocols, the RPC error vocabulary, a station's
  answers in version-agnostic terms, what a probe reports, and the OCPP-J arrays.

  A message is the tree of its JSON text, \<open>None\<close> for bytes that are no JSON. Where an error text of
  the source embeds the text of an error of \<open>encoding/json\<close>, that text is the argument \<open>jsonErr\<close>.
\<close>

section \<open>Versions (ocpp.go)\<close>

type_synonym Version = string

definition Version16 :: Version where "Version16 = ''1.6''"
definition Version201 :: Version where "Version201 = ''2.0.1''"

definition Subprotocol :: "Version \<Rightarrow> string" where
  "Subprotocol v = ''ocpp'' @ v"

definition VersionFromSubprotocol :: "string \<Rightarrow> Version option" where
  "VersionFromSubprotocol s = List.find (\<lambda>v. Subprotocol v = s) [Version16, Version201]"

lemma VersionFromSubprotocol_iff:
  "VersionFromSubprotocol s = Some v \<longleftrightarrow> v \<in> {Version16, Version201} \<and> s = Subprotocol v"
  by (auto simp: VersionFromSubprotocol_def Subprotocol_def Version16_def Version201_def)

section \<open>Errors (ocpp.go)\<close>

type_synonym ErrorCode = string

definition ErrRpcFrameworkError :: ErrorCode where "ErrRpcFrameworkError = ''RpcFrameworkError''"
definition ErrNotImplemented :: ErrorCode where "ErrNotImplemented = ''NotImplemented''"
definition ErrNotSupported :: ErrorCode where "ErrNotSupported = ''NotSupported''"
definition ErrInternalError :: ErrorCode where "ErrInternalError = ''InternalError''"
definition ErrProtocolError :: ErrorCode where "ErrProtocolError = ''ProtocolError''"
definition ErrSecurityError :: ErrorCode where "ErrSecurityError = ''SecurityError''"
definition ErrFormationViolation :: ErrorCode where "ErrFormationViolation = ''FormationViolation''"
definition ErrPropertyConstraintViolation :: ErrorCode where
  "ErrPropertyConstraintViolation = ''PropertyConstraintViolation''"
definition ErrOccurrenceConstraintViolation :: ErrorCode where
  "ErrOccurrenceConstraintViolation = ''OccurenceConstraintViolation''"
definition ErrTypeConstraintViolation :: ErrorCode where "ErrTypeConstraintViolation = ''TypeConstraintViolation''"
definition ErrGenericError :: ErrorCode where "ErrGenericError = ''GenericError''"

record RPCError =
  re_Code :: ErrorCode
  re_Description :: string
  re_Details :: "(string \<times> json) list option"

definition RPCError_Error :: "RPCError \<Rightarrow> string" where
  "RPCError_Error e = (if re_Description e = [] then re_Code e else re_Code e @ '': '' @ re_Description e)"

definition Errorf :: "ErrorCode \<Rightarrow> string \<Rightarrow> RPCError" where
  "Errorf code d = \<lparr>re_Code = code, re_Description = d, re_Details = None\<rparr>"

section \<open>Commands and their answers (chargepoint.go)\<close>

record ReserveRequest =
  rq_ReservationID :: int
  rq_EVSEUID :: string
  rq_IDTag :: string
  rq_ExpiresAt :: gotime

record RemoteStartRequest =
  rs_RemoteStartID :: int
  rs_EVSEUID :: string
  rs_IDTag :: string

datatype CommandStatus = CommandAccepted | CommandRejected | CommandOccupied | CommandFaulted
  | CommandUnavailable | CommandUnlocked | CommandUnlockFailed | CommandNotSupported
  | CommandNotImplemented | CommandUnknown

definition command_string :: "CommandStatus \<Rightarrow> string" where
  "command_string s = (case s of CommandAccepted \<Rightarrow> ''Accepted'' | CommandRejected \<Rightarrow> ''Rejected''
     | CommandOccupied \<Rightarrow> ''Occupied'' | CommandFaulted \<Rightarrow> ''Faulted'' | CommandUnavailable \<Rightarrow> ''Unavailable''
     | CommandUnlocked \<Rightarrow> ''Unlocked'' | CommandUnlockFailed \<Rightarrow> ''UnlockFailed''
     | CommandNotSupported \<Rightarrow> ''NotSupported'' | CommandNotImplemented \<Rightarrow> ''NotImplemented''
     | CommandUnknown \<Rightarrow> ''Unknown'')"

record Result =
  res_Status :: CommandStatus
  res_Raw :: string

text \<open>
  What a command can fail with: the sentinels of the package, a CALLERROR of the station, the
  cancelled context of the caller, and any other error by its text.
\<close>

datatype ocpp_error = ErrTimeout | ErrNotConnected | ErrUnknownEVSE string | ErrRPC RPCError
  | ContextCanceled | OtherError string

section \<open>Probing (probe.go)\<close>

datatype Capability = CapRemoteStartStop | CapUnlock | CapReservation | CapTriggerStatus

definition AllCapabilities :: "Capability list" where
  "AllCapabilities = [CapRemoteStartStop, CapUnlock, CapReservation, CapTriggerStatus]"

datatype Support = SupportYes | SupportNo | SupportUnknown

record Capabilities =
  cap_Reservation :: Support
  cap_RemoteTrigger :: Support

record Feature =
  ft_Name :: string
  ft_Support :: Support
  ft_Grants :: "Capability list"
  ft_Assumed :: bool

record Setting =
  set_Name :: string
  set_Value :: string
  set_Reported :: bool
  set_Meaning :: string

record RawSetting =
  raw_Key :: string
  raw_Value :: string
  raw_Readonly :: bool

record ProbeReport =
  pb_Version :: Version
  pb_Features :: "Feature list"
  pb_Settings :: "Setting list"
  pb_Connectors :: "int option"
  pb_HeartbeatInterval :: "duration option"
  pb_Raw :: "RawSetting list"

text \<open>
  The two nested loops of \<open>ProbeReport.Support\<close>: the loop state is whether a feature grants the
  capability and whether one of those is unknown; finding one that is present returns at once.
\<close>

fun grants_loop :: "Capability \<Rightarrow> Support \<Rightarrow> Capability list \<Rightarrow> bool \<times> bool \<Rightarrow> (bool \<times> bool) option" where
  "grants_loop c s [] st = Some st"
| "grants_loop c s (g # gs) (granted, unknown) =
     (if g \<noteq> c then grants_loop c s gs (granted, unknown)
      else if s = SupportYes then None
      else grants_loop c s gs (True, unknown \<or> s \<noteq> SupportNo))"

fun features_loop :: "Capability \<Rightarrow> Feature list \<Rightarrow> bool \<times> bool \<Rightarrow> (bool \<times> bool) option" where
  "features_loop c [] st = Some st"
| "features_loop c (f # fs) st =
     (case grants_loop c (ft_Support f) (ft_Grants f) st of
        None \<Rightarrow> None
      | Some st' \<Rightarrow> features_loop c fs st')"

definition report_Support :: "ProbeReport \<Rightarrow> Capability \<Rightarrow> Support" where
  "report_Support r c =
     (case features_loop c (pb_Features r) (False, False) of
        None \<Rightarrow> SupportYes
      | Some (granted, unknown) \<Rightarrow> if \<not> granted \<or> unknown then SupportUnknown else SupportNo)"

lemma grants_loop_eq:
  "grants_loop c s gs (g, u) =
     (if c \<in> set gs then (if s = SupportYes then None else Some (True, u \<or> s \<noteq> SupportNo)) else Some (g, u))"
  by (induction gs arbitrary: g u) auto

lemma features_loop_eq:
  "features_loop c fs (g, u) =
     (if \<exists>f \<in> set fs. c \<in> set (ft_Grants f) \<and> ft_Support f = SupportYes then None
      else Some (g \<or> (\<exists>f \<in> set fs. c \<in> set (ft_Grants f)),
                 u \<or> (\<exists>f \<in> set fs. c \<in> set (ft_Grants f) \<and> ft_Support f = SupportUnknown)))"
proof (induction fs arbitrary: g u)
  case (Cons f fs)
  then show ?case by (cases "ft_Support f") (auto simp: grants_loop_eq)
qed simp

text \<open>The specification in the comment of \<open>Support\<close>, as an equation.\<close>

lemma report_Support_spec:
  "report_Support r c =
     (let granting = filter (\<lambda>f. c \<in> set (ft_Grants f)) (pb_Features r)
      in if SupportYes \<in> ft_Support ` set granting then SupportYes
         else if granting \<noteq> [] \<and> ft_Support ` set granting \<subseteq> {SupportNo} then SupportNo
         else SupportUnknown)"
proof -
  have "s \<noteq> SupportYes \<Longrightarrow> s \<noteq> SupportUnknown \<Longrightarrow> s = SupportNo" for s by (cases s) auto
  then show ?thesis
    by (auto simp: report_Support_def features_loop_eq Let_def filter_empty_conv image_iff)
qed

section \<open>Frames (ocppj/frame.go)\<close>

type_synonym message = "json option"

definition MessageTypeCall :: int where "MessageTypeCall = 2"
definition MessageTypeCallResult :: int where "MessageTypeCallResult = 3"
definition MessageTypeCallError :: int where "MessageTypeCallError = 4"

lemmas message_types = MessageTypeCall_def MessageTypeCallResult_def MessageTypeCallError_def

definition UnknownMessageID :: string where "UnknownMessageID = ''-1''"

record Frame =
  fr_Type :: int
  fr_ID :: string
  fr_Action :: string
  fr_Payload :: "json option"
  fr_ErrorCode :: ErrorCode
  fr_ErrorDescription :: string
  fr_ErrorDetails :: "json option"

definition new_Frame :: "int \<Rightarrow> string \<Rightarrow> Frame" where
  "new_Frame t i = \<lparr>fr_Type = t, fr_ID = i, fr_Action = [], fr_Payload = None, fr_ErrorCode = [],
     fr_ErrorDescription = [], fr_ErrorDetails = None\<rparr>"

text \<open>\<open>json.Unmarshal\<close> into a variable holding \<open>v\<close>: \<open>null\<close> leaves it as it is.\<close>

definition dec_into :: "(json \<Rightarrow> 'a option) \<Rightarrow> 'a \<Rightarrow> json \<Rightarrow> 'a option" where
  "dec_into d v j = (if j = JNull then Some v else d j)"

definition dec_raw_array :: "message \<Rightarrow> json list option" where
  "dec_raw_array data = (case data of Some (JArr js) \<Rightarrow> Some js | Some JNull \<Rightarrow> Some [] | _ \<Rightarrow> None)"

definition frame_error :: "string \<Rightarrow> string \<Rightarrow> string \<times> RPCError" where
  "frame_error i d = (i, Errorf ErrRpcFrameworkError d)"

text \<open>The part of \<open>ParseFrame\<close> after the message id is known.\<close>

definition parse_typed :: "int \<Rightarrow> string \<Rightarrow> json list \<Rightarrow> (string \<times> RPCError) + Frame" where
  "parse_typed typ i raw =
     (let f = new_Frame typ i; n = Itoa (int (length raw)) in
      if typ = MessageTypeCall then
        (if length raw \<noteq> 4 then Inl (frame_error i (''CALL has '' @ n @ '' elements, want 4''))
         else case dec_into dec_string [] (raw ! 2) of
                None \<Rightarrow> Inl (frame_error i ''action is not a string'')
              | Some action \<Rightarrow>
                  if action = [] then Inl (frame_error i ''action is empty'')
                  else Inr (f\<lparr>fr_Action := action, fr_Payload := Some (raw ! 3)\<rparr>))
      else if typ = MessageTypeCallResult then
        (if length raw \<noteq> 3 then Inl (frame_error i (''CALLRESULT has '' @ n @ '' elements, want 3''))
         else Inr (f\<lparr>fr_Payload := Some (raw ! 2)\<rparr>))
      else if typ = MessageTypeCallError then
        (if length raw < 4 then Inl (frame_error i (''CALLERROR has '' @ n @ '' elements, want at least 4''))
         else case dec_into dec_string [] (raw ! 2) of
                None \<Rightarrow> Inl (frame_error i ''error code is not a string'')
              | Some code \<Rightarrow>
                  Inr (f\<lparr>fr_ErrorCode := code,
                         fr_ErrorDescription := (case dec_into dec_string [] (raw ! 3) of None \<Rightarrow> [] | Some d \<Rightarrow> d),
                         fr_ErrorDetails := (if 4 < length raw then Some (raw ! 4) else None)\<rparr>))
      else Inl (frame_error i (''unknown message type id '' @ Itoa typ)))"

definition ParseFrame :: "string \<Rightarrow> message \<Rightarrow> (string \<times> RPCError) + Frame" where
  "ParseFrame jsonErr data =
     (case dec_raw_array data of
        None \<Rightarrow> Inl (frame_error UnknownMessageID (''message is not a JSON array: '' @ jsonErr))
      | Some raw \<Rightarrow>
          if length raw < 3
          then Inl (frame_error UnknownMessageID (''message has '' @ Itoa (int (length raw)) @ '' elements, want at least 3''))
          else case dec_into dec_int 0 (raw ! 0) of
                 None \<Rightarrow> Inl (frame_error UnknownMessageID ''message type id is not a number'')
               | Some typ \<Rightarrow>
                   (case dec_into dec_string [] (raw ! 1) of
                      None \<Rightarrow> Inl (frame_error UnknownMessageID ''message id is not a string'')
                    | Some i \<Rightarrow>
                        if i = [] then Inl (frame_error UnknownMessageID ''message id is empty'')
                        else parse_typed typ i raw))"

text \<open>The encoders; \<open>None\<close> is a nil payload.\<close>

definition payload_or_empty :: "json option \<Rightarrow> json" where
  "payload_or_empty p = (case p of None \<Rightarrow> JObj [] | Some j \<Rightarrow> j)"

definition EncodeCall :: "string \<Rightarrow> string \<Rightarrow> json option \<Rightarrow> message" where
  "EncodeCall i action p = Some (JArr [JNum MessageTypeCall, JStr i, JStr action, payload_or_empty p])"

definition EncodeCallResult :: "string \<Rightarrow> json option \<Rightarrow> message" where
  "EncodeCallResult i p = Some (JArr [JNum MessageTypeCallResult, JStr i, payload_or_empty p])"

definition EncodeCallError :: "string \<Rightarrow> RPCError \<Rightarrow> message" where
  "EncodeCallError i e = Some (JArr [JNum MessageTypeCallError, JStr i, JStr (re_Code e), JStr (re_Description e),
     JObj (case re_Details e of None \<Rightarrow> [] | Some kvs \<Rightarrow> kvs)])"

lemma small_range [simp]: "int64_range 2" "int64_range 3" "int64_range 4"
  by (simp_all add: int64_range_def)

lemmas frame_simps = ParseFrame_def dec_raw_array_def dec_into_def parse_typed_def message_types new_Frame_def Let_def

lemma dec_all_strings: "dec_all (dec_into dec_string []) (map JStr ss) = Some ss"
  by (rule dec_all_map) (simp add: dec_into_def)

lemma ParseFrame_EncodeCall:
  "i \<noteq> [] \<Longrightarrow> action \<noteq> [] \<Longrightarrow>
   ParseFrame je (EncodeCall i action p) = Inr ((new_Frame MessageTypeCall i)\<lparr>fr_Action := action, fr_Payload := Some (payload_or_empty p)\<rparr>)"
  by (simp add: EncodeCall_def frame_simps)

lemma ParseFrame_EncodeCallResult:
  "i \<noteq> [] \<Longrightarrow>
   ParseFrame je (EncodeCallResult i p) = Inr ((new_Frame MessageTypeCallResult i)\<lparr>fr_Payload := Some (payload_or_empty p)\<rparr>)"
  by (simp add: EncodeCallResult_def frame_simps)

lemma ParseFrame_EncodeCallError:
  "i \<noteq> [] \<Longrightarrow>
   ParseFrame je (EncodeCallError i e) = Inr ((new_Frame MessageTypeCallError i)
     \<lparr>fr_ErrorCode := re_Code e, fr_ErrorDescription := re_Description e,
      fr_ErrorDetails := Some (JObj (case re_Details e of None \<Rightarrow> [] | Some kvs \<Rightarrow> kvs))\<rparr>)"
  by (simp add: EncodeCallError_def frame_simps)

text \<open>What is read back can be sent again: a parsed frame re-encodes to a message that parses to it.\<close>

lemma ParseFrame_Inr:
  assumes "ParseFrame je data = Inr f"
  shows "fr_ID f \<noteq> []" and "fr_Type f \<in> {MessageTypeCall, MessageTypeCallResult, MessageTypeCallError}"
    and "fr_Type f = MessageTypeCall \<Longrightarrow> fr_Action f \<noteq> []"
    and "fr_Type f \<noteq> MessageTypeCallError \<Longrightarrow> fr_Payload f \<noteq> None"
  using assms
  by (auto simp: ParseFrame_def parse_typed_def new_Frame_def Let_def message_types
      split: option.splits if_splits)

lemma parse_typed_Inl: "parse_typed typ i raw = Inl (j, e) \<Longrightarrow> j = i \<and> re_Code e = ErrRpcFrameworkError"
  by (auto simp: parse_typed_def frame_error_def Errorf_def Let_def split: option.splits if_splits)

lemma dec_into_string: "dec_into dec_string [] j = Some i \<Longrightarrow> i \<noteq> [] \<Longrightarrow> j = JStr i"
  by (cases j) (auto simp: dec_into_def dec_string_def)

lemma dec_raw_array_Some: "dec_raw_array data = Some raw \<Longrightarrow> raw \<noteq> [] \<Longrightarrow> data = Some (JArr raw)"
  by (auto simp: dec_raw_array_def split: option.splits json.splits)

lemma ParseFrame_Inl:
  assumes "ParseFrame je data = Inl (i, e)"
  shows "re_Code e = ErrRpcFrameworkError"
    and "i = UnknownMessageID \<or> (\<exists>raw. data = Some (JArr raw) \<and> 3 \<le> length raw \<and> raw ! 1 = JStr i \<and> i \<noteq> [])"
proof -
  have *: "(i = UnknownMessageID \<and> re_Code e = ErrRpcFrameworkError)
    \<or> (\<exists>raw. dec_raw_array data = Some raw \<and> 3 \<le> length raw \<and> dec_into dec_string [] (raw ! 1) = Some i \<and> i \<noteq> []
          \<and> re_Code e = ErrRpcFrameworkError)"
  proof (cases "dec_raw_array data")
    case (Some raw)
    then show ?thesis using assms
      by (auto simp: ParseFrame_def frame_error_def Errorf_def split: option.splits if_splits dest: parse_typed_Inl)
  qed (use assms in \<open>auto simp: ParseFrame_def frame_error_def Errorf_def\<close>)
  then show "re_Code e = ErrRpcFrameworkError" by blast
  from * show "i = UnknownMessageID \<or> (\<exists>raw. data = Some (JArr raw) \<and> 3 \<le> length raw \<and> raw ! 1 = JStr i \<and> i \<noteq> [])"
    using dec_into_string dec_raw_array_Some by fastforce
qed

end
