(* ===== verification/Control.thy ===== *)
theory Control
  imports Core_Interleaving Ocpp
begin

text \<open>
  Package \<open>internal/control\<close>: the one place that acts on the station. An action checks the EVSE,
  finds the station's command interface, records what must be recorded, sends the command and
  interprets the answer.

  The interface \<open>ocpp.ChargePoint\<close> is a record of what each command is answered. While a call waits
  for the station, other goroutines run: what they do to the domain state in the meantime is the
  argument \<open>others\<close>.
\<close>

section \<open>Interfaces and errors (errors.go)\<close>

record station =
  sta_ID :: string
  sta_ReserveNow :: "ReserveRequest \<Rightarrow> ocpp_error + Result"
  sta_CancelReservation :: "int \<Rightarrow> ocpp_error + Result"
  sta_RemoteStart :: "RemoteStartRequest \<Rightarrow> ocpp_error + Result"
  sta_RemoteStop :: "string \<Rightarrow> ocpp_error + Result"
  sta_UnlockConnector :: "string \<Rightarrow> ocpp_error + Result"
  sta_TriggerStatus :: "string \<Rightarrow> ocpp_error + Result"
  sta_Probe :: "ocpp_error + ProbeReport"

type_synonym commander = "string \<Rightarrow> ocpp_error + station"

datatype Op = OpReserve | OpCancel | OpStart' | OpStop' | OpUnlock | OpTriggerStatus

datatype control_error =
    ErrShuttingDown
  | ErrNoReservation string
  | ErrNoActiveTransaction string
  | AmbiguousTransactions string "string list"
  | RefusedError Op string CommandStatus string
  | StationError ocpp_error
  | CoreError core_error
  | RemoteStartRecording persist_error
  | ReservationVanished int

definition refused :: "Op \<Rightarrow> string \<Rightarrow> Result \<Rightarrow> control_error" where
  "refused op uid res = RefusedError op uid (res_Status res) (res_Raw res)"

definition endReason :: "ocpp_error \<Rightarrow> string" where
  "endReason e = (if e = ErrTimeout then ReservationTimeout else ReservationFailed)"

section \<open>The service (control.go)\<close>

definition DefaultReservationLength :: duration where
  "DefaultReservationLength = 15 * Minute"

record Control =
  ctl_core :: Service
  ctl_closed :: bool
  ctl_inflight :: nat

record ReserveParams =
  rp_EVSEUID :: string
  rp_IDTag :: string
  rp_ExpiresAt :: gotime
  rp_ExpiresIn :: duration
  rp_Source :: string
  rp_OCPIReservationID :: string
  rp_ResponseURL :: string

definition checkEVSE :: "Config \<Rightarrow> string \<Rightarrow> control_error option" where
  "checkEVSE cfg uid = (case EVSEByUID cfg uid of None \<Rightarrow> Some (StationError (ErrUnknownEVSE uid)) | Some e \<Rightarrow> None)"

definition chargePoint :: "Config \<Rightarrow> commander \<Rightarrow> control_error + station" where
  "chargePoint cfg cmd = (case cmd (ch_ID (cfg_Charger cfg)) of Inl e \<Rightarrow> Inl (StationError e) | Inr st \<Rightarrow> Inr st)"

definition tagOrDefault :: "Config \<Rightarrow> string \<Rightarrow> string" where
  "tagOrDefault cfg tag = (if tag = [] then au_DefaultIDTag (cfg_Auth cfg) else tag)"

definition reserve_expiry :: "gotime \<Rightarrow> ReserveParams \<Rightarrow> gotime" where
  "reserve_expiry now p =
     (if IsZero (rp_ExpiresAt p)
      then time_Add now (if rp_ExpiresIn p \<le> 0 then DefaultReservationLength else rp_ExpiresIn p)
      else rp_ExpiresAt p)"

text \<open>\<open>Reserve\<close> up to the command: nothing is sent unless the reservation is recorded.\<close>

definition Reserve_begin :: "write_env \<Rightarrow> gotime \<Rightarrow> Config \<Rightarrow> commander \<Rightarrow> ReserveParams \<Rightarrow> Service
    \<Rightarrow> Service \<times> (control_error + station \<times> Reservation)" where
  "Reserve_begin w now cfg cmd p s =
     (case checkEVSE cfg (rp_EVSEUID p) of
        Some e \<Rightarrow> (s, Inl e)
      | None \<Rightarrow>
          (case chargePoint cfg cmd of
             Inl e \<Rightarrow> (s, Inl e)
           | Inr st \<Rightarrow>
               (case BeginReservation w now \<lparr>r_ID = 0, r_OCPIReservationID = rp_OCPIReservationID p,
                       r_ChargePointID = sta_ID st, r_EVSEUID = rp_EVSEUID p, r_ConnectorID = 0,
                       r_IDTag = tagOrDefault cfg (rp_IDTag p), r_ExpiresAt = reserve_expiry now p,
                       r_CreatedAt = zero_time, r_Source = rp_Source p, r_ResponseURL = rp_ResponseURL p,
                       r_Status = ReservationPending\<rparr> s of
                  (s', Inl e) \<Rightarrow> (s', Inl (CoreError e))
                | (s', Inr r) \<Rightarrow> (s', Inr (st, r)))))"

definition reserve_request :: "Reservation \<Rightarrow> ReserveRequest" where
  "reserve_request r = \<lparr>rq_ReservationID = r_ID r, rq_EVSEUID = r_EVSEUID r, rq_IDTag = r_IDTag r, rq_ExpiresAt = r_ExpiresAt r\<rparr>"

text \<open>
  \<open>Reserve\<close> from the answer on. The third component is the reason of the background cancel it
  starts, if it starts one.
\<close>

definition Reserve_finish :: "write_env \<Rightarrow> gotime \<Rightarrow> Reservation \<Rightarrow> ocpp_error + Result \<Rightarrow> Service
    \<Rightarrow> Service \<times> (control_error + Reservation) \<times> string option" where
  "Reserve_finish w now r answer s =
     (case answer of
        Inl e \<Rightarrow> (fst (OrphanReservation now (r_ID r) (endReason e) s), Inl (StationError e), Some (endReason e))
      | Inr res \<Rightarrow>
          if res_Status res \<noteq> CommandAccepted
          then (fst (EndReservation w now (r_ID r) ReservationRejected s), Inl (refused OpReserve (r_EVSEUID r) res), None)
          else (case ActivateReservation w now (r_ID r) s of
                  (s', None) \<Rightarrow> (s', Inl (ReservationVanished (r_ID r)), None)
                | (s', Some active) \<Rightarrow> (s', Inr active, None)))"

record reserve_env =
  rv_begin :: "gotime \<times> write_env"
  rv_finish :: "gotime \<times> write_env"
  rv_cleanup :: "gotime \<times> write_env"

record reserve_outcome =
  ro_control :: Control
  ro_result :: "control_error + Reservation"
  ro_orphan :: "(station \<times> Reservation \<times> string) option"

definition Reserve :: "reserve_env \<Rightarrow> Config \<Rightarrow> commander \<Rightarrow> (Service \<Rightarrow> Service) \<Rightarrow> ReserveParams \<Rightarrow> Control \<Rightarrow> reserve_outcome" where
  "Reserve env cfg cmd others p c =
     (if ctl_closed c then \<lparr>ro_control = c, ro_result = Inl ErrShuttingDown, ro_orphan = None\<rparr>
      else case Reserve_begin (snd (rv_begin env)) (fst (rv_begin env)) cfg cmd p (ctl_core c) of
             (s1, Inl e) \<Rightarrow> \<lparr>ro_control = c\<lparr>ctl_core := s1\<rparr>, ro_result = Inl e, ro_orphan = None\<rparr>
           | (s1, Inr (st, r)) \<Rightarrow>
               (case Reserve_finish (snd (rv_finish env)) (fst (rv_finish env)) r (sta_ReserveNow st (reserve_request r)) (others s1) of
                  (s2, result, None) \<Rightarrow> \<lparr>ro_control = c\<lparr>ctl_core := s2\<rparr>, ro_result = result, ro_orphan = None\<rparr>
                | (s2, result, Some reason) \<Rightarrow>
                    \<lparr>ro_control = c\<lparr>ctl_core := s2, ctl_inflight := Suc (ctl_inflight c)\<rparr>, ro_result = result,
                     ro_orphan = Some (st, r, reason)\<rparr>))"

text \<open>The background goroutine: \<open>cancelOrphan\<close> (its outcome is only logged), then the record ends.\<close>

definition cancelOrphan :: "station \<Rightarrow> Reservation \<Rightarrow> ocpp_error + Result" where
  "cancelOrphan st r = sta_CancelReservation st (r_ID r)"

definition Reserve_background :: "reserve_env \<Rightarrow> (Service \<Rightarrow> Service) \<Rightarrow> station \<times> Reservation \<times> string \<Rightarrow> Control \<Rightarrow> Control" where
  "Reserve_background env others = (\<lambda>(st, r, reason) c.
     (case cancelOrphan st r of _ \<Rightarrow>
        c\<lparr>ctl_core := fst (EndReservation (snd (rv_cleanup env)) (fst (rv_cleanup env)) (r_ID r) reason (others (ctl_core c))),
          ctl_inflight := ctl_inflight c - 1\<rparr>))"

text \<open>\<open>Close\<close> marks the service closed and returns once nothing is in flight.\<close>

definition ctl_Close :: "Control \<Rightarrow> Control" where
  "ctl_Close c = c\<lparr>ctl_closed := True\<rparr>"

definition Close_returns :: "Control \<Rightarrow> bool" where
  "Close_returns c \<longleftrightarrow> ctl_closed c \<and> ctl_inflight c = 0"

definition Cancel :: "write_env \<Rightarrow> gotime \<Rightarrow> Config \<Rightarrow> commander \<Rightarrow> (Service \<Rightarrow> Service) \<Rightarrow> string \<Rightarrow> Service
    \<Rightarrow> Service \<times> control_error option" where
  "Cancel w now cfg cmd others uid s =
     (case checkEVSE cfg uid of
        Some e \<Rightarrow> (s, Some e)
      | None \<Rightarrow>
          (case ActiveReservation s uid of
             None \<Rightarrow> (s, Some (ErrNoReservation uid))
           | Some r \<Rightarrow>
               (case chargePoint cfg cmd of
                  Inl e \<Rightarrow> (s, Some e)
                | Inr st \<Rightarrow>
                    (case sta_CancelReservation st (r_ID r) of
                       Inl e \<Rightarrow> (others s, Some (StationError e))
                     | Inr res \<Rightarrow>
                         (fst (EndReservation w now (r_ID r) ReservationCancelled (others s)),
                          if res_Status res \<noteq> CommandAccepted then Some (refused OpCancel uid res) else None)))))"

definition Start :: "write_env \<Rightarrow> Config \<Rightarrow> commander \<Rightarrow> string \<Rightarrow> string \<Rightarrow> Service \<Rightarrow> Service \<times> control_error option" where
  "Start w cfg cmd uid tag s =
     (case checkEVSE cfg uid of
        Some e \<Rightarrow> (s, Some e)
      | None \<Rightarrow>
          (case chargePoint cfg cmd of
             Inl e \<Rightarrow> (s, Some e)
           | Inr st \<Rightarrow>
               (case NextRemoteStartID w s of
                  (s', Inl e) \<Rightarrow> (s', Some (RemoteStartRecording e))
                | (s', Inr i) \<Rightarrow>
                    (s', case sta_RemoteStart st \<lparr>rs_RemoteStartID = i, rs_EVSEUID = uid, rs_IDTag = tagOrDefault cfg tag\<rparr> of
                           Inl e \<Rightarrow> Some (StationError e)
                         | Inr res \<Rightarrow> if res_Status res \<noteq> CommandAccepted then Some (refused OpStart' uid res) else None))))"

definition Stop :: "Config \<Rightarrow> commander \<Rightarrow> string \<Rightarrow> Service \<Rightarrow> control_error option" where
  "Stop cfg cmd uid s =
     (case checkEVSE cfg uid of
        Some e \<Rightarrow> Some e
      | None \<Rightarrow>
          (case ActiveTransactions s uid of
             [] \<Rightarrow> Some (ErrNoActiveTransaction uid)
           | [tx] \<Rightarrow>
               (case chargePoint cfg cmd of
                  Inl e \<Rightarrow> Some e
                | Inr st \<Rightarrow>
                    (case sta_RemoteStop st (tx_ID tx) of
                       Inl e \<Rightarrow> Some (StationError e)
                     | Inr res \<Rightarrow> if res_Status res \<noteq> CommandAccepted then Some (refused OpStop' uid res) else None))
           | txs \<Rightarrow> Some (AmbiguousTransactions uid (map tx_ID txs))))"

definition Unlock :: "Config \<Rightarrow> commander \<Rightarrow> string \<Rightarrow> control_error option" where
  "Unlock cfg cmd uid =
     (case checkEVSE cfg uid of
        Some e \<Rightarrow> Some e
      | None \<Rightarrow>
          (case chargePoint cfg cmd of
             Inl e \<Rightarrow> Some e
           | Inr st \<Rightarrow>
               (case sta_UnlockConnector st uid of
                  Inl e \<Rightarrow> Some (StationError e)
                | Inr res \<Rightarrow> if res_Status res \<noteq> CommandUnlocked then Some (refused OpUnlock uid res) else None)))"

definition TriggerStatus :: "Config \<Rightarrow> commander \<Rightarrow> string \<Rightarrow> control_error option" where
  "TriggerStatus cfg cmd uid =
     (case checkEVSE cfg uid of
        Some e \<Rightarrow> Some e
      | None \<Rightarrow>
          (case chargePoint cfg cmd of
             Inl e \<Rightarrow> Some e
           | Inr st \<Rightarrow>
               (case sta_TriggerStatus st uid of
                  Inl e \<Rightarrow> Some (StationError e)
                | Inr res \<Rightarrow> if res_Status res \<noteq> CommandAccepted then Some (refused OpTriggerStatus uid res) else None)))"

definition ctl_Probe :: "Config \<Rightarrow> commander \<Rightarrow> control_error + ProbeReport" where
  "ctl_Probe cfg cmd = (case chargePoint cfg cmd of Inl e \<Rightarrow> Inl e
     | Inr st \<Rightarrow> (case sta_Probe st of Inl e \<Rightarrow> Inl (StationError e) | Inr r \<Rightarrow> Inr r))"

section \<open>Reserving\<close>

lemma BeginReservation_Inr:
  assumes "BeginReservation w now r s = (s', Inr r')"
  shows "\<exists>s1. BeginReservation_locked now r s = Inr (s1, r') \<and> s' = fst (persist w s1) \<and> snd (persist w s1) = None"
  using assms by (auto simp: BeginReservation_def split: sum.splits prod.splits option.splits)

text \<open>A recorded reservation is pending under its id, with the invariant kept.\<close>

lemma BeginReservation_pending:
  assumes "svc_inv s" and "svc_nextReservationID s < max_int64" and "BeginReservation w now r s = (s', Inr r')"
  shows "svc_inv s'" and "map_of (svc_reservations s') (r_ID r') = Some \<lparr>rs_res = r', rs_timer = None\<rparr>"
    and "r_Status r' = ReservationPending" and "r_EVSEUID r' = r_EVSEUID r" and "r_ID r' = svc_nextReservationID s"
proof -
  obtain s1 where b: "BeginReservation_locked now r s = Inr (s1, r')" and s': "s' = fst (persist w s1)"
    using BeginReservation_Inr [OF assms(3)] by blast
  note f = BeginReservation_locked_Inr [OF b]
  show "svc_inv s'" unfolding s' using BeginReservation_locked_inv [OF assms(1) b assms(2)] by (rule persist_inv)
  show "map_of (svc_reservations s') (r_ID r') = Some \<lparr>rs_res = r', rs_timer = None\<rparr>" using f by (simp add: s')
  show "r_Status r' = ReservationPending" "r_EVSEUID r' = r_EVSEUID r" "r_ID r' = svc_nextReservationID s"
    using f by simp_all
qed

text \<open>The three outcomes, for a reservation that is pending when the answer arrives.\<close>

lemma finish_accepted:
  assumes "map_of (svc_reservations s) i = Some r" and "r_Status (rs_res r) = ReservationPending"
  shows "\<exists>s'. ActivateReservation w now i s = (s', Some ((rs_res r)\<lparr>r_Status := ReservationActive\<rparr>))
    \<and> svc_reservations s' = m_put i (armLocked now (r\<lparr>rs_res := (rs_res r)\<lparr>r_Status := ReservationActive\<rparr>\<rparr>)) (svc_reservations s)"
  using assms by (simp add: ActivateReservation_def ActivateReservation_locked_def armLocked_def stopTimer_def)

lemma EndReservation_fields:
  assumes "map_of (svc_reservations s) i = Some r" and "r_ID (rs_res r) = i"
  shows "svc_reservations (fst (EndReservation w now i reason s)) = m_del i (svc_reservations s)"
    and "snd (EndReservation w now i reason s) = Some (rs_res r)"
  using assms by (simp_all add: EndReservation_def EndReservation_locked_def endLocked_def persistOrLog_def)

lemma OrphanReservation_fields:
  assumes "map_of (svc_reservations s) i = Some r" and "r_Status (rs_res r) = ReservationPending"
  shows "svc_reservations (fst (OrphanReservation now i reason s))
    = m_put i \<lparr>rs_res = (rs_res r)\<lparr>r_Status := ReservationCancelling\<rparr>, rs_timer = None\<rparr> (svc_reservations s)"
  using assms by (cases r) (simp add: OrphanReservation_def OrphanReservation_locked_def stopTimer_def)

lemma reservation_on:
  assumes "svc_inv s" and "map_of (svc_reservations s) i = Some r"
  shows "reservationOnLocked s (r_EVSEUID (rs_res r)) = Some r"
proof -
  have d: "distinct (m_keys (svc_reservations s))" "exclusive (svc_reservations s)"
    using assms(1) by (simp_all add: svc_inv_def res_inv_def)
  have "r \<in> set (m_vals (svc_reservations s))" using svc_inv_lookup(4) [OF assms] .
  then obtain r' where r': "reservationOnLocked s (r_EVSEUID (rs_res r)) = Some r'"
    by (cases "reservationOnLocked s (r_EVSEUID (rs_res r))") (auto simp: reservationOnLocked_None)
  then have m: "r' \<in> set (m_vals (svc_reservations s))" "r_EVSEUID (rs_res r') = r_EVSEUID (rs_res r)"
    by (auto simp: reservationOnLocked_def dest: find_in_set)
  then obtain j where j: "map_of (svc_reservations s) j = Some r'" using in_vals_iff [OF d(1)] by blast
  have "j = i" using d(2) m(2) j assms(2) unfolding exclusive_def by metis
  then show ?thesis using r' j assms(2) by simp
qed

lemma Reserve_begin_Inr:
  assumes "Reserve_begin w now cfg cmd p s = (s', Inr (st, r))"
  shows "\<exists>r0. BeginReservation w now r0 s = (s', Inr r) \<and> r_EVSEUID r0 = rp_EVSEUID p \<and> chargePoint cfg cmd = Inr st
    \<and> checkEVSE cfg (rp_EVSEUID p) = None"
  using assms by (fastforce simp: Reserve_begin_def split: option.splits sum.splits prod.splits)

text \<open>
  What other goroutines may do while a call waits: any sequence of sections that leaves the
  reservation of the call alone.
\<close>

definition interference :: "int \<Rightarrow> (Service \<Rightarrow> Service) \<Rightarrow> Service \<Rightarrow> bool" where
  "interference i others s \<longleftrightarrow> (\<exists>ops. run_ok ops s \<and> list_all (foreign i) ops \<and> others s = fst (core_run ops s))"

lemma interference_inv: "svc_inv s \<Longrightarrow> interference i others s \<Longrightarrow> svc_inv (others s)"
  by (auto simp: interference_def core_run_inv)

lemma interference_keeps:
  "svc_inv s \<Longrightarrow> interference i others s \<Longrightarrow> map_of (svc_reservations s) i = Some r
   \<Longrightarrow> r_Status (rs_res r) \<noteq> ReservationActive \<Longrightarrow> map_of (svc_reservations (others s)) i = Some r"
  by (auto simp: interference_def foreign_run_keeps)

lemma Reserve_waiting:
  assumes "svc_inv s" and "svc_nextReservationID s < max_int64"
    and "Reserve_begin w now cfg cmd p s = (s1, Inr (st, r))" and "interference (r_ID r) others s1"
  shows "svc_inv (others s1)" and "map_of (svc_reservations (others s1)) (r_ID r) = Some \<lparr>rs_res = r, rs_timer = None\<rparr>"
    and "r_Status r = ReservationPending" and "r_EVSEUID r = rp_EVSEUID p"
proof -
  obtain r0 where b: "BeginReservation w now r0 s = (s1, Inr r)" and e: "r_EVSEUID r0 = rp_EVSEUID p"
    using Reserve_begin_Inr [OF assms(3)] by blast
  note p = BeginReservation_pending [OF assms(1,2) b]
  show "svc_inv (others s1)" using interference_inv [OF p(1) assms(4)] .
  show "map_of (svc_reservations (others s1)) (r_ID r) = Some \<lparr>rs_res = r, rs_timer = None\<rparr>"
    using interference_keeps [OF p(1) assms(4) p(2)] p(3) by simp
  show "r_Status r = ReservationPending" "r_EVSEUID r = rp_EVSEUID p" using p(3,4) e by simp_all
qed

lemma ActivateReservation_inv: "svc_inv s \<Longrightarrow> svc_inv (fst (ActivateReservation w now i s))"
  by (auto simp: ActivateReservation_def split: option.splits prod.splits
      intro!: svc_publish_inv persist_inv intro: ActivateReservation_locked_inv)

lemma EndReservation_inv: "svc_inv s \<Longrightarrow> svc_inv (fst (EndReservation w now i reason s))"
  by (auto simp: EndReservation_def persistOrLog_def split: option.splits prod.splits
      intro!: svc_publish_inv persist_inv intro: EndReservation_locked_inv)

lemma OrphanReservation_inv: "svc_inv s \<Longrightarrow> svc_inv (fst (OrphanReservation now i reason s))"
  by (auto simp: OrphanReservation_def split: option.splits prod.splits
      intro!: svc_publish_inv intro: OrphanReservation_locked_inv)

lemma Reserve_finish_inv: "svc_inv s \<Longrightarrow> svc_inv (fst (Reserve_finish w now r answer s))"
  by (auto simp: Reserve_finish_def EndReservation_inv OrphanReservation_inv split: sum.splits prod.splits option.splits
      dest!: ActivateReservation_inv [of s w now "r_ID r"])

lemma Reserve_open:
  assumes "\<not> ctl_closed c"
    and "Reserve_begin (snd (rv_begin env)) (fst (rv_begin env)) cfg cmd p (ctl_core c) = (s1, Inr (st, r))"
    and "Reserve_finish (snd (rv_finish env)) (fst (rv_finish env)) r (sta_ReserveNow st (reserve_request r)) (others s1) = (s2, result, orphan)"
  shows "ctl_core (ro_control (Reserve env cfg cmd others p c)) = s2"
    and "ro_result (Reserve env cfg cmd others p c) = result"
    and "ro_orphan (Reserve env cfg cmd others p c) = map_option (\<lambda>reason. (st, r, reason)) orphan"
  using assms by (cases orphan; simp add: Reserve_def)+

text \<open>The EVSE is free again exactly when no reservation is on it.\<close>

lemma reservation_off:
  assumes "svc_inv s" and "map_of (svc_reservations s) i = Some r" and "svc_reservations s' = m_del i (svc_reservations s)"
  shows "reservationOnLocked s' (r_EVSEUID (rs_res r)) = None"
proof -
  have d: "distinct (m_keys (svc_reservations s))" "exclusive (svc_reservations s)"
    using assms(1) by (simp_all add: svc_inv_def res_inv_def)
  have "r_EVSEUID (rs_res x) \<noteq> r_EVSEUID (rs_res r)" if x: "x \<in> set (m_vals (svc_reservations s'))" for x
  proof -
    obtain j where "map_of (svc_reservations s') j = Some x"
      using x in_vals_iff [of "svc_reservations s'" x] d(1) assms(3) by auto
    then have "j \<noteq> i" "map_of (svc_reservations s) j = Some x" by (auto simp: assms(3) split: if_splits)
    then show ?thesis using d(2) assms(2) unfolding exclusive_def by metis
  qed
  then show ?thesis by (simp add: reservationOnLocked_None)
qed

end
