(* ===== verification/V16_Messages.thy ===== *)
theory V16_Messages
  imports Ocpp Core_Bus
begin

text \<open>
  Package \<open>internal/ocpp/v16\<close>, first part (\<open>messages.go\<close>, \<open>commands.go\<close>, \<open>status.go\<close>): the payloads of
  OCPP 1.6-J in both directions, their validation, and the translation of statuses into the
  vocabulary of the rest of the program.
\<close>

section \<open>Decoding (messages.go)\<close>

text \<open>
  \<open>decode\<close> of an absent payload is the zero value; a payload that does not fit is a formation
  violation. \<open>dec\<close> decodes one request type and \<open>zero\<close> is its zero value.
\<close>

definition decode_req :: "string \<Rightarrow> (json \<Rightarrow> 'a option) \<Rightarrow> 'a \<Rightarrow> json option \<Rightarrow> RPCError + 'a" where
  "decode_req jsonErr dec zero payload =
     (case payload of None \<Rightarrow> Inr zero
      | Some j \<Rightarrow> (case dec j of None \<Rightarrow> Inl (Errorf ErrFormationViolation (''payload does not match the action: '' @ jsonErr))
                  | Some v \<Rightarrow> Inr v))"

definition missing :: "string \<Rightarrow> RPCError" where
  "missing field = Errorf ErrOccurrenceConstraintViolation (field @ '' is required'')"

text \<open>\<open>%q\<close> of a string whose bytes need no escape but for the quote and the backslash.\<close>

definition quote :: "string \<Rightarrow> string" where
  "quote s = [CHR 0x22] @ concat (map (\<lambda>c. if c = CHR 0x22 \<or> c = CHR 0x5C then [CHR 0x5C, c] else [c]) s) @ [CHR 0x22]"

definition badValue :: "string \<Rightarrow> string \<Rightarrow> RPCError" where
  "badValue field value = Errorf ErrPropertyConstraintViolation (field @ '' has invalid value '' @ quote value)"

record IDTagInfo =
  it_Status :: string
  it_ExpiryDate :: string
  it_ParentIDTag :: string

definition AuthAccepted :: string where "AuthAccepted = ''Accepted''"
definition AuthInvalid :: string where "AuthInvalid = ''Invalid''"

definition tag_info :: "string \<Rightarrow> IDTagInfo" where
  "tag_info s = \<lparr>it_Status = s, it_ExpiryDate = [], it_ParentIDTag = []\<rparr>"

section \<open>Connector status (status.go)\<close>

text \<open>The names of the package, with its prefix where \<open>core\<close> has one of the same name.\<close>

abbreviation v16_StatusAvailable :: string where "v16_StatusAvailable \<equiv> ''Available''"
abbreviation v16_StatusPreparing :: string where "v16_StatusPreparing \<equiv> ''Preparing''"
abbreviation v16_StatusCharging :: string where "v16_StatusCharging \<equiv> ''Charging''"
abbreviation v16_StatusSuspendedEVSE :: string where "v16_StatusSuspendedEVSE \<equiv> ''SuspendedEVSE''"
abbreviation v16_StatusSuspendedEV :: string where "v16_StatusSuspendedEV \<equiv> ''SuspendedEV''"
abbreviation v16_StatusFinishing :: string where "v16_StatusFinishing \<equiv> ''Finishing''"
abbreviation v16_StatusReserved :: string where "v16_StatusReserved \<equiv> ''Reserved''"
abbreviation v16_StatusUnavailable :: string where "v16_StatusUnavailable \<equiv> ''Unavailable''"
abbreviation v16_StatusFaulted :: string where "v16_StatusFaulted \<equiv> ''Faulted''"

definition statusMap :: "(string \<times> EVSEStatus) list" where
  "statusMap = [(v16_StatusAvailable, StatusAvailable), (v16_StatusPreparing, StatusAvailable), (v16_StatusFinishing, StatusAvailable),
     (v16_StatusCharging, StatusCharging), (v16_StatusSuspendedEV, StatusCharging), (v16_StatusSuspendedEVSE, StatusCharging),
     (v16_StatusReserved, StatusReserved), (v16_StatusUnavailable, StatusInoperative), (v16_StatusFaulted, StatusOutOfOrder)]"

definition MapStatus :: "string \<Rightarrow> EVSEStatus" where
  "MapStatus s = (case map_of statusMap s of Some st \<Rightarrow> st | None \<Rightarrow> StatusUnknown)"

section \<open>Requests of the charge point (messages.go)\<close>

abbreviation ActionBootNotification :: string where "ActionBootNotification \<equiv> ''BootNotification''"
abbreviation ActionHeartbeat :: string where "ActionHeartbeat \<equiv> ''Heartbeat''"
abbreviation ActionStatusNotification :: string where "ActionStatusNotification \<equiv> ''StatusNotification''"
abbreviation ActionAuthorize :: string where "ActionAuthorize \<equiv> ''Authorize''"
abbreviation ActionStartTransaction :: string where "ActionStartTransaction \<equiv> ''StartTransaction''"
abbreviation ActionStopTransaction :: string where "ActionStopTransaction \<equiv> ''StopTransaction''"
abbreviation ActionMeterValues :: string where "ActionMeterValues \<equiv> ''MeterValues''"
abbreviation ActionDataTransfer :: string where "ActionDataTransfer \<equiv> ''DataTransfer''"
abbreviation ActionFirmwareStatusNotification :: string where "ActionFirmwareStatusNotification \<equiv> ''FirmwareStatusNotification''"
abbreviation ActionDiagnosticsStatusNotification :: string where "ActionDiagnosticsStatusNotification \<equiv> ''DiagnosticsStatusNotification''"

record BootNotificationReq =
  bn_ChargePointVendor :: string
  bn_ChargePointModel :: string
  bn_ChargePointSerialNumber :: string
  bn_ChargeBoxSerialNumber :: string
  bn_FirmwareVersion :: string
  bn_ICCID :: string
  bn_IMSI :: string
  bn_MeterType :: string
  bn_MeterSerialNumber :: string

definition zero_BootNotificationReq :: BootNotificationReq where
  "zero_BootNotificationReq = \<lparr>bn_ChargePointVendor = [], bn_ChargePointModel = [], bn_ChargePointSerialNumber = [],
     bn_ChargeBoxSerialNumber = [], bn_FirmwareVersion = [], bn_ICCID = [], bn_IMSI = [], bn_MeterType = [],
     bn_MeterSerialNumber = []\<rparr>"

definition dec_BootNotificationReq :: "json \<Rightarrow> BootNotificationReq option" where
  "dec_BootNotificationReq = dec_struct zero_BootNotificationReq (\<lambda>kvs. do {
     v \<leftarrow> dec_field dec_string [] ''chargePointVendor'' kvs;
     m \<leftarrow> dec_field dec_string [] ''chargePointModel'' kvs;
     s \<leftarrow> dec_field dec_string [] ''chargePointSerialNumber'' kvs;
     b \<leftarrow> dec_field dec_string [] ''chargeBoxSerialNumber'' kvs;
     f \<leftarrow> dec_field dec_string [] ''firmwareVersion'' kvs;
     i \<leftarrow> dec_field dec_string [] ''iccid'' kvs;
     j \<leftarrow> dec_field dec_string [] ''imsi'' kvs;
     t \<leftarrow> dec_field dec_string [] ''meterType'' kvs;
     n \<leftarrow> dec_field dec_string [] ''meterSerialNumber'' kvs;
     Some \<lparr>bn_ChargePointVendor = v, bn_ChargePointModel = m, bn_ChargePointSerialNumber = s,
       bn_ChargeBoxSerialNumber = b, bn_FirmwareVersion = f, bn_ICCID = i, bn_IMSI = j, bn_MeterType = t,
       bn_MeterSerialNumber = n\<rparr>})"

definition validate_BootNotificationReq :: "BootNotificationReq \<Rightarrow> RPCError option" where
  "validate_BootNotificationReq r =
     (if bn_ChargePointVendor r = [] then Some (missing ''chargePointVendor'')
      else if bn_ChargePointModel r = [] then Some (missing ''chargePointModel'')
      else None)"

record StatusNotificationReq =
  sn_ConnectorID :: int
  sn_ErrorCode :: string
  sn_Status :: string
  sn_Info :: string
  sn_Timestamp :: string
  sn_VendorID :: string
  sn_VendorErrorCode :: string

definition zero_StatusNotificationReq :: StatusNotificationReq where
  "zero_StatusNotificationReq = \<lparr>sn_ConnectorID = 0, sn_ErrorCode = [], sn_Status = [], sn_Info = [],
     sn_Timestamp = [], sn_VendorID = [], sn_VendorErrorCode = []\<rparr>"

definition dec_StatusNotificationReq :: "json \<Rightarrow> StatusNotificationReq option" where
  "dec_StatusNotificationReq = dec_struct zero_StatusNotificationReq (\<lambda>kvs. do {
     c \<leftarrow> dec_field dec_int 0 ''connectorId'' kvs;
     e \<leftarrow> dec_field dec_string [] ''errorCode'' kvs;
     s \<leftarrow> dec_field dec_string [] ''status'' kvs;
     i \<leftarrow> dec_field dec_string [] ''info'' kvs;
     t \<leftarrow> dec_field dec_string [] ''timestamp'' kvs;
     v \<leftarrow> dec_field dec_string [] ''vendorId'' kvs;
     x \<leftarrow> dec_field dec_string [] ''vendorErrorCode'' kvs;
     Some \<lparr>sn_ConnectorID = c, sn_ErrorCode = e, sn_Status = s, sn_Info = i, sn_Timestamp = t,
       sn_VendorID = v, sn_VendorErrorCode = x\<rparr>})"

definition validate_StatusNotificationReq :: "StatusNotificationReq \<Rightarrow> RPCError option" where
  "validate_StatusNotificationReq r =
     (if sn_ConnectorID r < 0 then Some (badValue ''connectorId'' (Itoa (sn_ConnectorID r)))
      else if sn_Status r = [] then Some (missing ''status'')
      else if map_of statusMap (sn_Status r) = None then Some (badValue ''status'' (sn_Status r))
      else None)"

definition dec_AuthorizeReq :: "json \<Rightarrow> string option" where
  "dec_AuthorizeReq = dec_struct [] (dec_field dec_string [] ''idTag'')"

record StartTransactionReq =
  sq_ConnectorID :: int
  sq_IDTag :: string
  sq_MeterStart :: int
  sq_Timestamp :: string
  sq_ReservationID :: "int option"

definition zero_StartTransactionReq :: StartTransactionReq where
  "zero_StartTransactionReq = \<lparr>sq_ConnectorID = 0, sq_IDTag = [], sq_MeterStart = 0, sq_Timestamp = [], sq_ReservationID = None\<rparr>"

definition dec_StartTransactionReq :: "json \<Rightarrow> StartTransactionReq option" where
  "dec_StartTransactionReq = dec_struct zero_StartTransactionReq (\<lambda>kvs. do {
     c \<leftarrow> dec_field dec_int 0 ''connectorId'' kvs;
     t \<leftarrow> dec_field dec_string [] ''idTag'' kvs;
     m \<leftarrow> dec_field dec_int 0 ''meterStart'' kvs;
     s \<leftarrow> dec_field dec_string [] ''timestamp'' kvs;
     r \<leftarrow> dec_field (dec_pointer dec_int) None ''reservationId'' kvs;
     Some \<lparr>sq_ConnectorID = c, sq_IDTag = t, sq_MeterStart = m, sq_Timestamp = s, sq_ReservationID = r\<rparr>})"

definition validate_StartTransactionReq :: "StartTransactionReq \<Rightarrow> RPCError option" where
  "validate_StartTransactionReq r =
     (if sq_ConnectorID r < 1 then Some (badValue ''connectorId'' (Itoa (sq_ConnectorID r)))
      else if sq_IDTag r = [] then Some (missing ''idTag'')
      else None)"

record StopTransactionReq =
  sp_TransactionID :: int
  sp_MeterStop :: int
  sp_Timestamp :: string
  sp_IDTag :: string
  sp_Reason :: string

definition zero_StopTransactionReq :: StopTransactionReq where
  "zero_StopTransactionReq = \<lparr>sp_TransactionID = 0, sp_MeterStop = 0, sp_Timestamp = [], sp_IDTag = [], sp_Reason = []\<rparr>"

definition dec_StopTransactionReq :: "json \<Rightarrow> StopTransactionReq option" where
  "dec_StopTransactionReq = dec_struct zero_StopTransactionReq (\<lambda>kvs. do {
     i \<leftarrow> dec_field dec_int 0 ''transactionId'' kvs;
     m \<leftarrow> dec_field dec_int 0 ''meterStop'' kvs;
     s \<leftarrow> dec_field dec_string [] ''timestamp'' kvs;
     t \<leftarrow> dec_field dec_string [] ''idTag'' kvs;
     r \<leftarrow> dec_field dec_string [] ''reason'' kvs;
     Some \<lparr>sp_TransactionID = i, sp_MeterStop = m, sp_Timestamp = s, sp_IDTag = t, sp_Reason = r\<rparr>})"

record SampledValue =
  sv_Value :: string
  sv_Measurand :: string
  sv_Unit :: string
  sv_Context :: string
  sv_Phase :: string
  sv_Location :: string
  sv_Format :: string

record MeterValue =
  mv_Timestamp :: string
  mv_SampledValue :: "SampledValue slice"

record MeterValuesReq =
  mq_ConnectorID :: int
  mq_TransactionID :: "int option"
  mq_MeterValue :: "MeterValue slice"

definition dec_SampledValue :: "json \<Rightarrow> SampledValue option" where
  "dec_SampledValue = dec_struct \<lparr>sv_Value = [], sv_Measurand = [], sv_Unit = [], sv_Context = [], sv_Phase = [],
       sv_Location = [], sv_Format = []\<rparr> (\<lambda>kvs. do {
     v \<leftarrow> dec_field dec_string [] ''value'' kvs;
     m \<leftarrow> dec_field dec_string [] ''measurand'' kvs;
     u \<leftarrow> dec_field dec_string [] ''unit'' kvs;
     c \<leftarrow> dec_field dec_string [] ''context'' kvs;
     p \<leftarrow> dec_field dec_string [] ''phase'' kvs;
     l \<leftarrow> dec_field dec_string [] ''location'' kvs;
     f \<leftarrow> dec_field dec_string [] ''format'' kvs;
     Some \<lparr>sv_Value = v, sv_Measurand = m, sv_Unit = u, sv_Context = c, sv_Phase = p, sv_Location = l, sv_Format = f\<rparr>})"

definition dec_MeterValue :: "json \<Rightarrow> MeterValue option" where
  "dec_MeterValue = dec_struct \<lparr>mv_Timestamp = [], mv_SampledValue = None\<rparr> (\<lambda>kvs. do {
     t \<leftarrow> dec_field dec_string [] ''timestamp'' kvs;
     s \<leftarrow> dec_field (dec_slice dec_SampledValue) None ''sampledValue'' kvs;
     Some \<lparr>mv_Timestamp = t, mv_SampledValue = s\<rparr>})"

definition zero_MeterValuesReq :: MeterValuesReq where
  "zero_MeterValuesReq = \<lparr>mq_ConnectorID = 0, mq_TransactionID = None, mq_MeterValue = None\<rparr>"

definition dec_MeterValuesReq :: "json \<Rightarrow> MeterValuesReq option" where
  "dec_MeterValuesReq = dec_struct zero_MeterValuesReq (\<lambda>kvs. do {
     c \<leftarrow> dec_field dec_int 0 ''connectorId'' kvs;
     t \<leftarrow> dec_field (dec_pointer dec_int) None ''transactionId'' kvs;
     m \<leftarrow> dec_field (dec_slice dec_MeterValue) None ''meterValue'' kvs;
     Some \<lparr>mq_ConnectorID = c, mq_TransactionID = t, mq_MeterValue = m\<rparr>})"

record DataTransferReq =
  dt_VendorID :: string
  dt_MessageID :: string
  dt_Data :: string

definition zero_DataTransferReq :: DataTransferReq where
  "zero_DataTransferReq = \<lparr>dt_VendorID = [], dt_MessageID = [], dt_Data = []\<rparr>"

definition dec_DataTransferReq :: "json \<Rightarrow> DataTransferReq option" where
  "dec_DataTransferReq = dec_struct zero_DataTransferReq (\<lambda>kvs. do {
     v \<leftarrow> dec_field dec_string [] ''vendorId'' kvs;
     m \<leftarrow> dec_field dec_string [] ''messageId'' kvs;
     d \<leftarrow> dec_field dec_string [] ''data'' kvs;
     Some \<lparr>dt_VendorID = v, dt_MessageID = m, dt_Data = d\<rparr>})"

definition dec_StatusOnlyReq :: "json \<Rightarrow> string option" where
  "dec_StatusOnlyReq = dec_struct [] (dec_field dec_string [] ''status'')"

text \<open>The confirmations the handler returns.\<close>

datatype conf =
    BootNotificationConf (conf_status: string) (conf_time: string) (conf_interval: int)
  | HeartbeatConf string
  | emptyConf
  | AuthorizeConf IDTagInfo
  | StartTransactionConf int IDTagInfo
  | StopTransactionConf "IDTagInfo option"
  | DataTransferConf string string

definition enc_IDTagInfo :: "IDTagInfo \<Rightarrow> json" where
  "enc_IDTagInfo t = JObj ([(''status'', JStr (it_Status t))]
     @ (if it_ExpiryDate t = [] then [] else [(''expiryDate'', JStr (it_ExpiryDate t))])
     @ (if it_ParentIDTag t = [] then [] else [(''parentIdTag'', JStr (it_ParentIDTag t))]))"

fun enc_conf :: "conf \<Rightarrow> json" where
  "enc_conf (BootNotificationConf s t i) = JObj [(''status'', JStr s), (''currentTime'', JStr t), (''interval'', JNum i)]"
| "enc_conf (HeartbeatConf t) = JObj [(''currentTime'', JStr t)]"
| "enc_conf emptyConf = JObj []"
| "enc_conf (AuthorizeConf t) = JObj [(''idTagInfo'', enc_IDTagInfo t)]"
| "enc_conf (StartTransactionConf i t) = JObj [(''transactionId'', JNum i), (''idTagInfo'', enc_IDTagInfo t)]"
| "enc_conf (StopTransactionConf t) = JObj (case t of None \<Rightarrow> [] | Some i \<Rightarrow> [(''idTagInfo'', enc_IDTagInfo i)])"
| "enc_conf (DataTransferConf s d) = JObj ([(''status'', JStr s)] @ (if d = [] then [] else [(''data'', JStr d)]))"

definition formatTime :: "gotime \<Rightarrow> string" where
  "formatTime t = format_rfc3339 (UTC t)"

definition parseTime :: "string \<Rightarrow> gotime \<Rightarrow> gotime" where
  "parseTime s fallback = (if s = [] then fallback
     else case parse_rfc3339 s of None \<Rightarrow> fallback | Some t \<Rightarrow> t)"

section \<open>Requests to the charge point (commands.go)\<close>

definition ActionReserveNow :: string where "ActionReserveNow = ''ReserveNow''"
definition ActionCancelReservation :: string where "ActionCancelReservation = ''CancelReservation''"
definition ActionRemoteStartTransaction :: string where "ActionRemoteStartTransaction = ''RemoteStartTransaction''"
definition ActionRemoteStopTransaction :: string where "ActionRemoteStopTransaction = ''RemoteStopTransaction''"
definition ActionUnlockConnector :: string where "ActionUnlockConnector = ''UnlockConnector''"
definition ActionTriggerMessage :: string where "ActionTriggerMessage = ''TriggerMessage''"
definition ActionGetConfiguration :: string where "ActionGetConfiguration = ''GetConfiguration''"
definition ActionChangeAvailability :: string where "ActionChangeAvailability = ''ChangeAvailability''"
definition ActionReset :: string where "ActionReset = ''Reset''"

lemmas action_defs = ActionReserveNow_def ActionCancelReservation_def ActionRemoteStartTransaction_def
  ActionRemoteStopTransaction_def ActionUnlockConnector_def ActionTriggerMessage_def
  ActionGetConfiguration_def ActionChangeAvailability_def ActionReset_def

record ReserveNowReq =
  rn_ConnectorID :: int
  rn_ExpiryDate :: string
  rn_IDTag :: string
  rn_ParentIDTag :: string
  rn_ReservationID :: int

definition enc_ReserveNowReq :: "ReserveNowReq \<Rightarrow> json" where
  "enc_ReserveNowReq r = JObj ([(''connectorId'', JNum (rn_ConnectorID r)), (''expiryDate'', JStr (rn_ExpiryDate r)),
      (''idTag'', JStr (rn_IDTag r))]
     @ (if rn_ParentIDTag r = [] then [] else [(''parentIdTag'', JStr (rn_ParentIDTag r))])
     @ [(''reservationId'', JNum (rn_ReservationID r))])"

definition dec_ReserveNowReq :: "json \<Rightarrow> ReserveNowReq option" where
  "dec_ReserveNowReq = dec_struct \<lparr>rn_ConnectorID = 0, rn_ExpiryDate = [], rn_IDTag = [], rn_ParentIDTag = [],
       rn_ReservationID = 0\<rparr> (\<lambda>kvs. do {
     c \<leftarrow> dec_field dec_int 0 ''connectorId'' kvs;
     e \<leftarrow> dec_field dec_string [] ''expiryDate'' kvs;
     t \<leftarrow> dec_field dec_string [] ''idTag'' kvs;
     p \<leftarrow> dec_field dec_string [] ''parentIdTag'' kvs;
     i \<leftarrow> dec_field dec_int 0 ''reservationId'' kvs;
     Some \<lparr>rn_ConnectorID = c, rn_ExpiryDate = e, rn_IDTag = t, rn_ParentIDTag = p, rn_ReservationID = i\<rparr>})"

definition enc_CancelReservationReq :: "int \<Rightarrow> json" where
  "enc_CancelReservationReq i = JObj [(''reservationId'', JNum i)]"

definition dec_CancelReservationReq :: "json \<Rightarrow> int option" where
  "dec_CancelReservationReq = dec_struct 0 (dec_field dec_int 0 ''reservationId'')"

record RemoteStartTransactionReq =
  rt_ConnectorID :: "int option"
  rt_IDTag :: string

definition enc_RemoteStartTransactionReq :: "RemoteStartTransactionReq \<Rightarrow> json" where
  "enc_RemoteStartTransactionReq r = JObj
     ((case rt_ConnectorID r of None \<Rightarrow> [] | Some c \<Rightarrow> [(''connectorId'', JNum c)]) @ [(''idTag'', JStr (rt_IDTag r))])"

definition dec_RemoteStartTransactionReq :: "json \<Rightarrow> RemoteStartTransactionReq option" where
  "dec_RemoteStartTransactionReq = dec_struct \<lparr>rt_ConnectorID = None, rt_IDTag = []\<rparr> (\<lambda>kvs. do {
     c \<leftarrow> dec_field (dec_pointer dec_int) None ''connectorId'' kvs;
     t \<leftarrow> dec_field dec_string [] ''idTag'' kvs;
     Some \<lparr>rt_ConnectorID = c, rt_IDTag = t\<rparr>})"

definition enc_RemoteStopTransactionReq :: "int \<Rightarrow> json" where
  "enc_RemoteStopTransactionReq i = JObj [(''transactionId'', JNum i)]"

definition dec_RemoteStopTransactionReq :: "json \<Rightarrow> int option" where
  "dec_RemoteStopTransactionReq = dec_struct 0 (dec_field dec_int 0 ''transactionId'')"

definition enc_UnlockConnectorReq :: "int \<Rightarrow> json" where
  "enc_UnlockConnectorReq c = JObj [(''connectorId'', JNum c)]"

definition dec_UnlockConnectorReq :: "json \<Rightarrow> int option" where
  "dec_UnlockConnectorReq = dec_struct 0 (dec_field dec_int 0 ''connectorId'')"

record TriggerMessageReq =
  tr_RequestedMessage :: string
  tr_ConnectorID :: "int option"

definition enc_TriggerMessageReq :: "TriggerMessageReq \<Rightarrow> json" where
  "enc_TriggerMessageReq r = JObj ([(''requestedMessage'', JStr (tr_RequestedMessage r))]
     @ (case tr_ConnectorID r of None \<Rightarrow> [] | Some c \<Rightarrow> [(''connectorId'', JNum c)]))"

definition dec_TriggerMessageReq :: "json \<Rightarrow> TriggerMessageReq option" where
  "dec_TriggerMessageReq = dec_struct \<lparr>tr_RequestedMessage = [], tr_ConnectorID = None\<rparr> (\<lambda>kvs. do {
     m \<leftarrow> dec_field dec_string [] ''requestedMessage'' kvs;
     c \<leftarrow> dec_field (dec_pointer dec_int) None ''connectorId'' kvs;
     Some \<lparr>tr_RequestedMessage = m, tr_ConnectorID = c\<rparr>})"

definition enc_GetConfigurationReq :: "string list \<Rightarrow> json" where
  "enc_GetConfigurationReq keys = JObj (if keys = [] then [] else [(''key'', JArr (map JStr keys))])"

definition dec_GetConfigurationReq :: "json \<Rightarrow> string list option" where
  "dec_GetConfigurationReq = dec_struct []
     (\<lambda>kvs. map_option elems (dec_field (dec_slice (dec_into dec_string [])) None ''key'' kvs))"

record ConfigurationKey =
  ck_Key :: string
  ck_Readonly :: bool
  ck_Value :: string

definition enc_ConfigurationKey :: "ConfigurationKey \<Rightarrow> json" where
  "enc_ConfigurationKey k = JObj ([(''key'', JStr (ck_Key k)), (''readonly'', JBool (ck_Readonly k))]
     @ (if ck_Value k = [] then [] else [(''value'', JStr (ck_Value k))]))"

definition dec_ConfigurationKey :: "json \<Rightarrow> ConfigurationKey option" where
  "dec_ConfigurationKey = dec_struct \<lparr>ck_Key = [], ck_Readonly = False, ck_Value = []\<rparr> (\<lambda>kvs. do {
     k \<leftarrow> dec_field dec_string [] ''key'' kvs;
     r \<leftarrow> dec_field dec_bool False ''readonly'' kvs;
     v \<leftarrow> dec_field dec_string [] ''value'' kvs;
     Some \<lparr>ck_Key = k, ck_Readonly = r, ck_Value = v\<rparr>})"

record GetConfigurationConf =
  gc_ConfigurationKey :: "ConfigurationKey list"
  gc_UnknownKey :: "string list"

definition enc_GetConfigurationConf :: "GetConfigurationConf \<Rightarrow> json" where
  "enc_GetConfigurationConf c = JObj
     ((if gc_ConfigurationKey c = [] then [] else [(''configurationKey'', JArr (map enc_ConfigurationKey (gc_ConfigurationKey c)))])
      @ (if gc_UnknownKey c = [] then [] else [(''unknownKey'', JArr (map JStr (gc_UnknownKey c)))]))"

definition dec_GetConfigurationConf :: "json \<Rightarrow> GetConfigurationConf option" where
  "dec_GetConfigurationConf = dec_struct \<lparr>gc_ConfigurationKey = [], gc_UnknownKey = []\<rparr> (\<lambda>kvs. do {
     k \<leftarrow> dec_field (dec_slice dec_ConfigurationKey) None ''configurationKey'' kvs;
     u \<leftarrow> dec_field (dec_slice (dec_into dec_string [])) None ''unknownKey'' kvs;
     Some \<lparr>gc_ConfigurationKey = elems k, gc_UnknownKey = elems u\<rparr>})"

record ChangeAvailabilityReq =
  ca_ConnectorID :: int
  ca_Type :: string

definition dec_ChangeAvailabilityReq :: "json \<Rightarrow> ChangeAvailabilityReq option" where
  "dec_ChangeAvailabilityReq = dec_struct \<lparr>ca_ConnectorID = 0, ca_Type = []\<rparr> (\<lambda>kvs. do {
     c \<leftarrow> dec_field dec_int 0 ''connectorId'' kvs;
     t \<leftarrow> dec_field dec_string [] ''type'' kvs;
     Some \<lparr>ca_ConnectorID = c, ca_Type = t\<rparr>})"

definition dec_ResetReq :: "json \<Rightarrow> string option" where
  "dec_ResetReq = dec_struct [] (dec_field dec_string [] ''type'')"

text \<open>Every \<open>.conf\<close> that carries nothing but a status.\<close>

definition enc_status_conf :: "string \<Rightarrow> json" where
  "enc_status_conf s = JObj [(''status'', JStr s)]"

definition dec_status_conf :: "json \<Rightarrow> string option" where
  "dec_status_conf = dec_struct [] (dec_field dec_string [] ''status'')"

section \<open>Command status (status.go)\<close>

abbreviation CmdAccepted :: string where "CmdAccepted \<equiv> ''Accepted''"
abbreviation CmdRejected :: string where "CmdRejected \<equiv> ''Rejected''"

abbreviation v16_ReservationAccepted :: string where "v16_ReservationAccepted \<equiv> ''Accepted''"
abbreviation v16_ReservationFaulted :: string where "v16_ReservationFaulted \<equiv> ''Faulted''"
abbreviation v16_ReservationOccupied :: string where "v16_ReservationOccupied \<equiv> ''Occupied''"
abbreviation v16_ReservationRejected :: string where "v16_ReservationRejected \<equiv> ''Rejected''"
abbreviation v16_ReservationUnavailable :: string where "v16_ReservationUnavailable \<equiv> ''Unavailable''"

abbreviation UnlockUnlocked :: string where "UnlockUnlocked \<equiv> ''Unlocked''"
abbreviation UnlockFailed :: string where "UnlockFailed \<equiv> ''UnlockFailed''"
abbreviation UnlockNotSupported :: string where "UnlockNotSupported \<equiv> ''NotSupported''"

abbreviation TriggerAccepted :: string where "TriggerAccepted \<equiv> ''Accepted''"
abbreviation TriggerRejected :: string where "TriggerRejected \<equiv> ''Rejected''"
abbreviation TriggerNotImplemented :: string where "TriggerNotImplemented \<equiv> ''NotImplemented''"

abbreviation AvailabilityInoperative :: string where "AvailabilityInoperative \<equiv> ''Inoperative''"

definition commandStatusMap :: "(string \<times> (string \<times> CommandStatus) list) list" where
  "commandStatusMap =
     [(ActionReserveNow, [(v16_ReservationAccepted, CommandAccepted), (v16_ReservationFaulted, CommandFaulted), (v16_ReservationOccupied, CommandOccupied),
        (v16_ReservationRejected, CommandRejected), (v16_ReservationUnavailable, CommandUnavailable)]),
      (ActionCancelReservation, [(CmdAccepted, CommandAccepted), (CmdRejected, CommandRejected)]),
      (ActionRemoteStartTransaction, [(CmdAccepted, CommandAccepted), (CmdRejected, CommandRejected)]),
      (ActionRemoteStopTransaction, [(CmdAccepted, CommandAccepted), (CmdRejected, CommandRejected)]),
      (ActionUnlockConnector, [(UnlockUnlocked, CommandUnlocked), (UnlockFailed, CommandUnlockFailed),
        (UnlockNotSupported, CommandNotSupported)]),
      (ActionTriggerMessage, [(TriggerAccepted, CommandAccepted), (TriggerRejected, CommandRejected),
        (TriggerNotImplemented, CommandNotImplemented)])]"

definition MapCommandStatus :: "string \<Rightarrow> string \<Rightarrow> CommandStatus" where
  "MapCommandStatus action status =
     (case map_of (case map_of commandStatusMap action of None \<Rightarrow> [] | Some m \<Rightarrow> m) status of
        Some s \<Rightarrow> s | None \<Rightarrow> CommandUnknown)"

section \<open>What the station reads is what was sent\<close>

lemma fold_v16_keys:
  "fold_key ''connectorId'' = ''connectorid''"
  "fold_key ''expiryDate'' = ''expirydate''"
  "fold_key ''idTag'' = ''idtag''"
  "fold_key ''parentIdTag'' = ''parentidtag''"
  "fold_key ''reservationId'' = ''reservationid''"
  "fold_key ''transactionId'' = ''transactionid''"
  "fold_key ''requestedMessage'' = ''requestedmessage''"
  "fold_key ''key'' = ''key''"
  "fold_key ''readonly'' = ''readonly''"
  "fold_key ''value'' = ''value''"
  "fold_key ''configurationKey'' = ''configurationkey''"
  "fold_key ''unknownKey'' = ''unknownkey''"
  "fold_key ''status'' = ''status''"
  by code_simp+

lemmas v16_key_simps = EqualFold_def fold_v16_keys

lemma dec_enc_ReserveNowReq:
  "int64_range (rn_ConnectorID r) \<Longrightarrow> int64_range (rn_ReservationID r) \<Longrightarrow> dec_ReserveNowReq (enc_ReserveNowReq r) = Some r"
  by (cases r) (simp add: dec_ReserveNowReq_def enc_ReserveNowReq_def v16_key_simps)

lemma dec_enc_int_reqs:
  "int64_range i \<Longrightarrow> dec_CancelReservationReq (enc_CancelReservationReq i) = Some i"
  "int64_range i \<Longrightarrow> dec_RemoteStopTransactionReq (enc_RemoteStopTransactionReq i) = Some i"
  "int64_range i \<Longrightarrow> dec_UnlockConnectorReq (enc_UnlockConnectorReq i) = Some i"
  by (simp_all add: dec_CancelReservationReq_def enc_CancelReservationReq_def dec_RemoteStopTransactionReq_def
      enc_RemoteStopTransactionReq_def dec_UnlockConnectorReq_def enc_UnlockConnectorReq_def)

lemma dec_enc_RemoteStartTransactionReq:
  "pred_option int64_range (rt_ConnectorID r) \<Longrightarrow>
   dec_RemoteStartTransactionReq (enc_RemoteStartTransactionReq r) = Some r"
  by (cases r; cases "rt_ConnectorID r")
     (simp_all add: dec_RemoteStartTransactionReq_def enc_RemoteStartTransactionReq_def v16_key_simps dec_pointer_def)

lemma dec_enc_TriggerMessageReq:
  "pred_option int64_range (tr_ConnectorID r) \<Longrightarrow> dec_TriggerMessageReq (enc_TriggerMessageReq r) = Some r"
  by (cases r; cases "tr_ConnectorID r")
     (simp_all add: dec_TriggerMessageReq_def enc_TriggerMessageReq_def v16_key_simps dec_pointer_def)

lemma dec_enc_GetConfigurationReq: "dec_GetConfigurationReq (enc_GetConfigurationReq ks) = Some ks"
  by (simp add: dec_GetConfigurationReq_def enc_GetConfigurationReq_def dec_all_strings)

lemma dec_enc_ConfigurationKey: "dec_ConfigurationKey (enc_ConfigurationKey k) = Some k"
  by (cases k) (simp add: dec_ConfigurationKey_def enc_ConfigurationKey_def v16_key_simps)

lemma dec_all_ConfigurationKeys: "dec_all dec_ConfigurationKey (map enc_ConfigurationKey ks) = Some ks"
  by (rule dec_all_map) (rule dec_enc_ConfigurationKey)

lemma dec_enc_GetConfigurationConf: "dec_GetConfigurationConf (enc_GetConfigurationConf c) = Some c"
  by (cases c) (simp add: dec_GetConfigurationConf_def enc_GetConfigurationConf_def v16_key_simps
      dec_all_ConfigurationKeys dec_all_strings)

lemma dec_enc_status_conf: "dec_status_conf (enc_status_conf s) = Some s"
  by (simp add: dec_status_conf_def enc_status_conf_def)

text \<open>A mapped status is one the action defines, and it reads as the station wrote it.\<close>

lemma MapCommandStatus_sound:
  assumes "MapCommandStatus action status \<noteq> CommandUnknown"
  shows "status = command_string (MapCommandStatus action status)"
    and "\<exists>m. (action, m) \<in> set commandStatusMap \<and> (status, MapCommandStatus action status) \<in> set m"
proof -
  obtain m s where m: "map_of commandStatusMap action = Some m" "map_of m status = Some s"
      "MapCommandStatus action status = s"
    using assms by (auto simp: MapCommandStatus_def split: option.splits)
  then have in_map: "(action, m) \<in> set commandStatusMap" "(status, s) \<in> set m" by (auto dest: map_of_SomeD)
  with m(3) show "\<exists>m. (action, m) \<in> set commandStatusMap \<and> (status, MapCommandStatus action status) \<in> set m" by blast
  have "\<forall>(a, m) \<in> set commandStatusMap. \<forall>(x, s) \<in> set m. x = command_string s"
    by (simp add: commandStatusMap_def command_string_def)
  with in_map m(3) show "status = command_string (MapCommandStatus action status)" by fastforce
qed

lemma MapStatus_nonempty: "MapStatus s \<noteq> NoStatus"
  by (auto simp: MapStatus_def statusMap_def split: option.splits if_splits)

end
