(* ===== verification/V16_ChargePoint.thy ===== *)
theory V16_ChargePoint
  imports V16_Messages
begin

text \<open>
  Package \<open>internal/ocpp/v16\<close>, third part (\<open>chargepoint.go\<close>, \<open>probe.go\<close>): the commands of
  \<open>ocpp.ChargePoint\<close> in terms of OCPP 1.6 messages, and the report a station's configuration gives.

  The interface \<open>Caller\<close> is the argument \<open>call\<close>: what sending one CALL with an action and a payload
  gives back, the payload of the CALLRESULT or the error. \<open>jsonErr\<close> is the text of an error of
  \<open>encoding/json\<close>.
\<close>

type_synonym caller = "string \<Rightarrow> json \<Rightarrow> ocpp_error + json"

section \<open>Commands (chargepoint.go)\<close>

definition cp_connectorID :: "Config \<Rightarrow> string \<Rightarrow> ocpp_error + int" where
  "cp_connectorID cfg uid = (case EVSEByUID cfg uid of None \<Rightarrow> Inl (ErrUnknownEVSE uid) | Some e \<Rightarrow> Inr (e_OCPPConnectorID e))"

definition cp_command :: "string \<Rightarrow> caller \<Rightarrow> string \<Rightarrow> json \<Rightarrow> ocpp_error + Result" where
  "cp_command jsonErr call action req =
     (case call action req of
        Inl e \<Rightarrow> Inl e
      | Inr raw \<Rightarrow> (case dec_status_conf raw of
            None \<Rightarrow> Inl (OtherError (action @ '' response: '' @ jsonErr))
          | Some st \<Rightarrow> Inr \<lparr>res_Status = MapCommandStatus action st, res_Raw = st\<rparr>))"

definition reserve_now_req :: "int \<Rightarrow> ReserveRequest \<Rightarrow> ReserveNowReq" where
  "reserve_now_req c r = \<lparr>rn_ConnectorID = c, rn_ExpiryDate = format_rfc3339 (UTC (rq_ExpiresAt r)), rn_IDTag = rq_IDTag r,
     rn_ParentIDTag = [], rn_ReservationID = rq_ReservationID r\<rparr>"

definition cp_ReserveNow :: "string \<Rightarrow> caller \<Rightarrow> Config \<Rightarrow> ReserveRequest \<Rightarrow> ocpp_error + Result" where
  "cp_ReserveNow jsonErr call cfg r =
     (case cp_connectorID cfg (rq_EVSEUID r) of
        Inl e \<Rightarrow> Inl e
      | Inr c \<Rightarrow> cp_command jsonErr call ActionReserveNow (enc_ReserveNowReq (reserve_now_req c r)))"

definition cp_CancelReservation :: "string \<Rightarrow> caller \<Rightarrow> int \<Rightarrow> ocpp_error + Result" where
  "cp_CancelReservation jsonErr call i = cp_command jsonErr call ActionCancelReservation (enc_CancelReservationReq i)"

definition cp_RemoteStart :: "string \<Rightarrow> caller \<Rightarrow> Config \<Rightarrow> RemoteStartRequest \<Rightarrow> ocpp_error + Result" where
  "cp_RemoteStart jsonErr call cfg r =
     (case cp_connectorID cfg (rs_EVSEUID r) of
        Inl e \<Rightarrow> Inl e
      | Inr c \<Rightarrow> cp_command jsonErr call ActionRemoteStartTransaction
          (enc_RemoteStartTransactionReq \<lparr>rt_ConnectorID = Some c, rt_IDTag = rs_IDTag r\<rparr>))"

definition cp_RemoteStop :: "string \<Rightarrow> caller \<Rightarrow> string \<Rightarrow> ocpp_error + Result" where
  "cp_RemoteStop jsonErr call txID =
     (case Atoi txID of
        None \<Rightarrow> Inl (OtherError (''ocpp 1.6: transaction id '' @ quote txID @ '' is not an integer''))
      | Some i \<Rightarrow> cp_command jsonErr call ActionRemoteStopTransaction (enc_RemoteStopTransactionReq i))"

definition cp_UnlockConnector :: "string \<Rightarrow> caller \<Rightarrow> Config \<Rightarrow> string \<Rightarrow> ocpp_error + Result" where
  "cp_UnlockConnector jsonErr call cfg uid =
     (case cp_connectorID cfg uid of
        Inl e \<Rightarrow> Inl e
      | Inr c \<Rightarrow> cp_command jsonErr call ActionUnlockConnector (enc_UnlockConnectorReq c))"

definition cp_TriggerStatus :: "string \<Rightarrow> caller \<Rightarrow> Config \<Rightarrow> string \<Rightarrow> ocpp_error + Result" where
  "cp_TriggerStatus jsonErr call cfg uid =
     (case cp_connectorID cfg uid of
        Inl e \<Rightarrow> Inl e
      | Inr c \<Rightarrow> cp_command jsonErr call ActionTriggerMessage
          (enc_TriggerMessageReq \<lparr>tr_RequestedMessage = ActionStatusNotification, tr_ConnectorID = Some c\<rparr>))"

definition GetConfiguration :: "string \<Rightarrow> caller \<Rightarrow> string list \<Rightarrow> ocpp_error + GetConfigurationConf" where
  "GetConfiguration jsonErr call keys =
     (case call ActionGetConfiguration (enc_GetConfigurationReq keys) of
        Inl e \<Rightarrow> Inl e
      | Inr raw \<Rightarrow> (case dec_GetConfigurationConf raw of
            None \<Rightarrow> Inl (OtherError (ActionGetConfiguration @ '' response: '' @ jsonErr))
          | Some conf \<Rightarrow> Inr conf))"

section \<open>Feature profiles (probe.go)\<close>

definition profileCore :: string where "profileCore = ''Core''"
definition profileReservation :: string where "profileReservation = ''Reservation''"
definition profileRemoteTrigger :: string where "profileRemoteTrigger = ''RemoteTrigger''"

definition neededProfiles :: "(string \<times> Capability list) list" where
  "neededProfiles = [(profileCore, [CapRemoteStartStop, CapUnlock]), (profileReservation, [CapReservation]),
     (profileRemoteTrigger, [CapTriggerStatus])]"

definition KeySupportedFeatureProfiles :: string where "KeySupportedFeatureProfiles = ''SupportedFeatureProfiles''"
definition KeyNumberOfConnectors :: string where "KeyNumberOfConnectors = ''NumberOfConnectors''"
definition KeyHeartbeatInterval :: string where "KeyHeartbeatInterval = ''HeartbeatInterval''"

abbreviation KeyReserveConnectorZeroSupported :: string where "KeyReserveConnectorZeroSupported \<equiv> ''ReserveConnectorZeroSupported''"
abbreviation KeyAuthorizeRemoteTxRequests :: string where "KeyAuthorizeRemoteTxRequests \<equiv> ''AuthorizeRemoteTxRequests''"
abbreviation KeyLocalAuthListEnabled :: string where "KeyLocalAuthListEnabled \<equiv> ''LocalAuthListEnabled''"
abbreviation KeyLocalPreAuthorize :: string where "KeyLocalPreAuthorize \<equiv> ''LocalPreAuthorize''"
abbreviation KeyLocalAuthorizeOffline :: string where "KeyLocalAuthorizeOffline \<equiv> ''LocalAuthorizeOffline''"
abbreviation KeyConnectionTimeOut :: string where "KeyConnectionTimeOut \<equiv> ''ConnectionTimeOut''"
abbreviation KeyMeterValueSampleInterval :: string where "KeyMeterValueSampleInterval \<equiv> ''MeterValueSampleInterval''"

definition probedSettings :: "(string \<times> string) list" where
  "probedSettings =
     [(KeyReserveConnectorZeroSupported,
        ''whether the whole station can be reserved at once; cpms always reserves one EVSE, so this is informational''),
      (KeyAuthorizeRemoteTxRequests,
        ''if true, the station asks cpms to Authorize the tag of a remote start; cpms accepts only auth.default_id_tag''),
      (KeyLocalAuthListEnabled, ''if true, a whitelist held on the station can let tags charge without asking cpms''),
      (KeyLocalPreAuthorize, ''if true, the station starts at once for tags it knows locally, before cpms answers''),
      (KeyLocalAuthorizeOffline, ''if true, the station lets tags it knows locally charge while cpms is unreachable''),
      (KeyNumberOfConnectors, ''how many connectors the station has; checked against the EVSEs in config''),
      (KeyHeartbeatInterval, ''seconds between heartbeats; cpms sets it at boot from charger.heartbeat_interval''),
      (KeyConnectionTimeOut, ''seconds the station waits for a cable after a remote start or a presented tag''),
      (KeyMeterValueSampleInterval, ''seconds between meter values during a session; 0 means none are sent'')]"

definition parseProfiles :: "string \<Rightarrow> string list" where
  "parseProfiles value = filter (\<lambda>p. p \<noteq> []) (map TrimSpace (split_on CHR '','' value))"

definition needed_feature :: "string list \<Rightarrow> string \<times> Capability list \<Rightarrow> Feature" where
  "needed_feature advertised n =
     (let reported = advertised \<noteq> []; assumed = (\<not> reported \<and> fst n = profileCore)
      in \<lparr>ft_Name = fst n,
          ft_Support = (if reported then (if fst n \<in> set advertised then SupportYes else SupportNo)
                        else if assumed then SupportYes else SupportUnknown),
          ft_Grants = snd n, ft_Assumed = assumed\<rparr>)"

definition features :: "string \<Rightarrow> Feature list" where
  "features value =
     (let advertised = parseProfiles value
      in map (needed_feature advertised) neededProfiles
         @ map (\<lambda>p. \<lparr>ft_Name = p, ft_Support = SupportYes, ft_Grants = [], ft_Assumed = False\<rparr>)
             (filter (\<lambda>p. p \<notin> set (map fst neededProfiles)) advertised))"

definition intValue :: "(string \<times> string) list \<Rightarrow> string \<Rightarrow> int option" where
  "intValue values key =
     (case map_of values key of
        None \<Rightarrow> None
      | Some v \<Rightarrow> (case Atoi (TrimSpace v) of None \<Rightarrow> None | Some n \<Rightarrow> if n < 0 then None else Some n))"

definition key_values :: "ConfigurationKey list \<Rightarrow> (string \<times> string) list" where
  "key_values ks = fold (\<lambda>k m. m_put (ck_Key k) (ck_Value k) m) ks []"

definition cp_Probe :: "string \<Rightarrow> caller \<Rightarrow> Version \<Rightarrow> ocpp_error + ProbeReport" where
  "cp_Probe jsonErr call version =
     (case GetConfiguration jsonErr call [] of
        Inl e \<Rightarrow> Inl e
      | Inr conf \<Rightarrow>
          let values = key_values (gc_ConfigurationKey conf)
          in Inr \<lparr>pb_Version = version,
                  pb_Features = features (m_get [] values KeySupportedFeatureProfiles),
                  pb_Settings = map (\<lambda>(k, meaning). \<lparr>set_Name = k, set_Value = m_get [] values k,
                                        set_Reported = (map_of values k \<noteq> None), set_Meaning = meaning\<rparr>) probedSettings,
                  pb_Connectors = intValue values KeyNumberOfConnectors,
                  pb_HeartbeatInterval = map_option (\<lambda>n. wrap64 (n * Second)) (intValue values KeyHeartbeatInterval),
                  pb_Raw = map (\<lambda>k. \<lparr>raw_Key = ck_Key k, raw_Value = ck_Value k, raw_Readonly = ck_Readonly k\<rparr>)
                             (gc_ConfigurationKey conf)\<rparr>)"

definition report_of_features :: "Feature list \<Rightarrow> ProbeReport" where
  "report_of_features fs = \<lparr>pb_Version = [], pb_Features = fs, pb_Settings = [], pb_Connectors = None,
     pb_HeartbeatInterval = None, pb_Raw = []\<rparr>"

definition cp_Capabilities :: "string \<Rightarrow> caller \<Rightarrow> ocpp_error + Capabilities" where
  "cp_Capabilities jsonErr call =
     (case GetConfiguration jsonErr call [KeySupportedFeatureProfiles] of
        Inl e \<Rightarrow> Inl e
      | Inr conf \<Rightarrow>
          let value = fold (\<lambda>k v. if ck_Key k = KeySupportedFeatureProfiles then ck_Value k else v)
                        (gc_ConfigurationKey conf) [];
              report = report_of_features (features value)
          in Inr \<lparr>cap_Reservation = report_Support report CapReservation,
                  cap_RemoteTrigger = report_Support report CapTriggerStatus\<rparr>)"

section \<open>What a station's profiles mean\<close>

definition profile_of :: "Capability \<Rightarrow> string" where
  "profile_of c = (case c of CapRemoteStartStop \<Rightarrow> profileCore | CapUnlock \<Rightarrow> profileCore
     | CapReservation \<Rightarrow> profileReservation | CapTriggerStatus \<Rightarrow> profileRemoteTrigger)"

lemma features_grants:
  "f \<in> set (features value) \<Longrightarrow> c \<in> set (ft_Grants f) \<Longrightarrow> f = needed_feature (parseProfiles value) (profile_of c, ft_Grants f)"
  by (auto simp: features_def neededProfiles_def needed_feature_def Let_def profile_of_def)

lemma needed_in_features:
  "\<exists>gs. c \<in> set gs \<and> needed_feature (parseProfiles value) (profile_of c, gs) \<in> set (features value)"
proof -
  have "\<exists>n \<in> set neededProfiles. c \<in> set (snd n) \<and> profile_of c = fst n"
    by (cases c) (simp_all add: neededProfiles_def profile_of_def)
  then show ?thesis by (fastforce simp: features_def Let_def)
qed

lemma support_of_features:
  assumes "pb_Features r = features value"
  shows "report_Support r c =
    (if parseProfiles value = [] then (if profile_of c = profileCore then SupportYes else SupportUnknown)
     else if profile_of c \<in> set (parseProfiles value) then SupportYes else SupportNo)" (is "_ = ?s")
proof -
  let ?g = "filter (\<lambda>f. c \<in> set (ft_Grants f)) (features value)"
  have all: "ft_Support f = ?s" if "f \<in> set ?g" for f
  proof -
    have "f = needed_feature (parseProfiles value) (profile_of c, ft_Grants f)"
      using that by (intro features_grants) auto
    from arg_cong [OF this, of ft_Support] show ?thesis by (auto simp: needed_feature_def Let_def)
  qed
  obtain gs where "c \<in> set gs" "needed_feature (parseProfiles value) (profile_of c, gs) \<in> set (features value)"
    using needed_in_features by blast
  then have "needed_feature (parseProfiles value) (profile_of c, gs) \<in> set ?g"
    by (simp add: needed_feature_def Let_def)
  then have ne: "?g \<noteq> []" by (metis empty_iff list.set(1))
  have "ft_Support ` set ?g = (\<lambda>_. ?s) ` set ?g" by (rule image_cong [OF refl all])
  then have "ft_Support ` set ?g = {?s}" using ne by (simp only: image_constant_conv set_empty if_False)
  then show ?thesis using ne unfolding report_Support_spec assms Let_def by (auto split: if_splits)
qed

lemma command_answer:
  assumes "cp_command je call action req = Inr r"
  shows "\<exists>raw. call action req = Inr raw \<and> dec_status_conf raw = Some (res_Raw r) \<and> res_Status r = MapCommandStatus action (res_Raw r)"
  using assms by (auto simp: cp_command_def split: sum.splits option.splits)

end
