(* ===== verification/Ocppj_Conn.thy ===== *)
theory Ocppj_Conn
  imports Ocpp
begin

text \<open>
  Package \<open>internal/ocpp/ocppj/conn.go\<close>: one OCPP-J connection, from either end. Its state is the
  table of calls that wait for an answer (each with a channel that holds at most one), the queue of
  inbound calls for the handler and the queue of outbound frames for the writer.

  A step of \<open>conn_step\<close> is one atomic action of one goroutine: a caller registers a call, queues its
  frame or returns; the reader takes one message off the socket; the handler takes one call off its
  queue; the writer sends one frame; the connection closes. A send on a full channel waits, so the
  step is not enabled.
\<close>

section \<open>State and operations\<close>

type_synonym callResult = "RPCError + json option"

definition sendBuffer :: nat where "sendBuffer = 32"
definition callBuffer :: nat where "callBuffer = 64"

record Conn =
  co_pending :: "(string \<times> callResult list) list"
  co_nextID :: int
  co_calls :: "Frame list"
  co_send :: "message list"
  co_done :: bool

definition conn_New :: Conn where
  "conn_New = \<lparr>co_pending = [], co_nextID = 0, co_calls = [], co_send = [], co_done = False\<rparr>"

text \<open>The first part of \<open>Call\<close>: the id, the frame, and the entry in the table.\<close>

definition call_register :: "string \<Rightarrow> json option \<Rightarrow> Conn \<Rightarrow> Conn \<times> string \<times> message" where
  "call_register action payload c =
     (let n = uwrap64 (co_nextID c + 1); i = Itoa n
      in (c\<lparr>co_nextID := n, co_pending := m_put i [] (co_pending c)\<rparr>, i, EncodeCall i action payload))"

definition forget :: "string \<Rightarrow> Conn \<Rightarrow> Conn" where
  "forget i c = c\<lparr>co_pending := m_del i (co_pending c)\<rparr>"

definition PendingCount :: "Conn \<Rightarrow> nat" where
  "PendingCount c = length (co_pending c)"

definition conn_Close :: "Conn \<Rightarrow> Conn" where
  "conn_Close c = c\<lparr>co_done := True\<rparr>"

definition deliver :: "string \<Rightarrow> callResult \<Rightarrow> Conn \<Rightarrow> Conn" where
  "deliver i res c =
     (case map_of (co_pending c) i of
        None \<Rightarrow> c
      | Some ch \<Rightarrow> if ch = [] then c\<lparr>co_pending := m_put i [res] (co_pending c)\<rparr> else c)"

definition enqueue :: "message \<Rightarrow> Conn \<Rightarrow> Conn" where
  "enqueue d c = (if co_done c then c else c\<lparr>co_send := co_send c @ [d]\<rparr>)"

definition sendCallError :: "string \<Rightarrow> RPCError \<Rightarrow> Conn \<Rightarrow> Conn" where
  "sendCallError i e c = enqueue (EncodeCallError i e) c"

text \<open>One round of \<open>readLoop\<close>.\<close>

definition read_message :: "string \<Rightarrow> message \<Rightarrow> Conn \<Rightarrow> Conn" where
  "read_message je d c =
     (case ParseFrame je d of
        Inl (i, e) \<Rightarrow> sendCallError i e c
      | Inr f \<Rightarrow>
          if fr_Type f = MessageTypeCall then (if co_done c then c else c\<lparr>co_calls := co_calls c @ [f]\<rparr>)
          else if fr_Type f = MessageTypeCallResult then deliver (fr_ID f) (Inr (fr_Payload f)) c
          else if fr_Type f = MessageTypeCallError
          then deliver (fr_ID f) (Inl \<lparr>re_Code = fr_ErrorCode f, re_Description = fr_ErrorDescription f, re_Details = None\<rparr>) c
          else c)"

text \<open>
  One round of \<open>handleLoop\<close> on a call: the handler's answer, or an internal error when it panics
  (the first argument), as one frame with the id of the call.
\<close>

definition dispatch :: "bool \<Rightarrow> (string \<Rightarrow> json option \<Rightarrow> 's \<Rightarrow> 's \<times> (RPCError + 'r)) \<Rightarrow> Frame \<Rightarrow> 's \<Rightarrow> 's \<times> (RPCError + 'r)" where
  "dispatch panics handle f s =
     (case handle (fr_Action f) (fr_Payload f) s of
        (s', r) \<Rightarrow> (s', if panics then Inl (Errorf ErrInternalError ''handler failed'') else r))"

definition answer_frame :: "('r \<Rightarrow> json) \<Rightarrow> string \<Rightarrow> RPCError + 'r \<Rightarrow> message" where
  "answer_frame encode i r = (case r of Inl e \<Rightarrow> EncodeCallError i e | Inr v \<Rightarrow> EncodeCallResult i (Some (encode v)))"

definition handle_call :: "bool \<Rightarrow> (string \<Rightarrow> json option \<Rightarrow> 's \<Rightarrow> 's \<times> (RPCError + 'r)) \<Rightarrow> ('r \<Rightarrow> json) \<Rightarrow> Frame \<Rightarrow> 's \<Rightarrow> 's \<times> message" where
  "handle_call panics handle encode f s = (case dispatch panics handle f s of (s', r) \<Rightarrow> (s', answer_frame encode (fr_ID f) r))"

section \<open>The interface ocpp.Handler\<close>

text \<open>
  What the connection relies on: an action the handler does not know is answered NotImplemented, and
  an error answer means that nothing happened.
\<close>

locale rpc_handler =
  fixes handle :: "string \<Rightarrow> json option \<Rightarrow> 's \<Rightarrow> 's \<times> (RPCError + 'r)"
    and known :: "string \<Rightarrow> bool"
  assumes error_frame: "handle action payload s = (s', Inl e) \<Longrightarrow> s' = s"
    and not_implemented: "\<not> known action \<Longrightarrow> \<exists>d. handle action payload s = (s, Inl (Errorf ErrNotImplemented d))"
begin

text \<open>The peer gets exactly one frame per call, under the id of the call, and it parses.\<close>

lemma answered:
  assumes "fr_ID f \<noteq> []" and "handle_call False handle encode f s = (s', m)"
  shows "\<exists>g. ParseFrame je m = Inr g \<and> fr_ID g = fr_ID f
    \<and> (fr_Type g = MessageTypeCallError \<longrightarrow> s' = s)
    \<and> (fr_Type g \<noteq> MessageTypeCallError \<longrightarrow> fr_Type g = MessageTypeCallResult)"
proof -
  obtain r where h: "handle (fr_Action f) (fr_Payload f) s = (s', r)" and m: "m = answer_frame encode (fr_ID f) r"
    using assms(2) by (auto simp: handle_call_def dispatch_def split: prod.splits)
  show ?thesis
  proof (cases r)
    case (Inl e)
    then have "s' = s" using error_frame h by blast
    then show ?thesis using Inl m assms(1) by (simp add: answer_frame_def ParseFrame_EncodeCallError new_Frame_def)
  next
    case (Inr v)
    then show ?thesis using m assms(1)
      by (simp add: answer_frame_def ParseFrame_EncodeCallResult new_Frame_def message_types)
  qed
qed

lemma unknown_action_answer:
  assumes "\<not> known (fr_Action f)"
  shows "\<exists>d. handle_call False handle encode f s = (s, EncodeCallError (fr_ID f) (Errorf ErrNotImplemented d))"
  using not_implemented [OF assms, of "fr_Payload f" s]
  by (auto simp: handle_call_def dispatch_def answer_frame_def)

end

section \<open>Calls and answers\<close>

text \<open>
  \<open>cc_inflight\<close> holds the ids of the calls between registration and return; \<open>cc_received\<close> the answers
  the peer has sent, by id; \<open>cc_returned\<close> what each call has returned (an error of \<open>Call\<close>, or the
  answer).
\<close>

record conn_world =
  cc_conn :: Conn
  cc_inflight :: "string list"
  cc_received :: "(string \<times> callResult) list"
  cc_returned :: "(string \<times> (ocpp_error + callResult)) list"

definition answers :: "string \<Rightarrow> message \<Rightarrow> (string \<times> callResult) list" where
  "answers je d =
     (case ParseFrame je d of
        Inl _ \<Rightarrow> []
      | Inr f \<Rightarrow>
          if fr_Type f = MessageTypeCallResult then [(fr_ID f, Inr (fr_Payload f))]
          else if fr_Type f = MessageTypeCallError
          then [(fr_ID f, Inl \<lparr>re_Code = fr_ErrorCode f, re_Description = fr_ErrorDescription f, re_Details = None\<rparr>)]
          else [])"

text \<open>The ways \<open>Call\<close> returns without an answer; a closed connection reports not connected.\<close>

definition call_fails :: "Conn \<Rightarrow> ocpp_error \<Rightarrow> bool" where
  "call_fails c e \<longleftrightarrow> e = ErrTimeout \<or> e = ContextCanceled \<or> (e = ErrNotConnected \<and> co_done c)"

inductive conn_step :: "conn_world \<Rightarrow> conn_world \<Rightarrow> bool" where
  register: "co_nextID (cc_conn W) + 1 < 2 ^ 63 \<Longrightarrow> call_register action payload (cc_conn W) = (c', i, d)
    \<Longrightarrow> conn_step W (W\<lparr>cc_conn := c', cc_inflight := i # cc_inflight W\<rparr>)"
| queue: "length (co_send (cc_conn W)) < sendBuffer \<Longrightarrow> conn_step W (W\<lparr>cc_conn := enqueue d (cc_conn W)\<rparr>)"
| return_answer: "i \<in> set (cc_inflight W) \<Longrightarrow> map_of (co_pending (cc_conn W)) i = Some (res # rest)
    \<Longrightarrow> conn_step W (W\<lparr>cc_conn := forget i (cc_conn W), cc_inflight := removeAll i (cc_inflight W),
                       cc_returned := (i, Inr res) # cc_returned W\<rparr>)"
| return_error: "i \<in> set (cc_inflight W) \<Longrightarrow> call_fails (cc_conn W) e
    \<Longrightarrow> conn_step W (W\<lparr>cc_conn := forget i (cc_conn W), cc_inflight := removeAll i (cc_inflight W),
                       cc_returned := (i, Inl e) # cc_returned W\<rparr>)"
| receive: "length (co_calls (cc_conn W)) < callBuffer \<Longrightarrow> length (co_send (cc_conn W)) < sendBuffer
    \<Longrightarrow> conn_step W (W\<lparr>cc_conn := read_message je d (cc_conn W), cc_received := answers je d @ cc_received W\<rparr>)"
| handle: "co_calls (cc_conn W) = f # fs \<Longrightarrow> length (co_send (cc_conn W)) < sendBuffer
    \<Longrightarrow> conn_step W (W\<lparr>cc_conn := enqueue d ((cc_conn W)\<lparr>co_calls := fs\<rparr>)\<rparr>)"
| transmit: "co_send (cc_conn W) = d # ds \<Longrightarrow> conn_step W (W\<lparr>cc_conn := (cc_conn W)\<lparr>co_send := ds\<rparr>\<rparr>)"
| close: "conn_step W (W\<lparr>cc_conn := conn_Close (cc_conn W)\<rparr>)"

definition conn_initial :: "conn_world \<Rightarrow> bool" where
  "conn_initial W \<longleftrightarrow> W = \<lparr>cc_conn = conn_New, cc_inflight = [], cc_received = [], cc_returned = []\<rparr>"

definition conn_inv :: "conn_world \<Rightarrow> bool" where
  [inv_defs]: "conn_inv W \<longleftrightarrow>
     0 \<le> co_nextID (cc_conn W) \<and> co_nextID (cc_conn W) < 2 ^ 63
     \<and> distinct (m_keys (co_pending (cc_conn W))) \<and> distinct (cc_inflight W)
     \<and> set (m_keys (co_pending (cc_conn W))) = set (cc_inflight W)
     \<and> (\<forall>i \<in> set (cc_inflight W) \<union> fst ` set (cc_returned W). \<exists>n. 1 \<le> n \<and> n \<le> co_nextID (cc_conn W) \<and> i = Itoa n)
     \<and> distinct (map fst (cc_returned W)) \<and> set (cc_inflight W) \<inter> fst ` set (cc_returned W) = {}
     \<and> (\<forall>i ch. map_of (co_pending (cc_conn W)) i = Some ch \<longrightarrow> length ch \<le> 1 \<and> (\<forall>res \<in> set ch. (i, res) \<in> set (cc_received W)))
     \<and> (\<forall>i res. (i, Inr res) \<in> set (cc_returned W) \<longrightarrow> (i, res) \<in> set (cc_received W))
     \<and> length (co_calls (cc_conn W)) \<le> callBuffer \<and> length (co_send (cc_conn W)) \<le> sendBuffer"

declare map_of_eq_Some_iff [simp del] Some_eq_map_of_iff [simp del]

lemma conn_inv_initial: "conn_initial W \<Longrightarrow> conn_inv W"
  by (simp add: conn_initial_def conn_inv_def conn_New_def)

lemma register_fresh:
  assumes "conn_inv W" and "co_nextID (cc_conn W) + 1 < 2 ^ 63"
  shows "Itoa (co_nextID (cc_conn W) + 1) \<notin> set (cc_inflight W) \<union> fst ` set (cc_returned W)"
proof
  assume "Itoa (co_nextID (cc_conn W) + 1) \<in> set (cc_inflight W) \<union> fst ` set (cc_returned W)"
  then obtain n where n: "1 \<le> n" "n \<le> co_nextID (cc_conn W)" "Itoa (co_nextID (cc_conn W) + 1) = Itoa n"
    using assms(1) unfolding conn_inv_def by blast
  have "int64_range (co_nextID (cc_conn W) + 1)" "int64_range n"
    using assms n(1,2) by (auto simp: conn_inv_def int64_range_def)
  then have "co_nextID (cc_conn W) + 1 = n" using Itoa_inj n(3) by blast
  with n(2) show False by simp
qed

lemma ids_extend:
  "\<forall>i \<in> A. \<exists>n. 1 \<le> n \<and> n \<le> k \<and> i = Itoa n \<Longrightarrow> 0 \<le> k \<Longrightarrow>
   \<forall>i \<in> insert (Itoa (k + 1)) A. \<exists>n. 1 \<le> n \<and> n \<le> k + 1 \<and> i = Itoa n"
  by (force intro: exI [of _ "k + 1"])

lemma conn_register:
  assumes inv: "conn_inv W" and "co_nextID (cc_conn W) + 1 < 2 ^ 63"
    and "call_register action payload (cc_conn W) = (c', i, d)"
  shows "conn_inv (W\<lparr>cc_conn := c', cc_inflight := i # cc_inflight W\<rparr>)"
proof -
  let ?k = "co_nextID (cc_conn W)"
  have k: "0 \<le> ?k" "uwrap64 (?k + 1) = ?k + 1" using assms by (simp_all add: conn_inv_def uwrap64_inc)
  then have c': "c' = (cc_conn W)\<lparr>co_nextID := ?k + 1, co_pending := m_put i [] (co_pending (cc_conn W))\<rparr>"
    and i: "i = Itoa (?k + 1)"
    using assms(3) by (auto simp: call_register_def Let_def)
  have fresh: "i \<notin> set (cc_inflight W) \<union> fst ` set (cc_returned W)" using register_fresh [OF assms(1,2)] i by simp
  have "\<forall>x \<in> set (cc_inflight W) \<union> fst ` set (cc_returned W). \<exists>n. 1 \<le> n \<and> n \<le> ?k \<and> x = Itoa n"
    using inv unfolding conn_inv_def by blast
  from ids_extend [OF this k(1)]
  have "\<forall>x \<in> insert i (set (cc_inflight W) \<union> fst ` set (cc_returned W)). \<exists>n. 1 \<le> n \<and> n \<le> ?k + 1 \<and> x = Itoa n"
    by (simp add: i)
  moreover have "set (m_keys (m_put i [] (co_pending (cc_conn W)))) = insert i (set (cc_inflight W))"
    using inv unfolding keys_put conn_inv_def by blast
  ultimately show ?thesis using inv fresh assms(2) unfolding conn_inv_def c' by (simp del: set_map)
qed

lemma ball_subset: "A \<subseteq> B \<Longrightarrow> \<forall>x \<in> B. P x \<Longrightarrow> \<forall>x \<in> A. P x"
  by blast

lemma conn_inv_ids:
  "conn_inv W \<Longrightarrow> \<forall>x \<in> set (cc_inflight W) \<union> fst ` set (cc_returned W). \<exists>n. 1 \<le> n \<and> n \<le> co_nextID (cc_conn W) \<and> x = Itoa n"
  unfolding conn_inv_def by (elim conjE)

lemma conn_inv_returned:
  "conn_inv W \<Longrightarrow> \<forall>k res. (k, Inr res) \<in> set (cc_returned W) \<longrightarrow> (k, res) \<in> set (cc_received W)"
  "conn_inv W \<Longrightarrow> set (cc_inflight W) \<inter> fst ` set (cc_returned W) = {}"
  unfolding conn_inv_def by (elim conjE, assumption)+

lemma conn_forget:
  assumes inv: "conn_inv W" and "i \<in> set (cc_inflight W)"
    and "\<And>res. r = Inr res \<Longrightarrow> (i, res) \<in> set (cc_received W)"
  shows "conn_inv (W\<lparr>cc_conn := forget i (cc_conn W), cc_inflight := removeAll i (cc_inflight W),
    cc_returned := (i, r) # cc_returned W\<rparr>)"
proof -
  have "set (m_keys (m_del i (co_pending (cc_conn W)))) = set (removeAll i (cc_inflight W))"
    using inv unfolding conn_inv_def keys_del by simp
  moreover have new: "i \<notin> fst ` set (cc_returned W)" using conn_inv_returned(2) [OF inv] assms(2) by blast
  moreover have "\<forall>x \<in> set (removeAll i (cc_inflight W)) \<union> insert i (fst ` set (cc_returned W)).
      \<exists>n. 1 \<le> n \<and> n \<le> co_nextID (cc_conn W) \<and> x = Itoa n"
  proof -
    have "set (removeAll i (cc_inflight W)) \<union> insert i (fst ` set (cc_returned W))
        \<subseteq> set (cc_inflight W) \<union> fst ` set (cc_returned W)" using assms(2) by auto
    then show ?thesis using conn_inv_ids [OF inv] by (rule ball_subset)
  qed
  moreover have "i \<notin> set (m_keys (cc_returned W))" using new by simp
  moreover have "\<forall>k res. (k, Inr res) = (i, r) \<or> (k, Inr res) \<in> set (cc_returned W) \<longrightarrow> (k, res) \<in> set (cc_received W)"
    using conn_inv_returned(1) [OF inv] assms(3) by auto
  moreover have "set (removeAll i (cc_inflight W)) \<inter> insert i (fst ` set (cc_returned W)) = {}"
    using conn_inv_returned(2) [OF inv] by auto
  ultimately show ?thesis using inv unfolding conn_inv_def forget_def
    by (simp add: distinct_removeAll del: set_map set_removeAll)
qed

lemma deliver_inv:
  assumes "conn_inv W" and "(i, res) \<in> set rec" and "set (cc_received W) \<subseteq> set rec"
  shows "conn_inv (W\<lparr>cc_conn := deliver i res (cc_conn W), cc_received := rec\<rparr>)"
proof (cases "map_of (co_pending (cc_conn W)) i = Some []")
  case True
  then have "i \<in> set (m_keys (co_pending (cc_conn W)))" by (metis domI dom_map_of_conv_image_fst image_set)
  then have "set (m_keys (m_put i [res] (co_pending (cc_conn W)))) = set (m_keys (co_pending (cc_conn W)))"
    unfolding keys_put by blast
  with True assms show ?thesis unfolding conn_inv_def deliver_def by (simp del: set_map) blast
next
  case False
  then have "deliver i res (cc_conn W) = cc_conn W" by (simp add: deliver_def split: option.splits)
  then show ?thesis using assms unfolding conn_inv_def by simp blast
qed

lemma received_inv: "conn_inv W \<Longrightarrow> conn_inv (W\<lparr>cc_received := cc_received W\<rparr>)"
  by simp

lemma enqueue_inv:
  assumes "conn_inv W" and "length (co_send (cc_conn W)) < sendBuffer"
  shows "conn_inv (W\<lparr>cc_conn := enqueue d (cc_conn W)\<rparr>)"
  using assms by (simp add: conn_inv_def enqueue_def)

lemma receive_inv:
  assumes "conn_inv W" and "length (co_calls (cc_conn W)) < callBuffer" and "length (co_send (cc_conn W)) < sendBuffer"
  shows "conn_inv (W\<lparr>cc_conn := read_message je d (cc_conn W), cc_received := answers je d @ cc_received W\<rparr>)"
proof (cases "ParseFrame je d")
  case (Inl p)
  then show ?thesis using enqueue_inv [OF assms(1,3)]
    by (cases p) (simp add: read_message_def answers_def sendCallError_def)
next
  case (Inr f)
  have t: "fr_Type f \<in> {MessageTypeCall, MessageTypeCallResult, MessageTypeCallError}" using ParseFrame_Inr(2) [OF Inr] .
  have queued: "conn_inv (W\<lparr>cc_conn := (cc_conn W)\<lparr>co_calls := co_calls (cc_conn W) @ [f]\<rparr>\<rparr>)"
    using assms(1,2) by (simp add: conn_inv_def)
  from t Inr show ?thesis
    using queued assms(1) by (auto simp: read_message_def answers_def message_types intro!: deliver_inv)
qed

lemma conn_inv_step:
  assumes "conn_inv W" and "conn_step W W'"
  shows "conn_inv W'"
  using assms(2)
proof cases
  case (register action payload c' i d)
  then show ?thesis using conn_register [OF assms(1)] by simp
next
  case (queue d)
  then show ?thesis using enqueue_inv [OF assms(1)] by simp
next
  case (return_answer i res rest)
  then have "(i, res) \<in> set (cc_received W)" using assms(1) unfolding conn_inv_def by fastforce
  then show ?thesis using return_answer conn_forget [OF assms(1), of i "Inr res"] by simp
next
  case (return_error i e)
  then show ?thesis using conn_forget [OF assms(1), of i "Inl e"] by simp
next
  case (receive je d)
  then show ?thesis using receive_inv [OF assms(1)] by simp
next
  case (handle f fs d)
  then have "conn_inv (W\<lparr>cc_conn := (cc_conn W)\<lparr>co_calls := fs\<rparr>\<rparr>)" using assms(1) by (simp add: conn_inv_def)
  from enqueue_inv [OF this, of d] handle show ?thesis by simp
next
  case (transmit d ds)
  then show ?thesis using assms(1) by (simp add: conn_inv_def)
next
  case close
  then show ?thesis using assms(1) by (simp add: conn_inv_def conn_Close_def)
qed

interpretation connection: transition_system conn_initial conn_step conn_inv
  by unfold_locales (auto intro: conn_inv_initial conn_inv_step)

end
