(* ===== verification/Simulator.thy ===== *)
theory Simulator
  imports V16_ChargePoint Ocppj_Conn
begin

text \<open>
  Package \<open>internal/simulator\<close>: a charge point that behaves like a station. A command changes the
  state under the lock and is answered; what the station reports afterwards (the functions handed
  to \<open>after\<close>) is a list of effects, which run once the answer is out.

  The calls the simulator makes to the CSMS change the CSMS: they go through a \<open>peer\<close>, which passes the state \<open>'w\<close>
  of the other end from call to call and gives the time at each (\<open>opts.Now\<close>). Of the options, those
  that steer the protocol are kept; the dialling of the WebSocket is left to \<open>Simulator_Life\<close>.
\<close>

section \<open>Options and state (simulator.go)\<close>

datatype Scenario = ScenarioNormal | ScenarioRejectReserve | ScenarioOccupied | ScenarioSlow
  | ScenarioUnlockFails | ScenarioSilent | OtherScenario string | NoScenario

definition Scenarios :: "Scenario list" where
  "Scenarios = [ScenarioNormal, ScenarioRejectReserve, ScenarioOccupied, ScenarioSlow, ScenarioUnlockFails, ScenarioSilent]"

definition scenario_Valid :: "Scenario \<Rightarrow> bool" where
  "scenario_Valid s = list_ex (\<lambda>k. s = k) Scenarios"

record SimOptions =
  so_URL :: string
  so_ID :: string
  so_Version :: Version
  so_Connectors :: int
  so_Vendor :: string
  so_Model :: string
  so_Firmware :: string
  so_SerialNumber :: string
  so_IDTag :: string
  so_Scenario :: Scenario
  so_SlowDelay :: duration
  so_UnreportedKeys :: "string list"
  so_FeatureProfiles :: string

definition defaultSlowDelay :: duration where "defaultSlowDelay = 45 * Second"
definition fallbackHeartbeat :: duration where "fallbackHeartbeat = 60 * Second"

definition sim_applyDefaults :: "SimOptions \<Rightarrow> SimOptions" where
  "sim_applyDefaults opt = opt\<lparr>
     so_Version := (if so_Version opt = [] then Version16 else so_Version opt),
     so_Connectors := (if so_Connectors opt \<le> 0 then 1 else so_Connectors opt),
     so_Vendor := (if so_Vendor opt = [] then ''Alpitronic'' else so_Vendor opt),
     so_Model := (if so_Model opt = [] then ''HYC300'' else so_Model opt),
     so_Firmware := (if so_Firmware opt = [] then ''simulator'' else so_Firmware opt),
     so_Scenario := (if so_Scenario opt = NoScenario then ScenarioNormal else so_Scenario opt),
     so_SlowDelay := (if so_SlowDelay opt \<le> 0 then defaultSlowDelay else so_SlowDelay opt)\<rparr>"

datatype sim_error = URLRequired | IDRequired | VersionNotImplemented Version | UnknownScenario
  | CallFailed string ocpp_error | BadResponse string | BootRefused string | NoConnector int | NoTransaction int

definition sim_validate :: "SimOptions \<Rightarrow> sim_error option" where
  "sim_validate opt =
     (if so_URL opt = [] then Some URLRequired
      else if so_ID opt = [] then Some IDRequired
      else if so_Version opt \<noteq> Version16 then Some (VersionNotImplemented (so_Version opt))
      else if \<not> scenario_Valid (so_Scenario opt) then Some UnknownScenario
      else None)"

record sim_connector =
  sc_status :: string
  sc_transactionID :: int
  sc_reservationID :: int
  sc_meter :: int

record Simulator =
  sim_opts :: SimOptions
  sim_station :: string
  sim_connectors :: "(int \<times> sim_connector) list"
  sim_heartbeat :: duration

definition new_connector :: sim_connector where
  "new_connector = \<lparr>sc_status = v16_StatusAvailable, sc_transactionID = 0, sc_reservationID = 0, sc_meter = 0\<rparr>"

definition sim_New :: "SimOptions \<Rightarrow> sim_error + Simulator" where
  "sim_New opt0 =
     (let opt = sim_applyDefaults opt0
      in case sim_validate opt of
           Some e \<Rightarrow> Inl e
         | None \<Rightarrow> Inr \<lparr>sim_opts = opt, sim_station = v16_StatusAvailable,
                        sim_connectors = map (\<lambda>i. (i, new_connector)) [1 .. so_Connectors opt],
                        sim_heartbeat = fallbackHeartbeat\<rparr>)"

definition ConnectorStatus :: "Simulator \<Rightarrow> int \<Rightarrow> string" where
  "ConnectorStatus s i = (case map_of (sim_connectors s) i of Some c \<Rightarrow> sc_status c | None \<Rightarrow> [])"

definition sim_TransactionID :: "Simulator \<Rightarrow> int \<Rightarrow> int" where
  "sim_TransactionID s i = (case map_of (sim_connectors s) i of Some c \<Rightarrow> sc_transactionID c | None \<Rightarrow> 0)"

definition sim_ReservationID :: "Simulator \<Rightarrow> int \<Rightarrow> int" where
  "sim_ReservationID s i = (case map_of (sim_connectors s) i of Some c \<Rightarrow> sc_reservationID c | None \<Rightarrow> 0)"

definition put_connector :: "int \<Rightarrow> sim_connector \<Rightarrow> Simulator \<Rightarrow> Simulator" where
  "put_connector i c s = s\<lparr>sim_connectors := m_put i c (sim_connectors s)\<rparr>"

section \<open>Reports to the CSMS (simulator.go)\<close>

definition enc_StatusNotificationReq :: "StatusNotificationReq \<Rightarrow> json" where
  "enc_StatusNotificationReq r = JObj ([(''connectorId'', JNum (sn_ConnectorID r)), (''errorCode'', JStr (sn_ErrorCode r)),
      (''status'', JStr (sn_Status r))]
     @ (if sn_Info r = [] then [] else [(''info'', JStr (sn_Info r))])
     @ (if sn_Timestamp r = [] then [] else [(''timestamp'', JStr (sn_Timestamp r))])
     @ (if sn_VendorID r = [] then [] else [(''vendorId'', JStr (sn_VendorID r))])
     @ (if sn_VendorErrorCode r = [] then [] else [(''vendorErrorCode'', JStr (sn_VendorErrorCode r))]))"

record 'w peer =
  pe_call :: "string \<Rightarrow> json \<Rightarrow> 'w \<Rightarrow> 'w \<times> (ocpp_error + json)"
  pe_now :: "'w \<Rightarrow> gotime"

definition status_req :: "gotime \<Rightarrow> int \<Rightarrow> string \<Rightarrow> StatusNotificationReq" where
  "status_req now i status = zero_StatusNotificationReq
     \<lparr>sn_ConnectorID := i, sn_ErrorCode := ''NoError'', sn_Status := status, sn_Timestamp := formatTime now\<rparr>"

definition sendStatus :: "'w peer \<Rightarrow> int \<Rightarrow> string \<Rightarrow> 'w \<Rightarrow> 'w \<times> sim_error option" where
  "sendStatus p i status w =
     (case pe_call p ActionStatusNotification (enc_StatusNotificationReq (status_req (pe_now p w) i status)) w of
        (w', Inl e) \<Rightarrow> (w', Some (CallFailed ''StatusNotification'' e))
      | (w', Inr _) \<Rightarrow> (w', None))"

definition sim_SetConnectorStatus :: "'w peer \<Rightarrow> int \<Rightarrow> string \<Rightarrow> Simulator \<Rightarrow> 'w \<Rightarrow> Simulator \<times> 'w \<times> sim_error option" where
  "sim_SetConnectorStatus p i status s w =
     (if i = 0 then (s\<lparr>sim_station := status\<rparr>, sendStatus p 0 status w)
      else case map_of (sim_connectors s) i of
             None \<Rightarrow> (s, w, Some (NoConnector i))
           | Some c \<Rightarrow> (put_connector i (c\<lparr>sc_status := status\<rparr>) s, sendStatus p i status w))"

definition reportInitialStatus :: "'w peer \<Rightarrow> Simulator \<Rightarrow> 'w \<Rightarrow> 'w \<times> sim_error option" where
  "reportInitialStatus p s w =
     fold (\<lambda>i (w, err). case err of Some e \<Rightarrow> (w, Some e) | None \<Rightarrow> sendStatus p i (ConnectorStatus s i) w)
       [1 .. so_Connectors (sim_opts s)] (sendStatus p 0 (sim_station s) w)"

definition enc_BootNotificationReq :: "BootNotificationReq \<Rightarrow> json" where
  "enc_BootNotificationReq r =
     (let opt = (\<lambda>k v. if v = [] then [] else [(k, JStr v)])
      in JObj ([(''chargePointVendor'', JStr (bn_ChargePointVendor r)), (''chargePointModel'', JStr (bn_ChargePointModel r))]
         @ opt ''chargePointSerialNumber'' (bn_ChargePointSerialNumber r)
         @ opt ''chargeBoxSerialNumber'' (bn_ChargeBoxSerialNumber r)
         @ opt ''firmwareVersion'' (bn_FirmwareVersion r) @ opt ''iccid'' (bn_ICCID r) @ opt ''imsi'' (bn_IMSI r)
         @ opt ''meterType'' (bn_MeterType r) @ opt ''meterSerialNumber'' (bn_MeterSerialNumber r)))"

definition dec_BootNotificationConf :: "json \<Rightarrow> (string \<times> string \<times> int) option" where
  "dec_BootNotificationConf = dec_struct ([], [], 0) (\<lambda>kvs. do {
     s \<leftarrow> dec_field dec_string [] ''status'' kvs;
     t \<leftarrow> dec_field dec_string [] ''currentTime'' kvs;
     i \<leftarrow> dec_field dec_int 0 ''interval'' kvs;
     Some (s, t, i)})"

definition boot_req :: "SimOptions \<Rightarrow> BootNotificationReq" where
  "boot_req opt = zero_BootNotificationReq\<lparr>bn_ChargePointVendor := so_Vendor opt, bn_ChargePointModel := so_Model opt,
     bn_ChargePointSerialNumber := so_SerialNumber opt, bn_FirmwareVersion := so_Firmware opt\<rparr>"

definition boot :: "'w peer \<Rightarrow> Simulator \<Rightarrow> 'w \<Rightarrow> Simulator \<times> 'w \<times> sim_error option" where
  "boot p s w =
     (case pe_call p ActionBootNotification (enc_BootNotificationReq (boot_req (sim_opts s))) w of
        (w', Inl e) \<Rightarrow> (s, w', Some (CallFailed ''BootNotification'' e))
      | (w', Inr raw) \<Rightarrow> (case dec_BootNotificationConf raw of
            None \<Rightarrow> (s, w', Some (BadResponse ''BootNotification''))
          | Some (status, time, interval) \<Rightarrow>
              if status \<noteq> ''Accepted'' then (s, w', Some (BootRefused status))
              else (if 0 < interval then s\<lparr>sim_heartbeat := wrap64 (interval * Second)\<rparr> else s, w', None)))"

section \<open>Commands of the CSMS (handlers.go)\<close>

text \<open>What a command leaves to be reported after its answer.\<close>

datatype sim_effect = SendStatus int string | StartSession int string | StopSession int string
  | SendBoot | SendHeartbeat | ChangeStatus int string

datatype sim_conf = StatusConf string | ConfigurationConf GetConfigurationConf

type_synonym sim_reply = "RPCError + sim_conf"

abbreviation decodeCommand :: "string \<Rightarrow> (json \<Rightarrow> 'a option) \<Rightarrow> 'a \<Rightarrow> json option \<Rightarrow> RPCError + 'a" where
  "decodeCommand \<equiv> decode_req"

definition sim_reserveNow :: "string \<Rightarrow> json option \<Rightarrow> Simulator \<Rightarrow> Simulator \<times> sim_reply \<times> sim_effect list" where
  "sim_reserveNow je payload s =
     (case decodeCommand je dec_ReserveNowReq \<lparr>rn_ConnectorID = 0, rn_ExpiryDate = [], rn_IDTag = [], rn_ParentIDTag = [],
             rn_ReservationID = 0\<rparr> payload of
        Inl e \<Rightarrow> (s, Inl e, [])
      | Inr req \<Rightarrow>
          if so_Scenario (sim_opts s) = ScenarioRejectReserve then (s, Inr (StatusConf v16_ReservationRejected), [])
          else if so_Scenario (sim_opts s) = ScenarioOccupied then (s, Inr (StatusConf v16_ReservationOccupied), [])
          else case map_of (sim_connectors s) (rn_ConnectorID req) of
                 None \<Rightarrow> (s, Inr (StatusConf v16_ReservationRejected), [])
               | Some c \<Rightarrow>
                   if sc_transactionID c \<noteq> 0 \<or> sc_status c = v16_StatusCharging \<or> sc_status c = v16_StatusPreparing
                   then (s, Inr (StatusConf v16_ReservationOccupied), [])
                   else if sc_status c = v16_StatusFaulted \<or> sc_status c = v16_StatusUnavailable
                   then (s, Inr (StatusConf (if sc_status c = v16_StatusUnavailable then v16_ReservationUnavailable else v16_ReservationFaulted)), [])
                   else (put_connector (rn_ConnectorID req)
                           (c\<lparr>sc_reservationID := rn_ReservationID req, sc_status := v16_StatusReserved\<rparr>) s,
                         Inr (StatusConf v16_ReservationAccepted), [SendStatus (rn_ConnectorID req) v16_StatusReserved]))"

text \<open>
  The loops over the map stop at the first match. Here the first is the first in the association list; Go visits a map in any
  order, which matters only if two connectors match, that is, share a reservation id or a transaction id.
\<close>

definition sim_cancelReservation :: "string \<Rightarrow> json option \<Rightarrow> Simulator \<Rightarrow> Simulator \<times> sim_reply \<times> sim_effect list" where
  "sim_cancelReservation je payload s =
     (case decodeCommand je dec_CancelReservationReq 0 payload of
        Inl e \<Rightarrow> (s, Inl e, [])
      | Inr i \<Rightarrow>
          (case List.find (\<lambda>(k, c). sc_reservationID c = i) (sim_connectors s) of
             None \<Rightarrow> (s, Inr (StatusConf CmdRejected), [])
           | Some (target, c) \<Rightarrow>
               if target = 0 then (s, Inr (StatusConf CmdRejected), [])
               else (put_connector target (c\<lparr>sc_reservationID := 0, sc_status := v16_StatusAvailable\<rparr>) s,
                     Inr (StatusConf CmdAccepted), [SendStatus target v16_StatusAvailable])))"

definition firstFreeConnector :: "Simulator \<Rightarrow> int option" where
  "firstFreeConnector s =
     List.find (\<lambda>i. case map_of (sim_connectors s) i of Some c \<Rightarrow> sc_transactionID c = 0 | None \<Rightarrow> False)
       [1 .. so_Connectors (sim_opts s)]"

definition sim_remoteStart :: "string \<Rightarrow> json option \<Rightarrow> Simulator \<Rightarrow> Simulator \<times> sim_reply \<times> sim_effect list" where
  "sim_remoteStart je payload s =
     (case decodeCommand je dec_RemoteStartTransactionReq \<lparr>rt_ConnectorID = None, rt_IDTag = []\<rparr> payload of
        Inl e \<Rightarrow> (s, Inl e, [])
      | Inr req \<Rightarrow>
          let i = (case rt_ConnectorID req of Some i \<Rightarrow> i
                   | None \<Rightarrow> (case firstFreeConnector s of Some i \<Rightarrow> i | None \<Rightarrow> 1))
          in case map_of (sim_connectors s) i of
               None \<Rightarrow> (s, Inr (StatusConf CmdRejected), [])
             | Some c \<Rightarrow>
                 if sc_transactionID c \<noteq> 0 then (s, Inr (StatusConf CmdRejected), [])
                 else (s, Inr (StatusConf CmdAccepted), [StartSession i (rt_IDTag req)]))"

definition sim_remoteStop :: "string \<Rightarrow> json option \<Rightarrow> Simulator \<Rightarrow> Simulator \<times> sim_reply \<times> sim_effect list" where
  "sim_remoteStop je payload s =
     (case decodeCommand je dec_RemoteStopTransactionReq 0 payload of
        Inl e \<Rightarrow> (s, Inl e, [])
      | Inr i \<Rightarrow>
          (case List.find (\<lambda>(k, c). sc_transactionID c = i \<and> sc_transactionID c \<noteq> 0) (sim_connectors s) of
             None \<Rightarrow> (s, Inr (StatusConf CmdRejected), [])
           | Some (target, c) \<Rightarrow>
               if target = 0 then (s, Inr (StatusConf CmdRejected), [])
               else (s, Inr (StatusConf CmdAccepted), [StopSession target ''Remote''])))"

definition sim_unlockConnector :: "string \<Rightarrow> json option \<Rightarrow> Simulator \<Rightarrow> Simulator \<times> sim_reply \<times> sim_effect list" where
  "sim_unlockConnector je payload s =
     (case decodeCommand je dec_UnlockConnectorReq 0 payload of
        Inl e \<Rightarrow> (s, Inl e, [])
      | Inr i \<Rightarrow>
          if so_Scenario (sim_opts s) = ScenarioUnlockFails \<or> map_of (sim_connectors s) i = None
          then (s, Inr (StatusConf UnlockFailed), [])
          else (s, Inr (StatusConf UnlockUnlocked), []))"

definition sim_triggerMessage :: "string \<Rightarrow> json option \<Rightarrow> Simulator \<Rightarrow> Simulator \<times> sim_reply \<times> sim_effect list" where
  "sim_triggerMessage je payload s =
     (case decodeCommand je dec_TriggerMessageReq \<lparr>tr_RequestedMessage = [], tr_ConnectorID = None\<rparr> payload of
        Inl e \<Rightarrow> (s, Inl e, [])
      | Inr req \<Rightarrow>
          let i = (case tr_ConnectorID req of Some i \<Rightarrow> i | None \<Rightarrow> 0)
          in if tr_RequestedMessage req = ActionBootNotification then (s, Inr (StatusConf TriggerAccepted), [SendBoot])
             else if tr_RequestedMessage req = ActionHeartbeat then (s, Inr (StatusConf TriggerAccepted), [SendHeartbeat])
             else if tr_RequestedMessage req = ActionStatusNotification
             then (s, Inr (StatusConf TriggerAccepted), [SendStatus i (if 0 < i then ConnectorStatus s i else sim_station s)])
             else (s, Inr (StatusConf TriggerNotImplemented), []))"

definition sim_seconds :: "duration \<Rightarrow> int" where
  "sim_seconds d = sgn d * (\<bar>d\<bar> div Second)"

definition sim_profiles :: "SimOptions \<Rightarrow> string" where
  "sim_profiles opt =
     (if so_FeatureProfiles opt \<noteq> [] then so_FeatureProfiles opt
      else if so_Scenario opt = ScenarioRejectReserve then ''Core,FirmwareManagement,RemoteTrigger''
      else ''Core,FirmwareManagement,RemoteTrigger,Reservation'')"

definition sim_keys :: "Simulator \<Rightarrow> ConfigurationKey list" where
  "sim_keys s =
     (let opt = sim_opts s; key = (\<lambda>k ro v. \<lparr>ck_Key = k, ck_Readonly = ro, ck_Value = v\<rparr>)
      in filter (\<lambda>k. ck_Key k \<notin> set (so_UnreportedKeys opt))
           [key KeySupportedFeatureProfiles True (sim_profiles opt),
            key KeyNumberOfConnectors True (Itoa (so_Connectors opt)),
            key KeyHeartbeatInterval False (Itoa (sim_seconds (sim_heartbeat s))),
            key KeyConnectionTimeOut False ''60'',
            key KeyMeterValueSampleInterval False ''0'',
            key KeyAuthorizeRemoteTxRequests False ''false'',
            key KeyLocalAuthListEnabled False ''false'',
            key KeyLocalPreAuthorize False ''false'',
            key KeyLocalAuthorizeOffline False ''false'',
            key KeyReserveConnectorZeroSupported True ''false''])"

definition sim_getConfiguration :: "string \<Rightarrow> json option \<Rightarrow> Simulator \<Rightarrow> Simulator \<times> sim_reply \<times> sim_effect list" where
  "sim_getConfiguration je payload s =
     (case decodeCommand je dec_GetConfigurationReq [] payload of
        Inl e \<Rightarrow> (s, Inl e, [])
      | Inr wanted_keys \<Rightarrow>
          let find_key = (\<lambda>w. List.find (\<lambda>k. ck_Key k = w) (sim_keys s))
          in (s, Inr (ConfigurationConf
               (if wanted_keys = [] then \<lparr>gc_ConfigurationKey = sim_keys s, gc_UnknownKey = []\<rparr>
                else \<lparr>gc_ConfigurationKey = List.map_filter find_key wanted_keys,
                      gc_UnknownKey = filter (\<lambda>w. find_key w = None) wanted_keys\<rparr>)), []))"

definition sim_changeAvailability :: "string \<Rightarrow> json option \<Rightarrow> Simulator \<Rightarrow> Simulator \<times> sim_reply \<times> sim_effect list" where
  "sim_changeAvailability je payload s =
     (case decodeCommand je dec_ChangeAvailabilityReq \<lparr>ca_ConnectorID = 0, ca_Type = []\<rparr> payload of
        Inl e \<Rightarrow> (s, Inl e, [])
      | Inr req \<Rightarrow>
          (s, Inr (StatusConf CmdAccepted),
           [ChangeStatus (ca_ConnectorID req) (if ca_Type req = AvailabilityInoperative then v16_StatusUnavailable else v16_StatusAvailable)]))"

text \<open>How the wait of the slow scenario ends: the delay passes, the context or the simulator ends.\<close>

datatype stall = Elapsed | ContextDone | Closing

definition sim_HandleCall :: "stall \<Rightarrow> string \<Rightarrow> string \<Rightarrow> json option \<Rightarrow> Simulator \<Rightarrow> Simulator \<times> sim_reply \<times> sim_effect list" where
  "sim_HandleCall stalled je action payload s =
     (if so_Scenario (sim_opts s) = ScenarioSlow \<and> stalled = ContextDone then (s, Inl (Errorf ErrInternalError ''cancelled''), [])
      else if so_Scenario (sim_opts s) = ScenarioSlow \<and> stalled = Closing then (s, Inl (Errorf ErrInternalError ''closing''), [])
      else if action = ActionReserveNow then sim_reserveNow je payload s
      else if action = ActionCancelReservation then sim_cancelReservation je payload s
      else if action = ActionRemoteStartTransaction then sim_remoteStart je payload s
      else if action = ActionRemoteStopTransaction then sim_remoteStop je payload s
      else if action = ActionUnlockConnector then sim_unlockConnector je payload s
      else if action = ActionTriggerMessage then sim_triggerMessage je payload s
      else if action = ActionGetConfiguration then sim_getConfiguration je payload s
      else if action = ActionChangeAvailability then sim_changeAvailability je payload s
      else if action = ActionReset then (s, Inr (StatusConf CmdAccepted), [])
      else (s, Inl (Errorf ErrNotImplemented (''action '' @ quote action @ '' is not implemented'')), []))"

section \<open>Sessions (handlers.go)\<close>

definition enc_StartTransactionReq :: "StartTransactionReq \<Rightarrow> json" where
  "enc_StartTransactionReq r = JObj ([(''connectorId'', JNum (sq_ConnectorID r)), (''idTag'', JStr (sq_IDTag r)),
      (''meterStart'', JNum (sq_MeterStart r)), (''timestamp'', JStr (sq_Timestamp r))]
     @ (case sq_ReservationID r of None \<Rightarrow> [] | Some i \<Rightarrow> [(''reservationId'', JNum i)]))"

definition dec_IDTagInfo :: "json \<Rightarrow> IDTagInfo option" where
  "dec_IDTagInfo = dec_struct (tag_info []) (\<lambda>kvs. do {
     s \<leftarrow> dec_field dec_string [] ''status'' kvs;
     e \<leftarrow> dec_field dec_string [] ''expiryDate'' kvs;
     p \<leftarrow> dec_field dec_string [] ''parentIdTag'' kvs;
     Some \<lparr>it_Status = s, it_ExpiryDate = e, it_ParentIDTag = p\<rparr>})"

definition dec_StartTransactionConf :: "json \<Rightarrow> (int \<times> IDTagInfo) option" where
  "dec_StartTransactionConf = dec_struct (0, tag_info []) (\<lambda>kvs. do {
     i \<leftarrow> dec_field dec_int 0 ''transactionId'' kvs;
     t \<leftarrow> dec_field dec_IDTagInfo (tag_info []) ''idTagInfo'' kvs;
     Some (i, t)})"

definition enc_StopTransactionReq :: "StopTransactionReq \<Rightarrow> json" where
  "enc_StopTransactionReq r = JObj ([(''transactionId'', JNum (sp_TransactionID r)), (''meterStop'', JNum (sp_MeterStop r)),
      (''timestamp'', JStr (sp_Timestamp r))]
     @ (if sp_IDTag r = [] then [] else [(''idTag'', JStr (sp_IDTag r))])
     @ (if sp_Reason r = [] then [] else [(''reason'', JStr (sp_Reason r))]))"

definition start_req :: "int \<Rightarrow> string \<Rightarrow> int \<Rightarrow> gotime \<Rightarrow> StartTransactionReq" where
  "start_req i idTag meterStart now = \<lparr>sq_ConnectorID = i, sq_IDTag = idTag, sq_MeterStart = meterStart,
     sq_Timestamp = formatTime now, sq_ReservationID = None\<rparr>"

definition sim_startTransaction :: "'w peer \<Rightarrow> int \<Rightarrow> string \<Rightarrow> Simulator \<Rightarrow> 'w \<Rightarrow> Simulator \<times> 'w \<times> sim_error option" where
  "sim_startTransaction p i idTag0 s w =
     (let idTag = (if idTag0 = [] then so_IDTag (sim_opts s) else idTag0)
      in case map_of (sim_connectors s) i of
           None \<Rightarrow> (s, w, Some (NoConnector i))
         | Some c0 \<Rightarrow>
             (case sim_SetConnectorStatus p i v16_StatusPreparing s w of
                (s1, w1, Some e) \<Rightarrow> (s1, w1, Some e)
              | (s1, w1, None) \<Rightarrow>
                  (case pe_call p ActionStartTransaction (enc_StartTransactionReq (start_req i idTag (sc_meter c0) (pe_now p w1))) w1 of
                     (w2, Inl e) \<Rightarrow> (s1, w2, Some (CallFailed ''StartTransaction'' e))
                   | (w2, Inr raw) \<Rightarrow> (case dec_StartTransactionConf raw of
                         None \<Rightarrow> (s1, w2, Some (BadResponse ''StartTransaction''))
                       | Some (txID, info) \<Rightarrow>
                           if it_Status info \<noteq> AuthAccepted then sim_SetConnectorStatus p i v16_StatusAvailable s1 w2
                           else (case map_of (sim_connectors s1) i of
                                   None \<Rightarrow> (s1, w2, None)
                                 | Some c \<Rightarrow> sim_SetConnectorStatus p i v16_StatusCharging
                                     (put_connector i (c\<lparr>sc_transactionID := txID, sc_reservationID := 0\<rparr>) s1) w2)))))"

definition stop_req :: "int \<Rightarrow> int \<Rightarrow> string \<Rightarrow> gotime \<Rightarrow> StopTransactionReq" where
  "stop_req txID meterStop reason now = zero_StopTransactionReq
     \<lparr>sp_TransactionID := txID, sp_MeterStop := meterStop, sp_Timestamp := formatTime now, sp_Reason := reason\<rparr>"

definition sim_stopTransaction :: "'w peer \<Rightarrow> int \<Rightarrow> string \<Rightarrow> Simulator \<Rightarrow> 'w \<Rightarrow> Simulator \<times> 'w \<times> sim_error option" where
  "sim_stopTransaction p i reason s w =
     (case map_of (sim_connectors s) i of
        None \<Rightarrow> (s, w, Some (NoTransaction i))
      | Some c \<Rightarrow>
          if sc_transactionID c = 0 then (s, w, Some (NoTransaction i))
          else let meterStop = wrap64 (sc_meter c + 1000);
                   s1 = put_connector i (c\<lparr>sc_meter := meterStop, sc_transactionID := 0\<rparr>) s
               in case pe_call p ActionStopTransaction
                      (enc_StopTransactionReq (stop_req (sc_transactionID c) meterStop reason (pe_now p w))) w of
                    (w1, Inl e) \<Rightarrow> (s1, w1, Some (CallFailed ''StopTransaction'' e))
                  | (w1, Inr _) \<Rightarrow>
                      (case sim_SetConnectorStatus p i v16_StatusFinishing s1 w1 of
                         (s2, w2, Some e) \<Rightarrow> (s2, w2, Some e)
                       | (s2, w2, None) \<Rightarrow> sim_SetConnectorStatus p i v16_StatusAvailable s2 w2))"

definition sim_StartTransaction :: "'w peer \<Rightarrow> int \<Rightarrow> Simulator \<Rightarrow> 'w \<Rightarrow> Simulator \<times> 'w \<times> sim_error option" where
  "sim_StartTransaction p i s w = sim_startTransaction p i (so_IDTag (sim_opts s)) s w"

definition sim_StopTransaction :: "'w peer \<Rightarrow> int \<Rightarrow> Simulator \<Rightarrow> 'w \<Rightarrow> Simulator \<times> 'w \<times> sim_error option" where
  "sim_StopTransaction p i s w = sim_stopTransaction p i ''Local'' s w"

text \<open>What runs after the answer of a command (the closures handed to \<open>after\<close>); errors are only logged.\<close>

fun run_effect :: "'w peer \<Rightarrow> sim_effect \<Rightarrow> Simulator \<Rightarrow> 'w \<Rightarrow> Simulator \<times> 'w" where
  "run_effect p (SendStatus i status) s w = (s, fst (sendStatus p i status w))"
| "run_effect p (StartSession i tag) s w = (case sim_startTransaction p i tag s w of (s', w', _) \<Rightarrow> (s', w'))"
| "run_effect p (StopSession i reason) s w = (case sim_stopTransaction p i reason s w of (s', w', _) \<Rightarrow> (s', w'))"
| "run_effect p SendBoot s w = (case boot p s w of (s', w', _) \<Rightarrow> (s', w'))"
| "run_effect p SendHeartbeat s w = (s, fst (pe_call p ActionHeartbeat (JObj []) w))"
| "run_effect p (ChangeStatus i status) s w = (case sim_SetConnectorStatus p i status s w of (s', w', _) \<Rightarrow> (s', w'))"

section \<open>The simulator as a handler\<close>

definition sim_known :: "string \<Rightarrow> bool" where
  "sim_known action \<longleftrightarrow> action \<in> {ActionReserveNow, ActionCancelReservation, ActionRemoteStartTransaction,
     ActionRemoteStopTransaction, ActionUnlockConnector, ActionTriggerMessage, ActionGetConfiguration,
     ActionChangeAvailability, ActionReset}"

definition sim_handle :: "string \<Rightarrow> string \<Rightarrow> json option \<Rightarrow> Simulator \<Rightarrow> Simulator \<times> (RPCError + sim_conf \<times> sim_effect list)" where
  "sim_handle je action payload s =
     (case sim_HandleCall Elapsed je action payload s of
        (s', Inl e, effects) \<Rightarrow> (s', Inl e) | (s', Inr r, effects) \<Rightarrow> (s', Inr (r, effects)))"

lemmas sim_defs = sim_reserveNow_def sim_cancelReservation_def sim_remoteStart_def sim_remoteStop_def
  sim_unlockConnector_def sim_triggerMessage_def sim_getConfiguration_def sim_changeAvailability_def

lemma sim_commands_error:
  "sim_reserveNow je p s = (s', Inl e, fx) \<Longrightarrow> s' = s" "sim_cancelReservation je p s = (s', Inl e, fx) \<Longrightarrow> s' = s"
  "sim_remoteStart je p s = (s', Inl e, fx) \<Longrightarrow> s' = s" "sim_remoteStop je p s = (s', Inl e, fx) \<Longrightarrow> s' = s"
  "sim_unlockConnector je p s = (s', Inl e, fx) \<Longrightarrow> s' = s" "sim_triggerMessage je p s = (s', Inl e, fx) \<Longrightarrow> s' = s"
  "sim_getConfiguration je p s = (s', Inl e, fx) \<Longrightarrow> s' = s" "sim_changeAvailability je p s = (s', Inl e, fx) \<Longrightarrow> s' = s"
  by (auto simp: sim_defs Let_def split: sum.splits if_splits option.splits prod.splits)

lemma sim_handle_error: "sim_handle je action payload s = (s', Inl e) \<Longrightarrow> s' = s"
  unfolding sim_handle_def sim_HandleCall_def
  by (auto split: prod.splits sum.splits if_splits dest: sim_commands_error)

lemma sim_not_implemented:
  "\<not> sim_known action \<Longrightarrow> \<exists>d. sim_handle je action payload s = (s, Inl (Errorf ErrNotImplemented d))"
  by (rule exI [of _ "''action '' @ quote action @ '' is not implemented''"])
     (simp add: sim_handle_def sim_HandleCall_def sim_known_def)

interpretation sim: rpc_handler "sim_handle je" sim_known for je
  by unfold_locales (use sim_handle_error in blast, rule sim_not_implemented)

text \<open>The simulator as the other end of a connection: what a command is answered in state \<open>s\<close>.\<close>

definition enc_sim_conf :: "sim_conf \<Rightarrow> json" where
  "enc_sim_conf c = (case c of StatusConf s \<Rightarrow> enc_status_conf s | ConfigurationConf g \<Rightarrow> enc_GetConfigurationConf g)"

definition sim_answers :: "string \<Rightarrow> Simulator \<Rightarrow> caller" where
  "sim_answers je s action req =
     (case sim_handle je action (Some req) s of
        (s', Inl e) \<Rightarrow> Inl (ErrRPC e) | (s', Inr (r, effects)) \<Rightarrow> Inr (enc_sim_conf r))"

definition sim_after :: "string \<Rightarrow> Simulator \<Rightarrow> string \<Rightarrow> json \<Rightarrow> Simulator" where
  "sim_after je s action req = fst (sim_handle je action (Some req) s)"

text \<open>
  What a reservation of a connector comes to: the scripted scenarios refuse, a connector the station does not have is rejected,
  one in a session is occupied, and one out of order says so. A connector that is held already is not among
  these, as in the code (whose comment means to refuse it): the new reservation takes the place of the old.
\<close>

definition reserve_verdict :: "Simulator \<Rightarrow> int \<Rightarrow> CommandStatus" where
  "reserve_verdict s n =
     (if so_Scenario (sim_opts s) = ScenarioRejectReserve then CommandRejected
      else if so_Scenario (sim_opts s) = ScenarioOccupied then CommandOccupied
      else case map_of (sim_connectors s) n of
             None \<Rightarrow> CommandRejected
           | Some c \<Rightarrow> if sc_transactionID c \<noteq> 0 \<or> sc_status c \<in> {v16_StatusCharging, v16_StatusPreparing} then CommandOccupied
                       else if sc_status c = v16_StatusFaulted then CommandFaulted
                       else if sc_status c = v16_StatusUnavailable then CommandUnavailable
                       else CommandAccepted)"

lemma MapCommandStatus_Accepted [simp]:
  "MapCommandStatus ActionReserveNow ''Accepted'' = CommandAccepted"
  "MapCommandStatus ActionReserveNow ''Rejected'' = CommandRejected"
  "MapCommandStatus ActionReserveNow ''Occupied'' = CommandOccupied"
  "MapCommandStatus ActionReserveNow ''Faulted'' = CommandFaulted"
  "MapCommandStatus ActionReserveNow ''Unavailable'' = CommandUnavailable"
  "MapCommandStatus ActionCancelReservation ''Accepted'' = CommandAccepted"
  "MapCommandStatus ActionCancelReservation ''Rejected'' = CommandRejected"
  by (simp_all add: MapCommandStatus_def commandStatusMap_def action_defs)

text \<open>
  The adapter and the simulator agree: a reservation the adapter reports as accepted is held by the
  connector it was meant for, under the id it was given; any other answer leaves the station as it was.
\<close>

lemma reserve_agrees:
  assumes "EVSEByUID cfg (rq_EVSEUID r) = Some e" and "int64_range (e_OCPPConnectorID e)" and "int64_range (rq_ReservationID r)"
  shows "\<exists>res. cp_ReserveNow je (sim_answers je s) cfg r = Inr res \<and> res_Status res = reserve_verdict s (e_OCPPConnectorID e)"
    and "sim_after je s ActionReserveNow (enc_ReserveNowReq (reserve_now_req (e_OCPPConnectorID e) r)) =
        (if reserve_verdict s (e_OCPPConnectorID e) = CommandAccepted
         then put_connector (e_OCPPConnectorID e)
           ((the (map_of (sim_connectors s) (e_OCPPConnectorID e)))\<lparr>sc_reservationID := rq_ReservationID r, sc_status := v16_StatusReserved\<rparr>) s
         else s)"
proof -
  have dec: "dec_ReserveNowReq (enc_ReserveNowReq (reserve_now_req (e_OCPPConnectorID e) r)) = Some (reserve_now_req (e_OCPPConnectorID e) r)"
    using assms(2,3) by (intro dec_enc_ReserveNowReq) (simp_all add: reserve_now_req_def)
  have f: "rn_ConnectorID (reserve_now_req i r) = i" "rn_ReservationID (reserve_now_req i r) = rq_ReservationID r" for i
    by (simp_all add: reserve_now_req_def)
  note simps = sim_handle_def sim_HandleCall_def sim_reserveNow_def decode_req_def dec f reserve_verdict_def
  show "\<exists>res. cp_ReserveNow je (sim_answers je s) cfg r = Inr res \<and> res_Status res = reserve_verdict s (e_OCPPConnectorID e)"
    using assms(1) by (auto simp: cp_ReserveNow_def cp_connectorID_def cp_command_def sim_answers_def simps
        enc_sim_conf_def dec_enc_status_conf split: option.split)
  show "sim_after je s ActionReserveNow (enc_ReserveNowReq (reserve_now_req (e_OCPPConnectorID e) r)) =
        (if reserve_verdict s (e_OCPPConnectorID e) = CommandAccepted
         then put_connector (e_OCPPConnectorID e)
           ((the (map_of (sim_connectors s) (e_OCPPConnectorID e)))\<lparr>sc_reservationID := rq_ReservationID r, sc_status := v16_StatusReserved\<rparr>) s
         else s)"
    by (auto simp: sim_after_def simps split: option.split)
qed

end
