(* ===== verification/Csms.thy ===== *)
theory Csms
  imports Core_Interleaving Ocpp
begin

text \<open>
  Package \<open>internal/ocpp/csms\<close>: the handshake of a charge point (its identity from the request path,
  the version from the subprotocols it offers) and the registry of live connections.

  A connection is a goroutine of \<open>serveConn\<close>. Its four actions on shared state are separate steps:
  it enters the registry, reports the station connected, leaves the registry when its socket is gone,
  and reports the station disconnected if it was still the current connection.
\<close>

declare map_of_eq_Some_iff [simp del] Some_eq_map_of_iff [simp del]

section \<open>The handshake\<close>

definition versionList :: "Version list \<Rightarrow> string list" where
  "versionList handlers = map Subprotocol (filter (\<lambda>v. v \<in> set handlers) [Version16, Version201])"

text \<open>\<open>handlers\<close> are the versions with a handler, \<open>offered\<close> what \<open>websocket.Subprotocols\<close> reads.\<close>

fun negotiate :: "Version list \<Rightarrow> string list \<Rightarrow> (Version \<times> string) option" where
  "negotiate handlers [] = None"
| "negotiate handlers (offered # rest) =
     (case VersionFromSubprotocol offered of
        None \<Rightarrow> negotiate handlers rest
      | Some v \<Rightarrow> if v \<in> set handlers then Some (v, offered) else negotiate handlers rest)"

text \<open>\<open>path.Clean\<close> of a path that starts with a slash, and \<open>path.Base\<close>.\<close>

fun clean_step :: "string list \<Rightarrow> string \<Rightarrow> string list" where
  "clean_step acc e =
     (if e = [] \<or> e = ''.'' then acc else if e = ''..'' then (if acc = [] then [] else butlast acc) else acc @ [e])"

definition path_Clean_rooted :: "string \<Rightarrow> string" where
  "path_Clean_rooted p = ''/'' @ join ''/'' (foldl clean_step [] (split_on CHR ''/'' p))"

definition path_Base :: "string \<Rightarrow> string" where
  "path_Base p =
     (if p = [] then ''.''
      else let q = trim_right (\<lambda>c. c = CHR ''/'') p; b = last (split_on CHR ''/'' q)
           in if b = [] then ''/'' else b)"

definition chargePointID :: "string \<Rightarrow> string" where
  "chargePointID urlPath =
     (let cleaned = trim_right (\<lambda>c. c = CHR ''/'') (path_Clean_rooted (''/'' @ urlPath));
          i = path_Base cleaned
      in if i = ''/'' \<or> i = ''.'' then [] else i)"

datatype handshake = MissingID | UnknownChargePoint string | NoCommonVersion string | Upgrade string Version string

definition ServeHTTP :: "(string \<Rightarrow> bool) option \<Rightarrow> Version list \<Rightarrow> string \<Rightarrow> string list \<Rightarrow> handshake" where
  "ServeHTTP accept handlers urlPath offered =
     (let i = chargePointID urlPath
      in if i = [] then MissingID
         else if (case accept of None \<Rightarrow> False | Some ok \<Rightarrow> \<not> ok i) then UnknownChargePoint i
         else case negotiate handlers offered of
                None \<Rightarrow> NoCommonVersion i
              | Some (v, sub) \<Rightarrow> Upgrade i v sub)"

lemma negotiate_Some:
  assumes "negotiate handlers offered = Some (v, sub)"
  shows "v \<in> set handlers" and "sub = Subprotocol v" and "sub \<in> set offered"
proof -
  have "v \<in> set handlers \<and> sub = Subprotocol v \<and> sub \<in> set offered"
    using assms by (induction handlers offered rule: negotiate.induct)
      (auto simp: VersionFromSubprotocol_iff split: option.splits if_splits)
  then show "v \<in> set handlers" "sub = Subprotocol v" "sub \<in> set offered" by blast+
qed

lemma negotiate_None:
  "negotiate handlers offered = None \<longleftrightarrow> set (versionList handlers) \<inter> set offered = {}"
proof (induction handlers offered rule: negotiate.induct)
  case (2 handlers x rest)
  have v: "(\<exists>v \<in> set handlers. VersionFromSubprotocol x = Some v) \<longleftrightarrow> x \<in> set (versionList handlers)"
    by (auto simp: VersionFromSubprotocol_iff versionList_def)
  show ?case
  proof (cases "VersionFromSubprotocol x")
    case None
    with 2 v show ?thesis by auto
  next
    case (Some w)
    with 2 v show ?thesis by (cases "w \<in> set handlers") auto
  qed
qed simp

text \<open>The charger's preference decides: nothing it offered earlier is supported.\<close>

lemma negotiate_first:
  "negotiate handlers (before @ sub # after) = Some (v, sub) \<Longrightarrow> sub \<notin> set before \<Longrightarrow>
   set (versionList handlers) \<inter> set before = {}"
proof (induction before)
  case (Cons x before)
  then show ?case
    using negotiate_None [of handlers "x # before"] negotiate_None [of handlers "[x]"]
    by (auto split: option.splits if_splits dest: negotiate_Some)
qed simp

section \<open>The registry\<close>

datatype phase = Entered | Running | Departing | Gone

record csms_world =
  sw_conns :: "(string \<times> nat) list"
  sw_phase :: "(nat \<times> string \<times> phase) list"
  sw_next :: nat
  sw_core :: Service

definition conn_of :: "csms_world \<Rightarrow> string \<Rightarrow> nat option" where
  "conn_of W i = map_of (sw_conns W) i"

text \<open>
  The locked section at the start of \<open>serveConn\<close>: the new connection replaces an old one. That the old one is closed then makes its
  goroutine leave sooner or later; which connections have been closed is kept in \<open>csms_closing\<close> (\<open>enter_closing\<close> in \<open>Csms_Server\<close>).
\<close>

definition enter :: "string \<Rightarrow> csms_world \<Rightarrow> csms_world" where
  "enter i W = W\<lparr>sw_conns := m_put i (sw_next W) (sw_conns W), sw_phase := m_put (sw_next W) (i, Entered) (sw_phase W),
     sw_next := Suc (sw_next W)\<rparr>"

definition report_connected :: "gotime \<Rightarrow> nat \<Rightarrow> string \<Rightarrow> csms_world \<Rightarrow> csms_world" where
  "report_connected now h i W = W\<lparr>sw_phase := m_put h (i, Running) (sw_phase W), sw_core := Connected now i (sw_core W)\<rparr>"

text \<open>The locked section after \<open>Run\<close>: only the current connection leaves the registry.\<close>

definition leave :: "nat \<Rightarrow> string \<Rightarrow> csms_world \<Rightarrow> csms_world" where
  "leave h i W =
     (if map_of (sw_conns W) i = Some h
      then W\<lparr>sw_conns := m_del i (sw_conns W), sw_phase := m_put h (i, Departing) (sw_phase W)\<rparr>
      else W\<lparr>sw_phase := m_put h (i, Gone) (sw_phase W)\<rparr>)"

definition report_disconnected :: "gotime \<Rightarrow> string \<Rightarrow> nat \<Rightarrow> string \<Rightarrow> csms_world \<Rightarrow> csms_world" where
  "report_disconnected now reason h i W =
     W\<lparr>sw_phase := m_put h (i, Gone) (sw_phase W), sw_core := Disconnected now i reason (sw_core W)\<rparr>"

fun station_op :: "core_op \<Rightarrow> bool" where
  "station_op (OpConnected now i) = False"
| "station_op (OpDisconnected now i r) = False"
| "station_op op = True"

inductive csms_step :: "csms_world \<Rightarrow> csms_world \<Rightarrow> bool" where
  enters: "csms_step W (enter i W)"
| reports: "map_of (sw_phase W) h = Some (i, Entered) \<Longrightarrow> csms_step W (report_connected now h i W)"
| leaves: "map_of (sw_phase W) h = Some (i, Running) \<Longrightarrow> csms_step W (leave h i W)"
| departs: "map_of (sw_phase W) h = Some (i, Departing) \<Longrightarrow> csms_step W (report_disconnected now reason h i W)"
| other: "station_op op \<Longrightarrow> csms_step W (W\<lparr>sw_core := fst (core_exec op (sw_core W))\<rparr>)"

definition csms_initial :: "csms_world \<Rightarrow> bool" where
  "csms_initial W \<longleftrightarrow> sw_conns W = [] \<and> sw_phase W = [] \<and> sw_next W = 0 \<and> (\<forall>i. \<not> IsOnline (sw_core W) i)"

lemma IsOnline_put [simp]: "IsOnline (put_cp i cp s) j = (if j = i then cp_online cp else IsOnline s j)"
  by (simp add: IsOnline_def put_cp_def)

lemma IsOnline_ensure: "cp_online (ensure s i) = IsOnline s i"
  by (simp add: IsOnline_def ensure_def newChargePoint_def split: option.split)

lemma IsOnline_cong: "svc_cps s' = svc_cps s \<Longrightarrow> IsOnline s' j = IsOnline s j"
  by (simp add: IsOnline_def)

lemma IsOnline_frame [simp]:
  "IsOnline (svc_publish es s) j = IsOnline s j" "IsOnline (s\<lparr>svc_reservations := rs\<rparr>) j = IsOnline s j"
  "IsOnline (s\<lparr>svc_nextReservationID := n\<rparr>) j = IsOnline s j" "IsOnline (s\<lparr>svc_nextTransactionID := n\<rparr>) j = IsOnline s j"
  "IsOnline (s\<lparr>svc_nextRemoteStartID := n\<rparr>) j = IsOnline s j" "IsOnline (s\<lparr>svc_txSeq := n\<rparr>) j = IsOnline s j"
  by (simp_all add: IsOnline_def)

lemma IsOnline_Connected [simp]: "IsOnline (Connected now i s) j \<longleftrightarrow> j = i \<or> IsOnline s j"
proof -
  obtain cp' evs where r: "recompute now ((ensure s i)\<lparr>cp_online := True, cp_lastSeen := now\<rparr>) = (cp', evs)"
    by (rule prod.exhaust)
  then have "cp_online cp'" using recompute_fields(2) [OF r] by simp
  then show ?thesis by (simp add: Connected_def r)
qed

lemma IsOnline_Disconnected [simp]: "IsOnline (Disconnected now i reason s) j \<longleftrightarrow> j \<noteq> i \<and> IsOnline s j"
proof -
  obtain cp' evs where r: "recompute now ((ensure s i)\<lparr>cp_online := False, cp_lastDisconnect := \<lparr>dc_At = now, dc_Reason = reason\<rparr>\<rparr>) = (cp', evs)"
    by (rule prod.exhaust)
  then have "\<not> cp_online cp'" using recompute_fields(2) [OF r] by simp
  then show ?thesis
    by (simp add: Disconnected_def Let_def r IsOnline_ensure)
qed

lemma apply_status_online:
  "apply_status now s i c st err cp = (cp1, evs) \<Longrightarrow> cp_online cp1 = cp_online cp"
  by (auto simp: apply_status_def Let_def split: if_splits)

lemma IsOnline_SetConnectorStatus: "IsOnline (SetConnectorStatus now i c st err s) j = IsOnline s j"
proof -
  obtain cp1 evs1 where a: "apply_status now s i c st err ((ensure s i)\<lparr>cp_lastSeen := now\<rparr>) = (cp1, evs1)"
    by (rule prod.exhaust)
  obtain cp2 evs2 where r: "recompute now cp1 = (cp2, evs2)" by (rule prod.exhaust)
  have "cp_online cp2 = IsOnline s i"
    using recompute_fields(2) [OF r] apply_status_online [OF a] by (simp add: IsOnline_ensure)
  then show ?thesis by (simp add: SetConnectorStatus_def a r)
qed

lemma IsOnline_station_op:
  assumes "station_op op"
  shows "IsOnline (fst (core_exec op s)) j = IsOnline s j"
proof (cases op)
  case (OpStart now cp t)
  then show ?thesis by (simp add: StartTransaction_locked_eq IsOnline_ensure)
next
  case (OpStop now cp tx m reason at)
  then show ?thesis by (simp add: StopTransaction_locked_def Let_def IsOnline_ensure split: option.split)
qed (use assms in \<open>auto simp: IsOnline_SetConnectorStatus Booted_def Seen_def Heartbeat_def RecordMeterValues_def Let_def
      IsOnline_ensure BeginReservation_undo_def ActivateReservation_locked_def EndReservation_locked_def
      OrphanReservation_locked_def expire_locked_def endLocked_def NextTransactionID_locked_def NextRemoteStartID_locked_def
      split: option.splits sum.splits prod.splits dest!: BeginReservation_locked_Inr\<close>)

section \<open>The registry is right\<close>

text \<open>
  With all the interleavings the registry is right: what it holds is a live
  connection of that station, and only a connection that was current when it ended, hence never one
  that was replaced before, goes on to report the station disconnected.
\<close>

definition registry_inv :: "csms_world \<Rightarrow> bool" where
  [inv_defs]: "registry_inv W \<longleftrightarrow>
     (\<forall>i h. map_of (sw_conns W) i = Some h \<longrightarrow> (\<exists>p. map_of (sw_phase W) h = Some (i, p) \<and> p \<in> {Entered, Running}))
     \<and> (\<forall>h p. map_of (sw_phase W) h = Some p \<longrightarrow> h < sw_next W)"

lemma registry_owner:
  "registry_inv W \<Longrightarrow> map_of (sw_phase W) h = Some (i, p) \<Longrightarrow> j \<noteq> i \<or> p \<in> {Departing, Gone} \<Longrightarrow> map_of (sw_conns W) j \<noteq> Some h"
  unfolding registry_inv_def by fastforce

lemma registry_initial: "csms_initial W \<Longrightarrow> registry_inv W"
  by (simp add: csms_initial_def registry_inv_def)

lemma registry_inv_step:
  assumes "registry_inv W" and "csms_step W W'"
  shows "registry_inv W'"
  using assms(2)
proof cases
  case (enters i)
  have fresh: "map_of (sw_conns W) j \<noteq> Some (sw_next W)" for j
    using assms(1) unfolding registry_inv_def by (metis less_irrefl)
  with assms(1) show ?thesis unfolding enters registry_inv_def enter_def by (auto simp: less_Suc_eq)
next
  case (reports h i now)
  note owner = registry_owner [OF assms(1) reports(2)]
  from assms(1) reports owner show ?thesis unfolding reports(1) registry_inv_def report_connected_def
    by (fastforce split: if_splits)
next
  case (leaves h i)
  note owner = registry_owner [OF assms(1) leaves(2)]
  from assms(1) leaves owner show ?thesis unfolding leaves(1) registry_inv_def leave_def
    by (fastforce split: if_splits)
next
  case (departs h i now reason)
  note owner = registry_owner [OF assms(1) departs(2)]
  from assms(1) departs owner show ?thesis unfolding departs(1) registry_inv_def report_disconnected_def by (auto split: if_splits)
next
  case (other op)
  with assms(1) show ?thesis by (simp add: registry_inv_def)
qed

interpretation registry: transition_system csms_initial csms_step registry_inv
  by unfold_locales (auto intro: registry_initial registry_inv_step)

section \<open>Only the current connection reports a disconnect\<close>

text \<open>A connection that was replaced, and how it goes on: it may still report itself connected, and then it leaves.\<close>

definition replaced :: "nat \<Rightarrow> string \<Rightarrow> csms_world \<Rightarrow> bool" where
  "replaced h i W \<longleftrightarrow> map_of (sw_conns W) i \<noteq> Some h \<and> h < sw_next W
     \<and> map_of (sw_phase W) h \<in> {Some (i, Entered), Some (i, Running), Some (i, Gone)}"

lemma replaced_step:
  assumes "csms_step W W'" and "replaced h i W"
  shows "replaced h i W'"
  using assms
  by cases (auto simp: replaced_def enter_def report_connected_def leave_def report_disconnected_def split: if_splits)

lemma replaced_steps:
  assumes "csms_step\<^sup>*\<^sup>* W W'" and "replaced h i W"
  shows "replaced h i W'"
  using assms by induction (auto intro: replaced_step)

lemma offline_step:
  assumes "csms_step W W'" and "IsOnline (sw_core W) i" and "\<not> IsOnline (sw_core W') i"
  shows "\<exists>h. map_of (sw_phase W) h = Some (i, Departing) \<and> map_of (sw_phase W') h = Some (i, Gone)"
  using assms
  by cases (auto simp: enter_def report_connected_def leave_def report_disconnected_def IsOnline_station_op split: if_splits)

section \<open>A station is online exactly while it has a connection\<close>

text \<open>
  A station is settled when none of its goroutines is between its change of the registry and the report to core that
  follows it. The steps considered are those of the machine, all of them, except that station \<open>i\<close> connects only while it is
  settled; the connections of the other stations, the operations of core and the replaced connections of \<open>i\<close> itself interleave at will.
\<close>

definition settled :: "csms_world \<Rightarrow> string \<Rightarrow> bool" where
  "settled W i \<longleftrightarrow> (\<forall>h. map_of (sw_phase W) h \<noteq> Some (i, Entered) \<and> map_of (sw_phase W) h \<noteq> Some (i, Departing))"

lemma settled_put:
  assumes "sw_phase W' = m_put h q (sw_phase W)"
    and "map_of (sw_phase W) h \<notin> {Some (i, Entered), Some (i, Departing)}" and "q \<notin> {(i, Entered), (i, Departing)}"
  shows "settled W' i = settled W i"
  using assms(2,3) unfolding settled_def assms(1) by (auto split: if_splits)

definition calm_step :: "string \<Rightarrow> csms_world \<Rightarrow> csms_world \<Rightarrow> bool" where
  "calm_step i W W' \<longleftrightarrow> csms_step W W' \<and> (W' = enter i W \<longrightarrow> settled W i)"

definition calm_inv :: "string \<Rightarrow> csms_world \<Rightarrow> bool" where
  [inv_defs]: "calm_inv i W \<longleftrightarrow> registry_inv W
     \<and> (\<forall>h. map_of (sw_phase W) h = Some (i, Entered) \<longrightarrow> map_of (sw_conns W) i = Some h)
     \<and> (\<forall>h. map_of (sw_phase W) h = Some (i, Departing) \<longrightarrow> map_of (sw_conns W) i = None)
     \<and> (\<forall>h. map_of (sw_conns W) i = Some h \<and> map_of (sw_phase W) h = Some (i, Running) \<longrightarrow> IsOnline (sw_core W) i)
     \<and> (map_of (sw_conns W) i = None \<and> settled W i \<longrightarrow> \<not> IsOnline (sw_core W) i)"

lemma calm_initial: "csms_initial W \<Longrightarrow> calm_inv i W"
  by (simp add: calm_inv_def registry_initial) (simp add: csms_initial_def)

lemma enter_eq: "enter i W = enter j W \<longleftrightarrow> i = j"
proof
  assume "enter i W = enter j W"
  then have "map_of (sw_phase (enter i W)) (sw_next W) = map_of (sw_phase (enter j W)) (sw_next W)" by simp
  then show "i = j" by (simp add: enter_def)
qed simp

lemma calm_enters:
  assumes "calm_inv i W" and "j = i \<longrightarrow> settled W i"
  shows "calm_inv i (enter j W)"
proof -
  have r: "registry_inv (enter j W)" using assms(1) csms_step.enters registry_inv_step unfolding calm_inv_def by blast
  have fresh: "map_of (sw_conns W) k \<noteq> Some (sw_next W)" "map_of (sw_phase W) (sw_next W) = None" for k
    using assms(1) unfolding calm_inv_def registry_inv_def by (metis less_irrefl, metis less_irrefl not_None_eq)
  show ?thesis
  proof (cases "j = i")
    case True
    with r fresh assms show ?thesis unfolding calm_inv_def settled_def by (auto simp: enter_def split: if_splits)
  next
    case False
    then have "settled (enter j W) i = settled W i" using fresh by (intro settled_put) (auto simp: enter_def)
    with False r fresh assms(1) show ?thesis unfolding calm_inv_def by (auto simp: enter_def split: if_splits)
  qed
qed

lemma calm_reports:
  assumes "calm_inv i W" and "map_of (sw_phase W) h = Some (j, Entered)"
  shows "calm_inv i (report_connected now h j W)"
proof -
  have r: "registry_inv (report_connected now h j W)"
    using assms csms_step.reports registry_inv_step unfolding calm_inv_def by blast
  show ?thesis
  proof (cases "j = i")
    case True
    then have "map_of (sw_conns W) i = Some h" using assms unfolding calm_inv_def by blast
    moreover have "h' = h" if "map_of (sw_phase W) h' = Some (i, Entered)" for h'
      using that calculation assms(1) unfolding calm_inv_def by fastforce
    ultimately show ?thesis using True r assms(1) unfolding calm_inv_def by (auto simp: report_connected_def split: if_splits)
  next
    case False
    then have "settled (report_connected now h j W) i = settled W i" using assms(2) by (intro settled_put) (auto simp: report_connected_def)
    with False r assms show ?thesis unfolding calm_inv_def by (auto simp: report_connected_def split: if_splits)
  qed
qed

lemma calm_leaves:
  assumes "calm_inv i W" and "map_of (sw_phase W) h = Some (j, Running)"
  shows "calm_inv i (leave h j W)"
proof -
  have r: "registry_inv (leave h j W)" using assms csms_step.leaves registry_inv_step unfolding calm_inv_def by blast
  have own: "map_of (sw_conns W) i \<noteq> Some h" if "j \<noteq> i"
    using registry_owner [OF _ assms(2), of i] that assms(1) unfolding calm_inv_def by auto
  show ?thesis
  proof (cases "j = i \<and> map_of (sw_conns W) i = Some h")
    case True
    then have "\<not> settled (leave h j W) i" by (auto simp: settled_def leave_def)
    with True r assms show ?thesis unfolding calm_inv_def by (auto simp: leave_def split: if_splits)
  next
    case False
    then have "settled (leave h j W) i = settled W i" 
      using assms(2) by (intro settled_put [where q = "(j, if map_of (sw_conns W) j = Some h then Departing else Gone)"]) (auto simp: leave_def)
    with False own r assms show ?thesis unfolding calm_inv_def by (auto simp: leave_def split: if_splits)
  qed
qed

lemma calm_departs:
  assumes "calm_inv i W" and "map_of (sw_phase W) h = Some (j, Departing)"
  shows "calm_inv i (report_disconnected now reason h j W)"
proof -
  have r: "registry_inv (report_disconnected now reason h j W)"
    using assms csms_step.departs registry_inv_step unfolding calm_inv_def by blast
  show ?thesis
  proof (cases "j = i")
    case True
    then have "map_of (sw_conns W) i = None" using assms unfolding calm_inv_def by blast
    with True r assms show ?thesis unfolding calm_inv_def by (auto simp: report_disconnected_def split: if_splits)
  next
    case False
    then have "settled (report_disconnected now reason h j W) i = settled W i" using assms(2) by (intro settled_put) (auto simp: report_disconnected_def)
    with False r assms show ?thesis unfolding calm_inv_def by (auto simp: report_disconnected_def split: if_splits)
  qed
qed

lemma calm_other: "calm_inv i W \<Longrightarrow> station_op op \<Longrightarrow> calm_inv i (W\<lparr>sw_core := fst (core_exec op (sw_core W))\<rparr>)"
  by (simp add: calm_inv_def registry_inv_def settled_def IsOnline_station_op)

lemma calm_inv_step:
  assumes "calm_inv i W" and "calm_step i W W'"
  shows "calm_inv i W'"
  using assms(2) unfolding calm_step_def
proof (elim conjE)
  assume s: "csms_step W W'" and g: "W' = enter i W \<longrightarrow> settled W i"
  from s show ?thesis
  proof cases
    case (enters j)
    with g assms(1) show ?thesis by (simp add: calm_enters)
  qed (use assms(1) in \<open>simp_all add: calm_reports calm_leaves calm_departs calm_other\<close>)
qed

interpretation calm: transition_system csms_initial "calm_step i" "calm_inv i" for i
  by unfold_locales (auto intro: calm_initial calm_inv_step)

lemma calm_steps: "(calm_step i)\<^sup>*\<^sup>* W W' \<Longrightarrow> csms_step\<^sup>*\<^sup>* W W'"
  by (rule rtranclp_mono [THEN predicate2D]) (auto simp: calm_step_def)

text \<open>In a settled moment the registry and core agree.\<close>

lemma calm_online:
  assumes "calm_inv i W" and "settled W i"
  shows "IsOnline (sw_core W) i \<longleftrightarrow> (\<exists>h. map_of (sw_conns W) i = Some h \<and> map_of (sw_phase W) h = Some (i, Running))"
proof (cases "map_of (sw_conns W) i")
  case None
  with assms show ?thesis unfolding calm_inv_def by simp
next
  case (Some h)
  then have "map_of (sw_phase W) h = Some (i, Running)"
    using assms unfolding calm_inv_def registry_inv_def settled_def by fastforce
  with Some assms show ?thesis unfolding calm_inv_def by auto
qed

section \<open>Where the interleaving goes wrong\<close>

text \<open>
  The registry and the report to core are not one step, so a report can be overtaken: the old
  connection of a station leaves the registry, the station connects again and is reported connected,
  and only then does the old goroutine report it disconnected. The station then has a running
  connection and reads as offline until it reconnects once more.
\<close>

definition race_trace :: "gotime \<Rightarrow> string \<Rightarrow> string \<Rightarrow> csms_world \<Rightarrow> csms_world" where
  "race_trace now reason i W =
     (let W1 = report_connected now 0 i (enter i W);
          W2 = leave 0 i W1;
          W3 = report_connected now 1 i (enter i W2)
      in report_disconnected now reason 0 i W3)"

lemma race_reachable:
  assumes "csms_initial W"
  shows "csms_step\<^sup>*\<^sup>* W (race_trace now reason i W)"
proof -
  let ?W0 = "enter i W" and ?W1 = "report_connected now 0 i (enter i W)"
  let ?W2 = "leave 0 i ?W1" and ?W2' = "enter i (leave 0 i ?W1)"
  let ?W3 = "report_connected now 1 i ?W2'"
  have w: "sw_next W = 0" "sw_conns W = []" "sw_phase W = []" using assms by (simp_all add: csms_initial_def)
  note simps = enter_def report_connected_def leave_def w
  have s: "csms_step W ?W0" "csms_step ?W2 ?W2'" by (rule csms_step.enters)+
  have t: "csms_step ?W0 ?W1" "csms_step ?W2' ?W3" by (rule csms_step.reports, simp add: simps)+
  have u: "csms_step ?W1 ?W2" by (rule csms_step.leaves) (simp add: simps)
  have v: "csms_step ?W3 (report_disconnected now reason 0 i ?W3)"
    by (rule csms_step.departs) (simp add: simps)
  note step = converse_rtranclp_into_rtranclp [where r = csms_step]
  show ?thesis unfolding race_trace_def Let_def
    by (rule step [OF s(1)], rule step [OF t(1)], rule step [OF u], rule step [OF s(2)], rule step [OF t(2)],
        rule step [OF v], rule rtranclp.rtrancl_refl)
qed

lemma race_outcome:
  assumes "csms_initial W"
  shows "map_of (sw_conns (race_trace now reason i W)) i = Some 1"
    and "map_of (sw_phase (race_trace now reason i W)) 1 = Some (i, Running)"
    and "map_of (sw_phase (race_trace now reason i W)) 0 = Some (i, Gone)"
    and "\<not> IsOnline (sw_core (race_trace now reason i W)) i"
proof -
  have w: "sw_next W = 0" "sw_conns W = []" "sw_phase W = []" using assms by (simp_all add: csms_initial_def)
  show "map_of (sw_conns (race_trace now reason i W)) i = Some 1"
    "map_of (sw_phase (race_trace now reason i W)) 1 = Some (i, Running)"
    "map_of (sw_phase (race_trace now reason i W)) 0 = Some (i, Gone)"
    "\<not> IsOnline (sw_core (race_trace now reason i W)) i"
    by (simp_all add: race_trace_def Let_def enter_def report_connected_def leave_def report_disconnected_def w)
qed

end
