(* ===== verification/Service_Properties.thy ===== *)
theory Service_Properties
  imports Examples Control Simulator Csms
begin

text \<open>
  What the program promises to those who use it from outside: the operator's commands
  (\<open>internal/control\<close>), the OCPP 1.6 handler and adapter, the connection below them, and the
  server that accepts charge points.
\<close>

declare map_of_eq_Some_iff [simp del] Some_eq_map_of_iff [simp del]

section \<open>Reserving\<close>

lemma finish_error:
  assumes "svc_inv s" and "map_of (svc_reservations s) (r_ID r) = Some \<lparr>rs_res = r, rs_timer = None\<rparr>"
    and "r_Status r = ReservationPending" and "Reserve_finish w now r (Inl e) s = (s2, result, orphan)"
  shows "result = Inl (StationError e) \<and> orphan = Some (endReason e)
    \<and> map_option (r_Status \<circ> rs_res) (reservationOnLocked s2 (r_EVSEUID r)) = Some ReservationCancelling"
proof -
  let ?x = "\<lparr>rs_res = r\<lparr>r_Status := ReservationCancelling\<rparr>, rs_timer = None\<rparr>"
  have "svc_inv s2" using Reserve_finish_inv [OF assms(1)] assms(4) by (metis fst_conv)
  moreover have "svc_reservations s2 = m_put (r_ID r) ?x (svc_reservations s)"
    using OrphanReservation_fields [OF assms(2), of now "endReason e"] assms(3,4) by (auto simp: Reserve_finish_def)
  ultimately have "reservationOnLocked s2 (r_EVSEUID r) = Some ?x" using reservation_on [of s2 "r_ID r" ?x] by simp
  then show ?thesis using assms(4) by (auto simp: Reserve_finish_def)
qed

lemma finish_active:
  assumes "svc_inv s" and "map_of (svc_reservations s) (r_ID r) = Some \<lparr>rs_res = r, rs_timer = None\<rparr>"
    and "r_Status r = ReservationPending" and "Reserve_finish w now r (Inr res) s = (s2, result, orphan)"
    and "res_Status res = CommandAccepted"
  shows "result = Inr (r\<lparr>r_Status := ReservationActive\<rparr>) \<and> orphan = None
    \<and> ActiveReservation s2 (r_EVSEUID r) = Some (r\<lparr>r_Status := ReservationActive\<rparr>)"
proof -
  let ?x = "armLocked now \<lparr>rs_res = r\<lparr>r_Status := ReservationActive\<rparr>, rs_timer = None\<rparr>"
  obtain s' where a: "ActivateReservation w now (r_ID r) s = (s', Some (r\<lparr>r_Status := ReservationActive\<rparr>))"
    and m: "svc_reservations s' = m_put (r_ID r) ?x (svc_reservations s)"
    using finish_accepted [OF assms(2), of w now] assms(3) by auto
  have s2: "s2 = s'" "result = Inr (r\<lparr>r_Status := ReservationActive\<rparr>)" "orphan = None"
    using assms(4,5) a by (simp_all add: Reserve_finish_def)
  have "svc_inv s2" using Reserve_finish_inv [OF assms(1)] assms(4) by (metis fst_conv)
  then have "reservationOnLocked s2 (r_EVSEUID r) = Some ?x"
    using reservation_on [of s2 "r_ID r" ?x] m s2 by (simp add: armLocked_def stopTimer_def)
  then show ?thesis using s2 by (simp add: ActiveReservation_def armLocked_def stopTimer_def)
qed

lemma finish_refused:
  assumes "svc_inv s" and "map_of (svc_reservations s) (r_ID r) = Some \<lparr>rs_res = r, rs_timer = None\<rparr>"
    and "Reserve_finish w now r (Inr res) s = (s2, result, orphan)" and "res_Status res \<noteq> CommandAccepted"
  shows "result = Inl (RefusedError OpReserve (r_EVSEUID r) (res_Status res) (res_Raw res)) \<and> orphan = None
    \<and> reservationOnLocked s2 (r_EVSEUID r) = None"
proof -
  have s2: "s2 = fst (EndReservation w now (r_ID r) ReservationRejected s)" "result = Inl (refused OpReserve (r_EVSEUID r) res)" "orphan = None"
    using assms(3,4) by (auto simp: Reserve_finish_def)
  have "svc_reservations s2 = m_del (r_ID r) (svc_reservations s)"
    using EndReservation_fields(1) [OF assms(2), of w now ReservationRejected] s2 by simp
  then show ?thesis using reservation_off [OF assms(1,2)] s2 by (simp add: refused_def)
qed

text \<open>
  C4. A reservation command settles the record by the station's answer, whatever other goroutines do to the
  service meanwhile. Accepted: the caller gets the active reservation and it stands on the EVSE.
  Refused: the caller gets the refusal and the EVSE is free. No answer: the caller gets the error,
  the EVSE stays occupied by the reservation in state cancelling, and the cleanup is started. The
  record is never found missing.
\<close>

theorem reserve_settles:
  assumes "svc_inv (ctl_core c)" and "svc_nextReservationID (ctl_core c) < max_int64" and "\<not> ctl_closed c"
    and "Reserve_begin (snd (rv_begin env)) (fst (rv_begin env)) cfg cmd p (ctl_core c) = (s1, Inr (st, r))"
    and "interference (r_ID r) others s1" and "out = Reserve env cfg cmd others p c"
  shows "case sta_ReserveNow st (reserve_request r) of
      Inl e \<Rightarrow> ro_result out = Inl (StationError e) \<and> ro_orphan out = Some (st, r, endReason e)
        \<and> map_option (r_Status \<circ> rs_res) (reservationOnLocked (ctl_core (ro_control out)) (rp_EVSEUID p)) = Some ReservationCancelling
    | Inr res \<Rightarrow> ro_orphan out = None \<and>
        (if res_Status res = CommandAccepted
         then ro_result out = Inr (r\<lparr>r_Status := ReservationActive\<rparr>)
           \<and> ActiveReservation (ctl_core (ro_control out)) (rp_EVSEUID p) = Some (r\<lparr>r_Status := ReservationActive\<rparr>)
         else ro_result out = Inl (RefusedError OpReserve (rp_EVSEUID p) (res_Status res) (res_Raw res))
           \<and> reservationOnLocked (ctl_core (ro_control out)) (rp_EVSEUID p) = None)"
proof -
  let ?w = "snd (rv_finish env)" and ?now = "fst (rv_finish env)"
  note wt = Reserve_waiting [OF assms(1,2,4,5)]
  obtain s2 result orphan where f: "Reserve_finish ?w ?now r (sta_ReserveNow st (reserve_request r)) (others s1) = (s2, result, orphan)"
    by (metis prod.exhaust)
  note out = Reserve_open [OF assms(3,4), where others = others, OF f, folded assms(6)]
  show ?thesis
  proof (cases "sta_ReserveNow st (reserve_request r)")
    case (Inl e)
    then show ?thesis using finish_error [OF wt(1-3) f [unfolded Inl]] wt(4) by (simp add: out)
  next
    case (Inr res)
    then show ?thesis
      using finish_active [OF wt(1-3) f [unfolded Inr]] finish_refused [OF wt(1,2) f [unfolded Inr]] wt(4) by (simp add: out)
  qed
qed

definition example_station :: "ocpp_error + Result \<Rightarrow> station" where
  "example_station a = \<lparr>sta_ID = ''CP1'', sta_ReserveNow = (\<lambda>_. a), sta_CancelReservation = (\<lambda>_. a), sta_RemoteStart = (\<lambda>_. a),
     sta_RemoteStop = (\<lambda>_. a), sta_UnlockConnector = (\<lambda>_. a), sta_TriggerStatus = (\<lambda>_. a), sta_Probe = Inl ErrTimeout\<rparr>"

definition example_params :: ReserveParams where
  "example_params = \<lparr>rp_EVSEUID = ''E1'', rp_IDTag = [], rp_ExpiresAt = example_expiry, rp_ExpiresIn = 0, rp_Source = ''test'',
     rp_OCPIReservationID = [], rp_ResponseURL = []\<rparr>"

definition example_reserve_env :: reserve_env where
  "example_reserve_env = \<lparr>rv_begin = (example_now, example_env), rv_finish = (example_now, example_env), rv_cleanup = (example_now, example_env)\<rparr>"

definition example_control :: Control where
  "example_control = \<lparr>ctl_core = example_svc, ctl_closed = False, ctl_inflight = 0\<rparr>"

abbreviation example_begun :: Reservation where
  "example_begun \<equiv> (example_reservation ''E1'')\<lparr>r_ID := 1, r_ConnectorID := 1, r_CreatedAt := example_now\<rparr>"

lemma example_expiry_set: "\<not> IsZero example_expiry" by code_simp

lemma example_Reserve_begin:
  "Reserve_begin example_env example_now example_cfg (\<lambda>_. Inr (example_station a)) example_params example_svc =
     (example_pending, Inr (example_station a, example_begun))"
proof -
  have "checkEVSE example_cfg ''E1'' = None"
    by (simp add: checkEVSE_def EVSEByUID_def example_cfg_def example_EVSE_def)
  moreover have "BeginReservation example_env example_now (example_reservation ''E1'') example_svc = (example_pending, Inr example_begun)"
    by (simp add: BeginReservation_def example_begin persist_def)
  moreover have "tagOrDefault example_cfg [] = ''TAG''" by (simp add: tagOrDefault_def example_cfg_def)
  ultimately show ?thesis
    by (simp add: Reserve_begin_def example_params_def chargePoint_def example_reservation_def example_station_def
        reserve_expiry_def example_expiry_set)
qed

lemma no_interference: "interference i (\<lambda>s. s) s"
  unfolding interference_def by (rule exI [of _ "[]"]) simp

theorem reserve_settles_witness:
  "ActiveReservation (ctl_core (ro_control (Reserve example_reserve_env example_cfg
       (\<lambda>_. Inr (example_station (Inr \<lparr>res_Status = CommandAccepted, res_Raw = ''Accepted''\<rparr>))) (\<lambda>s. s) example_params example_control))) ''E1''
     = Some (example_begun\<lparr>r_Status := ReservationActive\<rparr>)
   \<and> ro_result (Reserve example_reserve_env example_cfg (\<lambda>_. Inr (example_station (Inl ErrTimeout))) (\<lambda>s. s) example_params example_control)
     = Inl (StationError ErrTimeout)"
proof -
  have c: "svc_inv (ctl_core example_control)" "svc_nextReservationID (ctl_core example_control) < max_int64" "\<not> ctl_closed example_control"
    by (simp_all add: example_control_def example_svc_inv max_int64_def)
  have b: "Reserve_begin (snd (rv_begin example_reserve_env)) (fst (rv_begin example_reserve_env)) example_cfg
      (\<lambda>_. Inr (example_station a)) example_params (ctl_core example_control) = (example_pending, Inr (example_station a, example_begun))" for a
    by (simp add: example_reserve_env_def example_control_def example_Reserve_begin)
  show ?thesis
    using reserve_settles [OF c b no_interference refl, of "Inr \<lparr>res_Status = CommandAccepted, res_Raw = ''Accepted''\<rparr>"]
      reserve_settles [OF c b no_interference refl, of "Inl ErrTimeout"]
    by (simp add: example_station_def example_params_def)
qed

text \<open>
  C10. The cleanup that follows an unanswered reservation command frees the EVSE and says nothing twice: whatever
  else has happened meanwhile, when the goroutine ends the record the EVSE is free, the call is no longer
  counted as in flight, so that \<open>Close\<close> can return, and no event is published, since the end was
  reported when the command failed.
\<close>

theorem orphan_cleanup:
  assumes "svc_inv (ctl_core c)" and "map_of (svc_reservations (ctl_core c)) (r_ID r) = Some x" and "r_Status (rs_res x) = ReservationCancelling"
    and "interference (r_ID r) others (ctl_core c)" and "c' = Reserve_background env others (st, r, reason) c"
  shows "reservationOnLocked (ctl_core c') (r_EVSEUID (rs_res x)) = None \<and> svc_bus (ctl_core c') = svc_bus (others (ctl_core c))
    \<and> ctl_inflight c' = ctl_inflight c - 1 \<and> (ctl_closed c \<and> ctl_inflight c = 1 \<longrightarrow> Close_returns c')"
proof -
  let ?s = "others (ctl_core c)" and ?i = "r_ID r"
  have inv: "svc_inv ?s" by (rule interference_inv [OF assms(1,4)])
  have m: "map_of (svc_reservations ?s) ?i = Some x" using interference_keeps [OF assms(1,4,2)] assms(3) by simp
  have id: "r_ID (rs_res x) = ?i" using svc_inv_lookup(1) [OF inv m] .
  have e: "EndReservation w now ?i reason ?s = (?s\<lparr>svc_reservations := m_del ?i (svc_reservations ?s)\<rparr>, Some (rs_res x))" for w now
    using m assms(3) id by (simp add: EndReservation_def EndReservation_locked_def endLocked_def)
  have c': "c' = c\<lparr>ctl_core := ?s\<lparr>svc_reservations := m_del ?i (svc_reservations ?s)\<rparr>, ctl_inflight := ctl_inflight c - 1\<rparr>"
    unfolding assms(5) Reserve_background_def by (cases "cancelOrphan st r") (simp_all add: e)
  show ?thesis using reservation_off [OF inv m] by (simp add: c' Close_returns_def)
qed

theorem orphan_cleanup_witness:
  "Close_returns (Reserve_background example_reserve_env (\<lambda>s. s) (example_station (Inl ErrTimeout), example_begun, ReservationTimeout)
     \<lparr>ctl_core = fst (core_run [OpOrphan example_now 1 ReservationTimeout] example_pending), ctl_closed = True, ctl_inflight = 1\<rparr>)"
proof -
  let ?ops = "[OpOrphan example_now 1 ReservationTimeout]"
  have inv: "svc_inv (fst (core_run ?ops example_pending))" by (rule core_run_inv [OF example_pending_inv]) simp
  have m: "\<exists>x. map_of (svc_reservations (fst (core_run ?ops example_pending))) (r_ID example_begun) = Some x \<and> r_Status (rs_res x) = ReservationCancelling"
    by (simp add: OrphanReservation_locked_def example_reservation_def Let_def stopTimer_def)
  let ?c = "\<lparr>ctl_core = fst (core_run ?ops example_pending), ctl_closed = True, ctl_inflight = 1\<rparr>"
  from m obtain x where x: "map_of (svc_reservations (ctl_core ?c)) (r_ID example_begun) = Some x" "r_Status (rs_res x) = ReservationCancelling"
    by auto
  have c: "svc_inv (ctl_core ?c)" using inv by simp
  show ?thesis
    using orphan_cleanup [OF c x no_interference refl, of example_reserve_env "example_station (Inl ErrTimeout)" ReservationTimeout] by simp
qed

text \<open>
  C34. Cancelling a reservation drops the record whenever the station has answered, also when it refused:
  the station is then taken not to hold it. Without an answer the record stays as the other goroutines left it,
  and an EVSE without an active reservation is refused before anything is sent.
\<close>

theorem cancel_effect:
  assumes "svc_inv s" and "svc_inv (others s)" and "Cancel w now cfg cmd others uid s = (s', e)"
  shows "(ActiveReservation s uid = None \<longrightarrow> s' = s \<and> e \<noteq> None)
    \<and> (\<forall>r st. ActiveReservation s uid = Some r \<and> checkEVSE cfg uid = None \<and> chargePoint cfg cmd = Inr st \<longrightarrow>
        (case sta_CancelReservation st (r_ID r) of
           Inl err \<Rightarrow> s' = others s \<and> e = Some (StationError err)
         | Inr res \<Rightarrow> map_of (svc_reservations s') (r_ID r) = None
             \<and> (e = None \<longleftrightarrow> res_Status res = CommandAccepted)))"
proof -
  have gone: "map_of (svc_reservations (fst (EndReservation w now i reason t))) i = None" if "svc_inv t" for i reason t
  proof (cases "map_of (svc_reservations t) i")
    case (Some x)
    then show ?thesis using EndReservation_fields(1) [OF Some] svc_inv_lookup(1) [OF that Some] by simp
  qed (simp add: EndReservation_def EndReservation_locked_def)
  show ?thesis
  proof (cases "checkEVSE cfg uid")
    case None
    then show ?thesis using gone assms(2,3) by (auto simp: Cancel_def refused_def split: option.splits sum.splits if_splits)
  next
    case (Some a)
    then have "s' = s \<and> e = Some a" using assms(3) by (simp add: Cancel_def)
    then show ?thesis using Some by simp
  qed
qed

theorem cancel_effect_witness:
  "map_of (svc_reservations (fst (Cancel example_env example_now example_cfg
      (\<lambda>_. Inr (example_station (Inr \<lparr>res_Status = CommandRejected, res_Raw = ''Rejected''\<rparr>))) (\<lambda>s. s) ''E1'' example_active))) 1 = None"
proof -
  let ?st = "example_station (Inr \<lparr>res_Status = CommandRejected, res_Raw = ''Rejected''\<rparr>)"
  have a: "\<exists>r. ActiveReservation example_active ''E1'' = Some r \<and> r_ID r = 1" by (rule example_active_on)
  have c: "checkEVSE example_cfg ''E1'' = None" "chargePoint example_cfg (\<lambda>_. Inr ?st) = Inr ?st"
    by (simp_all add: checkEVSE_def EVSEByUID_def example_cfg_def example_EVSE_def chargePoint_def)
  obtain s' e where k: "Cancel example_env example_now example_cfg (\<lambda>_. Inr ?st) (\<lambda>s. s) ''E1'' example_active = (s', e)" by (rule prod.exhaust)
  show ?thesis using cancel_effect [OF example_active_inv example_active_inv k] a c k by (auto simp: example_station_def)
qed

end
