(* ===== verification/V16_Handler.thy ===== *)
theory V16_Handler
  imports V16_Messages Core_Interleaving Ocppj_Conn
begin

text \<open>
  Package \<open>internal/ocpp/v16\<close>, second part (\<open>handler.go\<close>): what an inbound call of a station does to
  the domain state and what it is answered. A call may write to the store twice (a new
  transaction id, then the transaction), so its environment has two writes.
\<close>

record call_env =
  ce_now :: gotime
  ce_write1 :: write_env
  ce_write2 :: write_env
  ce_jsonErr :: string

type_synonym reply = "RPCError + conf"

definition knownTag :: "Config \<Rightarrow> string \<Rightarrow> bool" where
  "knownTag cfg tag = EqualFold tag (au_DefaultIDTag (cfg_Auth cfg))"

text \<open>
  \<open>int(d.Seconds())\<close>. The quotient is exact for every duration below 97 days; beyond that the
  float64 of \<open>Seconds\<close> may round a fraction just under a second up.
\<close>

definition whole_seconds :: "duration \<Rightarrow> int" where
  "whole_seconds d = sgn d * (\<bar>d\<bar> div Second)"

definition bootNotification :: "Config \<Rightarrow> call_env \<Rightarrow> string \<Rightarrow> json option \<Rightarrow> Service \<Rightarrow> Service \<times> reply" where
  "bootNotification cfg env cpID payload s =
     (case decode_req (ce_jsonErr env) dec_BootNotificationReq zero_BootNotificationReq payload of
        Inl e \<Rightarrow> (s, Inl e)
      | Inr req \<Rightarrow>
          (case validate_BootNotificationReq req of
             Some e \<Rightarrow> (s, Inl e)
           | None \<Rightarrow>
               let serial = (if bn_ChargePointSerialNumber req = [] then bn_ChargeBoxSerialNumber req
                             else bn_ChargePointSerialNumber req)
               in (Booted (ce_now env) cpID \<lparr>bi_Vendor = bn_ChargePointVendor req, bi_Model = bn_ChargePointModel req,
                      bi_SerialNumber = serial, bi_FirmwareVersion = bn_FirmwareVersion req, bi_At = zero_time\<rparr> s,
                   Inr (BootNotificationConf ''Accepted'' (formatTime (ce_now env))
                      (whole_seconds (dur_dur (ch_HeartbeatInterval (cfg_Charger cfg))))))))"

definition heartbeat :: "call_env \<Rightarrow> string \<Rightarrow> Service \<Rightarrow> Service \<times> reply" where
  "heartbeat env cpID s = (Heartbeat (ce_now env) cpID s, Inr (HeartbeatConf (formatTime (ce_now env))))"

definition statusNotification :: "call_env \<Rightarrow> string \<Rightarrow> json option \<Rightarrow> Service \<Rightarrow> Service \<times> reply" where
  "statusNotification env cpID payload s =
     (case decode_req (ce_jsonErr env) dec_StatusNotificationReq zero_StatusNotificationReq payload of
        Inl e \<Rightarrow> (s, Inl e)
      | Inr req \<Rightarrow>
          (case validate_StatusNotificationReq req of
             Some e \<Rightarrow> (s, Inl e)
           | None \<Rightarrow> (SetConnectorStatus (ce_now env) cpID (sn_ConnectorID req) (MapStatus (sn_Status req))
                        (sn_ErrorCode req) s, Inr emptyConf)))"

definition authorize :: "Config \<Rightarrow> call_env \<Rightarrow> string \<Rightarrow> json option \<Rightarrow> Service \<Rightarrow> Service \<times> reply" where
  "authorize cfg env cpID payload s =
     (case decode_req (ce_jsonErr env) dec_AuthorizeReq [] payload of
        Inl e \<Rightarrow> (s, Inl e)
      | Inr tag \<Rightarrow>
          if tag = [] then (s, Inl (missing ''idTag''))
          else (Seen (ce_now env) cpID s,
                Inr (AuthorizeConf (tag_info (if knownTag cfg tag then AuthAccepted else AuthInvalid)))))"

text \<open>What core is told of a session: a request without a reservation id has id 0.\<close>

definition start_of_req :: "call_env \<Rightarrow> StartTransactionReq \<Rightarrow> int \<Rightarrow> TransactionStart" where
  "start_of_req env req txID = \<lparr>ts_ID = Itoa txID, ts_ConnectorID = sq_ConnectorID req, ts_IDTag = sq_IDTag req,
     ts_MeterStart = sq_MeterStart req, ts_ReservationID = (case sq_ReservationID req of None \<Rightarrow> 0 | Some i \<Rightarrow> i),
     ts_At = parseTime (sq_Timestamp req) (ce_now env)\<rparr>"

definition startTransaction :: "Config \<Rightarrow> call_env \<Rightarrow> string \<Rightarrow> json option \<Rightarrow> Service \<Rightarrow> Service \<times> reply" where
  "startTransaction cfg env cpID payload s =
     (case decode_req (ce_jsonErr env) dec_StartTransactionReq zero_StartTransactionReq payload of
        Inl e \<Rightarrow> (s, Inl e)
      | Inr req \<Rightarrow>
          (case validate_StartTransactionReq req of
             Some e \<Rightarrow> (s, Inl e)
           | None \<Rightarrow>
               if \<not> knownTag cfg (sq_IDTag req)
               then (Seen (ce_now env) cpID s, Inr (StartTransactionConf 0 (tag_info AuthInvalid)))
               else let (s1, txID) = NextTransactionID (ce_write1 env) s;
                        (s2, tx) = StartTransaction (ce_write2 env) (ce_now env) cpID (start_of_req env req txID) s1
                    in (s2, Inr (StartTransactionConf txID (tag_info AuthAccepted)))))"

definition stopTransaction :: "call_env \<Rightarrow> string \<Rightarrow> json option \<Rightarrow> Service \<Rightarrow> Service \<times> reply" where
  "stopTransaction env cpID payload s =
     (case decode_req (ce_jsonErr env) dec_StopTransactionReq zero_StopTransactionReq payload of
        Inl e \<Rightarrow> (s, Inl e)
      | Inr req \<Rightarrow>
          (fst (StopTransaction (ce_write1 env) (ce_now env) cpID (Itoa (sp_TransactionID req)) (sp_MeterStop req)
             (sp_Reason req) (parseTime (sp_Timestamp req) (ce_now env)) s), Inr (StopTransactionConf None)))"

definition summariseMeterValues :: "MeterValue list \<Rightarrow> string" where
  "summariseMeterValues values =
     (if values = [] then ''no samples''
      else let samples = elems (mv_SampledValue (last values))
           in if samples = [] then ''no samples''
              else join '' '' (map (\<lambda>sv. (if sv_Measurand sv = [] then ''Energy.Active.Import.Register'' else sv_Measurand sv)
                                       @ ''='' @ sv_Value sv @ sv_Unit sv) samples))"

definition meterValues :: "call_env \<Rightarrow> string \<Rightarrow> json option \<Rightarrow> Service \<Rightarrow> Service \<times> reply" where
  "meterValues env cpID payload s =
     (case decode_req (ce_jsonErr env) dec_MeterValuesReq zero_MeterValuesReq payload of
        Inl e \<Rightarrow> (s, Inl e)
      | Inr req \<Rightarrow> (RecordMeterValues (ce_now env) cpID (mq_ConnectorID req) (summariseMeterValues (elems (mq_MeterValue req))) s,
                    Inr emptyConf))"

definition dataTransfer :: "call_env \<Rightarrow> string \<Rightarrow> json option \<Rightarrow> Service \<Rightarrow> Service \<times> reply" where
  "dataTransfer env cpID payload s =
     (case decode_req (ce_jsonErr env) dec_DataTransferReq zero_DataTransferReq payload of
        Inl e \<Rightarrow> (s, Inl e)
      | Inr req \<Rightarrow> (Seen (ce_now env) cpID s, Inr (DataTransferConf ''Rejected'' [])))"

definition statusOnly :: "call_env \<Rightarrow> string \<Rightarrow> json option \<Rightarrow> Service \<Rightarrow> Service \<times> reply" where
  "statusOnly env cpID payload s =
     (case decode_req (ce_jsonErr env) dec_StatusOnlyReq [] payload of
        Inl e \<Rightarrow> (s, Inl e)
      | Inr req \<Rightarrow> (Seen (ce_now env) cpID s, Inr emptyConf))"

definition HandleCall :: "Config \<Rightarrow> call_env \<Rightarrow> string \<Rightarrow> string \<Rightarrow> json option \<Rightarrow> Service \<Rightarrow> Service \<times> reply" where
  "HandleCall cfg env cpID action payload s =
     (if action = ActionBootNotification then bootNotification cfg env cpID payload s
      else if action = ActionHeartbeat then heartbeat env cpID s
      else if action = ActionStatusNotification then statusNotification env cpID payload s
      else if action = ActionAuthorize then authorize cfg env cpID payload s
      else if action = ActionStartTransaction then startTransaction cfg env cpID payload s
      else if action = ActionStopTransaction then stopTransaction env cpID payload s
      else if action = ActionMeterValues then meterValues env cpID payload s
      else if action = ActionDataTransfer then dataTransfer env cpID payload s
      else if action = ActionFirmwareStatusNotification \<or> action = ActionDiagnosticsStatusNotification
      then statusOnly env cpID payload s
      else (s, Inl (Errorf ErrNotImplemented (''action '' @ quote action @ '' is not implemented''))))"

lemmas handler_defs = bootNotification_def heartbeat_def statusNotification_def authorize_def startTransaction_def
  stopTransaction_def meterValues_def dataTransfer_def statusOnly_def

text \<open>A call that is answered with an error has changed nothing.\<close>

lemma HandleCall_error_frame:
  "HandleCall cfg env cpID action payload s = (s', Inl e) \<Longrightarrow> s' = s"
  unfolding HandleCall_def handler_defs
  by (auto simp: Let_def split: if_splits sum.splits option.splits prod.splits)

definition v16_known :: "string \<Rightarrow> bool" where
  "v16_known action \<longleftrightarrow> action \<in> {''BootNotification'', ''Heartbeat'', ''StatusNotification'', ''Authorize'',
     ''StartTransaction'', ''StopTransaction'', ''MeterValues'', ''DataTransfer'', ''FirmwareStatusNotification'',
     ''DiagnosticsStatusNotification''}"

lemma HandleCall_not_implemented:
  "\<not> v16_known action \<Longrightarrow> \<exists>d. HandleCall cfg env cpID action payload s = (s, Inl (Errorf ErrNotImplemented d))"
  by (rule exI [of _ "''action '' @ quote action @ '' is not implemented''"]) (simp add: HandleCall_def v16_known_def)

interpretation v16: rpc_handler "HandleCall cfg env cpID" v16_known for cfg env cpID
  by unfold_locales (use HandleCall_error_frame in blast, rule HandleCall_not_implemented)

section \<open>The invariant\<close>

declare map_of_eq_Some_iff [simp del] Some_eq_map_of_iff [simp del]

lemma dec_field_int: "dec_field dec_int v name kvs = Some i \<Longrightarrow> int64_range v \<Longrightarrow> int64_range i"
proof (induction kvs arbitrary: v)
  case (Cons kj kvs)
  then show ?case
    by (cases kj) (auto simp: dec_int_def in_range64_def split: if_splits option.splits json.splits)
qed simp

lemma dec_field_int_pointer:
  "dec_field (dec_pointer dec_int) v name kvs = Some i \<Longrightarrow> pred_option int64_range v \<Longrightarrow> pred_option int64_range i"
proof (induction kvs arbitrary: v)
  case (Cons kj kvs)
  then show ?case
    by (cases kj) (auto simp: dec_pointer_def dec_int_def in_range64_def split: if_splits option.splits json.splits)
qed simp

lemma zero_range [simp]: "int64_range 0" "int64_range 1"
  by (simp_all add: int64_range_def)

lemma dec_StartTransactionReq_range:
  assumes "dec_StartTransactionReq j = Some req"
  shows "int64_range (sq_ConnectorID req)" and "int64_range (sq_MeterStart req)" and "pred_option int64_range (sq_ReservationID req)"
  using assms
  by (auto simp: dec_StartTransactionReq_def dec_struct_def zero_StartTransactionReq_def split: json.splits bind_splits
      dest: dec_field_int dec_field_int_pointer)

lemma decode_StartTransactionReq_range:
  assumes "decode_req je dec_StartTransactionReq zero_StartTransactionReq payload = Inr req"
  shows "int64_range (sq_ConnectorID req) \<and> int64_range (sq_MeterStart req) \<and> pred_option int64_range (sq_ReservationID req)"
  using assms dec_StartTransactionReq_range
  by (auto simp: decode_req_def zero_StartTransactionReq_def split: option.splits)

lemma start_of_req_range:
  "int64_range (sq_ConnectorID req) \<and> int64_range (sq_MeterStart req) \<and> pred_option int64_range (sq_ReservationID req)
   \<Longrightarrow> start_range (start_of_req env req i)"
  by (auto simp: start_range_def start_of_req_def split: option.splits)

lemma NextTransactionID_inv:
  "svc_inv s \<Longrightarrow> svc_nextTransactionID s < max_int64 \<Longrightarrow> svc_inv (fst (NextTransactionID w s))"
  using NextTransactionID_locked_inv [of s]
  by (cases "NextTransactionID_locked s") (simp add: NextTransactionID_def persist_inv)

lemma StartTransaction_inv:
  assumes "svc_inv s" and "start_range t"
  shows "svc_inv (fst (StartTransaction w now cpID t s))"
proof -
  let ?t = "if IsZero (ts_At t) then t\<lparr>ts_At := now\<rparr> else t"
  have "start_range ?t" using assms(2) by (simp add: start_range_def)
  then have "svc_inv (fst (StartTransaction_locked now cpID ?t s))" by (rule StartTransaction_locked_inv [OF assms(1)])
  then show ?thesis
    by (cases "StartTransaction_locked now cpID ?t s") (simp add: StartTransaction_def persist_inv del: if_split)
qed

lemma StopTransaction_inv: "svc_inv s \<Longrightarrow> svc_inv (fst (StopTransaction w now cpID tx m reason at s))"
proof -
  assume s: "svc_inv s"
  let ?at = "if IsZero at then now else at"
  have "svc_inv (fst (StopTransaction_locked now cpID tx m reason ?at s))" by (rule StopTransaction_locked_inv [OF s])
  then show ?thesis by (auto simp: StopTransaction_def Let_def persist_inv split: prod.split option.split)
qed

lemma handlers_inv:
  assumes "svc_inv s"
  shows "svc_inv (fst (bootNotification cfg env cpID payload s))"
    and "svc_inv (fst (heartbeat env cpID s))"
    and "svc_inv (fst (statusNotification env cpID payload s))"
    and "svc_inv (fst (authorize cfg env cpID payload s))"
    and "svc_inv (fst (stopTransaction env cpID payload s))"
    and "svc_inv (fst (meterValues env cpID payload s))"
    and "svc_inv (fst (dataTransfer env cpID payload s))"
    and "svc_inv (fst (statusOnly env cpID payload s))"
  using assms
  by (simp_all add: bootNotification_def heartbeat_def statusNotification_def authorize_def stopTransaction_def
      meterValues_def dataTransfer_def statusOnly_def Let_def Booted_inv Heartbeat_inv SetConnectorStatus_inv Seen_inv
      RecordMeterValues_inv StopTransaction_inv split: sum.split option.split)

lemma HandleCall_inv:
  assumes "svc_inv s" and "svc_nextTransactionID s < max_int64"
  shows "svc_inv (fst (HandleCall cfg env cpID action payload s))"
proof -
  have start: "svc_inv (fst (startTransaction cfg env cpID payload s))"
  proof (cases "decode_req (ce_jsonErr env) dec_StartTransactionReq zero_StartTransactionReq payload")
    case (Inr req)
    obtain s1 i where n: "NextTransactionID (ce_write1 env) s = (s1, i)" by (rule prod.exhaust)
    then have "svc_inv s1" using NextTransactionID_inv [OF assms, of "ce_write1 env"] by simp
    then have "svc_inv (fst (StartTransaction (ce_write2 env) (ce_now env) cpID (start_of_req env req i) s1))"
      using start_of_req_range [OF decode_StartTransactionReq_range [OF Inr]] by (rule StartTransaction_inv)
    then show ?thesis using assms(1) Seen_inv n Inr
      by (auto simp: startTransaction_def split: option.splits prod.splits)
  qed (use assms(1) in \<open>simp add: startTransaction_def\<close>)
  show ?thesis using assms(1) start by (simp add: HandleCall_def handlers_inv)
qed

section \<open>Sessions\<close>

text \<open>The sessions of a charge point, by transaction id.\<close>

definition sessions :: "Service \<Rightarrow> string \<Rightarrow> (string \<rightharpoonup> Transaction)" where
  "sessions s cpID = map_of (cp_transactions (ensure s cpID))"

lemma ensure_put [simp]: "ensure (put_cp i cp s) j = (if j = i then cp else ensure s j)"
  by (simp add: ensure_def put_cp_def)

lemma ensure_frame [simp]:
  "ensure (svc_publish es s) i = ensure s i" "ensure (s\<lparr>svc_reservations := rs\<rparr>) i = ensure s i"
  "ensure (s\<lparr>svc_txSeq := n\<rparr>) i = ensure s i" "ensure (s\<lparr>svc_nextTransactionID := n\<rparr>) i = ensure s i"
  by (simp_all add: ensure_def svc_publish_def)

lemma ensure_persist [simp]: "ensure (fst (persist w s)) i = ensure s i"
  by (simp add: ensure_def)

lemma Seen_frame:
  "sessions (Seen now cpID s) = sessions s" "svc_reservations (Seen now cpID s) = svc_reservations s"
  "svc_store (Seen now cpID s) = svc_store s" "svc_nextTransactionID (Seen now cpID s) = svc_nextTransactionID s"
  by (auto simp: Seen_def sessions_def fun_eq_iff) (simp_all add: put_cp_def)

text \<open>A decoded request that passes validation, with a tag that is not the configured one.\<close>

lemma start_refused:
  assumes "decode_req (ce_jsonErr env) dec_StartTransactionReq zero_StartTransactionReq payload = Inr req"
    and "validate_StartTransactionReq req = None" and "\<not> knownTag cfg (sq_IDTag req)"
  shows "HandleCall cfg env cpID ''StartTransaction'' payload s =
    (Seen (ce_now env) cpID s, Inr (StartTransactionConf 0 (tag_info AuthInvalid)))"
  using assms by (simp add: HandleCall_def startTransaction_def)

lemma NextTransactionID_eq:
  "NextTransactionID w s = (fst (persist w (s\<lparr>svc_nextTransactionID := wrap64 (svc_nextTransactionID s + 1)\<rparr>)), svc_nextTransactionID s)"
  by (simp add: NextTransactionID_def NextTransactionID_locked_def)

lemma accepted_start:
  assumes "decode_req (ce_jsonErr env) dec_StartTransactionReq zero_StartTransactionReq payload = Inr req"
    and "validate_StartTransactionReq req = None" and "knownTag cfg (sq_IDTag req)"
  shows "HandleCall cfg env cpID ''StartTransaction'' payload s =
    (fst (StartTransaction (ce_write2 env) (ce_now env) cpID (start_of_req env req (svc_nextTransactionID s))
       (fst (persist (ce_write1 env) (s\<lparr>svc_nextTransactionID := wrap64 (svc_nextTransactionID s + 1)\<rparr>)))),
     Inr (StartTransactionConf (svc_nextTransactionID s) (tag_info AuthAccepted)))"
proof -
  have "HandleCall cfg env cpID ''StartTransaction'' payload s = startTransaction cfg env cpID payload s"
    by (simp add: HandleCall_def)
  then show ?thesis using assms by (simp add: startTransaction_def NextTransactionID_eq split_beta)
qed

lemma evseUID_cfg: "svc_cfg s' = svc_cfg s \<Longrightarrow> evseUID s' = evseUID s"
  by (simp add: evseUID_def fun_eq_iff)

lemma redeemedLocked_cong: "svc_reservations s' = svc_reservations s \<Longrightarrow> redeemedLocked s' = redeemedLocked s"
  by (simp add: redeemedLocked_def Let_def fun_eq_iff)

lemma reservationOnEVSELocked_cong:
  "svc_reservations s' = svc_reservations s \<Longrightarrow> reservationOnEVSELocked s' = reservationOnEVSELocked s"
  by (simp add: reservationOnEVSELocked_def fun_eq_iff)

lemma start_ends_cong:
  assumes "svc_reservations s' = svc_reservations s" and "svc_cfg s' = svc_cfg s"
  shows "start_ends s' cpID t = start_ends s cpID t"
  unfolding start_ends_def evseUID_cfg [OF assms(2)] redeemedLocked_cong [OF assms(1)]
    reservationOnEVSELocked_cong [OF assms(1)] ..

lemma StartTransaction_effect:
  fixes t now
  defines "t' \<equiv> (if IsZero (ts_At t) then t\<lparr>ts_At := now\<rparr> else t)"
  shows "sessions (fst (StartTransaction w now cpID t s)) cpID = (sessions s cpID)(ts_ID t \<mapsto> snd (StartTransaction w now cpID t s))"
    and "svc_reservations (fst (StartTransaction w now cpID t s)) =
      (case start_ends s cpID t' of None \<Rightarrow> svc_reservations s | Some (r, _) \<Rightarrow> m_del (r_ID (rs_res r)) (svc_reservations s))"
    and "tx_ID (snd (StartTransaction w now cpID t s)) = ts_ID t"
    and "tx_IDTag (snd (StartTransaction w now cpID t s)) = ts_IDTag t"
    and "tx_EVSEUID (snd (StartTransaction w now cpID t s)) = evseUID s cpID (ts_ConnectorID t)"
    and "tx_Active (snd (StartTransaction w now cpID t s))"
    and "tx_ReservationID (snd (StartTransaction w now cpID t s)) = start_reservation s cpID t'"
  unfolding StartTransaction_def Let_def t'_def [symmetric] StartTransaction_locked_eq
  by (simp_all add: sessions_def t'_def tx_Active_def IsZero_def zero_time_def)

text \<open>
  A session ends once: \<open>StopTransaction\<close> on a running session closes it with the reading and the reason it was given, keeps its id, tag and
  EVSE, and any further \<open>StopTransaction\<close> for it finds nothing to stop.
\<close>

lemma session_stops_once:
  assumes "StopTransaction w now cpID txID m reason at s = (s1, Some t)" and "\<not> IsZero now"
  shows "\<not> tx_Active t \<and> tx_MeterStop t = m \<and> tx_Reason t = reason \<and> sessions s1 cpID = (sessions s cpID)(txID \<mapsto> t)
    \<and> (\<exists>t0. sessions s cpID txID = Some t0 \<and> tx_Active t0 \<and> tx_ID t = tx_ID t0 \<and> tx_IDTag t = tx_IDTag t0 \<and> tx_EVSEUID t = tx_EVSEUID t0)
    \<and> snd (StopTransaction w' now' cpID txID m' reason' at' s1) = None"
proof -
  obtain t0 where t0: "map_of (cp_transactions (ensure s cpID)) txID = Some t0" "tx_Active t0"
    and t: "t = t0\<lparr>tx_StoppedAt := (if IsZero at then now else at), tx_MeterStop := m, tx_Reason := reason\<rparr>"
    and s1: "sessions s1 cpID = (sessions s cpID)(txID \<mapsto> t)"
    using assms(1) by (auto simp: StopTransaction_def StopTransaction_locked_def Let_def sessions_def split: option.splits if_splits)
  have na: "\<not> tx_Active t" using assms(2) by (auto simp: t tx_Active_def)
  have "map_of (cp_transactions (ensure s1 cpID)) txID = Some t" using s1 by (simp add: sessions_def)
  then have "snd (StopTransaction w' now' cpID txID m' reason' at' s1) = None"
    using na by (simp add: StopTransaction_def StopTransaction_locked_def)
  then show ?thesis using na s1 t0 t by (simp add: sessions_def)
qed

end
