(* ===== verification/Ocpptest.thy ===== *)
theory Ocpptest
  imports Ocppj_Conn Csms
begin

text \<open>
  \<open>internal/ocpptest/client.go\<close>: the raw OCPP-J client the tests drive a server with. It has framing code of its own,
  which is shown to agree with that of \<open>ocppj\<close>: what either side writes, the other reads, and a call of
  the client through a connection of the server ends with what the server's handler answered.
\<close>

declare map_of_eq_Some_iff [simp del] Some_eq_map_of_iff [simp del]

section \<open>Data\<close>

definition TypeCall :: int where "TypeCall = 2"
definition TypeCallResult :: int where "TypeCallResult = 3"
definition TypeCallError :: int where "TypeCallError = 4"

lemmas test_types = TypeCall_def TypeCallResult_def TypeCallError_def message_types

record TestResponse =
  tr_Type :: int
  tr_ID :: string
  tr_Payload :: "json option"
  tr_ErrorCode :: string
  tr_ErrorDescription :: string

definition IsError :: "TestResponse \<Rightarrow> bool" where
  "IsError r \<longleftrightarrow> tr_Type r = TypeCallError"

record TestCall =
  tl_ID :: string
  tl_Action :: string
  tl_Payload :: json

text \<open>
  A handler gives an error text or a result, where \<open>None\<close> is a nil result. \<open>tc_pending\<close> maps an id to its
  channel of capacity one, \<open>tc_sent\<close> is what was written to the socket.
\<close>

type_synonym test_handler = "TestCall \<Rightarrow> string + json option"

record TestClient =
  tc_pending :: "(string \<times> TestResponse list) list"
  tc_nextID :: int
  tc_handler :: "test_handler option"
  tc_unsolicited :: "TestResponse list"
  tc_sent :: "message list"
  tc_done :: bool

definition unsolicited_cap :: nat where
  "unsolicited_cap = 16"

section \<open>Dialling\<close>

record Handshake =
  hk_StatusCode :: int
  hk_Subprotocol :: string

text \<open>
  \<open>dial\<close> is the WebSocket library: the response to the upgrade, if there was one, as its status and the
  subprotocol it echoes, and whether the connection was made.
\<close>

definition test_Dial :: "(string list \<Rightarrow> (int \<times> string) option \<times> bool) \<Rightarrow> string list \<Rightarrow> TestClient option \<times> Handshake" where
  "test_Dial dial subprotocols =
     (let (resp, made) = dial subprotocols;
          hs = (case resp of None \<Rightarrow> \<lparr>hk_StatusCode = 0, hk_Subprotocol = []\<rparr>
                | Some (code, sub) \<Rightarrow> \<lparr>hk_StatusCode = code, hk_Subprotocol = sub\<rparr>)
      in (if made then Some \<lparr>tc_pending = [], tc_nextID = 0, tc_handler = None, tc_unsolicited = [], tc_sent = [], tc_done = False\<rparr>
          else None, hs))"

section \<open>Operations\<close>

definition OnCall :: "test_handler \<Rightarrow> TestClient \<Rightarrow> TestClient" where
  "OnCall fn c = c\<lparr>tc_handler := Some fn\<rparr>"

definition SendRaw :: "message \<Rightarrow> TestClient \<Rightarrow> TestClient" where
  "SendRaw data c = c\<lparr>tc_sent := tc_sent c @ [data]\<rparr>"

text \<open>
  \<open>Call\<close> up to its wait, and the end of the wait: an answer that has come is taken (where the connection has ended as well, the
  code may report either), and the entry is removed.
\<close>

definition test_call_begin :: "string \<Rightarrow> json option \<Rightarrow> TestClient \<Rightarrow> TestClient \<times> string" where
  "test_call_begin action payload c =
     (let n = wrap64 (tc_nextID c + 1); i = Itoa n
      in (SendRaw (Some (JArr [JNum TypeCall, JStr i, JStr action, (case payload of None \<Rightarrow> JObj [] | Some p \<Rightarrow> p)]))
            (c\<lparr>tc_nextID := n, tc_pending := m_put i [] (tc_pending c)\<rparr>), i))"

datatype test_error = ClosedWhileWaiting | NoAnswer

definition test_call_end :: "string \<Rightarrow> TestClient \<Rightarrow> TestClient \<times> (test_error + TestResponse)" where
  "test_call_end i c = (c\<lparr>tc_pending := m_del i (tc_pending c)\<rparr>,
     case map_of (tc_pending c) i of
       Some (r # _) \<Rightarrow> Inr r
     | _ \<Rightarrow> if tc_done c then Inl ClosedWhileWaiting else Inl NoAnswer)"

text \<open>What \<open>MustCall\<close> and \<open>CallExpectingError\<close> make of it; \<open>None\<close> fails the test.\<close>

definition MustCall_result :: "test_error + TestResponse \<Rightarrow> json option option" where
  "MustCall_result r = (case r of Inl _ \<Rightarrow> None | Inr resp \<Rightarrow> if IsError resp then None else Some (tr_Payload resp))"

definition CallExpectingError_result :: "test_error + TestResponse \<Rightarrow> TestResponse option" where
  "CallExpectingError_result r = (case r of Inl _ \<Rightarrow> None | Inr resp \<Rightarrow> if IsError resp then Some resp else None)"

definition NextUnsolicited :: "TestClient \<Rightarrow> TestClient \<times> TestResponse option" where
  "NextUnsolicited c = (case tc_unsolicited c of [] \<Rightarrow> (c, None) | r # rs \<Rightarrow> (c\<lparr>tc_unsolicited := rs\<rparr>, Some r))"

definition test_Close :: "TestClient \<Rightarrow> TestClient" where
  "test_Close c = c\<lparr>tc_done := True\<rparr>"

definition route :: "TestResponse \<Rightarrow> TestClient \<Rightarrow> TestClient" where
  "route resp c =
     (case map_of (tc_pending c) (tr_ID resp) of
        Some ch \<Rightarrow> if ch = [] then c\<lparr>tc_pending := m_put (tr_ID resp) [resp] (tc_pending c)\<rparr> else c
      | None \<Rightarrow> if length (tc_unsolicited c) < unsolicited_cap then c\<lparr>tc_unsolicited := tc_unsolicited c @ [resp]\<rparr> else c)"

definition answerCall :: "json list \<Rightarrow> string \<Rightarrow> TestClient \<Rightarrow> TestClient" where
  "answerCall raw i c =
     (if length raw < 4 then c
      else case dec_into dec_string [] (raw ! 2) of
             None \<Rightarrow> c
           | Some action \<Rightarrow>
               (case tc_handler c of
                  None \<Rightarrow> SendRaw (Some (JArr [JNum TypeCallError, JStr i, JStr ''NotImplemented'', JStr ''no handler registered'', JObj []])) c
                | Some h \<Rightarrow>
                    (case h \<lparr>tl_ID = i, tl_Action = action, tl_Payload = raw ! 3\<rparr> of
                       Inl e \<Rightarrow> SendRaw (Some (JArr [JNum TypeCallError, JStr i, JStr ''GenericError'', JStr e, JObj []])) c
                     | Inr r \<Rightarrow> SendRaw (Some (JArr [JNum TypeCallResult, JStr i, (case r of None \<Rightarrow> JObj [] | Some v \<Rightarrow> v)])) c)))"

text \<open>One round of \<open>readLoop\<close> with the message that arrived, and a failed read.\<close>

definition test_read :: "message \<Rightarrow> TestClient \<Rightarrow> TestClient" where
  "test_read data c =
     (case dec_raw_array data of
        None \<Rightarrow> c
      | Some raw \<Rightarrow>
          if length raw < 3 then c
          else case dec_into dec_int 0 (raw ! 0) of
                 None \<Rightarrow> c
               | Some typ \<Rightarrow>
                   (case dec_into dec_string [] (raw ! 1) of
                      None \<Rightarrow> c
                    | Some i \<Rightarrow>
                        let resp = \<lparr>tr_Type = typ, tr_ID = i, tr_Payload = None, tr_ErrorCode = [], tr_ErrorDescription = []\<rparr>;
                            str = (\<lambda>j. case dec_into dec_string [] j of None \<Rightarrow> [] | Some s \<Rightarrow> s)
                        in if typ = TypeCall then answerCall raw i c
                           else if typ = TypeCallResult then route (resp\<lparr>tr_Payload := Some (raw ! 2)\<rparr>) c
                           else if typ = TypeCallError
                           then route (resp\<lparr>tr_ErrorCode := str (raw ! 2),
                                            tr_ErrorDescription := (if 3 < length raw then str (raw ! 3) else [])\<rparr>) c
                           else c))"

definition test_read_fails :: "TestClient \<Rightarrow> TestClient" where
  "test_read_fails c = test_Close c"

section \<open>Agreement with ocppj\<close>

text \<open>The two encoders write the same frames.\<close>

lemma test_call_frame:
  "test_call_begin action payload c = (SendRaw (EncodeCall (Itoa (wrap64 (tc_nextID c + 1))) action payload)
       (c\<lparr>tc_nextID := wrap64 (tc_nextID c + 1), tc_pending := m_put (Itoa (wrap64 (tc_nextID c + 1))) [] (tc_pending c)\<rparr>),
     Itoa (wrap64 (tc_nextID c + 1)))"
  by (simp add: test_call_begin_def EncodeCall_def payload_or_empty_def test_types Let_def split: option.split)

lemma answerCall_frames:
  assumes "dec_into dec_string [] (raw ! 2) = Some action" and "4 \<le> length raw"
  shows "answerCall raw i c = SendRaw (case tc_handler c of
      None \<Rightarrow> EncodeCallError i (Errorf ErrNotImplemented ''no handler registered'')
    | Some h \<Rightarrow> (case h \<lparr>tl_ID = i, tl_Action = action, tl_Payload = raw ! 3\<rparr> of
          Inl e \<Rightarrow> EncodeCallError i (Errorf ErrGenericError e)
        | Inr r \<Rightarrow> EncodeCallResult i r)) c"
  using assms
  by (auto simp: answerCall_def EncodeCallError_def EncodeCallResult_def payload_or_empty_def test_types Errorf_def
      ErrNotImplemented_def ErrGenericError_def split: option.split sum.split)

text \<open>
  The two readers agree on every message \<open>ParseFrame\<close> accepts; those it refuses are dropped or read
  leniently by the client.
\<close>

definition response_of :: "Frame \<Rightarrow> TestResponse" where
  "response_of f = \<lparr>tr_Type = fr_Type f, tr_ID = fr_ID f, tr_Payload = fr_Payload f, tr_ErrorCode = fr_ErrorCode f,
     tr_ErrorDescription = fr_ErrorDescription f\<rparr>"

lemma test_read_parsed:
  assumes "ParseFrame je data = Inr f"
  shows "test_read data c = (if fr_Type f = MessageTypeCall
      then SendRaw (case tc_handler c of
          None \<Rightarrow> EncodeCallError (fr_ID f) (Errorf ErrNotImplemented ''no handler registered'')
        | Some h \<Rightarrow> (case h \<lparr>tl_ID = fr_ID f, tl_Action = fr_Action f, tl_Payload = the (fr_Payload f)\<rparr> of
              Inl e \<Rightarrow> EncodeCallError (fr_ID f) (Errorf ErrGenericError e)
            | Inr r \<Rightarrow> EncodeCallResult (fr_ID f) r)) c
      else route (response_of f) c)"
proof -
  obtain raw ty i where p: "dec_raw_array data = Some raw" "3 \<le> length raw" "dec_into dec_int 0 (raw ! 0) = Some ty"
      "dec_into dec_string [] (raw ! 1) = Some i" "parse_typed ty i raw = Inr f"
    using assms by (auto simp: ParseFrame_def split: option.splits if_splits)
  show ?thesis
  proof (cases "ty = MessageTypeCall")
    case True
    then obtain action where a: "length raw = 4" "dec_into dec_string [] (raw ! 2) = Some action"
        "f = (new_Frame ty i)\<lparr>fr_Action := action, fr_Payload := Some (raw ! 3)\<rparr>"
      using p(5) by (auto simp: parse_typed_def Let_def split: if_splits option.splits)
    have "test_read data c = answerCall raw i c" using p a(1) True by (simp add: test_read_def test_types Let_def)
    then show ?thesis using answerCall_frames [OF a(2), of i c] a(1) True unfolding a(3)
      by (simp add: new_Frame_def split: option.split sum.split)
  next
    case False
    then show ?thesis using p
      by (auto simp: parse_typed_def test_read_def test_types Let_def new_Frame_def response_of_def split: if_splits option.splits)
  qed
qed

lemma test_read_answer:
  assumes "i \<noteq> []"
  shows "test_read (answer_frame enc i r) c = route (case r of
      Inl e \<Rightarrow> \<lparr>tr_Type = TypeCallError, tr_ID = i, tr_Payload = None, tr_ErrorCode = re_Code e, tr_ErrorDescription = re_Description e\<rparr>
    | Inr v \<Rightarrow> \<lparr>tr_Type = TypeCallResult, tr_ID = i, tr_Payload = Some (enc v), tr_ErrorCode = [], tr_ErrorDescription = []\<rparr>) c"
  using test_read_parsed [OF ParseFrame_EncodeCallError [OF assms]] test_read_parsed [OF ParseFrame_EncodeCallResult [OF assms]]
  by (auto simp: answer_frame_def response_of_def new_Frame_def test_types payload_or_empty_def split: sum.split)

lemma test_call_end_routed:
  assumes "map_of (tc_pending c) (tr_ID resp) = Some []"
  shows "snd (test_call_end (tr_ID resp) (route resp c)) = Inr resp"
  using assms by (simp add: test_call_end_def route_def)

lemma Itoa_nonempty: "Itoa n \<noteq> []"
  by (simp add: Itoa_def)

text \<open>
  A call of the client, read by the server's connection, handled, and its answer read by the client:
  the call returns what the handler said.
\<close>

lemma test_call_roundtrip:
  assumes "action \<noteq> []" and "test_call_begin action payload c = (c1, i)" and "last (tc_sent c1) = d"
    and "\<not> co_done srv" and "read_message je d srv = srv'"
  shows "\<exists>f. co_calls srv' = co_calls srv @ [f] \<and>
    (\<forall>s' m. handle_call False handle enc f s = (s', m) \<longrightarrow>
       (case handle action (Some (payload_or_empty payload)) s of
          (s'', Inr v) \<Rightarrow> s' = s'' \<and> MustCall_result (snd (test_call_end i (test_read m c1))) = Some (Some (enc v))
        | (s'', Inl e) \<Rightarrow> s' = s'' \<and> (\<exists>resp. CallExpectingError_result (snd (test_call_end i (test_read m c1))) = Some resp
            \<and> tr_ErrorCode resp = re_Code e \<and> tr_ErrorDescription resp = re_Description e)))"
proof -
  let ?f = "(new_Frame MessageTypeCall i)\<lparr>fr_Action := action, fr_Payload := Some (payload_or_empty payload)\<rparr>"
  have c1: "d = EncodeCall i action payload" "map_of (tc_pending c1) i = Some []" "i \<noteq> []"
    using assms(2,3) Itoa_nonempty by (auto simp: test_call_frame SendRaw_def)
  have "co_calls srv' = co_calls srv @ [?f]"
    using assms(1,4,5) c1 by (auto simp: read_message_def ParseFrame_EncodeCall new_Frame_def)
  moreover have "test_read (answer_frame enc i r) c1 = route (case r of
      Inl e \<Rightarrow> \<lparr>tr_Type = TypeCallError, tr_ID = i, tr_Payload = None, tr_ErrorCode = re_Code e, tr_ErrorDescription = re_Description e\<rparr>
    | Inr v \<Rightarrow> \<lparr>tr_Type = TypeCallResult, tr_ID = i, tr_Payload = Some (enc v), tr_ErrorCode = [], tr_ErrorDescription = []\<rparr>) c1" for r
    by (rule test_read_answer [OF c1(3)])
  ultimately show ?thesis
    by (intro exI [of _ ?f]) (auto simp: handle_call_def dispatch_def new_Frame_def split: prod.splits sum.splits
        simp: test_call_end_def route_def c1(2) MustCall_result_def CallExpectingError_result_def IsError_def test_types)
qed

end
