(* ===== verification/Protocol_Properties.thy ===== *)
theory Protocol_Properties
  imports Service_Properties V16_Handler Ocpptest
begin

text \<open>
  What the OCPP side promises: charging sessions as the 1.6 handler records them, answers to every call, frames
  and payloads that survive the wire, calls that return what the peer answered, and a registry of
  connections that agrees with what core believes.
\<close>

declare map_of_eq_Some_iff [simp del] Some_eq_map_of_iff [simp del]

section \<open>Sessions\<close>

text \<open>
  C8. A StartTransaction of the station is answered by its tag. With an unknown tag no session starts: the answer is
  Invalid with transaction id 0, and sessions, reservations and the id counter are as before. With the
  known tag the answer carries a new id, under which a running session with the request's connector and
  tag is recorded, and the counter has moved past it.
\<close>

theorem start_answered:
  assumes "decode_req (ce_jsonErr env) dec_StartTransactionReq zero_StartTransactionReq payload = Inr req"
    and "validate_StartTransactionReq req = None"
    and "HandleCall cfg env cpID ''StartTransaction'' payload s = (s', reply)"
  shows "if knownTag cfg (sq_IDTag req)
    then reply = Inr (StartTransactionConf (svc_nextTransactionID s) (tag_info AuthAccepted))
      \<and> svc_nextTransactionID s' = wrap64 (svc_nextTransactionID s + 1)
      \<and> (\<exists>tx. sessions s' cpID = (sessions s cpID)(Itoa (svc_nextTransactionID s) \<mapsto> tx) \<and> tx_Active tx
           \<and> tx_IDTag tx = sq_IDTag req \<and> tx_EVSEUID tx = evseUID s cpID (sq_ConnectorID req))
    else reply = Inr (StartTransactionConf 0 (tag_info AuthInvalid)) \<and> sessions s' = sessions s
      \<and> svc_reservations s' = svc_reservations s \<and> svc_nextTransactionID s' = svc_nextTransactionID s"
proof (cases "knownTag cfg (sq_IDTag req)")
  case False
  then show ?thesis using start_refused [OF assms(1,2) False] assms(3) by (auto simp: Seen_frame)
next
  case True
  let ?i = "svc_nextTransactionID s"
  let ?s1 = "fst (persist (ce_write1 env) (s\<lparr>svc_nextTransactionID := wrap64 (?i + 1)\<rparr>))"
  let ?t = "start_of_req env req ?i"
  let ?tx = "snd (StartTransaction (ce_write2 env) (ce_now env) cpID ?t ?s1)"
  have st: "s' = fst (StartTransaction (ce_write2 env) (ce_now env) cpID ?t ?s1)"
    and r: "reply = Inr (StartTransactionConf ?i (tag_info AuthAccepted))"
    using trans [OF assms(3) [symmetric] accepted_start [OF assms(1,2) True]] unfolding prod.inject by blast+
  have e: "sessions ?s1 = sessions s" by (simp add: sessions_def fun_eq_iff)
  have u: "evseUID ?s1 = evseUID s" by (rule evseUID_cfg) simp
  have n: "svc_nextTransactionID s' = wrap64 (?i + 1)"
    unfolding st by (simp add: StartTransaction_def StartTransaction_locked_eq Let_def put_cp_def)
  note f = StartTransaction_effect [of "ce_write2 env" "ce_now env" cpID ?t ?s1, unfolded e u, folded st]
  have "sessions s' cpID = (sessions s cpID)(Itoa ?i \<mapsto> ?tx) \<and> tx_Active ?tx \<and> tx_IDTag ?tx = sq_IDTag req
      \<and> tx_EVSEUID ?tx = evseUID s cpID (sq_ConnectorID req)"
    using f(1,4-6) by (simp add: start_of_req_def)
  then show ?thesis using True r n by auto
qed

definition example_call_env :: call_env where
  "example_call_env = \<lparr>ce_now = example_now, ce_write1 = example_env, ce_write2 = example_env, ce_jsonErr = []\<rparr>"

definition example_start :: "string \<Rightarrow> json" where
  "example_start tag = JObj [(''connectorId'', JNum 1), (''idTag'', JStr tag), (''meterStart'', JNum 0), (''timestamp'', JStr [])]"

definition example_start_req :: "string \<Rightarrow> StartTransactionReq" where
  "example_start_req tag = zero_StartTransactionReq\<lparr>sq_ConnectorID := 1, sq_IDTag := tag\<rparr>"

lemma example_start_decodes:
  "decode_req [] dec_StartTransactionReq zero_StartTransactionReq (Some (example_start ''TAG'')) = Inr (example_start_req ''TAG'')"
  "decode_req [] dec_StartTransactionReq zero_StartTransactionReq (Some (example_start ''X'')) = Inr (example_start_req ''X'')"
  "validate_StartTransactionReq (example_start_req ''TAG'') = None" "validate_StartTransactionReq (example_start_req ''X'') = None"
  by code_simp+

lemma example_tags: "knownTag example_cfg ''TAG''" "\<not> knownTag example_cfg ''X''"
  by (simp_all add: knownTag_def example_cfg_def EqualFold_def) code_simp

theorem start_answered_witness:
  "snd (HandleCall example_cfg example_call_env ''CP1'' ''StartTransaction'' (Some (example_start ''TAG'')) example_svc)
     = Inr (StartTransactionConf (svc_nextTransactionID example_svc) (tag_info AuthAccepted))
   \<and> snd (HandleCall example_cfg example_call_env ''CP1'' ''StartTransaction'' (Some (example_start ''X'')) example_svc)
     = Inr (StartTransactionConf 0 (tag_info AuthInvalid))"
proof -
  have j: "ce_jsonErr example_call_env = []" by (simp add: example_call_env_def)
  obtain s1 r1 where h1: "HandleCall example_cfg example_call_env ''CP1'' ''StartTransaction'' (Some (example_start ''TAG'')) example_svc = (s1, r1)"
    by (rule prod.exhaust)
  obtain s2 r2 where h2: "HandleCall example_cfg example_call_env ''CP1'' ''StartTransaction'' (Some (example_start ''X'')) example_svc = (s2, r2)"
    by (rule prod.exhaust)
  show ?thesis
    using start_answered [OF _ example_start_decodes(3) h1] start_answered [OF _ example_start_decodes(4) h2] h1 h2
      example_start_decodes(1,2) example_tags by (simp add: j example_start_req_def)
qed

text \<open>
  C21. Every call a station makes is answered once: the answer is a well-formed frame under the id of the call,
  and when it is an error the domain state is as it was before the call. An action that OCPP 1.6 does
  not give to the central system is answered NotImplemented.
\<close>

theorem calls_answered:
  assumes "fr_ID f \<noteq> []" and "handle_call False (HandleCall cfg env cpID) enc_conf f s = (s', m)"
  shows "(\<exists>g. ParseFrame je m = Inr g \<and> fr_ID g = fr_ID f
      \<and> (fr_Type g = MessageTypeCallError \<longrightarrow> s' = s) \<and> (fr_Type g \<noteq> MessageTypeCallError \<longrightarrow> fr_Type g = MessageTypeCallResult))
    \<and> (\<not> v16_known (fr_Action f) \<longrightarrow> s' = s \<and> (\<exists>d. m = EncodeCallError (fr_ID f) (Errorf ErrNotImplemented d)))"
  using v16.answered [OF assms] v16.unknown_action_answer [of f cfg env cpID enc_conf s] assms(2) by auto

theorem calls_answered_witness:
  "\<exists>d. handle_call False (HandleCall example_cfg example_call_env ''CP1'') enc_conf ((new_Frame MessageTypeCall ''7'')\<lparr>fr_Action := ''Reset''\<rparr>) example_svc
     = (example_svc, EncodeCallError ''7'' (Errorf ErrNotImplemented d))"
proof -
  let ?f = "(new_Frame MessageTypeCall ''7'')\<lparr>fr_Action := ''Reset''\<rparr>"
  obtain s' m where h: "handle_call False (HandleCall example_cfg example_call_env ''CP1'') enc_conf ?f example_svc = (s', m)"
    by (rule prod.exhaust)
  show ?thesis using calls_answered [OF _ h] h by (auto simp: new_Frame_def v16_known_def)
qed

text \<open>
  C22. Whatever a station sends, the domain invariant holds after its call: exclusive reservations, statuses that
  follow from reports, sessions filed under their ids. (The transaction counter must not be at the last 64-bit value.)
\<close>

theorem calls_keep_invariant:
  assumes "svc_inv s" and "svc_nextTransactionID s < max_int64"
  shows "svc_inv (fst (HandleCall cfg env cpID action payload s))"
  by (rule HandleCall_inv [OF assms])

theorem calls_keep_invariant_witness:
  "svc_inv (fst (HandleCall example_cfg example_call_env ''CP1'' ''StartTransaction'' (Some (example_start ''TAG'')) example_pending))"
proof -
  have "svc_nextTransactionID example_pending = 1"
    by (simp add: begin_state [OF example_begin] example_svc_def New_memory_def Let_def put_cp_def example_cfg_def)
  then show ?thesis by (intro calls_keep_invariant example_pending_inv) (simp add: max_int64_def)
qed

lemma reservation_unique:
  assumes "svc_inv s" and "x \<in> set (m_vals (svc_reservations s))" and "y \<in> set (m_vals (svc_reservations s))"
    and "r_EVSEUID (rs_res x) = r_EVSEUID (rs_res y)"
  shows "x = y"
proof -
  have "distinct (map (\<lambda>r. r_EVSEUID (rs_res r)) (m_vals (svc_reservations s)))"
    using assms(1) by (intro exclusive_distinct) (simp_all add: svc_inv_def res_inv_def)
  then show ?thesis using key_unique assms(2-4) by metis
qed

lemma start_without_id:
  assumes "svc_inv s" and "ts_ReservationID t = 0" and "uid = evseUID s cpID (ts_ConnectorID t)"
  shows "redeemedLocked s cpID uid t = (case reservationOnEVSELocked s cpID uid of None \<Rightarrow> None
     | Some r \<Rightarrow> if EqualFold (r_IDTag (rs_res r)) (ts_IDTag t) then Some r else None)"
proof (cases "reservationOnEVSELocked s cpID uid")
  case None
  then have "redeemedLocked s cpID uid t = None"
    using assms(2) by (auto simp: redeemedLocked_def reservationOnEVSELocked_def find_None_iff)
  then show ?thesis using None by simp
next
  case (Some r)
  have r: "r \<in> set (m_vals (svc_reservations s))" "r_ChargePointID (rs_res r) = cpID" "r_EVSEUID (rs_res r) = uid"
    "r_Status (rs_res r) = ReservationActive"
    using find_in_set [OF Some [unfolded reservationOnEVSELocked_def]] by simp_all
  have red: "redeemedLocked s cpID uid t = List.find (\<lambda>r. r_ChargePointID (rs_res r) = cpID \<and> r_EVSEUID (rs_res r) = uid
      \<and> r_Status (rs_res r) = ReservationActive \<and> EqualFold (r_IDTag (rs_res r)) (ts_IDTag t)) (m_vals (svc_reservations s))"
    using assms(2) by (simp add: redeemedLocked_def)
  show ?thesis
  proof (cases "redeemedLocked s cpID uid t")
    case None
    then have "\<not> EqualFold (r_IDTag (rs_res r)) (ts_IDTag t)" using r unfolding red find_None_iff by blast
    then show ?thesis using None Some by simp
  next
    case (Some r')
    note r' = find_in_set [OF Some [unfolded red]]
    have "r' = r" by (rule reservation_unique [OF assms(1) _ r(1)]) (use r' r(3) in simp_all)
    then show ?thesis using Some r' \<open>reservationOnEVSELocked s cpID uid = Some r\<close> by simp
  qed
qed

text \<open>What a session start publishes.\<close>

lemma StartTransaction_published:
  fixes t now
  defines "t' \<equiv> (if IsZero (ts_At t) then t\<lparr>ts_At := now\<rparr> else t)"
  shows "svc_bus (fst (StartTransaction w now cpID t s)) =
    publishAll (tx_started_event cpID (snd (StartTransaction w now cpID t s)) # (case start_ends s cpID t' of None \<Rightarrow> []
      | Some (r, reason) \<Rightarrow> [reservation_event EventReservationEnded now (rs_res r) reason])) (svc_bus s)"
  unfolding StartTransaction_def Let_def t'_def [symmetric] StartTransaction_locked_eq by (simp add: svc_publish_def put_cp_def)

text \<open>
  C7. A session that names no reservation uses up the one on its EVSE: afterwards no active reservation of the station stands
  there, every other reservation is untouched, and the session carries the reservation's id exactly if it was made
  for the same tag (in any case of letters). Subscribers are told of the session and then of the reservation's end, which is
  consumed for the same tag and failed for another; without a reservation on the EVSE only the session is announced.
\<close>

theorem session_uses_reservation:
  assumes "svc_inv s" and "ts_ReservationID t = 0" and "uid = evseUID s cpID (ts_ConnectorID t)"
    and "StartTransaction w now cpID t s = (s', tx)"
  shows "reservationOnEVSELocked s' cpID uid = None
    \<and> (\<forall>i. map_of (svc_reservations s') i = (if map_option (r_ID \<circ> rs_res) (reservationOnEVSELocked s cpID uid) = Some i
         then None else map_of (svc_reservations s) i))
    \<and> tx_ReservationID tx = (case reservationOnEVSELocked s cpID uid of None \<Rightarrow> 0
         | Some r \<Rightarrow> if EqualFold (r_IDTag (rs_res r)) (ts_IDTag t) then r_ID (rs_res r) else 0)
    \<and> svc_bus s' = publishAll (tx_started_event cpID tx # (case reservationOnEVSELocked s cpID uid of None \<Rightarrow> []
         | Some r \<Rightarrow> [reservation_event EventReservationEnded now (rs_res r)
             (if EqualFold (r_IDTag (rs_res r)) (ts_IDTag t) then ReservationConsumed else ReservationFailed)])) (svc_bus s)"
proof -
  let ?t = "if IsZero (ts_At t) then t\<lparr>ts_At := now\<rparr> else t"
  let ?on = "reservationOnEVSELocked s cpID uid"
  have t: "ts_ReservationID ?t = 0" "uid = evseUID s cpID (ts_ConnectorID ?t)" "ts_IDTag ?t = ts_IDTag t" using assms(2,3) by simp_all
  note red = start_without_id [OF assms(1) t(1,2), unfolded t(3)]
  note e = StartTransaction_effect [of w now cpID t s, unfolded assms(4) prod.sel]
  have m: "svc_reservations s' = (case ?on of None \<Rightarrow> svc_reservations s | Some r \<Rightarrow> m_del (r_ID (rs_res r)) (svc_reservations s))"
    using e(2) red by (simp add: start_ends_def t(2) [symmetric] Let_def split: option.splits if_splits)
  have tx: "tx_ReservationID tx = (case ?on of None \<Rightarrow> 0 | Some r \<Rightarrow> if EqualFold (r_IDTag (rs_res r)) (ts_IDTag t) then r_ID (rs_res r) else 0)"
    using e(7) red t(1) by (simp add: start_reservation_def t(2) [symmetric] split: option.splits if_splits)
  have look: "map_of (svc_reservations s') i = (if map_option (r_ID \<circ> rs_res) ?on = Some i then None else map_of (svc_reservations s) i)" for i
    by (simp add: m split: option.split)
  have "reservationOnEVSELocked s' cpID uid = None"
  proof (cases ?on)
    case (Some r)
    have "r \<in> set (m_vals (svc_reservations s))" "r_EVSEUID (rs_res r) = uid"
      using find_in_set [OF Some [unfolded reservationOnEVSELocked_def]] by simp_all
    then have "reservationOnLocked s' uid = None"
      using reservation_off [OF assms(1) res_id_range(1) [OF assms(1)], of r s'] m Some by simp
    then show ?thesis by (auto simp: reservationOnEVSELocked_def reservationOnLocked_def find_None_iff)
  qed (use m in \<open>simp add: reservationOnEVSELocked_def\<close>)
  moreover have "svc_bus s' = publishAll (tx_started_event cpID tx # (case ?on of None \<Rightarrow> []
         | Some r \<Rightarrow> [reservation_event EventReservationEnded now (rs_res r)
             (if EqualFold (r_IDTag (rs_res r)) (ts_IDTag t) then ReservationConsumed else ReservationFailed)])) (svc_bus s)"
    using StartTransaction_published [of w now cpID t s, unfolded assms(4) prod.sel] red
    by (simp add: start_ends_def t(2) [symmetric] Let_def split: option.splits if_splits)
  ultimately show ?thesis using look tx by blast
qed

lemma example_active_held:
  "\<exists>r. reservationOnEVSELocked example_active ''CP1'' ''E1'' = Some r \<and> r_ID (rs_res r) = 1 \<and> EqualFold (r_IDTag (rs_res r)) ''tag''"
proof -
  have "EqualFold ''TAG'' ''tag''" by code_simp
  then show ?thesis using arg_cong [OF example_active_eq, of svc_reservations]
    by (simp add: reservationOnEVSELocked_def example_reservation_def armLocked_def stopTimer_def)
qed

theorem session_uses_reservation_witness:
  "\<exists>s' tx (r :: reservation). StartTransaction example_env example_now ''CP1'' \<lparr>ts_ID = ''1'', ts_ConnectorID = 1, ts_IDTag = ''tag'', ts_MeterStart = 0,
       ts_ReservationID = 0, ts_At = example_now\<rparr> example_active = (s', tx)
     \<and> reservationOnEVSELocked s' ''CP1'' ''E1'' = None \<and> tx_ReservationID tx = 1 \<and> r_ID (rs_res r) = 1
     \<and> svc_bus s' = publishAll [tx_started_event ''CP1'' tx,
         reservation_event EventReservationEnded example_now (rs_res r) ReservationConsumed] (svc_bus example_active)"
proof -
  let ?t = "\<lparr>ts_ID = ''1'', ts_ConnectorID = 1, ts_IDTag = ''tag'', ts_MeterStart = 0, ts_ReservationID = 0, ts_At = example_now\<rparr>"
  have u: "''E1'' = evseUID example_active ''CP1'' (ts_ConnectorID ?t)"
    by (simp add: evseUID_def example_active_cfg example_cfg_def EVSEByConnectorID_def example_EVSE_def)
  obtain s' tx where s: "StartTransaction example_env example_now ''CP1'' ?t example_active = (s', tx)" by (rule prod.exhaust)
  obtain r where r: "reservationOnEVSELocked example_active ''CP1'' ''E1'' = Some r" "r_ID (rs_res r) = 1" "EqualFold (r_IDTag (rs_res r)) ''tag''"
    using example_active_held by blast
  have "reservationOnEVSELocked s' ''CP1'' ''E1'' = None \<and> tx_ReservationID tx = 1 \<and> svc_bus s' = publishAll [tx_started_event ''CP1'' tx,
      reservation_event EventReservationEnded example_now (rs_res r) ReservationConsumed] (svc_bus example_active)"
    using session_uses_reservation [OF example_active_inv _ u s] r by simp
  then show ?thesis using s r(2) by blast
qed

section \<open>Frames and calls\<close>

text \<open>
  C23. Two framings, one protocol. The client of the tests has framing code of its own: every message \<open>ParseFrame\<close> accepts means the same
  to it (a call is answered by its handler under the id of the call, a result and an error go to the caller of that id),
  and its own call, read by a connection, handled, and answered, returns what the handler said: its result, or its error code and
  description.
\<close>

theorem independent_framing:
  assumes "action \<noteq> []" and "test_call_begin action payload c = (c1, i)" and "last (tc_sent c1) = d"
    and "\<not> co_done srv" and "read_message je d srv = srv'"
  shows "(\<forall>data f. ParseFrame je data = Inr f \<longrightarrow> test_read data c = (if fr_Type f = MessageTypeCall
        then SendRaw (case tc_handler c of
            None \<Rightarrow> EncodeCallError (fr_ID f) (Errorf ErrNotImplemented ''no handler registered'')
          | Some h \<Rightarrow> (case h \<lparr>tl_ID = fr_ID f, tl_Action = fr_Action f, tl_Payload = the (fr_Payload f)\<rparr> of
                Inl e \<Rightarrow> EncodeCallError (fr_ID f) (Errorf ErrGenericError e)
              | Inr r \<Rightarrow> EncodeCallResult (fr_ID f) r)) c
        else route (response_of f) c))
    \<and> (\<exists>f. co_calls srv' = co_calls srv @ [f] \<and>
       (\<forall>s' m. handle_call False handle enc f s = (s', m) \<longrightarrow>
         (case handle action (Some (payload_or_empty payload)) s of
            (s'', Inr v) \<Rightarrow> s' = s'' \<and> MustCall_result (snd (test_call_end i (test_read m c1))) = Some (Some (enc v))
          | (s'', Inl e) \<Rightarrow> s' = s'' \<and> (\<exists>resp. CallExpectingError_result (snd (test_call_end i (test_read m c1))) = Some resp
              \<and> tr_ErrorCode resp = re_Code e \<and> tr_ErrorDescription resp = re_Description e))))"
  by (intro conjI allI impI, erule test_read_parsed, rule test_call_roundtrip [OF assms])

definition example_client :: TestClient where
  "example_client = \<lparr>tc_pending = [], tc_nextID = 0, tc_handler = None, tc_unsolicited = [], tc_sent = [], tc_done = False\<rparr>"

theorem independent_framing_witness:
  "test_read (EncodeCall ''7'' ''Reset'' None) example_client
     = SendRaw (EncodeCallError ''7'' (Errorf ErrNotImplemented ''no handler registered'')) example_client
   \<and> (\<exists>f c1 i. test_call_begin ''Heartbeat'' None example_client = (c1, i)
        \<and> co_calls (read_message [] (last (tc_sent c1)) conn_New) = [f]
        \<and> MustCall_result (snd (test_call_end i (test_read (snd (handle_call False (\<lambda>action p s. (s, Inr action)) JStr f ())) c1)))
            = Some (Some (JStr ''Heartbeat'')))"
proof -
  obtain c1 i where b: "test_call_begin ''Heartbeat'' None example_client = (c1, i)" by (rule prod.exhaust)
  have d: "\<not> co_done conn_New" "co_calls conn_New = []" "tc_handler example_client = None"
    by (simp_all add: conn_New_def example_client_def)
  let ?h = "\<lambda>action (p :: json option) (s :: unit). (s, Inr action :: RPCError + string)"
  note t = independent_framing [where je = "[]" and handle = ?h and enc = JStr and s = "()", OF _ b refl d(1) refl]
  have "ParseFrame [] (EncodeCall ''7'' ''Reset'' None)
      = Inr ((new_Frame MessageTypeCall ''7'')\<lparr>fr_Action := ''Reset'', fr_Payload := Some (payload_or_empty None)\<rparr>)"
    by (rule ParseFrame_EncodeCall) simp_all
  with t have "test_read (EncodeCall ''7'' ''Reset'' None) example_client
     = SendRaw (EncodeCallError ''7'' (Errorf ErrNotImplemented ''no handler registered'')) example_client"
    by (simp add: d(3) new_Frame_def)
  moreover obtain f where f: "co_calls (read_message [] (last (tc_sent c1)) conn_New) = [f]"
      "\<forall>s' m. handle_call False ?h JStr f () = (s', m) \<longrightarrow> MustCall_result (snd (test_call_end i (test_read m c1))) = Some (Some (JStr ''Heartbeat''))"
    using t d(2) by auto
  moreover have "handle_call False ?h JStr f () = ((), snd (handle_call False ?h JStr f ()))"
    by (cases "handle_call False ?h JStr f ()") simp
  ultimately show ?thesis using b by blast
qed

text \<open>
  C24. A malformed message is refused with RpcFrameworkError, and the refusal is addressed: to the id the message
  itself carries in its second field, or to the placeholder for unknown ids. A message that is accepted has an
  id, one of the three types, an action if it is a call and a payload unless it is an error.
\<close>

theorem frames_checked:
  "case ParseFrame je data of
     Inl (i, e) \<Rightarrow> re_Code e = ErrRpcFrameworkError
       \<and> (i = UnknownMessageID \<or> (\<exists>raw. data = Some (JArr raw) \<and> 3 \<le> length raw \<and> raw ! 1 = JStr i \<and> i \<noteq> []))
   | Inr f \<Rightarrow> fr_ID f \<noteq> [] \<and> fr_Type f \<in> {MessageTypeCall, MessageTypeCallResult, MessageTypeCallError}
       \<and> (fr_Type f = MessageTypeCall \<longrightarrow> fr_Action f \<noteq> []) \<and> (fr_Type f \<noteq> MessageTypeCallError \<longrightarrow> fr_Payload f \<noteq> None)"
proof (cases "ParseFrame je data")
  case (Inl p)
  obtain i e where "p = (i, e)" by (rule prod.exhaust)
  then show ?thesis using ParseFrame_Inl [of je data i e] Inl by simp
next
  case (Inr f)
  then show ?thesis using ParseFrame_Inr [OF Inr] by simp
qed

theorem frames_checked_witness:
  "fst (projl (ParseFrame [] (Some (JArr [JNum 2, JStr ''9'', JNum 3])))) \<in> {UnknownMessageID, ''9''}"
proof -
  have l: "isl (ParseFrame [] (Some (JArr [JNum 2, JStr ''9'', JNum 3])))" by code_simp
  then obtain p where "ParseFrame [] (Some (JArr [JNum 2, JStr ''9'', JNum 3])) = Inl p" by (auto simp: isl_def)
  then show ?thesis using frames_checked [where je = "[]" and data = "Some (JArr [JNum 2, JStr ''9'', JNum 3])"]
    by (auto split: prod.splits)
qed

text \<open>
  C20. Calls and answers are matched: in every reachable state of a connection, an answer that a call returned is one the peer
  sent under that call's id, no id is used for two calls, the ids in the pending table are, one entry each, those of the
  calls that have not returned (so none leaks and none is lost), what waits in an entry is an answer the peer sent under its id,
  and neither queue exceeds its capacity.
\<close>

theorem calls_matched:
  assumes "conn_initial W" and "conn_step\<^sup>*\<^sup>* W W'"
  shows "(\<forall>i res. (i, Inr res) \<in> set (cc_returned W') \<longrightarrow> (i, res) \<in> set (cc_received W'))
    \<and> distinct (cc_inflight W' @ map fst (cc_returned W'))
    \<and> set (m_keys (co_pending (cc_conn W'))) = set (cc_inflight W') \<and> distinct (m_keys (co_pending (cc_conn W')))
    \<and> PendingCount (cc_conn W') = length (cc_inflight W')
    \<and> (\<forall>i ch res. map_of (co_pending (cc_conn W')) i = Some ch \<and> res \<in> set ch \<longrightarrow> (i, res) \<in> set (cc_received W'))
    \<and> length (co_calls (cc_conn W')) \<le> callBuffer \<and> length (co_send (cc_conn W')) \<le> sendBuffer"
proof -
  have inv: "conn_inv W'" by (rule connection.inv_reachable [OF assms])
  then have k: "distinct (m_keys (co_pending (cc_conn W')))" "distinct (cc_inflight W')"
    "set (m_keys (co_pending (cc_conn W'))) = set (cc_inflight W')" unfolding conn_inv_def by blast+
  then have "length (m_keys (co_pending (cc_conn W'))) = length (cc_inflight W')" by (metis distinct_card)
  moreover have "\<forall>i ch res. map_of (co_pending (cc_conn W')) i = Some ch \<and> res \<in> set ch \<longrightarrow> (i, res) \<in> set (cc_received W')"
    using inv unfolding conn_inv_def by blast
  ultimately show ?thesis using inv k unfolding conn_inv_def PendingCount_def by simp
qed

definition conn_example :: "conn_world list" where
  "conn_example =
     (let W0 = \<lparr>cc_conn = conn_New, cc_inflight = [], cc_received = [], cc_returned = []\<rparr>;
          (c1, i, d) = call_register ''Reset'' None conn_New;
          W1 = W0\<lparr>cc_conn := c1, cc_inflight := [i]\<rparr>;
          ans = EncodeCallResult i None;
          W2 = W1\<lparr>cc_conn := read_message [] ans (cc_conn W1), cc_received := answers [] ans\<rparr>;
          W3 = W2\<lparr>cc_conn := forget i (cc_conn W2), cc_inflight := [], cc_returned := [(i, Inr (Inr (Some (JObj []))))]\<rparr>
      in [W0, W1, W2, W3])"

lemma conn_example_steps: "conn_step\<^sup>*\<^sup>* (conn_example ! 0) (conn_example ! 3)"
proof -
  have one: "uwrap64 1 = 1" "Itoa 1 = ''1''" by code_simp+
  have a: "ParseFrame [] (EncodeCallResult ''1'' None) = Inr ((new_Frame MessageTypeCallResult ''1'')\<lparr>fr_Payload := Some (JObj [])\<rparr>)"
    by (simp add: ParseFrame_EncodeCallResult payload_or_empty_def)
  have s1: "conn_step (conn_example ! 0) (conn_example ! 1)"
    using conn_step.register [of "conn_example ! 0" "''Reset''" None] by (simp add: conn_example_def call_register_def conn_New_def one Let_def)
  have s2: "conn_step (conn_example ! 1) (conn_example ! 2)"
    using conn_step.receive [where W = "conn_example ! 1" and d = "EncodeCallResult ''1'' None" and je = "[]"]
    by (simp add: conn_example_def call_register_def conn_New_def one Let_def callBuffer_def sendBuffer_def)
  have s3: "conn_step (conn_example ! 2) (conn_example ! 3)"
    using conn_step.return_answer [of "''1''" "conn_example ! 2" "Inr (Some (JObj []))" "[]"]
    by (simp add: conn_example_def call_register_def conn_New_def one Let_def read_message_def a new_Frame_def message_types deliver_def)
  show ?thesis using s1 s2 s3 by (meson converse_rtranclp_into_rtranclp rtranclp.rtrancl_refl)
qed

theorem calls_matched_witness:
  "cc_returned (conn_example ! 3) = [(''1'', Inr (Inr (Some (JObj []))))] \<and> PendingCount (cc_conn (conn_example ! 3)) = 0"
proof -
  have i: "conn_initial (conn_example ! 0)" by (simp add: conn_initial_def conn_example_def Let_def split: prod.split)
  have r: "cc_returned (conn_example ! 3) = [(''1'', Inr (Inr (Some (JObj []))))]" "cc_inflight (conn_example ! 3) = []"
    by (code_simp)+
  show ?thesis using calls_matched [OF i conn_example_steps] r by simp
qed

section \<open>Commands to a station\<close>

text \<open>
  C33. The capabilities a probe reports are the ones the station's profiles grant: with a profile list, a capability is
  supported exactly if its profile is in the list; without one, the capabilities of the mandatory Core profile are
  assumed and the others are unknown, never denied.
\<close>

theorem probe_capabilities:
  assumes "cp_Probe je call v = Inr report" and "GetConfiguration je call [] = Inr conf"
    and "profiles = parseProfiles (m_get [] (key_values (gc_ConfigurationKey conf)) KeySupportedFeatureProfiles)"
  shows "report_Support report c =
    (if profiles = [] then (if profile_of c = profileCore then SupportYes else SupportUnknown)
     else if profile_of c \<in> set profiles then SupportYes else SupportNo)"
proof -
  have "pb_Features report = features (m_get [] (key_values (gc_ConfigurationKey conf)) KeySupportedFeatureProfiles)"
    using assms(1,2) by (auto simp: cp_Probe_def Let_def)
  then show ?thesis unfolding assms(3) by (rule support_of_features)
qed

definition silent_caller :: caller where
  "silent_caller = (\<lambda>_ _. Inr (enc_GetConfigurationConf \<lparr>gc_ConfigurationKey = [], gc_UnknownKey = []\<rparr>))"

theorem probe_capabilities_witness:
  "\<exists>report. cp_Probe [] silent_caller Version16 = Inr report \<and> report_Support report CapUnlock = SupportYes
     \<and> report_Support report CapReservation = SupportUnknown"
proof -
  have g: "GetConfiguration [] silent_caller [] = Inr \<lparr>gc_ConfigurationKey = [], gc_UnknownKey = []\<rparr>"
    by (simp add: GetConfiguration_def silent_caller_def dec_enc_GetConfigurationConf)
  then obtain report where p: "cp_Probe [] silent_caller Version16 = Inr report" by (simp add: cp_Probe_def Let_def)
  have "parseProfiles (m_get [] (key_values []) KeySupportedFeatureProfiles) = []"
    by (simp add: key_values_def m_get_def parseProfiles_def)
  then show ?thesis using probe_capabilities [OF p g refl] p
    by (simp add: profile_of_def profileCore_def profileReservation_def)
qed

text \<open>
  C31. Adapter and simulated station agree on reservations, for an EVSE of the configuration, ids that are 64-bit ints, and whatever scenario
  and connectors the station has. What the adapter reports of ReserveNow is the station's verdict: rejected or occupied under the two scenarios that script it,
  rejected for a connector the station does not have, occupied, faulted or unavailable by the state of the connector, accepted
  otherwise; accepted, the connector holds the reservation under the id it was given, and any other answer leaves the station as it was.
  A connector already held under another id is reserved again, which is what the code does and its comment denies.
\<close>

theorem adapter_simulator_agree:
  assumes "EVSEByUID cfg (rq_EVSEUID r) = Some e" and "int64_range (e_OCPPConnectorID e)" and "int64_range (rq_ReservationID r)"
  shows "(\<exists>res. cp_ReserveNow je (sim_answers je s) cfg r = Inr res \<and> res_Status res = reserve_verdict s (e_OCPPConnectorID e))
    \<and> (\<forall>c. reserve_verdict s (e_OCPPConnectorID e) = CommandAccepted \<and> map_of (sim_connectors s) (e_OCPPConnectorID e) = Some c \<longrightarrow>
         sim_after je s ActionReserveNow (enc_ReserveNowReq (reserve_now_req (e_OCPPConnectorID e) r)) =
           put_connector (e_OCPPConnectorID e) (c\<lparr>sc_reservationID := rq_ReservationID r, sc_status := ''Reserved''\<rparr>) s)
    \<and> (reserve_verdict s (e_OCPPConnectorID e) \<noteq> CommandAccepted \<longrightarrow>
         sim_after je s ActionReserveNow (enc_ReserveNowReq (reserve_now_req (e_OCPPConnectorID e) r)) = s)
    \<and> (reserve_verdict s (e_OCPPConnectorID e) = CommandAccepted \<longleftrightarrow>
         so_Scenario (sim_opts s) \<notin> {ScenarioRejectReserve, ScenarioOccupied}
         \<and> (\<exists>c. map_of (sim_connectors s) (e_OCPPConnectorID e) = Some c \<and> sc_transactionID c = 0
              \<and> sc_status c \<notin> {''Charging'', ''Preparing'', ''Faulted'', ''Unavailable''}))"
proof (intro conjI)
  show "\<exists>res. cp_ReserveNow je (sim_answers je s) cfg r = Inr res \<and> res_Status res = reserve_verdict s (e_OCPPConnectorID e)"
    by (rule reserve_agrees(1) [OF assms])
qed (auto simp: reserve_agrees(2) [OF assms] reserve_verdict_def split: option.split)

definition example_sim :: Simulator where
  "example_sim = projr (sim_New \<lparr>so_URL = ''ws://x'', so_ID = ''CP1'', so_Version = [], so_Connectors = 2, so_Vendor = [], so_Model = [],
     so_Firmware = [], so_SerialNumber = [], so_IDTag = [], so_Scenario = NoScenario, so_SlowDelay = 0, so_UnreportedKeys = [],
     so_FeatureProfiles = []\<rparr>)"

lemma example_sim_fields:
  "so_Scenario (sim_opts example_sim) = ScenarioNormal" "map_of (sim_connectors example_sim) 1 = Some new_connector" "reserve_verdict example_sim 1 = CommandAccepted"
  by (simp_all add: example_sim_def sim_New_def sim_applyDefaults_def sim_validate_def Let_def scenario_Valid_def Scenarios_def
      Version16_def reserve_verdict_def new_connector_def upto_rec1)

theorem adapter_simulator_agree_witness:
  "\<exists>res. cp_ReserveNow [] (sim_answers [] example_sim) example_cfg (reserve_request example_begun) = Inr res \<and> res_Status res = CommandAccepted"
proof -
  have e: "EVSEByUID example_cfg (rq_EVSEUID (reserve_request example_begun)) = Some (example_EVSE ''E1'' 1)"
    by (simp add: EVSEByUID_def example_cfg_def example_EVSE_def reserve_request_def example_reservation_def)
  have i: "int64_range (e_OCPPConnectorID (example_EVSE ''E1'' 1))" "int64_range (rq_ReservationID (reserve_request example_begun))"
    by (simp_all add: int64_range_def example_EVSE_def reserve_request_def)
  show ?thesis using adapter_simulator_agree [OF e i, of "[]" example_sim] example_sim_fields by (auto simp: example_EVSE_def)
qed

section \<open>Connections and core\<close>

text \<open>
  C25. A station reads as online exactly while the server holds a running connection of it. This is stated over every interleaving of the
  goroutines, the other stations and core, with one proviso: the station does not connect again while one of its goroutines is
  between its change of the registry and its report to core; and it is read while none is. Without the proviso, a connection that was replaced leaves
  without reporting a disconnect, however the run goes on, and nothing but the report of a connection that left the registry
  as the current one takes a station offline.
\<close>

theorem online_iff_connected:
  assumes "csms_initial W"
  shows "((calm_step i)\<^sup>*\<^sup>* W W1 \<and> settled W1 i \<longrightarrow>
       (IsOnline (sw_core W1) i \<longleftrightarrow> (\<exists>h. map_of (sw_conns W1) i = Some h \<and> map_of (sw_phase W1) h = Some (i, Running))))
    \<and> (csms_step\<^sup>*\<^sup>* W W2 \<longrightarrow>
       (\<forall>h p W3. map_of (sw_phase W2) h = Some (i, p) \<and> p \<in> {Entered, Running} \<and> map_of (sw_conns W2) i \<noteq> Some h \<and> csms_step\<^sup>*\<^sup>* W2 W3
          \<longrightarrow> map_of (sw_phase W3) h \<noteq> Some (i, Departing))
       \<and> (\<forall>W3. csms_step W2 W3 \<and> IsOnline (sw_core W2) i \<and> \<not> IsOnline (sw_core W3) i
          \<longrightarrow> (\<exists>h. map_of (sw_phase W2) h = Some (i, Departing) \<and> map_of (sw_phase W3) h = Some (i, Gone))))"
proof (intro conjI impI allI; (elim conjE)?)
  assume "(calm_step i)\<^sup>*\<^sup>* W W1" and "settled W1 i"
  then show "IsOnline (sw_core W1) i \<longleftrightarrow> (\<exists>h. map_of (sw_conns W1) i = Some h \<and> map_of (sw_phase W1) h = Some (i, Running))"
    using calm_online calm.inv_reachable [OF assms] by blast
next
  fix h p W3
  assume s: "csms_step\<^sup>*\<^sup>* W W2" "csms_step\<^sup>*\<^sup>* W2 W3"
    and h: "map_of (sw_phase W2) h = Some (i, p)" "p \<in> {Entered, Running}" "map_of (sw_conns W2) i \<noteq> Some h"
  have "h < sw_next W2" using registry.inv_reachable [OF assms s(1)] h(1) unfolding registry_inv_def by blast
  then have "replaced h i W2" using h by (auto simp: replaced_def)
  from replaced_steps [OF s(2) this] show "map_of (sw_phase W3) h \<noteq> Some (i, Departing)" by (auto simp: replaced_def)
qed (rule offline_step)

definition example_csms :: csms_world where
  "example_csms = \<lparr>sw_conns = [], sw_phase = [], sw_next = 0, sw_core = example_svc\<rparr>"

lemma example_csms_initial: "csms_initial example_csms"
  using example_cps
  by (auto simp: csms_initial_def example_csms_def IsOnline_def example_svc_def New_memory_def Let_def put_cp_def example_cfg_def
      example_EVSE_def newChargePoint_def addEVSE_def)

theorem online_iff_connected_witness:
  "IsOnline (sw_core (report_connected example_now 0 ''CP1'' (enter ''CP1'' example_csms))) ''CP1''"
proof -
  let ?W1 = "enter ''CP1'' example_csms" and ?W2 = "report_connected example_now 0 ''CP1'' (enter ''CP1'' example_csms)"
  have "calm_step ''CP1'' example_csms ?W1"
    by (auto simp: calm_step_def settled_def example_csms_def intro: csms_step.enters)
  moreover have "calm_step ''CP1'' ?W1 ?W2"
    unfolding calm_step_def by (intro conjI csms_step.reports) (simp_all add: enter_def report_connected_def example_csms_def)
  ultimately have "(calm_step ''CP1'')\<^sup>*\<^sup>* example_csms ?W2" by (meson r_into_rtranclp rtranclp_trans)
  moreover have "settled ?W2 ''CP1''" by (simp add: settled_def report_connected_def enter_def example_csms_def)
  ultimately show ?thesis using online_iff_connected [OF example_csms_initial, of "''CP1''" ?W2 ?W2]
    by (simp add: report_connected_def enter_def example_csms_def)
qed

text \<open>
  C29. The registry and the report to core are not one step, and the order can be lost: a station that reconnects quickly can end
  up with a running, registered connection while core has it offline, because the goroutine of the old
  connection reports the disconnect after the new one has reported the connect.
\<close>

theorem reconnect_race:
  assumes "csms_initial W"
  shows "\<exists>W'. csms_step\<^sup>*\<^sup>* W W' \<and> map_of (sw_conns W') i = Some 1 \<and> map_of (sw_phase W') 1 = Some (i, Running)
    \<and> map_of (sw_phase W') 0 = Some (i, Gone) \<and> \<not> IsOnline (sw_core W') i"
  using race_reachable [OF assms, of zero_time "[]" i] race_outcome [OF assms, of zero_time "[]" i] by blast

theorem reconnect_race_witness:
  "\<exists>W'. csms_step\<^sup>*\<^sup>* example_csms W' \<and> map_of (sw_phase W') 1 = Some (''CP1'', Running) \<and> \<not> IsOnline (sw_core W') ''CP1''"
  using reconnect_race [OF example_csms_initial, of "''CP1''"] by blast

text \<open>
  C30. The handshake agrees on the first subprotocol of the charger's list that a handler exists for; it fails exactly if
  there is none, and a connection is upgraded only for a path that names a charge point the server accepts.
\<close>

theorem handshake_negotiates:
  "case ServeHTTP accept handlers path offered of
     Upgrade i v sub \<Rightarrow> i = chargePointID path \<and> i \<noteq> [] \<and> (case accept of None \<Rightarrow> True | Some ok \<Rightarrow> ok i)
       \<and> v \<in> set handlers \<and> sub = Subprotocol v
       \<and> (\<exists>before after. offered = before @ sub # after \<and> set (versionList handlers) \<inter> set before = {})
   | NoCommonVersion i \<Rightarrow> set (versionList handlers) \<inter> set offered = {}
   | UnknownChargePoint i \<Rightarrow> \<exists>ok. accept = Some ok \<and> \<not> ok i
   | MissingID \<Rightarrow> chargePointID path = []"
proof -
  have "\<exists>before after. offered = before @ sub # after \<and> set (versionList handlers) \<inter> set before = {}"
    if n: "negotiate handlers offered = Some (v, sub)" for v sub
  proof -
    obtain before after where s: "offered = before @ sub # after" "sub \<notin> set before"
      using negotiate_Some(3) [OF n] by (metis split_list_first)
    then show ?thesis using negotiate_first [of handlers before sub after v] n by blast
  qed
  then show ?thesis using negotiate_None [of handlers offered] negotiate_Some [of handlers offered]
    by (auto simp: ServeHTTP_def Let_def split: option.splits prod.splits)
qed

theorem handshake_negotiates_witness:
  "ServeHTTP None [Version16] ''/ocpp/CP1'' [''ocpp2.0.1'', ''ocpp1.6''] = Upgrade ''CP1'' Version16 ''ocpp1.6''
   \<and> set (versionList [Version16]) \<inter> set [''ocpp2.0.1''] = {}"
proof -
  have s: "ServeHTTP None [Version16] ''/ocpp/CP1'' [''ocpp2.0.1'', ''ocpp1.6''] = Upgrade ''CP1'' Version16 ''ocpp1.6''" by code_simp
  obtain before after where b: "[''ocpp2.0.1'', ''ocpp1.6''] = before @ ''ocpp1.6'' # after" "set (versionList [Version16]) \<inter> set before = {}"
    using handshake_negotiates [where accept = None and handlers = "[Version16]" and path = "''/ocpp/CP1''"
        and offered = "[''ocpp2.0.1'', ''ocpp1.6'']"] unfolding s by auto
  then have "before = [''ocpp2.0.1'']" by (auto simp: Cons_eq_append_conv)
  then show ?thesis using s b by simp
qed

end
