(* ===== verification/Go_Net.thy ===== *)
theory Go_Net
  imports Go_Time
begin

text \<open>
  The parts of Go's \<open>regexp\<close>, \<open>net\<close> and \<open>path\<close> packages the configuration, the OCPI
  server and the command line use.

  \<^item> An anchored regular expression that is a sequence of repeated character classes is the list
    of its classes with their bounds; \<open>MatchString\<close> tries every split, as backtracking does.
  \<^item> \<open>net.ParseIP\<close> says whether a string is an IPv4 or IPv6 address (\<open>netip.ParseAddr\<close>
    without a zone), \<open>net.SplitHostPort\<close> takes a listen address apart.
\<close>

section \<open>Regular expressions\<close>

type_synonym re_class = "char \<Rightarrow> bool"
type_synonym regex = "(re_class \<times> nat \<times> nat option) list"

text \<open>One item is a class with the least and, where there is one, the largest number of repetitions.\<close>

fun MatchString :: "regex \<Rightarrow> string \<Rightarrow> bool" where
  "MatchString [] s \<longleftrightarrow> s = []"
| "MatchString ((p, lo, hi) # items) s \<longleftrightarrow>
     list_ex (\<lambda>k. list_all p (take k s) \<and> MatchString items (drop k s))
       [lo..<Suc (case hi of None \<Rightarrow> length s | Some h \<Rightarrow> min h (length s))]"

definition upper :: re_class where "upper c \<longleftrightarrow> CHR ''A'' \<le> c \<and> c \<le> CHR ''Z''"
definition lower :: re_class where "lower c \<longleftrightarrow> CHR ''a'' \<le> c \<and> c \<le> CHR ''z''"
definition alpha :: re_class where "alpha c \<longleftrightarrow> upper c \<or> lower c"
definition alnum :: re_class where "alnum c \<longleftrightarrow> alpha c \<or> is_digit c"
definition one_of :: "string \<Rightarrow> re_class" where "one_of cs c \<longleftrightarrow> c \<in> set cs"

text \<open>The language of an item list: the concatenations of words over its classes.\<close>

inductive_set language :: "regex \<Rightarrow> string set" for items :: regex where
  language: "\<lbrakk>length ws = length items;
     \<And>i. i < length items \<Longrightarrow> list_all (fst (items ! i)) (ws ! i) \<and> fst (snd (items ! i)) \<le> length (ws ! i) \<and>
        (\<forall>h. snd (snd (items ! i)) = Some h \<longrightarrow> length (ws ! i) \<le> h)\<rbrakk>
   \<Longrightarrow> concat ws \<in> language items"

lemma MatchString_single:
  "MatchString [(p, lo, Some hi)] s \<longleftrightarrow> list_all p s \<and> lo \<le> length s \<and> length s \<le> hi"
  by (auto simp: list_ex_iff intro!: bexI [of _ "length s"])

lemma MatchString_Cons:
  "MatchString ((p, lo, hi) # items) s \<longleftrightarrow>
     (\<exists>w r. s = w @ r \<and> list_all p w \<and> lo \<le> length w \<and> (\<forall>h. hi = Some h \<longrightarrow> length w \<le> h) \<and> MatchString items r)"
proof
  assume "MatchString ((p, lo, hi) # items) s"
  then obtain k where "lo \<le> k" "k \<le> (case hi of None \<Rightarrow> length s | Some h \<Rightarrow> min h (length s))"
    "list_all p (take k s)" "MatchString items (drop k s)"
    by (auto simp: list_ex_iff less_Suc_eq_le simp del: upt_Suc)
  then show "\<exists>w r. s = w @ r \<and> list_all p w \<and> lo \<le> length w \<and> (\<forall>h. hi = Some h \<longrightarrow> length w \<le> h) \<and> MatchString items r"
    by (intro exI [of _ "take k s"] exI [of _ "drop k s"]) (auto split: option.splits)
next
  assume "\<exists>w r. s = w @ r \<and> list_all p w \<and> lo \<le> length w \<and> (\<forall>h. hi = Some h \<longrightarrow> length w \<le> h) \<and> MatchString items r"
  then obtain w r where "s = w @ r" "list_all p w" "lo \<le> length w" "\<forall>h. hi = Some h \<longrightarrow> length w \<le> h"
    "MatchString items r" by auto
  then show "MatchString ((p, lo, hi) # items) s"
    by (auto simp: list_ex_iff less_Suc_eq_le simp del: upt_Suc intro!: bexI [of _ "length w"] split: option.splits)
qed

lemma language_Nil: "s \<in> language [] \<longleftrightarrow> s = []"
  by (auto simp: language.simps)

lemma language_Cons:
  "s \<in> language ((p, lo, hi) # items) \<longleftrightarrow>
     (\<exists>w r. s = w @ r \<and> list_all p w \<and> lo \<le> length w \<and> (\<forall>h. hi = Some h \<longrightarrow> length w \<le> h) \<and> r \<in> language items)"
proof
  assume "s \<in> language ((p, lo, hi) # items)"
  then obtain ws where ws: "s = concat ws" "length ws = Suc (length items)"
    "\<And>i. i < Suc (length items) \<Longrightarrow> list_all (fst (((p, lo, hi) # items) ! i)) (ws ! i) \<and>
       fst (snd (((p, lo, hi) # items) ! i)) \<le> length (ws ! i) \<and>
       (\<forall>h. snd (snd (((p, lo, hi) # items) ! i)) = Some h \<longrightarrow> length (ws ! i) \<le> h)"
    by (auto simp: language.simps)
  then obtain w r where r: "ws = w # r" by (cases ws) auto
  have "concat r \<in> language items"
    using ws(2) ws(3) [of "Suc _"] by (intro language.language) (auto simp: r)
  with ws(1) ws(3) [of 0] r
  show "\<exists>w r. s = w @ r \<and> list_all p w \<and> lo \<le> length w \<and> (\<forall>h. hi = Some h \<longrightarrow> length w \<le> h) \<and> r \<in> language items"
    by auto
next
  assume "\<exists>w r. s = w @ r \<and> list_all p w \<and> lo \<le> length w \<and> (\<forall>h. hi = Some h \<longrightarrow> length w \<le> h) \<and> r \<in> language items"
  then obtain w rs where s: "s = concat (w # rs)" and w: "list_all p w" "lo \<le> length w" "\<forall>h. hi = Some h \<longrightarrow> length w \<le> h"
    and rs: "length rs = length items" "\<And>i. i < length items \<Longrightarrow> list_all (fst (items ! i)) (rs ! i) \<and>
       fst (snd (items ! i)) \<le> length (rs ! i) \<and> (\<forall>h. snd (snd (items ! i)) = Some h \<longrightarrow> length (rs ! i) \<le> h)"
    by (auto simp: language.simps)
  show "s \<in> language ((p, lo, hi) # items)"
    unfolding s using w rs by (intro language.language) (auto simp: nth_Cons split: nat.splits)
qed

text \<open>The backtracking matcher accepts exactly the language of the expression.\<close>

lemma MatchString_language: "MatchString items s \<longleftrightarrow> s \<in> language items"
  by (induction items arbitrary: s) (auto simp: language_Nil language_Cons MatchString_Cons simp del: MatchString.simps(2))

section \<open>IP addresses\<close>

definition ipv4_octet :: "string \<Rightarrow> bool" where
  "ipv4_octet s \<longleftrightarrow> list_all is_digit s \<and> s \<noteq> [] \<and> (length s > 1 \<longrightarrow> hd s \<noteq> CHR ''0'') \<and> digits_of s \<le> 255"

definition parse_ipv4 :: "string \<Rightarrow> bool" where
  "parse_ipv4 s \<longleftrightarrow> (let fs = split_on CHR ''.'' s in length fs = 4 \<and> list_all ipv4_octet fs)"

definition hex_digit :: re_class where
  "hex_digit c \<longleftrightarrow> is_digit c \<or> (CHR ''a'' \<le> c \<and> c \<le> CHR ''f'') \<or> (CHR ''A'' \<le> c \<and> c \<le> CHR ''F'')"

text \<open>
  The loop of \<open>parseIPv6\<close>: \<open>i\<close> bytes of the address are filled, \<open>e\<close> says whether an ellipsis
  was seen. Groups are hexadecimal numbers of at most four digits; the last four bytes may be
  written as an IPv4 address.
\<close>

definition v6_done :: "nat \<Rightarrow> bool \<Rightarrow> bool" where
  "v6_done i e \<longleftrightarrow> (if i < 16 then e else \<not> e)"

function v6_groups :: "nat \<Rightarrow> bool \<Rightarrow> string \<Rightarrow> bool" where
  "v6_groups i e s =
     (if 16 \<le> i then s = [] \<and> v6_done i e
      else let off = length (takeWhile hex_digit s); r = drop off s
           in if off = 0 \<or> 4 < off then False
              else case r of
                  [] \<Rightarrow> v6_done (i + 2) e
                | c # t \<Rightarrow>
                    if c = CHR ''.'' then (e \<or> i = 12) \<and> i + 4 \<le> 16 \<and> parse_ipv4 s \<and> v6_done (i + 4) e
                    else if c \<noteq> CHR '':'' then False
                    else case t of
                        [] \<Rightarrow> False
                      | d # u \<Rightarrow>
                          if d = CHR '':''
                          then \<not> e \<and> (if u = [] then v6_done (i + 2) True else v6_groups (i + 2) True u)
                          else v6_groups (i + 2) e t)"
  by pat_completeness auto
termination
  by (relation "measure (\<lambda>(i, e, s). 16 - i)") auto

declare v6_groups.simps [simp del]

definition parse_ipv6 :: "string \<Rightarrow> bool" where
  "parse_ipv6 s \<longleftrightarrow> CHR ''%'' \<notin> set s \<and>
     (if take 2 s = ''::'' then drop 2 s = [] \<or> v6_groups 0 True (drop 2 s) else v6_groups 0 False s)"

text \<open>\<open>netip.ParseAddr\<close> decides by the first dot, colon or percent sign.\<close>

definition ParseIP :: "string \<Rightarrow> bool" where
  "ParseIP s \<longleftrightarrow> (case List.find (one_of ''.:%'') s of
       None \<Rightarrow> False
     | Some c \<Rightarrow> if c = CHR ''.'' then parse_ipv4 s else if c = CHR '':'' then parse_ipv6 s else False)"

section \<open>Listen addresses\<close>

text \<open>The text before and after the last colon, and the bracket rules; \<open>None\<close> is an error.\<close>

definition split_last :: "char \<Rightarrow> string \<Rightarrow> (string \<times> string) option" where
  "split_last c s = (if c \<in> set s
     then let p = takeWhile (\<lambda>x. x \<noteq> c) (rev s) in Some (take (length s - length p - 1) s, rev p) else None)"

definition SplitHostPort :: "string \<Rightarrow> (string \<times> string) option" where
  "SplitHostPort hostport = (case split_last CHR '':'' hostport of
       None \<Rightarrow> None
     | Some (before, port) \<Rightarrow>
         if take 1 hostport = ''[''
         then if take 1 (rev before) = '']'' \<and> CHR '']'' \<notin> set (butlast before)
                 \<and> CHR ''['' \<notin> set (tl hostport) \<and> CHR '']'' \<notin> set port
              then Some (butlast (tl before), port) else None
         else if CHR '':'' \<in> set before \<or> CHR ''['' \<in> set hostport \<or> CHR '']'' \<in> set hostport then None
         else Some (before, port))"

definition JoinHostPort :: "string \<Rightarrow> string \<Rightarrow> string" where
  "JoinHostPort host port = (if CHR '':'' \<in> set host then ''['' @ host @ '']:'' @ port else host @ '':'' @ port)"

lemma split_last_append: "c \<notin> set p \<Longrightarrow> split_last c (h @ c # p) = Some (h, p)"
  by (simp add: split_last_def takeWhile_append)

text \<open>Joining and splitting are inverse on hosts and ports without brackets, IPv6 addresses included.\<close>

lemma SplitHostPort_Join:
  assumes "CHR ''['' \<notin> set h" "CHR '']'' \<notin> set h" "CHR ''['' \<notin> set p" "CHR '']'' \<notin> set p" "CHR '':'' \<notin> set p"
  shows "SplitHostPort (JoinHostPort h p) = Some (h, p)"
proof (cases "CHR '':'' \<in> set h")
  case True
  have "split_last CHR '':'' (''['' @ h @ '']:'' @ p) = Some (''['' @ h @ '']'', p)"
    using split_last_append [OF assms(5), of "''['' @ h @ '']''"] by simp
  with True assms show ?thesis by (simp add: SplitHostPort_def JoinHostPort_def butlast_append)
next
  case False
  with assms split_last_append [OF assms(5), of h] show ?thesis
    by (cases h) (auto simp: SplitHostPort_def JoinHostPort_def)
qed

section \<open>Quoting\<close>

text \<open>
  \<open>strconv.Quote\<close>, which \<open>%q\<close> prints: quotes and backslashes are escaped, control characters are
  written with their escape. Bytes outside ASCII are taken as printable text.
\<close>

definition hex_char :: "nat \<Rightarrow> char" where
  "hex_char n = (if n < 10 then char_of (48 + n) else char_of (87 + n))"

definition quote_char :: "char \<Rightarrow> string" where
  "quote_char c =
     (let n = (of_char c :: nat); bs = CHR 0x5C
      in if c = CHR 0x22 \<or> c = bs then [bs, c]
         else if n = 7 then [bs, CHR ''a''] else if n = 8 then [bs, CHR ''b''] else if n = 12 then [bs, CHR ''f'']
         else if n = 10 then [bs, CHR ''n''] else if n = 13 then [bs, CHR ''r''] else if n = 9 then [bs, CHR ''t'']
         else if n = 11 then [bs, CHR ''v'']
         else if n < 32 \<or> n = 127 then [bs, CHR ''x'', hex_char (n div 16), hex_char (n mod 16)]
         else [c])"

definition Quote :: "string \<Rightarrow> string" where
  "Quote s = [CHR 0x22] @ concat (map quote_char s) @ [CHR 0x22]"

section \<open>Paths\<close>

text \<open>
  \<open>path.Clean\<close> (and \<open>filepath.Clean\<close> on Unix): empty and dot elements go, a double dot takes the
  element before it away, or stays at the front of a relative path.
\<close>

fun clean_elements :: "bool \<Rightarrow> string list \<Rightarrow> string list \<Rightarrow> string list" where
  "clean_elements rooted stack [] = rev stack"
| "clean_elements rooted stack (e # es) =
     (if e = [] \<or> e = ''.'' then clean_elements rooted stack es
      else if e = ''..'' then
        (case stack of
           [] \<Rightarrow> clean_elements rooted (if rooted then [] else [e]) es
         | t # below \<Rightarrow> clean_elements rooted (if t = ''..'' then e # stack else below) es)
      else clean_elements rooted (e # stack) es)"

definition path_Clean :: "string \<Rightarrow> string" where
  "path_Clean s =
     (let rooted = take 1 s = ''/''; body = join ''/'' (clean_elements rooted [] (split_on CHR ''/'' s))
      in if rooted then ''/'' @ body else if body = [] then ''.'' else body)"

definition path_Dir :: "string \<Rightarrow> string" where
  "path_Dir s = path_Clean (rev (dropWhile (\<lambda>c. c \<noteq> CHR ''/'') (rev s)))"

definition path_Join :: "string \<Rightarrow> string \<Rightarrow> string" where
  "path_Join a b = (let es = filter (\<lambda>e. e \<noteq> []) [a, b] in if es = [] then [] else path_Clean (join ''/'' es))"

text \<open>What \<open>clean_elements\<close> leaves: plain elements, after double dots at the front of a relative path.\<close>

definition plain :: "string \<Rightarrow> bool" where
  "plain e \<longleftrightarrow> e \<noteq> [] \<and> e \<noteq> ''.'' \<and> e \<noteq> ''..''"

lemma clean_elements_rooted:
  "list_all plain stack \<Longrightarrow> list_all plain (clean_elements True stack es)"
proof (induction es arbitrary: stack)
  case (Cons e es)
  then show ?case by (cases stack) (auto simp: plain_def)
qed simp

lemma clean_elements_plain: "list_all plain es \<Longrightarrow> clean_elements r stack es = rev stack @ es"
  by (induction es arbitrary: stack) (auto simp: plain_def)

end
