(* ===== verification/Config_Validate.thy ===== *)
theory Config_Validate
  imports Config Go_Net
begin

text \<open>
  Validation of a configuration (\<open>internal/config/validate.go\<close>, \<open>errors.go\<close>, \<open>enums.go\<close>)
  and its loading from the YAML decoder's result (\<open>load.go\<close>).

  A validator is the list of field errors it has collected, and every check takes it and returns it
  with its findings appended, in the order the code makes them. The message of an error is its
  format string with its arguments; \<open>fmt.Sprintf\<close> only renders them. \<open>url.Parse\<close> is an
  argument: the parts of a URL the code looks at, or an error.

  A coordinate that has passed its pattern is read as a whole number of 1e-7 degrees. The limits 90
  and 180 are floats without rounding, and rounding to the nearest float is monotone, so the exact
  comparison is the one on floats.
\<close>

section \<open>Field errors (errors.go)\<close>

datatype msg_arg = Str string | Num int | Deg int | UrlError

record FieldError =
  fe_Path :: string
  fe_Msg :: "string \<times> msg_arg list"

type_synonym ValidationErrors = "FieldError list"
type_synonym validator = ValidationErrors

definition v_add :: "string \<Rightarrow> string \<Rightarrow> msg_arg list \<Rightarrow> validator \<Rightarrow> validator" where
  "v_add path format args v = v @ [\<lparr>fe_Path = path, fe_Msg = (format, args)\<rparr>]"

definition v_required :: "string \<Rightarrow> string \<Rightarrow> validator \<Rightarrow> bool \<times> validator" where
  "v_required path value v =
     (if TrimSpace value = [] then (False, v_add path ''is required'' [] v) else (True, v))"

definition errors_Paths :: "ValidationErrors \<Rightarrow> string list" where
  "errors_Paths e = map fe_Path e"

definition sortByPath :: "ValidationErrors \<Rightarrow> ValidationErrors" where
  "sortByPath e = sort_key fe_Path e"

section \<open>Enumerations (enums.go)\<close>

definition connectorStandards :: "string list" where
  "connectorStandards =
     [''CHADEMO'', ''CHAOJI'',
      ''DOMESTIC_A'', ''DOMESTIC_B'', ''DOMESTIC_C'', ''DOMESTIC_D'', ''DOMESTIC_E'',
      ''DOMESTIC_F'', ''DOMESTIC_G'', ''DOMESTIC_H'', ''DOMESTIC_I'', ''DOMESTIC_J'',
      ''DOMESTIC_K'', ''DOMESTIC_L'', ''DOMESTIC_M'', ''DOMESTIC_N'', ''DOMESTIC_O'',
      ''GBT_AC'', ''GBT_DC'',
      ''IEC_60309_2_single_16'', ''IEC_60309_2_three_16'', ''IEC_60309_2_three_32'',
      ''IEC_60309_2_three_64'',
      ''IEC_62196_T1'', ''IEC_62196_T1_COMBO'', ''IEC_62196_T2'', ''IEC_62196_T2_COMBO'',
      ''IEC_62196_T3A'', ''IEC_62196_T3C'',
      ''NEMA_5_20'', ''NEMA_6_30'', ''NEMA_6_50'', ''NEMA_10_30'', ''NEMA_10_50'',
      ''NEMA_14_30'', ''NEMA_14_50'',
      ''PANTOGRAPH_BOTTOM_UP'', ''PANTOGRAPH_TOP_DOWN'',
      ''TESLA_R'', ''TESLA_S'']"

definition connectorFormats :: "string list" where
  "connectorFormats = [''SOCKET'', ''CABLE'']"

definition powerTypes :: "string list" where
  "powerTypes = [''AC_1_PHASE'', ''AC_2_PHASE'', ''AC_2_PHASE_SPLIT'', ''AC_3_PHASE'', ''DC'']"

definition ocppVersions :: "string list" where
  "ocppVersions = [''1.6'', ''2.0.1'']"

definition sorted_members :: "string list \<Rightarrow> string list" where
  "sorted_members m = sort m"

section \<open>Patterns\<close>

definition chargePointIDRe :: regex where
  "chargePointIDRe = [(\<lambda>c. alnum c \<or> one_of ''._:~-'' c, 1, Some 48)]"

definition idTagRe :: regex where
  "idTagRe = [(\<lambda>c. CHR 0x21 \<le> c \<and> c \<le> CHR 0x7E, 1, Some 20)]"

definition countryCodeRe :: regex where
  "countryCodeRe = [(upper, 2, Some 2)]"

definition partyIDRe :: regex where
  "partyIDRe = [(upper, 3, Some 3)]"

definition alpha3Re :: regex where
  "alpha3Re = [(upper, 3, Some 3)]"

definition latitudeRe :: regex where
  "latitudeRe = [(one_of ''-'', 0, Some 1), (is_digit, 1, Some 2), (one_of ''.'', 1, Some 1), (is_digit, 5, Some 7)]"

definition longitudeRe :: regex where
  "longitudeRe = [(one_of ''-'', 0, Some 1), (is_digit, 1, Some 3), (one_of ''.'', 1, Some 1), (is_digit, 5, Some 7)]"

definition evseIDRe :: regex where
  "evseIDRe = [(alpha, 2, Some 2), (one_of ''*'', 0, Some 1), (alnum, 3, Some 3), (one_of ''*'', 0, Some 1),
     (one_of ''Ee'', 1, Some 1), (\<lambda>c. alnum c \<or> c = CHR ''*'', 1, Some 30)]"

definition minTokenLen :: nat where "minTokenLen = 8"

section \<open>Hosts\<close>

definition isWildcardHost :: "string \<Rightarrow> bool" where
  "isWildcardHost host \<longleftrightarrow> host \<in> {'''', ''0.0.0.0'', ''::'', ''[::]''}"

definition hostname_label :: "string \<Rightarrow> bool" where
  "hostname_label l \<longleftrightarrow> l \<noteq> [] \<and> length l \<le> 63 \<and> hd l \<noteq> CHR ''-'' \<and> last l \<noteq> CHR ''-''
     \<and> list_all (\<lambda>r. alnum r \<or> r = CHR ''-'') l"

definition isHostname :: "string \<Rightarrow> bool" where
  "isHostname s \<longleftrightarrow> s \<noteq> [] \<and> length s \<le> 253 \<and> list_all hostname_label (split_on CHR ''.'' s)"

section \<open>The charger\<close>

definition positiveDuration :: "string \<Rightarrow> Duration \<Rightarrow> validator \<Rightarrow> bool \<times> Duration \<times> validator" where
  "positiveDuration path d v =
     (case dur_parse d of
        None \<Rightarrow> (False, d, v_add path ''%q is not a duration; want e.g. \"90s\"'' [Str (dur_raw d)] v)
      | Some d' \<Rightarrow>
          if dur_dur d' \<le> 0 then (False, d', v_add path ''must be greater than zero, got %s'' [Str (dur_raw d')] v)
          else (True, d', v))"

definition validateCharger :: "Charger \<Rightarrow> validator \<Rightarrow> Charger \<times> validator" where
  "validateCharger ch v0 =
     (let (given, v) = v_required ''charger.id'' (ch_ID ch) v0;
          v = (if given \<and> \<not> MatchString chargePointIDRe (ch_ID ch)
               then v_add ''charger.id''
                 ''%q is not usable as a URL path segment; allowed: letters, digits and . _ : ~ - (max 48)''
                 [Str (ch_ID ch)] v
               else v);
          ip = TrimSpace (ch_IP ch);
          v = (if ip \<noteq> [] \<and> \<not> ParseIP ip \<and> \<not> isHostname ip
               then v_add ''charger.ip'' ''%q is neither an IP address nor a hostname'' [Str ip] v else v);
          v = (if ch_OCPPVersion ch \<notin> set ocppVersions
               then v_add ''charger.ocpp_version'' ''%q is not supported; want one of %s''
                 [Str (ch_OCPPVersion ch), Str (join '', '' (sorted_members ocppVersions))] v
               else v);
          (intervalOK, hi, v) = positiveDuration ''charger.heartbeat_interval'' (ch_HeartbeatInterval ch) v;
          (timeoutOK, ht, v) = positiveDuration ''charger.heartbeat_timeout'' (ch_HeartbeatTimeout ch) v;
          (_, ct, v) = positiveDuration ''charger.call_timeout'' (ch_CallTimeout ch) v;
          v = (if intervalOK \<and> timeoutOK \<and> dur_dur ht \<le> dur_dur hi
               then v_add ''charger.heartbeat_timeout'' ''must be greater than charger.heartbeat_interval (%s), got %s''
                 [Str (dur_raw hi), Str (dur_raw ht)] v
               else v)
      in (ch\<lparr>ch_HeartbeatInterval := hi, ch_HeartbeatTimeout := ht, ch_CallTimeout := ct\<rparr>, v))"

section \<open>The listeners\<close>

definition validateBind :: "string \<Rightarrow> string \<Rightarrow> validator \<Rightarrow> (string \<times> int) option \<times> validator" where
  "validateBind path bind v0 =
     (let (given, v) = v_required path bind v0
      in if \<not> given then (None, v)
         else case SplitHostPort bind of
             None \<Rightarrow> (None, v_add path ''%q is not a host:port address'' [Str bind] v)
           | Some (host, portStr) \<Rightarrow>
               (case Atoi portStr of
                  None \<Rightarrow> (None, v_add path ''%q does not have a valid port (1-65535)'' [Str bind] v)
                | Some port \<Rightarrow>
                    if port < 0 \<or> 65535 < port
                    then (None, v_add path ''%q does not have a valid port (1-65535)'' [Str bind] v)
                    else if port = 0
                    then (None, v_add path
                      ''port 0 picks a random port that nothing can be pointed at; choose a fixed port'' [] v)
                    else if host \<noteq> [] \<and> \<not> isWildcardHost host \<and> \<not> ParseIP host \<and> \<not> isHostname host
                    then (None, v_add path ''%q is not a valid host'' [Str host] v)
                    else (Some (host, port), v)))"

definition validateServer :: "Listeners \<Rightarrow> validator \<Rightarrow> validator" where
  "validateServer sv v =
     (let (ocpp, v) = validateBind ''server.ocpp_bind'' (ls_OCPPBind sv) v;
          (ocpi, v) = validateBind ''server.ocpi_bind'' (ls_OCPIBind sv) v
      in case (ocpp, ocpi) of
           (Some (ocppHost, ocppPort), Some (ocpiHost, ocpiPort)) \<Rightarrow>
             if ocppPort = ocpiPort \<and> (ocppHost = ocpiHost \<or> isWildcardHost ocppHost \<or> isWildcardHost ocpiHost)
             then v_add ''server.ocpi_bind'' ''cannot share port %d with server.ocpp_bind (%s)''
               [Num ocpiPort, Str (ls_OCPPBind sv)] v
             else v
         | _ \<Rightarrow> v)"

section \<open>Tags, OCPI party and tokens\<close>

definition validateAuth :: "Auth \<Rightarrow> validator \<Rightarrow> validator" where
  "validateAuth a v0 =
     (let (given, v) = v_required ''auth.default_id_tag'' (au_DefaultIDTag a) v0
      in if given \<and> \<not> MatchString idTagRe (au_DefaultIDTag a)
         then v_add ''auth.default_id_tag''
           ''%q is not a valid OCPP idTag; want 1-20 printable ASCII characters without spaces''
           [Str (au_DefaultIDTag a)] v
         else v)"

definition validateToken :: "string \<Rightarrow> string \<Rightarrow> validator \<Rightarrow> validator" where
  "validateToken path token v0 =
     (let (given, v) = v_required path token v0
      in if \<not> given then v
         else let v = (if length token < minTokenLen
                       then v_add path ''must be at least %d characters'' [Num (int minTokenLen)] v else v)
              in if list_ex (one_of [CHR '' '', CHR 0x09, CHR 0x0D, CHR 0x0A]) token
                 then v_add path ''must not contain whitespace'' [] v else v)"

text \<open>What the code reads of a parsed URL.\<close>

record URL =
  u_Scheme :: string
  u_Host :: string
  u_Path :: string
  u_RawQuery :: string
  u_Fragment :: string

type_synonym url_parser = "string \<Rightarrow> URL option"

definition validateURL :: "url_parser \<Rightarrow> string \<Rightarrow> validator \<Rightarrow> validator" where
  "validateURL parse_url raw v0 =
     (let path = ''ocpi.public_base_url''; (given, v) = v_required path raw v0
      in if \<not> given then v
         else case parse_url raw of
             None \<Rightarrow> v_add path ''%q is not a valid URL: %v'' [Str raw, UrlError] v
           | Some u \<Rightarrow>
               if u_Scheme u \<noteq> ''http'' \<and> u_Scheme u \<noteq> ''https'' then v_add path ''%q must use http or https'' [Str raw] v
               else if u_Host u = [] then v_add path ''%q is missing a host'' [Str raw] v
               else v)"

definition validateOCPI :: "url_parser \<Rightarrow> OCPI \<Rightarrow> validator \<Rightarrow> OCPI \<times> validator" where
  "validateOCPI parse_url oc v0 =
     (let (given, v) = v_required ''ocpi.country_code'' (oc_CountryCode oc) v0;
          v = (if given \<and> \<not> MatchString countryCodeRe (oc_CountryCode oc)
               then v_add ''ocpi.country_code'' ''%q must be two uppercase letters, e.g. \"DE\"''
                 [Str (oc_CountryCode oc)] v else v);
          (given, v) = v_required ''ocpi.party_id'' (oc_PartyID oc) v;
          v = (if given \<and> \<not> MatchString partyIDRe (oc_PartyID oc)
               then v_add ''ocpi.party_id'' ''%q must be three uppercase letters, e.g. \"FRY\"''
                 [Str (oc_PartyID oc)] v else v);
          v = validateURL parse_url (oc_PublicBaseURL oc) v;
          v = validateToken ''ocpi.token_a'' (oc_TokenA oc) v;
          v = validateToken ''ocpi.token_c'' (oc_TokenC oc) v;
          v = (if oc_TokenA oc \<noteq> [] \<and> oc_TokenA oc = oc_TokenC oc
               then v_add ''ocpi.token_c'' ''must differ from ocpi.token_a'' [] v else v);
          p = oc_Push oc;
          (d, v) = (case dur_parse (pu_Debounce p) of
              None \<Rightarrow> (pu_Debounce p, v_add ''ocpi.push.debounce'' ''%q is not a duration; want e.g. \"500ms\"''
                        [Str (dur_raw (pu_Debounce p))] v)
            | Some d \<Rightarrow> (d, if dur_dur d < 0
                            then v_add ''ocpi.push.debounce'' ''must not be negative, got %s'' [Str (dur_raw d)] v
                            else v));
          v = (if pu_MaxRetries p < 0
               then v_add ''ocpi.push.max_retries'' ''must not be negative, got %d'' [Num (pu_MaxRetries p)] v else v)
      in (oc\<lparr>oc_Push := p\<lparr>pu_Debounce := d\<rparr>\<rparr>, v))"

section \<open>The location\<close>

text \<open>A decimal that matched its pattern, in units of 1e-7.\<close>

definition degrees :: "string \<Rightarrow> int" where
  "degrees s =
     (let neg = take 1 s = ''-''; b = (if neg then drop 1 s else s);
          w = takeWhile is_digit b; f = drop (length w + 1) b;
          n = digits_of (w @ f) * 10 ^ (7 - length f)
      in if neg then - n else n)"

definition validateCoordinate :: "string \<Rightarrow> string \<Rightarrow> regex \<Rightarrow> int \<Rightarrow> int \<Rightarrow> validator \<Rightarrow> validator" where
  "validateCoordinate path value pattern lo hi v0 =
     (let (given, v) = v_required path value v0
      in if \<not> given then v
         else if \<not> MatchString pattern value
         then v_add path ''%q must be decimal degrees as a string with 5 to 7 decimal places, e.g. \"52.520008\"''
           [Str value] v
         else let f = degrees value
              in if f < lo * 10 ^ 7 \<or> hi * 10 ^ 7 < f
                 then v_add path ''%v is out of range (%v to %v)'' [Deg f, Deg (lo * 10 ^ 7), Deg (hi * 10 ^ 7)] v
                 else v)"

definition index_path :: "string \<Rightarrow> nat \<Rightarrow> string" where
  "index_path base i = base @ ''['' @ Itoa (int i) @ '']''"

text \<open>
  A value that must not repeat: the first use is remembered under its index, a later one is
  reported with the index of the first.
\<close>

definition check_unique ::
  "string \<Rightarrow> string \<Rightarrow> ('a \<Rightarrow> msg_arg list) \<Rightarrow> (nat \<Rightarrow> msg_arg list) \<Rightarrow> 'a \<Rightarrow> nat \<Rightarrow> ('a \<times> nat) list \<Rightarrow> validator
     \<Rightarrow> ('a \<times> nat) list \<times> validator" where
  "check_unique path format shown at x i seen v =
     (case map_of seen x of
        Some first \<Rightarrow> (seen, v_add path format (shown x @ at first) v)
      | None \<Rightarrow> (m_put x i seen, v))"

definition validate_enum :: "string \<Rightarrow> string \<Rightarrow> string list \<Rightarrow> string \<Rightarrow> msg_arg list \<Rightarrow> validator \<Rightarrow> validator" where
  "validate_enum path value members format extra v0 =
     (let (given, v) = v_required path value v0
      in if given \<and> value \<notin> set members then v_add path format (Str value # extra) v else v)"

definition validate_connector ::
  "string \<Rightarrow> nat \<Rightarrow> Connector \<Rightarrow> (string \<times> nat) list \<Rightarrow> validator \<Rightarrow> (string \<times> nat) list \<times> validator" where
  "validate_connector base j conn seen v0 =
     (let path = index_path (base @ ''.connectors'') j;
          (given, v) = v_required (path @ ''.id'') (cn_ID conn) v0;
          (seen, v) = (if given
             then check_unique (path @ ''.id'') ''%q is already used by %s.connectors[%d]''
               (\<lambda>x. [Str x]) (\<lambda>first. [Str base, Num (int first)]) (cn_ID conn) j seen v
             else (seen, v));
          v = validate_enum (path @ ''.standard'') (cn_Standard conn) connectorStandards
                ''%q is not an OCPI 2.3.0 ConnectorType'' [] v;
          v = validate_enum (path @ ''.format'') (cn_Format conn) connectorFormats
                ''%q is not a ConnectorFormat; want one of %s'' [Str (join '', '' (sorted_members connectorFormats))] v;
          v = validate_enum (path @ ''.power_type'') (cn_PowerType conn) powerTypes
                ''%q is not a PowerType; want one of %s'' [Str (join '', '' (sorted_members powerTypes))] v;
          v = (if cn_MaxVoltage conn \<le> 0
               then v_add (path @ ''.max_voltage'') ''must be greater than zero, got %d'' [Num (cn_MaxVoltage conn)] v else v);
          v = (if cn_MaxAmperage conn \<le> 0
               then v_add (path @ ''.max_amperage'') ''must be greater than zero, got %d'' [Num (cn_MaxAmperage conn)] v else v);
          v = (if cn_MaxElectricPower conn < 0
               then v_add (path @ ''.max_electric_power'') ''must not be negative, got %d''
                 [Num (cn_MaxElectricPower conn)] v else v)
      in (seen, v))"

fun connectors_loop :: "string \<Rightarrow> nat \<Rightarrow> Connector list \<Rightarrow> (string \<times> nat) list \<Rightarrow> validator \<Rightarrow> validator" where
  "connectors_loop base j [] seen v = v"
| "connectors_loop base j (conn # conns) seen v =
     (let (seen, v) = validate_connector base j conn seen v in connectors_loop base (Suc j) conns seen v)"

definition validateConnectors :: "string \<Rightarrow> Connector list \<Rightarrow> validator \<Rightarrow> validator" where
  "validateConnectors base connectors v =
     (if connectors = [] then v_add (base @ ''.connectors'') ''at least one connector is required'' [] v
      else connectors_loop base 0 connectors [] v)"

record seen_maps =
  seenUID :: "(string \<times> nat) list"
  seenConnectorID :: "(int \<times> nat) list"
  seenEVSEID :: "(string \<times> nat) list"

definition validate_uid :: "string \<Rightarrow> nat \<Rightarrow> EVSE \<Rightarrow> (string \<times> nat) list \<Rightarrow> validator \<Rightarrow> (string \<times> nat) list \<times> validator" where
  "validate_uid base i e seen v0 =
     (let (given, v) = v_required (base @ ''.uid'') (e_UID e) v0
      in if \<not> given then (seen, v)
         else let v = (if 36 < length (e_UID e)
                       then v_add (base @ ''.uid'') ''must be at most 36 characters (OCPI CiString36), got %d''
                         [Num (int (length (e_UID e)))] v else v)
              in check_unique (base @ ''.uid'') ''%q is already used by location.evses[%d]''
                   (\<lambda>x. [Str x]) (\<lambda>first. [Num (int first)]) (e_UID e) i seen v)"

definition validate_evse_id :: "string \<Rightarrow> nat \<Rightarrow> EVSE \<Rightarrow> (string \<times> nat) list \<Rightarrow> validator \<Rightarrow> (string \<times> nat) list \<times> validator" where
  "validate_evse_id base i e seen v0 =
     (let (given, v) = v_required (base @ ''.evse_id'') (e_EVSEID e) v0
      in if \<not> given then (seen, v)
         else let v = (if \<not> MatchString evseIDRe (e_EVSEID e)
                       then v_add (base @ ''.evse_id'') ''%q does not look like an eMI3 EVSE ID, e.g. \"DE*FRY*E001*1\"''
                         [Str (e_EVSEID e)] v else v)
              in check_unique (base @ ''.evse_id'') ''%q is already used by location.evses[%d]''
                   (\<lambda>x. [Str x]) (\<lambda>first. [Num (int first)]) (e_EVSEID e) i seen v)"

definition validate_connector_id :: "string \<Rightarrow> nat \<Rightarrow> EVSE \<Rightarrow> (int \<times> nat) list \<Rightarrow> validator \<Rightarrow> (int \<times> nat) list \<times> validator" where
  "validate_connector_id base i e seen v =
     (if e_OCPPConnectorID e < 1
      then (seen, v_add (base @ ''.ocpp_connector_id'')
              ''must be 1 or greater (0 addresses the charge point itself), got %d'' [Num (e_OCPPConnectorID e)] v)
      else check_unique (base @ ''.ocpp_connector_id'') ''%d is already mapped by location.evses[%d]''
             (\<lambda>x. [Num x]) (\<lambda>first. [Num (int first)]) (e_OCPPConnectorID e) i seen v)"

definition validate_evse :: "nat \<Rightarrow> EVSE \<Rightarrow> seen_maps \<Rightarrow> validator \<Rightarrow> seen_maps \<times> validator" where
  "validate_evse i e m v =
     (let base = index_path ''location.evses'' i;
          (uids, v) = validate_uid base i e (seenUID m) v;
          (eids, v) = validate_evse_id base i e (seenEVSEID m) v;
          (cids, v) = validate_connector_id base i e (seenConnectorID m) v
      in (\<lparr>seenUID = uids, seenConnectorID = cids, seenEVSEID = eids\<rparr>, validateConnectors base (e_Connectors e) v))"

fun evses_loop :: "nat \<Rightarrow> EVSE list \<Rightarrow> seen_maps \<Rightarrow> validator \<Rightarrow> validator" where
  "evses_loop i [] m v = v"
| "evses_loop i (e # es) m v = (let (m, v) = validate_evse i e m v in evses_loop (Suc i) es m v)"

definition validateLocation :: "Location \<Rightarrow> validator \<Rightarrow> validator" where
  "validateLocation l v0 =
     (let (given, v) = v_required ''location.id'' (lo_ID l) v0;
          v = (if given \<and> 36 < length (lo_ID l)
               then v_add ''location.id'' ''must be at most 36 characters (OCPI CiString36), got %d''
                 [Num (int (length (lo_ID l)))] v else v);
          v = snd (v_required ''location.address'' (lo_Address l) v);
          v = snd (v_required ''location.city'' (lo_City l) v);
          (given, v) = v_required ''location.country'' (lo_Country l) v;
          v = (if given \<and> \<not> MatchString alpha3Re (lo_Country l)
               then v_add ''location.country'' ''%q must be an ISO 3166-1 alpha-3 code, e.g. \"DEU\"''
                 [Str (lo_Country l)] v else v);
          v = validateCoordinate ''location.coordinates.latitude'' (co_Latitude (lo_Coordinates l)) latitudeRe (- 90) 90 v;
          v = validateCoordinate ''location.coordinates.longitude'' (co_Longitude (lo_Coordinates l)) longitudeRe (- 180) 180 v
      in if lo_EVSEs l = [] then v_add ''location.evses'' ''at least one EVSE is required'' [] v
         else evses_loop 0 (lo_EVSEs l) \<lparr>seenUID = [], seenConnectorID = [], seenEVSEID = []\<rparr> v)"

section \<open>The whole configuration\<close>

text \<open>\<open>Validate\<close> resolves the durations of the configuration and reports every problem, or none.\<close>

definition Validate :: "url_parser \<Rightarrow> Config \<Rightarrow> Config \<times> ValidationErrors option" where
  "Validate parse_url c =
     (let (ch, v) = validateCharger (cfg_Charger c) [];
          v = validateServer (cfg_Server c) v;
          v = validateAuth (cfg_Auth c) v;
          (oc, v) = validateOCPI parse_url (cfg_OCPI c) v;
          v = validateLocation (cfg_Location c) v
      in (c\<lparr>cfg_Charger := ch, cfg_OCPI := oc\<rparr>, if v = [] then None else Some (sortByPath v)))"

section \<open>Loading (load.go)\<close>

text \<open>
  What the YAML decoder says of a file: it is empty, it has a syntax error, it has fields of the wrong
  type or unknown ones, or it holds a document and perhaps a second one.
\<close>

datatype yaml_result = Yaml_EOF | Yaml_Syntax string | Yaml_TypeErrors "string list" | Yaml_Document Config bool

definition typeYAMLPath :: "(string \<times> string) list" where
  "typeYAMLPath =
     [(''config.Config'', ''''), (''config.Charger'', ''charger''), (''config.Server'', ''server''),
      (''config.Auth'', ''auth''), (''config.OCPI'', ''ocpi''), (''config.Push'', ''ocpi.push''),
      (''config.Location'', ''location''), (''config.Coordinates'', ''location.coordinates''),
      (''config.EVSE'', ''location.evses[]''), (''config.Connector'', ''location.evses[].connectors[]'')]"

definition take_literal :: "string \<Rightarrow> string \<Rightarrow> string option" where
  "take_literal l s = (if take (length l) s = l then Some (drop (length l) s) else None)"

definition take_class :: "re_class \<Rightarrow> string \<Rightarrow> (string \<times> string) option" where
  "take_class p s = (let w = takeWhile p s in if w = [] then None else Some (w, drop (length w) s))"

definition not_space :: re_class where
  "not_space c \<longleftrightarrow> \<not> one_of [CHR 0x09, CHR 0x0A, CHR 0x0C, CHR 0x0D, CHR '' ''] c"

text \<open>
  The two patterns with their groups. A group of digits or of non-space characters ends where the
  next literal begins, which its class does not contain.
\<close>

definition unknownFieldRe :: "string \<Rightarrow> (string \<times> string \<times> string) option" where
  "unknownFieldRe msg =
     Option.bind (take_literal ''line '' msg) (\<lambda>s.
     Option.bind (take_class is_digit s) (\<lambda>(line, s).
     Option.bind (take_literal '': field '' s) (\<lambda>s.
     Option.bind (take_class not_space s) (\<lambda>(field, s).
     Option.bind (take_literal '' not found in type '' s) (\<lambda>s.
     Option.bind (take_class not_space s) (\<lambda>(typeName, s).
     if s = [] then Some (line, field, typeName) else None))))))"

definition lineRe :: "string \<Rightarrow> (string \<times> string) option" where
  "lineRe msg =
     Option.bind (take_literal ''line '' msg) (\<lambda>s.
     Option.bind (take_class is_digit s) (\<lambda>(line, s).
     Option.bind (take_literal '': '' s) (\<lambda>rest.
     if CHR 0x0A \<in> set rest then None else Some (line, rest))))"

definition yaml_type_error :: "string \<Rightarrow> FieldError" where
  "yaml_type_error msg =
     (case unknownFieldRe msg of
        Some (line, field, typeName) \<Rightarrow>
          \<lparr>fe_Path = (case map_of typeYAMLPath typeName of
               Some pre \<Rightarrow> if pre \<noteq> [] then pre @ ''.'' @ field else field
             | None \<Rightarrow> field),
           fe_Msg = (''unknown field (line %s)'', [Str line])\<rparr>
      | None \<Rightarrow>
          (case lineRe msg of
             Some (line, rest) \<Rightarrow> \<lparr>fe_Path = ''line '' @ line, fe_Msg = (''%s'', [Str rest])\<rparr>
           | None \<Rightarrow> \<lparr>fe_Path = '''', fe_Msg = (''%s'', [Str msg])\<rparr>))"

definition yamlErrors :: "string + string list \<Rightarrow> ValidationErrors" where
  "yamlErrors err = (case err of
       Inl text \<Rightarrow> [\<lparr>fe_Path = '''', fe_Msg = (''%s'', [Str (case take_literal ''yaml: '' text of None \<Rightarrow> text | Some r \<Rightarrow> r)])\<rparr>]
     | Inr errs \<Rightarrow> map yaml_type_error errs)"

definition parse_config :: "url_parser \<Rightarrow> yaml_result \<Rightarrow> ValidationErrors + Config" where
  "parse_config parse_url y = (case y of
       Yaml_EOF \<Rightarrow> Inl [\<lparr>fe_Path = '''', fe_Msg = (''file is empty'', [])\<rparr>]
     | Yaml_Syntax text \<Rightarrow> Inl (yamlErrors (Inl text))
     | Yaml_TypeErrors errs \<Rightarrow> Inl (yamlErrors (Inr errs))
     | Yaml_Document cfg second \<Rightarrow>
         if second then Inl [\<lparr>fe_Path = '''', fe_Msg = (''file contains more than one YAML document'', [])\<rparr>]
         else (case Validate parse_url (applyDefaults (normalize_Config cfg)) of
                 (cfg', None) \<Rightarrow> Inr cfg'
               | (cfg', Some errs) \<Rightarrow> Inl errs))"

end
