(* ===== verification/Config_Sound.thy ===== *)
theory Config_Sound
  imports Config_Validate "HOL-Library.Multiset"
begin

text \<open>
  What the validation of a configuration decides. \<open>valid_config\<close> is the abstract specification: one
  conjunction per part of the file, written with \<open>distinct\<close>, set membership and the library's
  order, and no error list, index or map of seen values in it. Every check of
  \<open>Config_Validate\<close> is an instance of the interface \<open>field_check\<close>, and \<open>Validate\<close> reports
  nothing exactly on valid configurations.
\<close>

declare map_of_eq_Some_iff [simp del] Some_eq_map_of_iff [simp del]

section \<open>The interface of a check\<close>

text \<open>
  A check takes the errors collected so far and returns them with its own appended, which depend on
  the value it checks alone, and it appends none exactly if the value is acceptable.
\<close>

locale field_check =
  fixes check :: "validator \<Rightarrow> validator"
    and ok :: bool
  assumes appends: "check v = v @ check []"
    and silent: "check [] = [] \<longleftrightarrow> ok"
begin

lemma check_Nil_iff: "check v = [] \<longleftrightarrow> v = [] \<and> ok"
  by (subst appends) (simp add: silent)

lemma check_keeps: "set v \<subseteq> set (check v)"
  by (subst appends) simp

end

text \<open>Checks in sequence are a check, which is acceptable where both are.\<close>

lemma field_check_comp:
  assumes "field_check f a" and "field_check g b"
  shows "field_check (\<lambda>v. g (f v)) (a \<and> b)"
proof
  fix v
  show "g (f v) = v @ g (f [])"
    using field_check.appends [OF assms(1), of v] field_check.appends [OF assms(2), of "f v"]
      field_check.appends [OF assms(2), of "f []"] by simp
  show "g (f []) = [] \<longleftrightarrow> a \<and> b"
    using field_check.check_Nil_iff [OF assms(2)] field_check.silent [OF assms(1)] by auto
qed

section \<open>The specification\<close>

definition filled :: "string \<Rightarrow> bool" where
  "filled s \<longleftrightarrow> TrimSpace s \<noteq> []"

definition valid_charger :: "Charger \<Rightarrow> bool" where
  "valid_charger ch \<longleftrightarrow> filled (ch_ID ch) \<and> MatchString chargePointIDRe (ch_ID ch)
     \<and> (filled (ch_IP ch) \<longrightarrow> ParseIP (TrimSpace (ch_IP ch)) \<or> isHostname (TrimSpace (ch_IP ch)))
     \<and> ch_OCPPVersion ch \<in> set ocppVersions
     \<and> (\<exists>i t c. ParseDuration (dur_raw (ch_HeartbeatInterval ch)) = Some i
          \<and> ParseDuration (dur_raw (ch_HeartbeatTimeout ch)) = Some t
          \<and> ParseDuration (dur_raw (ch_CallTimeout ch)) = Some c \<and> 0 < i \<and> i < t \<and> 0 < c)"

definition bind_address :: "string \<Rightarrow> (string \<times> int) option" where
  "bind_address bind = (case SplitHostPort bind of None \<Rightarrow> None
     | Some (host, p) \<Rightarrow> (case Atoi p of None \<Rightarrow> None
        | Some port \<Rightarrow> if filled bind \<and> 0 < port \<and> port \<le> 65535
                          \<and> (isWildcardHost host \<or> ParseIP host \<or> isHostname host)
                       then Some (host, port) else None))"

definition binds_collide :: "string \<times> int \<Rightarrow> string \<times> int \<Rightarrow> bool" where
  "binds_collide a b \<longleftrightarrow> snd a = snd b \<and> (fst a = fst b \<or> isWildcardHost (fst a) \<or> isWildcardHost (fst b))"

definition valid_server :: "Listeners \<Rightarrow> bool" where
  "valid_server sv \<longleftrightarrow> (\<exists>a b. bind_address (ls_OCPPBind sv) = Some a \<and> bind_address (ls_OCPIBind sv) = Some b
     \<and> \<not> binds_collide a b)"

definition valid_auth :: "Auth \<Rightarrow> bool" where
  "valid_auth a \<longleftrightarrow> filled (au_DefaultIDTag a) \<and> MatchString idTagRe (au_DefaultIDTag a)"

definition valid_token :: "string \<Rightarrow> bool" where
  "valid_token t \<longleftrightarrow> filled t \<and> minTokenLen \<le> length t
     \<and> set t \<inter> {CHR '' '', CHR 0x09, CHR 0x0D, CHR 0x0A} = {}"

definition valid_ocpi :: "url_parser \<Rightarrow> OCPI \<Rightarrow> bool" where
  "valid_ocpi parse_url oc \<longleftrightarrow> filled (oc_CountryCode oc) \<and> MatchString countryCodeRe (oc_CountryCode oc)
     \<and> filled (oc_PartyID oc) \<and> MatchString partyIDRe (oc_PartyID oc)
     \<and> filled (oc_PublicBaseURL oc)
     \<and> (\<exists>u. parse_url (oc_PublicBaseURL oc) = Some u \<and> u_Scheme u \<in> {''http'', ''https''} \<and> u_Host u \<noteq> [])
     \<and> valid_token (oc_TokenA oc) \<and> valid_token (oc_TokenC oc) \<and> oc_TokenA oc \<noteq> oc_TokenC oc
     \<and> (\<exists>d. ParseDuration (dur_raw (pu_Debounce (oc_Push oc))) = Some d \<and> 0 \<le> d)
     \<and> 0 \<le> pu_MaxRetries (oc_Push oc)"

definition valid_coordinate :: "regex \<Rightarrow> int \<Rightarrow> string \<Rightarrow> bool" where
  "valid_coordinate pattern limit s \<longleftrightarrow> filled s \<and> MatchString pattern s \<and> \<bar>degrees s\<bar> \<le> limit * 10 ^ 7"

definition valid_connector :: "Connector \<Rightarrow> bool" where
  "valid_connector c \<longleftrightarrow> filled (cn_ID c) \<and> filled (cn_Standard c) \<and> filled (cn_Format c) \<and> filled (cn_PowerType c)
     \<and> cn_Standard c \<in> set connectorStandards \<and> cn_Format c \<in> set connectorFormats
     \<and> cn_PowerType c \<in> set powerTypes \<and> 0 < cn_MaxVoltage c \<and> 0 < cn_MaxAmperage c \<and> 0 \<le> cn_MaxElectricPower c"

definition valid_evse :: "EVSE \<Rightarrow> bool" where
  "valid_evse e \<longleftrightarrow> filled (e_UID e) \<and> length (e_UID e) \<le> 36 \<and> filled (e_EVSEID e)
     \<and> MatchString evseIDRe (e_EVSEID e) \<and> 1 \<le> e_OCPPConnectorID e \<and> e_Connectors e \<noteq> []
     \<and> (\<forall>c \<in> set (e_Connectors e). valid_connector c) \<and> distinct (map cn_ID (e_Connectors e))"

definition valid_location :: "Location \<Rightarrow> bool" where
  "valid_location l \<longleftrightarrow> filled (lo_ID l) \<and> length (lo_ID l) \<le> 36 \<and> filled (lo_Address l) \<and> filled (lo_City l)
     \<and> filled (lo_Country l) \<and> MatchString alpha3Re (lo_Country l)
     \<and> valid_coordinate latitudeRe 90 (co_Latitude (lo_Coordinates l))
     \<and> valid_coordinate longitudeRe 180 (co_Longitude (lo_Coordinates l))
     \<and> lo_EVSEs l \<noteq> [] \<and> (\<forall>e \<in> set (lo_EVSEs l). valid_evse e)
     \<and> distinct (map e_UID (lo_EVSEs l)) \<and> distinct (map e_EVSEID (lo_EVSEs l))
     \<and> distinct (map e_OCPPConnectorID (lo_EVSEs l))"

definition valid_config :: "url_parser \<Rightarrow> Config \<Rightarrow> bool" where
  "valid_config parse_url c \<longleftrightarrow> valid_charger (cfg_Charger c) \<and> valid_server (cfg_Server c)
     \<and> valid_auth (cfg_Auth c) \<and> valid_ocpi parse_url (cfg_OCPI c) \<and> valid_location (cfg_Location c)"

section \<open>Every check has the interface\<close>

lemma v_add_append: "v_add p f a (v @ w) = v @ v_add p f a w"
  by (simp add: v_add_def)

lemma v_add_not_Nil [simp]: "v_add p f a v \<noteq> []" "[] \<noteq> v_add p f a v"
  by (simp_all add: v_add_def)

lemma v_required_simps [simp]:
  "fst (v_required p s v) = filled s"
  "snd (v_required p s v) = (if filled s then v else v_add p ''is required'' [] v)"
  by (simp_all add: v_required_def filled_def)

lemma v_required_eq: "v_required p s v = (filled s, if filled s then v else v_add p ''is required'' [] v)"
  by (simp add: v_required_def filled_def)

lemmas check_defs = Let_def v_required_eq v_add_append case_prod_unfold

lemma validateAuth_check: "field_check (validateAuth a) (valid_auth a)"
  by unfold_locales (auto simp: validateAuth_def valid_auth_def v_required_eq Let_def v_add_def)

lemma validateToken_check: "field_check (validateToken path t) (valid_token t)"
proof
  show "validateToken path t v = v @ validateToken path t []" for v
    by (simp add: validateToken_def v_required_eq Let_def v_add_def)
  show "validateToken path t [] = [] \<longleftrightarrow> valid_token t"
    by (auto simp: validateToken_def v_required_eq Let_def valid_token_def list_ex_iff one_of_def not_less)
qed

definition pos_dur :: "Duration \<Rightarrow> bool" where
  "pos_dur d \<longleftrightarrow> (\<exists>n. ParseDuration (dur_raw d) = Some n \<and> 0 < n)"

definition resolved :: "Duration \<Rightarrow> Duration" where
  "resolved d = (case ParseDuration (dur_raw d) of None \<Rightarrow> d | Some n \<Rightarrow> d\<lparr>dur_dur := n\<rparr>)"

lemma positiveDuration_fst:
  "fst (positiveDuration path d v) = pos_dur d" "fst (snd (positiveDuration path d v)) = resolved d"
  by (auto simp: positiveDuration_def dur_parse_def pos_dur_def resolved_def split: option.splits)

lemma positiveDuration_check: "field_check (\<lambda>v. snd (snd (positiveDuration path d v))) (pos_dur d)"
  by unfold_locales
    (auto simp: positiveDuration_def dur_parse_def pos_dur_def v_add_def split: option.splits)

text \<open>A single condition that is reported against one path.\<close>

lemma condition_check: "field_check (\<lambda>v. if b then v_add p f a v else v) (\<not> b)"
  by unfold_locales (auto simp: v_add_def)

lemma required_check:
  "field_check (\<lambda>v. snd (v_required p s v)) (filled s)"
  by unfold_locales (auto simp: v_add_def)

lemma required_then_check:
  "field_check (\<lambda>v. if filled s \<and> b then v_add p f a (snd (v_required q s v)) else snd (v_required q s v))
     (filled s \<and> \<not> b)"
  by unfold_locales (auto simp: v_add_def)

lemma validateCharger_check: "field_check (\<lambda>v. snd (validateCharger ch v)) (valid_charger ch)"
proof -
  let ?hi = "ch_HeartbeatInterval ch" and ?ht = "ch_HeartbeatTimeout ch"
  have "field_check (\<lambda>v. snd (validateCharger ch v))
    (((((((filled (ch_ID ch) \<and> \<not> \<not> MatchString chargePointIDRe (ch_ID ch)) \<and>
     \<not> (TrimSpace (ch_IP ch) \<noteq> [] \<and> \<not> ParseIP (TrimSpace (ch_IP ch)) \<and> \<not> isHostname (TrimSpace (ch_IP ch)))) \<and>
     \<not> ch_OCPPVersion ch \<notin> set ocppVersions) \<and> pos_dur ?hi) \<and> pos_dur ?ht) \<and> pos_dur (ch_CallTimeout ch)) \<and>
     \<not> (pos_dur ?hi \<and> pos_dur ?ht \<and> dur_dur (resolved ?ht) \<le> dur_dur (resolved ?hi)))"
    unfolding validateCharger_def Let_def case_prod_unfold positiveDuration_fst v_required_simps(1) snd_conv
    by (intro field_check_comp [OF _ condition_check] field_check_comp [OF _ positiveDuration_check] required_then_check)
  then show ?thesis
    by (rule back_subst [of "field_check _"]) (auto simp: valid_charger_def filled_def pos_dur_def resolved_def)
qed

lemma isWildcardHost_Nil [simp]: "isWildcardHost []"
  by (simp add: isWildcardHost_def)

lemma validateBind_fst: "fst (validateBind path bind v) = bind_address bind"
  by (auto simp: validateBind_def bind_address_def v_required_eq Let_def split: option.splits)

lemma validateBind_check: "field_check (\<lambda>v. snd (validateBind path bind v)) (bind_address bind \<noteq> None)"
proof
  show "snd (validateBind path bind v) = v @ snd (validateBind path bind [])" for v
    by (auto simp: validateBind_def v_required_eq Let_def v_add_def split: option.splits)
  show "snd (validateBind path bind []) = [] \<longleftrightarrow> bind_address bind \<noteq> None"
    by (auto simp: validateBind_def bind_address_def v_required_eq Let_def split: option.splits)
qed

lemma validateServer_check: "field_check (validateServer sv) (valid_server sv)"
proof -
  let ?a = "bind_address (ls_OCPPBind sv)" and ?b = "bind_address (ls_OCPIBind sv)"
  define c where "c \<longleftrightarrow> (case (?a, ?b) of (Some a, Some b) \<Rightarrow> binds_collide a b | _ \<Rightarrow> False)"
  have "validateServer sv = (\<lambda>v. if c then v_add ''server.ocpi_bind'' ''cannot share port %d with server.ocpp_bind (%s)''
      [Num (snd (the ?b)), Str (ls_OCPPBind sv)]
        (snd (validateBind ''server.ocpi_bind'' (ls_OCPIBind sv) (snd (validateBind ''server.ocpp_bind'' (ls_OCPPBind sv) v))))
      else snd (validateBind ''server.ocpi_bind'' (ls_OCPIBind sv) (snd (validateBind ''server.ocpp_bind'' (ls_OCPPBind sv) v))))"
    by (auto simp: fun_eq_iff validateServer_def Let_def case_prod_unfold validateBind_fst c_def binds_collide_def
        split: option.splits)
  then have "field_check (validateServer sv) ((?a \<noteq> None \<and> ?b \<noteq> None) \<and> \<not> c)"
    by (simp only:) (intro field_check_comp [OF _ condition_check] field_check_comp [OF _ validateBind_check] validateBind_check)
  then show ?thesis
    by (rule back_subst [of "field_check _"]) (auto simp: valid_server_def c_def split: option.splits)
qed

lemma validateURL_check:
  "field_check (validateURL parse_url raw)
     (filled raw \<and> (\<exists>u. parse_url raw = Some u \<and> u_Scheme u \<in> {''http'', ''https''} \<and> u_Host u \<noteq> []))"
  by unfold_locales (auto simp: validateURL_def v_required_eq Let_def v_add_def split: option.splits)

lemma debounce_check:
  "field_check (\<lambda>v. snd (case dur_parse d of
      None \<Rightarrow> (d, v_add path f [Str (dur_raw d)] v)
    | Some d' \<Rightarrow> (d', if dur_dur d' < 0 then v_add path g [Str (dur_raw d')] v else v)))
   (\<exists>n. ParseDuration (dur_raw d) = Some n \<and> 0 \<le> n)"
  by unfold_locales (auto simp: dur_parse_def v_add_def not_less split: option.splits)

lemma validateOCPI_check: "field_check (\<lambda>v. snd (validateOCPI parse_url oc v)) (valid_ocpi parse_url oc)"
proof -
  let ?p = "oc_Push oc"
  have "field_check (\<lambda>v. snd (validateOCPI parse_url oc v))
    ((((((((filled (oc_CountryCode oc) \<and> \<not> \<not> MatchString countryCodeRe (oc_CountryCode oc)) \<and>
      (filled (oc_PartyID oc) \<and> \<not> \<not> MatchString partyIDRe (oc_PartyID oc))) \<and>
      (filled (oc_PublicBaseURL oc) \<and> (\<exists>u. parse_url (oc_PublicBaseURL oc) = Some u \<and> u_Scheme u \<in> {''http'', ''https''} \<and> u_Host u \<noteq> []))) \<and>
      valid_token (oc_TokenA oc)) \<and> valid_token (oc_TokenC oc)) \<and>
      \<not> (oc_TokenA oc \<noteq> [] \<and> oc_TokenA oc = oc_TokenC oc)) \<and>
      (\<exists>n. ParseDuration (dur_raw (pu_Debounce ?p)) = Some n \<and> 0 \<le> n)) \<and> \<not> pu_MaxRetries ?p < 0)"
    unfolding validateOCPI_def Let_def case_prod_unfold v_required_simps(1) snd_conv
    by (intro field_check_comp [OF _ condition_check] field_check_comp [OF _ debounce_check]
        field_check_comp [OF _ validateToken_check] field_check_comp [OF _ validateURL_check]
        field_check_comp [OF _ required_then_check] required_then_check)
  then show ?thesis
    by (rule back_subst [of "field_check _"])
      (auto simp: valid_ocpi_def valid_token_def minTokenLen_def not_less)
qed

lemma validateCoordinate_check:
  "field_check (validateCoordinate path s pattern (- limit) limit) (valid_coordinate pattern limit s)"
  by unfold_locales
    (auto simp: validateCoordinate_def valid_coordinate_def v_required_eq Let_def v_add_def abs_le_iff not_less)

subsection \<open>Values that must not repeat\<close>

definition fresh :: "'a \<Rightarrow> ('a \<times> nat) list \<Rightarrow> bool" where
  "fresh x seen \<longleftrightarrow> x \<notin> set (m_keys seen)"

definition remember :: "'a \<Rightarrow> nat \<Rightarrow> ('a \<times> nat) list \<Rightarrow> ('a \<times> nat) list" where
  "remember x i seen = (if fresh x seen then m_put x i seen else seen)"

lemma fresh_None: "fresh x seen \<longleftrightarrow> map_of seen x = None"
  by (simp add: fresh_def map_of_eq_None_iff)

lemma fresh_remember: "fresh y (remember x i seen) \<longleftrightarrow> y \<noteq> x \<and> fresh y seen"
  by (auto simp: fresh_None remember_def)

lemma check_unique_fst: "fst (check_unique path f sh at x i seen v) = remember x i seen"
  by (auto simp: check_unique_def remember_def fresh_None split: option.splits)

lemma check_unique_check: "field_check (\<lambda>v. snd (check_unique path f sh at x i seen v)) (fresh x seen)"
  by unfold_locales (auto simp: check_unique_def v_add_def fresh_None split: option.splits)

lemma validate_enum_check:
  "field_check (validate_enum path s members f extra) (filled s \<and> s \<in> set members)"
  by unfold_locales (auto simp: validate_enum_def v_required_eq Let_def v_add_def)

text \<open>A required value: the rest of its checks runs only when it is there.\<close>

lemma guarded_check:
  assumes "filled s \<Longrightarrow> field_check g b"
  shows "field_check (\<lambda>v. if filled s then g v else v_add p f a v) (filled s \<and> b)"
proof (cases "filled s")
  case True
  with assms show ?thesis by simp
next
  case False
  then show ?thesis by unfold_locales (auto simp: v_add_def)
qed

definition remember_filled :: "string \<Rightarrow> nat \<Rightarrow> (string \<times> nat) list \<Rightarrow> (string \<times> nat) list" where
  "remember_filled s i seen = (if filled s then remember s i seen else seen)"

lemma required_unique:
  "(if filled s then check_unique p f sh at s i seen (snd (v_required q s v)) else (seen, snd (v_required q s v)))
     = (remember_filled s i seen,
        if filled s then snd (check_unique p f sh at s i seen v) else v_add q ''is required'' [] v)"
  by (simp add: remember_filled_def check_unique_fst prod_eq_iff)

lemma validate_connector_fst: "fst (validate_connector base j c seen v) = remember_filled (cn_ID c) j seen"
  by (simp add: validate_connector_def Let_def case_prod_unfold remember_filled_def check_unique_fst)

lemma validate_connector_check:
  "field_check (\<lambda>v. snd (validate_connector base j c seen v)) (valid_connector c \<and> fresh (cn_ID c) seen)"
proof -
  have "field_check (\<lambda>v. snd (validate_connector base j c seen v))
    (((((((filled (cn_ID c) \<and> fresh (cn_ID c) seen) \<and> (filled (cn_Standard c) \<and> cn_Standard c \<in> set connectorStandards)) \<and>
      (filled (cn_Format c) \<and> cn_Format c \<in> set connectorFormats)) \<and>
      (filled (cn_PowerType c) \<and> cn_PowerType c \<in> set powerTypes)) \<and> \<not> cn_MaxVoltage c \<le> 0) \<and> \<not> cn_MaxAmperage c \<le> 0) \<and>
      \<not> cn_MaxElectricPower c < 0)"
    unfolding validate_connector_def Let_def case_prod_unfold v_required_simps(1) required_unique snd_conv
    by (intro field_check_comp [OF _ condition_check] field_check_comp [OF _ validate_enum_check] guarded_check
        check_unique_check)
  then show ?thesis
    by (rule back_subst [of "field_check _"]) (auto simp: valid_connector_def)
qed

text \<open>The loop over the connectors of an EVSE.\<close>

lemma fresh_remember_filled: "filled s \<Longrightarrow> fresh y (remember_filled s i seen) \<longleftrightarrow> y \<noteq> s \<and> fresh y seen"
  by (simp add: remember_filled_def fresh_remember)

lemma connectors_loop_check:
  "field_check (connectors_loop base j cs seen)
     ((\<forall>c \<in> set cs. valid_connector c \<and> fresh (cn_ID c) seen) \<and> distinct (map cn_ID cs))"
proof (induction cs arbitrary: j seen)
  case Nil
  show ?case by unfold_locales auto
next
  case (Cons c cs)
  let ?seen = "remember_filled (cn_ID c) j seen"
  have "connectors_loop base j (c # cs) seen
      = (\<lambda>v. connectors_loop base (Suc j) cs ?seen (snd (validate_connector base j c seen v)))"
    by (simp add: fun_eq_iff Let_def case_prod_unfold validate_connector_fst)
  then have "field_check (connectors_loop base j (c # cs) seen)
     ((valid_connector c \<and> fresh (cn_ID c) seen) \<and>
      ((\<forall>c' \<in> set cs. valid_connector c' \<and> fresh (cn_ID c') ?seen) \<and> distinct (map cn_ID cs)))"
    by (simp only:) (intro field_check_comp [OF validate_connector_check Cons.IH])
  then show ?case
    by (rule back_subst [of "field_check _"]) (auto simp: fresh_remember_filled valid_connector_def rev_image_eqI)
qed

lemma validateConnectors_check:
  "field_check (validateConnectors base cs)
     (cs \<noteq> [] \<and> (\<forall>c \<in> set cs. valid_connector c) \<and> distinct (map cn_ID cs))"
proof (cases "cs = []")
  case True
  then show ?thesis by unfold_locales (auto simp: validateConnectors_def v_add_def)
next
  case False
  then have "validateConnectors base cs = connectors_loop base 0 cs []"
    by (simp add: fun_eq_iff validateConnectors_def)
  with False connectors_loop_check [of base 0 cs "[]"] show ?thesis by (simp add: fresh_def)
qed

subsection \<open>The EVSEs\<close>

lemma validate_uid_fst: "fst (validate_uid base i e seen v) = remember_filled (e_UID e) i seen"
  by (simp add: validate_uid_def Let_def case_prod_unfold remember_filled_def check_unique_fst)

lemma validate_evse_id_fst: "fst (validate_evse_id base i e seen v) = remember_filled (e_EVSEID e) i seen"
  by (simp add: validate_evse_id_def Let_def case_prod_unfold remember_filled_def check_unique_fst)

definition remember_positive :: "int \<Rightarrow> nat \<Rightarrow> (int \<times> nat) list \<Rightarrow> (int \<times> nat) list" where
  "remember_positive n i seen = (if n < 1 then seen else remember n i seen)"

lemma validate_connector_id_fst:
  "fst (validate_connector_id base i e seen v) = remember_positive (e_OCPPConnectorID e) i seen"
  by (simp add: validate_connector_id_def remember_positive_def check_unique_fst)

lemma snd_guarded:
  "snd (if \<not> b then (s, v) else x) = (if b then snd x else v)"
  by simp

lemma validate_uid_check:
  "field_check (\<lambda>v. snd (validate_uid base i e seen v))
     (filled (e_UID e) \<and> (\<not> 36 < length (e_UID e) \<and> fresh (e_UID e) seen))"
proof -
  have "(\<lambda>v. snd (validate_uid base i e seen v)) = (\<lambda>v. if filled (e_UID e)
     then snd (check_unique (base @ ''.uid'') ''%q is already used by location.evses[%d]'' (\<lambda>x. [Str x])
            (\<lambda>first. [Num (int first)]) (e_UID e) i seen (if 36 < length (e_UID e)
                 then v_add (base @ ''.uid'') ''must be at most 36 characters (OCPI CiString36), got %d''
                   [Num (int (length (e_UID e)))] v else v))
     else v_add (base @ ''.uid'') ''is required'' [] v)"
    by (simp add: fun_eq_iff validate_uid_def Let_def case_prod_unfold)
  then show ?thesis
    by (simp only:) (intro guarded_check field_check_comp [OF _ check_unique_check] condition_check)
qed

lemma validate_evse_id_check:
  "field_check (\<lambda>v. snd (validate_evse_id base i e seen v))
     (filled (e_EVSEID e) \<and> (\<not> \<not> MatchString evseIDRe (e_EVSEID e) \<and> fresh (e_EVSEID e) seen))"
proof -
  have "(\<lambda>v. snd (validate_evse_id base i e seen v)) = (\<lambda>v. if filled (e_EVSEID e)
     then snd (check_unique (base @ ''.evse_id'') ''%q is already used by location.evses[%d]'' (\<lambda>x. [Str x])
            (\<lambda>first. [Num (int first)]) (e_EVSEID e) i seen (if \<not> MatchString evseIDRe (e_EVSEID e)
                 then v_add (base @ ''.evse_id'') ''%q does not look like an eMI3 EVSE ID, e.g. \"DE*FRY*E001*1\"''
                   [Str (e_EVSEID e)] v else v))
     else v_add (base @ ''.evse_id'') ''is required'' [] v)"
    by (simp add: fun_eq_iff validate_evse_id_def Let_def case_prod_unfold)
  then show ?thesis
    by (simp only:) (intro guarded_check field_check_comp [OF _ check_unique_check] condition_check)
qed

lemma validate_connector_id_check:
  "field_check (\<lambda>v. snd (validate_connector_id base i e seen v))
     (1 \<le> e_OCPPConnectorID e \<and> fresh (e_OCPPConnectorID e) seen)"
  by unfold_locales
    (auto simp: validate_connector_id_def check_unique_def v_add_def fresh_None split: option.splits)

definition remember_evse :: "nat \<Rightarrow> EVSE \<Rightarrow> seen_maps \<Rightarrow> seen_maps" where
  "remember_evse i e m = \<lparr>seenUID = remember_filled (e_UID e) i (seenUID m),
     seenConnectorID = remember_positive (e_OCPPConnectorID e) i (seenConnectorID m),
     seenEVSEID = remember_filled (e_EVSEID e) i (seenEVSEID m)\<rparr>"

definition fresh_evse :: "EVSE \<Rightarrow> seen_maps \<Rightarrow> bool" where
  "fresh_evse e m \<longleftrightarrow> fresh (e_UID e) (seenUID m) \<and> fresh (e_EVSEID e) (seenEVSEID m)
     \<and> fresh (e_OCPPConnectorID e) (seenConnectorID m)"

lemma fresh_remember_evse:
  "valid_evse e \<Longrightarrow> fresh_evse f (remember_evse i e m) \<longleftrightarrow>
     fresh_evse f m \<and> e_UID f \<noteq> e_UID e \<and> e_EVSEID f \<noteq> e_EVSEID e \<and> e_OCPPConnectorID f \<noteq> e_OCPPConnectorID e"
  by (auto simp: fresh_evse_def remember_evse_def fresh_remember_filled remember_positive_def fresh_remember valid_evse_def)

lemma validate_evse_fst: "fst (validate_evse i e m v) = remember_evse i e m"
  by (simp add: validate_evse_def Let_def case_prod_unfold remember_evse_def validate_uid_fst validate_evse_id_fst
      validate_connector_id_fst)

lemma validate_evse_check: "field_check (\<lambda>v. snd (validate_evse i e m v)) (valid_evse e \<and> fresh_evse e m)"
proof -
  have "field_check (\<lambda>v. snd (validate_evse i e m v))
    ((((filled (e_UID e) \<and> (\<not> 36 < length (e_UID e) \<and> fresh (e_UID e) (seenUID m))) \<and>
       (filled (e_EVSEID e) \<and> (\<not> \<not> MatchString evseIDRe (e_EVSEID e) \<and> fresh (e_EVSEID e) (seenEVSEID m)))) \<and>
       (1 \<le> e_OCPPConnectorID e \<and> fresh (e_OCPPConnectorID e) (seenConnectorID m))) \<and>
       (e_Connectors e \<noteq> [] \<and> (\<forall>c \<in> set (e_Connectors e). valid_connector c) \<and> distinct (map cn_ID (e_Connectors e))))"
    unfolding validate_evse_def Let_def case_prod_unfold snd_conv
    by (intro field_check_comp [OF _ validateConnectors_check] field_check_comp [OF _ validate_connector_id_check]
        field_check_comp [OF _ validate_evse_id_check] validate_uid_check)
  then show ?thesis
    by (rule back_subst [of "field_check _"]) (auto simp: valid_evse_def fresh_evse_def)
qed

definition distinct_evses :: "EVSE list \<Rightarrow> bool" where
  "distinct_evses es \<longleftrightarrow> distinct (map e_UID es) \<and> distinct (map e_EVSEID es) \<and> distinct (map e_OCPPConnectorID es)"

lemma evses_loop_check:
  "field_check (evses_loop i es m) ((\<forall>e \<in> set es. valid_evse e \<and> fresh_evse e m) \<and> distinct_evses es)"
proof (induction es arbitrary: i m)
  case Nil
  show ?case by unfold_locales (auto simp: distinct_evses_def)
next
  case (Cons e es)
  let ?m = "remember_evse i e m"
  have "evses_loop i (e # es) m = (\<lambda>v. evses_loop (Suc i) es ?m (snd (validate_evse i e m v)))"
    by (simp add: fun_eq_iff Let_def case_prod_unfold validate_evse_fst)
  then have "field_check (evses_loop i (e # es) m)
     ((valid_evse e \<and> fresh_evse e m) \<and> ((\<forall>f \<in> set es. valid_evse f \<and> fresh_evse f ?m) \<and> distinct_evses es))"
    by (simp only:) (intro field_check_comp [OF validate_evse_check Cons.IH])
  then show ?case
    by (rule back_subst [of "field_check _"]) (auto simp: fresh_remember_evse distinct_evses_def rev_image_eqI)
qed

lemma evses_check:
  "field_check (\<lambda>v. if es = [] then v_add p f a v
       else evses_loop 0 es \<lparr>seenUID = [], seenConnectorID = [], seenEVSEID = []\<rparr> v)
     (es \<noteq> [] \<and> (\<forall>e \<in> set es. valid_evse e) \<and> distinct_evses es)"
proof (cases "es = []")
  case True
  then show ?thesis by unfold_locales (auto simp: v_add_def)
next
  case False
  with evses_loop_check [of 0 es "\<lparr>seenUID = [], seenConnectorID = [], seenEVSEID = []\<rparr>"]
  show ?thesis by (simp add: fresh_evse_def fresh_def)
qed

lemma validateLocation_check: "field_check (validateLocation l) (valid_location l)"
proof -
  have "field_check (validateLocation l)
    ((((((((filled (lo_ID l) \<and> \<not> 36 < length (lo_ID l)) \<and> filled (lo_Address l)) \<and> filled (lo_City l)) \<and>
      (filled (lo_Country l) \<and> \<not> \<not> MatchString alpha3Re (lo_Country l))) \<and>
      valid_coordinate latitudeRe 90 (co_Latitude (lo_Coordinates l))) \<and>
      valid_coordinate longitudeRe 180 (co_Longitude (lo_Coordinates l))) \<and>
      (lo_EVSEs l \<noteq> [] \<and> (\<forall>e \<in> set (lo_EVSEs l). valid_evse e) \<and> distinct_evses (lo_EVSEs l))))"
    unfolding validateLocation_def [abs_def] Let_def case_prod_unfold v_required_simps(1)
    by (intro field_check_comp [OF _ evses_check] field_check_comp [OF _ validateCoordinate_check]
        field_check_comp [OF _ required_then_check] field_check_comp [OF _ required_check] required_then_check)
  then show ?thesis
    by (rule back_subst [of "field_check _"]) (auto simp: valid_location_def distinct_evses_def)
qed

section \<open>The interface on the model's checks\<close>

interpretation charger: field_check "\<lambda>v. snd (validateCharger ch v)" "valid_charger ch" for ch
  by (rule validateCharger_check)

interpretation server: field_check "validateServer sv" "valid_server sv" for sv
  by (rule validateServer_check)

interpretation auth: field_check "validateAuth a" "valid_auth a" for a
  by (rule validateAuth_check)

interpretation ocpi: field_check "\<lambda>v. snd (validateOCPI parse_url oc v)" "valid_ocpi parse_url oc" for parse_url oc
  by (rule validateOCPI_check)

interpretation location: field_check "validateLocation l" "valid_location l" for l
  by (rule validateLocation_check)

section \<open>The whole configuration\<close>

lemma Validate_snd:
  "snd (Validate parse_url c) =
     (let v = validateLocation (cfg_Location c) (snd (validateOCPI parse_url (cfg_OCPI c) (validateAuth (cfg_Auth c)
                (validateServer (cfg_Server c) (snd (validateCharger (cfg_Charger c) []))))))
      in if v = [] then None else Some (sortByPath v))"
  by (simp add: Validate_def Let_def case_prod_unfold)

lemma Validate_None_iff: "snd (Validate parse_url c) = None \<longleftrightarrow> valid_config parse_url c"
  by (simp add: Validate_snd Let_def valid_config_def charger.check_Nil_iff server.check_Nil_iff
      auth.check_Nil_iff ocpi.check_Nil_iff location.check_Nil_iff conj_ac)

text \<open>The report keeps every error once, ordered by path, those of one path in the order of their checks.\<close>

lemma sortByPath_props:
  "mset (sortByPath es) = mset es" "sorted (errors_Paths (sortByPath es))"
  "filter (\<lambda>e. fe_Path e = p) (sortByPath es) = filter (\<lambda>e. fe_Path e = p) es"
  by (simp_all add: sortByPath_def errors_Paths_def sort_key_stable)

text \<open>Validation resolves the durations and leaves everything else as it was.\<close>

definition resolve_Config :: "Config \<Rightarrow> Config" where
  "resolve_Config c =
     c\<lparr>cfg_Charger := (cfg_Charger c)\<lparr>ch_HeartbeatInterval := resolved (ch_HeartbeatInterval (cfg_Charger c)),
                                     ch_HeartbeatTimeout := resolved (ch_HeartbeatTimeout (cfg_Charger c)),
                                     ch_CallTimeout := resolved (ch_CallTimeout (cfg_Charger c))\<rparr>,
        cfg_OCPI := (cfg_OCPI c)\<lparr>oc_Push := (oc_Push (cfg_OCPI c))
                     \<lparr>pu_Debounce := resolved (pu_Debounce (oc_Push (cfg_OCPI c)))\<rparr>\<rparr>\<rparr>"

lemma Validate_fst: "fst (Validate parse_url c) = resolve_Config c"
proof -
  have "fst (validateCharger ch v) = ch\<lparr>ch_HeartbeatInterval := resolved (ch_HeartbeatInterval ch),
      ch_HeartbeatTimeout := resolved (ch_HeartbeatTimeout ch), ch_CallTimeout := resolved (ch_CallTimeout ch)\<rparr>" for ch v
    by (simp add: validateCharger_def Let_def case_prod_unfold positiveDuration_fst)
  moreover have "fst (validateOCPI parse_url oc v) = oc\<lparr>oc_Push := (oc_Push oc)\<lparr>pu_Debounce := resolved (pu_Debounce (oc_Push oc))\<rparr>\<rparr>" for oc v
    by (simp add: validateOCPI_def Let_def case_prod_unfold resolved_def dur_parse_def split: option.splits)
  ultimately show ?thesis
    by (simp add: Validate_def Let_def case_prod_unfold resolve_Config_def)
qed

lemma dur_raw_resolved [simp]: "dur_raw (resolved d) = dur_raw d"
  by (simp add: resolved_def split: option.splits)

lemma resolved_idem [simp]: "resolved (resolved d) = resolved d"
  by (simp add: resolved_def split: option.splits)

lemma valid_resolve_Config: "valid_config parse_url (resolve_Config c) \<longleftrightarrow> valid_config parse_url c"
  by (simp add: resolve_Config_def valid_config_def valid_charger_def valid_ocpi_def)

lemma valid_durations:
  assumes "valid_config parse_url c"
  shows "0 < dur_dur (ch_HeartbeatInterval (cfg_Charger (resolve_Config c)))"
    and "dur_dur (ch_HeartbeatInterval (cfg_Charger (resolve_Config c)))
           < dur_dur (ch_HeartbeatTimeout (cfg_Charger (resolve_Config c)))"
    and "0 < dur_dur (ch_CallTimeout (cfg_Charger (resolve_Config c)))"
    and "0 \<le> dur_dur (pu_Debounce (oc_Push (cfg_OCPI (resolve_Config c))))"
  using assms by (auto simp: resolve_Config_def valid_config_def valid_charger_def valid_ocpi_def resolved_def)

lemma valid_addressing:
  assumes "valid_config parse_url c" and "e \<in> set (cfg_EVSEs c)"
  shows "EVSEByUID c (e_UID e) = Some e" and "EVSEByConnectorID c (e_OCPPConnectorID e) = Some e"
    and "1 \<le> e_OCPPConnectorID e"
  using assms EVSE_addressing_roundtrip [of c e]
  by (auto simp: valid_config_def valid_location_def valid_evse_def)

section \<open>Loading\<close>

lemma parse_config_Inr:
  "parse_config parse_url y = Inr cfg \<longleftrightarrow>
     (\<exists>raw. y = Yaml_Document raw False \<and> valid_config parse_url (applyDefaults (normalize_Config raw))
        \<and> cfg = resolve_Config (applyDefaults (normalize_Config raw)))"
proof (cases y)
  case (Yaml_Document raw second)
  let ?c = "applyDefaults (normalize_Config raw)"
  have "Validate parse_url ?c = (resolve_Config ?c, snd (Validate parse_url ?c))"
    by (metis Validate_fst prod.collapse)
  with Yaml_Document Validate_None_iff [of parse_url ?c] show ?thesis
    by (auto simp: parse_config_def split: option.splits)
qed (auto simp: parse_config_def)

end
