(* ===== verification/Config_Properties.thy ===== *)
theory Config_Properties
  imports Config_Sound Core_Persist
begin

text \<open>
  What holds of a configuration once it has been validated or loaded, with a complete configuration
  file to evaluate it on.
\<close>

declare map_of_eq_Some_iff [simp del] Some_eq_map_of_iff [simp del]

section \<open>A configuration file\<close>

definition good_connector :: Connector where
  "good_connector = \<lparr>cn_ID = ''1'', cn_Standard = ''IEC_62196_T2'', cn_Format = ''SOCKET'', cn_PowerType = ''AC_3_PHASE'',
     cn_MaxVoltage = 230, cn_MaxAmperage = 32, cn_MaxElectricPower = 0\<rparr>"

definition good_evse :: "string \<Rightarrow> string \<Rightarrow> int \<Rightarrow> EVSE" where
  "good_evse uid eid n = \<lparr>e_UID = uid, e_EVSEID = eid, e_OCPPConnectorID = n, e_Connectors = [good_connector]\<rparr>"

definition unset_duration :: Duration where
  "unset_duration = \<lparr>dur_raw = [], dur_dur = 0\<rparr>"

definition good_raw :: Config where
  "good_raw = \<lparr>
     cfg_Charger = \<lparr>ch_ID = '' CP1 '', ch_IP = ''192.168.1.20'', ch_OCPPVersion = [], ch_HeartbeatInterval = unset_duration,
                    ch_HeartbeatTimeout = unset_duration, ch_CallTimeout = unset_duration\<rparr>,
     cfg_Server = \<lparr>ls_OCPPBind = [], ls_OCPIBind = []\<rparr>,
     cfg_Auth = \<lparr>au_DefaultIDTag = ''TAG''\<rparr>,
     cfg_OCPI = \<lparr>oc_CountryCode = ''DE'', oc_PartyID = ''FRY'', oc_PublicBaseURL = ''http://cpms/ocpi/'',
                 oc_TokenA = ''secret-a'', oc_TokenC = ''secret-c'',
                 oc_Push = \<lparr>pu_Debounce = unset_duration, pu_MaxRetries = 0\<rparr>\<rparr>,
     cfg_Location = \<lparr>lo_ID = ''L1'', lo_Name = [], lo_Address = ''Street 1'', lo_City = ''Town'', lo_PostalCode = [],
                     lo_Country = ''DEU'', lo_Coordinates = \<lparr>co_Latitude = ''52.520008'', co_Longitude = ''13.404954''\<rparr>,
                     lo_EVSEs = [good_evse ''E1'' ''DE*FRY*E001*1'' 1, good_evse ''E2'' ''DE*FRY*E001*2'' 2]\<rparr>\<rparr>"

definition good_url :: url_parser where
  "good_url raw = Some \<lparr>u_Scheme = ''http'', u_Host = ''cpms'', u_Path = ''/ocpi'', u_RawQuery = [], u_Fragment = []\<rparr>"

definition good_loaded :: Config where
  "good_loaded = resolve_Config (applyDefaults (normalize_Config good_raw))"

lemma default_durations:
  "duration_string DefaultHeartbeatInterval = ''1m0s''" "duration_string DefaultHeartbeatTimeout = ''1m30s''"
  "duration_string DefaultCallTimeout = ''30s''" "duration_string DefaultPushDebounce = ''500ms''"
  by (simp_all add: duration_string_def Second_def frac_string_def nat_digits.simps digit_char_def Let_def char_of_eq_iff
      DefaultHeartbeatInterval_def DefaultHeartbeatTimeout_def DefaultCallTimeout_def DefaultPushDebounce_def)

lemma parsed_durations:
  "ParseDuration ''1m0s'' = Some 60000000000" "ParseDuration ''1m30s'' = Some 90000000000"
  "ParseDuration ''30s'' = Some 30000000000" "ParseDuration ''500ms'' = Some 500000000"
  by code_simp+

lemma good_trims:
  "TrimSpace '' CP1 '' = ''CP1''" "TrimSpace ''192.168.1.20'' = ''192.168.1.20''" "TrimSpace ''TAG'' = ''TAG''"
  "TrimSpace ''DE'' = ''DE''" "TrimSpace ''FRY'' = ''FRY''" "TrimSpace ''http://cpms/ocpi/'' = ''http://cpms/ocpi/''"
  "TrimSpace ''secret-a'' = ''secret-a''" "TrimSpace ''secret-c'' = ''secret-c''" "TrimSpace ''L1'' = ''L1''"
  "TrimSpace ''DEU'' = ''DEU''" "TrimSpace ''52.520008'' = ''52.520008''" "TrimSpace ''13.404954'' = ''13.404954''"
  "TrimSpace ''E1'' = ''E1''" "TrimSpace ''E2'' = ''E2''"
  "TrimSpace ''DE*FRY*E001*1'' = ''DE*FRY*E001*1''" "TrimSpace ''DE*FRY*E001*2'' = ''DE*FRY*E001*2''"
  "TrimSpace ''1'' = ''1''" "TrimSpace ''IEC_62196_T2'' = ''IEC_62196_T2''" "TrimSpace ''SOCKET'' = ''SOCKET''"
  "TrimSpace ''AC_3_PHASE'' = ''AC_3_PHASE''"
  by code_simp+

lemma good_filled:
  "filled ''CP1''" "filled ''http://cpms/ocpi''" "filled ''Street 1''" "filled ''Town''" "filled DefaultOCPPBind"
  "filled DefaultOCPIBind"
  by code_simp+

lemma default_binds:
  "bind_address DefaultOCPPBind = Some (''0.0.0.0'', 9000)" "bind_address DefaultOCPIBind = Some (''0.0.0.0'', 8080)"
  using good_filled(5,6)
  by (simp_all add: bind_address_def DefaultOCPPBind_def DefaultOCPIBind_def SplitHostPort_def split_last_def Atoi_def
      parse_nat_def digit_val_def in_range64_def int64_range_def isWildcardHost_def)

lemma good_matches:
  "MatchString chargePointIDRe ''CP1''" "ParseIP ''192.168.1.20''" "MatchString idTagRe ''TAG''"
  "MatchString countryCodeRe ''DE''" "MatchString partyIDRe ''FRY''" "MatchString alpha3Re ''DEU''"
  "valid_token ''secret-a''" "valid_token ''secret-c''"
  "MatchString evseIDRe ''DE*FRY*E001*1''" "MatchString evseIDRe ''DE*FRY*E001*2''"
  "MatchString latitudeRe ''52.520008''" "MatchString longitudeRe ''13.404954''"
  "set connectorStandards \<supseteq> {''IEC_62196_T2''}" "''SOCKET'' \<in> set connectorFormats" "''AC_3_PHASE'' \<in> set powerTypes"
  by code_simp+

lemma good_degrees: "degrees ''52.520008'' = 525200080" "degrees ''13.404954'' = 134049540"
  by (simp_all add: degrees_def digits_of_def digit_val_def is_digit_def less_eq_char_def)

lemma good_valid: "valid_config good_url (applyDefaults (normalize_Config good_raw))"
proof -
  have "trim_right (\<lambda>x. x = CHR ''/'') ''http://cpms/ocpi/'' = ''http://cpms/ocpi''" by code_simp
  note facts = this default_durations parsed_durations good_trims good_filled [unfolded filled_def] default_binds good_matches good_degrees
  let ?c = "applyDefaults (normalize_Config good_raw)"
  have "valid_charger (cfg_Charger ?c)"
    by (simp add: valid_charger_def good_raw_def applyDefaults_def normalize_Config_def Let_def default_dur_def
        default_str_def dur_unset_def unset_duration_def dur_setDefault_def DefaultOCPPVersion_def ocppVersions_def filled_def facts)
  moreover have "valid_server (cfg_Server ?c)"
    by (simp add: valid_server_def good_raw_def applyDefaults_def normalize_Config_def Let_def default_str_def
        binds_collide_def facts)
  moreover have "valid_auth (cfg_Auth ?c)"
    by (simp add: valid_auth_def good_raw_def applyDefaults_def normalize_Config_def Let_def filled_def facts)
  moreover have "valid_ocpi good_url (cfg_OCPI ?c)"
    by (simp add: valid_ocpi_def good_raw_def applyDefaults_def normalize_Config_def Let_def default_dur_def
        dur_unset_def unset_duration_def dur_setDefault_def good_url_def DefaultPushMaxRetries_def filled_def facts)
  moreover have "valid_location (cfg_Location ?c)"
    using good_matches(13) by (simp add: valid_location_def good_raw_def applyDefaults_def normalize_Config_def Let_def good_evse_def
        normalize_EVSE_def good_connector_def normalize_Connector_def valid_evse_def valid_connector_def
        valid_coordinate_def filled_def facts)
  ultimately show ?thesis by (simp add: valid_config_def)
qed

lemma good_loads: "parse_config good_url (Yaml_Document good_raw False) = Inr good_loaded"
  using good_valid by (auto simp: parse_config_Inr good_loaded_def)

lemma good_loaded_parts:
  "ch_ID (cfg_Charger good_loaded) = ''CP1''" "oc_PublicBaseURL (cfg_OCPI good_loaded) = ''http://cpms/ocpi''"
  "oc_TokenA (cfg_OCPI good_loaded) = ''secret-a''"
  "dur_dur (ch_HeartbeatInterval (cfg_Charger good_loaded)) = 60 * Second"
  "dur_dur (ch_HeartbeatTimeout (cfg_Charger good_loaded)) = 90 * Second"
proof -
  have "trim_right (\<lambda>x. x = CHR ''/'') ''http://cpms/ocpi/'' = ''http://cpms/ocpi''" by code_simp
  then show "ch_ID (cfg_Charger good_loaded) = ''CP1''" "oc_PublicBaseURL (cfg_OCPI good_loaded) = ''http://cpms/ocpi''"
    "oc_TokenA (cfg_OCPI good_loaded) = ''secret-a''"
    using good_trims by (simp_all add: good_loaded_def resolve_Config_def applyDefaults_def normalize_Config_def Let_def good_raw_def)
  show "dur_dur (ch_HeartbeatInterval (cfg_Charger good_loaded)) = 60 * Second"
    "dur_dur (ch_HeartbeatTimeout (cfg_Charger good_loaded)) = 90 * Second"
    using parsed_durations default_durations
    by (simp_all add: good_loaded_def resolve_Config_def applyDefaults_def normalize_Config_def Let_def good_raw_def default_dur_def
        dur_unset_def unset_duration_def dur_setDefault_def resolved_def Second_def)
qed

section \<open>Properties\<close>

text \<open>
  C18. Validation decides exactly the specification of a usable configuration: it reports nothing if and only if every
  part is valid (patterns, ranges, parsable durations with the heartbeat timeout above the interval, listeners that do
  not collide, tokens that differ, EVSEs and connectors without a repeated id), and otherwise a non-empty report in which
  the errors are ordered by path.
\<close>

theorem validation_exact:
  "case snd (Validate parse_url c) of
     None \<Rightarrow> valid_config parse_url c
   | Some errs \<Rightarrow> \<not> valid_config parse_url c \<and> errs \<noteq> [] \<and> sorted (errors_Paths errs)"
proof (cases "snd (Validate parse_url c)")
  case None
  with Validate_None_iff [of parse_url c] show ?thesis by simp
next
  case (Some errs)
  then obtain v where v: "errs = sortByPath v" "v \<noteq> []" by (auto simp: Validate_snd Let_def split: if_splits)
  then have "errs \<noteq> []" using sortByPath_props(1) [of v] by auto
  with Some v sortByPath_props(2) [of v] show ?thesis by (simp add: Validate_None_iff [symmetric])
qed

text \<open>
  C19. A configuration that loads is usable: the file held one document and no second one, what was loaded is the normalised
  and completed form of that document, which is valid, with its durations resolved; they
  satisfy 0 < interval < timeout, the call timeout is positive, and the uid and the connector id of every EVSE lead back to that EVSE, with a connector id of at least 1.
\<close>

theorem loaded_config_usable:
  assumes "parse_config parse_url y = Inr cfg"
  shows "(\<exists>raw. y = Yaml_Document raw False \<and> valid_config parse_url (applyDefaults (normalize_Config raw))
         \<and> cfg = resolve_Config (applyDefaults (normalize_Config raw)))
    \<and> valid_config parse_url cfg
    \<and> 0 < dur_dur (ch_HeartbeatInterval (cfg_Charger cfg))
    \<and> dur_dur (ch_HeartbeatInterval (cfg_Charger cfg)) < dur_dur (ch_HeartbeatTimeout (cfg_Charger cfg))
    \<and> 0 < dur_dur (ch_CallTimeout (cfg_Charger cfg))
    \<and> (\<forall>e \<in> set (cfg_EVSEs cfg). 1 \<le> e_OCPPConnectorID e \<and> EVSEByUID cfg (e_UID e) = Some e
         \<and> EVSEByConnectorID cfg (e_OCPPConnectorID e) = Some e)"
proof -
  obtain raw where y: "y = Yaml_Document raw False" and c: "cfg = resolve_Config (applyDefaults (normalize_Config raw))"
    and "valid_config parse_url (applyDefaults (normalize_Config raw))" using assms by (auto simp: parse_config_Inr)
  then have v: "valid_config parse_url (applyDefaults (normalize_Config raw))" "valid_config parse_url cfg"
    by (simp_all add: valid_resolve_Config)
  with y c valid_durations [OF v(1)] valid_addressing [OF v(2)] show ?thesis by blast
qed

theorem loaded_config_usable_witness:
  "valid_config good_url good_loaded
    \<and> 0 < dur_dur (ch_HeartbeatInterval (cfg_Charger good_loaded))
    \<and> dur_dur (ch_HeartbeatInterval (cfg_Charger good_loaded)) < dur_dur (ch_HeartbeatTimeout (cfg_Charger good_loaded))"
  using loaded_config_usable [OF good_loads] by blast

end
