(* ===== verification/Socket_Protocol.thy ===== *)
theory Socket_Protocol
  imports Control
begin

text \<open>
  The protocol of the control socket (\<open>internal/control/socket/protocol.go\<close>): requests, responses,
  error codes and results with their JSON form, one object per line. A line is the tree of its
  JSON text, \<open>None\<close> for bytes that are no JSON.
\<close>

definition socket_Version :: int where "socket_Version = 1"

type_synonym sock_op = string

definition OpReserve_s :: sock_op where "OpReserve_s = ''reserve''"
definition OpCancel_s :: sock_op where "OpCancel_s = ''cancel''"
definition OpStart_s :: sock_op where "OpStart_s = ''start''"
definition OpStop_s :: sock_op where "OpStop_s = ''stop''"
definition OpUnlock_s :: sock_op where "OpUnlock_s = ''unlock''"
definition OpStatus_s :: sock_op where "OpStatus_s = ''status''"
definition OpProbe_s :: sock_op where "OpProbe_s = ''probe''"

lemmas sock_op_defs = OpReserve_s_def OpCancel_s_def OpStart_s_def OpStop_s_def OpUnlock_s_def OpStatus_s_def OpProbe_s_def

section \<open>Requests\<close>

record Request =
  sq_V :: int
  sq_Op :: sock_op
  sq_EVSE :: string
  sq_IDTag :: string
  sq_ExpiresIn :: string

definition enc_Request :: "Request \<Rightarrow> json" where
  "enc_Request r = JObj ([(''v'', JNum (sq_V r)), (''op'', JStr (sq_Op r))]
     @ omit_empty ''evse'' (sq_EVSE r) @ omit_empty ''id_tag'' (sq_IDTag r) @ omit_empty ''expires_in'' (sq_ExpiresIn r))"

definition dec_Request :: "json \<Rightarrow> Request option" where
  "dec_Request = dec_struct \<lparr>sq_V = 0, sq_Op = [], sq_EVSE = [], sq_IDTag = [], sq_ExpiresIn = []\<rparr>
     (\<lambda>kvs. do {
        v \<leftarrow> dec_field dec_int 0 ''v'' kvs;
        p \<leftarrow> dec_field dec_string [] ''op'' kvs;
        e \<leftarrow> dec_field dec_string [] ''evse'' kvs;
        t \<leftarrow> dec_field dec_string [] ''id_tag'' kvs;
        x \<leftarrow> dec_field dec_string [] ''expires_in'' kvs;
        Some \<lparr>sq_V = v, sq_Op = p, sq_EVSE = e, sq_IDTag = t, sq_ExpiresIn = x\<rparr>})"

section \<open>Errors and responses\<close>

datatype Code = CodeUsage | CodeNotConnected | CodeRejected | CodeOccupied | CodeFaulted | CodeTimeout
  | CodeUnlockFailed | CodeRefused | CodeInternal | OtherCode string

definition code_string :: "Code \<Rightarrow> string" where
  "code_string c = (case c of CodeUsage \<Rightarrow> ''usage'' | CodeNotConnected \<Rightarrow> ''not_connected'' | CodeRejected \<Rightarrow> ''rejected''
     | CodeOccupied \<Rightarrow> ''occupied'' | CodeFaulted \<Rightarrow> ''faulted'' | CodeTimeout \<Rightarrow> ''timeout''
     | CodeUnlockFailed \<Rightarrow> ''unlock_failed'' | CodeRefused \<Rightarrow> ''refused'' | CodeInternal \<Rightarrow> ''internal'' | OtherCode s \<Rightarrow> s)"

definition known_codes :: "Code list" where
  "known_codes = [CodeUsage, CodeNotConnected, CodeRejected, CodeOccupied, CodeFaulted, CodeTimeout, CodeUnlockFailed,
     CodeRefused, CodeInternal]"

definition code_of :: "string \<Rightarrow> Code" where
  "code_of s = (case List.find (\<lambda>c. code_string c = s) known_codes of None \<Rightarrow> OtherCode s | Some c \<Rightarrow> c)"

record Error =
  se_Code :: Code
  se_Status :: string
  se_CallError :: string
  se_Message :: string

definition enc_Error :: "Error \<Rightarrow> json" where
  "enc_Error e = JObj ([(''code'', JStr (code_string (se_Code e)))] @ omit_empty ''status'' (se_Status e)
     @ omit_empty ''call_error'' (se_CallError e) @ [(''message'', JStr (se_Message e))])"

definition dec_Error :: "json \<Rightarrow> Error option" where
  "dec_Error = dec_struct \<lparr>se_Code = code_of [], se_Status = [], se_CallError = [], se_Message = []\<rparr>
     (\<lambda>kvs. do {
        c \<leftarrow> dec_field dec_string [] ''code'' kvs;
        s \<leftarrow> dec_field dec_string [] ''status'' kvs;
        r \<leftarrow> dec_field dec_string [] ''call_error'' kvs;
        m \<leftarrow> dec_field dec_string [] ''message'' kvs;
        Some \<lparr>se_Code = code_of c, se_Status = s, se_CallError = r, se_Message = m\<rparr>})"

text \<open>A response; its result is kept as the JSON it was sent in.\<close>

record Response =
  rp_OK :: bool
  rp_Result :: "json option"
  rp_Error :: "Error option"

definition enc_Response :: "Response \<Rightarrow> json" where
  "enc_Response r = JObj ([(''ok'', JBool (rp_OK r))]
     @ (case rp_Result r of None \<Rightarrow> [] | Some j \<Rightarrow> [(''result'', j)])
     @ (case rp_Error r of None \<Rightarrow> [] | Some e \<Rightarrow> [(''error'', enc_Error e)]))"

text \<open>A raw message takes whatever value the last matching key has, \<open>null\<close> too.\<close>

fun dec_raw :: "json option \<Rightarrow> string \<Rightarrow> (string \<times> json) list \<Rightarrow> json option" where
  "dec_raw v name [] = v"
| "dec_raw v name ((k, j) # kvs) = dec_raw (if EqualFold k name then Some j else v) name kvs"

definition dec_Response :: "json \<Rightarrow> Response option" where
  "dec_Response = dec_struct \<lparr>rp_OK = False, rp_Result = None, rp_Error = None\<rparr>
     (\<lambda>kvs. do {
        b \<leftarrow> dec_field dec_bool False ''ok'' kvs;
        e \<leftarrow> dec_field (dec_pointer dec_Error) None ''error'' kvs;
        Some \<lparr>rp_OK = b, rp_Result = dec_raw None ''result'' kvs, rp_Error = e\<rparr>})"

section \<open>Results\<close>

record ReserveResult =
  rr_ReservationID :: int
  rr_EVSE :: string
  rr_IDTag :: string
  rr_ExpiresAt :: gotime

definition enc_ReserveResult :: "ReserveResult \<Rightarrow> json" where
  "enc_ReserveResult r = JObj [(''reservation_id'', JNum (rr_ReservationID r)), (''evse'', JStr (rr_EVSE r)),
     (''id_tag'', JStr (rr_IDTag r)), (''expires_at'', enc_time (rr_ExpiresAt r))]"

definition dec_ReserveResult :: "json \<Rightarrow> ReserveResult option" where
  "dec_ReserveResult = dec_struct \<lparr>rr_ReservationID = 0, rr_EVSE = [], rr_IDTag = [], rr_ExpiresAt = zero_time\<rparr>
     (\<lambda>kvs. do {
        i \<leftarrow> dec_field dec_int 0 ''reservation_id'' kvs;
        e \<leftarrow> dec_field dec_string [] ''evse'' kvs;
        t \<leftarrow> dec_field dec_string [] ''id_tag'' kvs;
        x \<leftarrow> dec_field dec_time zero_time ''expires_at'' kvs;
        Some \<lparr>rr_ReservationID = i, rr_EVSE = e, rr_IDTag = t, rr_ExpiresAt = x\<rparr>})"

record DisconnectStatus =
  ds_At :: gotime
  ds_Reason :: string

record ChargePointStatus =
  cst_ID :: string
  cst_Online :: bool
  cst_LastSeen :: "gotime option"
  cst_Vendor :: string
  cst_Model :: string
  cst_Firmware :: string
  cst_StationStatus :: string
  cst_LastDisconnect :: "DisconnectStatus option"

record ReservationStatus_row =
  rst_ID :: int
  rst_IDTag :: string
  rst_ExpiresAt :: gotime
  rst_State :: string

record TransactionStatus =
  tst_ID :: string
  tst_IDTag :: string
  tst_StartedAt :: gotime

record EVSEStatus_row =
  est_UID :: string
  est_Status :: string
  est_ErrorCode :: string
  est_Reservation :: "ReservationStatus_row option"
  est_Transaction :: "TransactionStatus option"

record Status =
  ss_ChargePoint :: ChargePointStatus
  ss_EVSEs :: "EVSEStatus_row list"

definition enc_pointer :: "('a \<Rightarrow> json) \<Rightarrow> 'a option \<Rightarrow> json" where
  "enc_pointer e x = (case x of None \<Rightarrow> JNull | Some y \<Rightarrow> e y)"

definition enc_DisconnectStatus :: "DisconnectStatus \<Rightarrow> json" where
  "enc_DisconnectStatus d = JObj [(''at'', enc_time (ds_At d)), (''reason'', JStr (ds_Reason d))]"

definition dec_DisconnectStatus :: "json \<Rightarrow> DisconnectStatus option" where
  "dec_DisconnectStatus = dec_struct \<lparr>ds_At = zero_time, ds_Reason = []\<rparr>
     (\<lambda>kvs. do {
        a \<leftarrow> dec_field dec_time zero_time ''at'' kvs;
        r \<leftarrow> dec_field dec_string [] ''reason'' kvs;
        Some \<lparr>ds_At = a, ds_Reason = r\<rparr>})"

definition enc_ChargePointStatus :: "ChargePointStatus \<Rightarrow> json" where
  "enc_ChargePointStatus c = JObj [(''id'', JStr (cst_ID c)), (''online'', JBool (cst_Online c)),
     (''last_seen'', enc_pointer enc_time (cst_LastSeen c)), (''vendor'', JStr (cst_Vendor c)),
     (''model'', JStr (cst_Model c)), (''firmware'', JStr (cst_Firmware c)),
     (''station_status'', JStr (cst_StationStatus c)),
     (''last_disconnect'', enc_pointer enc_DisconnectStatus (cst_LastDisconnect c))]"

definition zero_ChargePointStatus :: ChargePointStatus where
  "zero_ChargePointStatus = \<lparr>cst_ID = [], cst_Online = False, cst_LastSeen = None, cst_Vendor = [], cst_Model = [],
     cst_Firmware = [], cst_StationStatus = [], cst_LastDisconnect = None\<rparr>"

definition dec_ChargePointStatus :: "json \<Rightarrow> ChargePointStatus option" where
  "dec_ChargePointStatus = dec_struct zero_ChargePointStatus
     (\<lambda>kvs. do {
        i \<leftarrow> dec_field dec_string [] ''id'' kvs;
        b \<leftarrow> dec_field dec_bool False ''online'' kvs;
        l \<leftarrow> dec_field (dec_pointer dec_time) None ''last_seen'' kvs;
        v \<leftarrow> dec_field dec_string [] ''vendor'' kvs;
        m \<leftarrow> dec_field dec_string [] ''model'' kvs;
        f \<leftarrow> dec_field dec_string [] ''firmware'' kvs;
        s \<leftarrow> dec_field dec_string [] ''station_status'' kvs;
        d \<leftarrow> dec_field (dec_pointer dec_DisconnectStatus) None ''last_disconnect'' kvs;
        Some \<lparr>cst_ID = i, cst_Online = b, cst_LastSeen = l, cst_Vendor = v, cst_Model = m, cst_Firmware = f,
              cst_StationStatus = s, cst_LastDisconnect = d\<rparr>})"

definition enc_ReservationStatus :: "ReservationStatus_row \<Rightarrow> json" where
  "enc_ReservationStatus r = JObj [(''id'', JNum (rst_ID r)), (''id_tag'', JStr (rst_IDTag r)),
     (''expires_at'', enc_time (rst_ExpiresAt r)), (''state'', JStr (rst_State r))]"

definition dec_ReservationStatus :: "json \<Rightarrow> ReservationStatus_row option" where
  "dec_ReservationStatus = dec_struct \<lparr>rst_ID = 0, rst_IDTag = [], rst_ExpiresAt = zero_time, rst_State = []\<rparr>
     (\<lambda>kvs. do {
        i \<leftarrow> dec_field dec_int 0 ''id'' kvs;
        t \<leftarrow> dec_field dec_string [] ''id_tag'' kvs;
        x \<leftarrow> dec_field dec_time zero_time ''expires_at'' kvs;
        s \<leftarrow> dec_field dec_string [] ''state'' kvs;
        Some \<lparr>rst_ID = i, rst_IDTag = t, rst_ExpiresAt = x, rst_State = s\<rparr>})"

definition enc_TransactionStatus :: "TransactionStatus \<Rightarrow> json" where
  "enc_TransactionStatus t = JObj [(''id'', JStr (tst_ID t)), (''id_tag'', JStr (tst_IDTag t)),
     (''started_at'', enc_time (tst_StartedAt t))]"

definition dec_TransactionStatus :: "json \<Rightarrow> TransactionStatus option" where
  "dec_TransactionStatus = dec_struct \<lparr>tst_ID = [], tst_IDTag = [], tst_StartedAt = zero_time\<rparr>
     (\<lambda>kvs. do {
        i \<leftarrow> dec_field dec_string [] ''id'' kvs;
        t \<leftarrow> dec_field dec_string [] ''id_tag'' kvs;
        a \<leftarrow> dec_field dec_time zero_time ''started_at'' kvs;
        Some \<lparr>tst_ID = i, tst_IDTag = t, tst_StartedAt = a\<rparr>})"

definition enc_EVSEStatus :: "EVSEStatus_row \<Rightarrow> json" where
  "enc_EVSEStatus e = JObj [(''uid'', JStr (est_UID e)), (''status'', JStr (est_Status e)),
     (''error_code'', JStr (est_ErrorCode e)), (''reservation'', enc_pointer enc_ReservationStatus (est_Reservation e)),
     (''transaction'', enc_pointer enc_TransactionStatus (est_Transaction e))]"

definition dec_EVSEStatus :: "json \<Rightarrow> EVSEStatus_row option" where
  "dec_EVSEStatus = dec_struct \<lparr>est_UID = [], est_Status = [], est_ErrorCode = [], est_Reservation = None, est_Transaction = None\<rparr>
     (\<lambda>kvs. do {
        u \<leftarrow> dec_field dec_string [] ''uid'' kvs;
        s \<leftarrow> dec_field dec_string [] ''status'' kvs;
        c \<leftarrow> dec_field dec_string [] ''error_code'' kvs;
        r \<leftarrow> dec_field (dec_pointer dec_ReservationStatus) None ''reservation'' kvs;
        t \<leftarrow> dec_field (dec_pointer dec_TransactionStatus) None ''transaction'' kvs;
        Some \<lparr>est_UID = u, est_Status = s, est_ErrorCode = c, est_Reservation = r, est_Transaction = t\<rparr>})"

definition enc_Status :: "Status \<Rightarrow> json" where
  "enc_Status s = JObj [(''charge_point'', enc_ChargePointStatus (ss_ChargePoint s)),
     (''evses'', JArr (map enc_EVSEStatus (ss_EVSEs s)))]"

definition dec_Status :: "json \<Rightarrow> Status option" where
  "dec_Status = dec_struct \<lparr>ss_ChargePoint = zero_ChargePointStatus, ss_EVSEs = []\<rparr>
     (\<lambda>kvs. do {
        c \<leftarrow> dec_field dec_ChargePointStatus zero_ChargePointStatus ''charge_point'' kvs;
        es \<leftarrow> dec_field (dec_slice dec_EVSEStatus) None ''evses'' kvs;
        Some \<lparr>ss_ChargePoint = c, ss_EVSEs = elems es\<rparr>})"

record ProbeChargePoint =
  pc_ID :: string
  pc_OCPPVersion :: string
  pc_Vendor :: string
  pc_Model :: string
  pc_SerialNumber :: string
  pc_Firmware :: string

record ProbeFeature =
  pf_Name :: string
  pf_Support :: string
  pf_Grants :: "string list"
  pf_Assumed :: bool

record ProbeCapability =
  pcap_Name :: string
  pcap_Support :: string

record ProbeSetting =
  ps_Name :: string
  ps_Value :: string
  ps_Reported :: bool
  ps_Meaning :: string

record ProbeRawKey =
  pk_Key :: string
  pk_Value :: string
  pk_Readonly :: bool

record ProbeResult =
  pr_ChargePoint :: ProbeChargePoint
  pr_Features :: "ProbeFeature list"
  pr_Capabilities :: "ProbeCapability list"
  pr_Settings :: "ProbeSetting list"
  pr_Connectors :: "int option"
  pr_HeartbeatIntervalSeconds :: "int option"
  pr_Raw :: "ProbeRawKey list"

definition enc_ProbeChargePoint :: "ProbeChargePoint \<Rightarrow> json" where
  "enc_ProbeChargePoint c = JObj [(''id'', JStr (pc_ID c)), (''ocpp_version'', JStr (pc_OCPPVersion c)),
     (''vendor'', JStr (pc_Vendor c)), (''model'', JStr (pc_Model c)),
     (''serial_number'', JStr (pc_SerialNumber c)), (''firmware'', JStr (pc_Firmware c))]"

definition enc_ProbeFeature :: "ProbeFeature \<Rightarrow> json" where
  "enc_ProbeFeature f = JObj [(''name'', JStr (pf_Name f)), (''support'', JStr (pf_Support f)),
     (''grants'', JArr (map JStr (pf_Grants f))), (''assumed'', JBool (pf_Assumed f))]"

definition enc_ProbeCapability :: "ProbeCapability \<Rightarrow> json" where
  "enc_ProbeCapability x = JObj [(''name'', JStr (pcap_Name x)), (''support'', JStr (pcap_Support x))]"

definition enc_ProbeSetting :: "ProbeSetting \<Rightarrow> json" where
  "enc_ProbeSetting s = JObj [(''name'', JStr (ps_Name s)), (''value'', JStr (ps_Value s)),
     (''reported'', JBool (ps_Reported s)), (''meaning'', JStr (ps_Meaning s))]"

definition enc_ProbeRawKey :: "ProbeRawKey \<Rightarrow> json" where
  "enc_ProbeRawKey k = JObj [(''key'', JStr (pk_Key k)), (''value'', JStr (pk_Value k)), (''readonly'', JBool (pk_Readonly k))]"

definition enc_ProbeResult :: "ProbeResult \<Rightarrow> json" where
  "enc_ProbeResult r = JObj
     [(''charge_point'', enc_ProbeChargePoint (pr_ChargePoint r)),
      (''features'', JArr (map enc_ProbeFeature (pr_Features r))),
      (''capabilities'', JArr (map enc_ProbeCapability (pr_Capabilities r))),
      (''settings'', JArr (map enc_ProbeSetting (pr_Settings r))),
      (''connectors'', enc_pointer JNum (pr_Connectors r)),
      (''heartbeat_interval_s'', enc_pointer JNum (pr_HeartbeatIntervalSeconds r)),
      (''raw'', JArr (map enc_ProbeRawKey (pr_Raw r)))]"

definition zero_ProbeChargePoint :: ProbeChargePoint where
  "zero_ProbeChargePoint = \<lparr>pc_ID = [], pc_OCPPVersion = [], pc_Vendor = [], pc_Model = [], pc_SerialNumber = [], pc_Firmware = []\<rparr>"

definition dec_ProbeChargePoint :: "json \<Rightarrow> ProbeChargePoint option" where
  "dec_ProbeChargePoint = dec_struct zero_ProbeChargePoint
     (\<lambda>kvs. do {
        i \<leftarrow> dec_field dec_string [] ''id'' kvs;
        n \<leftarrow> dec_field dec_string [] ''ocpp_version'' kvs;
        v \<leftarrow> dec_field dec_string [] ''vendor'' kvs;
        m \<leftarrow> dec_field dec_string [] ''model'' kvs;
        s \<leftarrow> dec_field dec_string [] ''serial_number'' kvs;
        f \<leftarrow> dec_field dec_string [] ''firmware'' kvs;
        Some \<lparr>pc_ID = i, pc_OCPPVersion = n, pc_Vendor = v, pc_Model = m, pc_SerialNumber = s, pc_Firmware = f\<rparr>})"

definition dec_ProbeFeature :: "json \<Rightarrow> ProbeFeature option" where
  "dec_ProbeFeature = dec_struct \<lparr>pf_Name = [], pf_Support = [], pf_Grants = [], pf_Assumed = False\<rparr>
     (\<lambda>kvs. do {
        n \<leftarrow> dec_field dec_string [] ''name'' kvs;
        s \<leftarrow> dec_field dec_string [] ''support'' kvs;
        g \<leftarrow> dec_field (dec_slice (dec_into dec_string [])) None ''grants'' kvs;
        a \<leftarrow> dec_field dec_bool False ''assumed'' kvs;
        Some \<lparr>pf_Name = n, pf_Support = s, pf_Grants = elems g, pf_Assumed = a\<rparr>})"

definition dec_ProbeCapability :: "json \<Rightarrow> ProbeCapability option" where
  "dec_ProbeCapability = dec_struct \<lparr>pcap_Name = [], pcap_Support = []\<rparr>
     (\<lambda>kvs. do {
        n \<leftarrow> dec_field dec_string [] ''name'' kvs;
        s \<leftarrow> dec_field dec_string [] ''support'' kvs;
        Some \<lparr>pcap_Name = n, pcap_Support = s\<rparr>})"

definition dec_ProbeSetting :: "json \<Rightarrow> ProbeSetting option" where
  "dec_ProbeSetting = dec_struct \<lparr>ps_Name = [], ps_Value = [], ps_Reported = False, ps_Meaning = []\<rparr>
     (\<lambda>kvs. do {
        n \<leftarrow> dec_field dec_string [] ''name'' kvs;
        v \<leftarrow> dec_field dec_string [] ''value'' kvs;
        r \<leftarrow> dec_field dec_bool False ''reported'' kvs;
        m \<leftarrow> dec_field dec_string [] ''meaning'' kvs;
        Some \<lparr>ps_Name = n, ps_Value = v, ps_Reported = r, ps_Meaning = m\<rparr>})"

definition dec_ProbeRawKey :: "json \<Rightarrow> ProbeRawKey option" where
  "dec_ProbeRawKey = dec_struct \<lparr>pk_Key = [], pk_Value = [], pk_Readonly = False\<rparr>
     (\<lambda>kvs. do {
        k \<leftarrow> dec_field dec_string [] ''key'' kvs;
        v \<leftarrow> dec_field dec_string [] ''value'' kvs;
        r \<leftarrow> dec_field dec_bool False ''readonly'' kvs;
        Some \<lparr>pk_Key = k, pk_Value = v, pk_Readonly = r\<rparr>})"

definition dec_ProbeResult :: "json \<Rightarrow> ProbeResult option" where
  "dec_ProbeResult = dec_struct \<lparr>pr_ChargePoint = zero_ProbeChargePoint, pr_Features = [], pr_Capabilities = [], pr_Settings = [],
       pr_Connectors = None, pr_HeartbeatIntervalSeconds = None, pr_Raw = []\<rparr>
     (\<lambda>kvs. do {
        c \<leftarrow> dec_field dec_ProbeChargePoint zero_ProbeChargePoint ''charge_point'' kvs;
        fs \<leftarrow> dec_field (dec_slice dec_ProbeFeature) None ''features'' kvs;
        cs \<leftarrow> dec_field (dec_slice dec_ProbeCapability) None ''capabilities'' kvs;
        ss \<leftarrow> dec_field (dec_slice dec_ProbeSetting) None ''settings'' kvs;
        n \<leftarrow> dec_field (dec_pointer dec_int) None ''connectors'' kvs;
        h \<leftarrow> dec_field (dec_pointer dec_int) None ''heartbeat_interval_s'' kvs;
        ks \<leftarrow> dec_field (dec_slice dec_ProbeRawKey) None ''raw'' kvs;
        Some \<lparr>pr_ChargePoint = c, pr_Features = elems fs, pr_Capabilities = elems cs, pr_Settings = elems ss,
              pr_Connectors = n, pr_HeartbeatIntervalSeconds = h, pr_Raw = elems ks\<rparr>})"

section \<open>Round trips\<close>

lemma fold_sock_keys [simp]:
  "fold_key ''v'' = ''v''" "fold_key ''op'' = ''op''" "fold_key ''evse'' = ''evse''" "fold_key ''expires_in'' = ''expires_in''"
  "fold_key ''code'' = ''code''" "fold_key ''status'' = ''status''" "fold_key ''call_error'' = ''call_error''"
  "fold_key ''message'' = ''message''" "fold_key ''ok'' = ''ok''" "fold_key ''result'' = ''result''"
  "fold_key ''error'' = ''error''" "fold_key ''at'' = ''at''" "fold_key ''reason'' = ''reason''"
  "fold_key ''online'' = ''online''" "fold_key ''last_seen'' = ''last_seen''" "fold_key ''vendor'' = ''vendor''"
  "fold_key ''model'' = ''model''" "fold_key ''firmware'' = ''firmware''" "fold_key ''station_status'' = ''station_status''"
  "fold_key ''last_disconnect'' = ''last_disconnect''" "fold_key ''state'' = ''state''" "fold_key ''uid'' = ''uid''"
  "fold_key ''error_code'' = ''error_code''" "fold_key ''reservation'' = ''reservation''"
  "fold_key ''transaction'' = ''transaction''" "fold_key ''charge_point'' = ''charge_point''"
  "fold_key ''evses'' = ''evses''"
  by code_simp+

lemmas sock_key_simps = EqualFold_def fold_sock_keys fold_state_keys

lemma dec_enc_Request: "int64_range (sq_V r) \<Longrightarrow> dec_Request (enc_Request r) = Some r"
  by (cases r) (simp add: dec_Request_def enc_Request_def sock_key_simps omit_empty_def)

lemma code_of_string [simp]: "c \<in> set known_codes \<Longrightarrow> code_of (code_string c) = c"
  by (auto simp: known_codes_def code_of_def code_string_def)

lemma dec_enc_Error: "se_Code e \<in> set known_codes \<Longrightarrow> dec_Error (enc_Error e) = Some e"
  by (cases e) (simp add: dec_Error_def enc_Error_def sock_key_simps omit_empty_def)

lemma dec_enc_Response:
  assumes "pred_option (\<lambda>e. se_Code e \<in> set known_codes) (rp_Error r)"
  shows "dec_Response (enc_Response r) = Some r"
proof -
  have obj: "enc_Error e \<noteq> JNull" for e by (simp add: enc_Error_def)
  show ?thesis using assms
    by (cases r; cases "rp_Result r"; cases "rp_Error r")
      (simp_all add: dec_Response_def enc_Response_def sock_key_simps dec_pointer_def dec_enc_Error obj)
qed

lemma dec_enc_ReserveResult:
  "int64_range (rr_ReservationID r) \<Longrightarrow> utc_year (rr_ExpiresAt r) \<Longrightarrow> dec_ReserveResult (enc_ReserveResult r) = Some r"
  by (cases r) (simp add: dec_ReserveResult_def enc_ReserveResult_def sock_key_simps enc_time_def parse_enc_time)

text \<open>The statuses that reach a client unchanged: times in UTC with four-digit years, 64-bit ids.\<close>

definition row_ok :: "EVSEStatus_row \<Rightarrow> bool" where
  "row_ok e \<longleftrightarrow> pred_option (\<lambda>r. int64_range (rst_ID r) \<and> utc_year (rst_ExpiresAt r)) (est_Reservation e)
     \<and> pred_option (\<lambda>t. utc_year (tst_StartedAt t)) (est_Transaction e)"

definition status_ok :: "Status \<Rightarrow> bool" where
  "status_ok s \<longleftrightarrow> pred_option utc_year (cst_LastSeen (ss_ChargePoint s))
     \<and> pred_option (\<lambda>d. utc_year (ds_At d)) (cst_LastDisconnect (ss_ChargePoint s)) \<and> list_all row_ok (ss_EVSEs s)"

lemma dec_enc_DisconnectStatus: "utc_year (ds_At d) \<Longrightarrow> dec_DisconnectStatus (enc_DisconnectStatus d) = Some d"
  by (cases d) (simp add: dec_DisconnectStatus_def enc_DisconnectStatus_def sock_key_simps enc_time_def parse_enc_time)

lemma dec_enc_ReservationStatus:
  "int64_range (rst_ID r) \<Longrightarrow> utc_year (rst_ExpiresAt r) \<Longrightarrow> dec_ReservationStatus (enc_ReservationStatus r) = Some r"
  by (cases r) (simp add: dec_ReservationStatus_def enc_ReservationStatus_def sock_key_simps enc_time_def parse_enc_time)

lemma dec_enc_TransactionStatus: "utc_year (tst_StartedAt t) \<Longrightarrow> dec_TransactionStatus (enc_TransactionStatus t) = Some t"
  by (cases t) (simp add: dec_TransactionStatus_def enc_TransactionStatus_def sock_key_simps enc_time_def parse_enc_time)

lemma enc_not_null [simp]:
  "enc_DisconnectStatus d \<noteq> JNull" "enc_ReservationStatus r \<noteq> JNull" "enc_TransactionStatus t \<noteq> JNull"
  "enc_time a \<noteq> JNull" "enc_ChargePointStatus c \<noteq> JNull"
  by (simp_all add: enc_DisconnectStatus_def enc_ReservationStatus_def enc_TransactionStatus_def enc_time_def
      enc_ChargePointStatus_def)

lemma dec_enc_time: "utc_year t \<Longrightarrow> dec_time (enc_time t) = Some t"
  by (simp add: enc_time_def parse_enc_time)

lemma dec_enc_ChargePointStatus:
  assumes "pred_option utc_year (cst_LastSeen c)" and "pred_option (\<lambda>d. utc_year (ds_At d)) (cst_LastDisconnect c)"
  shows "dec_ChargePointStatus (enc_ChargePointStatus c) = Some c"
  using assms
  by (cases c; cases "cst_LastSeen c"; cases "cst_LastDisconnect c")
    (simp_all add: dec_ChargePointStatus_def enc_ChargePointStatus_def sock_key_simps dec_pointer_def enc_pointer_def
      dec_enc_DisconnectStatus dec_enc_time)

lemma dec_enc_EVSEStatus: "row_ok e \<Longrightarrow> dec_EVSEStatus (enc_EVSEStatus e) = Some e"
  by (cases e; cases "est_Reservation e"; cases "est_Transaction e")
    (simp_all add: row_ok_def dec_EVSEStatus_def enc_EVSEStatus_def sock_key_simps dec_pointer_def enc_pointer_def
      dec_enc_ReservationStatus dec_enc_TransactionStatus)

lemma dec_enc_Status: "status_ok s \<Longrightarrow> dec_Status (enc_Status s) = Some s"
proof -
  assume ok: "status_ok s"
  then have "dec_all dec_EVSEStatus (map enc_EVSEStatus (ss_EVSEs s)) = Some (ss_EVSEs s)"
    by (intro dec_all_map dec_enc_EVSEStatus) (simp add: status_ok_def list_all_iff)
  with ok dec_enc_ChargePointStatus [of "ss_ChargePoint s"] show ?thesis
    by (cases s) (simp add: status_ok_def dec_Status_def enc_Status_def sock_key_simps)
qed

text \<open>A probe result reaches the client unchanged if its numbers are Go ints.\<close>

lemma fold_probe_keys [simp]:
  "fold_key ''ocpp_version'' = ''ocpp_version''" "fold_key ''serial_number'' = ''serial_number''" "fold_key ''name'' = ''name''"
  "fold_key ''support'' = ''support''" "fold_key ''grants'' = ''grants''" "fold_key ''assumed'' = ''assumed''"
  "fold_key ''value'' = ''value''" "fold_key ''reported'' = ''reported''" "fold_key ''meaning'' = ''meaning''"
  "fold_key ''key'' = ''key''" "fold_key ''readonly'' = ''readonly''" "fold_key ''features'' = ''features''"
  "fold_key ''capabilities'' = ''capabilities''" "fold_key ''settings'' = ''settings''" "fold_key ''connectors'' = ''connectors''"
  "fold_key ''heartbeat_interval_s'' = ''heartbeat_interval_s''" "fold_key ''raw'' = ''raw''"
  by code_simp+

lemma dec_enc_probe_parts:
  "dec_ProbeChargePoint (enc_ProbeChargePoint c) = Some c" "dec_ProbeCapability (enc_ProbeCapability x) = Some x"
  "dec_ProbeSetting (enc_ProbeSetting s) = Some s" "dec_ProbeRawKey (enc_ProbeRawKey k) = Some k"
  by (cases c, simp add: dec_ProbeChargePoint_def enc_ProbeChargePoint_def sock_key_simps fold_probe_keys)
    (cases x, simp add: dec_ProbeCapability_def enc_ProbeCapability_def sock_key_simps fold_probe_keys,
     cases s, simp add: dec_ProbeSetting_def enc_ProbeSetting_def sock_key_simps fold_probe_keys,
     cases k, simp add: dec_ProbeRawKey_def enc_ProbeRawKey_def sock_key_simps fold_probe_keys)

lemma dec_enc_ProbeFeature: "dec_ProbeFeature (enc_ProbeFeature f) = Some f"
  by (cases f) (simp add: dec_ProbeFeature_def enc_ProbeFeature_def sock_key_simps fold_probe_keys dec_all_strings)

lemma dec_enc_ProbeResult:
  assumes "pred_option int64_range (pr_Connectors r)" and "pred_option int64_range (pr_HeartbeatIntervalSeconds r)"
  shows "dec_ProbeResult (enc_ProbeResult r) = Some r"
proof -
  have obj: "enc_ProbeChargePoint c \<noteq> JNull" for c by (simp add: enc_ProbeChargePoint_def)
  have "dec_all dec_ProbeFeature (map enc_ProbeFeature fs) = Some fs" "dec_all dec_ProbeCapability (map enc_ProbeCapability cs) = Some cs"
    "dec_all dec_ProbeSetting (map enc_ProbeSetting ss) = Some ss" "dec_all dec_ProbeRawKey (map enc_ProbeRawKey ks) = Some ks"
    for fs cs ss ks by (intro dec_all_map dec_enc_ProbeFeature dec_enc_probe_parts)+
  with assms show ?thesis
    by (cases r; cases "pr_Connectors r"; cases "pr_HeartbeatIntervalSeconds r")
      (simp_all add: dec_ProbeResult_def enc_ProbeResult_def sock_key_simps fold_probe_keys dec_pointer_def enc_pointer_def
        dec_enc_probe_parts obj)
qed

end
