(* ===== verification/Socket.thy ===== *)
theory Socket
  imports Socket_Protocol Go_Net
begin

text \<open>
  The control socket (\<open>internal/control/socket/status.go\<close>, \<open>server.go\<close>, \<open>client.go\<close>): the status
  and probe answers, the sock_dispatch of a request to \<open>control\<close>, the classification of its errors, the
  claim of the socket path and the client's side of a call.

  The texts of errors are the argument \<open>text\<close>; the file system and the connection are arguments
  that say what each system call found.
\<close>

declare map_of_eq_Some_iff [simp del] Some_eq_map_of_iff [simp del]

section \<open>The status answer (status.go)\<close>

definition utcOrNil :: "gotime \<Rightarrow> gotime option" where
  "utcOrNil t = (if IsZero t then None else Some (UTC t))"

definition reservation_state :: "ReservationStatus \<Rightarrow> string" where
  "reservation_state s = (case s of ReservationPending \<Rightarrow> ''pending'' | ReservationActive \<Rightarrow> ''active''
     | ReservationCancelling \<Rightarrow> ''cancelling'')"

definition status_row :: "(string \<times> Reservation) list \<Rightarrow> (string \<times> Transaction) list \<Rightarrow> EVSESnapshot \<Rightarrow> EVSEStatus_row" where
  "status_row reservations transactions e =
     \<lparr>est_UID = es_UID e, est_Status = status_string (es_Status e), est_ErrorCode = es_ErrorCode e,
      est_Reservation = map_option (\<lambda>r. \<lparr>rst_ID = r_ID r, rst_IDTag = r_IDTag r, rst_ExpiresAt = UTC (r_ExpiresAt r),
                                        rst_State = reservation_state (r_Status r)\<rparr>) (map_of reservations (es_UID e)),
      est_Transaction = map_option (\<lambda>t. \<lparr>tst_ID = tx_ID t, tst_IDTag = tx_IDTag t, tst_StartedAt = UTC (tx_StartedAt t)\<rparr>)
                          (map_of transactions (es_UID e))\<rparr>"

definition BuildStatus :: "Snapshot \<Rightarrow> string \<Rightarrow> Status" where
  "BuildStatus snap chargePointID =
     (case Snapshot_ChargePoint snap chargePointID of
        None \<Rightarrow> \<lparr>ss_ChargePoint = zero_ChargePointStatus\<lparr>cst_ID := chargePointID\<rparr>, ss_EVSEs = []\<rparr>
      | Some cp \<Rightarrow>
          let reservations = fold (\<lambda>r m. m_put (r_EVSEUID r) r m) (cs_Reservations cp) [];
              transactions = fold (\<lambda>t m. if tx_Active t then m_put (tx_EVSEUID t) t m else m) (cs_Transactions cp) []
          in \<lparr>ss_ChargePoint =
                \<lparr>cst_ID = cs_ID cp, cst_Online = cs_Online cp, cst_LastSeen = utcOrNil (cs_LastSeen cp),
                 cst_Vendor = bi_Vendor (cs_Boot cp), cst_Model = bi_Model (cs_Boot cp),
                 cst_Firmware = bi_FirmwareVersion (cs_Boot cp), cst_StationStatus = status_string (cs_StationStatus cp),
                 cst_LastDisconnect = (let d = cs_LastDisconnect cp
                    in if IsZero (dc_At d) then None else Some \<lparr>ds_At = UTC (dc_At d), ds_Reason = dc_Reason d\<rparr>)\<rparr>,
              ss_EVSEs = map (status_row reservations transactions) (cs_EVSEs cp)\<rparr>)"

definition capability_string :: "Capability \<Rightarrow> string" where
  "capability_string c = (case c of CapRemoteStartStop \<Rightarrow> ''remote_start_stop'' | CapUnlock \<Rightarrow> ''unlock''
     | CapReservation \<Rightarrow> ''reservation'' | CapTriggerStatus \<Rightarrow> ''trigger_status'')"

definition support_string :: "Support \<Rightarrow> string" where
  "support_string s = (case s of SupportYes \<Rightarrow> ''yes'' | SupportNo \<Rightarrow> ''no'' | SupportUnknown \<Rightarrow> ''unknown'')"

text \<open>
  A duration in whole seconds, cut off towards zero. The quotient is exact for every duration below 97 days; beyond that the
  float64 of \<open>Seconds\<close> may round a fraction just under a second up.
\<close>

definition int_seconds :: "duration \<Rightarrow> int" where
  "int_seconds d = (if d < 0 then - ((- d) div Second) else d div Second)"

definition BuildProbe :: "ProbeReport \<Rightarrow> Snapshot \<Rightarrow> string \<Rightarrow> ProbeResult" where
  "BuildProbe report snap chargePointID =
     (let boot = map_option cs_Boot (Snapshot_ChargePoint snap chargePointID);
          field = (\<lambda>f. case boot of None \<Rightarrow> [] | Some b \<Rightarrow> f b)
      in \<lparr>pr_ChargePoint = \<lparr>pc_ID = chargePointID, pc_OCPPVersion = pb_Version report, pc_Vendor = field bi_Vendor,
                            pc_Model = field bi_Model, pc_SerialNumber = field bi_SerialNumber,
                            pc_Firmware = field bi_FirmwareVersion\<rparr>,
          pr_Features = map (\<lambda>f. \<lparr>pf_Name = ft_Name f, pf_Support = support_string (ft_Support f),
                                 pf_Grants = map capability_string (ft_Grants f), pf_Assumed = ft_Assumed f\<rparr>) (pb_Features report),
          pr_Capabilities = map (\<lambda>c. \<lparr>pcap_Name = capability_string c,
                                     pcap_Support = support_string (report_Support report c)\<rparr>) AllCapabilities,
          pr_Settings = map (\<lambda>s. \<lparr>ps_Name = set_Name s, ps_Value = set_Value s, ps_Reported = set_Reported s,
                                 ps_Meaning = set_Meaning s\<rparr>) (pb_Settings report),
          pr_Connectors = pb_Connectors report,
          pr_HeartbeatIntervalSeconds = map_option int_seconds (pb_HeartbeatInterval report),
          pr_Raw = map (\<lambda>k. \<lparr>pk_Key = raw_Key k, pk_Value = raw_Value k, pk_Readonly = raw_Readonly k\<rparr>) (pb_Raw report)\<rparr>)"

section \<open>Errors (server.go)\<close>

definition mk_error :: "Code \<Rightarrow> string \<Rightarrow> Error" where
  "mk_error c m = \<lparr>se_Code = c, se_Status = [], se_CallError = [], se_Message = m\<rparr>"

definition refused_code :: "CommandStatus \<Rightarrow> Code" where
  "refused_code s = (case s of CommandOccupied \<Rightarrow> CodeOccupied | CommandFaulted \<Rightarrow> CodeFaulted | CommandUnavailable \<Rightarrow> CodeFaulted
     | CommandUnlockFailed \<Rightarrow> CodeUnlockFailed | CommandNotSupported \<Rightarrow> CodeUnlockFailed
     | CommandNotImplemented \<Rightarrow> CodeUnlockFailed | _ \<Rightarrow> CodeRejected)"

text \<open>The errors of \<open>control\<close> by the sentinel or type that \<open>errors.Is\<close> and \<open>errors.As\<close> find in them.\<close>

definition classify :: "(control_error \<Rightarrow> string) \<Rightarrow> control_error \<Rightarrow> Error" where
  "classify text err =
     (let e = mk_error CodeInternal (text err)
      in case err of
           RefusedError op uid status raw \<Rightarrow> e\<lparr>se_Status := raw, se_Code := refused_code status\<rparr>
         | StationError (ErrRPC callErr) \<Rightarrow>
             if re_Code callErr = ErrNotImplemented \<or> re_Code callErr = ErrNotSupported
             then e\<lparr>se_Code := CodeUnlockFailed, se_CallError := re_Code callErr\<rparr> else e
         | StationError ErrTimeout \<Rightarrow> e\<lparr>se_Code := CodeTimeout\<rparr>
         | StationError ErrNotConnected \<Rightarrow> e\<lparr>se_Code := CodeNotConnected\<rparr>
         | StationError (ErrUnknownEVSE uid) \<Rightarrow> e\<lparr>se_Code := CodeUsage\<rparr>
         | CoreError (ErrAlreadyReserved uid) \<Rightarrow> e\<lparr>se_Code := CodeRefused\<rparr>
         | ErrShuttingDown \<Rightarrow> e\<lparr>se_Code := CodeRefused\<rparr>
         | ErrNoReservation uid \<Rightarrow> e\<lparr>se_Code := CodeRefused\<rparr>
         | ErrNoActiveTransaction uid \<Rightarrow> e\<lparr>se_Code := CodeRefused\<rparr>
         | _ \<Rightarrow> e)"

definition fail :: "Error \<Rightarrow> Response" where
  "fail e = \<lparr>rp_OK = False, rp_Result = None, rp_Error = Some e\<rparr>"

text \<open>\<open>ok\<close> with what \<open>json.Marshal\<close> gave, \<open>Inl\<close> the text of its error.\<close>

definition ok :: "string + json \<Rightarrow> Response" where
  "ok encoded = (case encoded of
       Inl e \<Rightarrow> fail (mk_error CodeInternal (''encoding result: '' @ e))
     | Inr j \<Rightarrow> \<lparr>rp_OK = True, rp_Result = Some j, rp_Error = None\<rparr>)"

definition done_resp :: "(control_error \<Rightarrow> string) \<Rightarrow> control_error option \<Rightarrow> Response" where
  "done_resp text err = (case err of Some e \<Rightarrow> fail (classify text e)
     | None \<Rightarrow> \<lparr>rp_OK = True, rp_Result = None, rp_Error = None\<rparr>)"

section \<open>Dispatch\<close>

text \<open>
  What a request meets: the configuration, the command interface, the times and writes of each part,
  what other goroutines do meanwhile, and the texts of errors. \<open>encoding/json\<close> refuses a time whose
  year has more than four digits; \<open>sk_jsonErr\<close> is its text.
\<close>

record sock_env =
  sk_cfg :: Config
  sk_cmd :: commander
  sk_reserve :: reserve_env
  sk_others :: "Service \<Rightarrow> Service"
  sk_now :: gotime
  sk_write :: write_env
  sk_chargePointID :: string
  sk_text :: "control_error \<Rightarrow> string"
  sk_jsonErr :: string

record sock_outcome =
  so_control :: Control
  so_response :: Response
  so_orphan :: "(station \<times> Reservation \<times> string) option"

definition marshal_Status :: "string \<Rightarrow> Status \<Rightarrow> string + json" where
  "marshal_Status jsonErr s =
     (if pred_option four_digit_year (cst_LastSeen (ss_ChargePoint s))
         \<and> pred_option (\<lambda>d. four_digit_year (ds_At d)) (cst_LastDisconnect (ss_ChargePoint s))
         \<and> list_all (\<lambda>e. pred_option (\<lambda>r. four_digit_year (rst_ExpiresAt r)) (est_Reservation e)
                        \<and> pred_option (\<lambda>t. four_digit_year (tst_StartedAt t)) (est_Transaction e)) (ss_EVSEs s)
      then Inr (enc_Status s) else Inl jsonErr)"

definition marshal_ReserveResult :: "string \<Rightarrow> ReserveResult \<Rightarrow> string + json" where
  "marshal_ReserveResult jsonErr r = (if four_digit_year (rr_ExpiresAt r) then Inr (enc_ReserveResult r) else Inl jsonErr)"

definition expires_in :: "string \<Rightarrow> duration option" where
  "expires_in s = (if s = [] then Some 0 else case ParseDuration s of
       None \<Rightarrow> None | Some d \<Rightarrow> if d \<le> 0 then None else Some d)"

definition dispatch_reserve :: "sock_env \<Rightarrow> Request \<Rightarrow> Control \<Rightarrow> sock_outcome" where
  "dispatch_reserve env req c =
     (case expires_in (sq_ExpiresIn req) of
        None \<Rightarrow> \<lparr>so_control = c,
                 so_response = fail (mk_error CodeUsage (''invalid expiry '' @ Quote (sq_ExpiresIn req) @ '': want a positive duration such as 15m'')),
                 so_orphan = None\<rparr>
      | Some d \<Rightarrow>
          let out = Reserve (sk_reserve env) (sk_cfg env) (sk_cmd env) (sk_others env)
                \<lparr>rp_EVSEUID = sq_EVSE req, rp_IDTag = sq_IDTag req, rp_ExpiresAt = zero_time, rp_ExpiresIn = d,
                 rp_Source = ''cli'', rp_OCPIReservationID = [], rp_ResponseURL = []\<rparr> c
          in \<lparr>so_control = ro_control out,
              so_response = (case ro_result out of
                  Inl e \<Rightarrow> fail (classify (sk_text env) e)
                | Inr r \<Rightarrow> ok (marshal_ReserveResult (sk_jsonErr env)
                    \<lparr>rr_ReservationID = r_ID r, rr_EVSE = r_EVSEUID r, rr_IDTag = r_IDTag r, rr_ExpiresAt = UTC (r_ExpiresAt r)\<rparr>)),
              so_orphan = ro_orphan out\<rparr>)"

definition answer_only :: "Control \<Rightarrow> Response \<Rightarrow> sock_outcome" where
  "answer_only c r = \<lparr>so_control = c, so_response = r, so_orphan = None\<rparr>"

definition after_core :: "sock_env \<Rightarrow> Control \<Rightarrow> Service \<times> control_error option \<Rightarrow> sock_outcome" where
  "after_core env c = (\<lambda>(s, e). answer_only (c\<lparr>ctl_core := s\<rparr>) (done_resp (sk_text env) e))"

definition sock_dispatch :: "sock_env \<Rightarrow> Request \<Rightarrow> Control \<Rightarrow> sock_outcome" where
  "sock_dispatch env req c =
     (if sq_V req \<noteq> socket_Version
      then answer_only c (fail (mk_error CodeUsage (''protocol version '' @ Itoa (sq_V req) @ '' is not supported (this cpms speaks ''
             @ Itoa socket_Version @ ''); use matching cpms binaries'')))
      else if sq_Op req = OpStatus_s
      then answer_only c (ok (marshal_Status (sk_jsonErr env) (BuildStatus (svc_Snapshot (ctl_core c)) (sk_chargePointID env))))
      else if sq_Op req = OpProbe_s
      then answer_only c (case ctl_Probe (sk_cfg env) (sk_cmd env) of
               Inl e \<Rightarrow> fail (classify (sk_text env) e)
             | Inr report \<Rightarrow> ok (Inr (enc_ProbeResult (BuildProbe report (svc_Snapshot (ctl_core c)) (sk_chargePointID env)))))
      else if sq_Op req = OpReserve_s then dispatch_reserve env req c
      else if sq_Op req = OpCancel_s
      then after_core env c (Cancel (sk_write env) (sk_now env) (sk_cfg env) (sk_cmd env) (sk_others env) (sq_EVSE req) (ctl_core c))
      else if sq_Op req = OpStart_s
      then after_core env c (Start (sk_write env) (sk_cfg env) (sk_cmd env) (sq_EVSE req) (sq_IDTag req) (ctl_core c))
      else if sq_Op req = OpStop_s
      then after_core env c (ctl_core c, Stop (sk_cfg env) (sk_cmd env) (sq_EVSE req) (ctl_core c))
      else if sq_Op req = OpUnlock_s
      then after_core env c (ctl_core c, Unlock (sk_cfg env) (sk_cmd env) (sq_EVSE req))
      else answer_only c (fail (mk_error CodeUsage (''unknown operation '' @ Quote (sq_Op req)))))"

text \<open>One connection: a line that is read is answered by one line.\<close>

definition sock_handle :: "sock_env \<Rightarrow> json option \<Rightarrow> Control \<Rightarrow> Control \<times> json \<times> (station \<times> Reservation \<times> string) option" where
  "sock_handle env line c =
     (case Option.bind line dec_Request of
        None \<Rightarrow> (c, enc_Response (fail (mk_error CodeUsage (''malformed request: '' @ sk_jsonErr env))), None)
      | Some req \<Rightarrow> let out = sock_dispatch env req c in (so_control out, enc_Response (so_response out), so_orphan out))"

section \<open>Claiming the path\<close>

definition MaxPathLen :: nat where "MaxPathLen = 103"

definition CheckPath :: "string \<Rightarrow> bool" where
  "CheckPath path \<longleftrightarrow> length path \<le> MaxPathLen"

text \<open>What is at the socket's path: nothing, a socket that is answered or not, or another file.\<close>

datatype path_entry = NoEntry | SocketEntry (alive: bool) | OtherEntry

record listen_env =
  le_remove_fails :: bool
  le_listen_fails :: bool
  le_chmod_fails :: bool

datatype listen_error = PathTooLong | NotASocket | ErrAlreadyRunning | RemoveFailed | ListenFailed | ChmodFailed

text \<open>\<open>Listen\<close> returns the error, if any, and what is at the path afterwards.\<close>

definition Listen :: "listen_env \<Rightarrow> string \<Rightarrow> path_entry \<Rightarrow> path_entry \<times> listen_error option" where
  "Listen env path entry =
     (let bind = (\<lambda>here. if le_listen_fails env then (here, Some ListenFailed)
                        else if le_chmod_fails env then (NoEntry, Some ChmodFailed)
                        else (SocketEntry True, None))
      in if \<not> CheckPath path then (entry, Some PathTooLong)
         else case entry of
             NoEntry \<Rightarrow> bind NoEntry
           | OtherEntry \<Rightarrow> (OtherEntry, Some NotASocket)
           | SocketEntry a \<Rightarrow>
               if a then (entry, Some ErrAlreadyRunning)
               else if le_remove_fails env then (entry, Some RemoveFailed)
               else bind NoEntry)"

section \<open>The client (client.go)\<close>

datatype dial_error = DialNotExist | DialRefused | DialOther

datatype transport = DialFails dial_error | WriteFails string | ReadFails string | Reply "json option"

datatype client_error = ClientPathTooLong | ErrNotRunning string | SocketError Error | SendError string
  | NoAnswer string | UnreadableAnswer

definition dial_reason :: "string \<Rightarrow> dial_error \<Rightarrow> string" where
  "dial_reason path e = (case e of DialNotExist \<Rightarrow> ''no control socket at '' @ path
     | DialRefused \<Rightarrow> ''nothing is listening on '' @ path | DialOther \<Rightarrow> ''cannot connect to '' @ path)"

text \<open>The line the client sends, with the version it speaks, and what it makes of the answer.\<close>

definition call_line :: "Request \<Rightarrow> json" where
  "call_line req = enc_Request (req\<lparr>sq_V := socket_Version\<rparr>)"

definition sock_Call :: "string \<Rightarrow> transport \<Rightarrow> client_error + json option" where
  "sock_Call path tr =
     (if \<not> CheckPath path then Inl ClientPathTooLong
      else case tr of
          DialFails e \<Rightarrow> Inl (ErrNotRunning (dial_reason path e))
        | WriteFails t \<Rightarrow> Inl (SendError t)
        | ReadFails t \<Rightarrow> Inl (NoAnswer t)
        | Reply line \<Rightarrow>
            (case Option.bind line dec_Response of
               None \<Rightarrow> Inl UnreadableAnswer
             | Some resp \<Rightarrow>
                 if rp_OK resp then Inr (rp_Result resp)
                 else (case rp_Error resp of
                         None \<Rightarrow> Inl (SocketError (mk_error CodeInternal ''cpms run failed without saying why''))
                       | Some e \<Rightarrow> Inl (SocketError e))))"

section \<open>Every error has a code of the protocol\<close>

lemma mk_error_simps [simp]:
  "se_Code (mk_error c m) = c" "se_Message (mk_error c m) = m" "se_Status (mk_error c m) = []" "se_CallError (mk_error c m) = []"
  by (simp_all add: mk_error_def)

lemma classify_known: "se_Code (classify text e) \<in> set known_codes"
  by (auto simp: classify_def known_codes_def refused_code_def Let_def
      split: control_error.splits ocpp_error.splits core_error.splits CommandStatus.splits)

lemma classify_message [simp]: "se_Message (classify text e) = text e"
  by (auto simp: classify_def Let_def split: control_error.splits ocpp_error.splits core_error.splits)

text \<open>The responses the server sends: a success without an error, or a failure with a known code.\<close>

definition sound_response :: "Response \<Rightarrow> bool" where
  "sound_response r \<longleftrightarrow> (if rp_OK r then rp_Error r = None
     else rp_Result r = None \<and> (\<exists>e. rp_Error r = Some e \<and> se_Code e \<in> set known_codes))"

lemma fail_sound: "se_Code e \<in> set known_codes \<Longrightarrow> sound_response (fail e)"
  by (simp add: sound_response_def fail_def)

lemma fail_classify_sound [simp]: "sound_response (fail (classify text e))"
  by (rule fail_sound) (rule classify_known)

lemma fail_mk_error_sound [simp]: "c \<in> set known_codes \<Longrightarrow> sound_response (fail (mk_error c m))"
  by (rule fail_sound) simp

lemma ok_sound [simp]: "sound_response (ok x)"
  by (cases x) (simp_all add: ok_def sound_response_def fail_def known_codes_def)

lemma done_sound [simp]: "sound_response (done_resp text e)"
  by (cases e) (simp_all add: done_resp_def sound_response_def [of "\<lparr>rp_OK = True, rp_Result = None, rp_Error = None\<rparr>"])

lemma dispatch_sound: "sound_response (so_response (sock_dispatch env req c))"
  by (simp add: sock_dispatch_def answer_only_def after_core_def dispatch_reserve_def case_prod_unfold Let_def known_codes_def
      split: option.split sum.split)

text \<open>What a client makes of a sound response it receives.\<close>

definition client_view :: "Response \<Rightarrow> client_error + json option" where
  "client_view r = (if rp_OK r then Inr (rp_Result r) else Inl (SocketError (the (rp_Error r))))"

lemma sock_Call_reply:
  assumes "CheckPath path" and "sound_response r"
  shows "sock_Call path (Reply (Some (enc_Response r))) = client_view r"
proof -
  have "dec_Response (enc_Response r) = Some r"
    using assms(2) by (intro dec_enc_Response) (auto simp: sound_response_def split: if_splits)
  with assms show ?thesis by (auto simp: sock_Call_def client_view_def sound_response_def split: if_splits)
qed

lemma call_line_request: "dec_Request (call_line req) = Some (req\<lparr>sq_V := socket_Version\<rparr>)"
  by (simp add: call_line_def dec_enc_Request socket_Version_def int64_range_def)

text \<open>From the client's request to the client's answer: what \<open>dispatch\<close> returned, unchanged.\<close>

lemma call_dispatches:
  assumes "CheckPath path" and "sock_handle env (Some (call_line req)) c = (c', line, orphan)"
  shows "sock_Call path (Reply (Some line)) = client_view (so_response (sock_dispatch env (req\<lparr>sq_V := socket_Version\<rparr>) c))"
    and "c' = so_control (sock_dispatch env (req\<lparr>sq_V := socket_Version\<rparr>) c)"
  using assms sock_Call_reply [OF assms(1) dispatch_sound]
  by (auto simp: sock_handle_def call_line_request Let_def)

section \<open>The status answer is the state\<close>

lemma map_of_fold_put:
  "map_of (fold (\<lambda>x m. if P x then m_put (f x) x m else m) xs m0) k
     = (case List.find (\<lambda>x. f x = k) (rev (filter P xs)) of None \<Rightarrow> map_of m0 k | Some x \<Rightarrow> Some x)"
proof (induction xs arbitrary: m0)
  case (Cons x xs)
  have "List.find (\<lambda>x. f x = k) (ys @ [x]) = (case List.find (\<lambda>x. f x = k) ys of None \<Rightarrow> (if f x = k then Some x else None) | Some y \<Rightarrow> Some y)" for ys
    by (induction ys) auto
  with Cons show ?case by (auto split: option.splits)
qed simp

lemma map_of_fold_empty:
  "map_of (fold (\<lambda>x m. if P x then m_put (f x) x m else m) xs []) k = List.find (\<lambda>x. f x = k) (rev (filter P xs))"
  by (simp add: map_of_fold_put split: option.split)

lemma map_of_fold_all:
  "map_of (fold (\<lambda>x m. m_put (f x) x m) xs []) k = List.find (\<lambda>x. f x = k) (rev xs)"
  using map_of_fold_empty [of "\<lambda>x. True" f xs k] by simp

lemma cs_ID_snapshot [simp]: "cs_ID (snapshot_cp s cp) = cp_id cp"
  by (simp add: snapshot_cp_def)

lemma Snapshot_lookup:
  assumes "svc_inv s"
  shows "Snapshot_ChargePoint (svc_Snapshot s) i = map_option (snapshot_cp s) (map_of (svc_cps s) i)"
proof -
  have d: "distinct (m_keys (svc_cps s))" and ok: "\<And>j cp. map_of (svc_cps s) j = Some cp \<Longrightarrow> cp_id cp = j"
    using assms by (auto simp: svc_inv_def cps_inv_def cp_ok_def)
  have in_snap: "x \<in> set (svc_Snapshot s) \<longleftrightarrow> (\<exists>j cp. map_of (svc_cps s) j = Some cp \<and> x = snapshot_cp s cp)" for x
  proof -
    have "set (svc_Snapshot s) = snapshot_cp s ` set (m_vals (svc_cps s))" by (simp add: svc_Snapshot_def image_image)
    then show ?thesis using in_vals_iff [OF d] by blast
  qed
  show ?thesis
  proof (cases "Snapshot_ChargePoint (svc_Snapshot s) i")
    case None
    then have n: "\<And>x. x \<in> set (svc_Snapshot s) \<Longrightarrow> cs_ID x \<noteq> i" by (simp add: Snapshot_ChargePoint_def find_None_iff)
    have "map_of (svc_cps s) i = None"
    proof (rule ccontr)
      assume "map_of (svc_cps s) i \<noteq> None"
      then obtain cp where "map_of (svc_cps s) i = Some cp" by blast
      with n [of "snapshot_cp s cp"] in_snap ok show False by auto
    qed
    with None show ?thesis by simp
  next
    case (Some x)
    then have "x \<in> set (svc_Snapshot s)" "cs_ID x = i" by (auto simp: Snapshot_ChargePoint_def dest: find_in_set)
    then obtain cp where "map_of (svc_cps s) i = Some cp" "x = snapshot_cp s cp" using in_snap ok by (metis cs_ID_snapshot)
    with Some show ?thesis by simp
  qed
qed

text \<open>The reservation a status row shows is the one core holds on that EVSE for that station.\<close>

definition reservation_shown :: "Service \<Rightarrow> string \<Rightarrow> string \<Rightarrow> Reservation option" where
  "reservation_shown s cpID uid = Option.bind (reservationOnLocked s uid)
     (\<lambda>r. if r_ChargePointID (rs_res r) = cpID then Some (rs_res r) else None)"

lemma snapshot_reservation:
  assumes "svc_inv s"
  shows "List.find (\<lambda>r. r_EVSEUID r = uid) (rev (reservationsLocked s i)) = reservation_shown s i uid"
proof -
  have d: "distinct (m_keys (svc_reservations s))" "exclusive (svc_reservations s)"
    using assms by (simp_all add: svc_inv_def res_inv_def)
  have mem: "x \<in> set (rev (reservationsLocked s i)) \<longleftrightarrow>
      (\<exists>j r. map_of (svc_reservations s) j = Some r \<and> x = rs_res r \<and> r_ChargePointID x = i)" for x
  proof -
    have "set (rev (reservationsLocked s i)) = {x \<in> rs_res ` set (m_vals (svc_reservations s)). r_ChargePointID x = i}"
      by (auto simp: reservationsLocked_def)
    then show ?thesis using in_vals_iff [OF d(1)] by blast
  qed
  show ?thesis
  proof (cases "List.find (\<lambda>r. r_EVSEUID r = uid) (rev (reservationsLocked s i))")
    case None
    then have n: "\<And>x. x \<in> set (rev (reservationsLocked s i)) \<Longrightarrow> r_EVSEUID x \<noteq> uid" by (simp add: find_None_iff)
    have "reservation_shown s i uid = None"
    proof (cases "reservationOnLocked s uid")
      case (Some r)
      then have "r \<in> set (m_vals (svc_reservations s))" "r_EVSEUID (rs_res r) = uid"
        by (auto simp: reservationOnLocked_def dest: find_in_set)
      then have "r_ChargePointID (rs_res r) \<noteq> i" using n mem in_vals_iff [OF d(1)] by blast
      with Some show ?thesis by (simp add: reservation_shown_def)
    qed (simp add: reservation_shown_def)
    with None show ?thesis by simp
  next
    case (Some x)
    then have x: "x \<in> set (rev (reservationsLocked s i))" "r_EVSEUID x = uid" by (auto dest: find_in_set)
    then obtain j r where r: "map_of (svc_reservations s) j = Some r" "x = rs_res r" "r_ChargePointID x = i" using mem by blast
    with reservation_on [OF assms r(1)] x(2) Some show ?thesis by (simp add: reservation_shown_def)
  qed
qed

lemma find_latest:
  assumes "List.find Q (rev (sort_key f xs)) = Some x"
  shows "x \<in> set xs \<and> Q x \<and> (\<forall>y \<in> set xs. Q y \<longrightarrow> f y \<le> f x)"
proof -
  obtain i where i: "i < length xs" "Q (rev (sort_key f xs) ! i)" "x = rev (sort_key f xs) ! i" "\<And>j. j < i \<Longrightarrow> \<not> Q (rev (sort_key f xs) ! j)"
    using assms by (auto simp: find_Some_iff)
  have le: "f y \<le> f x" if y: "y \<in> set xs" "Q y" for y
  proof -
    obtain j where j: "j < length xs" "y = rev (sort_key f xs) ! j" using y(1) by (metis in_set_conv_nth length_rev length_sort set_rev set_sort)
    then have "i \<le> j" using i(4) y(2) by (meson not_less)
    then show ?thesis using i(1,3) j sorted_nth_mono [OF sorted_sort_key, of "length xs - Suc j" "length xs - Suc i" f xs]
      by (simp add: rev_nth)
  qed
  have "x \<in> set xs" using i(1,3) by (metis length_rev length_sort nth_mem set_rev set_sort)
  with i(2,3) le show ?thesis by blast
qed

text \<open>
  What a row of the status says of an EVSE: its status and error code, the reservation on it and the latest of its running sessions.
\<close>

definition row_shows :: "Service \<Rightarrow> string \<Rightarrow> chargePointState \<Rightarrow> string \<Rightarrow> EVSEStatus_row \<Rightarrow> bool" where
  "row_shows s i cp uid row \<longleftrightarrow>
     est_UID row = uid \<and> est_Status row = status_string (m_get NoStatus (cp_effective cp) uid)
     \<and> est_ErrorCode row = m_get [] (cp_errorCode cp) uid
     \<and> est_Reservation row = map_option (\<lambda>r. \<lparr>rst_ID = r_ID r, rst_IDTag = r_IDTag r, rst_ExpiresAt = UTC (r_ExpiresAt r),
          rst_State = reservation_state (r_Status r)\<rparr>) (reservation_shown s i uid)
     \<and> (case est_Transaction row of
          None \<Rightarrow> \<forall>t \<in> set (m_vals (cp_transactions cp)). \<not> (tx_Active t \<and> tx_EVSEUID t = uid)
        | Some x \<Rightarrow> \<exists>t \<in> set (m_vals (cp_transactions cp)). tx_Active t \<and> tx_EVSEUID t = uid
            \<and> x = \<lparr>tst_ID = tx_ID t, tst_IDTag = tx_IDTag t, tst_StartedAt = UTC (tx_StartedAt t)\<rparr>
            \<and> (\<forall>t' \<in> set (m_vals (cp_transactions cp)). tx_Active t' \<and> tx_EVSEUID t' = uid \<longrightarrow> tx_seq t' \<le> tx_seq t))"

lemma find_rev_filter: "List.find Q (rev (filter P xs)) = List.find (\<lambda>x. P x \<and> Q x) (rev xs)"
proof -
  have "List.find Q (filter P ys) = List.find (\<lambda>x. P x \<and> Q x) ys" for ys by (induction ys) auto
  then show ?thesis unfolding rev_filter .
qed

lemma BuildStatus_spec:
  assumes "svc_inv s" and "map_of (svc_cps s) i = Some cp"
  shows "ss_ChargePoint (BuildStatus (svc_Snapshot s) i) =
      \<lparr>cst_ID = i, cst_Online = cp_online cp, cst_LastSeen = utcOrNil (cp_lastSeen cp), cst_Vendor = bi_Vendor (cp_boot cp),
       cst_Model = bi_Model (cp_boot cp), cst_Firmware = bi_FirmwareVersion (cp_boot cp), cst_StationStatus = status_string (cp_station cp),
       cst_LastDisconnect = (if IsZero (dc_At (cp_lastDisconnect cp)) then None
          else Some \<lparr>ds_At = UTC (dc_At (cp_lastDisconnect cp)), ds_Reason = dc_Reason (cp_lastDisconnect cp)\<rparr>)\<rparr>"
    and "list_all2 (row_shows s i cp) (cp_order cp) (ss_EVSEs (BuildStatus (svc_Snapshot s) i))"
proof -
  have id: "cp_id cp = i" using assms by (auto simp: svc_inv_def cps_inv_def cp_ok_def)
  note b = BuildStatus_def Snapshot_lookup [OF assms(1)] assms(2) Let_def status_row_def snapshot_cp_def id
  show "ss_ChargePoint (BuildStatus (svc_Snapshot s) i) =
      \<lparr>cst_ID = i, cst_Online = cp_online cp, cst_LastSeen = utcOrNil (cp_lastSeen cp), cst_Vendor = bi_Vendor (cp_boot cp),
       cst_Model = bi_Model (cp_boot cp), cst_Firmware = bi_FirmwareVersion (cp_boot cp), cst_StationStatus = status_string (cp_station cp),
       cst_LastDisconnect = (if IsZero (dc_At (cp_lastDisconnect cp)) then None
          else Some \<lparr>ds_At = UTC (dc_At (cp_lastDisconnect cp)), ds_Reason = dc_Reason (cp_lastDisconnect cp)\<rparr>)\<rparr>"
    by (simp add: b)
  let ?Q = "\<lambda>uid t. tx_Active t \<and> tx_EVSEUID t = uid" and ?ts = "m_vals (cp_transactions cp)"
  let ?last = "\<lambda>uid. List.find (?Q uid) (rev (sort_key tx_seq ?ts))"
  have rows: "ss_EVSEs (BuildStatus (svc_Snapshot s) i) = map (\<lambda>uid. \<lparr>est_UID = uid,
      est_Status = status_string (m_get NoStatus (cp_effective cp) uid), est_ErrorCode = m_get [] (cp_errorCode cp) uid,
      est_Reservation = map_option (\<lambda>r. \<lparr>rst_ID = r_ID r, rst_IDTag = r_IDTag r, rst_ExpiresAt = UTC (r_ExpiresAt r),
          rst_State = reservation_state (r_Status r)\<rparr>) (reservation_shown s i uid),
      est_Transaction = map_option (\<lambda>t. \<lparr>tst_ID = tx_ID t, tst_IDTag = tx_IDTag t, tst_StartedAt = UTC (tx_StartedAt t)\<rparr>) (?last uid)\<rparr>) (cp_order cp)"
    by (simp add: b comp_def map_of_fold_all snapshot_reservation [OF assms(1)] map_of_fold_empty find_rev_filter)
  have none: "?last uid = None \<longleftrightarrow> (\<forall>t \<in> set ?ts. \<not> ?Q uid t)" for uid by (simp add: find_None_iff)
  have "row_shows s i cp uid \<lparr>est_UID = uid,
      est_Status = status_string (m_get NoStatus (cp_effective cp) uid), est_ErrorCode = m_get [] (cp_errorCode cp) uid,
      est_Reservation = map_option (\<lambda>r. \<lparr>rst_ID = r_ID r, rst_IDTag = r_IDTag r, rst_ExpiresAt = UTC (r_ExpiresAt r),
          rst_State = reservation_state (r_Status r)\<rparr>) (reservation_shown s i uid),
      est_Transaction = map_option (\<lambda>t. \<lparr>tst_ID = tx_ID t, tst_IDTag = tx_IDTag t, tst_StartedAt = UTC (tx_StartedAt t)\<rparr>) (?last uid)\<rparr>" for uid
  proof (cases "?last uid")
    case None
    then show ?thesis using none [of uid] by (simp add: row_shows_def)
  next
    case (Some t)
    from find_latest [OF Some] show ?thesis by (simp add: row_shows_def Some) blast
  qed
  then show "list_all2 (row_shows s i cp) (cp_order cp) (ss_EVSEs (BuildStatus (svc_Snapshot s) i))"
    unfolding rows by (simp add: list_all2_conv_all_nth)
qed

text \<open>JSON carries every status of core but one with a time whose year in UTC has more than four digits.\<close>

lemma BuildStatus_marshals:
  assumes "svc_inv s" and "map_of (svc_cps s) i = Some cp"
  shows "marshal_Status jsonErr (BuildStatus (svc_Snapshot s) i) =
     (if status_ok (BuildStatus (svc_Snapshot s) i) then Inr (enc_Status (BuildStatus (svc_Snapshot s) i)) else Inl jsonErr)"
proof -
  note spec = BuildStatus_spec [OF assms]
  have utc: "UTC (UTC t) = UTC t" for t by (cases t) (simp add: UTC_def)
  have shown: "int64_range (r_ID r)" if on: "reservation_shown s i uid = Some r" for uid r
  proof -
    obtain x where "reservationOnLocked s uid = Some x" "r = rs_res x"
      using on by (cases "reservationOnLocked s uid") (auto simp: reservation_shown_def split: if_splits)
    then have "x \<in> set (m_vals (svc_reservations s))" by (auto simp: reservationOnLocked_def dest: find_in_set)
    with \<open>r = rs_res x\<close> show ?thesis using res_id_range(2) [OF assms(1)] by blast
  qed
  have row: "row_ok row \<longleftrightarrow> pred_option (\<lambda>r. four_digit_year (rst_ExpiresAt r)) (est_Reservation row)
      \<and> pred_option (\<lambda>t. four_digit_year (tst_StartedAt t)) (est_Transaction row)" if "row_shows s i cp uid row" for uid row
    using that shown [of uid]
    by (cases "reservation_shown s i uid"; cases "est_Transaction row") (auto simp: row_shows_def row_ok_def utc_year_def utc)
  have "row_ok row \<longleftrightarrow> pred_option (\<lambda>r. four_digit_year (rst_ExpiresAt r)) (est_Reservation row)
      \<and> pred_option (\<lambda>t. four_digit_year (tst_StartedAt t)) (est_Transaction row)"
    if "row \<in> set (ss_EVSEs (BuildStatus (svc_Snapshot s) i))" for row
    using that spec(2) row by (metis in_set_conv_nth list_all2_conv_all_nth)
  then show ?thesis
    by (auto simp: marshal_Status_def status_ok_def spec(1) utcOrNil_def utc_year_def utc list_all_iff)
qed

section \<open>Requests keep core's invariant\<close>

lemma BeginReservation_keeps:
  assumes "svc_inv s" and "svc_nextReservationID s < max_int64"
  shows "svc_inv (fst (BeginReservation w now r s))"
proof (cases "BeginReservation_locked now r s")
  case (Inr x)
  obtain s1 r' where x: "x = (s1, r')" by (cases x)
  have i: "svc_inv s1" using BeginReservation_locked_inv [OF assms(1) _ assms(2)] Inr x by blast
  have undo: "svc_inv (BeginReservation_undo j t)" if "svc_inv t" for j t
    using that by (simp add: BeginReservation_undo_def svc_inv_def ids_inv_def res_inv_del)
  show ?thesis
    using persist_inv [OF i, of w] undo [OF persist_inv [OF i, of w]]
    by (auto simp: BeginReservation_def Inr x split: prod.splits option.splits)
qed (use assms in \<open>simp add: BeginReservation_def\<close>)

lemma Reserve_keeps:
  assumes "svc_inv (ctl_core c)" and "svc_nextReservationID (ctl_core c) < max_int64"
    and "\<And>s. svc_inv s \<Longrightarrow> svc_inv (others s)"
  shows "svc_inv (ctl_core (ro_control (Reserve env cfg cmd others p c)))"
proof -
  let ?b = "Reserve_begin (snd (rv_begin env)) (fst (rv_begin env)) cfg cmd p (ctl_core c)"
  have "svc_inv t" if "BeginReservation w now r0 (ctl_core c) = (t, z)" for w now r0 t z
    using BeginReservation_keeps [OF assms(1,2), of w now r0] that by simp
  then have b: "svc_inv (fst ?b)"
    by (auto simp: Reserve_begin_def assms(1) split: option.split sum.split prod.split)
  show ?thesis
  proof (cases ?b)
    case (Pair s1 x)
    then have s1: "svc_inv s1" using b by simp
    show ?thesis
    proof (cases x)
      case (Inr y)
      obtain st r where y: "y = (st, r)" by (cases y)
      let ?f = "Reserve_finish (snd (rv_finish env)) (fst (rv_finish env)) r (sta_ReserveNow st (reserve_request r)) (others s1)"
      obtain s2 res orphan where f: "?f = (s2, res, orphan)" by (cases ?f)
      have "svc_inv s2" using Reserve_finish_inv [OF assms(3) [OF s1]] f by (metis fst_conv)
      then show ?thesis using assms(1) Pair Inr y f by (cases orphan) (simp_all add: Reserve_def)
    qed (use assms(1) Pair s1 in \<open>simp add: Reserve_def\<close>)
  qed
qed

lemma Cancel_keeps:
  assumes "svc_inv s" and "\<And>t. svc_inv t \<Longrightarrow> svc_inv (others t)"
  shows "svc_inv (fst (Cancel w now cfg cmd others uid s))"
  using assms EndReservation_inv [OF assms(2) [OF assms(1)]]
  by (simp add: Cancel_def split: option.split sum.split)

lemma Start_keeps:
  assumes "svc_inv s" and "svc_nextRemoteStartID s < max_int64"
  shows "svc_inv (fst (Start w cfg cmd uid tag s))"
proof -
  have "svc_inv (fst (NextRemoteStartID w s))"
    using persist_inv [OF NextRemoteStartID_locked_inv [OF assms], of w]
    by (auto simp: NextRemoteStartID_def Let_def split: prod.splits option.splits)
  then show ?thesis using assms(1)
    by (auto simp: Start_def split: option.splits sum.splits prod.splits)
qed

lemma dispatch_keeps:
  assumes "svc_inv (ctl_core c)" and "svc_nextReservationID (ctl_core c) < max_int64"
    and "svc_nextRemoteStartID (ctl_core c) < max_int64" and "\<And>s. svc_inv s \<Longrightarrow> svc_inv (sk_others env s)"
  shows "svc_inv (ctl_core (so_control (sock_dispatch env req c)))"
  using assms Reserve_keeps [OF assms(1,2)] Cancel_keeps [OF assms(1)] Start_keeps [OF assms(1,3)]
  by (auto simp: sock_dispatch_def answer_only_def after_core_def dispatch_reserve_def case_prod_unfold Let_def
      split: option.split)

end
