(* ===== verification/Cli.thy ===== *)
theory Cli
  imports Socket Config_Sound
begin

text \<open>
  What the command line decides and says (\<open>internal/cli\<close>): exit codes and messages of the one-shot
  commands (\<open>exit.go\<close>), the EVSE a command acts on and the socket it calls (\<open>station.go\<close>), the verdict
  on a probe (\<open>probe.go\<close>), the summary of a configuration (\<open>summary.go\<close>) and the defaults of the
  simulator (\<open>simulate.go\<close>). Laying text out in columns and the command parser are a library's
  business; a line is modelled by its cells.
\<close>

section \<open>Exit codes (exit.go)\<close>

definition ExitOK :: int where "ExitOK = 0"
definition ExitError :: int where "ExitError = 1"
definition ExitNotRunning :: int where "ExitNotRunning = 2"
definition ExitNotConnected :: int where "ExitNotConnected = 3"
definition ExitRejected :: int where "ExitRejected = 4"
definition ExitOccupied :: int where "ExitOccupied = 5"
definition ExitFaulted :: int where "ExitFaulted = 6"
definition ExitTimeout :: int where "ExitTimeout = 7"
definition ExitUnlockFailed :: int where "ExitUnlockFailed = 8"
definition ExitRefused :: int where "ExitRefused = 9"
definition ExitMissingCapability :: int where "ExitMissingCapability = 10"

lemmas exit_defs = ExitOK_def ExitError_def ExitNotRunning_def ExitNotConnected_def ExitRejected_def ExitOccupied_def
  ExitFaulted_def ExitTimeout_def ExitUnlockFailed_def ExitRefused_def ExitMissingCapability_def

text \<open>An error of a command: one that carries its exit code, or any other by its text.\<close>

datatype cli_error = ExitStatus (exit_code: int) (exit_text: string) | OtherCliError string

definition ExitCode :: "cli_error option \<Rightarrow> int" where
  "ExitCode err = (case err of None \<Rightarrow> ExitOK | Some (ExitStatus c t) \<Rightarrow> c | Some (OtherCliError t) \<Rightarrow> ExitError)"

definition answer :: "Error \<Rightarrow> string" where
  "answer e = (if se_Status e \<noteq> [] then '' (status '' @ se_Status e @ '')''
     else if se_CallError e \<noteq> [] then '' (CALLERROR '' @ se_CallError e @ '')'' else [])"

definition noun :: "sock_op \<Rightarrow> string" where
  "noun op = (if op = OpReserve_s then ''reservation'' else if op = OpCancel_s then ''cancellation''
     else if op = OpStart_s then ''remote start'' else if op = OpStop_s then ''remote stop'' else op)"

text \<open>\<open>text\<close> is what the errors other than the two the code looks for print.\<close>

definition exitFor :: "(client_error \<Rightarrow> string) \<Rightarrow> sock_op \<Rightarrow> string \<Rightarrow> client_error \<Rightarrow> cli_error" where
  "exitFor text op evse err =
     (case err of
        ErrNotRunning reason \<Rightarrow> ExitStatus ExitNotRunning (''cpms run is not reachable: '' @ reason
          @ ''. Is `cpms run` running, with the same --config or --socket?'')
      | SocketError e \<Rightarrow>
          (let subject = (if evse = [] then op else evse); msg = (\<lambda>m. subject @ '': '' @ m)
           in case se_Code e of
                CodeNotConnected \<Rightarrow> ExitStatus ExitNotConnected (msg (''the charge point is not connected to cpms. Check that ''
                  @ ''the station's CSMS URL points here (`cpms config validate` prints it)''))
              | CodeRejected \<Rightarrow> ExitStatus ExitRejected (msg (''the station rejected the '' @ noun op @ answer e
                  @ (if op = OpReserve_s then ''. If it does not support the Reservation profile, `cpms probe` will say so'' else [])))
              | CodeOccupied \<Rightarrow> ExitStatus ExitOccupied (msg (''the station says it is occupied'' @ answer e))
              | CodeFaulted \<Rightarrow> ExitStatus ExitFaulted (msg (''the station says it is faulted or unavailable'' @ answer e))
              | CodeTimeout \<Rightarrow> ExitStatus ExitTimeout (msg ''the station did not answer within charger.call_timeout'')
              | CodeUnlockFailed \<Rightarrow> ExitStatus ExitUnlockFailed (msg
                  ((if se_Status e = ''UnlockFailed'' then ''the station could not release the cable lock''
                    else ''the station does not support this'') @ answer e))
              | CodeRefused \<Rightarrow> ExitStatus ExitRefused (se_Message e)
              | _ \<Rightarrow> ExitStatus ExitError (se_Message e))
      | _ \<Rightarrow> ExitStatus ExitError (text err))"

section \<open>Words (summary.go)\<close>

definition pluralNoun :: "string \<Rightarrow> string" where
  "pluralNoun w =
     (if 1 < length w \<and> last w = CHR ''y'' \<and> \<not> one_of ''aeiou'' (w ! (length w - 2)) then butlast w @ ''ies'' else w @ ''s'')"

definition plural :: "int \<Rightarrow> string \<Rightarrow> string" where
  "plural n w = Itoa n @ '' '' @ (if n = 1 then w else pluralNoun w)"

section \<open>Configuration summary (summary.go)\<close>

definition csmsURL :: "Config \<Rightarrow> string" where
  "csmsURL cfg = (case SplitHostPort (ls_OCPPBind (cfg_Server cfg)) of
       None \<Rightarrow> ''ws://'' @ ls_OCPPBind (cfg_Server cfg) @ ''/ocpp/'' @ ch_ID (cfg_Charger cfg)
     | Some (host, port) \<Rightarrow>
         ''ws://'' @ (if isWildcardHost host then ''<this-host>'' else host) @ '':'' @ port @ ''/ocpp/'' @ ch_ID (cfg_Charger cfg))"

definition locationLine :: "Config \<Rightarrow> string" where
  "locationLine cfg =
     (let l = cfg_Location cfg
      in lo_ID l @ (if lo_Name l \<noteq> [] then '' '' @ Quote (lo_Name l) else [])
         @ (if lo_City l \<noteq> [] then '', '' @ lo_City l else []) @ '' ('' @ lo_Country l @ '')''
         @ '' '' @ [CHR 0xE2, CHR 0x80, CHR 0x94] @ '' '' @ plural (int (length (lo_EVSEs l))) ''EVSE''
         @ '', '' @ plural (sum_list (map (\<lambda>e. int (length (e_Connectors e))) (lo_EVSEs l))) ''connector'')"

definition connectorSummary :: "Connector list \<Rightarrow> string" where
  "connectorSummary cs = join '', '' (map (\<lambda>c. cn_Standard c @ ''/'' @ cn_Format c @ ''/'' @ cn_PowerType c @ '' ''
     @ Itoa (cn_MaxVoltage c) @ ''V '' @ Itoa (cn_MaxAmperage c) @ ''A'') cs)"

text \<open>The cells of the two tables of \<open>printSummary\<close>.\<close>

definition printSummary :: "Config \<Rightarrow> string \<Rightarrow> (string \<times> string) list \<times> string list list" where
  "printSummary cfg statePath =
     (let ch = cfg_Charger cfg; sv = cfg_Server cfg; oc = cfg_OCPI cfg
      in ([(''Charge point'', ch_ID ch @ ''  (OCPP '' @ ch_OCPPVersion ch @ '')'' @ (if ch_IP ch \<noteq> [] then ''  at '' @ ch_IP ch else [])),
           (''OCPP listener'', ls_OCPPBind sv), (''Station CSMS URL'', csmsURL cfg),
           (''Heartbeat timeout'', dur_raw (ch_HeartbeatTimeout ch)), (''OCPI listener'', ls_OCPIBind sv),
           (''OCPI advertised as'', oc_PublicBaseURL oc), (''OCPI party'', oc_CountryCode oc @ ''*'' @ oc_PartyID oc),
           (''Default RFID tag'', au_DefaultIDTag (cfg_Auth cfg)), (''Location'', locationLine cfg), (''State file'', statePath)],
          [''EVSE'', ''EVSE ID'', ''OCPP CONNECTOR'', ''CONNECTORS'']
            # map (\<lambda>e. [e_UID e, e_EVSEID e, Itoa (e_OCPPConnectorID e), connectorSummary (e_Connectors e)]) (cfg_EVSEs cfg)))"

section \<open>Loading the configuration (config.go, root.go)\<close>

text \<open>
  \<open>config.Load\<close> fails with the error of opening the file, or with a report; \<open>loadConfig\<close> prints a report
  and returns an error that is not printed again. \<open>render\<close> is \<open>fmt.Sprintf\<close>.
\<close>

datatype load_error = LoadIO string | LoadInvalid ValidationErrors

definition config_Load :: "url_parser \<Rightarrow> string + yaml_result \<Rightarrow> load_error + Config" where
  "config_Load parse_url file = (case file of
       Inl e \<Rightarrow> Inl (LoadIO e)
     | Inr y \<Rightarrow> (case parse_config parse_url y of Inl errs \<Rightarrow> Inl (LoadInvalid errs) | Inr c \<Rightarrow> Inr c))"

definition printValidationReport :: "(string \<times> msg_arg list \<Rightarrow> string) \<Rightarrow> string \<Rightarrow> ValidationErrors \<Rightarrow> string list" where
  "printValidationReport render path errs =
     [path @ '' is not valid:'', []]
     @ map (\<lambda>fe. if fe_Path fe = [] then ''  '' @ render (fe_Msg fe) else ''  '' @ fe_Path fe @ '': '' @ render (fe_Msg fe)) errs
     @ [[], if length errs = 1 then ''1 problem found.'' else Itoa (int (length errs)) @ '' problems found.'']"

definition ErrSilent :: cli_error where
  "ErrSilent = OtherCliError ''cpms: command reported its own error''"

definition loadConfig :: "(string \<times> msg_arg list \<Rightarrow> string) \<Rightarrow> string \<Rightarrow> load_error + Config \<Rightarrow> string list \<times> (cli_error + Config)" where
  "loadConfig render configPath loaded = (case loaded of
       Inr cfg \<Rightarrow> ([], Inr cfg)
     | Inl (LoadIO e) \<Rightarrow> ([], Inl (OtherCliError (''reading '' @ configPath @ '': '' @ e)))
     | Inl (LoadInvalid errs) \<Rightarrow> (printValidationReport render configPath errs, Inl ErrSilent))"

definition DefaultStateFile :: string where "DefaultStateFile = ''state.json''"

definition resolvedStatePath :: "string \<Rightarrow> string \<Rightarrow> string" where
  "resolvedStatePath configPath statePath =
     (if statePath \<noteq> [] then statePath else path_Join (path_Dir configPath) DefaultStateFile)"

text \<open>\<open>cpms config validate\<close>: what goes to standard error, the summary, and the error of the command.\<close>

definition configValidate :: "(string \<times> msg_arg list \<Rightarrow> string) \<Rightarrow> string \<Rightarrow> string \<Rightarrow> load_error + Config
    \<Rightarrow> string list \<times> ((string \<times> string) list \<times> string list list) option \<times> cli_error option" where
  "configValidate render configPath statePath loaded = (case loadConfig render configPath loaded of
       (report, Inl e) \<Rightarrow> (report, None, Some e)
     | (report, Inr cfg) \<Rightarrow> (report, Some (printSummary cfg (resolvedStatePath configPath statePath)), None))"

text \<open>The command exits 0 exactly for a file whose one document is valid; otherwise 1, with a line for each problem.\<close>

lemma configValidate_exit:
  "ExitCode (snd (snd (configValidate render p q (config_Load parse_url file))))
     = (if \<exists>c. config_Load parse_url file = Inr c then ExitOK else ExitError)"
  by (simp add: configValidate_def loadConfig_def ExitCode_def ErrSilent_def split: sum.split load_error.split)

lemma printValidationReport_lines: "length (printValidationReport render p errs) = length errs + 4"
  by (simp add: printValidationReport_def)

section \<open>The simulator's defaults (simulate.go)\<close>

definition csmsURLFromBind :: "string \<Rightarrow> string" where
  "csmsURLFromBind addr = (case SplitHostPort addr of
       None \<Rightarrow> []
     | Some (host, port) \<Rightarrow> ''ws://'' @ JoinHostPort (if isWildcardHost host then ''127.0.0.1'' else host) port)"

record sim_flags =
  sf_csms :: string
  sf_id :: string
  sf_tag :: string
  sf_connectors :: int

text \<open>The flags completed from the configuration, if one could be loaded; \<open>None\<close> asks for the flags.\<close>

definition simulate_defaults :: "Config option \<Rightarrow> sim_flags \<Rightarrow> sim_flags option" where
  "simulate_defaults cfg f =
     (let f = (case cfg of None \<Rightarrow> f | Some c \<Rightarrow>
                \<lparr>sf_csms = (if sf_csms f = [] then csmsURLFromBind (ls_OCPPBind (cfg_Server c)) else sf_csms f),
                 sf_id = (if sf_id f = [] then ch_ID (cfg_Charger c) else sf_id f),
                 sf_tag = (if sf_tag f = [] then au_DefaultIDTag (cfg_Auth c) else sf_tag f),
                 sf_connectors = (if sf_connectors f = 0 then int (length (cfg_EVSEs c)) else sf_connectors f)\<rparr>);
          f = (if sf_connectors f = 0 then f\<lparr>sf_connectors := 1\<rparr> else f)
      in if sf_csms f = [] \<or> sf_id f = [] then None else Some f)"

section \<open>One-shot commands (station.go)\<close>

definition DefaultSocketFile :: string where "DefaultSocketFile = ''cpms.sock''"
definition socketGrace :: duration where "socketGrace = 5 * Second"

text \<open>
  The socket's path. \<open>fallback\<close> is \<open>fallbackSocketPath\<close>: a name in the temp directory made from a hash
  of the state file's absolute path.
\<close>

definition resolvedSocketPath :: "(string \<Rightarrow> string) \<Rightarrow> string \<Rightarrow> string \<Rightarrow> string" where
  "resolvedSocketPath fallback socketPath statePath =
     (if socketPath \<noteq> [] then socketPath
      else let path = path_Join (path_Dir statePath) DefaultSocketFile
           in if length path \<le> MaxPathLen then path else fallback statePath)"

definition hex_byte :: "nat \<Rightarrow> string" where
  "hex_byte b = [hex_char (b div 16), hex_char (b mod 16)]"

definition fallbackSocketPath :: "(string \<Rightarrow> string option) \<Rightarrow> (string \<Rightarrow> nat list) \<Rightarrow> string \<Rightarrow> string \<Rightarrow> string" where
  "fallbackSocketPath absPath sha256 tempDir statePath =
     (let p = (case absPath statePath of Some a \<Rightarrow> a | None \<Rightarrow> statePath)
      in path_Join tempDir (''cpms-'' @ concat (map hex_byte (take 6 (sha256 p))) @ ''.sock''))"

definition evseList :: "Config \<Rightarrow> string" where
  "evseList cfg = join '', '' (map e_UID (cfg_EVSEs cfg))"

definition resolveEVSE :: "Config \<Rightarrow> string \<Rightarrow> string + string" where
  "resolveEVSE cfg uid =
     (if uid = []
      then (case cfg_EVSEs cfg of
              [e] \<Rightarrow> Inr (e_UID e)
            | es \<Rightarrow> Inl (''--evse is required with '' @ Itoa (int (length es)) @ '' EVSEs configured; one of: '' @ evseList cfg))
      else case EVSEByUID cfg uid of
             None \<Rightarrow> Inl (''unknown EVSE '' @ Quote uid @ ''; configured: '' @ evseList cfg)
           | Some e \<Rightarrow> Inr uid)"

record stationEnv =
  env_cfg :: Config
  env_evse :: string
  env_socketPath :: string

text \<open>\<open>loaded\<close> is what loading the configuration gave; a command without the flag acts on no EVSE.\<close>

definition newStationEnv :: "cli_error + Config \<Rightarrow> string \<Rightarrow> string option \<Rightarrow> cli_error + stationEnv" where
  "newStationEnv loaded socketPath evseFlag =
     (case loaded of
        Inl e \<Rightarrow> Inl e
      | Inr cfg \<Rightarrow>
          (case evseFlag of
             None \<Rightarrow> Inr \<lparr>env_cfg = cfg, env_evse = [], env_socketPath = socketPath\<rparr>
           | Some uid \<Rightarrow>
               (case resolveEVSE cfg uid of
                  Inl t \<Rightarrow> Inl (ExitStatus ExitError t)
                | Inr evse \<Rightarrow> Inr \<lparr>env_cfg = cfg, env_evse = evse, env_socketPath = socketPath\<rparr>)))"

definition call_timeout :: "stationEnv \<Rightarrow> duration" where
  "call_timeout env = wrap64 (dur_dur (ch_CallTimeout (cfg_Charger (env_cfg env))) + socketGrace)"

text \<open>\<open>run\<close> is the connection to the daemon: the line sent and the time allowed, to what came of it.\<close>

definition env_call :: "(client_error \<Rightarrow> string) \<Rightarrow> (json \<Rightarrow> duration \<Rightarrow> transport) \<Rightarrow> stationEnv \<Rightarrow> Request \<Rightarrow> cli_error + json option" where
  "env_call text run env req =
     (case sock_Call (env_socketPath env) (run (call_line req) (call_timeout env)) of
        Inl e \<Rightarrow> Inl (exitFor text (sq_Op req) (sq_EVSE req) e)
      | Inr r \<Rightarrow> Inr r)"

definition simpleCommand :: "(client_error \<Rightarrow> string) \<Rightarrow> (json \<Rightarrow> duration \<Rightarrow> transport) \<Rightarrow> cli_error + stationEnv \<Rightarrow> sock_op \<Rightarrow> string \<Rightarrow> cli_error option" where
  "simpleCommand text run env op tag = (case env of
       Inl e \<Rightarrow> Some e
     | Inr e \<Rightarrow> (case env_call text run e \<lparr>sq_V = 0, sq_Op = op, sq_EVSE = env_evse e, sq_IDTag = tag, sq_ExpiresIn = []\<rparr> of
                   Inl x \<Rightarrow> Some x | Inr r \<Rightarrow> None))"

text \<open>The reserve command: an expiry of zero or less is left to the daemon's default.\<close>

definition reserveCommand :: "(client_error \<Rightarrow> string) \<Rightarrow> (json \<Rightarrow> duration \<Rightarrow> transport) \<Rightarrow> string \<Rightarrow> cli_error + stationEnv \<Rightarrow> string \<Rightarrow> duration
    \<Rightarrow> cli_error + ReserveResult" where
  "reserveCommand text run jsonErr env tag expires = (case env of
       Inl e \<Rightarrow> Inl e
     | Inr e \<Rightarrow>
         (case env_call text run e \<lparr>sq_V = 0, sq_Op = OpReserve_s, sq_EVSE = env_evse e, sq_IDTag = tag,
                 sq_ExpiresIn = (if 0 < expires then duration_string expires else [])\<rparr> of
            Inl x \<Rightarrow> Inl x
          | Inr r \<Rightarrow> (case Option.bind r dec_ReserveResult of None \<Rightarrow> Inl (OtherCliError jsonErr) | Some res \<Rightarrow> Inr res)))"

definition statusCommand :: "(client_error \<Rightarrow> string) \<Rightarrow> (json \<Rightarrow> duration \<Rightarrow> transport) \<Rightarrow> string \<Rightarrow> cli_error + stationEnv \<Rightarrow> cli_error + Status" where
  "statusCommand text run jsonErr env = (case env of
       Inl e \<Rightarrow> Inl e
     | Inr e \<Rightarrow>
         (case env_call text run e \<lparr>sq_V = 0, sq_Op = OpStatus_s, sq_EVSE = [], sq_IDTag = [], sq_ExpiresIn = []\<rparr> of
            Inl x \<Rightarrow> Inl x
          | Inr r \<Rightarrow> (case Option.bind r dec_Status of None \<Rightarrow> Inl (OtherCliError jsonErr) | Some st \<Rightarrow> Inr st)))"

text \<open>The status for a person: the station's line and a row per EVSE; \<open>localTime\<close> shows an instant.\<close>

definition status_line :: "(gotime \<Rightarrow> string) \<Rightarrow> ChargePointStatus \<Rightarrow> string" where
  "status_line localTime cp =
     (let station = TrimSpace (join '' '' [cst_Vendor cp, cst_Model cp])
      in cst_ID cp @ ''  '' @ (if cst_Online cp then ''online'' else ''offline'')
         @ (if station \<noteq> [] then ''  '' @ station @ (if cst_Firmware cp \<noteq> [] then '' fw '' @ cst_Firmware cp else []) else [])
         @ (case cst_LastSeen cp of Some t \<Rightarrow> ''  last seen '' @ localTime t | None \<Rightarrow> ''  never seen''))"

definition status_cells :: "(gotime \<Rightarrow> string) \<Rightarrow> EVSEStatus_row \<Rightarrow> string list" where
  "status_cells localTime e =
     [est_UID e,
      est_Status e @ (if est_ErrorCode e \<noteq> [] \<and> est_ErrorCode e \<noteq> ''NoError'' then '' ('' @ est_ErrorCode e @ '')'' else []),
      (case est_Reservation e of
         None \<Rightarrow> ''-''
       | Some r \<Rightarrow> ''#'' @ Itoa (rst_ID r) @ '' '' @ rst_IDTag r @ '' until '' @ localTime (rst_ExpiresAt r)
                  @ (if rst_State r \<noteq> ''active'' then '' ('' @ rst_State r @ '')'' else [])),
      (case est_Transaction e of
         None \<Rightarrow> ''-''
       | Some t \<Rightarrow> tst_ID t @ '' '' @ tst_IDTag t @ '' since '' @ localTime (tst_StartedAt t))]"

definition printStatus :: "(gotime \<Rightarrow> string) \<Rightarrow> Status \<Rightarrow> string \<times> string list list" where
  "printStatus localTime st = (status_line localTime (ss_ChargePoint st),
     [''EVSE'', ''STATUS'', ''RESERVATION'', ''TRANSACTION''] # map (status_cells localTime) (ss_EVSEs st))"

end
