(* ===== verification/Ocpi.thy ===== *)
theory Ocpi
  imports State Config_Validate "HOL-Library.Word"
begin

text \<open>
  The OCPI transport (\<open>internal/ocpi\<close>): access levels and credentials tokens (\<open>auth.go\<close>), the response
  envelope (\<open>envelope.go\<close>), modules and their registration (\<open>module.go\<close>, \<open>credentials.go\<close>) and the HTTP
  server around them (\<open>server.go\<close>).

  A request is its method, path, headers and body; a handler maps a request to its answer. The
  matching of \<open>http.ServeMux\<close> is an argument: which registered pattern a request is served under, and
  which pairs of patterns it refuses to hold together. SHA-256 is an argument too.
\<close>

unbundle bit_operations_syntax

section \<open>Access levels (auth.go)\<close>

datatype Access = AccessNone | AccessRegistration | AccessModules

fun access_level :: "Access \<Rightarrow> nat" where
  "access_level AccessNone = 0"
| "access_level AccessRegistration = 1"
| "access_level AccessModules = 2"

lemma access_level_inj: "access_level a = access_level b \<longleftrightarrow> a = b"
  by (cases a; cases b) simp_all

text \<open>The levels are ordered as the constants are numbered.\<close>

instantiation Access :: linorder
begin

definition less_eq_Access :: "Access \<Rightarrow> Access \<Rightarrow> bool" where
  "a \<le> b \<longleftrightarrow> access_level a \<le> access_level b"

definition less_Access :: "Access \<Rightarrow> Access \<Rightarrow> bool" where
  "a < b \<longleftrightarrow> access_level a < access_level b"

instance
  by standard (auto simp: less_eq_Access_def less_Access_def access_level_inj)

end

definition Access_String :: "Access \<Rightarrow> string" where
  "Access_String a = (case a of AccessNone \<Rightarrow> ''none'' | AccessRegistration \<Rightarrow> ''registration'' | AccessModules \<Rightarrow> ''modules'')"

type_synonym authenticator = "string \<Rightarrow> Access"
type_synonym sha256 = "string \<Rightarrow> string"

record Secret =
  sec_sum :: string

definition NewSecret :: "sha256 \<Rightarrow> string \<Rightarrow> Secret" where
  "NewSecret sha token = \<lparr>sec_sum = sha token\<rparr>"

definition Secret_Matches :: "sha256 \<Rightarrow> Secret \<Rightarrow> string \<Rightarrow> bool" where
  "Secret_Matches sha s token \<longleftrightarrow> sha token = sec_sum s"

definition NewStaticAuthenticator :: "sha256 \<Rightarrow> string \<Rightarrow> authenticator" where
  "NewStaticAuthenticator sha tokenA =
     (let a = NewSecret sha tokenA in (\<lambda>token. if Secret_Matches sha a token then AccessRegistration else AccessNone))"

section \<open>Base64\<close>

text \<open>
  \<open>base64.StdEncoding.Strict()\<close>: line breaks are skipped, groups of four characters stand for three
  bytes, the last group is padded, and the bits a padded group does not use are zero.
\<close>

definition b64_alphabet :: string where
  "b64_alphabet = ''ABCDEFGHIJKLMNOPQRSTUVWXYZabcdefghijklmnopqrstuvwxyz0123456789+/''"

fun index_of :: "'a \<Rightarrow> 'a list \<Rightarrow> nat option" where
  "index_of x [] = None"
| "index_of x (y # ys) = (if x = y then Some 0 else map_option Suc (index_of x ys))"

definition sextet :: "char \<Rightarrow> nat option" where
  "sextet c = index_of c b64_alphabet"

definition b64_char :: "nat \<Rightarrow> char" where
  "b64_char n = b64_alphabet ! n"

fun b64_groups :: "string \<Rightarrow> string option" where
  "b64_groups [] = Some []"
| "b64_groups (a # b # c # d # rest) =
     (case (sextet a, sextet b) of
        (Some w, Some x) \<Rightarrow>
          if c = CHR ''='' then
            (if d = CHR ''='' \<and> rest = [] \<and> x mod 16 = 0 then Some [char_of (w * 4 + x div 16)] else None)
          else (case sextet c of
              None \<Rightarrow> None
            | Some y \<Rightarrow>
                if d = CHR ''='' then
                  (if rest = [] \<and> y mod 4 = 0 then Some [char_of (w * 4 + x div 16), char_of (x mod 16 * 16 + y div 4)] else None)
                else (case sextet d of
                    None \<Rightarrow> None
                  | Some z \<Rightarrow> map_option (\<lambda>r. char_of (w * 4 + x div 16) # char_of (x mod 16 * 16 + y div 4)
                                       # char_of (y mod 4 * 64 + z) # r) (b64_groups rest)))
      | _ \<Rightarrow> None)"
| "b64_groups _ = None"

definition b64_decode :: "string \<Rightarrow> string option" where
  "b64_decode s = b64_groups (filter (\<lambda>c. c \<noteq> CHR 0x0D \<and> c \<noteq> CHR 0x0A) s)"

text \<open>The encoding a counterparty uses, for reference.\<close>

fun b64_encode :: "string \<Rightarrow> string" where
  "b64_encode [] = []"
| "b64_encode [a] = (let i = of_char a :: nat in [b64_char (i div 4), b64_char (i mod 4 * 16), CHR ''='', CHR ''=''])"
| "b64_encode [a, b] =
     (let i = of_char a :: nat; j = of_char b :: nat
      in [b64_char (i div 4), b64_char (i mod 4 * 16 + j div 16), b64_char (j mod 16 * 4), CHR ''=''])"
| "b64_encode (a # b # c # rest) =
     (let i = of_char a :: nat; j = of_char b :: nat; k = of_char c :: nat
      in b64_char (i div 4) # b64_char (i mod 4 * 16 + j div 16) # b64_char (j mod 16 * 4 + k div 64) # b64_char (k mod 64)
         # b64_encode rest)"

section \<open>Requests and answers\<close>

type_synonym headers = "(string \<times> string) list"

text \<open>The body as reading it turns out: over the limit, no JSON value, one value, or one and more after it.\<close>

datatype body = BodyTooLarge | BodyInvalid | BodyValue json | BodyTrailing json

record http_request =
  hq_method :: string
  hq_path :: string
  hq_header :: "string \<Rightarrow> string"
  hq_body :: body

record http_answer =
  ha_status :: int
  ha_headers :: headers
  ha_body :: "json option"

type_synonym handler = "http_request \<Rightarrow> http_answer"

definition token_of :: "string \<Rightarrow> string option" where
  "token_of authorization =
     (let scheme = takeWhile (\<lambda>c. c \<noteq> CHR '' '') authorization; encoded = drop (length scheme + 1) authorization
      in if CHR '' '' \<notin> set authorization \<or> \<not> EqualFold scheme ''Token'' then None
         else case b64_decode (TrimSpace encoded) of
             None \<Rightarrow> None
           | Some token \<Rightarrow> if token = [] then None else Some token)"

definition tokenFromRequest :: "http_request \<Rightarrow> string option" where
  "tokenFromRequest r = token_of (hq_header r ''Authorization'')"

section \<open>The envelope (envelope.go)\<close>

definition StatusSuccess :: int where "StatusSuccess = 1000"
definition StatusClientError :: int where "StatusClientError = 2000"
definition StatusInvalidParameters :: int where "StatusInvalidParameters = 2001"
definition StatusNotEnoughInformation :: int where "StatusNotEnoughInformation = 2002"
definition StatusUnknownLocation :: int where "StatusUnknownLocation = 2003"
definition StatusUnknownToken :: int where "StatusUnknownToken = 2004"
definition StatusServerError :: int where "StatusServerError = 3000"
definition StatusClientAPIUnusable :: int where "StatusClientAPIUnusable = 3001"
definition StatusUnsupportedVersion :: int where "StatusUnsupportedVersion = 3002"
definition StatusNoMatchingEndpoints :: int where "StatusNoMatchingEndpoints = 3003"

definition MaxBodyBytes :: nat where "MaxBodyBytes = 1048576"

text \<open>What a handler hands over: nothing, a value, or one \<open>encoding/json\<close> refuses.\<close>

datatype payload = NoData | Data json | Unencodable

record ocpi_Response =
  or_Data :: payload
  or_StatusCode :: int
  or_StatusMessage :: string
  or_Timestamp :: string

definition FormatDateTime :: "gotime \<Rightarrow> string" where
  "FormatDateTime t = format_rfc3339 (UTC t)"

definition enc_ocpi_Response :: "ocpi_Response \<Rightarrow> json option" where
  "enc_ocpi_Response r =
     (let rest = [(''status_code'', JNum (or_StatusCode r))] @ omit_empty ''status_message'' (or_StatusMessage r)
                 @ [(''timestamp'', JStr (or_Timestamp r))]
      in case or_Data r of NoData \<Rightarrow> Some (JObj rest) | Data j \<Rightarrow> Some (JObj ((''data'', j) # rest)) | Unencodable \<Rightarrow> None)"

definition json_answer :: "int \<Rightarrow> json option \<Rightarrow> http_answer" where
  "json_answer status b = \<lparr>ha_status = status, ha_headers = [(''Content-Type'', ''application/json'')], ha_body = b\<rparr>"

definition writeEnvelope :: "gotime \<Rightarrow> int \<Rightarrow> ocpi_Response \<Rightarrow> http_answer" where
  "writeEnvelope now httpStatus resp0 =
     (let resp = resp0\<lparr>or_Timestamp := FormatDateTime now\<rparr>
      in case enc_ocpi_Response resp of
           Some j \<Rightarrow> json_answer httpStatus (Some j)
         | None \<Rightarrow> json_answer 500 (enc_ocpi_Response \<lparr>or_Data = NoData, or_StatusCode = StatusServerError,
                     or_StatusMessage = ''response could not be encoded'', or_Timestamp = or_Timestamp resp\<rparr>))"

definition WriteOK :: "gotime \<Rightarrow> payload \<Rightarrow> http_answer" where
  "WriteOK now d = writeEnvelope now 200 \<lparr>or_Data = d, or_StatusCode = StatusSuccess, or_StatusMessage = ''Success'', or_Timestamp = []\<rparr>"

definition WriteError :: "gotime \<Rightarrow> int \<Rightarrow> int \<Rightarrow> string \<Rightarrow> http_answer" where
  "WriteError now httpStatus code message =
     writeEnvelope now httpStatus \<lparr>or_Data = NoData, or_StatusCode = code, or_StatusMessage = message, or_Timestamp = []\<rparr>"

text \<open>\<open>DecodeJSON\<close>: the value for the handler, or the answer that was already written.\<close>

definition DecodeJSON :: "gotime \<Rightarrow> (json \<Rightarrow> 'a option) \<Rightarrow> http_request \<Rightarrow> http_answer + 'a" where
  "DecodeJSON now dec r =
     (let bad = Inl (WriteError now 400 StatusInvalidParameters ''request body is not valid JSON'')
      in case hq_body r of
           BodyTooLarge \<Rightarrow> Inl (WriteError now 413 StatusClientError ''request body too large'')
         | BodyInvalid \<Rightarrow> bad
         | BodyTrailing j \<Rightarrow> bad
         | BodyValue j \<Rightarrow> (case dec j of None \<Rightarrow> bad | Some v \<Rightarrow> Inr v))"

section \<open>Modules (module.go, credentials.go)\<close>

definition ocpi_Version :: string where "ocpi_Version = ''2.3.0''"
definition RoleSender :: string where "RoleSender = ''SENDER''"
definition RoleReceiver :: string where "RoleReceiver = ''RECEIVER''"

record Route =
  rt_Method :: string
  rt_Path :: string
  rt_Handler :: "handler option"

record Module =
  md_Identifier :: string
  md_Role :: string
  md_Path :: string
  md_Access :: Access
  md_Routes :: "Route list"

definition identifierRe :: regex where
  "identifierRe = [(lower, 1, Some 1), (\<lambda>c. lower c \<or> is_digit c \<or> one_of ''_-'' c, 0, None)]"

definition trim_slashes :: "string \<Rightarrow> string" where
  "trim_slashes s = trim_right (\<lambda>c. c = CHR ''/'') (dropWhile (\<lambda>c. c = CHR ''/'') s)"

text \<open>\<open>validate\<close> fills in the path; \<open>None\<close> is any of its errors.\<close>

definition module_validate :: "Module \<Rightarrow> Module option" where
  "module_validate m =
     (let m' = m\<lparr>md_Path := trim_slashes (if md_Path m = [] then md_Identifier m else md_Path m)\<rparr>
      in if \<not> MatchString identifierRe (md_Identifier m) then None
         else if md_Role m \<noteq> RoleSender \<and> md_Role m \<noteq> RoleReceiver then None
         else if md_Path m' = [] \<or> list_ex (one_of ''{}'') (md_Path m') then None
         else if md_Access m \<noteq> AccessRegistration \<and> md_Access m \<noteq> AccessModules then None
         else if md_Routes m = [] then None
         else if list_ex (\<lambda>r. rt_Method r = [] \<or> rt_Handler r = None) (md_Routes m) then None
         else Some m')"

definition CredentialsStub :: "gotime \<Rightarrow> Module" where
  "CredentialsStub now =
     (let notYet = (\<lambda>r. WriteError now 501 StatusServerError ''credentials registration is not implemented yet'')
      in \<lparr>md_Identifier = ''credentials'', md_Role = RoleSender, md_Path = [], md_Access = AccessRegistration,
          md_Routes = map (\<lambda>m. \<lparr>rt_Method = m, rt_Path = [], rt_Handler = Some notYet\<rparr>) [''GET'', ''POST'', ''PUT'', ''DELETE'']\<rparr>)"

section \<open>The server (server.go)\<close>

text \<open>
  A mounted route: its pattern, the access it needs and its target. The two versions endpoints are
  methods of the server, which read its modules when they are called.
\<close>

datatype target = ServesVersions | ServesVersionDetails | ModuleHandler handler

record mount =
  mt_pattern :: string
  mt_need :: Access
  mt_target :: target

record ocpi_Server =
  os_auth :: authenticator
  os_base :: string
  os_prefix :: string
  os_started :: bool
  os_modules :: "Module list"
  os_mux :: "mount list"

text \<open>
  \<open>splitBaseURL\<close>: the advertised root and the prefix of every route. \<open>url_string\<close> is \<open>URL.String\<close>.
\<close>

definition splitBaseURL :: "url_parser \<Rightarrow> (URL \<Rightarrow> string) \<Rightarrow> string \<Rightarrow> (string \<times> string) option" where
  "splitBaseURL parse_url url_string raw = (case parse_url raw of
       None \<Rightarrow> None
     | Some u \<Rightarrow>
         if u_Scheme u = [] \<or> u_Host u = [] then None
         else if u_RawQuery u \<noteq> [] \<or> u_Fragment u \<noteq> [] then None
         else let c = path_Clean (''/'' @ u_Path u); pre = (if c = ''/'' then [] else c)
              in if list_ex (one_of ''{}'') pre then None else Some (url_string (u\<lparr>u_Path := pre\<rparr>), pre))"

type_synonym conflict = "string \<Rightarrow> string \<Rightarrow> bool"

text \<open>
  \<open>ServeMux.Handle\<close> panics on a pattern that conflicts with one it holds; \<open>handle\<close> turns that into an
  error. The pattern without the slash stays mounted when the one with it is refused.
\<close>

definition mux_Handle :: "conflict \<Rightarrow> mount \<Rightarrow> ocpi_Server \<Rightarrow> ocpi_Server option" where
  "mux_Handle conflicts m s =
     (if list_ex (\<lambda>x. conflicts (mt_pattern x) (mt_pattern m)) (os_mux s) then None else Some (s\<lparr>os_mux := os_mux s @ [m]\<rparr>))"

definition ocpi_handle :: "conflict \<Rightarrow> string \<Rightarrow> string \<Rightarrow> Access \<Rightarrow> target \<Rightarrow> ocpi_Server \<Rightarrow> ocpi_Server \<times> bool" where
  "ocpi_handle conflicts meth pattern need h s =
     (let p = meth @ '' '' @ pattern
      in case mux_Handle conflicts \<lparr>mt_pattern = p, mt_need = need, mt_target = h\<rparr> s of
           None \<Rightarrow> (s, False)
         | Some s1 \<Rightarrow>
             (case mux_Handle conflicts \<lparr>mt_pattern = p @ ''/{$}'', mt_need = need, mt_target = h\<rparr> s1 of
                None \<Rightarrow> (s1, False)
              | Some s2 \<Rightarrow> (s2, True)))"

definition VersionsURL :: "ocpi_Server \<Rightarrow> string" where
  "VersionsURL s = os_base s @ ''/versions''"

definition VersionURL :: "ocpi_Server \<Rightarrow> string" where
  "VersionURL s = os_base s @ ''/'' @ ocpi_Version"

definition serveVersions :: "gotime \<Rightarrow> ocpi_Server \<Rightarrow> handler" where
  "serveVersions now s = (\<lambda>r. WriteOK now (Data (JArr [JObj [(''version'', JStr ocpi_Version), (''url'', JStr (VersionURL s))]])))"

definition endpoints :: "ocpi_Server \<Rightarrow> (string \<times> string \<times> string) list" where
  "endpoints s = map (\<lambda>m. (md_Identifier m, md_Role m, VersionURL s @ ''/'' @ md_Path m)) (os_modules s)"

definition serveVersionDetails :: "gotime \<Rightarrow> ocpi_Server \<Rightarrow> handler" where
  "serveVersionDetails now s = (\<lambda>r. WriteOK now (Data (JObj [(''version'', JStr ocpi_Version),
     (''endpoints'', JArr (map (\<lambda>(i, role, url). JObj [(''identifier'', JStr i), (''role'', JStr role), (''url'', JStr url)])
        (endpoints s)))])))"

text \<open>
  Registering a module: its routes are mounted one after the other, and the first that is refused ends
  it with an error; only a module whose routes are all mounted is listed.
\<close>

fun mount_routes :: "conflict \<Rightarrow> string \<Rightarrow> Access \<Rightarrow> Route list \<Rightarrow> ocpi_Server \<Rightarrow> ocpi_Server \<times> bool" where
  "mount_routes conflicts root need [] s = (s, True)"
| "mount_routes conflicts root need (r # rs) s =
     (let sub = trim_slashes (rt_Path r); p = (if sub \<noteq> [] then root @ ''/'' @ sub else root)
      in case ocpi_handle conflicts (rt_Method r) p need (ModuleHandler (the (rt_Handler r))) s of
           (s', False) \<Rightarrow> (s', False)
         | (s', True) \<Rightarrow> mount_routes conflicts root need rs s')"

definition Register :: "conflict \<Rightarrow> Module \<Rightarrow> ocpi_Server \<Rightarrow> ocpi_Server \<times> bool" where
  "Register conflicts m0 s = (case module_validate m0 of
       None \<Rightarrow> (s, False)
     | Some m \<Rightarrow>
         if os_started s then (s, False)
         else if list_ex (\<lambda>h. md_Identifier h = md_Identifier m \<and> md_Role h = md_Role m) (os_modules s) then (s, False)
         else (case mount_routes conflicts (os_prefix s @ ''/'' @ ocpi_Version @ ''/'' @ md_Path m) (md_Access m) (md_Routes m) s of
                 (s', False) \<Rightarrow> (s', False)
               | (s', True) \<Rightarrow> (s'\<lparr>os_modules := os_modules s' @ [m]\<rparr>, True)))"

text \<open>
  \<open>New\<close> mounts the versions endpoints; modules follow. Of its options it keeps the authenticator, without which (a nil
  \<open>Auth\<close>) there is no server.
\<close>

definition ocpi_New :: "conflict \<Rightarrow> url_parser \<Rightarrow> (URL \<Rightarrow> string) \<Rightarrow> authenticator option \<Rightarrow> string \<Rightarrow> ocpi_Server option" where
  "ocpi_New conflicts parse_url url_string opts_Auth raw = (case opts_Auth of None \<Rightarrow> None | Some auth \<Rightarrow>
    (case splitBaseURL parse_url url_string raw of
       None \<Rightarrow> None
     | Some (base, pre) \<Rightarrow>
         (let s0 = \<lparr>os_auth = auth, os_base = base, os_prefix = pre, os_started = False, os_modules = [], os_mux = []\<rparr>;
              (s1, ok1) = ocpi_handle conflicts ''GET'' (pre @ ''/versions'') AccessRegistration ServesVersions s0
          in if \<not> ok1 then None
             else let (s2, ok2) = ocpi_handle conflicts ''GET'' (pre @ ''/'' @ ocpi_Version) AccessRegistration ServesVersionDetails s1
                  in if ok2 then Some s2 else None)))"

definition ocpi_Start :: "ocpi_Server \<Rightarrow> ocpi_Server" where
  "ocpi_Start s = s\<lparr>os_started := True\<rparr>"

text \<open>\<open>startOCPI\<close> of \<open>cli/run.go\<close>: the static authenticator for TOKEN_A, and the credentials stub;
  \<open>listens\<close> says whether the address could be bound, \<open>sha\<close> is the digest the authenticator keeps of its token.\<close>

definition startOCPI :: "sha256 \<Rightarrow> conflict \<Rightarrow> url_parser \<Rightarrow> (URL \<Rightarrow> string) \<Rightarrow> gotime \<Rightarrow> bool \<Rightarrow> Config \<Rightarrow> ocpi_Server option" where
  "startOCPI sha conflicts parse_url url_string now listens cfg =
     (case ocpi_New conflicts parse_url url_string (Some (NewStaticAuthenticator sha (oc_TokenA (cfg_OCPI cfg)))) (oc_PublicBaseURL (cfg_OCPI cfg)) of
        None \<Rightarrow> None
      | Some s \<Rightarrow> (case Register conflicts (CredentialsStub now) s of
                    (s', True) \<Rightarrow> if listens then Some (ocpi_Start s') else None
                  | (s', False) \<Rightarrow> None))"

section \<open>Serving\<close>

text \<open>
  \<open>authorize\<close>: the handler runs only behind a token that grants enough; the second component says
  whether it ran.
\<close>

definition ocpi_authorize :: "authenticator \<Rightarrow> gotime \<Rightarrow> Access \<Rightarrow> handler \<Rightarrow> http_request \<Rightarrow> http_answer \<times> bool" where
  "ocpi_authorize auth now need h r =
     (let refused = (let a = WriteError now 401 StatusClientError ''Unauthorized''
                     in a\<lparr>ha_headers := (''WWW-Authenticate'', ''Token'') # ha_headers a\<rparr>)
      in case tokenFromRequest r of
           None \<Rightarrow> (refused, False)
         | Some token \<Rightarrow> if auth token < need then (refused, False) else (h r, True))"

text \<open>What \<open>ServeMux\<close> answers a request it has no pattern for: a status and two headers.\<close>

record mux_miss =
  mm_code :: int
  mm_Allow :: string
  mm_Location :: string

definition status_text :: "int \<Rightarrow> string" where
  "status_text c = (if c = 404 then ''Not Found'' else if c = 405 then ''Method Not Allowed'' else [])"

definition header_if_set :: "string \<Rightarrow> string \<Rightarrow> headers" where
  "header_if_set k v = (if v = [] then [] else [(k, v)])"

definition unmatched :: "gotime \<Rightarrow> mux_miss \<Rightarrow> http_answer" where
  "unmatched now miss =
     (let status = (if mm_code miss = 0 then 404 else mm_code miss);
          hs = header_if_set ''Allow'' (mm_Allow miss) @ header_if_set ''Location'' (mm_Location miss)
      in if status = 404 \<or> status = 405
         then (let a = WriteError now status StatusClientError (status_text status) in a\<lparr>ha_headers := hs @ ha_headers a\<rparr>)
         else \<lparr>ha_status = status, ha_headers = hs, ha_body = None\<rparr>)"

definition headerOrNewID :: "string \<Rightarrow> http_request \<Rightarrow> string \<Rightarrow> string" where
  "headerOrNewID fresh r name = (let v = TrimSpace (hq_header r name) in if v \<noteq> [] then v else fresh)"

text \<open>\<open>newUUID\<close> from sixteen random bytes.\<close>

definition hex2 :: "8 word \<Rightarrow> string" where
  "hex2 b = [hex_char (unat b div 16), hex_char (unat b mod 16)]"

definition newUUID :: "8 word list \<Rightarrow> string" where
  "newUUID random =
     (let b = random[6 := (random ! 6 AND 0x0f) OR 0x40]; b = b[8 := (b ! 8 AND 0x3f) OR 0x80];
          hex = (\<lambda>i j. concat (map hex2 (take (j - i) (drop i b))))
      in hex 0 4 @ ''-'' @ hex 4 6 @ ''-'' @ hex 6 8 @ ''-'' @ hex 8 10 @ ''-'' @ hex 10 16)"

record serve_env =
  sv_now :: gotime
  sv_match :: "string list \<Rightarrow> http_request \<Rightarrow> string option"
  sv_miss :: "string list \<Rightarrow> http_request \<Rightarrow> mux_miss"
  sv_uuid :: "string \<times> string"

definition run_target :: "gotime \<Rightarrow> ocpi_Server \<Rightarrow> target \<Rightarrow> handler" where
  "run_target now s t = (case t of ServesVersions \<Rightarrow> serveVersions now s | ServesVersionDetails \<Rightarrow> serveVersionDetails now s
     | ModuleHandler h \<Rightarrow> h)"

definition serve_route :: "serve_env \<Rightarrow> ocpi_Server \<Rightarrow> http_request \<Rightarrow> http_answer \<times> mount option" where
  "serve_route env s r =
     (let patterns = map mt_pattern (os_mux s)
      in case Option.bind (sv_match env patterns r) (\<lambda>p. List.find (\<lambda>m. mt_pattern m = p) (os_mux s)) of
           None \<Rightarrow> (unmatched (sv_now env) (sv_miss env patterns r), None)
         | Some m \<Rightarrow> (case ocpi_authorize (os_auth s) (sv_now env) (mt_need m) (run_target (sv_now env) s (mt_target m)) r of
                        (a, served) \<Rightarrow> (a, if served then Some m else None)))"

definition ocpi_ServeHTTP :: "serve_env \<Rightarrow> ocpi_Server \<Rightarrow> http_request \<Rightarrow> http_answer \<times> mount option" where
  "ocpi_ServeHTTP env s r =
     (let ids = [(''X-Request-ID'', headerOrNewID (fst (sv_uuid env)) r ''X-Request-ID''),
                 (''X-Correlation-ID'', headerOrNewID (snd (sv_uuid env)) r ''X-Correlation-ID'')];
          (a, served) = serve_route env s r
      in (a\<lparr>ha_headers := ids @ ha_headers a\<rparr>, served))"

section \<open>Base64 round trip\<close>

lemma sextet_b64_char: "n < 64 \<Longrightarrow> sextet (b64_char n) = Some n"
proof -
  have "list_all (\<lambda>n. sextet (b64_char n) = Some n) [0..<64]" by code_simp
  then show "n < 64 \<Longrightarrow> ?thesis" by (simp add: list_all_iff)
qed

lemma b64_char_plain: "n < 64 \<Longrightarrow> b64_char n \<in> set b64_alphabet"
proof -
  have "length b64_alphabet = 64" by code_simp
  then show "n < 64 \<Longrightarrow> ?thesis" by (simp add: b64_char_def)
qed

lemma alphabet_plain:
  "c \<in> set b64_alphabet \<Longrightarrow> c \<noteq> CHR ''='' \<and> c \<noteq> CHR 0x0D \<and> c \<noteq> CHR 0x0A"
  by (auto simp: b64_alphabet_def)

lemma b64_encode_chars: "set (b64_encode s) \<subseteq> insert (CHR ''='') (set b64_alphabet)"
proof (induction s rule: b64_encode.induct)
  case (2 a)
  have "(of_char a :: nat) < 256" by simp
  then have "(of_char a :: nat) div 4 < 64" "(of_char a :: nat) mod 4 * 16 < 64" by linarith+
  then show ?case by (auto simp: Let_def intro!: b64_char_plain)
next
  case (3 a b)
  have "(of_char a :: nat) < 256" "(of_char b :: nat) < 256" by simp_all
  then have "(of_char a :: nat) div 4 < 64" "(of_char a :: nat) mod 4 * 16 + of_char b div 16 < 64" "(of_char b :: nat) mod 16 * 4 < 64"
    by linarith+
  then show ?case by (auto simp: Let_def intro!: b64_char_plain)
next
  case (4 a b c rest)
  have "(of_char a :: nat) < 256" "(of_char b :: nat) < 256" "(of_char c :: nat) < 256" by simp_all
  then have "(of_char a :: nat) div 4 < 64" "(of_char a :: nat) mod 4 * 16 + of_char b div 16 < 64"
    "(of_char b :: nat) mod 16 * 4 + of_char c div 64 < 64" "(of_char c :: nat) mod 64 < 64"
    by linarith+
  with 4 show ?case by (auto simp: Let_def intro!: b64_char_plain)
qed simp

lemma byte_parts:
  fixes i j k :: nat
  assumes "i < 256" "j < 256" "k < 256"
  shows "i div 4 < 64" "i mod 4 * 16 + j div 16 < 64" "j mod 16 * 4 + k div 64 < 64"
    and "i div 4 * 4 + (i mod 4 * 16 + j div 16) div 16 = i"
    and "(i mod 4 * 16 + j div 16) mod 16 * 16 + (j mod 16 * 4 + k div 64) div 4 = j"
    and "(j mod 16 * 4 + k div 64) mod 4 * 64 + k mod 64 = k"
    and "(i mod 4 * 16 + j div 16) mod 16 = j div 16" "(j mod 16 * 4 + k div 64) mod 4 = k div 64"
proof -
  have q: "j div 16 < 16" "k div 64 < 4" using assms by linarith+
  show "i div 4 < 64" "i mod 4 * 16 + j div 16 < 64" "j mod 16 * 4 + k div 64 < 64" using assms by linarith+
  show m: "(i mod 4 * 16 + j div 16) mod 16 = j div 16" "(j mod 16 * 4 + k div 64) mod 4 = k div 64"
    using q by simp_all
  have "(i mod 4 * 16 + j div 16) div 16 = i mod 4" "(j mod 16 * 4 + k div 64) div 4 = j mod 16"
    using q by simp_all
  then show "i div 4 * 4 + (i mod 4 * 16 + j div 16) div 16 = i"
    "(i mod 4 * 16 + j div 16) mod 16 * 16 + (j mod 16 * 4 + k div 64) div 4 = j"
    "(j mod 16 * 4 + k div 64) mod 4 * 64 + k mod 64 = k"
    using m by simp_all
qed

lemma b64_groups_encode: "b64_groups (b64_encode s) = Some s"
proof (induction s rule: b64_encode.induct)
  case (2 a)
  have "(of_char a :: nat) < 256" by simp
  from byte_parts [OF this, of 0 0] show ?case by (simp add: Let_def sextet_b64_char)
next
  case (3 a b)
  have "(of_char a :: nat) < 256" "(of_char b :: nat) < 256" by simp_all
  from byte_parts [OF this, of 0] alphabet_plain [OF b64_char_plain] show ?case
    by (simp add: Let_def sextet_b64_char)
next
  case (4 a b c rest)
  have "(of_char a :: nat) < 256" "(of_char b :: nat) < 256" "(of_char c :: nat) < 256" by simp_all
  from byte_parts [OF this] alphabet_plain [OF b64_char_plain] 4 show ?case
    by (simp add: Let_def sextet_b64_char)
qed simp

lemma b64_roundtrip: "b64_decode (b64_encode s) = Some s"
proof -
  have "filter (\<lambda>c. c \<noteq> CHR 0x0D \<and> c \<noteq> CHR 0x0A) (b64_encode s) = b64_encode s"
    using b64_encode_chars [of s] alphabet_plain by (fastforce simp: filter_id_conv)
  then show ?thesis by (simp add: b64_decode_def b64_groups_encode)
qed

section \<open>Tokens\<close>

lemma strip_fixed: "starts_with ts s = None \<Longrightarrow> strip ts s = s"
  by (subst strip.simps) simp

lemma starts_with_None:
  assumes "hd s \<notin> hd ` set ts"
  shows "starts_with ts s = None"
proof -
  have "\<not> (t \<noteq> [] \<and> take (length t) s = t)" if "t \<in> set ts" for t
    using assms that by (cases t; cases s) (force simp: image_iff)+
  then show ?thesis by (auto simp: starts_with_def find_None_iff)
qed

text \<open>Text that starts and ends with characters no white space has in those places is kept.\<close>

lemma TrimSpace_fixed:
  assumes "hd s \<notin> hd ` set space_runes" and "last s \<notin> last ` set space_runes"
  shows "TrimSpace s = s"
proof (cases "s = []")
  case False
  have "hd (rev s) \<notin> hd ` set (map rev space_runes)"
    using assms(2) False by (auto simp: hd_rev image_iff space_runes_def)
  then have "strip (map rev space_runes) (rev s) = rev s" by (intro strip_fixed starts_with_None)
  with assms(1) show ?thesis by (simp add: TrimSpace_def strip_fixed starts_with_None)
qed simp

lemma b64_no_space: "c \<in> insert (CHR ''='') (set b64_alphabet) \<Longrightarrow> c \<notin> hd ` set space_runes \<and> c \<notin> last ` set space_runes"
proof -
  have "list_all (\<lambda>c. c \<notin> hd ` set space_runes \<and> c \<notin> last ` set space_runes) (CHR ''='' # b64_alphabet)" by code_simp
  then show "c \<in> insert (CHR ''='') (set b64_alphabet) \<Longrightarrow> ?thesis" by (auto simp: list_all_iff)
qed

lemma b64_encode_Nil_iff [simp]: "b64_encode s = [] \<longleftrightarrow> s = []"
  by (cases s rule: b64_encode.cases) (simp_all add: Let_def)

lemma TrimSpace_b64: "TrimSpace (b64_encode s) = b64_encode s"
proof (cases "s = []")
  case False
  then have "hd (b64_encode s) \<in> set (b64_encode s)" "last (b64_encode s) \<in> set (b64_encode s)" by simp_all
  then have "hd (b64_encode s) \<in> insert (CHR ''='') (set b64_alphabet)" "last (b64_encode s) \<in> insert (CHR ''='') (set b64_alphabet)"
    using b64_encode_chars [of s] by (simp_all only: subset_iff)
  then have "hd (b64_encode s) \<notin> hd ` set space_runes" "last (b64_encode s) \<notin> last ` set space_runes"
    using b64_no_space by simp_all
  then show ?thesis by (rule TrimSpace_fixed)
qed simp

text \<open>The header a counterparty sends for a token gives that token, in any case of the scheme.\<close>

lemma token_of_encoded:
  assumes "t \<noteq> []" and "EqualFold scheme ''Token''" and "CHR '' '' \<notin> set scheme"
  shows "token_of (scheme @ '' '' @ b64_encode t) = Some t"
proof -
  have "takeWhile (\<lambda>c. c \<noteq> CHR '' '') (scheme @ '' '' @ b64_encode t) = scheme"
    using assms(3) by (simp add: takeWhile_append)
  with assms show ?thesis by (simp add: token_of_def Let_def TrimSpace_b64 b64_roundtrip)
qed

text \<open>Only TOKEN_A grants anything, as far as the digest tells tokens apart.\<close>

lemma static_access:
  assumes "sha token = sha tokenA \<Longrightarrow> token = tokenA"
  shows "NewStaticAuthenticator sha tokenA token = (if token = tokenA then AccessRegistration else AccessNone)"
  using assms by (auto simp: NewStaticAuthenticator_def NewSecret_def Secret_Matches_def Let_def)

section \<open>Authorisation\<close>

lemma authorize_ran:
  "snd (ocpi_authorize auth now need h r) \<longleftrightarrow> (\<exists>token. tokenFromRequest r = Some token \<and> need \<le> auth token)"
  by (auto simp: ocpi_authorize_def Let_def not_less split: option.splits)

lemma authorize_answer:
  "fst (ocpi_authorize auth now need h r) = (if snd (ocpi_authorize auth now need h r) then h r
     else (let a = WriteError now 401 StatusClientError ''Unauthorized'' in a\<lparr>ha_headers := (''WWW-Authenticate'', ''Token'') # ha_headers a\<rparr>))"
  by (auto simp: ocpi_authorize_def Let_def split: option.splits)

lemma WriteError_status [simp]: "ha_status (WriteError now st code m) = st"
  by (simp add: WriteError_def writeEnvelope_def enc_ocpi_Response_def json_answer_def Let_def)

section \<open>Registered modules\<close>

definition valid_module :: "Module \<Rightarrow> bool" where
  "valid_module m \<longleftrightarrow> MatchString identifierRe (md_Identifier m) \<and> md_Role m \<in> {RoleSender, RoleReceiver}
     \<and> md_Path m \<noteq> [] \<and> AccessNone < md_Access m \<and> md_Routes m \<noteq> []
     \<and> (\<forall>r \<in> set (md_Routes m). rt_Method r \<noteq> [] \<and> rt_Handler r \<noteq> None)"

lemma AccessNone_less: "AccessNone < a \<longleftrightarrow> a = AccessRegistration \<or> a = AccessModules"
  by (cases a) (simp_all add: less_Access_def)

lemma module_validate_Some:
  assumes "module_validate m0 = Some m"
  shows "valid_module m" and "md_Identifier m = md_Identifier m0" and "md_Role m = md_Role m0" and "md_Routes m = md_Routes m0"
    and "md_Access m = md_Access m0"
  using assms
  by (auto simp: module_validate_def valid_module_def Let_def AccessNone_less list_ex_iff split: if_splits)

definition route_pattern :: "ocpi_Server \<Rightarrow> Module \<Rightarrow> Route \<Rightarrow> string" where
  "route_pattern s m r =
     (let root = os_prefix s @ ''/'' @ ocpi_Version @ ''/'' @ md_Path m; sub = trim_slashes (rt_Path r)
      in rt_Method r @ '' '' @ (if sub \<noteq> [] then root @ ''/'' @ sub else root))"

definition mounted :: "ocpi_Server \<Rightarrow> Module \<Rightarrow> Route \<Rightarrow> bool" where
  "mounted s m r \<longleftrightarrow> \<lparr>mt_pattern = route_pattern s m r, mt_need = md_Access m, mt_target = ModuleHandler (the (rt_Handler r))\<rparr> \<in> set (os_mux s)"

definition ocpi_inv :: "ocpi_Server \<Rightarrow> bool" where
  [inv_defs]: "ocpi_inv s \<longleftrightarrow> distinct (map (\<lambda>m. (md_Identifier m, md_Role m)) (os_modules s))
     \<and> (\<forall>m \<in> set (os_modules s). valid_module m \<and> (\<forall>r \<in> set (md_Routes m). mounted s m r))
     \<and> (\<forall>x \<in> set (os_mux s). AccessNone < mt_need x)"

text \<open>Mounting only adds mounts, each behind the access it was given.\<close>

definition extends :: "Access \<Rightarrow> ocpi_Server \<Rightarrow> ocpi_Server \<Rightarrow> bool" where
  "extends need s s' \<longleftrightarrow> (\<exists>ms. s' = s\<lparr>os_mux := os_mux s @ ms\<rparr> \<and> (\<forall>x \<in> set ms. mt_need x = need))"

lemma extends_refl: "extends need s s"
  unfolding extends_def by (rule exI [of _ "[]"]) simp

lemma extends_trans: "extends need s t \<Longrightarrow> extends need t u \<Longrightarrow> extends need s u"
  unfolding extends_def by (elim exE conjE) (rule_tac x = "ms @ msa" in exI, auto)

lemma mux_Handle_extends:
  "mux_Handle conflicts m s = Some s' \<Longrightarrow> extends (mt_need m) s s' \<and> m \<in> set (os_mux s')"
  by (auto simp: mux_Handle_def extends_def split: if_splits intro: exI [of _ "[m]"])

lemma extends_mux: "extends need s s' \<Longrightarrow> x \<in> set (os_mux s) \<Longrightarrow> x \<in> set (os_mux s')"
  by (auto simp: extends_def)

lemma ocpi_handle_extends:
  assumes "ocpi_handle conflicts meth p need h s = (s', done)"
  shows "extends need s s' \<and> (done \<longrightarrow> \<lparr>mt_pattern = meth @ '' '' @ p, mt_need = need, mt_target = h\<rparr> \<in> set (os_mux s'))"
  using assms
  by (auto simp: ocpi_handle_def Let_def extends_refl split: option.splits
      dest!: mux_Handle_extends intro: extends_trans extends_mux)

lemma mount_routes_extends:
  assumes "mount_routes conflicts root (md_Access m) rs s = (s', done)"
    and "root = os_prefix s @ ''/'' @ ocpi_Version @ ''/'' @ md_Path m"
  shows "extends (md_Access m) s s' \<and> (done \<longrightarrow> (\<forall>r \<in> set rs. mounted s' m r))"
  using assms
proof (induction rs arbitrary: s)
  case (Cons r rs)
  let ?sub = "trim_slashes (rt_Path r)"
  let ?p = "if ?sub \<noteq> [] then root @ ''/'' @ ?sub else root"
  obtain s1 ok where h: "ocpi_handle conflicts (rt_Method r) ?p (md_Access m) (ModuleHandler (the (rt_Handler r))) s = (s1, ok)"
    by (cases "ocpi_handle conflicts (rt_Method r) ?p (md_Access m) (ModuleHandler (the (rt_Handler r))) s")
  note e = ocpi_handle_extends [OF h]
  then have p: "root = os_prefix s1 @ ''/'' @ ocpi_Version @ ''/'' @ md_Path m" using Cons.prems(2) by (auto simp: extends_def)
  show ?case
  proof (cases ok)
    case True
    with Cons.prems(1) h have "mount_routes conflicts root (md_Access m) rs s1 = (s', done)"
      by (simp only: mount_routes.simps Let_def) simp
    note ih = Cons.IH [OF this p]
    have "mounted s1 m r" using e True unfolding mounted_def route_pattern_def Let_def p [symmetric] by simp
    moreover have "os_prefix s' = os_prefix s1" using ih by (auto simp: extends_def)
    ultimately have "mounted s' m r" using ih extends_mux by (auto simp: mounted_def route_pattern_def)
    with ih e show ?thesis by (auto intro: extends_trans)
  next
    case False
    with Cons.prems(1) h have "s' = s1" "done = False" by (simp_all only: mount_routes.simps Let_def) simp_all
    with e show ?thesis by simp
  qed
qed (simp add: extends_refl)

lemma extends_inv:
  assumes "ocpi_inv s" and "extends need s s'" and "AccessNone < need"
  shows "ocpi_inv s'"
  using assms by (auto simp: ocpi_inv_def extends_def mounted_def route_pattern_def)

lemma Register_inv [inv_intros]:
  assumes "ocpi_inv s"
  shows "ocpi_inv (fst (Register conflicts m0 s))"
proof (cases "module_validate m0")
  case (Some m)
  note v = module_validate_Some [OF Some]
  let ?c = "\<not> os_started s \<and> \<not> list_ex (\<lambda>h. md_Identifier h = md_Identifier m \<and> md_Role h = md_Role m) (os_modules s)"
  obtain s' ok where r: "mount_routes conflicts (os_prefix s @ ''/'' @ ocpi_Version @ ''/'' @ md_Path m) (md_Access m) (md_Routes m) s = (s', ok)"
    by (cases "mount_routes conflicts (os_prefix s @ ''/'' @ ocpi_Version @ ''/'' @ md_Path m) (md_Access m) (md_Routes m) s")
  note e = mount_routes_extends [OF r refl]
  have i: "ocpi_inv s'" using extends_inv [OF assms, of "md_Access m" s'] e v(1) by (simp add: valid_module_def)
  have ms: "os_modules s' = os_modules s" using e by (auto simp: extends_def)
  show ?thesis
  proof (cases "?c \<and> ok")
    case True
    then have "ocpi_inv (s'\<lparr>os_modules := os_modules s' @ [m]\<rparr>)"
      using i e v(1) ms by (auto simp: ocpi_inv_def mounted_def route_pattern_def list_ex_iff)
    with True r Some show ?thesis by (simp add: Register_def)
  next
    case False
    with i assms r Some show ?thesis by (auto simp: Register_def)
  qed
qed (use assms in \<open>simp add: Register_def\<close>)

lemma Register_True:
  assumes "Register conflicts m0 s = (s', True)"
  shows "\<exists>m. module_validate m0 = Some m \<and> os_modules s' = os_modules s @ [m]"
proof (cases "module_validate m0")
  case (Some m)
  let ?root = "os_prefix s @ ''/'' @ ocpi_Version @ ''/'' @ md_Path m"
  obtain t ok where r: "mount_routes conflicts ?root (md_Access m) (md_Routes m) s = (t, ok)"
    by (cases "mount_routes conflicts ?root (md_Access m) (md_Routes m) s")
  have "os_modules t = os_modules s" using mount_routes_extends [OF r refl] by (auto simp: extends_def)
  with assms Some r show ?thesis by (cases ok) (auto simp: Register_def split: if_splits)
qed (use assms in \<open>simp add: Register_def\<close>)

lemma ocpi_New_inv [inv_intros]: "ocpi_New conflicts parse_url url_string opts_Auth raw = Some s \<Longrightarrow> ocpi_inv s"
proof -
  assume "ocpi_New conflicts parse_url url_string opts_Auth raw = Some s"
  then obtain auth base pre s1 where
    h1: "ocpi_handle conflicts ''GET'' (pre @ ''/versions'') AccessRegistration ServesVersions
       \<lparr>os_auth = auth, os_base = base, os_prefix = pre, os_started = False, os_modules = [], os_mux = []\<rparr> = (s1, True)" and
    h2: "ocpi_handle conflicts ''GET'' (pre @ ''/'' @ ocpi_Version) AccessRegistration ServesVersionDetails s1 = (s, True)"
    by (auto simp: ocpi_New_def Let_def split: option.splits prod.splits if_splits)
  have reg: "AccessNone < AccessRegistration" by (simp add: AccessNone_less)
  have "ocpi_inv \<lparr>os_auth = auth, os_base = base, os_prefix = pre, os_started = False, os_modules = [], os_mux = []\<rparr>"
    by (simp add: ocpi_inv_def)
  then have "ocpi_inv s1" using ocpi_handle_extends [OF h1] reg by (blast intro: extends_inv)
  then show "ocpi_inv s" using ocpi_handle_extends [OF h2] reg by (blast intro: extends_inv)
qed

section \<open>The life of the server\<close>

text \<open>Between New and the end, modules are registered and the server is started.\<close>

inductive ocpi_step :: "conflict \<Rightarrow> ocpi_Server \<Rightarrow> ocpi_Server \<Rightarrow> bool" for conflicts where
  step_register: "ocpi_step conflicts s (fst (Register conflicts m s))"
| step_start: "ocpi_step conflicts s (ocpi_Start s)"

lemma ocpi_Start_inv [inv_intros]: "ocpi_inv s \<Longrightarrow> ocpi_inv (ocpi_Start s)"
  by (simp add: ocpi_inv_def ocpi_Start_def mounted_def route_pattern_def)

interpretation ocpi_server: transition_system
  "\<lambda>s. \<exists>parse_url url_string opts_Auth raw. ocpi_New conflicts parse_url url_string opts_Auth raw = Some s" "ocpi_step conflicts" ocpi_inv
  for conflicts
  by unfold_locales (auto elim!: ocpi_step.cases intro: inv_intros)

text \<open>Once started, the server serves what it has.\<close>

lemma started_fixed: "os_started s \<Longrightarrow> ocpi_step conflicts s t \<Longrightarrow> t = s"
  by (auto elim!: ocpi_step.cases simp: Register_def ocpi_Start_def split: option.splits)

lemma started_steps: "(ocpi_step conflicts)\<^sup>*\<^sup>* s t \<Longrightarrow> os_started s \<Longrightarrow> t = s"
  by (induction rule: rtranclp_induct) (auto dest: started_fixed)

lemma startOCPI_reachable:
  assumes "startOCPI sha conflicts parse_url url_string now listens cfg = Some s"
  shows "ocpi_inv s" and "os_started s"
    and "map md_Identifier (os_modules s) = [''credentials'']"
proof -
  obtain s0 s1 where n: "ocpi_New conflicts parse_url url_string (Some (NewStaticAuthenticator sha (oc_TokenA (cfg_OCPI cfg)))) (oc_PublicBaseURL (cfg_OCPI cfg)) = Some s0"
    and r: "Register conflicts (CredentialsStub now) s0 = (s1, True)" and s: "s = ocpi_Start s1"
    using assms by (auto simp: startOCPI_def split: option.splits prod.splits bool.splits if_splits)
  show "ocpi_inv s" using Register_inv [OF ocpi_New_inv [OF n], of conflicts "CredentialsStub now"] r s ocpi_Start_inv by simp
  show "os_started s" using s by (simp add: ocpi_Start_def)
  have "extends AccessRegistration t u \<Longrightarrow> os_modules u = os_modules t" for t u by (auto simp: extends_def)
  then have "os_modules s0 = []" using n
    by (auto simp: ocpi_New_def Let_def split: option.splits prod.splits if_splits dest!: ocpi_handle_extends)
  with Register_True [OF r] module_validate_Some(2) s show "map md_Identifier (os_modules s) = [''credentials'']"
    by (fastforce simp: ocpi_Start_def CredentialsStub_def Let_def)
qed

section \<open>Serving\<close>

lemma serve_route_served:
  assumes "serve_route env s r = (a, Some m)"
  shows "m \<in> set (os_mux s)" and "\<exists>token. tokenFromRequest r = Some token \<and> mt_need m \<le> os_auth s token"
    and "a = run_target (sv_now env) s (mt_target m) r"
proof -
  obtain m' where m': "List.find (\<lambda>x. mt_pattern x = mt_pattern m') (os_mux s) = Some m'"
    and au: "ocpi_authorize (os_auth s) (sv_now env) (mt_need m') (run_target (sv_now env) s (mt_target m')) r = (a, True)" "m = m'"
    using assms by (auto simp: serve_route_def Let_def bind_eq_Some_conv split: option.splits prod.splits if_splits dest: find_in_set)
  show "m \<in> set (os_mux s)" using m' au(2) by (auto dest: find_in_set)
  show "\<exists>token. tokenFromRequest r = Some token \<and> mt_need m \<le> os_auth s token"
    using authorize_ran [of "os_auth s" "sv_now env" "mt_need m'" "run_target (sv_now env) s (mt_target m')" r] au by simp
  show "a = run_target (sv_now env) s (mt_target m) r"
    using authorize_answer [of "os_auth s" "sv_now env" "mt_need m'" "run_target (sv_now env) s (mt_target m')" r] au by simp
qed

text \<open>The mount a request is routed to, if any; what the server of the daemon needs for each is registration.\<close>

definition route_of :: "serve_env \<Rightarrow> ocpi_Server \<Rightarrow> http_request \<Rightarrow> mount option" where
  "route_of env s r = Option.bind (sv_match env (map mt_pattern (os_mux s)) r) (\<lambda>p. List.find (\<lambda>m. mt_pattern m = p) (os_mux s))"

lemma route_of_mounted: "route_of env s r = Some m \<Longrightarrow> m \<in> set (os_mux s)"
  by (auto simp: route_of_def bind_eq_Some_conv dest: find_in_set)

lemma ocpi_ServeHTTP_served:
  "snd (ocpi_ServeHTTP env s r) =
     (case route_of env s r of
        None \<Rightarrow> None
      | Some m \<Rightarrow> if \<exists>token. tokenFromRequest r = Some token \<and> mt_need m \<le> os_auth s token then Some m else None)"
  by (simp add: ocpi_ServeHTTP_def serve_route_def route_of_def Let_def case_prod_unfold authorize_ran split: option.split)

lemma ocpi_ServeHTTP_refused:
  assumes "route_of env s r = Some m" and "snd (ocpi_ServeHTTP env s r) = None"
  shows "ha_status (fst (ocpi_ServeHTTP env s r)) = 401"
  using assms
  by (simp add: ocpi_ServeHTTP_def serve_route_def route_of_def Let_def case_prod_unfold authorize_answer split: if_splits)

lemma extends_need: "extends need s s' \<Longrightarrow> \<forall>x \<in> set (os_mux s). mt_need x = need \<Longrightarrow> \<forall>x \<in> set (os_mux s'). mt_need x = need"
  by (auto simp: extends_def)

lemma ocpi_New_need:
  assumes "ocpi_New conflicts parse_url url_string opts_Auth raw = Some s"
  shows "\<forall>x \<in> set (os_mux s). mt_need x = AccessRegistration"
proof -
  obtain auth base pre s1 where
    h1: "ocpi_handle conflicts ''GET'' (pre @ ''/versions'') AccessRegistration ServesVersions
       \<lparr>os_auth = auth, os_base = base, os_prefix = pre, os_started = False, os_modules = [], os_mux = []\<rparr> = (s1, True)" and
    h2: "ocpi_handle conflicts ''GET'' (pre @ ''/'' @ ocpi_Version) AccessRegistration ServesVersionDetails s1 = (s, True)"
    using assms by (auto simp: ocpi_New_def Let_def split: option.splits prod.splits if_splits)
  have "\<forall>x \<in> set (os_mux s1). mt_need x = AccessRegistration"
    using ocpi_handle_extends [OF h1] by (auto simp: extends_def)
  then show ?thesis using ocpi_handle_extends [OF h2] extends_need by blast
qed

lemma Register_need:
  assumes "Register conflicts m0 s = (s', True)" and "\<forall>x \<in> set (os_mux s). mt_need x = md_Access m0"
  shows "\<forall>x \<in> set (os_mux s'). mt_need x = md_Access m0"
proof (cases "module_validate m0")
  case (Some m)
  let ?root = "os_prefix s @ ''/'' @ ocpi_Version @ ''/'' @ md_Path m"
  obtain t ok where r: "mount_routes conflicts ?root (md_Access m) (md_Routes m) s = (t, ok)"
    by (cases "mount_routes conflicts ?root (md_Access m) (md_Routes m) s")
  have "\<forall>x \<in> set (os_mux t). mt_need x = md_Access m0"
    using mount_routes_extends [OF r refl] extends_need assms(2) module_validate_Some(5) [OF Some] by metis
  with assms(1) Some r show ?thesis by (cases ok) (auto simp: Register_def split: if_splits)
qed (use assms in \<open>simp add: Register_def\<close>)

lemma startOCPI_need:
  assumes "startOCPI sha conflicts parse_url url_string now listens cfg = Some s"
  shows "\<forall>x \<in> set (os_mux s). mt_need x = AccessRegistration"
proof -
  obtain s0 s1 where n: "ocpi_New conflicts parse_url url_string (Some (NewStaticAuthenticator sha (oc_TokenA (cfg_OCPI cfg)))) (oc_PublicBaseURL (cfg_OCPI cfg)) = Some s0"
    and r: "Register conflicts (CredentialsStub now) s0 = (s1, True)" and s: "s = ocpi_Start s1"
    using assms by (auto simp: startOCPI_def split: option.splits prod.splits bool.splits if_splits)
  have "md_Access (CredentialsStub now) = AccessRegistration" by (simp add: CredentialsStub_def Let_def)
  with Register_need [OF r] ocpi_New_need [OF n] s show ?thesis by (simp add: ocpi_Start_def)
qed

lemma extends_auth: "extends need s s' \<Longrightarrow> os_auth s' = os_auth s"
  by (auto simp: extends_def)

lemma ocpi_New_auth:
  assumes "ocpi_New conflicts parse_url url_string (Some auth) raw = Some s"
  shows "os_auth s = auth"
proof -
  obtain base pre s1 where
    h1: "ocpi_handle conflicts ''GET'' (pre @ ''/versions'') AccessRegistration ServesVersions
       \<lparr>os_auth = auth, os_base = base, os_prefix = pre, os_started = False, os_modules = [], os_mux = []\<rparr> = (s1, True)" and
    h2: "ocpi_handle conflicts ''GET'' (pre @ ''/'' @ ocpi_Version) AccessRegistration ServesVersionDetails s1 = (s, True)"
    using assms by (auto simp: ocpi_New_def Let_def split: option.splits prod.splits if_splits)
  show ?thesis using ocpi_handle_extends [OF h1] ocpi_handle_extends [OF h2] by (auto dest!: extends_auth)
qed

lemma Register_auth: "os_auth (fst (Register conflicts m0 s)) = os_auth s"
proof (cases "module_validate m0")
  case (Some m)
  let ?root = "os_prefix s @ ''/'' @ ocpi_Version @ ''/'' @ md_Path m"
  obtain t ok where r: "mount_routes conflicts ?root (md_Access m) (md_Routes m) s = (t, ok)" by (rule prod.exhaust)
  have "os_auth t = os_auth s" using mount_routes_extends [OF r refl] by (auto dest!: extends_auth)
  with Some r show ?thesis by (simp add: Register_def split: bool.split)
qed (simp add: Register_def)

lemma startOCPI_auth:
  assumes "startOCPI sha conflicts parse_url url_string now listens cfg = Some s"
  shows "os_auth s = NewStaticAuthenticator sha (oc_TokenA (cfg_OCPI cfg))"
proof -
  obtain s0 s1 where n: "ocpi_New conflicts parse_url url_string (Some (NewStaticAuthenticator sha (oc_TokenA (cfg_OCPI cfg)))) (oc_PublicBaseURL (cfg_OCPI cfg)) = Some s0"
    and r: "Register conflicts (CredentialsStub now) s0 = (s1, True)" and s: "s = ocpi_Start s1"
    using assms by (auto simp: startOCPI_def split: option.splits prod.splits bool.splits if_splits)
  show ?thesis using ocpi_New_auth [OF n] Register_auth [of conflicts "CredentialsStub now" s0] r s by (simp add: ocpi_Start_def)
qed

lemma static_need: "AccessRegistration \<le> NewStaticAuthenticator sha tokenA token \<longleftrightarrow> sha token = sha tokenA"
  by (auto simp: NewStaticAuthenticator_def NewSecret_def Secret_Matches_def Let_def less_eq_Access_def)

section \<open>Request ids\<close>

lemma unat_div_16: "unat (w :: 8 word) div 16 = unat (drop_bit 4 w)"
  using unat_drop_bit_eq [of 4 w] by (simp add: drop_bit_nat_def)

lemma version_nibble: "unat ((x AND 0x0f) OR 0x40 :: 8 word) div 16 = 4"
proof -
  have "drop_bit 4 ((x AND 0x0f) OR 0x40) = (drop_bit 4 x AND drop_bit 4 0x0f) OR (drop_bit 4 0x40 :: 8 word)"
    by (simp only: drop_bit_or drop_bit_and)
  also have "\<dots> = 4" by (simp add: drop_bit_eq_div)
  finally show ?thesis by (simp add: unat_div_16)
qed

lemma variant_nibble: "hex_char (unat ((x AND 0x3f) OR 0x80 :: 8 word) div 16) \<in> set ''89ab''"
proof -
  define y where "y = drop_bit 4 x AND 3"
  have "drop_bit 4 ((x AND 0x3f) OR 0x80) = (drop_bit 4 x AND drop_bit 4 0x3f) OR (drop_bit 4 0x80 :: 8 word)"
    by (simp only: drop_bit_or drop_bit_and)
  also have "\<dots> = y OR 8" by (simp add: drop_bit_eq_div y_def)
  finally have d: "drop_bit 4 ((x AND 0x3f) OR 0x80) = y OR 8" .
  have "y = take_bit 2 (drop_bit 4 x)" by (simp add: y_def take_bit_eq_mask mask_eq_exp_minus_1)
  then have "unat y < 4" using take_bit_nat_less_exp [of 2 "unat (drop_bit 4 x)"] by (simp add: unsigned_take_bit_eq)
  moreover obtain z where z: "y = word_of_nat z" "z = unat y" by simp
  ultimately have "z = 0 \<or> z = 1 \<or> z = 2 \<or> z = 3" by linarith
  with z(1) have "y = 0 \<or> y = 1 \<or> y = 2 \<or> y = 3" by (elim disjE) simp_all
  then have "hex_char (unat (y OR 8)) \<in> set ''89ab''" by (elim disjE) (simp_all add: hex_char_def char_of_eq_iff)
  then show ?thesis unfolding unat_div_16 d .
qed

text \<open>A generated id has the length of a UUID, version 4 and the variant of RFC 4122.\<close>

lemma newUUID_shape:
  assumes "length random = 16"
  shows "length (newUUID random) = 36" and "newUUID random ! 14 = CHR ''4''" and "newUUID random ! 19 \<in> set ''89ab''"
proof -
  have "\<exists>a b c d e f g h i j k l m n p q. random = [a, b, c, d, e, f, g, h, i, j, k, l, m, n, p, q]"
    using assms by (auto simp: length_Suc_conv numeral_eq_Suc)
  then obtain a b c d e f g h i j k l m n p q where r: "random = [a, b, c, d, e, f, g, h, i, j, k, l, m, n, p, q]" by blast
  note u = newUUID_def r Let_def hex2_def
  show "length (newUUID random) = 36" by (simp add: u)
  show "newUUID random ! 14 = CHR ''4''" using version_nibble [of g] by (simp add: u hex_char_def char_of_eq_iff)
  show "newUUID random ! 19 \<in> set ''89ab''" using variant_nibble [of i] by (simp add: u)
qed

end
