(* ===== verification/Run.thy ===== *)
theory Run
  imports Cli Ocpi V16_ChargePoint Csms
begin

text \<open>
  \<open>cpms run\<close> (\<open>internal/cli/run.go\<close>) and the build information (\<open>internal/buildinfo\<close>). Starting and
  stopping the daemon is the trace of what is claimed and given back, with the deferred calls of the
  function in their order; each part that can fail is an argument.
\<close>

section \<open>Log levels\<close>

datatype log_level = LevelDebug | LevelInfo | LevelWarn | LevelError

definition newLogger :: "string \<Rightarrow> log_level option" where
  "newLogger level =
     (let l = map to_lower level
      in if l = ''debug'' then Some LevelDebug else if l = ''info'' then Some LevelInfo
         else if l = ''warn'' \<or> l = ''warning'' then Some LevelWarn else if l = ''error'' then Some LevelError else None)"

section \<open>What the daemon accepts\<close>

text \<open>
  The wiring of \<open>csms.New\<close>: the configured station alone, under OCPP 1.6. This is the handshake of a daemon that runs; one whose
  configuration asks for another version does not start (\<open>run_daemon\<close> below).
\<close>

definition run_accept :: "Config \<Rightarrow> string \<Rightarrow> bool" where
  "run_accept cfg i \<longleftrightarrow> i = ch_ID (cfg_Charger cfg)"

definition run_handshake :: "Config \<Rightarrow> string \<Rightarrow> string list \<Rightarrow> handshake" where
  "run_handshake cfg = ServeHTTP (Some (run_accept cfg)) [Version16]"

section \<open>Starting and stopping\<close>

datatype part = FileLock | ControlSocket | CoreService | OcppServer | Commands | OcpiServer | EventLog

datatype run_event = Claim part | Release part

datatype run_error = VersionNotImplemented | LockHeld | StateUnreadable | SocketTaken | CsmsOptions | OcppListen | OcpiStart

record run_env =
  re_version :: Version
  re_lock_ok :: bool
  re_open_ok :: bool
  re_listen_ok :: bool
  re_csms_ok :: bool
  re_start_ok :: bool
  re_ocpi_ok :: bool

text \<open>The deferred calls that are pending once the core service runs, last in first out.\<close>

definition deferred :: "run_event list" where
  "deferred = [Release CoreService, Release ControlSocket, Release FileLock]"

definition run_daemon :: "run_env \<Rightarrow> run_event list \<times> run_error option" where
  "run_daemon e =
     (if re_version e \<noteq> Version16 then ([], Some VersionNotImplemented)
      else if \<not> re_lock_ok e then ([], Some LockHeld)
      else if \<not> re_open_ok e then ([Claim FileLock, Release FileLock], Some StateUnreadable)
      else if \<not> re_listen_ok e then ([Claim FileLock, Release FileLock], Some SocketTaken)
      else let up = [Claim FileLock, Claim ControlSocket, Claim CoreService]
           in if \<not> re_csms_ok e then (up @ deferred, Some CsmsOptions)
              else if \<not> re_start_ok e then (up @ deferred, Some OcppListen)
              else let up = up @ [Claim OcppServer, Claim Commands]
                   in if \<not> re_ocpi_ok e
                      then (up @ [Release Commands, Release OcppServer] @ deferred, Some OcpiStart)
                      else (up @ [Claim OcpiServer, Claim EventLog]
                              @ [Release OcpiServer, Release ControlSocket, Release Commands, Release OcppServer, Release EventLog]
                              @ [Release EventLog] @ deferred, None))"

section \<open>Build information (buildinfo.go)\<close>

record Info =
  in_Version :: string
  in_Commit :: string
  in_Date :: string
  in_GoVersion :: string
  in_Platform :: string

fun build_settings :: "(string \<times> string) list \<Rightarrow> Info \<Rightarrow> Info" where
  "build_settings [] i = i"
| "build_settings ((k, v) # kvs) i = build_settings kvs
     (if k = ''vcs.revision'' then (if in_Commit i = [] then i\<lparr>in_Commit := v\<rparr> else i)
      else if k = ''vcs.time'' then (if in_Date i = [] then i\<lparr>in_Date := v\<rparr> else i)
      else if k = ''vcs.modified'' then (if v = ''true'' \<and> in_Commit i \<noteq> [] then i\<lparr>in_Commit := in_Commit i @ ''-dirty''\<rparr> else i)
      else i)"

definition buildinfo_Get :: "Info \<Rightarrow> (string \<times> string) list option \<Rightarrow> Info" where
  "buildinfo_Get stamped settings = (case settings of None \<Rightarrow> stamped | Some kvs \<Rightarrow> build_settings kvs stamped)"

definition Info_String :: "Info \<Rightarrow> string" where
  "Info_String i = ''cpms '' @ in_Version i
     @ (if in_Commit i \<noteq> [] then '' ('' @ take 12 (in_Commit i) @ '')'' else [])
     @ (if in_Date i \<noteq> [] then '' built '' @ in_Date i else [])
     @ '' '' @ in_GoVersion i @ '' '' @ in_Platform i"

text \<open>
  The revision is shown by its first twelve characters, so the mark of a modified tree, which is
  appended to it, is never seen when the revision is a full hash.
\<close>

lemma dirty_not_shown:
  assumes "12 \<le> length (in_Commit i)"
  shows "Info_String (i\<lparr>in_Commit := in_Commit i @ ''-dirty''\<rparr>) = Info_String i"
  using assms by (auto simp: Info_String_def)

section \<open>The trace of a run\<close>

definition given_back :: "run_event list \<Rightarrow> part \<Rightarrow> bool" where
  "given_back es p \<longleftrightarrow> (\<forall>xs ys. es = xs @ Claim p # ys \<longrightarrow> Release p \<in> set ys)"

text \<open>An executable form: scanning from the end, a claim needs a release behind it.\<close>

fun releases_after :: "run_event list \<Rightarrow> bool" where
  "releases_after [] = True"
| "releases_after (Claim p # es) = (Release p \<in> set es \<and> releases_after es)"
| "releases_after (Release p # es) = releases_after es"

lemma releases_after_given_back: "releases_after es \<Longrightarrow> given_back es p"
proof (induction es rule: releases_after.induct)
  case (2 q es)
  then show ?case by (auto simp: given_back_def Cons_eq_append_conv)
next
  case (3 q es)
  then show ?case by (auto simp: given_back_def Cons_eq_append_conv)
qed (simp add: given_back_def)

lemma run_daemon_releases: "releases_after (fst (run_daemon e))"
  by (simp add: run_daemon_def deferred_def Let_def)

lemma run_daemon_last: "fst (run_daemon e) \<noteq> [] \<Longrightarrow> hd (fst (run_daemon e)) = Claim FileLock \<and> last (fst (run_daemon e)) = Release FileLock"
  by (auto simp: run_daemon_def deferred_def Let_def split: if_splits)

section \<open>The URL the operator is told\<close>

lemma split_on_append: "c \<notin> set t \<Longrightarrow> split_on c (s @ c # t) = split_on c s @ [t]"
proof (induction s)
  case Nil
  have "c \<notin> set t \<Longrightarrow> split_on c t = [t]" by (induction t) auto
  then show ?case using Nil by simp
next
  case (Cons x s)
  then show ?case by (cases "split_on c s") (auto split: list.splits)
qed

lemma MatchString_id_chars: "MatchString chargePointIDRe i \<Longrightarrow> i \<noteq> [] \<and> CHR ''/'' \<notin> set i"
  by (auto simp: chargePointIDRe_def MatchString_single list_all_iff alnum_def alpha_def upper_def lower_def is_digit_def
      one_of_def less_eq_char_def simp del: MatchString.simps)

lemma trim_right_other: "s \<noteq> [] \<Longrightarrow> last s \<noteq> c \<Longrightarrow> trim_right (\<lambda>x. x = c) s = s"
  by (cases s rule: rev_cases) (simp_all add: trim_right_def)

text \<open>The path of the URL the operator gives the station leads to the configured id.\<close>

lemma chargePointID_path:
  assumes "i \<noteq> []" and "CHR ''/'' \<notin> set i" and "i \<noteq> ''.''" and "i \<noteq> ''..''"
  shows "chargePointID (''/ocpp/'' @ i) = i"
proof -
  have l: "last i \<noteq> CHR ''/''" using assms(1,2) last_in_set by metis
  have "split_on CHR ''/'' (''//ocpp'' @ CHR ''/'' # i) = [[], [], ''ocpp'', i]"
    using split_on_append [OF assms(2), of "''//ocpp''"] by simp
  then have c: "path_Clean_rooted (''/'' @ ''/ocpp/'' @ i) = ''/ocpp/'' @ i"
    using assms by (simp add: path_Clean_rooted_def)
  have t: "trim_right (\<lambda>x. x = CHR ''/'') (''/ocpp/'' @ i) = ''/ocpp/'' @ i"
    using l assms(1) by (intro trim_right_other) auto
  have "split_on CHR ''/'' (''/ocpp'' @ CHR ''/'' # i) = [[], ''ocpp'', i]"
    using split_on_append [OF assms(2), of "''/ocpp''"] by simp
  then have "path_Base (''/ocpp/'' @ i) = i" using assms(1) t by (simp add: path_Base_def)
  moreover have "i \<noteq> ''/''" using assms(2) by auto
  ultimately show ?thesis unfolding chargePointID_def Let_def c t using assms(3) by simp
qed

lemma run_handshake_accepts:
  assumes "valid_config parse_url cfg" and "ch_ID (cfg_Charger cfg) \<noteq> ''.''" and "ch_ID (cfg_Charger cfg) \<noteq> ''..''"
  shows "run_handshake cfg (''/ocpp/'' @ ch_ID (cfg_Charger cfg)) [Subprotocol Version16]
     = Upgrade (ch_ID (cfg_Charger cfg)) Version16 (Subprotocol Version16)"
proof -
  have "MatchString chargePointIDRe (ch_ID (cfg_Charger cfg))" using assms(1) by (simp add: valid_config_def valid_charger_def)
  note m = MatchString_id_chars [OF this]
  have "VersionFromSubprotocol (Subprotocol Version16) = Some Version16" by (simp add: VersionFromSubprotocol_iff)
  then show ?thesis using chargePointID_path [of "ch_ID (cfg_Charger cfg)"] m assms(2,3)
    by (simp add: run_handshake_def ServeHTTP_def Let_def run_accept_def)
qed

lemma csmsURL_path: "\<exists>host. csmsURL cfg = ''ws://'' @ host @ ''/ocpp/'' @ ch_ID (cfg_Charger cfg)"
proof (cases "SplitHostPort (ls_OCPPBind (cfg_Server cfg))")
  case None
  then show ?thesis by (auto simp: csmsURL_def)
next
  case (Some hp)
  obtain h p where "hp = (h, p)" by (cases hp)
  with Some show ?thesis
    by (intro exI [of _ "(if isWildcardHost h then ''<this-host>'' else h) @ '':'' @ p"]) (simp add: csmsURL_def)
qed

end
