(* ===== verification/Cli_Probe.thy ===== *)
theory Cli_Probe
  imports Cli
begin

text \<open>
  \<open>cpms probe\<close> (\<open>internal/cli/probe.go\<close>): what cpms needs of a station, the verdict on a probe's
  result, and its comparison with the configuration. The text of a check is its format with its
  arguments, as in the validation of a configuration.
\<close>

record need =
  nd_capability :: Capability
  nd_required :: bool
  nd_usedFor :: string
  nd_without :: string

definition needs :: "need list" where
  "needs =
     [\<lparr>nd_capability = CapRemoteStartStop, nd_required = True, nd_usedFor = ''start, stop'',
       nd_without = ''cpms cannot start or stop sessions, from the terminal or for OCPI START_SESSION and STOP_SESSION.''\<rparr>,
      \<lparr>nd_capability = CapUnlock, nd_required = True, nd_usedFor = ''unlock'',
       nd_without = ''cpms cannot release a stuck cable, from the terminal or for OCPI UNLOCK_CONNECTOR.''\<rparr>,
      \<lparr>nd_capability = CapReservation, nd_required = True, nd_usedFor = ''reserve, cancel, OCPI RESERVE_NOW'',
       nd_without = ''OCPI RESERVE_NOW cannot be passed on to the station, so cpms would have to hold reservations itself.''\<rparr>,
      \<lparr>nd_capability = CapTriggerStatus, nd_required = False, nd_usedFor = ''status refresh on demand'',
       nd_without = ''cpms learns about status changes only when the station reports them by itself.''\<rparr>]"

definition needOf :: "string \<Rightarrow> need option" where
  "needOf name = List.find (\<lambda>n. capability_string (nd_capability n) = name) needs"

datatype probe_arg = PStr string | PInt int | PSecs duration

datatype mark = markOK | markWarn | markUnknown

record check =
  ck_mark :: mark
  ck_text :: "string \<times> probe_arg list"

definition mk_check :: "mark \<Rightarrow> string \<Rightarrow> probe_arg list \<Rightarrow> check" where
  "mk_check m f args = \<lparr>ck_mark = m, ck_text = (f, args)\<rparr>"

definition connector_checks :: "Config \<Rightarrow> ProbeResult \<Rightarrow> check list" where
  "connector_checks cfg r =
     (let evses = int (length (cfg_EVSEs cfg))
      in case pr_Connectors r of
           None \<Rightarrow> [mk_check markUnknown ''the station did not report how many connectors it has; cannot check it against config'' []]
         | Some n \<Rightarrow>
             if n \<noteq> evses
             then [mk_check markWarn
                     ''the station reports %s, but config has %s; check location.evses and their ocpp_connector_id''
                     [PStr (plural n ''connector''), PStr (plural evses ''EVSE'')]]
             else let stray = map (\<lambda>(i, e). mk_check markWarn
                                ''location.evses[%d] (%s) maps to ocpp_connector_id %d, but the station reports %s''
                                [PInt (int i), PStr (e_UID e), PInt (e_OCPPConnectorID e), PStr (plural n ''connector'')])
                            (filter (\<lambda>(i, e). n < e_OCPPConnectorID e) (enumerate 0 (cfg_EVSEs cfg)))
                  in if stray \<noteq> [] then stray
                     else [mk_check markOK ''%s, matching the %s in config'' [PStr (plural n ''connector''), PStr (plural evses ''EVSE'')]])"

definition heartbeat_check :: "Config \<Rightarrow> ProbeResult \<Rightarrow> check" where
  "heartbeat_check cfg r =
     (case pr_HeartbeatIntervalSeconds r of
        None \<Rightarrow> mk_check markUnknown ''the station did not report its heartbeat interval; cannot check it against config'' []
      | Some n \<Rightarrow>
          let got = wrap64 (n * Second); want = dur_dur (ch_HeartbeatInterval (cfg_Charger cfg));
              timeout = dur_dur (ch_HeartbeatTimeout (cfg_Charger cfg))
          in if timeout \<le> got
             then mk_check markWarn (''the station's HeartbeatInterval setting is %s, which is not before charger.heartbeat_timeout (%s) runs out. ''
                    @ ''It may be a stale setting (some stations heartbeat at the BootNotification interval regardless): ''
                    @ ''check the heartbeat spacing in the `--log-level debug` log. ''
                    @ ''If the station really heartbeats that slowly, cpms will mark it offline after charger.heartbeat_timeout'')
                    [PSecs got, PSecs timeout]
             else if got \<noteq> want
             then mk_check markWarn (''the station's HeartbeatInterval setting is %s, but charger.heartbeat_interval is %s. ''
                    @ ''It may be a stale setting (some stations heartbeat at the BootNotification interval regardless): ''
                    @ ''check the heartbeat spacing in the `--log-level debug` log'')
                    [PSecs got, PSecs want]
             else mk_check markOK ''heartbeat every %s, as charger.heartbeat_interval says'' [PSecs got])"

definition configChecks :: "Config \<Rightarrow> ProbeResult \<Rightarrow> check list" where
  "configChecks cfg r = connector_checks cfg r @ [heartbeat_check cfg r]"

record probeOutput =
  po_Result :: ProbeResult
  po_OK :: bool
  po_Missing :: "string list"
  po_Unconfirmed :: "string list"
  po_Warnings :: "(string \<times> probe_arg list) list"
  po_checks :: "check list"

text \<open>The loop over the capabilities, with the two lists it appends to.\<close>

fun verdict_loop :: "ProbeCapability list \<Rightarrow> string list \<times> string list \<Rightarrow> string list \<times> string list" where
  "verdict_loop [] acc = acc"
| "verdict_loop (c # cs) (missing, unconfirmed) =
     (case needOf (pcap_Name c) of
        None \<Rightarrow> verdict_loop cs (missing, unconfirmed)
      | Some n \<Rightarrow>
          if \<not> nd_required n then verdict_loop cs (missing, unconfirmed)
          else if pcap_Support c = support_string SupportYes then verdict_loop cs (missing, unconfirmed)
          else if pcap_Support c = support_string SupportNo then verdict_loop cs (missing @ [pcap_Name c], unconfirmed)
          else verdict_loop cs (missing, unconfirmed @ [pcap_Name c]))"

definition evaluateProbe :: "Config \<Rightarrow> ProbeResult \<Rightarrow> probeOutput" where
  "evaluateProbe cfg r =
     (let (missing, unconfirmed) = verdict_loop (pr_Capabilities r) ([], []); checks = configChecks cfg r
      in \<lparr>po_Result = r, po_OK = (missing = []), po_Missing = missing, po_Unconfirmed = unconfirmed,
          po_Warnings = map ck_text (filter (\<lambda>c. ck_mark c \<noteq> markOK) checks), po_checks = checks\<rparr>)"

text \<open>How the command ends once the verdict is printed.\<close>

definition probe_exit :: "probeOutput \<Rightarrow> cli_error option" where
  "probe_exit out = (if po_OK out then None
     else Some (ExitStatus ExitMissingCapability (''the station lacks '' @ plural (int (length (po_Missing out))) ''capability''
            @ '' that cpms requires: '' @ join '', '' (po_Missing out))))"

section \<open>Printing\<close>

definition tryIt :: "string \<Rightarrow> string" where
  "tryIt capability =
     (if capability = capability_string CapRemoteStartStop then ''`cpms start`''
      else if capability = capability_string CapUnlock then ''`cpms unlock`''
      else if capability = capability_string CapReservation then ''`cpms reserve`''
      else ''the matching command'')"

definition grantedBy :: "ProbeResult \<Rightarrow> string \<Rightarrow> string" where
  "grantedBy r capability =
     (let names = concat (map (\<lambda>f. map (\<lambda>g. pf_Name f) (filter (\<lambda>g. g = capability) (pf_Grants f))) (pr_Features r))
      in if names = [] then capability else join '' or '' names)"

definition supportMark :: "string \<Rightarrow> string" where
  "supportMark s = (if s = support_string SupportYes then [CHR 0xE2, CHR 0x9C, CHR 0x93]
     else if s = support_string SupportNo then [CHR 0xE2, CHR 0x9C, CHR 0x97] else ''?'')"

text \<open>The cells of a feature's row: its name, its mark, whether it is required, and what it is used for.\<close>

fun row_loop :: "string list \<Rightarrow> string \<times> string list \<Rightarrow> string \<times> string list" where
  "row_loop [] acc = acc"
| "row_loop (g # gs) (required, uses) =
     (case needOf g of
        None \<Rightarrow> row_loop gs (required, uses)
      | Some n \<Rightarrow> row_loop gs (if nd_required n then ''required'' else if required = [] then ''optional'' else required,
                              uses @ [nd_usedFor n]))"

definition feature_cells :: "ProbeFeature \<Rightarrow> string list" where
  "feature_cells f =
     (let (required, uses) = row_loop (pf_Grants f) ([], [])
      in [pf_Name f, supportMark (pf_Support f), required, if uses = [] then ''not used by cpms'' else join '', '' uses])"

definition probe_identity :: "ProbeChargePoint \<Rightarrow> string list" where
  "probe_identity cp =
     (let station = TrimSpace (pc_Vendor cp @ '' '' @ pc_Model cp)
      in (if station \<noteq> [] then [station] else [])
         @ (if pc_SerialNumber cp \<noteq> [] then [''serial '' @ pc_SerialNumber cp] else [])
         @ (if pc_Firmware cp \<noteq> [] then [''firmware '' @ pc_Firmware cp] else []))"

definition need_without :: "string \<Rightarrow> string" where
  "need_without name = (case needOf name of None \<Rightarrow> [] | Some n \<Rightarrow> nd_without n)"

definition probe_notes :: "probeOutput \<Rightarrow> string list" where
  "probe_notes out =
     (let r = po_Result out
      in map (\<lambda>f. pf_Name f @ '' was not reported, but it is mandatory in OCPP '' @ pc_OCPPVersion (pr_ChargePoint r) @ '': assumed present.'')
             (filter pf_Assumed (pr_Features r))
         @ map (\<lambda>name. grantedBy r name @ '' is missing: '' @ need_without name) (po_Missing out)
         @ map (\<lambda>name. grantedBy r name @ '' was not reported, so cpms cannot be sure of it. Try it ('' @ tryIt name
                  @ ''); if the station refuses, this is what stops working: '' @ need_without name) (po_Unconfirmed out)
         @ (if po_Missing out = [] \<and> po_Unconfirmed out = [] then [''Every capability cpms requires is present.''] else []))"

text \<open>The whole report: the heading, the tables with their cells, and the notes.\<close>

record probe_print =
  pp_heading :: string
  pp_identity :: "string option"
  pp_features :: "string list list"
  pp_settings :: "string list list"
  pp_checks :: "check list"
  pp_raw :: "string list list option"
  pp_notes :: "string list"

definition printProbe :: "probeOutput \<Rightarrow> bool \<Rightarrow> probe_print" where
  "printProbe out raw =
     (let r = po_Result out; cp = pr_ChargePoint r; identity = probe_identity cp
      in \<lparr>pp_heading = pc_ID cp @ ''  OCPP '' @ pc_OCPPVersion cp,
          pp_identity = (if identity \<noteq> [] then Some (''  '' @ join '', '' identity) else None),
          pp_features = map feature_cells (pr_Features r),
          pp_settings = map (\<lambda>s. [ps_Name s, if ps_Reported s then ps_Value s else ''not reported'', ps_Meaning s]) (pr_Settings r),
          pp_checks = po_checks out,
          pp_raw = (if raw then Some (map (\<lambda>k. [pk_Key k, if pk_Readonly k then ''ro'' else ''rw'', pk_Value k]) (pr_Raw r)) else None),
          pp_notes = probe_notes out\<rparr>)"

section \<open>The command\<close>

text \<open>
  Without a connected station the command asks for the status once more, to say when it was last
  seen; \<open>again\<close> is the connection that question goes over.
\<close>

definition newline :: char where "newline = CHR 0x0A"

definition notConnected :: "(client_error \<Rightarrow> string) \<Rightarrow> (json \<Rightarrow> duration \<Rightarrow> transport) \<Rightarrow> (gotime \<Rightarrow> string) \<Rightarrow> stationEnv \<Rightarrow> cli_error" where
  "notConnected say again localTime env =
     (let head = ch_ID (cfg_Charger (env_cfg env)) @ '' is not connected to cpms, so there is nothing to probe.'' @ [newline]
            @ ''Set the station's CSMS URL to:'' @ [newline] @ ''  '' @ csmsURL (env_cfg env) @ [newline];
          seen = (case env_call say again env \<lparr>sq_V = 0, sq_Op = OpStatus_s, sq_EVSE = [], sq_IDTag = [], sq_ExpiresIn = []\<rparr> of
              Inl e \<Rightarrow> []
            | Inr data \<Rightarrow>
                (case Option.bind data dec_Status of
                   None \<Rightarrow> []
                 | Some st \<Rightarrow> (case cst_LastDisconnect (ss_ChargePoint st) of
                       Some d \<Rightarrow> ''It last disconnected at '' @ localTime (ds_At d) @ '': '' @ ds_Reason d @ ''.''
                     | None \<Rightarrow> ''It has not connected since cpms run started.'')))
      in ExitStatus ExitNotConnected (trim_right (\<lambda>c. c = newline) (head @ seen)))"

text \<open>What is printed, if anything is, and the error the command returns.\<close>

definition probeCommand :: "(client_error \<Rightarrow> string) \<Rightarrow> (json \<Rightarrow> duration \<Rightarrow> transport) \<Rightarrow> (json \<Rightarrow> duration \<Rightarrow> transport)
    \<Rightarrow> (gotime \<Rightarrow> string) \<Rightarrow> string \<Rightarrow> cli_error + stationEnv \<Rightarrow> probeOutput option \<times> cli_error option" where
  "probeCommand say run again localTime jsonErr env = (case env of
       Inl e \<Rightarrow> (None, Some e)
     | Inr env \<Rightarrow>
         (case env_call say run env \<lparr>sq_V = 0, sq_Op = OpProbe_s, sq_EVSE = [], sq_IDTag = [], sq_ExpiresIn = []\<rparr> of
            Inl e \<Rightarrow> (None, Some (if ExitCode (Some e) = ExitNotConnected then notConnected say again localTime env else e))
          | Inr data \<Rightarrow>
              (case Option.bind data dec_ProbeResult of
                 None \<Rightarrow> (None, Some (OtherCliError jsonErr))
               | Some result \<Rightarrow> let out = evaluateProbe (env_cfg env) result in (Some out, probe_exit out))))"

section \<open>The verdict\<close>

lemma capability_string_inj: "capability_string a = capability_string b \<longleftrightarrow> a = b"
  by (cases a; cases b) (simp_all add: capability_string_def)

lemma support_string_inj: "support_string a = support_string b \<longleftrightarrow> a = b"
  by (cases a; cases b) (simp_all add: support_string_def)

definition required_capability :: "Capability \<Rightarrow> bool" where
  "required_capability c \<longleftrightarrow> (\<exists>n \<in> set needs. nd_capability n = c \<and> nd_required n)"

lemma needOf_capability:
  "\<exists>n. needOf (capability_string c) = Some n \<and> nd_capability n = c \<and> (nd_required n \<longleftrightarrow> required_capability c)"
  by (cases c) (simp_all add: needOf_def needs_def required_capability_def capability_string_inj)

text \<open>The loop, over capabilities given as such.\<close>

lemma verdict_loop_capabilities:
  "verdict_loop (map (\<lambda>c. \<lparr>pcap_Name = capability_string c, pcap_Support = support_string (f c)\<rparr>) cs) (m, u) =
     (m @ map capability_string (filter (\<lambda>c. required_capability c \<and> f c = SupportNo) cs),
      u @ map capability_string (filter (\<lambda>c. required_capability c \<and> f c = SupportUnknown) cs))"
proof (induction cs arbitrary: m u)
  case (Cons c cs)
  obtain n where "needOf (capability_string c) = Some n" "nd_required n \<longleftrightarrow> required_capability c"
    using needOf_capability by blast
  with Cons show ?case by (cases "f c") (simp_all add: support_string_inj)
qed simp

lemma evaluateProbe_BuildProbe:
  "po_Missing (evaluateProbe cfg (BuildProbe report snap i))
     = map capability_string (filter (\<lambda>c. required_capability c \<and> report_Support report c = SupportNo) AllCapabilities)"
  "po_Unconfirmed (evaluateProbe cfg (BuildProbe report snap i))
     = map capability_string (filter (\<lambda>c. required_capability c \<and> report_Support report c = SupportUnknown) AllCapabilities)"
  by (simp_all add: evaluateProbe_def BuildProbe_def Let_def verdict_loop_capabilities)

lemma probe_exit_code: "ExitCode (probe_exit out) = (if po_OK out then ExitOK else ExitMissingCapability)"
  by (simp add: probe_exit_def ExitCode_def)

end
