(* ===== verification/Interface_Properties.thy ===== *)
theory Interface_Properties
  imports Config_Properties Service_Properties Run Cli_Probe
begin

text \<open>
  What the program shows to the outside: the operator's commands over the control socket, the status
  and the probe they print, the URL the station is given, and the OCPI endpoints.
\<close>

declare map_of_eq_Some_iff [simp del] Some_eq_map_of_iff [simp del]

section \<open>Commands over the control socket\<close>

text \<open>A daemon in a given state at the other end of the socket.\<close>

definition daemon :: "sock_env \<Rightarrow> Control \<Rightarrow> json \<Rightarrow> duration \<Rightarrow> transport" where
  "daemon env c line timeout = Reply (Some (fst (snd (sock_handle env (Some line) c))))"

text \<open>What \<open>control\<close> does for a command that answers nothing but success.\<close>

definition command_result :: "sock_env \<Rightarrow> sock_op \<Rightarrow> string \<Rightarrow> string \<Rightarrow> Service \<Rightarrow> Service \<times> control_error option" where
  "command_result env op uid tag s =
     (if op = OpCancel_s then Cancel (sk_write env) (sk_now env) (sk_cfg env) (sk_cmd env) (sk_others env) uid s
      else if op = OpStart_s then Start (sk_write env) (sk_cfg env) (sk_cmd env) uid tag s
      else if op = OpStop_s then (s, Stop (sk_cfg env) (sk_cmd env) uid s)
      else (s, Unlock (sk_cfg env) (sk_cmd env) uid))"

text \<open>The meaning of the exit codes, by the error of \<open>control\<close>.\<close>

definition control_exit :: "control_error \<Rightarrow> int" where
  "control_exit e = (case e of
       RefusedError op uid status raw \<Rightarrow>
         (case status of CommandOccupied \<Rightarrow> 5 | CommandFaulted \<Rightarrow> 6 | CommandUnavailable \<Rightarrow> 6 | CommandUnlockFailed \<Rightarrow> 8
            | CommandNotSupported \<Rightarrow> 8 | CommandNotImplemented \<Rightarrow> 8 | _ \<Rightarrow> 4)
     | StationError ErrTimeout \<Rightarrow> 7
     | StationError ErrNotConnected \<Rightarrow> 3
     | StationError (ErrRPC x) \<Rightarrow> if re_Code x = ErrNotImplemented \<or> re_Code x = ErrNotSupported then 8 else 1
     | CoreError (ErrAlreadyReserved uid) \<Rightarrow> 9
     | ErrShuttingDown \<Rightarrow> 9 | ErrNoReservation uid \<Rightarrow> 9 | ErrNoActiveTransaction uid \<Rightarrow> 9
     | _ \<Rightarrow> 1)"

lemma exitFor_classify: "ExitCode (Some (exitFor text op uid (SocketError (classify say e)))) = control_exit e"
  by (auto simp: ExitCode_def exitFor_def classify_def control_exit_def refused_code_def exit_defs Let_def
      split: control_error.splits ocpp_error.splits core_error.splits CommandStatus.splits)

lemma dispatch_command:
  assumes "op \<in> {OpCancel_s, OpStart_s, OpStop_s, OpUnlock_s}"
  shows "sock_dispatch env \<lparr>sq_V = socket_Version, sq_Op = op, sq_EVSE = uid, sq_IDTag = tag, sq_ExpiresIn = x\<rparr> c
     = after_core env c (command_result env op uid tag (ctl_core c))"
  using assms by (auto simp: sock_dispatch_def command_result_def sock_op_defs)

lemma simple_exit:
  assumes "op \<in> {OpCancel_s, OpStart_s, OpStop_s, OpUnlock_s}" and "CheckPath (env_socketPath e)"
    and "command_result env op (env_evse e) tag (ctl_core c) = (s', err)"
  shows "ExitCode (simpleCommand text (daemon env c) (Inr e) op tag) = (case err of None \<Rightarrow> 0 | Some x \<Rightarrow> control_exit x)
    \<and> fst (sock_handle env (Some (call_line \<lparr>sq_V = 0, sq_Op = op, sq_EVSE = env_evse e, sq_IDTag = tag, sq_ExpiresIn = []\<rparr>)) c)
        = c\<lparr>ctl_core := s'\<rparr>"
proof -
  let ?req = "\<lparr>sq_V = 0, sq_Op = op, sq_EVSE = env_evse e, sq_IDTag = tag, sq_ExpiresIn = []\<rparr>"
  obtain c' line orphan where h: "sock_handle env (Some (call_line ?req)) c = (c', line, orphan)"
    by (metis prod.exhaust)
  have d: "sock_dispatch env (?req\<lparr>sq_V := socket_Version\<rparr>) c = after_core env c (s', err)"
    using dispatch_command [OF assms(1)] assms(3) by simp
  note r = call_dispatches [OF assms(2) h, unfolded d]
  have v: "client_view (so_response (after_core env c (s', err)))
      = (case err of None \<Rightarrow> Inr None | Some x \<Rightarrow> Inl (SocketError (classify (sk_text env) x)))"
    by (simp add: after_core_def answer_only_def done_resp_def client_view_def fail_def split: option.split)
  have "ExitCode (simpleCommand text (daemon env c) (Inr e) op tag) = (case err of None \<Rightarrow> 0 | Some x \<Rightarrow> control_exit x)"
    using r(1) v exitFor_classify by (simp add: simpleCommand_def env_call_def daemon_def h ExitCode_def [of None] ExitOK_def split: option.split)
  with r(2) h show ?thesis by (simp add: after_core_def answer_only_def)
qed

text \<open>The exit code of a command that has a result to print, and what \<open>control\<close> is asked for by \<open>cpms reserve\<close>.\<close>

definition exit_of :: "cli_error + 'a \<Rightarrow> int" where
  "exit_of r = ExitCode (case r of Inl e \<Rightarrow> Some e | Inr x \<Rightarrow> None)"

definition reserve_asked :: "sock_env \<Rightarrow> string \<Rightarrow> string \<Rightarrow> duration \<Rightarrow> Control \<Rightarrow> reserve_outcome" where
  "reserve_asked env uid tag expires c = Reserve (sk_reserve env) (sk_cfg env) (sk_cmd env) (sk_others env)
     \<lparr>rp_EVSEUID = uid, rp_IDTag = tag, rp_ExpiresAt = zero_time, rp_ExpiresIn = (if 0 < expires then expires else 0),
      rp_Source = ''cli'', rp_OCPIReservationID = [], rp_ResponseURL = []\<rparr> c"

lemma expiry_sent:
  assumes "int64_range expires"
  shows "expires_in (if 0 < expires then duration_string expires else []) = Some (if 0 < expires then expires else 0)"
  using assms parse_duration_string [of expires] duration_string_nonempty by (simp add: expires_in_def int64_range_def max_int64_def)

lemma dec_ReserveResult_range: "\<not> int64_range (rr_ReservationID r) \<Longrightarrow> dec_ReserveResult (enc_ReserveResult r) = None"
  by (simp add: dec_ReserveResult_def enc_ReserveResult_def sock_key_simps in_range64_def)

lemma reserve_exit:
  fixes expires :: duration
  defines "req \<equiv> \<lambda>e tag. \<lparr>sq_V = 0, sq_Op = OpReserve_s, sq_EVSE = env_evse e, sq_IDTag = tag,
      sq_ExpiresIn = (if 0 < expires then duration_string expires else [])\<rparr>"
  assumes "CheckPath (env_socketPath e)" and "int64_range expires"
  shows "exit_of (reserveCommand text (daemon env c) jsonErr (Inr e) tag expires) =
      (case ro_result (reserve_asked env (env_evse e) tag expires c) of Inl x \<Rightarrow> control_exit x
       | Inr r \<Rightarrow> if int64_range (r_ID r) \<and> four_digit_year (UTC (r_ExpiresAt r)) then 0 else 1)"
    and "fst (sock_handle env (Some (call_line (req e tag))) c) = ro_control (reserve_asked env (env_evse e) tag expires c)"
proof -
  let ?out = "reserve_asked env (env_evse e) tag expires c"
  let ?res = "\<lambda>r. \<lparr>rr_ReservationID = r_ID r, rr_EVSE = r_EVSEUID r, rr_IDTag = r_IDTag r, rr_ExpiresAt = UTC (r_ExpiresAt r)\<rparr>"
  obtain c' line orphan where h: "sock_handle env (Some (call_line (req e tag))) c = (c', line, orphan)" by (metis prod.exhaust)
  have d: "sock_dispatch env ((req e tag)\<lparr>sq_V := socket_Version\<rparr>) c = dispatch_reserve env ((req e tag)\<lparr>sq_V := socket_Version\<rparr>) c"
    by (simp add: sock_dispatch_def req_def sock_op_defs)
  have o: "so_control (dispatch_reserve env ((req e tag)\<lparr>sq_V := socket_Version\<rparr>) c) = ro_control ?out"
    "so_response (dispatch_reserve env ((req e tag)\<lparr>sq_V := socket_Version\<rparr>) c) = (case ro_result ?out of
        Inl x \<Rightarrow> fail (classify (sk_text env) x) | Inr r \<Rightarrow> ok (marshal_ReserveResult (sk_jsonErr env) (?res r)))"
    by (simp_all add: dispatch_reserve_def req_def expiry_sent [OF assms(3)] reserve_asked_def Let_def)
  note r = call_dispatches [OF assms(2) h, unfolded d]
  show "fst (sock_handle env (Some (call_line (req e tag))) c) = ro_control ?out" using r(2) h o(1) by simp
  have utc: "UTC (UTC t) = UTC t" for t by (cases t) (simp add: UTC_def)
  have run: "reserveCommand text (daemon env c) jsonErr (Inr e) tag expires =
      (case client_view (so_response (dispatch_reserve env ((req e tag)\<lparr>sq_V := socket_Version\<rparr>) c)) of
         Inl x \<Rightarrow> Inl (exitFor text OpReserve_s (env_evse e) x)
       | Inr j \<Rightarrow> (case Option.bind j dec_ReserveResult of None \<Rightarrow> Inl (OtherCliError jsonErr) | Some res \<Rightarrow> Inr res))"
    using r(1) h by (simp add: reserveCommand_def env_call_def daemon_def req_def split: sum.split)
  show "exit_of (reserveCommand text (daemon env c) jsonErr (Inr e) tag expires) =
      (case ro_result ?out of Inl x \<Rightarrow> control_exit x
       | Inr r \<Rightarrow> if int64_range (r_ID r) \<and> four_digit_year (UTC (r_ExpiresAt r)) then 0 else 1)"
  proof (cases "ro_result ?out")
    case (Inl x)
    then show ?thesis by (simp add: run o client_view_def fail_def exit_of_def exitFor_classify)
  next
    case (Inr x)
    have y: "utc_year (UTC (r_ExpiresAt x)) \<longleftrightarrow> four_digit_year (UTC (r_ExpiresAt x))" by (simp add: utc_year_def utc)
    show ?thesis
    proof (cases "four_digit_year (UTC (r_ExpiresAt x))")
      case True
      with Inr y show ?thesis using dec_enc_ReserveResult [of "?res x"] dec_ReserveResult_range [of "?res x"]
        by (cases "int64_range (r_ID x)")
          (simp_all add: run o client_view_def ok_def marshal_ReserveResult_def exit_of_def ExitCode_def ExitOK_def ExitError_def)
    next
      case False
      with Inr show ?thesis
        by (simp add: run o client_view_def ok_def fail_def mk_error_def marshal_ReserveResult_def exit_of_def exitFor_def Let_def
            ExitCode_def ExitError_def)
    qed
  qed
qed

lemma unreachable_exit:
  assumes "CheckPath (env_socketPath e)"
  shows "ExitCode (simpleCommand text (\<lambda>line d. DialFails x) (Inr e) op tag) = 2"
    and "exit_of (reserveCommand text (\<lambda>line d. DialFails x) jsonErr (Inr e) tag expires) = 2"
    and "exit_of (statusCommand text (\<lambda>line d. DialFails x) jsonErr (Inr e)) = 2"
    and "ExitCode (snd (probeCommand text (\<lambda>line d. DialFails x) again localTime jsonErr (Inr e))) = 2"
  using assms
  by (simp_all add: simpleCommand_def reserveCommand_def statusCommand_def probeCommand_def env_call_def sock_Call_def exitFor_def exit_of_def
      ExitCode_def ExitNotRunning_def ExitNotConnected_def)

text \<open>
  C11. A one-shot command ends with the exit code of what happened to it: sent by the client over a socket path of
  at most 103 bytes, dispatched by the daemon, classified, encoded, decoded and interpreted, the outcome of \<open>control\<close> for cancel, start, stop, unlock
  and reserve determines the exit code by the documented table, 0 exactly on success, and the daemon is left in the state
  \<open>control\<close> left it in; the expiry asked of reserve, any 64-bit duration, is the one \<open>control\<close> gets, and a reservation made
  whose expiry lies beyond the year 9999, which JSON cannot carry (or whose id is no 64-bit int, which no Go id is), ends in 1. With the daemon not reachable every command, status and probe
  included, ends in 2.
\<close>

theorem command_exit:
  assumes "CheckPath (env_socketPath e)" and "int64_range expires"
  shows "(\<forall>op s' err. op \<in> {OpCancel_s, OpStart_s, OpStop_s, OpUnlock_s} \<and> command_result env op (env_evse e) tag (ctl_core c) = (s', err) \<longrightarrow>
        ExitCode (simpleCommand say (daemon env c) (Inr e) op tag) = (case err of None \<Rightarrow> 0 | Some x \<Rightarrow> control_exit x)
      \<and> fst (sock_handle env (Some (call_line \<lparr>sq_V = 0, sq_Op = op, sq_EVSE = env_evse e, sq_IDTag = tag, sq_ExpiresIn = []\<rparr>)) c)
          = c\<lparr>ctl_core := s'\<rparr>)
    \<and> exit_of (reserveCommand say (daemon env c) jsonErr (Inr e) tag expires) =
        (case ro_result (reserve_asked env (env_evse e) tag expires c) of Inl x \<Rightarrow> control_exit x
         | Inr r \<Rightarrow> if int64_range (r_ID r) \<and> four_digit_year (UTC (r_ExpiresAt r)) then 0 else 1)
    \<and> fst (sock_handle env (Some (call_line \<lparr>sq_V = 0, sq_Op = OpReserve_s, sq_EVSE = env_evse e, sq_IDTag = tag,
          sq_ExpiresIn = (if 0 < expires then duration_string expires else [])\<rparr>)) c) = ro_control (reserve_asked env (env_evse e) tag expires c)
    \<and> (\<forall>x op. ExitCode (simpleCommand say (\<lambda>line d. DialFails x) (Inr e) op tag) = 2
        \<and> exit_of (reserveCommand say (\<lambda>line d. DialFails x) jsonErr (Inr e) tag expires) = 2
        \<and> exit_of (statusCommand say (\<lambda>line d. DialFails x) jsonErr (Inr e)) = 2
        \<and> ExitCode (snd (probeCommand say (\<lambda>line d. DialFails x) again localTime jsonErr (Inr e))) = 2)"
  by (intro conjI allI impI simple_exit [OF _ assms(1), THEN conjunct1] simple_exit [OF _ assms(1), THEN conjunct2] reserve_exit assms
      unreachable_exit; elim conjE; assumption)

definition example_sock_env :: "ocpp_error + Result \<Rightarrow> sock_env" where
  "example_sock_env a = \<lparr>sk_cfg = example_cfg, sk_cmd = (\<lambda>_. Inr (example_station a)), sk_reserve = example_reserve_env,
     sk_others = (\<lambda>s. s), sk_now = example_now, sk_write = example_env, sk_chargePointID = ''CP1'', sk_text = (\<lambda>_. ''failed''),
     sk_jsonErr = []\<rparr>"

definition example_station_env :: stationEnv where
  "example_station_env = \<lparr>env_cfg = example_cfg, env_evse = ''E1'', env_socketPath = ''/run/cpms.sock''\<rparr>"

theorem command_exit_witness:
  "ExitCode (simpleCommand (\<lambda>_. []) (daemon (example_sock_env (Inl ErrTimeout)) example_control) (Inr example_station_env) OpUnlock_s []) = 7
   \<and> ExitCode (simpleCommand (\<lambda>_. []) (daemon (example_sock_env (Inr \<lparr>res_Status = CommandUnlocked, res_Raw = ''Unlocked''\<rparr>)) example_control)
       (Inr example_station_env) OpUnlock_s []) = 0"
proof -
  have u: "CheckPath (env_socketPath example_station_env)" "int64_range 0"
    by (simp_all add: example_station_env_def CheckPath_def MaxPathLen_def int64_range_def)
  have e: "env_evse example_station_env = ''E1''" by (simp add: example_station_env_def)
  have k: "checkEVSE example_cfg ''E1'' = None" by (simp add: checkEVSE_def EVSEByUID_def example_cfg_def example_EVSE_def)
  have r0: "command_result (example_sock_env (Inl ErrTimeout)) OpUnlock_s ''E1'' [] (ctl_core example_control)
      = (ctl_core example_control, Some (StationError ErrTimeout))"
    "command_result (example_sock_env (Inr \<lparr>res_Status = CommandUnlocked, res_Raw = ''Unlocked''\<rparr>)) OpUnlock_s ''E1'' [] (ctl_core example_control)
      = (ctl_core example_control, None)"
    using k by (simp_all add: command_result_def sock_op_defs example_sock_env_def Unlock_def chargePoint_def example_station_def)
  note r = r0 [folded e]
  note x = command_exit [OF u, where tag = "[]" and c = example_control and say = "\<lambda>_. []", THEN conjunct1, rule_format]
  show ?thesis using x [OF conjI [OF _ r(1)]] x [OF conjI [OF _ r(2)]] by (simp add: control_exit_def)
qed

section \<open>The status\<close>



definition example_cp :: chargePointState where
  "example_cp = addEVSE ''E2'' 2 (addEVSE ''E1'' 1 (newChargePoint ''CP1''))"


lemma example_cp_fields [simp]:
  "cp_order example_cp = [''E1'', ''E2'']" "cp_id example_cp = ''CP1''" "cp_lastSeen example_cp = zero_time"
  "cp_transactions example_cp = []" "cp_lastDisconnect example_cp = \<lparr>dc_At = zero_time, dc_Reason = []\<rparr>"
  by (simp_all add: example_cp_def newChargePoint_def addEVSE_def)



section \<open>The probe\<close>

lemma required_capabilities: "required_capability c \<longleftrightarrow> c \<noteq> CapTriggerStatus"
  by (cases c) (simp_all add: required_capability_def needs_def)

definition connectors_match :: "Config \<Rightarrow> ProbeReport \<Rightarrow> bool" where
  "connectors_match cfg report \<longleftrightarrow> pb_Connectors report = Some (int (length (cfg_EVSEs cfg)))
     \<and> (\<forall>e \<in> set (cfg_EVSEs cfg). e_OCPPConnectorID e \<le> int (length (cfg_EVSEs cfg)))"

lemma filter_enumerate_Nil: "filter (\<lambda>p. P (snd p)) (enumerate n es) = [] \<longleftrightarrow> (\<forall>e \<in> set es. \<not> P e)"
  by (induction es arbitrary: n) auto

lemma connector_checks_quiet:
  "filter (\<lambda>c. ck_mark c \<noteq> markOK) (connector_checks cfg (BuildProbe report snap i)) = [] \<longleftrightarrow> connectors_match cfg report"
  by (auto simp: connector_checks_def connectors_match_def BuildProbe_def Let_def mk_check_def filter_map comp_def case_prod_unfold not_less
      filter_enumerate_Nil [where P = "\<lambda>e. _ < e_OCPPConnectorID e"] split: option.split)

lemma heartbeat_check_quiet:
  "ck_mark (heartbeat_check cfg (BuildProbe report snap i)) = markOK \<longleftrightarrow>
     (\<exists>d. pb_HeartbeatInterval report = Some d
        \<and> wrap64 (int_seconds d * Second) = dur_dur (ch_HeartbeatInterval (cfg_Charger cfg))
        \<and> wrap64 (int_seconds d * Second) < dur_dur (ch_HeartbeatTimeout (cfg_Charger cfg)))"
  by (auto simp: heartbeat_check_def BuildProbe_def Let_def mk_check_def split: option.split)

lemma evaluated_report:
  fixes cfg report snap i
  defines "out \<equiv> evaluateProbe cfg (BuildProbe report snap i)"
  shows "ExitCode (probe_exit out)
      = (if \<exists>c \<in> {CapRemoteStartStop, CapUnlock, CapReservation}. report_Support report c = SupportNo then 10 else 0)"
    and "po_Warnings out = [] \<longleftrightarrow> connectors_match cfg report
        \<and> (\<exists>d. pb_HeartbeatInterval report = Some d
             \<and> wrap64 (int_seconds d * Second) = dur_dur (ch_HeartbeatInterval (cfg_Charger cfg))
             \<and> wrap64 (int_seconds d * Second) < dur_dur (ch_HeartbeatTimeout (cfg_Charger cfg)))"
proof -
  have "po_OK out \<longleftrightarrow> po_Missing out = []" by (simp add: out_def evaluateProbe_def Let_def case_prod_unfold)
  also have "\<dots> \<longleftrightarrow> \<not> (\<exists>c \<in> {CapRemoteStartStop, CapUnlock, CapReservation}. report_Support report c = SupportNo)"
    by (simp add: out_def evaluateProbe_BuildProbe required_capabilities AllCapabilities_def)
  finally show "ExitCode (probe_exit out)
      = (if \<exists>c \<in> {CapRemoteStartStop, CapUnlock, CapReservation}. report_Support report c = SupportNo then 10 else 0)"
    by (simp add: probe_exit_code exit_defs)
  have "po_Warnings out = [] \<longleftrightarrow> filter (\<lambda>c. ck_mark c \<noteq> markOK) (connector_checks cfg (BuildProbe report snap i)) = []
      \<and> ck_mark (heartbeat_check cfg (BuildProbe report snap i)) = markOK"
    by (simp add: out_def evaluateProbe_def configChecks_def Let_def case_prod_unfold)
  then show "po_Warnings out = [] \<longleftrightarrow> connectors_match cfg report
        \<and> (\<exists>d. pb_HeartbeatInterval report = Some d
             \<and> wrap64 (int_seconds d * Second) = dur_dur (ch_HeartbeatInterval (cfg_Charger cfg))
             \<and> wrap64 (int_seconds d * Second) < dur_dur (ch_HeartbeatTimeout (cfg_Charger cfg)))"
    unfolding connector_checks_quiet heartbeat_check_quiet .
qed

lemma probe_command_reply:
  assumes "CheckPath (env_socketPath e)"
  shows "env_call say (daemon env c) e \<lparr>sq_V = 0, sq_Op = OpProbe_s, sq_EVSE = [], sq_IDTag = [], sq_ExpiresIn = []\<rparr> =
    (case ctl_Probe (sk_cfg env) (sk_cmd env) of
       Inl err \<Rightarrow> Inl (exitFor say OpProbe_s [] (SocketError (classify (sk_text env) err)))
     | Inr report \<Rightarrow> Inr (Some (enc_ProbeResult (BuildProbe report (svc_Snapshot (ctl_core c)) (sk_chargePointID env)))))"
proof -
  let ?req = "\<lparr>sq_V = 0, sq_Op = OpProbe_s, sq_EVSE = [], sq_IDTag = [], sq_ExpiresIn = []\<rparr>"
  obtain c' line orphan where h: "sock_handle env (Some (call_line ?req)) c = (c', line, orphan)" by (metis prod.exhaust)
  have "client_view (so_response (sock_dispatch env (?req\<lparr>sq_V := socket_Version\<rparr>) c)) = (case ctl_Probe (sk_cfg env) (sk_cmd env) of
       Inl err \<Rightarrow> Inl (SocketError (classify (sk_text env) err))
     | Inr report \<Rightarrow> Inr (Some (enc_ProbeResult (BuildProbe report (svc_Snapshot (ctl_core c)) (sk_chargePointID env)))))"
    by (simp add: sock_dispatch_def sock_op_defs answer_only_def ok_def fail_def client_view_def split: sum.split)
  with call_dispatches(1) [OF assms h] show ?thesis
    by (simp add: env_call_def daemon_def h split: sum.split)
qed

text \<open>
  C27. \<open>cpms probe\<close> against a daemon: if the station could not be probed, the exit code is that of the error, as for the
  other commands. Otherwise the report reaches the command through the socket, and the exit code is 10 exactly if the
  report rules out a capability cpms requires (remote start and stop, unlocking, reservations), and 0 if not, unconfirmed
  capabilities included; and it warns of nothing exactly if the station reports as many connectors as there are EVSEs, no EVSE maps
  beyond them, and the heartbeat interval it reports is the configured one, below the timeout.
\<close>

theorem probe_verdict:
  assumes "CheckPath (env_socketPath e)"
    and "\<And>report. ctl_Probe (sk_cfg env) (sk_cmd env) = Inr report \<Longrightarrow> pred_option int64_range (pb_Connectors report)
      \<and> pred_option int64_range (map_option int_seconds (pb_HeartbeatInterval report))"
  shows "case ctl_Probe (sk_cfg env) (sk_cmd env) of
      Inl err \<Rightarrow> fst (probeCommand say (daemon env c) again localTime jsonErr (Inr e)) = None
        \<and> ExitCode (snd (probeCommand say (daemon env c) again localTime jsonErr (Inr e))) = control_exit err
    | Inr report \<Rightarrow> \<exists>out. fst (probeCommand say (daemon env c) again localTime jsonErr (Inr e)) = Some out
        \<and> ExitCode (snd (probeCommand say (daemon env c) again localTime jsonErr (Inr e)))
            = (if \<exists>cap \<in> {CapRemoteStartStop, CapUnlock, CapReservation}. report_Support report cap = SupportNo then 10 else 0)
        \<and> (po_Warnings out = [] \<longleftrightarrow> connectors_match (env_cfg e) report
             \<and> (\<exists>d. pb_HeartbeatInterval report = Some d
                  \<and> wrap64 (int_seconds d * Second) = dur_dur (ch_HeartbeatInterval (cfg_Charger (env_cfg e)))
                  \<and> wrap64 (int_seconds d * Second) < dur_dur (ch_HeartbeatTimeout (cfg_Charger (env_cfg e)))))"
proof (cases "ctl_Probe (sk_cfg env) (sk_cmd env)")
  case (Inl err)
  note x = exitFor_classify [of say OpProbe_s "[]" "sk_text env" err]
  have "ExitCode (Some (notConnected say again localTime e)) = ExitNotConnected"
    by (simp add: notConnected_def ExitCode_def Let_def)
  with x Inl probe_command_reply [OF assms(1), of say env c] show ?thesis by (simp add: probeCommand_def)
next
  case (Inr report)
  let ?r = "BuildProbe report (svc_Snapshot (ctl_core c)) (sk_chargePointID env)"
  have "pr_Connectors ?r = pb_Connectors report"
    "pr_HeartbeatIntervalSeconds ?r = map_option int_seconds (pb_HeartbeatInterval report)"
    by (simp_all add: BuildProbe_def Let_def)
  then have "dec_ProbeResult (enc_ProbeResult ?r) = Some ?r" using assms(2) [OF Inr] by (intro dec_enc_ProbeResult) simp_all
  with Inr probe_command_reply [OF assms(1), of say env c]
  have "probeCommand say (daemon env c) again localTime jsonErr (Inr e)
      = (Some (evaluateProbe (env_cfg e) ?r), probe_exit (evaluateProbe (env_cfg e) ?r))"
    by (simp add: probeCommand_def Let_def)
  with Inr evaluated_report [of "env_cfg e" report] show ?thesis by simp
qed

definition example_report :: ProbeReport where
  "example_report = \<lparr>pb_Version = Version16,
     pb_Features = [\<lparr>ft_Name = ''Core'', ft_Support = SupportYes, ft_Grants = [CapRemoteStartStop, CapUnlock], ft_Assumed = False\<rparr>,
                    \<lparr>ft_Name = ''Reservation'', ft_Support = SupportNo, ft_Grants = [CapReservation], ft_Assumed = False\<rparr>],
     pb_Settings = [], pb_Connectors = Some 2, pb_HeartbeatInterval = Some (60 * Second), pb_Raw = []\<rparr>"

definition example_probed :: "ocpp_error + ProbeReport \<Rightarrow> sock_env" where
  "example_probed r = (example_sock_env (Inl ErrTimeout))\<lparr>sk_cmd := \<lambda>_. Inr ((example_station (Inl ErrTimeout))\<lparr>sta_Probe := r\<rparr>)\<rparr>"

theorem probe_verdict_witness:
  "ExitCode (snd (probeCommand (\<lambda>_. []) (daemon (example_probed (Inr example_report)) example_control) (\<lambda>l d. Reply None) (\<lambda>_. []) []
       (Inr example_station_env))) = 10
   \<and> ExitCode (snd (probeCommand (\<lambda>_. []) (daemon (example_probed (Inl ErrNotConnected)) example_control) (\<lambda>l d. Reply None) (\<lambda>_. []) []
       (Inr example_station_env))) = 3"
proof -
  have p: "CheckPath (env_socketPath example_station_env)" by (simp add: example_station_env_def CheckPath_def MaxPathLen_def)
  have c: "ctl_Probe (sk_cfg (example_probed r)) (sk_cmd (example_probed r)) = (case r of Inl e \<Rightarrow> Inl (StationError e) | Inr x \<Rightarrow> Inr x)" for r
    by (simp add: ctl_Probe_def chargePoint_def example_probed_def split: sum.split)
  have "pred_option int64_range (pb_Connectors example_report)"
    "pred_option int64_range (map_option int_seconds (pb_HeartbeatInterval example_report))"
    "report_Support example_report CapReservation = SupportNo"
    by (simp_all add: example_report_def int64_range_def int_seconds_def Second_def report_Support_def)
  then show ?thesis
    using probe_verdict [OF p, of "example_probed (Inr example_report)" "\<lambda>_. []" example_control "\<lambda>l d. Reply None" "\<lambda>_. []" "[]"]
      probe_verdict [OF p, of "example_probed (Inl ErrNotConnected)" "\<lambda>_. []" example_control "\<lambda>l d. Reply None" "\<lambda>_. []" "[]"]
    by (auto simp: c control_exit_def)
qed

section \<open>The station's URL\<close>

lemma run_handshake_upgrades: "run_handshake cfg p protos = Upgrade i v sub \<Longrightarrow> i = ch_ID (cfg_Charger cfg) \<and> v = Version16"
  by (auto simp: run_handshake_def ServeHTTP_def run_accept_def Let_def dest: negotiate_Some(1) split: if_splits option.splits)

text \<open>
  C32. The URL the operator is told leads to the station: under a configuration that loads, the path of \<open>csmsURL\<close> is
  /ocpp/ and the configured id, and the daemon's handshake on that path upgrades the connection under exactly that id,
  provided the id is not a dot or two dots and the daemon runs, which it does only for OCPP 1.6; and no handshake on any path upgrades another id or version.
\<close>

theorem url_reaches_charger:
  assumes "parse_config parse_url y = Inr cfg" and "ch_ID (cfg_Charger cfg) \<notin> {''.'', ''..''}"
  shows "(\<exists>host. csmsURL cfg = ''ws://'' @ host @ ''/ocpp/'' @ ch_ID (cfg_Charger cfg))
    \<and> run_handshake cfg (''/ocpp/'' @ ch_ID (cfg_Charger cfg)) [Subprotocol Version16]
        = Upgrade (ch_ID (cfg_Charger cfg)) Version16 (Subprotocol Version16)
    \<and> (\<forall>p protos i v sub. run_handshake cfg p protos = Upgrade i v sub \<longrightarrow> i = ch_ID (cfg_Charger cfg) \<and> v = Version16)"
proof -
  have "valid_config parse_url cfg" using assms(1) by (auto simp: parse_config_Inr valid_resolve_Config)
  with run_handshake_accepts [of parse_url cfg] assms(2) csmsURL_path [of cfg] run_handshake_upgrades [of cfg]
  show ?thesis by blast
qed

theorem url_reaches_charger_witness:
  "run_handshake good_loaded ''/ocpp/CP1'' [Subprotocol Version16] = Upgrade ''CP1'' Version16 (Subprotocol Version16)"
  using url_reaches_charger [OF good_loads] by (simp add: good_loaded_parts)

text \<open>The ids the condition excludes pass validation, and a station that uses its URL as it stands is turned away.\<close>

lemma chargePointID_dots: "chargePointID (''/ocpp/'' @ ''..'') = []" "chargePointID (''/ocpp/'' @ ''.'') = ''ocpp''"
  by code_simp+

lemma dotted_id_unreachable:
  "MatchString chargePointIDRe ''..'' \<and> run_handshake cfg (''/ocpp/'' @ ''..'') protos = MissingID
   \<and> MatchString chargePointIDRe ''.''
   \<and> (ch_ID (cfg_Charger cfg) = ''.'' \<longrightarrow> run_handshake cfg (''/ocpp/'' @ ''.'') protos = UnknownChargePoint ''ocpp'')"
proof -
  have "MatchString chargePointIDRe ''..''" "MatchString chargePointIDRe ''.''" by code_simp+
  then show ?thesis unfolding run_handshake_def ServeHTTP_def chargePointID_dots run_accept_def by simp
qed

section \<open>OCPI\<close>

text \<open>
  C26. The OCPI endpoints the daemon starts from its configuration serve whoever holds TOKEN_A and nobody else: a request is served, by the route it
  matches, exactly if the token in its header has the digest of TOKEN_A; a request that matches a route and is not served
  is answered 401; and the header a counterparty sends, the scheme and the base64 form of its token, carries that token.
\<close>

theorem ocpi_guarded:
  assumes "startOCPI sha conflicts parse_url url_string now listens cfg = Some s"
  shows "snd (ocpi_ServeHTTP env s r) =
       (if \<exists>token. tokenFromRequest r = Some token \<and> sha token = sha (oc_TokenA (cfg_OCPI cfg)) then route_of env s r else None)
    \<and> (route_of env s r \<noteq> None \<and> snd (ocpi_ServeHTTP env s r) = None \<longrightarrow> ha_status (fst (ocpi_ServeHTTP env s r)) = 401)
    \<and> (\<forall>t. t \<noteq> [] \<and> hq_header r ''Authorization'' = ''Token '' @ b64_encode t \<longrightarrow> tokenFromRequest r = Some t)"
proof (intro conjI)
  have "m \<in> set (os_mux s) \<Longrightarrow> mt_need m = AccessRegistration" for m using startOCPI_need [OF assms(1)] by blast
  then show "snd (ocpi_ServeHTTP env s r) =
       (if \<exists>token. tokenFromRequest r = Some token \<and> sha token = sha (oc_TokenA (cfg_OCPI cfg)) then route_of env s r else None)"
    by (auto simp: ocpi_ServeHTTP_served startOCPI_auth [OF assms] static_need dest!: route_of_mounted split: option.split)
  show "route_of env s r \<noteq> None \<and> snd (ocpi_ServeHTTP env s r) = None \<longrightarrow> ha_status (fst (ocpi_ServeHTTP env s r)) = 401"
    using ocpi_ServeHTTP_refused by blast
  show "\<forall>t. t \<noteq> [] \<and> hq_header r ''Authorization'' = ''Token '' @ b64_encode t \<longrightarrow> tokenFromRequest r = Some t"
    using token_of_encoded [of _ "''Token''"] by (simp add: tokenFromRequest_def)
qed

definition example_ocpi_env :: serve_env where
  "example_ocpi_env = \<lparr>sv_now = example_now,
     sv_match = (\<lambda>ps r. if ''GET /ocpi/versions'' \<in> set ps then Some ''GET /ocpi/versions'' else None),
     sv_miss = (\<lambda>ps r. \<lparr>mm_code = 404, mm_Allow = [], mm_Location = []\<rparr>), sv_uuid = (''a'', ''b'')\<rparr>"

definition example_get :: "string \<Rightarrow> http_request" where
  "example_get token = \<lparr>hq_method = ''GET'', hq_path = ''/ocpi/versions'', hq_header = (\<lambda>h. if h = ''Authorization'' then ''Token '' @ b64_encode token else []), hq_body = BodyInvalid\<rparr>"

definition example_started :: "ocpi_Server option" where
  "example_started = startOCPI (\<lambda>t. t) (=) good_url (\<lambda>u. u_Scheme u @ ''://'' @ u_Host u @ u_Path u) example_now True good_loaded"

lemma example_started_mux:
  "\<exists>s. example_started = Some s \<and> ''GET /ocpi/versions'' \<in> mt_pattern ` set (os_mux s)"
proof -
  have "path_Clean ''//ocpi'' = ''/ocpi''" "trim_slashes ''credentials'' = ''credentials''" "trim_slashes [] = []"
    "MatchString identifierRe ''credentials''" by code_simp+
  then show ?thesis
    by (simp add: example_started_def startOCPI_def ocpi_New_def splitBaseURL_def good_loaded_parts good_url_def Let_def one_of_def
        ocpi_handle_def mux_Handle_def Register_def module_validate_def CredentialsStub_def RoleSender_def RoleReceiver_def
        ocpi_Version_def ocpi_Start_def)
qed

theorem ocpi_guarded_witness:
  "\<exists>s. example_started = Some s
     \<and> map_option mt_pattern (snd (ocpi_ServeHTTP example_ocpi_env s (example_get ''secret-a''))) = Some ''GET /ocpi/versions''
     \<and> ha_status (fst (ocpi_ServeHTTP example_ocpi_env s (example_get ''secret-c''))) = 401"
proof -
  obtain s where s: "example_started = Some s" and m: "''GET /ocpi/versions'' \<in> mt_pattern ` set (os_mux s)"
    using example_started_mux by blast
  note g = ocpi_guarded [OF s [unfolded example_started_def]]
  have t: "tokenFromRequest (example_get ''secret-a'') = Some ''secret-a''" "tokenFromRequest (example_get ''secret-c'') = Some ''secret-c''"
    using g [of example_ocpi_env "example_get ''secret-a''"] g [of example_ocpi_env "example_get ''secret-c''"] by (simp_all add: example_get_def)
  have "List.find (\<lambda>x. mt_pattern x = ''GET /ocpi/versions'') (os_mux s) \<noteq> None"
    using m by (auto simp: find_None_iff)
  then obtain x where "List.find (\<lambda>x. mt_pattern x = ''GET /ocpi/versions'') (os_mux s) = Some x" "mt_pattern x = ''GET /ocpi/versions''"
    by (auto simp: find_Some_iff)
  then have x: "route_of example_ocpi_env s r = Some x" "mt_pattern x = ''GET /ocpi/versions''" for r
    using m by (auto simp: route_of_def example_ocpi_env_def)
  then have "snd (ocpi_ServeHTTP example_ocpi_env s (example_get ''secret-a'')) = Some x"
    using g [of example_ocpi_env "example_get ''secret-a''", THEN conjunct1] t(1) good_loaded_parts(3) by simp
  moreover have "snd (ocpi_ServeHTTP example_ocpi_env s (example_get ''secret-c'')) = None"
    using g [of example_ocpi_env "example_get ''secret-c''", THEN conjunct1] t(2) good_loaded_parts(3) by simp
  then have "ha_status (fst (ocpi_ServeHTTP example_ocpi_env s (example_get ''secret-c''))) = 401"
    using g [of example_ocpi_env "example_get ''secret-c''", THEN conjunct2, THEN conjunct1] x(1) by simp
  ultimately show ?thesis using s x(2) by (intro exI [of _ s]) simp
qed

end
