(* ===== verification/State_Lock.thy ===== *)
theory State_Lock
  imports Cpms_Prelude
begin

text \<open>
  The lock file beside the state file (\<open>internal/state/lock_unix.go\<close>). Processes are numbered; what the
  kernel knows is the inode the lock's path names, if any, and what each process has open and locked.
  Every system call is one atomic step, so that the steps of several processes may come in any
  order: \<open>LockPath\<close> opens (or creates) the file, locks the inode it got, and looks whether the path still
  names it; \<open>Release\<close> removes the path and closes the file, which drops the lock. A process may end at
  any moment, which drops its lock and leaves the path. Other failures of a call return to the caller with nothing held,
  like the end of a process.
\<close>

datatype lock_phase =
    Outside
  | Opened nat
  | Locked nat
  | Held nat
  | Removed nat
  | Refused

record lock_world =
  lw_entry :: "nat option"
  lw_procs :: "lock_phase list"

definition has_open :: "nat \<Rightarrow> lock_phase \<Rightarrow> bool" where
  "has_open i ph = (case ph of Opened j \<Rightarrow> j = i | Locked j \<Rightarrow> j = i | Held j \<Rightarrow> j = i | Removed j \<Rightarrow> j = i | _ \<Rightarrow> False)"

definition owns :: "nat \<Rightarrow> lock_phase \<Rightarrow> bool" where
  "owns i ph = (case ph of Locked j \<Rightarrow> j = i | Held j \<Rightarrow> j = i | Removed j \<Rightarrow> j = i | _ \<Rightarrow> False)"

definition put_phase :: "nat \<Rightarrow> lock_phase \<Rightarrow> lock_world \<Rightarrow> lock_world" where
  "put_phase p ph w = w\<lparr>lw_procs := (lw_procs w)[p := ph]\<rparr>"

section \<open>The system calls\<close>

text \<open>\<open>os.OpenFile\<close> with \<open>O_CREATE\<close>; a new file gets an inode nobody has open.\<close>

definition lock_open :: "nat \<Rightarrow> nat \<Rightarrow> lock_world \<Rightarrow> lock_world" where
  "lock_open fresh p w = (case lw_entry w of
       Some i \<Rightarrow> put_phase p (Opened i) w
     | None \<Rightarrow> put_phase p (Opened fresh) (w\<lparr>lw_entry := Some fresh\<rparr>))"

text \<open>\<open>syscall.Flock\<close> without waiting; refused, the file is closed and \<open>ErrLocked\<close> returned.\<close>

definition lock_flock :: "nat \<Rightarrow> nat \<Rightarrow> lock_world \<Rightarrow> lock_world" where
  "lock_flock i p w = put_phase p (if list_ex (owns i) (lw_procs w) then Refused else Locked i) w"

text \<open>The comparison of the two \<open>Stat\<close>s; a file the path no longer names is closed, and the loop goes round.\<close>

definition lock_check :: "nat \<Rightarrow> nat \<Rightarrow> lock_world \<Rightarrow> lock_world" where
  "lock_check i p w = put_phase p (if lw_entry w = Some i then Held i else Outside) w"

definition lock_remove :: "nat \<Rightarrow> nat \<Rightarrow> lock_world \<Rightarrow> lock_world" where
  "lock_remove i p w = (put_phase p (Removed i) w)\<lparr>lw_entry := None\<rparr>"

definition lock_close :: "nat \<Rightarrow> lock_world \<Rightarrow> lock_world" where
  "lock_close p w = put_phase p Outside w"

section \<open>Their interleaving\<close>

definition at_phase :: "lock_world \<Rightarrow> nat \<Rightarrow> lock_phase \<Rightarrow> bool" where
  "at_phase w p ph \<longleftrightarrow> p < length (lw_procs w) \<and> lw_procs w ! p = ph"

definition unused :: "lock_world \<Rightarrow> nat \<Rightarrow> bool" where
  "unused w i \<longleftrightarrow> \<not> list_ex (has_open i) (lw_procs w)"

inductive lock_step :: "lock_world \<Rightarrow> lock_world \<Rightarrow> bool" where
  step_open: "at_phase w p Outside \<Longrightarrow> unused w fresh \<Longrightarrow> lock_step w (lock_open fresh p w)"
| step_flock: "at_phase w p (Opened i) \<Longrightarrow> lock_step w (lock_flock i p w)"
| step_check: "at_phase w p (Locked i) \<Longrightarrow> lock_step w (lock_check i p w)"
| step_remove: "at_phase w p (Held i) \<Longrightarrow> lock_step w (lock_remove i p w)"
| step_close: "at_phase w p (Removed i) \<Longrightarrow> lock_step w (lock_close p w)"
| step_exit: "p < length (lw_procs w) \<Longrightarrow> lock_step w (lock_close p w)"

definition lock_initial :: "lock_world \<Rightarrow> bool" where
  "lock_initial w \<longleftrightarrow> list_all (\<lambda>ph. ph = Outside) (lw_procs w)"

text \<open>\<open>LockPath\<close> of one process when no other moves meanwhile: one round of its loop.\<close>

definition LockPath :: "nat \<Rightarrow> nat \<Rightarrow> lock_world \<Rightarrow> lock_world" where
  "LockPath fresh p w =
     (let w1 = lock_open fresh p w
      in case lw_procs w1 ! p of
           Opened i \<Rightarrow>
             (let w2 = lock_flock i p w1
              in case lw_procs w2 ! p of Locked j \<Rightarrow> lock_check j p w2 | _ \<Rightarrow> w2)
         | _ \<Rightarrow> w1)"

definition Release :: "nat \<Rightarrow> lock_world \<Rightarrow> lock_world" where
  "Release p w = (case lw_procs w ! p of Held i \<Rightarrow> lock_close p (lock_remove i p w) | _ \<Rightarrow> w)"

section \<open>Invariant\<close>

text \<open>
  An inode is locked by one process at most, and who holds the lock of the state file has the inode
  the path names.
\<close>

definition lock_inv :: "lock_world \<Rightarrow> bool" where
  [inv_defs]: "lock_inv w \<longleftrightarrow>
     (\<forall>p q i. p < length (lw_procs w) \<longrightarrow> q < length (lw_procs w) \<longrightarrow> owns i (lw_procs w ! p) \<longrightarrow> owns i (lw_procs w ! q) \<longrightarrow> p = q)
     \<and> (\<forall>p i. at_phase w p (Held i) \<longrightarrow> lw_entry w = Some i)"

lemma owns_simps [simp]:
  "\<not> owns i Outside" "\<not> owns i (Opened j)" "\<not> owns i Refused" "owns i (Locked j) \<longleftrightarrow> j = i" "owns i (Held j) \<longleftrightarrow> j = i"
  "owns i (Removed j) \<longleftrightarrow> j = i"
  by (simp_all add: owns_def)

lemma has_open_simps [simp]:
  "\<not> has_open i Outside" "has_open i (Opened j) \<longleftrightarrow> j = i" "\<not> has_open i Refused" "has_open i (Locked j) \<longleftrightarrow> j = i"
  "has_open i (Held j) \<longleftrightarrow> j = i" "has_open i (Removed j) \<longleftrightarrow> j = i"
  by (simp_all add: has_open_def)

lemma owns_has_open: "owns i ph \<Longrightarrow> has_open i ph"
  by (cases ph) simp_all

lemma put_phase_simps [simp]:
  "lw_entry (put_phase p ph w) = lw_entry w" "lw_procs (put_phase p ph w) = (lw_procs w)[p := ph]"
  by (simp_all add: put_phase_def)

lemma list_ex_nth: "list_ex P xs \<longleftrightarrow> (\<exists>q < length xs. P (xs ! q))"
  unfolding list_ex_iff by (metis in_set_conv_nth)

lemma lock_invI:
  assumes "\<And>p q i. p < length (lw_procs w) \<Longrightarrow> q < length (lw_procs w) \<Longrightarrow> owns i (lw_procs w ! p) \<Longrightarrow> owns i (lw_procs w ! q) \<Longrightarrow> p = q"
    and "\<And>p i. p < length (lw_procs w) \<Longrightarrow> lw_procs w ! p = Held i \<Longrightarrow> lw_entry w = Some i"
  shows "lock_inv w"
  using assms unfolding lock_inv_def at_phase_def by blast

lemma lock_inv_owner:
  "lock_inv w \<Longrightarrow> p < length (lw_procs w) \<Longrightarrow> q < length (lw_procs w) \<Longrightarrow> owns i (lw_procs w ! p) \<Longrightarrow> owns i (lw_procs w ! q) \<Longrightarrow> p = q"
  unfolding lock_inv_def by blast

lemma lock_inv_held:
  "lock_inv w \<Longrightarrow> p < length (lw_procs w) \<Longrightarrow> lw_procs w ! p = Held i \<Longrightarrow> lw_entry w = Some i"
  unfolding lock_inv_def at_phase_def by blast

text \<open>A process that gives up what it owns, or gets a lock nobody owns, keeps the first part.\<close>

lemma lock_inv_put:
  assumes "lock_inv w" and "\<And>i. owns i ph \<Longrightarrow> \<not> list_ex (owns i) (lw_procs w) \<or> owns i (lw_procs w ! p)"
    and "\<And>i. ph = Held i \<Longrightarrow> lw_entry w = Some i"
  shows "lock_inv (put_phase p ph w)"
proof (rule lock_invI)
  fix q r i
  assume l: "q < length (lw_procs (put_phase p ph w))" "r < length (lw_procs (put_phase p ph w))"
    and o: "owns i (lw_procs (put_phase p ph w) ! q)" "owns i (lw_procs (put_phase p ph w) ! r)"
  show "q = r"
  proof (cases "owns i ph \<and> (q = p \<or> r = p) \<and> q \<noteq> r")
    case True
    then obtain x where x: "x < length (lw_procs w)" "owns i (lw_procs w ! x)" "x \<noteq> p" "p < length (lw_procs w)"
      using l o by (cases "q = p") (auto simp: nth_list_update)
    then have "list_ex (owns i) (lw_procs w)" by (auto simp: list_ex_nth)
    then have "owns i (lw_procs w ! p)" using assms(2) True by blast
    with x lock_inv_owner [OF assms(1)] show ?thesis by blast
  next
    case False
    then consider "q = r" | "q \<noteq> p" "r \<noteq> p" | "\<not> owns i ph" by blast
    then show ?thesis
    proof cases
      case 3
      then have "q \<noteq> p" "r \<noteq> p" using l o by auto
      then show ?thesis using l o lock_inv_owner [OF assms(1), of q r i] by simp
    qed (use l o lock_inv_owner [OF assms(1), of q r i] in simp_all)
  qed
next
  fix q i
  assume "q < length (lw_procs (put_phase p ph w))" "lw_procs (put_phase p ph w) ! q = Held i"
  with assms(3) lock_inv_held [OF assms(1)] show "lw_entry (put_phase p ph w) = Some i"
    by (cases "q = p") auto
qed

lemma lock_inv_entry:
  assumes "lock_inv w" and "\<And>p i. p < length (lw_procs w) \<Longrightarrow> lw_procs w ! p \<noteq> Held i"
  shows "lock_inv (w\<lparr>lw_entry := e\<rparr>)"
  using assms by (intro lock_invI) (auto dest: lock_inv_owner)

lemma lock_inv_remove:
  assumes "lock_inv w" and "at_phase w p (Held i)"
  shows "lock_inv (lock_remove i p w)"
proof -
  have p: "p < length (lw_procs w)" "lw_procs w ! p = Held i" using assms(2) by (simp_all add: at_phase_def)
  have "lw_procs w ! q \<noteq> Held j" if "q < length (lw_procs w)" "q \<noteq> p" for q j
  proof
    assume h: "lw_procs w ! q = Held j"
    have "lw_entry w = Some j" "lw_entry w = Some i" using lock_inv_held [OF assms(1)] h that(1) p by blast+
    then have "j = i" by simp
    with h that p lock_inv_owner [OF assms(1), of p q i] show False by simp
  qed
  then have "lock_inv ((put_phase p (Removed i) w)\<lparr>lw_entry := None\<rparr>)"
    using p assms(1) by (intro lock_inv_entry lock_inv_put) (auto simp: nth_list_update)
  then show ?thesis by (simp add: lock_remove_def)
qed

lemma lock_inv_step:
  assumes "lock_inv w" and "lock_step w w'"
  shows "lock_inv w'"
  using assms(2)
proof cases
  case (step_open p fresh)
  have "lock_inv (w\<lparr>lw_entry := Some fresh\<rparr>)" if "lw_entry w = None"
    using that lock_inv_held [OF assms(1)] by (intro lock_inv_entry [OF assms(1)]) auto
  with step_open(1) assms(1) show ?thesis
    by (auto simp: lock_open_def intro!: lock_inv_put split: option.split)
next
  case (step_remove p i)
  with lock_inv_remove [OF assms(1)] show ?thesis by simp
qed (use assms(1) in \<open>auto simp: lock_flock_def lock_check_def lock_close_def at_phase_def intro!: lock_inv_put\<close>)

lemma lock_inv_initial: "lock_initial w \<Longrightarrow> lock_inv w"
  by (rule lock_invI) (auto simp: lock_initial_def list_all_length)

interpretation state_lock: transition_system lock_initial lock_step lock_inv
  by unfold_locales (auto intro: lock_inv_initial lock_inv_step)

section \<open>LockPath and Release without interference\<close>

lemma LockPath_result:
  assumes "at_phase w p Outside" and "unused w fresh"
  shows "lw_procs (LockPath fresh p w) ! p = (case lw_entry w of
       None \<Rightarrow> Held fresh
     | Some i \<Rightarrow> if list_ex (owns i) (lw_procs w) then Refused else Held i)"
proof -
  have p: "p < length (lw_procs w)" "lw_procs w ! p = Outside" using assms(1) by (simp_all add: at_phase_def)
  have o: "list_ex (owns i) ((lw_procs w)[p := Opened j]) = list_ex (owns i) (lw_procs w)" for i j
    unfolding list_ex_nth using p by (metis length_list_update nth_list_update owns_simps(1,2))
  have "\<not> list_ex (owns fresh) (lw_procs w)" using assms(2) owns_has_open by (auto simp: unused_def list_ex_iff)
  with p o show ?thesis
    by (simp add: LockPath_def lock_open_def lock_flock_def lock_check_def Let_def split: option.split)
qed

lemma LockPath_steps:
  assumes "at_phase w p Outside" and "unused w fresh"
  shows "lock_step\<^sup>*\<^sup>* w (LockPath fresh p w)"
proof -
  have l: "p < length (lw_procs w)" using assms(1) by (simp add: at_phase_def)
  let ?w1 = "lock_open fresh p w"
  have s1: "lock_step w ?w1" using assms by (rule step_open)
  obtain i where i: "at_phase ?w1 p (Opened i)"
    using l by (cases "lw_entry w") (auto simp: lock_open_def at_phase_def)
  then have s2: "lock_step ?w1 (lock_flock i p ?w1)" by (rule step_flock)
  have two: "lock_step\<^sup>*\<^sup>* w (lock_flock i p ?w1)" using s1 s2 by (blast intro: rtranclp.rtrancl_into_rtrancl r_into_rtranclp)
  show ?thesis
  proof (cases "list_ex (owns i) (lw_procs ?w1)")
    case True
    then have "LockPath fresh p w = lock_flock i p ?w1" using i by (simp add: LockPath_def Let_def at_phase_def lock_flock_def)
    with two show ?thesis by simp
  next
    case False
    then have "at_phase (lock_flock i p ?w1) p (Locked i)" using i by (simp add: lock_flock_def at_phase_def)
    moreover from this have "LockPath fresh p w = lock_check i p (lock_flock i p ?w1)"
      using i by (simp add: LockPath_def Let_def at_phase_def)
    ultimately show ?thesis using two step_check by (auto intro: rtranclp.rtrancl_into_rtrancl)
  qed
qed

lemma Release_result:
  assumes "at_phase w p (Held i)"
  shows "lw_entry (Release p w) = None" and "at_phase (Release p w) p Outside"
  using assms by (simp_all add: Release_def at_phase_def lock_remove_def lock_close_def)

end
