(* ===== verification/Ocppj_Life.thy ===== *)
theory Ocppj_Life
  imports Ocppj_Conn
begin

text \<open>
  The life of an OCPP-J connection (\<open>Run\<close> and its loops in \<open>internal/ocpp/ocppj/conn.go\<close>): the idle watchdog
  as a function of what arrives when, and the three goroutines of \<open>Run\<close> as a step relation, in which
  a step is one communication of one goroutine. A \<open>select\<close> whose communications are ready may take any
  of them, also one other than the closed \<open>done\<close>.
\<close>

section \<open>Options and reasons\<close>

definition conn_timeouts :: "duration \<Rightarrow> duration \<Rightarrow> duration \<times> duration" where
  "conn_timeouts call idle = (if call \<le> 0 then 30 * Second else call, if idle \<le> 0 then 90 * Second else idle)"

definition ping_period :: "duration \<Rightarrow> duration" where
  "ping_period idle = (let p = idle div 3 in if p < Second then Second else p)"

text \<open>How a read fails: by a deadline, by a close frame with its code, or otherwise; each with the text of its error.\<close>

datatype read_error = ReadTimeout | CloseError int string | OtherReadError string

definition closeReason :: "read_error \<Rightarrow> string" where
  "closeReason e = (case e of
       ReadTimeout \<Rightarrow> ''heartbeat timeout''
     | CloseError code t \<Rightarrow> if code = 1000 \<or> code = 1001 then ''closed by charge point'' else t
     | OtherReadError t \<Rightarrow> t)"

section \<open>The watchdog\<close>

text \<open>
  What the socket delivers, with the time it does. The read deadline moves with every OCPP message, and
  \<open>SetPongHandler\<close> leaves it alone on a pong. The reader takes a message when it arrives; that it may have to wait
  for room in the queue of calls is in the step relation below.
\<close>

datatype ws_event = WsMessage message | WsPong | WsFails read_error

fun read_until :: "duration \<Rightarrow> int \<Rightarrow> (int \<times> ws_event) list \<Rightarrow> int \<times> read_error" where
  "read_until idle deadline [] = (deadline, ReadTimeout)"
| "read_until idle deadline ((t, e) # es) =
     (if deadline \<le> t then (deadline, ReadTimeout)
      else case e of
          WsMessage d \<Rightarrow> read_until idle (t + idle) es
        | WsPong \<Rightarrow> read_until idle deadline es
        | WsFails x \<Rightarrow> (t, x))"

definition readLoop :: "duration \<Rightarrow> int \<Rightarrow> (int \<times> ws_event) list \<Rightarrow> int \<times> read_error" where
  "readLoop idle start es = read_until idle (start + idle) es"

text \<open>The last sign of life before a moment: the start, or the last OCPP message.\<close>

definition last_heard :: "int \<Rightarrow> (int \<times> ws_event) list \<Rightarrow> int \<Rightarrow> int" where
  "last_heard start es T = Max (insert start {t. t < T \<and> (\<exists>d. (t, WsMessage d) \<in> set es)})"

lemma read_until_pongs: "read_until idle dl (filter (\<lambda>e. snd e \<noteq> WsPong) es) = read_until idle dl es" if "sorted (map fst es)"
  using that
proof (induction idle dl es rule: read_until.induct)
  case (2 idle dl t e es)
  show ?case
  proof (cases "dl \<le> t \<and> e = WsPong")
    case True
    then have "\<forall>x \<in> set es. dl \<le> fst x" using 2(3) by auto
    then have "read_until idle dl xs = (dl, ReadTimeout)" if "set xs \<subseteq> set es" for xs
      using that by (cases xs) auto
    with True show ?thesis by auto
  next
    case False
    with 2 show ?thesis by (auto split: ws_event.splits)
  qed
qed simp

lemma last_heard_Cons:
  assumes "L \<le> t" and "\<forall>x \<in> set es. t \<le> fst x" and "t < T"
  shows "last_heard L ((t, WsMessage d) # es) T = last_heard t es T"
proof -
  let ?S = "{u. u < T \<and> (\<exists>d. (u, WsMessage d) \<in> set es)}"
  have f: "finite ?S" by (rule finite_subset [of _ "fst ` set es"]) force+
  have "{u. u < T \<and> (\<exists>x. (u, WsMessage x) \<in> set ((t, WsMessage d) # es))} = insert t ?S" using assms(3) by auto
  then have "last_heard L ((t, WsMessage d) # es) T = Max (insert L (insert t ?S))" by (simp add: last_heard_def)
  also have "\<dots> = max L (Max (insert t ?S))" using f by (subst Max_insert) auto
  also have "\<dots> = Max (insert t ?S)" using f assms(1) by (simp add: max_def) (meson Max_ge finite_insert insertI1 order_trans)
  finally show ?thesis by (simp add: last_heard_def)
qed

lemma last_heard_other: "\<forall>d. e \<noteq> WsMessage d \<Longrightarrow> last_heard L ((t, e) # es) T = last_heard L es T"
  by (auto simp: last_heard_def intro!: arg_cong [where f = Max])

lemma last_heard_none: "\<forall>x \<in> set es. T \<le> fst x \<Longrightarrow> last_heard L es T = L"
proof -
  assume "\<forall>x \<in> set es. T \<le> fst x"
  then have "{t. t < T \<and> (\<exists>d. (t, WsMessage d) \<in> set es)} = {}" by fastforce
  then show ?thesis by (simp only: last_heard_def) simp
qed

text \<open>The loop ends, by a failure of the socket or when the watchdog runs out, exactly \<open>idle\<close> after the last message.\<close>

lemma read_until_spec:
  assumes "sorted (map fst es)" and "\<forall>x \<in> set es. L \<le> fst x" and "0 < idle" and "read_until idle (L + idle) es = (T, err)"
  shows "(T = last_heard L es T + idle \<and> err = ReadTimeout \<or> T \<le> last_heard L es T + idle \<and> (T, WsFails err) \<in> set es)"
  using assms
proof (induction es arbitrary: L)
  case Nil
  then show ?case by (auto simp: last_heard_def)
next
  case (Cons x es)
  obtain t e where x: "x = (t, e)" by (cases x)
  have s: "sorted (map fst es)" "\<forall>y \<in> set es. t \<le> fst y" "L \<le> t" using Cons.prems(1,2) x by auto
  show ?case
  proof (cases "L + idle \<le> t")
    case True
    then have "T = L + idle" "err = ReadTimeout" using Cons.prems(4) x by simp_all
    moreover have "last_heard L (x # es) T = L" using \<open>T = L + idle\<close> True s x by (intro last_heard_none) auto
    ultimately show ?thesis by simp
  next
    case False
    show ?thesis
    proof (cases e)
      case (WsMessage d)
      with False Cons.prems(4) x have r: "read_until idle (t + idle) es = (T, err)" by simp
      from Cons.IH [OF s(1,2) Cons.prems(3) r]
      have i: "T = last_heard t es T + idle \<and> err = ReadTimeout \<or> T \<le> last_heard t es T + idle \<and> (T, WsFails err) \<in> set es" .
      have "t < T \<or> T = t \<and> (T, WsFails err) \<in> set es"
      proof (cases "(T, WsFails err) \<in> set es")
        case True
        then show ?thesis using s(2) by force
      next
        case False
        then have "T = last_heard t es T + idle" using i by blast
        moreover have "finite {u. u < T \<and> (\<exists>d. (u, WsMessage d) \<in> set es)}"
          by (rule finite_subset [of _ "fst ` set es"]) force+
        then have "t \<le> last_heard t es T" by (simp add: last_heard_def)
        ultimately show ?thesis using Cons.prems(3) by simp
      qed
      then show ?thesis
      proof
        assume "t < T"
        then have "last_heard L (x # es) T = last_heard t es T" unfolding x WsMessage by (rule last_heard_Cons [OF s(3,2)])
        with i show ?thesis by auto
      next
        assume a: "T = t \<and> (T, WsFails err) \<in> set es"
        then have "last_heard L (x # es) T = L" using s x by (intro last_heard_none) auto
        with a False show ?thesis by auto
      qed
    next
      case WsPong
      with False Cons.prems(4) x have r: "read_until idle (L + idle) es = (T, err)" by simp
      have "\<forall>y \<in> set es. L \<le> fst y" using s by auto
      from Cons.IH [OF s(1) this Cons.prems(3) r] last_heard_other [of e L t es T] x WsPong show ?thesis by auto
    next
      case (WsFails y)
      with False Cons.prems(4) x have "T = t" "err = y" by simp_all
      moreover have "last_heard L (x # es) T = L" using \<open>T = t\<close> s x by (intro last_heard_none) auto
      ultimately show ?thesis using False x WsFails by auto
    qed
  qed
qed

section \<open>The goroutines of Run\<close>

text \<open>
  Where each goroutine is. The reader waits for a message, offers a call to the handler, or queues an
  answer to a malformed frame; the handler waits for a call or queues an answer; the writer waits for
  a frame or a tick, or closes after a failed write; \<open>Run\<close> waits for the reader, then for the others.
\<close>

datatype reader = Reading | Offering Frame | Replying message | ReaderDone string
datatype handler_at = Waiting | Answering message | HandlerDone
datatype writer = Writing | WriterClosing | WriterDone
datatype runner = Running | Joining string | Returned string

record life =
  lf_in :: "message list"
  lf_conn :: Conn
  lf_ws_closed :: bool
  lf_reader :: reader
  lf_handler :: handler_at
  lf_writer :: writer
  lf_run :: runner

definition send_put :: "message \<Rightarrow> Conn \<Rightarrow> Conn" where
  "send_put d c = c\<lparr>co_send := co_send c @ [d]\<rparr>"

text \<open>What the reader does with a message: the frame decides where it goes next.\<close>

definition reader_takes :: "string \<Rightarrow> message \<Rightarrow> Conn \<Rightarrow> reader \<times> Conn" where
  "reader_takes je d c =
     (case ParseFrame je d of
        Inl (i, e) \<Rightarrow> (Replying (EncodeCallError i e), c)
      | Inr f \<Rightarrow>
          if fr_Type f = MessageTypeCall then (Offering f, c)
          else if fr_Type f = MessageTypeCallResult then (Reading, deliver (fr_ID f) (Inr (fr_Payload f)) c)
          else if fr_Type f = MessageTypeCallError
          then (Reading, deliver (fr_ID f) (Inl \<lparr>re_Code = fr_ErrorCode f, re_Description = fr_ErrorDescription f, re_Details = None\<rparr>) c)
          else (Reading, c))"

text \<open>
  \<open>arrive\<close> is the peer, \<open>call\<close> a goroutine in \<open>Call\<close>, and \<open>begin_close\<close> and \<open>finish_close\<close> the two actions of a
  \<open>Close\<close> from anywhere. What the handler answers (\<open>take\<close>) and what a \<open>Call\<close> sends is any message. A write on a
  closed socket fails; one that misses its deadline is a \<open>write_fails\<close> or \<open>ping_fails\<close> too.
\<close>

inductive life_step :: "string \<Rightarrow> life \<Rightarrow> life \<Rightarrow> bool" for je where
  arrive: "\<not> lf_ws_closed L \<Longrightarrow> life_step je L (L\<lparr>lf_in := lf_in L @ [d]\<rparr>)"
| call: "length (co_send (lf_conn L)) < sendBuffer \<Longrightarrow> life_step je L (L\<lparr>lf_conn := send_put d (lf_conn L)\<rparr>)"
| begin_close: "\<not> co_done (lf_conn L) \<Longrightarrow> life_step je L (L\<lparr>lf_conn := conn_Close (lf_conn L)\<rparr>)"
| finish_close: "co_done (lf_conn L) \<Longrightarrow> \<not> lf_ws_closed L \<Longrightarrow> life_step je L (L\<lparr>lf_ws_closed := True\<rparr>)"
| read: "lf_reader L = Reading \<Longrightarrow> lf_in L = d # ds \<Longrightarrow> reader_takes je d (lf_conn L) = (r, c)
    \<Longrightarrow> life_step je L (L\<lparr>lf_in := ds, lf_conn := c, lf_reader := r\<rparr>)"
| read_fails: "lf_reader L = Reading \<Longrightarrow> life_step je L (L\<lparr>lf_reader := ReaderDone (closeReason e)\<rparr>)"
| offer: "lf_reader L = Offering f \<Longrightarrow> length (co_calls (lf_conn L)) < callBuffer
    \<Longrightarrow> life_step je L (L\<lparr>lf_conn := (lf_conn L)\<lparr>co_calls := co_calls (lf_conn L) @ [f]\<rparr>, lf_reader := Reading\<rparr>)"
| offer_closed: "lf_reader L = Offering f \<Longrightarrow> co_done (lf_conn L) \<Longrightarrow> life_step je L (L\<lparr>lf_reader := ReaderDone ''closed''\<rparr>)"
| reply: "lf_reader L = Replying m \<Longrightarrow> length (co_send (lf_conn L)) < sendBuffer
    \<Longrightarrow> life_step je L (L\<lparr>lf_conn := send_put m (lf_conn L), lf_reader := Reading\<rparr>)"
| reply_closed: "lf_reader L = Replying m \<Longrightarrow> co_done (lf_conn L) \<Longrightarrow> life_step je L (L\<lparr>lf_reader := Reading\<rparr>)"
| take: "lf_handler L = Waiting \<Longrightarrow> co_calls (lf_conn L) = f # fs
    \<Longrightarrow> life_step je L (L\<lparr>lf_conn := (lf_conn L)\<lparr>co_calls := fs\<rparr>, lf_handler := Answering m\<rparr>)"
| answer: "lf_handler L = Answering m \<Longrightarrow> length (co_send (lf_conn L)) < sendBuffer
    \<Longrightarrow> life_step je L (L\<lparr>lf_conn := send_put m (lf_conn L), lf_handler := Waiting\<rparr>)"
| answer_closed: "lf_handler L = Answering m \<Longrightarrow> co_done (lf_conn L) \<Longrightarrow> life_step je L (L\<lparr>lf_handler := Waiting\<rparr>)"
| handler_exit: "lf_handler L = Waiting \<Longrightarrow> co_done (lf_conn L) \<Longrightarrow> life_step je L (L\<lparr>lf_handler := HandlerDone\<rparr>)"
| write_ok: "lf_writer L = Writing \<Longrightarrow> co_send (lf_conn L) = m # ms \<Longrightarrow> \<not> lf_ws_closed L
    \<Longrightarrow> life_step je L (L\<lparr>lf_conn := (lf_conn L)\<lparr>co_send := ms\<rparr>\<rparr>)"
| write_fails: "lf_writer L = Writing \<Longrightarrow> co_send (lf_conn L) = m # ms
    \<Longrightarrow> life_step je L (L\<lparr>lf_conn := (lf_conn L)\<lparr>co_send := ms\<rparr>, lf_writer := WriterClosing\<rparr>)"
| ping_fails: "lf_writer L = Writing \<Longrightarrow> life_step je L (L\<lparr>lf_writer := WriterClosing\<rparr>)"
| writer_close: "lf_writer L = WriterClosing
    \<Longrightarrow> life_step je L (L\<lparr>lf_conn := conn_Close (lf_conn L), lf_ws_closed := True, lf_writer := WriterDone\<rparr>)"
| writer_exit: "lf_writer L = Writing \<Longrightarrow> co_done (lf_conn L) \<Longrightarrow> life_step je L (L\<lparr>lf_writer := WriterDone\<rparr>)"
| run_close: "lf_run L = Running \<Longrightarrow> lf_reader L = ReaderDone r
    \<Longrightarrow> life_step je L (L\<lparr>lf_conn := conn_Close (lf_conn L), lf_ws_closed := True, lf_run := Joining r\<rparr>)"
| run_return: "lf_run L = Joining r \<Longrightarrow> lf_handler L = HandlerDone \<Longrightarrow> lf_writer L = WriterDone
    \<Longrightarrow> life_step je L (L\<lparr>lf_run := Returned r\<rparr>)"

definition life_initial :: "life \<Rightarrow> bool" where
  "life_initial L \<longleftrightarrow> L = \<lparr>lf_in = [], lf_conn = conn_New, lf_ws_closed = False, lf_reader = Reading, lf_handler = Waiting,
     lf_writer = Writing, lf_run = Running\<rparr>"

definition closed :: "life \<Rightarrow> bool" where
  "closed L \<longleftrightarrow> co_done (lf_conn L) \<and> lf_ws_closed L"

text \<open>\<open>Run\<close> has returned the reader's reason, and its goroutines are gone.\<close>

definition finished :: "life \<Rightarrow> bool" where
  "finished L \<longleftrightarrow> (\<exists>r. lf_run L = Returned r \<and> lf_reader L = ReaderDone r) \<and> lf_handler L = HandlerDone \<and> lf_writer L = WriterDone"

definition life_inv :: "life \<Rightarrow> bool" where
  [inv_defs]: "life_inv L \<longleftrightarrow>
     (\<forall>r. lf_run L = Joining r \<longrightarrow> lf_reader L = ReaderDone r \<and> closed L)
     \<and> (\<forall>r. lf_run L = Returned r \<longrightarrow> finished L)
     \<and> length (co_send (lf_conn L)) \<le> sendBuffer \<and> length (co_calls (lf_conn L)) \<le> callBuffer"

lemma deliver_fields [simp]:
  "co_done (deliver i res c) = co_done c" "co_send (deliver i res c) = co_send c" "co_calls (deliver i res c) = co_calls c"
  by (simp_all add: deliver_def split: option.split)

lemma reader_takes_fields:
  assumes "reader_takes je d c = (r, c')"
  shows "co_done c' = co_done c" and "co_send c' = co_send c" and "co_calls c' = co_calls c"
    and "r = Reading \<or> (\<exists>f. r = Offering f) \<or> (\<exists>m. r = Replying m)"
  using assms by (auto simp: reader_takes_def split: sum.splits prod.splits if_splits)

lemma life_inv_step:
  assumes "life_inv L" and "life_step je L L'"
  shows "life_inv L'"
  using assms(2,1)
proof cases
  case (read d ds r c)
  from reader_takes_fields [OF read(4)] assms(1) read(1,2) show ?thesis
    by (auto simp: life_inv_def closed_def finished_def)
qed (auto simp: life_inv_def closed_def finished_def send_put_def conn_Close_def)

lemma life_inv_initial: "life_initial L \<Longrightarrow> life_inv L"
  by (simp add: life_initial_def life_inv_def conn_New_def)

interpretation conn_life: transition_system life_initial "life_step je" life_inv for je
  by unfold_locales (auto intro: life_inv_initial life_inv_step)

section \<open>A closed connection comes to an end\<close>

text \<open>
  A bound on the communications left: for each message still unread its way through the handler's
  queue, for each call in the queue its answer, and the free places in the writer's queue.
\<close>

definition reader_left :: "reader \<Rightarrow> nat" where
  "reader_left r = (case r of Reading \<Rightarrow> 1 | Offering f \<Rightarrow> 6 | Replying m \<Rightarrow> 3 | ReaderDone s \<Rightarrow> 0)"

definition handler_left :: "handler_at \<Rightarrow> nat" where
  "handler_left h = (case h of Waiting \<Rightarrow> 1 | Answering m \<Rightarrow> 3 | HandlerDone \<Rightarrow> 0)"

definition writer_left :: "writer \<Rightarrow> nat" where
  "writer_left w = (case w of Writing \<Rightarrow> 3 | WriterClosing \<Rightarrow> 1 | WriterDone \<Rightarrow> 0)"

definition run_left :: "runner \<Rightarrow> nat" where
  "run_left r = (case r of Running \<Rightarrow> 2 | Joining s \<Rightarrow> 1 | Returned s \<Rightarrow> 0)"

definition life_left :: "life \<Rightarrow> nat" where
  "life_left L = 6 * length (lf_in L) + reader_left (lf_reader L) + 3 * length (co_calls (lf_conn L)) + handler_left (lf_handler L)
     + writer_left (lf_writer L) + (sendBuffer - length (co_send (lf_conn L))) + run_left (lf_run L)"

lemmas left_defs = life_left_def reader_left_def handler_left_def writer_left_def run_left_def

lemma life_left_bound: "life_left L \<le> 6 * length (lf_in L) + 3 * length (co_calls (lf_conn L)) + 46"
proof -
  have "reader_left (lf_reader L) \<le> 6" "handler_left (lf_handler L) \<le> 3" "writer_left (lf_writer L) \<le> 3" "run_left (lf_run L) \<le> 2"
    by (simp_all add: left_defs split: reader.split handler_at.split writer.split runner.split)
  then show ?thesis by (simp add: life_left_def sendBuffer_def)
qed

lemma closed_step:
  assumes "closed L" and "life_step je L L'"
  shows "closed L' \<and> life_left L' < life_left L"
  using assms(2)
proof cases
  case (read d ds r c)
  from reader_takes_fields [OF read(4)] assms(1) read(1-3) show ?thesis
    by (auto simp: closed_def left_defs)
qed (use assms(1) in \<open>auto simp: closed_def left_defs send_put_def conn_Close_def\<close>)

lemma closed_steps:
  assumes "(life_step je ^^ n) L L'" and "closed L"
  shows "closed L' \<and> life_left L' + n \<le> life_left L"
  using assms
proof (induction n arbitrary: L')
  case (Suc n)
  then obtain M where "(life_step je ^^ n) L M" "life_step je M L'" by auto
  with Suc closed_step [of M je L'] show ?case by force
qed simp

lemma closed_progress:
  assumes "closed L" and "\<not> (\<exists>r. lf_run L = Returned r)"
  shows "\<exists>L'. life_step je L L'"
proof (cases "lf_reader L")
  case Reading
  then show ?thesis by (blast intro: read_fails)
next
  case (Offering f)
  then show ?thesis using assms(1) unfolding closed_def by (blast intro: offer_closed)
next
  case (Replying m)
  then show ?thesis using assms(1) unfolding closed_def by (blast intro: reply_closed)
next
  case (ReaderDone r)
  show ?thesis
  proof (cases "lf_run L")
    case Running
    with ReaderDone show ?thesis by (blast intro: run_close)
  next
    case (Joining s)
    show ?thesis
    proof (cases "lf_handler L = HandlerDone \<and> lf_writer L = WriterDone")
      case True
      with Joining show ?thesis by (blast intro: run_return)
    next
      case False
      with assms(1) show ?thesis unfolding closed_def
        by (cases "lf_handler L"; cases "lf_writer L") (blast intro: handler_exit answer_closed writer_exit writer_close)+
    qed
  qed (use assms(2) in blast)
qed

end
