(* ===== verification/Csms_Server.thy ===== *)
theory Csms_Server
  imports Csms Ocppj_Life Control
begin

text \<open>
  The rest of \<open>internal/ocpp/csms/server.go\<close>: the options, the command interface of a connected station, and
  \<open>Shutdown\<close>. A connection is closed when its \<open>Close\<close> has been called; the closed ones are listed beside the
  registry, so that the claim of \<open>Shutdown\<close>, that no connection goes on, can be looked at under every
  interleaving with connections that come and go.
\<close>

declare map_of_eq_Some_iff [simp del] Some_eq_map_of_iff [simp del]

section \<open>Options and lookups\<close>

datatype csms_error = CoreRequired | HandlerRequired

definition csms_New :: "Service option \<Rightarrow> Version list \<Rightarrow> duration \<Rightarrow> duration \<Rightarrow> csms_error + csms_world \<times> duration \<times> duration" where
  "csms_New core handlers callTimeout idleTimeout = (case core of
       None \<Rightarrow> Inl CoreRequired
     | Some svc \<Rightarrow>
         if handlers = [] then Inl HandlerRequired
         else Inr (\<lparr>sw_conns = [], sw_phase = [], sw_next = 0, sw_core = svc\<rparr>, conn_timeouts callTimeout idleTimeout))"

definition csms_Connected :: "csms_world \<Rightarrow> string list" where
  "csms_Connected W = m_keys (sw_conns W)"

text \<open>
  \<open>Command\<close>: the adapter of the connection that is current; \<open>None\<close> in the result of the factory stands for
  its error.
\<close>

datatype command_error = NotConnected string | NoNewChargePoint | NewChargePointFailed

definition csms_Command :: "(nat \<Rightarrow> station option) option \<Rightarrow> csms_world \<Rightarrow> string \<Rightarrow> command_error + station" where
  "csms_Command new_cp W i = (case conn_of W i of
       None \<Rightarrow> Inl (NotConnected i)
     | Some h \<Rightarrow> (case new_cp of
           None \<Rightarrow> Inl NoNewChargePoint
         | Some f \<Rightarrow> (case f h of None \<Rightarrow> Inl NewChargePointFailed | Some st \<Rightarrow> Inr st)))"

text \<open>The server as the command interface of \<open>control\<close>, for a factory that does not fail.\<close>

definition csms_commander :: "(nat \<Rightarrow> station) \<Rightarrow> csms_world \<Rightarrow> commander" where
  "csms_commander new_cp W i = (case csms_Command (Some (Some \<circ> new_cp)) W i of Inr st \<Rightarrow> Inr st | Inl e \<Rightarrow> Inl ErrNotConnected)"

lemma csms_commander_eq:
  "csms_commander new_cp W i = (case conn_of W i of None \<Rightarrow> Inl ErrNotConnected | Some h \<Rightarrow> Inr (new_cp h))"
  by (simp add: csms_commander_def csms_Command_def split: option.split)

lemma Connected_iff: "i \<in> set (csms_Connected W) \<longleftrightarrow> conn_of W i \<noteq> None"
  by (simp add: csms_Connected_def conn_of_def map_of_eq_None_iff)

section \<open>Shutdown\<close>

record csms_closing =
  cl_world :: csms_world
  cl_closed :: "nat list"

text \<open>\<open>serveConn\<close> closes the connection it replaces.\<close>

definition enter_closing :: "string \<Rightarrow> csms_closing \<Rightarrow> csms_closing" where
  "enter_closing i C = \<lparr>cl_world = enter i (cl_world C),
     cl_closed = (case conn_of (cl_world C) i of Some h \<Rightarrow> h # cl_closed C | None \<Rightarrow> cl_closed C)\<rparr>"

text \<open>The locked loop of \<open>Shutdown\<close>.\<close>

definition Shutdown_close :: "csms_closing \<Rightarrow> csms_closing" where
  "Shutdown_close C = C\<lparr>cl_closed := map snd (sw_conns (cl_world C)) @ cl_closed C\<rparr>"

inductive closing_step :: "csms_closing \<Rightarrow> csms_closing \<Rightarrow> bool" where
  connects: "closing_step C (enter_closing i C)"
| goes_on: "csms_step (cl_world C) W \<Longrightarrow> sw_next W = sw_next (cl_world C) \<Longrightarrow> closing_step C (C\<lparr>cl_world := W\<rparr>)"
| shuts_down: "closing_step C (Shutdown_close C)"

definition closing_initial :: "csms_closing \<Rightarrow> bool" where
  "closing_initial C \<longleftrightarrow> csms_initial (cl_world C) \<and> cl_closed C = []"

definition live :: "csms_world \<Rightarrow> nat \<Rightarrow> bool" where
  "live W h \<longleftrightarrow> (\<exists>i p. map_of (sw_phase W) h = Some (i, p) \<and> p \<in> {Entered, Csms.Running})"

text \<open>A connection that runs is the current one of its station, or closed.\<close>

definition closing_inv :: "csms_closing \<Rightarrow> bool" where
  [inv_defs]: "closing_inv C \<longleftrightarrow> registry_inv (cl_world C) \<and> distinct (m_keys (sw_conns (cl_world C)))
     \<and> (\<forall>h \<in> set (cl_closed C). h < sw_next (cl_world C))
     \<and> (\<forall>h i p. map_of (sw_phase (cl_world C)) h = Some (i, p) \<longrightarrow> p \<in> {Entered, Csms.Running} \<longrightarrow>
          map_of (sw_conns (cl_world C)) i = Some h \<or> h \<in> set (cl_closed C))"

lemma closing_inv_initial: "closing_initial C \<Longrightarrow> closing_inv C"
  by (auto simp: closing_initial_def closing_inv_def csms_initial_def registry_initial)

lemma enters_next: "sw_next (enter i W) = Suc (sw_next W)"
  by (simp add: enter_def)

lemma closing_goes_on:
  assumes "closing_inv C" and "csms_step (cl_world C) W" and "sw_next W = sw_next (cl_world C)"
  shows "closing_inv (C\<lparr>cl_world := W\<rparr>)"
proof -
  have r: "registry_inv W" using assms(1,2) registry_inv_step by (auto simp: closing_inv_def)
  from assms(2) show ?thesis
  proof cases
    case (enters i)
    with assms(3) show ?thesis by (simp add: enters_next)
  next
    case (leaves h i)
    with assms(1) r show ?thesis unfolding closing_inv_def leave_def by (fastforce split: if_splits)
  qed (use assms(1) r in \<open>auto simp: closing_inv_def report_connected_def report_disconnected_def split: if_splits\<close>)
qed

lemma conn_handles:
  assumes "closing_inv C" and "(j, h) \<in> set (sw_conns (cl_world C))"
  shows "h < sw_next (cl_world C)"
proof -
  have "map_of (sw_conns (cl_world C)) j = Some h" using assms by (auto simp: closing_inv_def intro: map_of_is_SomeI)
  then show ?thesis using assms(1) unfolding closing_inv_def registry_inv_def by blast
qed

lemma closing_inv_step:
  assumes "closing_inv C" and "closing_step C C'"
  shows "closing_inv C'"
  using assms(2)
proof cases
  case (connects i)
  have "registry_inv (enter i (cl_world C))" using assms(1) registry_inv_step enters by (auto simp: closing_inv_def)
  moreover have "h < sw_next (cl_world C)" if "map_of (sw_conns (cl_world C)) i = Some h" for h
    using conn_handles [OF assms(1)] map_of_SomeD [OF that] by blast
  ultimately show ?thesis using connects assms(1)
    unfolding closing_inv_def enter_closing_def enter_def conn_of_def by (fastforce split: option.splits if_splits)
next
  case (goes_on W)
  with closing_goes_on [OF assms(1)] show ?thesis by simp
next
  case shuts_down
  with assms(1) conn_handles [OF assms(1)] show ?thesis unfolding closing_inv_def Shutdown_close_def by fastforce
qed

interpretation closing: transition_system closing_initial closing_step closing_inv
  by unfold_locales (auto intro: closing_inv_initial closing_inv_step)

text \<open>After the loop every connection that runs is closed, also those that were replaced before.\<close>

lemma Shutdown_closes:
  assumes "closing_initial C0" and "closing_step\<^sup>*\<^sup>* C0 C" and "live (cl_world C) h"
  shows "h \<in> set (cl_closed (Shutdown_close C))"
proof -
  obtain i p where "map_of (sw_phase (cl_world C)) h = Some (i, p)" "p \<in> {Entered, Csms.Running}"
    using assms(3) by (auto simp: live_def)
  then have "map_of (sw_conns (cl_world C)) i = Some h \<or> h \<in> set (cl_closed C)"
    using closing.inv_reachable [OF assms(1,2)] unfolding closing_inv_def by blast
  then show ?thesis by (auto simp: Shutdown_close_def dest!: map_of_SomeD intro: rev_image_eqI)
qed

text \<open>
  The listener is closed only after the loop, so a station can still connect in between: its connection
  runs, and as \<open>Run\<close> does not look at the cancelled context, nothing closes it.
\<close>

lemma late_connection_open:
  assumes "closing_initial C0" and "closing_step\<^sup>*\<^sup>* C0 C"
  shows "live (cl_world (enter_closing i (Shutdown_close C))) (sw_next (cl_world C))
    \<and> sw_next (cl_world C) \<notin> set (cl_closed (enter_closing i (Shutdown_close C)))"
proof -
  note inv = closing.inv_reachable [OF assms]
  have "h \<noteq> sw_next (cl_world C)" if "map_of (sw_conns (cl_world C)) i = Some h" for h
    using conn_handles [OF inv] map_of_SomeD [OF that] by blast
  moreover have "sw_next (cl_world C) \<notin> snd ` set (sw_conns (cl_world C))" using conn_handles [OF inv] by fastforce
  moreover have "sw_next (cl_world C) \<notin> set (cl_closed C)" using inv by (auto simp: closing_inv_def)
  ultimately show ?thesis by (auto simp: enter_closing_def Shutdown_close_def enter_def conn_of_def live_def split: option.splits)
qed

end
