(* ===== verification/Simulator_Life.thy ===== *)
theory Simulator_Life
  imports Simulator V16_Handler Ocppj_Life Run
begin

text \<open>
  The simulated station from its start (\<open>Connect\<close>, \<open>heartbeatLoop\<close> in \<open>internal/simulator/simulator.go\<close>),
  and the pair it makes with the daemon: the URL it dials, the interval it is told, and the watchdog
  its heartbeats keep quiet.
\<close>

declare map_of_eq_Some_iff [simp del] Some_eq_map_of_iff [simp del]

section \<open>Connecting\<close>

text \<open>The URL the simulator dials; the path of the request is the path of that URL.\<close>

definition endpoint :: "url_parser \<Rightarrow> SimOptions \<Rightarrow> URL option" where
  "endpoint parse_url opt = (case parse_url (so_URL opt) of
       None \<Rightarrow> None
     | Some u \<Rightarrow>
         if u_Scheme u \<noteq> ''ws'' \<and> u_Scheme u \<noteq> ''wss'' then None
         else Some (if u_Path u = [] \<or> u_Path u = ''/'' then u\<lparr>u_Path := ''/ocpp/'' @ so_ID opt\<rparr> else u))"

datatype connect_error = BadEndpoint | DialFailed | StepFailed sim_error

text \<open>
  A simulator with its connection: \<open>ss_conn\<close> is there once it has been dialled and says whether it has been
  closed, \<open>ss_done\<close> is the channel \<open>done\<close>, \<open>ss_beating\<close> whether \<open>heartbeatLoop\<close> was started.
\<close>

record sim_session =
  ss_sim :: Simulator
  ss_conn :: "bool option"
  ss_done :: bool
  ss_beating :: bool

definition new_session :: "Simulator \<Rightarrow> sim_session" where
  "new_session s = \<lparr>ss_sim = s, ss_conn = None, ss_done = False, ss_beating = False\<rparr>"

definition sim_Close :: "sim_session \<Rightarrow> sim_session" where
  "sim_Close S = (if ss_done S then S else S\<lparr>ss_done := True, ss_conn := map_option (\<lambda>_. True) (ss_conn S)\<rparr>)"

text \<open>\<open>dials\<close> says whether the handshake succeeds with that subprotocol, \<open>p\<close> is the connection it gives.\<close>

definition sim_Connect :: "url_parser \<Rightarrow> (URL \<Rightarrow> string \<Rightarrow> bool) \<Rightarrow> 'w peer \<Rightarrow> sim_session \<Rightarrow> 'w \<Rightarrow> sim_session \<times> 'w \<times> connect_error option" where
  "sim_Connect parse_url dials p S w = (case endpoint parse_url (sim_opts (ss_sim S)) of
       None \<Rightarrow> (S, w, Some BadEndpoint)
     | Some u \<Rightarrow>
         if \<not> dials u (Subprotocol (so_Version (sim_opts (ss_sim S)))) then (S, w, Some DialFailed)
         else let S1 = S\<lparr>ss_conn := Some False\<rparr> in (case boot p (ss_sim S1) w of
                 (s', w', Some e) \<Rightarrow> (sim_Close (S1\<lparr>ss_sim := s'\<rparr>), w', Some (StepFailed e))
               | (s', w', None) \<Rightarrow> (case reportInitialStatus p s' w' of
                     (w'', Some e) \<Rightarrow> (sim_Close (S1\<lparr>ss_sim := s'\<rparr>), w'', Some (StepFailed e))
                   | (w'', None) \<Rightarrow> (S1\<lparr>ss_sim := s', ss_beating := True\<rparr>, w'', None))))"

text \<open>\<open>Run\<close> up to its return; \<open>meanwhile\<close> is what happens until the context or the simulator is done.\<close>

definition sim_Run :: "url_parser \<Rightarrow> (URL \<Rightarrow> string \<Rightarrow> bool) \<Rightarrow> 'w peer \<Rightarrow> (sim_session \<times> 'w \<Rightarrow> sim_session \<times> 'w) \<Rightarrow> sim_session \<Rightarrow> 'w
    \<Rightarrow> sim_session \<times> 'w \<times> connect_error option" where
  "sim_Run parse_url dials p meanwhile S w = (case sim_Connect parse_url dials p S w of
       (S', w', Some e) \<Rightarrow> (S', w', Some e)
     | (S', w', None) \<Rightarrow> (case meanwhile (S', w') of (S'', w'') \<Rightarrow> (sim_Close S'', w'', None)))"

text \<open>A connection that was closed is closed in \<open>done\<close> too; \<open>Close\<close> keeps that, and twice is once.\<close>

definition session_inv :: "sim_session \<Rightarrow> bool" where
  [inv_defs]: "session_inv S \<longleftrightarrow> (ss_done S \<longrightarrow> ss_conn S \<noteq> Some False)"

lemma sim_Close_inv: "session_inv (sim_Close S)" if "session_inv S"
  using that by (cases "ss_conn S") (auto simp: session_inv_def sim_Close_def)

lemma sim_Close_idem: "sim_Close (sim_Close S) = sim_Close S"
  by (simp add: sim_Close_def)

lemma sim_Close_closes: "session_inv S \<Longrightarrow> ss_done (sim_Close S) \<and> ss_conn (sim_Close S) \<noteq> Some False"
  by (cases "ss_conn S") (auto simp: session_inv_def sim_Close_def)

text \<open>
  A connect that fails leaves no open connection and no heartbeat, one that succeeds leaves both; \<open>Run\<close>
  never returns with an open connection.
\<close>

lemma sim_Connect_result:
  assumes "sim_Connect parse_url dials p (new_session s) w = (S', w', err)"
  shows "session_inv S'" and "err \<noteq> None \<longleftrightarrow> ss_conn S' \<noteq> Some False" and "ss_beating S' \<longleftrightarrow> err = None"
  using assms
  by (auto simp: sim_Connect_def new_session_def session_inv_def sim_Close_def Let_def split: option.splits if_splits prod.splits)

lemma sim_Run_closes:
  assumes "sim_Run parse_url dials p meanwhile (new_session s) w = (S', w', err)"
    and "\<And>S w. session_inv S \<Longrightarrow> session_inv (fst (meanwhile (S, w)))"
  shows "ss_conn S' \<noteq> Some False"
proof (cases "sim_Connect parse_url dials p (new_session s) w")
  case (fields S1 w1 e)
  note c = sim_Connect_result [OF fields]
  show ?thesis
  proof (cases e)
    case None
    then have "S' = sim_Close (fst (meanwhile (S1, w1)))" using assms(1) fields by (simp add: sim_Run_def split: prod.splits)
    then show ?thesis using sim_Close_closes assms(2) c(1) by simp
  next
    case (Some x)
    then have "S' = S1" using assms(1) fields by (simp add: sim_Run_def)
    then show ?thesis using c(2) Some by simp
  qed
qed

section \<open>Heartbeats\<close>

text \<open>
  The times of the heartbeats sent: each round waits for the interval and makes a call that takes some
  time and succeeds or not; the first that fails ends the loop, and so does the end of the rounds, when
  the context or the simulator ends.
\<close>

fun heartbeat_rounds :: "duration \<Rightarrow> int \<Rightarrow> (duration \<times> bool) list \<Rightarrow> int list" where
  "heartbeat_rounds interval t [] = []"
| "heartbeat_rounds interval t ((took, good) # rounds) =
     (t + interval) # (if good then heartbeat_rounds interval (t + interval + took) rounds else [])"

definition heartbeatLoop :: "Simulator \<Rightarrow> int \<Rightarrow> (duration \<times> bool) list \<Rightarrow> int list" where
  "heartbeatLoop s t rounds = (if so_Scenario (sim_opts s) = ScenarioSilent then [] else heartbeat_rounds (sim_heartbeat s) t rounds)"

text \<open>What the daemon's end of the connection receives.\<close>

definition beats :: "message \<Rightarrow> int list \<Rightarrow> (int \<times> ws_event) list" where
  "beats m ts = map (\<lambda>t. (t, WsMessage m)) ts"

lemma beats_heard:
  assumes "\<forall>r \<in> set rounds. 0 \<le> fst r \<and> interval + fst r < idle" and "interval < idle" and "0 \<le> interval" and "0 \<le> slack" and "interval + slack < idle"
  shows "read_until idle (L + idle) (beats m (heartbeat_rounds interval (L + slack) rounds))
    = (last (L # heartbeat_rounds interval (L + slack) rounds) + idle, ReadTimeout)"
  using assms(1,4,5)
proof (induction rounds arbitrary: L slack)
  case (Cons r rounds)
  obtain took good where r: "r = (took, good)" by (cases r)
  let ?t = "L + slack + interval"
  have t: "\<not> L + idle \<le> ?t" using Cons.prems(3) by simp
  show ?case
  proof (cases good)
    case True
    have "read_until idle (?t + idle) (beats m (heartbeat_rounds interval (?t + took) rounds))
      = (last (?t # heartbeat_rounds interval (?t + took) rounds) + idle, ReadTimeout)"
      using Cons.prems(1) r by (intro Cons.IH) auto
    with True r t show ?thesis by (simp add: beats_def)
  next
    case False
    with r t show ?thesis by (simp add: beats_def)
  qed
qed (simp add: beats_def)

section \<open>The daemon as the other end\<close>

definition csms_answers :: "Config \<Rightarrow> call_env \<Rightarrow> string \<Rightarrow> Service \<Rightarrow> caller" where
  "csms_answers cfg env i s action payload = (case snd (HandleCall cfg env i action (Some payload) s) of
       Inl e \<Rightarrow> Inl (ErrRPC e)
     | Inr v \<Rightarrow> Inr (enc_conf v))"

text \<open>
  The daemon at the other end: its domain state and the calls it has taken. \<open>env n\<close> is the environment
  of the \<open>n\<close>-th call, and \<open>others n\<close> what the daemon's other goroutines do to the state before it.
\<close>

record daemon =
  dm_core :: Service
  dm_calls :: nat

definition daemon_call :: "Config \<Rightarrow> (nat \<Rightarrow> call_env) \<Rightarrow> (nat \<Rightarrow> Service \<Rightarrow> Service) \<Rightarrow> string \<Rightarrow> string \<Rightarrow> json \<Rightarrow> daemon
    \<Rightarrow> daemon \<times> (ocpp_error + json)" where
  "daemon_call cfg env others i action payload d =
     (let n = dm_calls d; s = others n (dm_core d)
      in (\<lparr>dm_core = fst (HandleCall cfg (env n) i action (Some payload) s), dm_calls = Suc n\<rparr>, csms_answers cfg (env n) i s action payload))"

definition daemon_peer :: "Config \<Rightarrow> (nat \<Rightarrow> call_env) \<Rightarrow> (nat \<Rightarrow> Service \<Rightarrow> Service) \<Rightarrow> string \<Rightarrow> (nat \<Rightarrow> gotime) \<Rightarrow> daemon peer" where
  "daemon_peer cfg env others i clock = \<lparr>pe_call = daemon_call cfg env others i, pe_now = \<lambda>d. clock (dm_calls d)\<rparr>"

text \<open>A connection whose every call the daemon answers, in whatever state core then is.\<close>

definition answered_by :: "Config \<Rightarrow> string \<Rightarrow> 'w peer \<Rightarrow> bool" where
  "answered_by cfg i p \<longleftrightarrow>
     (\<forall>action payload w. \<exists>env svc. snd (pe_call p action payload w) = csms_answers cfg env i svc action payload)"

lemma daemon_answers: "answered_by cfg i (daemon_peer cfg env others i clock)"
  by (auto simp: answered_by_def daemon_peer_def daemon_call_def Let_def)

lemma fold_boot_keys:
  "fold_key ''chargePointVendor'' = ''chargepointvendor''" "fold_key ''chargePointModel'' = ''chargepointmodel''"
  "fold_key ''chargePointSerialNumber'' = ''chargepointserialnumber''" "fold_key ''chargeBoxSerialNumber'' = ''chargeboxserialnumber''"
  "fold_key ''firmwareVersion'' = ''firmwareversion''" "fold_key ''iccid'' = ''iccid''" "fold_key ''imsi'' = ''imsi''"
  "fold_key ''meterType'' = ''metertype''" "fold_key ''meterSerialNumber'' = ''meterserialnumber''"
  "fold_key ''currentTime'' = ''currenttime''" "fold_key ''interval'' = ''interval''"
  by code_simp+

lemma dec_enc_BootNotificationReq: "dec_BootNotificationReq (enc_BootNotificationReq r) = Some r"
  by (cases r) (simp add: dec_BootNotificationReq_def enc_BootNotificationReq_def Let_def EqualFold_def fold_boot_keys)

lemma dec_enc_BootNotificationConf:
  "int64_range i \<Longrightarrow> dec_BootNotificationConf (enc_conf (BootNotificationConf s t i)) = Some (s, t, i)"
  by (simp add: dec_BootNotificationConf_def v16_key_simps fold_boot_keys)

lemma whole_seconds_bounds:
  assumes "0 \<le> d"
  shows "0 \<le> whole_seconds d" and "whole_seconds d * Second \<le> d" and "d < (whole_seconds d + 1) * Second"
proof -
  have p: "0 < Second" by (simp add: Second_def)
  have e: "whole_seconds d = d div Second" using assms by (cases "d = 0") (simp_all add: whole_seconds_def)
  show "0 \<le> whole_seconds d" using assms p by (simp add: e pos_imp_zdiv_nonneg_iff)
  show "whole_seconds d * Second \<le> d" using div_mult_mod_eq [of d Second] pos_mod_sign [OF p, of d] unfolding e by linarith
  show "d < (whole_seconds d + 1) * Second"
    using div_mult_mod_eq [of d Second] pos_mod_bound [OF p, of d] unfolding e distrib_right by linarith
qed

lemma boot_paired:
  assumes "so_Vendor (sim_opts s) \<noteq> []" and "so_Model (sim_opts s) \<noteq> []"
    and "0 \<le> dur_dur (ch_HeartbeatInterval (cfg_Charger cfg))" and "int64_range (dur_dur (ch_HeartbeatInterval (cfg_Charger cfg)))"
    and "answered_by cfg i p"
  defines "d \<equiv> dur_dur (ch_HeartbeatInterval (cfg_Charger cfg))"
  shows "\<exists>w'. boot p s w = (if d < Second then s else s\<lparr>sim_heartbeat := whole_seconds d * Second\<rparr>, w', None)"
proof -
  note b = whole_seconds_bounds [OF assms(3), folded d_def]
  have p: "0 < Second" by (simp add: Second_def)
  have "whole_seconds d * 1 \<le> whole_seconds d * Second" using b(1) by (intro mult_left_mono) (simp_all add: Second_def)
  then have r: "int64_range (whole_seconds d)" "int64_range (whole_seconds d * Second)"
    using b assms(4) unfolding d_def int64_range_def by linarith+
  have i: "0 < whole_seconds d \<longleftrightarrow> \<not> d < Second"
  proof
    assume "0 < whole_seconds d"
    then have "1 * Second \<le> whole_seconds d * Second" using p by (intro mult_right_mono) linarith+
    with b(2) show "\<not> d < Second" by linarith
  next
    assume "\<not> d < Second"
    with b(1,3) show "0 < whole_seconds d" by (cases "whole_seconds d = 0") auto
  qed
  let ?p = "enc_BootNotificationReq (boot_req (sim_opts s))"
  obtain w' env svc where c: "pe_call p ''BootNotification'' ?p w = (w', csms_answers cfg env i svc ''BootNotification'' ?p)"
    using assms(5) unfolding answered_by_def by (metis prod.collapse)
  have "csms_answers cfg env i svc ''BootNotification'' ?p
      = Inr (enc_conf (BootNotificationConf ''Accepted'' (formatTime (ce_now env)) (whole_seconds d)))"
    using assms(1,2) by (simp add: csms_answers_def HandleCall_def bootNotification_def decode_req_def dec_enc_BootNotificationReq
        validate_BootNotificationReq_def boot_req_def Let_def d_def del: enc_conf.simps)
  with c r i show ?thesis by (simp add: boot_def dec_enc_BootNotificationConf wrap64_id del: enc_conf.simps)
qed

text \<open>The configured durations are Go durations.\<close>

lemma loaded_durations:
  assumes "parse_config parse_url y = Inr cfg"
  shows "0 < dur_dur (ch_HeartbeatInterval (cfg_Charger cfg))" and "int64_range (dur_dur (ch_HeartbeatInterval (cfg_Charger cfg)))"
    and "dur_dur (ch_HeartbeatInterval (cfg_Charger cfg)) < dur_dur (ch_HeartbeatTimeout (cfg_Charger cfg))"
proof -
  obtain raw where c: "cfg = resolve_Config (applyDefaults (normalize_Config raw))"
    and v: "valid_config parse_url (applyDefaults (normalize_Config raw))" using assms by (auto simp: parse_config_Inr)
  then show "0 < dur_dur (ch_HeartbeatInterval (cfg_Charger cfg))"
    "dur_dur (ch_HeartbeatInterval (cfg_Charger cfg)) < dur_dur (ch_HeartbeatTimeout (cfg_Charger cfg))"
    using valid_durations [OF v] by simp_all
  show "int64_range (dur_dur (ch_HeartbeatInterval (cfg_Charger cfg)))"
    using v c ParseDuration_range by (auto simp: resolve_Config_def valid_config_def valid_charger_def resolved_def)
qed

end
