(* ===== verification/Simulate.thy ===== *)
theory Simulate
  imports Simulator_Life
begin

text \<open>
  \<open>cpms simulate charger\<close> (\<open>internal/cli/simulate.go\<close>): the flags and their defaults from the configuration, the simulator
  they make, and its run. The last section follows the command without flags against the daemon
  of the same configuration, up to the point where its station is booted and observable.
\<close>

declare map_of_eq_Some_iff [simp del] Some_eq_map_of_iff [simp del]

section \<open>The command\<close>

definition scenario_string :: "Scenario \<Rightarrow> string" where
  "scenario_string s = (case s of
       ScenarioNormal \<Rightarrow> ''normal'' | ScenarioRejectReserve \<Rightarrow> ''reject-reserve'' | ScenarioOccupied \<Rightarrow> ''occupied''
     | ScenarioSlow \<Rightarrow> ''slow'' | ScenarioUnlockFails \<Rightarrow> ''unlock-fails'' | ScenarioSilent \<Rightarrow> ''silent''
     | OtherScenario t \<Rightarrow> t | NoScenario \<Rightarrow> [])"

definition scenario_of :: "string \<Rightarrow> Scenario" where
  "scenario_of t = (if t = [] then NoScenario
     else case find (\<lambda>s. scenario_string s = t) Scenarios of Some s \<Rightarrow> s | None \<Rightarrow> OtherScenario t)"

definition scenarioList :: string where
  "scenarioList = join '', '' (map scenario_string Scenarios)"

record simulate_args =
  sa_flags :: sim_flags
  sa_ocpp :: string
  sa_scenario :: string
  sa_vendor :: string
  sa_model :: string
  sa_logLevel :: string

definition default_args :: simulate_args where
  "default_args = \<lparr>sa_flags = \<lparr>sf_csms = [], sf_id = [], sf_tag = [], sf_connectors = 0\<rparr>, sa_ocpp = Version16,
     sa_scenario = scenario_string ScenarioNormal, sa_vendor = [], sa_model = [], sa_logLevel = ''info''\<rparr>"

datatype simulate_error = BadLogLevel | FlagsRequired | SimulatorFailed sim_error | RunFailed connect_error

definition simulate_options :: "sim_flags \<Rightarrow> simulate_args \<Rightarrow> SimOptions" where
  "simulate_options f a = \<lparr>so_URL = sf_csms f, so_ID = sf_id f, so_Version = sa_ocpp a, so_Connectors = sf_connectors f,
     so_Vendor = sa_vendor a, so_Model = sa_model a, so_Firmware = [], so_SerialNumber = [], so_IDTag = sf_tag f,
     so_Scenario = scenario_of (sa_scenario a), so_SlowDelay = 0, so_UnreportedKeys = [], so_FeatureProfiles = []\<rparr>"

text \<open>The command up to the simulator, and with its run; \<open>cfg\<close> is the configuration if it could be loaded.\<close>

definition simulate_New :: "Config option \<Rightarrow> simulate_args \<Rightarrow> simulate_error + Simulator" where
  "simulate_New cfg a = (case newLogger (sa_logLevel a) of
       None \<Rightarrow> Inl BadLogLevel
     | Some _ \<Rightarrow> (case simulate_defaults cfg (sa_flags a) of
           None \<Rightarrow> Inl FlagsRequired
         | Some f \<Rightarrow> (case sim_New (simulate_options f a) of
               Inl e \<Rightarrow> Inl (SimulatorFailed e)
             | Inr s \<Rightarrow> Inr s)))"

definition simulateCharger :: "url_parser \<Rightarrow> (URL \<Rightarrow> string \<Rightarrow> bool) \<Rightarrow> 'w peer \<Rightarrow> (sim_session \<times> 'w \<Rightarrow> sim_session \<times> 'w)
    \<Rightarrow> Config option \<Rightarrow> simulate_args \<Rightarrow> 'w \<Rightarrow> 'w \<times> simulate_error option" where
  "simulateCharger parse_url dials p meanwhile cfg a w = (case simulate_New cfg a of
       Inl e \<Rightarrow> (w, Some e)
     | Inr s \<Rightarrow> (case sim_Run parse_url dials p meanwhile (new_session s) w of
         (_, w', err) \<Rightarrow> (w', map_option RunFailed err)))"

text \<open>Every scenario the help lists is accepted, and no other text is.\<close>

lemma scenario_of_valid: "t \<noteq> [] \<Longrightarrow> scenario_Valid (scenario_of t) \<longleftrightarrow> t \<in> set (map scenario_string Scenarios)"
  by (auto simp: scenario_of_def scenario_Valid_def Scenarios_def scenario_string_def)

lemma simulate_scenario:
  assumes "simulate_New cfg a = Inr s" and "sa_scenario a \<noteq> []"
  shows "sa_scenario a \<in> set (map scenario_string Scenarios)" and "scenario_string (so_Scenario (sim_opts s)) = sa_scenario a"
proof -
  obtain f where n: "sim_New (simulate_options f a) = Inr s"
    using assms(1) by (auto simp: simulate_New_def split: option.splits sum.splits)
  have ne: "scenario_of (sa_scenario a) \<noteq> NoScenario"
    using assms(2) by (auto simp: scenario_of_def Scenarios_def)
  then have sc: "so_Scenario (sim_opts s) = scenario_of (sa_scenario a)" "scenario_Valid (scenario_of (sa_scenario a))"
    using n by (auto simp: sim_New_def sim_applyDefaults_def sim_validate_def simulate_options_def Let_def split: if_splits)
  then show m: "sa_scenario a \<in> set (map scenario_string Scenarios)" using scenario_of_valid [OF assms(2)] by simp
  then show "scenario_string (so_Scenario (sim_opts s)) = sa_scenario a"
    unfolding sc(1) by (auto simp: scenario_of_def Scenarios_def scenario_string_def)
qed

section \<open>Without flags\<close>

lemma bind_address_splits: "bind_address b = Some a \<Longrightarrow> csmsURLFromBind b \<noteq> []"
  by (auto simp: bind_address_def csmsURLFromBind_def split: option.splits)

text \<open>A configuration that loads is enough to make a simulator of its station.\<close>

lemma simulate_New_default:
  assumes "valid_config parse_url cfg"
  shows "\<exists>s. simulate_New (Some cfg) default_args = Inr s \<and> so_URL (sim_opts s) = csmsURLFromBind (ls_OCPPBind (cfg_Server cfg))
    \<and> so_ID (sim_opts s) = ch_ID (cfg_Charger cfg) \<and> so_Version (sim_opts s) = Version16
    \<and> so_Connectors (sim_opts s) = int (length (cfg_EVSEs cfg)) \<and> so_Vendor (sim_opts s) \<noteq> [] \<and> so_Model (sim_opts s) \<noteq> []
    \<and> so_Scenario (sim_opts s) = ScenarioNormal \<and> sim_station s = ''Available''
    \<and> sim_connectors s = map (\<lambda>i. (i, new_connector)) [1 .. int (length (cfg_EVSEs cfg))] \<and> sim_heartbeat s = fallbackHeartbeat"
proof -
  have "csmsURLFromBind (ls_OCPPBind (cfg_Server cfg)) \<noteq> []"
    using assms bind_address_splits by (auto simp: valid_config_def valid_server_def)
  moreover have "ch_ID (cfg_Charger cfg) \<noteq> []" using assms by (auto simp: valid_config_def valid_charger_def filled_def)
  moreover have "cfg_EVSEs cfg \<noteq> []" using assms by (simp add: valid_config_def valid_location_def)
  moreover have "newLogger ''info'' = Some LevelInfo" by code_simp
  moreover have "scenario_of (scenario_string ScenarioNormal) = ScenarioNormal" by code_simp
  ultimately show ?thesis
    by (auto simp: simulate_New_def simulate_defaults_def default_args_def simulate_options_def sim_New_def sim_applyDefaults_def
        sim_validate_def scenario_Valid_def Scenarios_def Version16_def Let_def)
qed

lemma fold_status_keys:
  "fold_key ''connectorId'' = ''connectorid''" "fold_key ''errorCode'' = ''errorcode''" "fold_key ''status'' = ''status''"
  "fold_key ''info'' = ''info''" "fold_key ''timestamp'' = ''timestamp''" "fold_key ''vendorId'' = ''vendorid''"
  "fold_key ''vendorErrorCode'' = ''vendorerrorcode''"
  by code_simp+

lemma dec_enc_StatusNotificationReq:
  "int64_range (sn_ConnectorID r) \<Longrightarrow> dec_StatusNotificationReq (enc_StatusNotificationReq r) = Some r"
  by (cases r) (simp add: dec_StatusNotificationReq_def enc_StatusNotificationReq_def EqualFold_def fold_status_keys)

text \<open>The daemon takes a status report of any connector with a status of the table.\<close>

lemma status_decodes:
  assumes "0 \<le> n" and "int64_range n" and "map_of statusMap status \<noteq> None"
  shows "decode_req je dec_StatusNotificationReq zero_StatusNotificationReq (Some (enc_StatusNotificationReq (status_req now n status)))
      = Inr (status_req now n status)"
    and "validate_StatusNotificationReq (status_req now n status) = None"
proof -
  have "status \<noteq> []" using assms(3) by (auto simp: statusMap_def)
  then show "validate_StatusNotificationReq (status_req now n status) = None"
    using assms by (simp add: validate_StatusNotificationReq_def status_req_def)
  have "dec_StatusNotificationReq (enc_StatusNotificationReq (status_req now n status)) = Some (status_req now n status)"
    using assms(2) by (intro dec_enc_StatusNotificationReq) (simp add: status_req_def)
  then show "decode_req je dec_StatusNotificationReq zero_StatusNotificationReq (Some (enc_StatusNotificationReq (status_req now n status)))
      = Inr (status_req now n status)" by (simp add: decode_req_def)
qed

lemma answered_status:
  assumes "answered_by cfg i p" and "0 \<le> n" and "int64_range n" and "map_of statusMap status \<noteq> None"
  shows "snd (sendStatus p n status w) = None"
proof -
  let ?p = "enc_StatusNotificationReq (status_req (pe_now p w) n status)"
  obtain w' env svc where c: "pe_call p ''StatusNotification'' ?p w = (w', csms_answers cfg env i svc ''StatusNotification'' ?p)"
    using assms(1) unfolding answered_by_def by (metis prod.collapse)
  have "csms_answers cfg env i svc ''StatusNotification'' ?p = Inr (enc_conf emptyConf)"
    by (simp add: csms_answers_def HandleCall_def statusNotification_def status_decodes [OF assms(2-4)])
  with c show ?thesis by (simp add: sendStatus_def)
qed

lemma reportInitialStatus_paired:
  assumes "sim_station s = ''Available''" and "sim_connectors s = map (\<lambda>i. (i, new_connector)) [1 .. so_Connectors (sim_opts s)]"
    and "int64_range (so_Connectors (sim_opts s))" and "answered_by cfg i p"
  shows "snd (reportInitialStatus p s w) = None"
proof -
  have av: "map_of statusMap ''Available'' \<noteq> None" by (simp add: statusMap_def)
  have one: "snd (sendStatus p n (ConnectorStatus s n) w) = None" if "n \<in> set [1 .. so_Connectors (sim_opts s)]" for n w
  proof -
    have "ConnectorStatus s n = ''Available''"
      using that by (simp add: ConnectorStatus_def assms(2) map_of_map_restrict new_connector_def)
    moreover have "0 \<le> n" "int64_range n" using that assms(3) by (auto simp: int64_range_def)
    ultimately show ?thesis using answered_status [OF assms(4)] av by simp
  qed
  have "snd (fold (\<lambda>i (w, err). case err of Some e \<Rightarrow> (w, Some e) | None \<Rightarrow> sendStatus p i (ConnectorStatus s i) w) ns x) = None"
    if "set ns \<subseteq> set [1 .. so_Connectors (sim_opts s)]" and "snd x = None" for ns x
    using that
  proof (induction ns arbitrary: x)
    case (Cons n ns)
    obtain v where x: "x = (v, None)" using Cons.prems(2) by (metis prod.collapse)
    have "snd (sendStatus p n (ConnectorStatus s n) v) = None" using Cons.prems(1) by (intro one) simp
    then show ?case using Cons.IH Cons.prems(1) x by simp
  qed simp
  then show ?thesis using answered_status [OF assms(4) _ _ av, of 0 w] by (simp add: reportInitialStatus_def assms(1) int64_range_def)
qed

text \<open>The simulator without flags connects to the daemon of its configuration.\<close>

lemma simulate_connects:
  assumes "valid_config parse_url cfg" and "0 \<le> d" and "int64_range d" and "Second \<le> d"
    and "int64_range (int (length (cfg_EVSEs cfg)))" and "answered_by cfg i p"
    and "parse_ws (csmsURLFromBind (ls_OCPPBind (cfg_Server cfg))) = Some u" and "u_Scheme u = ''ws''" and "u_Path u \<in> {[], ''/''}"
    and "dials (u\<lparr>u_Path := ''/ocpp/'' @ ch_ID (cfg_Charger cfg)\<rparr>) (Subprotocol Version16)"
    and d: "d = dur_dur (ch_HeartbeatInterval (cfg_Charger cfg))"
  shows "\<exists>s S w'. simulate_New (Some cfg) default_args = Inr s \<and> sim_Connect parse_ws dials p (new_session s) w = (S, w', None)
    \<and> ss_conn S = Some False \<and> ss_beating S \<and> \<not> ss_done S
    \<and> so_Scenario (sim_opts (ss_sim S)) = ScenarioNormal \<and> sim_heartbeat (ss_sim S) = whole_seconds d * Second"
proof -
  obtain s where s: "simulate_New (Some cfg) default_args = Inr s" "so_URL (sim_opts s) = csmsURLFromBind (ls_OCPPBind (cfg_Server cfg))"
      "so_ID (sim_opts s) = ch_ID (cfg_Charger cfg)" "so_Version (sim_opts s) = Version16"
      "so_Connectors (sim_opts s) = int (length (cfg_EVSEs cfg))" "so_Vendor (sim_opts s) \<noteq> []" "so_Model (sim_opts s) \<noteq> []"
      "so_Scenario (sim_opts s) = ScenarioNormal" "sim_station s = ''Available''"
      "sim_connectors s = map (\<lambda>i. (i, new_connector)) [1 .. int (length (cfg_EVSEs cfg))]"
    using simulate_New_default [OF assms(1)] by blast
  obtain w1 where b: "boot p s w = (s\<lparr>sim_heartbeat := whole_seconds d * Second\<rparr>, w1, None)"
    using boot_paired [OF s(6,7) _ _ assms(6), of w] assms(2-4) unfolding d by auto
  have "snd (reportInitialStatus p (s\<lparr>sim_heartbeat := whole_seconds d * Second\<rparr>) w1) = None"
    by (rule reportInitialStatus_paired [OF _ _ _ assms(6)]) (simp_all add: s assms(5))
  then obtain w' where "reportInitialStatus p (s\<lparr>sim_heartbeat := whole_seconds d * Second\<rparr>) w1 = (w', None)"
    by (metis prod.collapse)
  moreover have "endpoint parse_ws (sim_opts s) = Some (u\<lparr>u_Path := ''/ocpp/'' @ ch_ID (cfg_Charger cfg)\<rparr>)"
    using assms(7-9) s(2,3) by (auto simp: endpoint_def)
  ultimately have "sim_Connect parse_ws dials p (new_session s) w
      = (\<lparr>ss_sim = s\<lparr>sim_heartbeat := whole_seconds d * Second\<rparr>, ss_conn = Some False, ss_done = False, ss_beating = True\<rparr>, w', None)"
    using b assms(10) s(4) by (simp add: sim_Connect_def new_session_def)
  with s(1,8) show ?thesis by auto
qed

section \<open>The calls of a connecting station\<close>

text \<open>A peer that also keeps the calls made to it, in order.\<close>

definition logged :: "'w peer \<Rightarrow> ('w \<times> (string \<times> json) list) peer" where
  "logged p = \<lparr>pe_call = (\<lambda>action payload (w, calls). case pe_call p action payload w of (w', r) \<Rightarrow> ((w', calls @ [(action, payload)]), r)),
     pe_now = (\<lambda>(w, calls). pe_now p w)\<rparr>"

lemma logged_answered: "answered_by cfg i p \<Longrightarrow> answered_by cfg i (logged p)"
  by (auto simp: answered_by_def logged_def case_prod_unfold)

definition status_call :: "Simulator \<Rightarrow> int \<Rightarrow> gotime \<Rightarrow> string \<times> json" where
  "status_call s n t = (''StatusNotification'', enc_StatusNotificationReq (status_req t n (if n = 0 then sim_station s else ConnectorStatus s n)))"

lemma sendStatus_logged:
  "\<exists>w' err. sendStatus (logged p) n st (w, calls) =
     ((w', calls @ [(''StatusNotification'', enc_StatusNotificationReq (status_req (pe_now p w) n st))]), err)"
  by (simp add: sendStatus_def logged_def split: prod.split sum.split)

lemma report_logged:
  assumes "fold (\<lambda>i (w, err). case err of Some e \<Rightarrow> (w, Some e) | None \<Rightarrow> sendStatus (logged p) i (ConnectorStatus s i) w) ns ((w, calls), e0)
      = ((w', calls'), None)" and "0 \<notin> set ns"
  shows "e0 = None \<and> (\<exists>ts. length ts = length ns \<and> calls' = calls @ map2 (status_call s) ns ts)"
  using assms
proof (induction ns arbitrary: w calls e0)
  case (Cons n ns)
  obtain w1 e1 where n: "sendStatus (logged p) n (ConnectorStatus s n) (w, calls) =
      ((w1, calls @ [(''StatusNotification'', enc_StatusNotificationReq (status_req (pe_now p w) n (ConnectorStatus s n)))]), e1)"
    using sendStatus_logged [of p n "ConnectorStatus s n" w calls] by (elim exE)
  show ?case
  proof (cases e0)
    case None
    with Cons.prems n have "\<exists>ts. length ts = length ns \<and>
        calls' = (calls @ [(''StatusNotification'', enc_StatusNotificationReq (status_req (pe_now p w) n (ConnectorStatus s n)))]) @ map2 (status_call s) ns ts"
      by (intro conjunct2 [OF Cons.IH]) auto
    then obtain ts where "length ts = length ns" "calls' = calls @ map2 (status_call s) (n # ns) (pe_now p w # ts)"
      using Cons.prems(2) by (auto simp: status_call_def)
    with None show ?thesis by (metis length_Cons)
  next
    case (Some x)
    have "fold (\<lambda>i (w, err). case err of Some e \<Rightarrow> (w, Some e) | None \<Rightarrow> sendStatus (logged p) i (ConnectorStatus s i) w) ns ((w, calls), Some x)
        = ((w', calls'), None)" using Cons.prems(1) Some by simp
    then show ?thesis using Cons.IH [of w calls "Some x"] Cons.prems(2) by simp
  qed
qed simp

lemma boot_logged:
  assumes "boot (logged p) s (w, calls) = (s', (w', calls'), err)"
  shows "calls' = calls @ [(''BootNotification'', enc_BootNotificationReq (boot_req (sim_opts s)))]"
    and "sim_opts s' = sim_opts s" and "sim_station s' = sim_station s" and "sim_connectors s' = sim_connectors s"
  using assms by (auto simp: boot_def logged_def split: prod.splits sum.splits option.splits if_splits)

lemma Connect_calls:
  assumes "sim_Connect parse_url dials (logged p) (new_session s) (w, []) = (S, (w', calls), None)" and "0 \<le> so_Connectors (sim_opts s)"
  shows "\<exists>ts. length ts = length [0 .. so_Connectors (sim_opts s)]
    \<and> calls = (''BootNotification'', enc_BootNotificationReq (boot_req (sim_opts s))) # map2 (status_call s) [0 .. so_Connectors (sim_opts s)] ts"
proof -
  obtain s1 w1 calls1 where b: "boot (logged p) s (w, []) = (s1, (w1, calls1), None)"
    and c: "reportInitialStatus (logged p) s1 (w1, calls1) = ((w', calls), None)"
    using assms(1) by (auto simp: sim_Connect_def new_session_def Let_def split: option.splits if_splits prod.splits)
  note l = boot_logged [OF b]
  obtain w2 e where z: "sendStatus (logged p) 0 (sim_station s1) (w1, calls1) =
      ((w2, calls1 @ [(''StatusNotification'', enc_StatusNotificationReq (status_req (pe_now p w1) 0 (sim_station s1)))]), e)"
    using sendStatus_logged [of p 0 "sim_station s1" w1 calls1] by (elim exE)
  obtain ts where ts: "length ts = length [1 .. so_Connectors (sim_opts s)]"
    "calls = (calls1 @ [(''StatusNotification'', enc_StatusNotificationReq (status_req (pe_now p w1) 0 (sim_station s1)))])
       @ map2 (status_call s1) [1 .. so_Connectors (sim_opts s)] ts"
    using report_logged [OF c [unfolded reportInitialStatus_def z]] l(2) by auto
  have "status_call s1 = status_call s" using l by (auto simp: status_call_def fun_eq_iff ConnectorStatus_def)
  moreover have "[0 .. so_Connectors (sim_opts s)] = 0 # [1 .. so_Connectors (sim_opts s)]" using assms(2) upto_rec1 by fastforce
  ultimately have "length (pe_now p w1 # ts) = length [0 .. so_Connectors (sim_opts s)]"
    "calls = (''BootNotification'', enc_BootNotificationReq (boot_req (sim_opts s))) # map2 (status_call s) [0 .. so_Connectors (sim_opts s)] (pe_now p w1 # ts)"
    using ts l(1,3) by (simp_all add: status_call_def)
  then show ?thesis by blast
qed

text \<open>Without flags it has as many connectors as there are EVSEs, all of them free.\<close>

lemma simulate_calls:
  assumes "valid_config parse_url cfg" and "simulate_New (Some cfg) default_args = Inr s"
    and "sim_Connect parse_ws dials (logged p) (new_session s) (w, []) = (S, (w', calls), None)"
  shows "\<exists>ts. length ts = Suc (length (cfg_EVSEs cfg)) \<and> calls = (''BootNotification'', enc_BootNotificationReq (boot_req (sim_opts s)))
    # map2 (\<lambda>n t. (''StatusNotification'', enc_StatusNotificationReq (status_req t n ''Available''))) [0 .. int (length (cfg_EVSEs cfg))] ts"
proof -
  let ?n = "int (length (cfg_EVSEs cfg))"
  have s: "so_Connectors (sim_opts s) = ?n" "sim_station s = ''Available''" "sim_connectors s = map (\<lambda>i. (i, new_connector)) [1 .. ?n]"
    using simulate_New_default [OF assms(1)] assms(2) by auto
  obtain ts where ts: "length ts = length [0 .. ?n]"
    "calls = (''BootNotification'', enc_BootNotificationReq (boot_req (sim_opts s))) # map2 (status_call s) [0 .. ?n] ts"
    using Connect_calls [OF assms(3)] s(1) by auto
  have st: "status_call s n t = (''StatusNotification'', enc_StatusNotificationReq (status_req t n ''Available''))" if "n \<in> set [0 .. ?n]" for n t
    using that s(2,3) by (auto simp: status_call_def ConnectorStatus_def map_of_map_restrict new_connector_def)
  have "map2 (status_call s) [0 .. ?n] ts
      = map2 (\<lambda>n t. (''StatusNotification'', enc_StatusNotificationReq (status_req t n ''Available''))) [0 .. ?n] ts"
    by (rule map_cong [OF refl]) (use st in \<open>auto dest: set_zip_leftD\<close>)
  moreover have "length [0 .. ?n] = Suc (length (cfg_EVSEs cfg))" by simp
  ultimately show ?thesis using ts by metis
qed

end
