(* ===== verification/Simulator_Work.thy ===== *)
theory Simulator_Work
  imports Simulator_Life
begin

text \<open>
  The simulated station at work (\<open>internal/simulator\<close>): commands arrive, the functions handed to \<open>after\<close> wait for their turn and run or are
  dropped, heartbeats go out, and the station is closed. The goroutines it waits for in \<open>Wait\<close> are the reader of the connection, the
  heartbeat loop and one for each function handed to \<open>after\<close>.
\<close>

declare map_of_eq_Some_iff [simp del] Some_eq_map_of_iff [simp del]

section \<open>The state of the station\<close>

text \<open>Connectors are numbered from 1 without gaps, and meter readings are Go ints.\<close>

definition sim_wf :: "Simulator \<Rightarrow> bool" where
  [inv_defs]: "sim_wf s \<longleftrightarrow> m_keys (sim_connectors s) = [1 .. so_Connectors (sim_opts s)] \<and> int64_range (so_Connectors (sim_opts s))
     \<and> (\<forall>c \<in> set (m_vals (sim_connectors s)). int64_range (sc_meter c))"

lemma keys_put_same: "k \<in> set (m_keys m) \<Longrightarrow> m_keys (m_put k v m) = m_keys m"
  by (induction m) auto

lemma sim_New_wf: "sim_New opt = Inr s \<Longrightarrow> int64_range (so_Connectors opt) \<Longrightarrow> sim_wf s"
  by (auto simp: sim_New_def sim_wf_def Let_def new_connector_def sim_applyDefaults_def comp_def split: option.splits)

lemma sim_wf_lookup:
  assumes "sim_wf s" and "map_of (sim_connectors s) n = Some c"
  shows "1 \<le> n" and "int64_range n" and "int64_range (sc_meter c)" and "n \<in> set (m_keys (sim_connectors s))"
proof -
  have m: "(n, c) \<in> set (sim_connectors s)" using assms(2) by (rule map_of_SomeD)
  then show k: "n \<in> set (m_keys (sim_connectors s))" by force
  then have "n \<in> set [1 .. so_Connectors (sim_opts s)]" using assms(1) unfolding sim_wf_def by metis
  then show "1 \<le> n" "int64_range n" using assms(1) by (auto simp: sim_wf_def int64_range_def)
  show "int64_range (sc_meter c)" using assms(1) m by (force simp: sim_wf_def)
qed

lemma put_connector_wf:
  assumes "sim_wf s" and "map_of (sim_connectors s) n = Some c" and "int64_range (sc_meter c')"
  shows "sim_wf (put_connector n c' s)"
proof -
  note k = sim_wf_lookup(4) [OF assms(1,2)]
  have "x \<in> set (m_vals (m_put n c' (sim_connectors s))) \<Longrightarrow> x = c' \<or> x \<in> set (m_vals (sim_connectors s))" for x
    by (rule in_vals_put)
  then show ?thesis using assms(1,3) keys_put_same [OF k] by (fastforce simp: sim_wf_def put_connector_def)
qed

lemma put_connector_simps [simp]:
  "map_of (sim_connectors (put_connector n c s)) = (map_of (sim_connectors s))(n \<mapsto> c)"
  "sim_opts (put_connector n c s) = sim_opts s"
  "put_connector n c' (put_connector n c s) = put_connector n c' s"
  by (simp_all add: put_connector_def)

section \<open>Work that follows an answer\<close>

text \<open>What the station has taken on with a command: the effects of its handler.\<close>

definition sim_work :: "string \<Rightarrow> string \<Rightarrow> json \<Rightarrow> Simulator \<Rightarrow> sim_effect list" where
  "sim_work je action req s = snd (snd (sim_HandleCall Elapsed je action (Some req) s))"

definition run_work :: "'w peer \<Rightarrow> sim_effect list \<Rightarrow> Simulator \<Rightarrow> 'w \<Rightarrow> Simulator \<times> 'w" where
  "run_work p fx s w = fold (\<lambda>f (s, w). run_effect p f s w) fx (s, w)"

lemma sim_SetConnectorStatus_wf: "sim_wf s \<Longrightarrow> sim_wf (fst (sim_SetConnectorStatus p i st s w))"
proof -
  assume s: "sim_wf s"
  have "sim_wf (s\<lparr>sim_station := st\<rparr>)" using s by (simp add: sim_wf_def)
  moreover have "sim_wf (put_connector i (c\<lparr>sc_status := st\<rparr>) s)" if "map_of (sim_connectors s) i = Some c" for c
    using put_connector_wf [OF s that] sim_wf_lookup(3) [OF s that] by simp
  ultimately show ?thesis using s by (auto simp: sim_SetConnectorStatus_def split: option.split)
qed

lemma boot_wf: "sim_wf s \<Longrightarrow> sim_wf (fst (boot p s w))"
  by (auto simp: boot_def sim_wf_def split: prod.split sum.split option.split)

lemma sim_startTransaction_wf:
  assumes "sim_wf s"
  shows "sim_wf (fst (sim_startTransaction p i tag s w))"
proof (cases "map_of (sim_connectors s) i")
  case (Some c0)
  obtain s1 w1 e1 where p: "sim_SetConnectorStatus p i ''Preparing'' s w = (s1, w1, e1)" by (metis prod.collapse)
  then have s1: "sim_wf s1" using sim_SetConnectorStatus_wf [OF assms, of p i "''Preparing''" w] by simp
  have "sim_wf (put_connector i (c\<lparr>sc_transactionID := k, sc_reservationID := 0\<rparr>) s1)" if "map_of (sim_connectors s1) i = Some c" for c k
    using put_connector_wf [OF s1 that] sim_wf_lookup(3) [OF s1 that] by simp
  then show ?thesis using Some p s1
    by (auto simp: sim_startTransaction_def Let_def sim_SetConnectorStatus_wf split: option.split prod.split sum.split)
qed (use assms in \<open>simp add: sim_startTransaction_def\<close>)

lemma sim_stopTransaction_wf:
  assumes "sim_wf s"
  shows "sim_wf (fst (sim_stopTransaction p i reason s w))"
proof (cases "map_of (sim_connectors s) i")
  case (Some c)
  let ?s1 = "put_connector i (c\<lparr>sc_meter := wrap64 (sc_meter c + 1000), sc_transactionID := 0\<rparr>) s"
  have s1: "sim_wf ?s1" using put_connector_wf [OF assms Some] by (simp add: wrap64_range)
  have s2: "sim_wf s2" if "sim_SetConnectorStatus p i ''Finishing'' ?s1 w1 = (s2, w2, e2)" for s2 w1 w2 e2
    using sim_SetConnectorStatus_wf [OF s1, of p i "''Finishing''" w1] that by simp
  show ?thesis using Some assms s1 s2
    by (auto simp: sim_stopTransaction_def Let_def sim_SetConnectorStatus_wf split: option.split prod.split sum.split)
qed (use assms in \<open>simp add: sim_stopTransaction_def\<close>)

lemma run_effect_wf: "sim_wf s \<Longrightarrow> sim_wf (fst (run_effect p f s w))"
  using sim_startTransaction_wf sim_stopTransaction_wf boot_wf sim_SetConnectorStatus_wf
  by (cases f) (auto simp: split_beta)

text \<open>Two commands change the station at once; the others leave that to what follows.\<close>

lemma sim_commands_keep:
  "fst (sim_remoteStart je payload s) = s" "fst (sim_remoteStop je payload s) = s" "fst (sim_unlockConnector je payload s) = s"
  "fst (sim_triggerMessage je payload s) = s" "fst (sim_getConfiguration je payload s) = s" "fst (sim_changeAvailability je payload s) = s"
  by (auto simp: sim_remoteStart_def sim_remoteStop_def sim_unlockConnector_def sim_triggerMessage_def sim_getConfiguration_def
      sim_changeAvailability_def Let_def split: sum.split option.split)

lemma sim_HandleCall_wf:
  assumes "sim_wf s"
  shows "sim_wf (fst (sim_HandleCall stalled je action payload s))"
proof -
  have r: "sim_wf (put_connector i (c\<lparr>sc_reservationID := k, sc_status := st\<rparr>) s)" if "map_of (sim_connectors s) i = Some c" for i c k st
    using put_connector_wf [OF assms that] sim_wf_lookup(3) [OF assms that] by simp
  have "sim_wf (fst (sim_reserveNow je payload s))"
    using r assms by (auto simp: sim_reserveNow_def split: sum.split option.split)
  moreover have "sim_wf (fst (sim_cancelReservation je payload s))"
  proof -
    have d: "distinct (m_keys (sim_connectors s))" using assms by (simp add: sim_wf_def)
    have "map_of (sim_connectors s) i = Some c" if "List.find Q (sim_connectors s) = Some (i, c)" for Q i c
      using d find_in_set [OF that] by (simp add: map_of_eq_Some_iff)
    then show ?thesis using r assms by (auto simp: sim_cancelReservation_def split: sum.split option.split)
  qed
  ultimately show ?thesis using assms by (simp add: sim_HandleCall_def sim_commands_keep)
qed

section \<open>The goroutines\<close>

record 'w sim_run =
  sr_session :: sim_session
  sr_world :: 'w
  sr_pending :: "sim_effect list"
  sr_reading :: bool

definition start_run :: "sim_session \<Rightarrow> 'w \<Rightarrow> 'w sim_run" where
  "start_run S w = \<lparr>sr_session = S, sr_world = w, sr_pending = [], sr_reading = True\<rparr>"

text \<open>
  One step: a command is answered, while the reader and its handlers are there; a function handed to \<open>after\<close> has waited for
  \<open>commandSettle\<close> and runs, or finds \<open>done\<close> closed and does not; a heartbeat; \<open>Close\<close>; the reader ends, for whatever
  reason, and closes the simulator; the heartbeat loop ends. Once \<open>done\<close> is closed a waiting function whose time has come may still run:
  the \<open>select\<close> takes either.
\<close>

inductive work_step :: "'w peer \<Rightarrow> 'w sim_run \<Rightarrow> 'w sim_run \<Rightarrow> bool" for p :: "'w peer" where
  command: "sr_reading R \<Longrightarrow> sim_HandleCall stalled je action payload (ss_sim (sr_session R)) = (s', reply, fx)
    \<Longrightarrow> work_step p R (R\<lparr>sr_session := (sr_session R)\<lparr>ss_sim := s'\<rparr>, sr_pending := sr_pending R @ fx\<rparr>)"
| settled: "sr_pending R = fs @ f # gs \<Longrightarrow> run_effect p f (ss_sim (sr_session R)) (sr_world R) = (s', w')
    \<Longrightarrow> work_step p R (R\<lparr>sr_session := (sr_session R)\<lparr>ss_sim := s'\<rparr>, sr_world := w', sr_pending := fs @ gs\<rparr>)"
| dropped: "sr_pending R = fs @ f # gs \<Longrightarrow> ss_done (sr_session R) \<Longrightarrow> work_step p R (R\<lparr>sr_pending := fs @ gs\<rparr>)"
| beat: "ss_beating (sr_session R) \<Longrightarrow> so_Scenario (sim_opts (ss_sim (sr_session R))) \<noteq> ScenarioSilent
    \<Longrightarrow> work_step p R (R\<lparr>sr_world := fst (pe_call p ''Heartbeat'' (JObj []) (sr_world R))\<rparr>)"
| close: "work_step p R (R\<lparr>sr_session := sim_Close (sr_session R)\<rparr>)"
| reader_ends: "sr_reading R \<Longrightarrow> work_step p R (R\<lparr>sr_session := sim_Close (sr_session R), sr_reading := False\<rparr>)"
| beat_ends: "ss_beating (sr_session R) \<Longrightarrow> work_step p R (R\<lparr>sr_session := (sr_session R)\<lparr>ss_beating := False\<rparr>\<rparr>)"

inductive_cases work_stepE: "work_step p R R'"

definition Wait_returns :: "'w sim_run \<Rightarrow> bool" where
  "Wait_returns R \<longleftrightarrow> sr_pending R = [] \<and> \<not> sr_reading R \<and> \<not> ss_beating (sr_session R)"

definition run_inv :: "'w sim_run \<Rightarrow> bool" where
  [inv_defs]: "run_inv R \<longleftrightarrow> sim_wf (ss_sim (sr_session R)) \<and> session_inv (sr_session R) \<and> (\<not> sr_reading R \<longrightarrow> ss_done (sr_session R))"

lemma sim_Close_fields [simp]:
  "ss_sim (sim_Close S) = ss_sim S" "ss_done (sim_Close S)" "ss_beating (sim_Close S) = ss_beating S"
  by (simp_all add: sim_Close_def)

lemma session_inv_simps [simp]:
  "session_inv (S\<lparr>ss_sim := s\<rparr>) = session_inv S" "session_inv (S\<lparr>ss_beating := b\<rparr>) = session_inv S"
  by (simp_all add: session_inv_def)

lemma work_step_inv:
  assumes "work_step p R R'" and "run_inv R"
  shows "run_inv R'"
  using assms
proof (cases rule: work_step.cases)
  case (command stalled je action payload s' reply fx)
  then show ?thesis using assms(2) sim_HandleCall_wf [of "ss_sim (sr_session R)" stalled je action payload] by (simp add: run_inv_def)
next
  case (settled fs f gs s' w')
  then show ?thesis using assms(2) run_effect_wf [of "ss_sim (sr_session R)" p f "sr_world R"] by (simp add: run_inv_def)
qed (auto simp: run_inv_def sim_Close_inv)

lemma work_steps_inv: "(work_step p)\<^sup>*\<^sup>* R R' \<Longrightarrow> run_inv R \<Longrightarrow> run_inv R'"
  by (induction rule: rtranclp_induct) (auto intro: work_step_inv)

text \<open>
  \<open>Close\<close> does not wait for anything, \<open>Wait\<close> does: once the simulator is closed and its reader gone, no work is added, \<open>done\<close> stays closed,
  and whatever waits can end at once, without another call, in a state in which \<open>Wait\<close> returns.
\<close>

lemma closed_adds_nothing:
  assumes "work_step p R R'" and "\<not> sr_reading R" and "ss_done (sr_session R)"
  shows "mset (sr_pending R') \<subseteq># mset (sr_pending R)" and "\<not> sr_reading R'" and "ss_done (sr_session R')"
  using assms by (cases rule: work_step.cases; auto)+

lemma drop_all:
  assumes "ss_done (sr_session R)"
  shows "(work_step p)\<^sup>*\<^sup>* R (R\<lparr>sr_pending := []\<rparr>)"
  using assms
proof (induction "sr_pending R" arbitrary: R)
  case Nil
  then have "R\<lparr>sr_pending := []\<rparr> = R" by (cases R) simp
  then show ?case by simp
next
  case (Cons f gs)
  have "work_step p R (R\<lparr>sr_pending := [] @ gs\<rparr>)" using Cons.hyps(2) Cons.prems by (intro work_step.dropped [where f = f]) simp_all
  moreover have "(work_step p)\<^sup>*\<^sup>* (R\<lparr>sr_pending := gs\<rparr>) (R\<lparr>sr_pending := gs\<rparr>\<lparr>sr_pending := []\<rparr>)"
    using Cons.prems by (intro Cons.hyps(1)) simp_all
  ultimately show ?case by (simp add: converse_rtranclp_into_rtranclp)
qed

lemma shutdown_completes:
  assumes "ss_done (sr_session R)"
  shows "\<exists>R'. (work_step p)\<^sup>*\<^sup>* R R' \<and> Wait_returns R' \<and> sr_world R' = sr_world R \<and> ss_sim (sr_session R') = ss_sim (sr_session R)"
proof -
  define R1 where "R1 = R\<lparr>sr_session := if sr_reading R then sim_Close (sr_session R) else sr_session R, sr_reading := False\<rparr>"
  define R2 where "R2 = R1\<lparr>sr_session := (sr_session R1)\<lparr>ss_beating := False\<rparr>\<rparr>"
  have "(work_step p)\<^sup>*\<^sup>* R R1"
  proof (cases "sr_reading R")
    case True
    then show ?thesis unfolding R1_def by (simp add: r_into_rtranclp work_step.reader_ends)
  next
    case False
    then have "R1 = R" unfolding R1_def by (cases R) simp
    then show ?thesis by simp
  qed
  also have "(work_step p)\<^sup>*\<^sup>* R1 R2"
  proof (cases "ss_beating (sr_session R1)")
    case True
    then show ?thesis unfolding R2_def by (simp add: r_into_rtranclp work_step.beat_ends)
  next
    case False
    then have "(sr_session R1)\<lparr>ss_beating := False\<rparr> = sr_session R1" by (cases "sr_session R1") simp
    then have "R2 = R1" unfolding R2_def by (cases R1) simp
    then show ?thesis by simp
  qed
  also have "(work_step p)\<^sup>*\<^sup>* R2 (R2\<lparr>sr_pending := []\<rparr>)" using assms by (intro drop_all) (simp add: R1_def R2_def)
  finally have "(work_step p)\<^sup>*\<^sup>* R (R2\<lparr>sr_pending := []\<rparr>)" .
  then show ?thesis by (intro exI [of _ "R2\<lparr>sr_pending := []\<rparr>"]) (simp add: R1_def R2_def Wait_returns_def)
qed

end
