(* ===== verification/Remote_Session.thy ===== *)
theory Remote_Session
  imports Simulate Simulator_Work Control
begin

text \<open>
  A charging session from the operator's command to its end, through every part it passes:
  \<open>control\<close> asks the station, the station accepts and does the work once its answer is out (\<open>after\<close> in
  \<open>internal/simulator/handlers.go\<close>), its reports are calls on the daemon, and the daemon's handler tells core.
\<close>

declare map_of_eq_Some_iff [simp del] Some_eq_map_of_iff [simp del]

section \<open>The sessions core knows\<close>

definition running_on :: "Service \<Rightarrow> string \<Rightarrow> (string \<times> string \<times> Transaction) set" where
  "running_on s uid = {(cp, i, tx). sessions s cp i = Some tx \<and> tx_EVSEUID tx = uid \<and> tx_Active tx}"

definition keyed_sessions :: "Service \<Rightarrow> ((string \<times> string) \<times> Transaction) list" where
  "keyed_sessions s = concat (map (\<lambda>(k, cp). map (\<lambda>(i, t). ((k, i), t)) (cp_transactions cp)) (svc_cps s))"

lemma ActiveTransactions_keyed:
  "ActiveTransactions s uid = map snd (filter (\<lambda>(k, t). tx_EVSEUID t = uid \<and> tx_Active t) (keyed_sessions s))"
  by (simp add: ActiveTransactions_def keyed_sessions_def filter_concat map_concat comp_def split_beta filter_map)

lemma svc_inv_cps: "svc_inv s \<Longrightarrow> distinct (m_keys (svc_cps s))"
  by (simp add: svc_inv_def cps_inv_def)

lemma svc_inv_txs: "svc_inv s \<Longrightarrow> map_of (svc_cps s) k = Some cp \<Longrightarrow> distinct (m_keys (cp_transactions cp))"
  using svc_inv_ensure [of s k] by (simp add: ensure_def cp_ok_def cp_inv_def)

lemma keyed_sessions_iff:
  assumes "svc_inv s"
  shows "((k, i), t) \<in> set (keyed_sessions s) \<longleftrightarrow> sessions s k i = Some t"
proof -
  note d = svc_inv_cps [OF assms]
  have "((k, i), t) \<in> set (keyed_sessions s) \<longleftrightarrow> (\<exists>cp. (k, cp) \<in> set (svc_cps s) \<and> (i, t) \<in> set (cp_transactions cp))"
    by (force simp: keyed_sessions_def)
  also have "\<dots> \<longleftrightarrow> (\<exists>cp. map_of (svc_cps s) k = Some cp \<and> map_of (cp_transactions cp) i = Some t)"
    using d svc_inv_txs [OF assms] by (auto simp: map_of_eq_Some_iff)
  also have "\<dots> \<longleftrightarrow> sessions s k i = Some t"
    by (auto simp: sessions_def ensure_def newChargePoint_def split: option.splits)
  finally show ?thesis .
qed

lemma keyed_sessions_distinct:
  assumes "svc_inv s"
  shows "distinct (keyed_sessions s)"
proof -
  have one: "distinct (map (\<lambda>(i, t). ((k, i), t)) ts)" if "distinct (m_keys ts)" for k :: string and ts :: "(string \<times> Transaction) list"
    using that by (auto simp: distinct_map inj_on_def)
  have "distinct (concat (map (\<lambda>(k, cp). map (\<lambda>(i, t). ((k, i), t)) (cp_transactions cp)) cs))"
    if "distinct (m_keys cs)" and "\<And>k cp. (k, cp) \<in> set cs \<Longrightarrow> distinct (m_keys (cp_transactions cp))"
    for cs :: "(string \<times> chargePointState) list"
    using that
  proof (induction cs)
    case (Cons c cs)
    obtain k cp where c: "c = (k, cp)" by (cases c)
    have "k \<notin> fst ` set cs" using Cons.prems(1) c by simp
    then have "set (map (\<lambda>(i, t). ((k, i), t)) (cp_transactions cp))
        \<inter> set (concat (map (\<lambda>(k, cp). map (\<lambda>(i, t). ((k, i), t)) (cp_transactions cp)) cs)) = {}" by force
    moreover have "distinct (map (\<lambda>(i, t). ((k, i), t)) (cp_transactions cp))" using Cons.prems(2) [of k cp] c by (intro one) simp
    moreover have "distinct (concat (map (\<lambda>(k, cp). map (\<lambda>(i, t). ((k, i), t)) (cp_transactions cp)) cs))"
      by (rule Cons.IH) (use Cons.prems(1) in simp, rule Cons.prems(2), rule list.set_intros(2))
    ultimately show ?case using c by simp
  qed simp
  then show ?thesis
    using svc_inv_cps [OF assms] svc_inv_txs [OF assms] by (auto simp: keyed_sessions_def map_of_eq_Some_iff)
qed

lemma ActiveTransactions_none:
  assumes "svc_inv s"
  shows "ActiveTransactions s uid = [] \<longleftrightarrow> running_on s uid = {}"
proof -
  have "ActiveTransactions s uid = [] \<longleftrightarrow> (\<forall>k i t. ((k, i), t) \<in> set (keyed_sessions s) \<longrightarrow> \<not> (tx_EVSEUID t = uid \<and> tx_Active t))"
    by (auto simp: ActiveTransactions_keyed filter_empty_conv)
  then show ?thesis by (auto simp: keyed_sessions_iff [OF assms] running_on_def)
qed

lemma distinct_set_one: "distinct xs \<Longrightarrow> set xs = {x} \<Longrightarrow> xs = [x]"
proof (cases xs)
  case (Cons y ys)
  assume "distinct xs" "set xs = {x}"
  then have "y = x" "x \<notin> set ys" "set ys \<subseteq> {x}" using Cons by auto
  then have "y = x" "set ys = {}" by (auto simp: subset_singleton_iff)
  then show ?thesis using Cons by simp
qed simp

lemma ActiveTransactions_one:
  assumes "svc_inv s" and "running_on s uid = {(c, i, tx)}"
  shows "ActiveTransactions s uid = [tx]"
proof -
  let ?P = "\<lambda>(k, t). tx_EVSEUID t = uid \<and> tx_Active t"
  have "x \<in> set (filter ?P (keyed_sessions s)) \<longleftrightarrow> x = ((c, i), tx)" for x
  proof -
    obtain k j t where x: "x = ((k, j), t)" by (metis prod.collapse)
    have "(k, j, t) \<in> running_on s uid \<longleftrightarrow> k = c \<and> j = i \<and> t = tx" using assms(2) by simp
    then show ?thesis using keyed_sessions_iff [OF assms(1), of k j t] by (auto simp: x running_on_def)
  qed
  then have "set (filter ?P (keyed_sessions s)) = {((c, i), tx)}" by blast
  then have "filter ?P (keyed_sessions s) = [((c, i), tx)]"
    by (intro distinct_set_one distinct_filter keyed_sessions_distinct [OF assms(1)])
  then show ?thesis by (simp add: ActiveTransactions_keyed)
qed

section \<open>What the station's calls do to core\<close>

text \<open>
  Two states of core with the same sessions, and the goroutines that leave the sessions alone: what else the daemon
  does while the station reports (reservations made, ended or expiring, other reports) is of that kind.
\<close>

definition same_sessions :: "Service \<Rightarrow> Service \<Rightarrow> bool" where
  "same_sessions s s' \<longleftrightarrow> svc_inv s' \<and> svc_cfg s' = svc_cfg s \<and> sessions s' = sessions s \<and> svc_nextTransactionID s' = svc_nextTransactionID s"

definition quiet :: "(nat \<Rightarrow> Service \<Rightarrow> Service) \<Rightarrow> bool" where
  "quiet others \<longleftrightarrow> (\<forall>n s. svc_inv s \<longrightarrow> same_sessions s (others n s))"

lemma same_sessions_refl: "svc_inv s \<Longrightarrow> same_sessions s s"
  by (simp add: same_sessions_def)

lemma same_sessions_trans: "same_sessions s t \<Longrightarrow> same_sessions t u \<Longrightarrow> same_sessions s u"
  by (simp add: same_sessions_def)

lemma running_on_same: "same_sessions s s' \<Longrightarrow> running_on s' uid = running_on s uid"
  by (simp add: same_sessions_def running_on_def)

lemma SetConnectorStatus_same:
  assumes "svc_inv s"
  shows "same_sessions s (SetConnectorStatus now i c st err s)"
proof -
  let ?cp = "(ensure s i)\<lparr>cp_lastSeen := now\<rparr>"
  obtain cp1 evs1 where a: "apply_status now s i c st err ?cp = (cp1, evs1)" by (rule prod.exhaust)
  obtain cp2 evs2 where r: "recompute now cp1 = (cp2, evs2)" by (rule prod.exhaust)
  have "cp_inv ?cp" using cp_ok_dest [OF svc_inv_ensure [OF assms, of i]] by simp
  then have "cp_transactions cp2 = cp_transactions (ensure s i)"
    using apply_status_inv(3) [OF _ a] recompute_fields(5) [OF r] by simp
  then have "sessions (SetConnectorStatus now i c st err s) = sessions s"
    by (auto simp: SetConnectorStatus_def a r sessions_def fun_eq_iff)
  moreover have "svc_cfg (SetConnectorStatus now i c st err s) = svc_cfg s"
    "svc_nextTransactionID (SetConnectorStatus now i c st err s) = svc_nextTransactionID s"
    by (simp_all add: SetConnectorStatus_def a r put_cp_def)
  ultimately show ?thesis using SetConnectorStatus_inv [OF assms] by (simp add: same_sessions_def)
qed

text \<open>A status report is taken and leaves the sessions as they are.\<close>

lemma daemon_status:
  assumes "quiet others" and "svc_inv (dm_core d)" and "0 \<le> n" and "int64_range n" and "map_of statusMap status \<noteq> None"
  shows "\<exists>d'. sendStatus (daemon_peer cfg env others i clock) n status d = (d', None) \<and> same_sessions (dm_core d) (dm_core d')"
proof -
  let ?s = "others (dm_calls d) (dm_core d)" and ?req = "status_req (clock (dm_calls d)) n status"
  have s: "same_sessions (dm_core d) ?s" using assms(1,2) by (simp add: quiet_def)
  have h: "HandleCall cfg (env (dm_calls d)) i ''StatusNotification'' (Some (enc_StatusNotificationReq ?req)) ?s
      = (SetConnectorStatus (ce_now (env (dm_calls d))) i n (MapStatus status) ''NoError'' ?s, Inr emptyConf)"
    by (simp add: HandleCall_def statusNotification_def status_decodes [OF assms(3-5)]) (simp add: status_req_def)
  have "svc_inv ?s" using s by (simp add: same_sessions_def)
  from SetConnectorStatus_same [OF this] same_sessions_trans [OF s] show ?thesis
    by (simp add: sendStatus_def daemon_peer_def daemon_call_def Let_def csms_answers_def h del: enc_conf.simps)
qed

lemma daemon_sets_status:
  assumes "quiet others" and "svc_inv (dm_core d)" and "1 \<le> n" and "int64_range n" and "map_of statusMap status \<noteq> None"
    and "map_of (sim_connectors s) n = Some c"
  shows "\<exists>d'. sim_SetConnectorStatus (daemon_peer cfg env others i clock) n status s d = (put_connector n (c\<lparr>sc_status := status\<rparr>) s, d', None)
    \<and> same_sessions (dm_core d) (dm_core d')"
  using daemon_status [OF assms(1,2) _ assms(4,5), of cfg env i clock] assms(3,6) by (auto simp: sim_SetConnectorStatus_def)

lemma fold_session_keys:
  "fold_key ''connectorId'' = ''connectorid''" "fold_key ''idTag'' = ''idtag''" "fold_key ''meterStart'' = ''meterstart''"
  "fold_key ''timestamp'' = ''timestamp''" "fold_key ''reservationId'' = ''reservationid''"
  "fold_key ''transactionId'' = ''transactionid''" "fold_key ''idTagInfo'' = ''idtaginfo''" "fold_key ''meterStop'' = ''meterstop''"
  "fold_key ''reason'' = ''reason''" "fold_key ''status'' = ''status''" "fold_key ''expiryDate'' = ''expirydate''"
  "fold_key ''parentIdTag'' = ''parentidtag''" "fold_key ''transactionData'' = ''transactiondata''"
  by code_simp+

lemma dec_enc_StartTransactionReq:
  "int64_range (sq_ConnectorID r) \<Longrightarrow> int64_range (sq_MeterStart r) \<Longrightarrow> sq_ReservationID r = None
   \<Longrightarrow> dec_StartTransactionReq (enc_StartTransactionReq r) = Some r"
  by (cases r) (simp add: dec_StartTransactionReq_def enc_StartTransactionReq_def zero_StartTransactionReq_def EqualFold_def fold_session_keys dec_pointer_def)

lemma dec_enc_StopTransactionReq:
  "int64_range (sp_TransactionID r) \<Longrightarrow> int64_range (sp_MeterStop r) \<Longrightarrow> dec_StopTransactionReq (enc_StopTransactionReq r) = Some r"
  by (cases r) (simp add: dec_StopTransactionReq_def enc_StopTransactionReq_def zero_StopTransactionReq_def EqualFold_def fold_session_keys)

lemma dec_enc_StartTransactionConf:
  "int64_range i \<Longrightarrow> dec_StartTransactionConf (enc_conf (StartTransactionConf i (tag_info st))) = Some (i, tag_info st)"
  by (simp add: dec_StartTransactionConf_def dec_IDTagInfo_def enc_IDTagInfo_def tag_info_def EqualFold_def fold_session_keys)

lemma StartTransaction_others: "j \<noteq> cpID \<Longrightarrow> sessions (fst (StartTransaction w now cpID t s)) j = sessions s j"
  unfolding StartTransaction_def Let_def StartTransaction_locked_eq by (simp add: sessions_def)

lemma StartTransaction_frame:
  "svc_cfg (fst (StartTransaction w now cpID t s)) = svc_cfg s"
  "svc_nextTransactionID (fst (StartTransaction w now cpID t s)) = svc_nextTransactionID s"
  unfolding StartTransaction_def Let_def StartTransaction_locked_eq by (simp_all add: put_cp_def)

text \<open>A start with the known tag: the answer's id is new, and the running session is recorded under it.\<close>

lemma daemon_start:
  assumes "quiet others" and "svc_inv (dm_core d)" and "svc_nextTransactionID (dm_core d) < max_int64"
    and "1 \<le> n" and "int64_range n" and "int64_range m" and "tag \<noteq> []" and "knownTag cfg tag"
  defines "txid \<equiv> svc_nextTransactionID (dm_core d)"
  shows "\<exists>d' tx. daemon_call cfg env others i ''StartTransaction'' (enc_StartTransactionReq (start_req n tag m now)) d
      = (d', Inr (enc_conf (StartTransactionConf txid (tag_info AuthAccepted))))
    \<and> svc_inv (dm_core d') \<and> svc_cfg (dm_core d') = svc_cfg (dm_core d)
    \<and> sessions (dm_core d') = (sessions (dm_core d))(i := (sessions (dm_core d) i)(Itoa txid \<mapsto> tx))
    \<and> tx_Active tx \<and> tx_ID tx = Itoa txid \<and> tx_IDTag tx = tag \<and> tx_EVSEUID tx = evseUID (dm_core d) i n"
proof -
  let ?e = "env (dm_calls d)" and ?s = "others (dm_calls d) (dm_core d)" and ?req = "start_req n tag m now"
  let ?s1 = "fst (persist (ce_write1 ?e) (?s\<lparr>svc_nextTransactionID := wrap64 (svc_nextTransactionID ?s + 1)\<rparr>))"
  let ?t = "start_of_req ?e ?req (svc_nextTransactionID ?s)"
  let ?tx = "snd (StartTransaction (ce_write2 ?e) (ce_now ?e) i ?t ?s1)"
  have s: "same_sessions (dm_core d) ?s" using assms(1,2) by (simp add: quiet_def)
  have "decode_req (ce_jsonErr ?e) dec_StartTransactionReq zero_StartTransactionReq (Some (enc_StartTransactionReq ?req)) = Inr ?req"
    using dec_enc_StartTransactionReq [of ?req] assms(5,6) by (simp add: decode_req_def start_req_def)
  moreover have "validate_StartTransactionReq ?req = None" "knownTag cfg (StartTransactionReq.sq_IDTag ?req)"
    using assms(4,7,8) by (simp_all add: validate_StartTransactionReq_def start_req_def)
  ultimately have h: "HandleCall cfg ?e i ''StartTransaction'' (Some (enc_StartTransactionReq ?req)) ?s
      = (fst (StartTransaction (ce_write2 ?e) (ce_now ?e) i ?t ?s1), Inr (StartTransactionConf (svc_nextTransactionID ?s) (tag_info AuthAccepted)))"
    by (rule accepted_start)
  have e: "sessions ?s1 = sessions (dm_core d)" using s by (simp add: sessions_def same_sessions_def fun_eq_iff)
  have u: "evseUID ?s1 = evseUID (dm_core d)" using s by (intro evseUID_cfg) (simp add: same_sessions_def)
  have n: "svc_nextTransactionID ?s = txid" using s by (simp add: same_sessions_def txid_def)
  note f = StartTransaction_effect [of "ce_write2 ?e" "ce_now ?e" i ?t ?s1, unfolded e u]
  let ?s2 = "fst (StartTransaction (ce_write2 ?e) (ce_now ?e) i ?t ?s1)"
  have "sessions ?s2 = (sessions (dm_core d))(i := (sessions (dm_core d) i)(Itoa txid \<mapsto> ?tx))"
  proof
    fix j
    show "sessions ?s2 j = ((sessions (dm_core d))(i := (sessions (dm_core d) i)(Itoa txid \<mapsto> ?tx))) j"
      using f(1) StartTransaction_others [of j i "ce_write2 ?e" "ce_now ?e" ?t ?s1] e n
      by (cases "j = i") (simp_all add: start_of_req_def)
  qed
  moreover have "svc_inv ?s2"
  proof -
    have "svc_inv ?s" "svc_nextTransactionID ?s < max_int64" using s assms(3) by (simp_all add: same_sessions_def)
    from HandleCall_inv [OF this, of cfg ?e i "''StartTransaction''" "Some (enc_StartTransactionReq ?req)"] show ?thesis by (simp add: h)
  qed
  moreover have "svc_cfg ?s2 = svc_cfg (dm_core d)" using s by (simp add: StartTransaction_frame same_sessions_def)
  moreover have "tx_Active ?tx" "tx_ID ?tx = Itoa txid" "tx_IDTag ?tx = tag" "tx_EVSEUID ?tx = evseUID (dm_core d) i n"
    using f(3-6) n by (simp_all add: start_of_req_def start_req_def)
  ultimately show ?thesis
    by (intro exI [of _ "\<lparr>dm_core = ?s2, dm_calls = Suc (dm_calls d)\<rparr>"] exI [of _ ?tx])
       (simp add: daemon_call_def Let_def csms_answers_def h n del: enc_conf.simps)
qed

text \<open>A stop of a running session: the session is recorded as stopped, with the reading and the reason.\<close>

lemma daemon_stop:
  assumes "quiet others" and "svc_inv (dm_core d)" and "int64_range k" and "int64_range m"
    and "\<And>n. \<not> IsZero (ce_now (env n))" and "sessions (dm_core d) i (Itoa k) = Some t0" and "tx_Active t0"
  shows "\<exists>d' t conf. daemon_call cfg env others i ''StopTransaction'' (enc_StopTransactionReq (stop_req k m reason now)) d = (d', Inr conf)
    \<and> svc_inv (dm_core d') \<and> svc_cfg (dm_core d') = svc_cfg (dm_core d)
    \<and> sessions (dm_core d') = (sessions (dm_core d))(i := (sessions (dm_core d) i)(Itoa k \<mapsto> t))
    \<and> \<not> tx_Active t \<and> tx_MeterStop t = m \<and> tx_Reason t = reason \<and> tx_EVSEUID t = tx_EVSEUID t0 \<and> tx_IDTag t = tx_IDTag t0"
proof -
  let ?e = "env (dm_calls d)" and ?s = "others (dm_calls d) (dm_core d)" and ?req = "stop_req k m reason now"
  let ?at = "parseTime (sp_Timestamp ?req) (ce_now ?e)"
  let ?t = "t0\<lparr>tx_StoppedAt := (if IsZero ?at then ce_now ?e else ?at), tx_MeterStop := m, tx_Reason := reason\<rparr>"
  let ?s2 = "fst (StopTransaction (ce_write1 ?e) (ce_now ?e) i (Itoa k) m reason ?at ?s)"
  have s: "same_sessions (dm_core d) ?s" using assms(1,2) by (simp add: quiet_def)
  have "dec_StopTransactionReq (enc_StopTransactionReq ?req) = Some ?req"
    using assms(3,4) by (intro dec_enc_StopTransactionReq) (simp_all add: stop_req_def)
  then have h: "HandleCall cfg ?e i ''StopTransaction'' (Some (enc_StopTransactionReq ?req)) ?s = (?s2, Inr (StopTransactionConf None))"
    by (simp add: HandleCall_def stopTransaction_def decode_req_def) (simp add: stop_req_def)
  have t0: "map_of (cp_transactions (ensure ?s i)) (Itoa k) = Some t0" using s assms(6) unfolding same_sessions_def by (metis sessions_def)
  have "sessions ?s2 = (sessions ?s)(i := (sessions ?s i)(Itoa k \<mapsto> ?t))"
    using t0 assms(7) by (auto simp: StopTransaction_def StopTransaction_locked_def Let_def sessions_def fun_eq_iff)
  then have "sessions ?s2 = (sessions (dm_core d))(i := (sessions (dm_core d) i)(Itoa k \<mapsto> ?t))" using s by (simp add: same_sessions_def)
  moreover have "svc_cfg ?s2 = svc_cfg (dm_core d)" using s t0 assms(7)
    by (simp add: StopTransaction_def StopTransaction_locked_def Let_def same_sessions_def put_cp_def)
  moreover have "svc_inv ?s2" using s by (intro StopTransaction_inv) (simp add: same_sessions_def)
  moreover have "\<not> tx_Active ?t" using assms(5) by (simp add: tx_Active_def)
  ultimately show ?thesis
    by (intro exI [of _ "\<lparr>dm_core = ?s2, dm_calls = Suc (dm_calls d)\<rparr>"] exI [of _ ?t] exI [of _ "enc_conf (StopTransactionConf None)"])
       (simp add: daemon_call_def Let_def csms_answers_def h del: enc_conf.simps)
qed

section \<open>The station's work\<close>

text \<open>The work of an accepted start and of an accepted stop, against the daemon.\<close>

lemma statuses_known:
  "map_of statusMap ''Available'' \<noteq> None" "map_of statusMap ''Preparing'' \<noteq> None" "map_of statusMap ''Charging'' \<noteq> None"
  "map_of statusMap ''Finishing'' \<noteq> None"
  by (simp_all add: statusMap_def)

lemma station_starts:
  assumes "sim_wf s" and "map_of (sim_connectors s) n = Some c" and "quiet others" and "svc_inv (dm_core d)"
    and "svc_nextTransactionID (dm_core d) < max_int64" and "tag \<noteq> []" and "knownTag cfg tag"
  defines "txid \<equiv> svc_nextTransactionID (dm_core d)"
  shows "\<exists>d' tx. run_effect (daemon_peer cfg env others i clock) (StartSession n tag) s d
      = (put_connector n (c\<lparr>sc_transactionID := txid, sc_reservationID := 0, sc_status := ''Charging''\<rparr>) s, d')
    \<and> svc_inv (dm_core d') \<and> svc_cfg (dm_core d') = svc_cfg (dm_core d)
    \<and> sessions (dm_core d') = (sessions (dm_core d))(i := (sessions (dm_core d) i)(Itoa txid \<mapsto> tx))
    \<and> tx_Active tx \<and> tx_ID tx = Itoa txid \<and> tx_IDTag tx = tag \<and> tx_EVSEUID tx = evseUID (dm_core d) i n"
proof -
  let ?p = "daemon_peer cfg env others i clock"
  let ?s1 = "put_connector n (c\<lparr>sc_status := ''Preparing''\<rparr>) s"
  note l = sim_wf_lookup [OF assms(1,2)]
  obtain d1 where p: "sim_SetConnectorStatus ?p n ''Preparing'' s d = (?s1, d1, None)" and s1: "same_sessions (dm_core d) (dm_core d1)"
    using daemon_sets_status [OF assms(3,4) l(1,2) statuses_known(2) assms(2), of cfg env i clock] by blast
  have t: "svc_nextTransactionID (dm_core d1) = txid" "svc_inv (dm_core d1)" "svc_nextTransactionID (dm_core d1) < max_int64"
    using s1 assms(5) by (simp_all add: same_sessions_def txid_def)
  have u: "evseUID (dm_core d1) = evseUID (dm_core d)" using s1 by (intro evseUID_cfg) (simp add: same_sessions_def)
  obtain d2 tx where c: "daemon_call cfg env others i ''StartTransaction'' (enc_StartTransactionReq (start_req n tag (sc_meter c) (pe_now ?p d1))) d1
        = (d2, Inr (enc_conf (StartTransactionConf txid (tag_info AuthAccepted))))"
      and d2: "svc_inv (dm_core d2)" "svc_cfg (dm_core d2) = svc_cfg (dm_core d1)"
        "sessions (dm_core d2) = (sessions (dm_core d1))(i := (sessions (dm_core d1) i)(Itoa txid \<mapsto> tx))"
      and tx: "tx_Active tx" "tx_ID tx = Itoa txid" "tx_IDTag tx = tag" "tx_EVSEUID tx = evseUID (dm_core d) i n"
    using daemon_start [OF assms(3) t(2,3) l(1-3) assms(6,7), of env i "pe_now ?p d1"] unfolding t(1) u by blast
  let ?c2 = "c\<lparr>sc_status := ''Preparing'', sc_transactionID := txid, sc_reservationID := 0\<rparr>"
  have m: "map_of (sim_connectors (put_connector n ?c2 ?s1)) n = Some ?c2" by simp
  obtain d3 where q: "sim_SetConnectorStatus ?p n ''Charging'' (put_connector n ?c2 ?s1) d2
      = (put_connector n (?c2\<lparr>sc_status := ''Charging''\<rparr>) (put_connector n ?c2 ?s1), d3, None)" and s3: "same_sessions (dm_core d2) (dm_core d3)"
    using daemon_sets_status [OF assms(3) d2(1) l(1,2) statuses_known(3) m, of cfg env i clock] by blast
  have r: "int64_range txid" using assms(4,5) by (auto simp: txid_def svc_inv_def ids_inv_def int64_range_def max_int64_def)
  have k: "pe_call ?p = daemon_call cfg env others i" by (simp add: daemon_peer_def)
  have it: "it_Status (tag_info AuthAccepted) = AuthAccepted" by (simp add: tag_info_def)
  have "run_effect ?p (StartSession n tag) s d = (put_connector n (?c2\<lparr>sc_status := ''Charging''\<rparr>) (put_connector n ?c2 ?s1), d3)"
    using assms(2,6) p c q
    by (simp add: sim_startTransaction_def k dec_enc_StartTransactionConf [OF r] it del: enc_conf.simps put_connector_simps(3))
  then show ?thesis using s1 s3 d2 tx by (auto simp: same_sessions_def)
qed

lemma station_stops:
  assumes "sim_wf s" and "map_of (sim_connectors s) n = Some c" and "quiet others" and "svc_inv (dm_core d)"
    and "sc_transactionID c \<noteq> 0" and "int64_range (sc_transactionID c)" and "\<And>k. \<not> IsZero (ce_now (env k))"
    and "sessions (dm_core d) i (Itoa (sc_transactionID c)) = Some t0" and "tx_Active t0"
  defines "m \<equiv> wrap64 (sc_meter c + 1000)"
  shows "\<exists>d' t. run_effect (daemon_peer cfg env others i clock) (StopSession n reason) s d
      = (put_connector n (c\<lparr>sc_meter := m, sc_transactionID := 0, sc_status := ''Available''\<rparr>) s, d')
    \<and> svc_inv (dm_core d') \<and> svc_cfg (dm_core d') = svc_cfg (dm_core d)
    \<and> sessions (dm_core d') = (sessions (dm_core d))(i := (sessions (dm_core d) i)(Itoa (sc_transactionID c) \<mapsto> t))
    \<and> \<not> tx_Active t \<and> tx_MeterStop t = m \<and> tx_Reason t = reason \<and> tx_EVSEUID t = tx_EVSEUID t0 \<and> tx_IDTag t = tx_IDTag t0"
proof -
  let ?p = "daemon_peer cfg env others i clock" and ?k = "sc_transactionID c"
  let ?c1 = "c\<lparr>sc_meter := m, sc_transactionID := 0\<rparr>"
  let ?c2 = "?c1\<lparr>sc_status := ''Finishing''\<rparr>"
  note l = sim_wf_lookup [OF assms(1,2)]
  have m: "int64_range m" by (simp add: m_def wrap64_range)
  obtain d1 t conf where c: "daemon_call cfg env others i ''StopTransaction'' (enc_StopTransactionReq (stop_req ?k m reason (pe_now ?p d))) d = (d1, Inr conf)"
      and d1: "svc_inv (dm_core d1)" "svc_cfg (dm_core d1) = svc_cfg (dm_core d)"
        "sessions (dm_core d1) = (sessions (dm_core d))(i := (sessions (dm_core d) i)(Itoa ?k \<mapsto> t))"
      and t: "\<not> tx_Active t" "tx_MeterStop t = m" "tx_Reason t = reason" "tx_EVSEUID t = tx_EVSEUID t0" "tx_IDTag t = tx_IDTag t0"
    using daemon_stop [where env = env and i = i and now = "pe_now ?p d" and reason = reason and cfg = cfg, OF assms(3,4,6) m assms(7,8,9)] by blast
  obtain d2 where f: "sim_SetConnectorStatus ?p n ''Finishing'' (put_connector n ?c1 s) d1 = (put_connector n ?c2 (put_connector n ?c1 s), d2, None)"
      and s2: "same_sessions (dm_core d1) (dm_core d2)"
    using daemon_sets_status [OF assms(3) d1(1) l(1,2) statuses_known(4), of "put_connector n ?c1 s" ?c1 cfg env i clock] by auto
  have i2: "svc_inv (dm_core d2)" using s2 by (simp add: same_sessions_def)
  obtain d3 where a: "sim_SetConnectorStatus ?p n ''Available'' (put_connector n ?c2 (put_connector n ?c1 s)) d2
      = (put_connector n (?c2\<lparr>sc_status := ''Available''\<rparr>) (put_connector n ?c2 (put_connector n ?c1 s)), d3, None)"
      and s3: "same_sessions (dm_core d2) (dm_core d3)"
    using daemon_sets_status [OF assms(3) i2 l(1,2) statuses_known(1), of "put_connector n ?c2 (put_connector n ?c1 s)" ?c2 cfg env i clock] by auto
  have k: "pe_call ?p = daemon_call cfg env others i" by (simp add: daemon_peer_def)
  have "run_effect ?p (StopSession n reason) s d
      = (put_connector n (?c2\<lparr>sc_status := ''Available''\<rparr>) (put_connector n ?c2 (put_connector n ?c1 s)), d3)"
    using assms(2,5) c f a by (simp add: sim_stopTransaction_def k Let_def m_def del: put_connector_simps(3))
  then show ?thesis using s2 s3 d1 t by (auto simp: same_sessions_def)
qed

section \<open>The operator's commands\<close>

text \<open>The adapter on a connection, as the command interface of the daemon (\<open>v16.NewChargePoint\<close>).\<close>

definition NewChargePoint :: "string \<Rightarrow> string \<Rightarrow> Version \<Rightarrow> caller \<Rightarrow> Config \<Rightarrow> station" where
  "NewChargePoint je i version call cfg = \<lparr>sta_ID = i, sta_ReserveNow = cp_ReserveNow je call cfg,
     sta_CancelReservation = cp_CancelReservation je call, sta_RemoteStart = cp_RemoteStart je call cfg,
     sta_RemoteStop = cp_RemoteStop je call, sta_UnlockConnector = cp_UnlockConnector je call cfg,
     sta_TriggerStatus = cp_TriggerStatus je call cfg, sta_Probe = cp_Probe je call version\<rparr>"

definition sim_commander :: "string \<Rightarrow> string \<Rightarrow> Config \<Rightarrow> Simulator \<Rightarrow> commander" where
  "sim_commander je i cfg s j = (if j = i then Inr (NewChargePoint je i Version16 (sim_answers je s) cfg) else Inl ErrNotConnected)"

definition remote_start_payload :: "int \<Rightarrow> string \<Rightarrow> json" where
  "remote_start_payload n tag = enc_RemoteStartTransactionReq \<lparr>rt_ConnectorID = Some n, rt_IDTag = tag\<rparr>"

lemma MapCommandStatus_remote [simp]:
  "MapCommandStatus ActionRemoteStartTransaction ''Accepted'' = CommandAccepted"
  "MapCommandStatus ActionRemoteStopTransaction ''Accepted'' = CommandAccepted"
  by (simp_all add: MapCommandStatus_def commandStatusMap_def action_defs)

lemma distinct_actions:
  "ActionRemoteStartTransaction \<noteq> ActionReserveNow" "ActionRemoteStartTransaction \<noteq> ActionCancelReservation"
  "ActionRemoteStopTransaction \<noteq> ActionReserveNow" "ActionRemoteStopTransaction \<noteq> ActionCancelReservation"
  "ActionRemoteStopTransaction \<noteq> ActionRemoteStartTransaction"
  by (simp_all add: action_defs)

lemma remote_start_handled:
  assumes "map_of (sim_connectors s) n = Some c" and "sc_transactionID c = 0" and "int64_range n"
  shows "sim_HandleCall Elapsed je ActionRemoteStartTransaction (Some (remote_start_payload n tag)) s
    = (s, Inr (StatusConf ''Accepted''), [StartSession n tag])"
  using assms dec_enc_RemoteStartTransactionReq [of "\<lparr>rt_ConnectorID = Some n, rt_IDTag = tag\<rparr>"]
  by (simp add: sim_HandleCall_def sim_remoteStart_def distinct_actions decode_req_def remote_start_payload_def)

lemma remote_stop_handled:
  assumes "sim_wf s" and "map_of (sim_connectors s) n = Some c" and "sc_transactionID c = k" and "k \<noteq> 0" and "int64_range k"
    and "\<And>j c'. map_of (sim_connectors s) j = Some c' \<Longrightarrow> sc_transactionID c' = k \<Longrightarrow> j = n"
  shows "sim_HandleCall Elapsed je ActionRemoteStopTransaction (Some (enc_RemoteStopTransactionReq k)) s
    = (s, Inr (StatusConf ''Accepted''), [StopSession n ''Remote''])"
proof -
  let ?P = "\<lambda>(j, c'). sc_transactionID c' = k \<and> sc_transactionID c' \<noteq> 0"
  have d: "distinct (m_keys (sim_connectors s))" using assms(1) by (simp add: sim_wf_def)
  have "(n, c) \<in> set (sim_connectors s)" using assms(2) by (rule map_of_SomeD)
  then obtain j c' where f: "List.find ?P (sim_connectors s) = Some (j, c')"
    using assms(3,4) by (cases "List.find ?P (sim_connectors s)") (auto simp: find_None_iff)
  then have "(j, c') \<in> set (sim_connectors s)" "sc_transactionID c' = k" by (auto dest: find_in_set)
  then have "j = n" using assms(6) d by (simp add: map_of_eq_Some_iff)
  then show ?thesis using f sim_wf_lookup(1) [OF assms(1,2)] dec_enc_int_reqs(2) [OF assms(5)]
    by (simp add: sim_HandleCall_def sim_remoteStop_def distinct_actions decode_req_def)
qed

lemma cp_command_accepted:
  assumes "sim_HandleCall Elapsed je action (Some req) s = (s', Inr (StatusConf ''Accepted''), fx)" and "MapCommandStatus action ''Accepted'' = CommandAccepted"
  shows "cp_command je' (sim_answers je s) action req = Inr \<lparr>res_Status = CommandAccepted, res_Raw = ''Accepted''\<rparr>"
  using assms by (simp add: cp_command_def sim_answers_def sim_handle_def enc_sim_conf_def dec_enc_status_conf)

lemma NextRemoteStartID_same:
  assumes "svc_inv s" and "NextRemoteStartID w s = (s', Inr k)" and "svc_nextRemoteStartID s < max_int64"
  shows "same_sessions s s'"
proof -
  let ?s = "s\<lparr>svc_nextRemoteStartID := wrap64 (svc_nextRemoteStartID s + 1)\<rparr>"
  have s': "s' = fst (persist w ?s)"
    using assms(2) by (auto simp: NextRemoteStartID_def NextRemoteStartID_locked_def split: prod.splits option.splits)
  have "1 \<le> svc_nextRemoteStartID s" using assms(1) by (simp add: svc_inv_def ids_inv_def)
  then have "svc_inv ?s" using assms(1,3) wrap64_inc [of "svc_nextRemoteStartID s"] by (simp add: svc_inv_def ids_inv_def)
  moreover have "ensure ?s = ensure s" by (simp add: ensure_def fun_eq_iff)
  ultimately show ?thesis unfolding s' by (simp add: same_sessions_def persist_inv sessions_def fun_eq_iff)
qed

text \<open>\<open>cpms start\<close> on an idle connector: no error, and the station has a session to start.\<close>

lemma operator_start:
  assumes "sim_wf s" and "map_of (sim_connectors s) n = Some c" and "sc_transactionID c = 0"
    and "EVSEByUID cfg uid = Some e" and "e_OCPPConnectorID e = n" and "svc_inv core" and "svc_nextRemoteStartID core < max_int64"
    and "NextRemoteStartID w core = (core1, Inr k)"
  shows "Start w cfg (sim_commander je (ch_ID (cfg_Charger cfg)) cfg s) uid tag core = (core1, None)"
    and "sim_work je ActionRemoteStartTransaction (remote_start_payload n (tagOrDefault cfg tag)) s = [StartSession n (tagOrDefault cfg tag)]"
    and "same_sessions core core1"
proof -
  note h = remote_start_handled [OF assms(2,3) sim_wf_lookup(2) [OF assms(1,2)]]
  have "cp_command je (sim_answers je s) ActionRemoteStartTransaction (remote_start_payload n (tagOrDefault cfg tag))
      = Inr \<lparr>res_Status = CommandAccepted, res_Raw = ''Accepted''\<rparr>"
    by (rule cp_command_accepted [OF h]) simp
  then show "Start w cfg (sim_commander je (ch_ID (cfg_Charger cfg)) cfg s) uid tag core = (core1, None)"
    using assms(4,5,8) by (simp add: Start_def checkEVSE_def chargePoint_def sim_commander_def NewChargePoint_def cp_RemoteStart_def
        cp_connectorID_def remote_start_payload_def)
  show "sim_work je ActionRemoteStartTransaction (remote_start_payload n (tagOrDefault cfg tag)) s = [StartSession n (tagOrDefault cfg tag)]"
    by (simp add: sim_work_def h)
  show "same_sessions core core1" using NextRemoteStartID_same [OF assms(6,8,7)] .
qed

text \<open>\<open>cpms stop\<close> while one session runs on the EVSE: no error, and the station has that session to stop.\<close>

lemma operator_stop:
  assumes "sim_wf s" and "map_of (sim_connectors s) n = Some c" and "sc_transactionID c = k" and "k \<noteq> 0" and "int64_range k"
    and "\<And>j c'. map_of (sim_connectors s) j = Some c' \<Longrightarrow> sc_transactionID c' = k \<Longrightarrow> j = n"
    and "EVSEByUID cfg uid = Some e" and "ActiveTransactions core uid = [tx]" and "tx_ID tx = Itoa k"
  shows "Stop cfg (sim_commander je (ch_ID (cfg_Charger cfg)) cfg s) uid core = None"
    and "sim_work je ActionRemoteStopTransaction (enc_RemoteStopTransactionReq k) s = [StopSession n ''Remote'']"
proof -
  note h = remote_stop_handled [where je = je, OF assms(1-6)]
  have "cp_command je (sim_answers je s) ActionRemoteStopTransaction (enc_RemoteStopTransactionReq k)
      = Inr \<lparr>res_Status = CommandAccepted, res_Raw = ''Accepted''\<rparr>"
    by (rule cp_command_accepted [OF h MapCommandStatus_remote(2)])
  then show "Stop cfg (sim_commander je (ch_ID (cfg_Charger cfg)) cfg s) uid core = None"
    using assms(5,7-9) by (simp add: Stop_def checkEVSE_def chargePoint_def sim_commander_def NewChargePoint_def cp_RemoteStop_def Atoi_Itoa)
  show "sim_work je ActionRemoteStopTransaction (enc_RemoteStopTransactionReq k) s = [StopSession n ''Remote'']"
    by (simp add: sim_work_def h)
qed

lemma running_on_start:
  assumes "running_on s uid = {}" and "sessions s' = (sessions s)(i := (sessions s i)(k \<mapsto> tx))" and "tx_Active tx" and "tx_EVSEUID tx = uid"
  shows "running_on s' uid = {(i, k, tx)}"
  using assms by (auto simp: running_on_def split: if_splits)

lemma running_on_stop:
  assumes "running_on s uid = {(i, k, tx)}" and "sessions s' = (sessions s)(i := (sessions s i)(k \<mapsto> t))" and "\<not> tx_Active t"
  shows "running_on s' uid = {}"
proof -
  have "(a, b, x) \<notin> running_on s' uid" for a b x
  proof (cases "a = i \<and> b = k")
    case True
    then show ?thesis using assms(2,3) by (auto simp: running_on_def)
  next
    case False
    then have "sessions s' a b = sessions s a b" using assms(2) by auto
    moreover have "(a, b, x) \<notin> running_on s uid" using False assms(1) by auto
    ultimately show ?thesis by (simp add: running_on_def)
  qed
  then show ?thesis by auto
qed

end
