(* ===== verification/Life_Properties.thy ===== *)
theory Life_Properties
  imports State_Lock Ocppj_Life Csms_Server Remote_Session Config_Properties Protocol_Properties
begin

text \<open>
  What holds while the program runs: one process per state file, connections that come to an end, the
  watchdog, and the simulated station beside the daemon.
\<close>

declare map_of_eq_Some_iff [simp del] Some_eq_map_of_iff [simp del]

section \<open>The lock of the state file\<close>

text \<open>
  C37. One process per state file. In every interleaving of processes that take the lock, release it or end at any moment,
  at most one holds it, and the lock file it locked is the one the path names. A process that tries undisturbed gets the lock
  in one round of its loop exactly if nobody has locked the file the path names, and is refused otherwise.
\<close>

theorem lock_exclusive:
  assumes "lock_initial w0" and "lock_step\<^sup>*\<^sup>* w0 w"
  shows "(\<forall>p q i j. at_phase w p (Held i) \<and> at_phase w q (Held j) \<longrightarrow> p = q \<and> lw_entry w = Some i)
    \<and> (\<forall>p fresh. at_phase w p Outside \<and> unused w fresh \<longrightarrow>
         lock_step\<^sup>*\<^sup>* w (LockPath fresh p w)
         \<and> lw_procs (LockPath fresh p w) ! p = (case lw_entry w of
               None \<Rightarrow> Held fresh
             | Some i \<Rightarrow> if list_ex (owns i) (lw_procs w) then Refused else Held i))"
proof (intro conjI allI impI)
  have inv: "lock_inv w" using state_lock.inv_reachable [OF assms] .
  fix p q i j
  assume h: "at_phase w p (Held i) \<and> at_phase w q (Held j)"
  then show e: "lw_entry w = Some i" using lock_inv_held [OF inv] unfolding at_phase_def by blast
  from h have "lw_entry w = Some j" using lock_inv_held [OF inv] unfolding at_phase_def by blast
  with e h show "p = q" using lock_inv_owner [OF inv, of p q i] by (simp add: at_phase_def)
qed (use LockPath_steps LockPath_result in blast)+

theorem lock_exclusive_witness:
  "lw_procs (LockPath 7 1 (LockPath 7 0 \<lparr>lw_entry = None, lw_procs = [Outside, Outside]\<rparr>)) = [Held 7, Refused]"
proof -
  let ?w0 = "\<lparr>lw_entry = None, lw_procs = [Outside, Outside]\<rparr>"
  have i: "lock_initial ?w0" by (simp add: lock_initial_def)
  have a: "at_phase ?w0 0 Outside \<and> unused ?w0 7" by (simp add: at_phase_def unused_def)
  have w1: "LockPath 7 0 ?w0 = \<lparr>lw_entry = Some 7, lw_procs = [Held 7, Outside]\<rparr>"
    by (simp add: LockPath_def lock_open_def lock_flock_def lock_check_def put_phase_def Let_def)
  have s: "lock_step\<^sup>*\<^sup>* ?w0 (LockPath 7 0 ?w0)"
    using lock_exclusive [OF i rtranclp.rtrancl_refl, THEN conjunct2] a by blast
  have b: "at_phase (LockPath 7 0 ?w0) 1 Outside \<and> unused (LockPath 7 0 ?w0) 8" by (simp add: w1 at_phase_def unused_def)
  have "lw_procs (LockPath 8 1 (LockPath 7 0 ?w0)) ! 1 = Refused"
    using lock_exclusive [OF i s, THEN conjunct2] b by (simp add: w1)
  moreover have "LockPath f 1 \<lparr>lw_entry = Some 7, lw_procs = [Held 7, Outside]\<rparr> = \<lparr>lw_entry = Some 7, lw_procs = [Held 7, Refused]\<rparr>" for f
    by (simp add: LockPath_def lock_open_def lock_flock_def put_phase_def Let_def)
  ultimately show ?thesis unfolding w1 by simp
qed

section \<open>Connections\<close>

text \<open>
  C38. A closed connection comes to an end: once \<open>Close\<close> has been carried out, from whatever state its goroutines are in and
  in whatever order they go on, with calls still being queued, they take at most six steps for each message still unread,
  three for each call still queued and 46 more; and when no step is left, \<open>Run\<close> has returned the reader's reason and its
  goroutines are gone.
\<close>

theorem closed_connection_ends:
  assumes "life_initial L0" and "(life_step je)\<^sup>*\<^sup>* L0 L" and "closed L"
  shows "(\<forall>n L'. (life_step je ^^ n) L L' \<longrightarrow> n \<le> 6 * length (lf_in L) + 3 * length (co_calls (lf_conn L)) + 46)
    \<and> (\<forall>L'. (life_step je)\<^sup>*\<^sup>* L L' \<and> (\<nexists>L''. life_step je L' L'') \<longrightarrow> finished L')"
proof (intro conjI allI impI)
  fix n L'
  assume "(life_step je ^^ n) L L'"
  from closed_steps [OF this assms(3)] have "n \<le> life_left L" by simp
  also have "\<dots> \<le> 6 * length (lf_in L) + 3 * length (co_calls (lf_conn L)) + 46" by (rule life_left_bound)
  finally show "n \<le> 6 * length (lf_in L) + 3 * length (co_calls (lf_conn L)) + 46" .
next
  fix L'
  assume a: "(life_step je)\<^sup>*\<^sup>* L L' \<and> (\<nexists>L''. life_step je L' L'')"
  then obtain n where "(life_step je ^^ n) L L'" by (auto simp: rtranclp_power)
  then have c: "closed L'" using closed_steps assms(3) by blast
  have "life_inv L'" using conn_life.inv_reachable [OF assms(1)] assms(2) a by (meson rtranclp_trans)
  with closed_progress [OF c] a show "finished L'" unfolding life_inv_def by blast
qed

definition example_life :: life where
  "example_life = \<lparr>lf_in = [], lf_conn = conn_New, lf_ws_closed = False, lf_reader = Reading, lf_handler = Waiting,
     lf_writer = Writing, lf_run = runner.Running\<rparr>"

definition example_closing :: life where
  "example_closing = example_life\<lparr>lf_conn := conn_Close conn_New, lf_ws_closed := True\<rparr>"

theorem closed_connection_ends_witness:
  "closed example_closing \<and> (\<exists>L'. life_step [] example_closing L') \<and> \<not> (\<exists>L'. (life_step [] ^^ 47) example_closing L')"
proof -
  have i: "life_initial example_life" by (simp add: life_initial_def example_life_def)
  let ?L1 = "example_life\<lparr>lf_conn := conn_Close conn_New\<rparr>"
  have "life_step [] example_life ?L1"
    using begin_close [of example_life "[]"] by (simp add: example_life_def conn_New_def)
  moreover have "life_step [] ?L1 example_closing"
    using finish_close [of ?L1 "[]"] by (simp add: example_closing_def example_life_def conn_Close_def)
  ultimately have r: "(life_step [])\<^sup>*\<^sup>* example_life example_closing"
    by (blast intro: rtranclp.rtrancl_into_rtrancl r_into_rtranclp)
  have c: "closed example_closing" by (simp add: closed_def example_closing_def conn_Close_def)
  have "length (lf_in example_closing) = 0" "length (co_calls (lf_conn example_closing)) = 0"
    by (simp_all add: example_closing_def example_life_def conn_Close_def conn_New_def)
  then have "\<not> (\<exists>L'. (life_step [] ^^ 47) example_closing L')"
    using closed_connection_ends [OF i r c, THEN conjunct1] by fastforce
  moreover have "\<exists>L'. life_step [] example_closing L'"
    by (rule closed_progress [OF c]) (simp add: example_closing_def example_life_def)
  ultimately show ?thesis using c by blast
qed

text \<open>
  C28. Under all interleavings of connections that come, run, are replaced and go, the registry holds for a station the one connection of it
  that goes on; a connection that is about to report its station disconnected, or has ended, is not registered; and one that runs
  without being registered has been closed. So \<open>Shutdown\<close>, which closes the registered ones, leaves none that runs and is not closed.
  It does so before the listener is closed: a station that connects after its loop has a connection that nothing closes.
\<close>

theorem connections_closed:
  assumes "closing_initial C0" and "closing_step\<^sup>*\<^sup>* C0 C"
  shows "(\<forall>i h. map_of (sw_conns (cl_world C)) i = Some h
        \<longrightarrow> map_of (sw_phase (cl_world C)) h \<in> {Some (i, Entered), Some (i, Csms.Running)})
    \<and> (\<forall>h i j p. map_of (sw_phase (cl_world C)) h = Some (i, p) \<and> p \<in> {Departing, Gone} \<longrightarrow> map_of (sw_conns (cl_world C)) j \<noteq> Some h)
    \<and> (\<forall>h. live (cl_world C) h \<longrightarrow> h \<in> set (cl_closed (Shutdown_close C)))
    \<and> (\<forall>i. live (cl_world (enter_closing i (Shutdown_close C))) (sw_next (cl_world C))
         \<and> sw_next (cl_world C) \<notin> set (cl_closed (enter_closing i (Shutdown_close C))))"
proof -
  have r: "registry_inv (cl_world C)" using closing.inv_reachable [OF assms] by (simp add: closing_inv_def)
  then have "\<forall>i h. map_of (sw_conns (cl_world C)) i = Some h
      \<longrightarrow> map_of (sw_phase (cl_world C)) h \<in> {Some (i, Entered), Some (i, Csms.Running)}"
    unfolding registry_inv_def by fastforce
  then show ?thesis using registry_owner [OF r] Shutdown_closes [OF assms] late_connection_open [OF assms] by blast
qed

definition example_closing_world :: csms_closing where
  "example_closing_world = \<lparr>cl_world = example_csms, cl_closed = []\<rparr>"

theorem connections_closed_witness:
  "0 \<in> set (cl_closed (Shutdown_close (enter_closing ''CP1'' example_closing_world)))
   \<and> live (cl_world (enter_closing ''CP1'' (Shutdown_close example_closing_world))) 0"
proof -
  have i: "closing_initial example_closing_world"
    using example_csms_initial by (simp add: closing_initial_def example_closing_world_def)
  have "live (cl_world (enter_closing ''CP1'' example_closing_world)) 0"
    by (simp add: live_def enter_closing_def enter_def example_closing_world_def example_csms_def)
  then have "0 \<in> set (cl_closed (Shutdown_close (enter_closing ''CP1'' example_closing_world)))"
    using connections_closed [OF i r_into_rtranclp [of closing_step, OF connects]] by blast
  moreover have "sw_next (cl_world example_closing_world) = 0" by (simp add: example_closing_world_def example_csms_def)
  ultimately show ?thesis using connections_closed [OF i rtranclp.rtrancl_refl] by metis
qed

text \<open>
  C39. The watchdog measures what the station says, not what its transport answers. A connection whose socket does not fail
  ends exactly the idle timeout after the last OCPP message, with the reason of a heartbeat timeout; a failure of the socket ends it
  earlier, at that moment, with that error; and pongs, however many, make no difference.
\<close>

theorem watchdog_exact:
  assumes "sorted (map fst es)" and "\<forall>e \<in> set es. start \<le> fst e" and "0 < idle" and "readLoop idle start es = (T, err)"
  shows "T \<le> last_heard start es T + idle
    \<and> (T = last_heard start es T + idle \<and> closeReason err = ''heartbeat timeout'' \<or> (T, WsFails err) \<in> set es)
    \<and> readLoop idle start (filter (\<lambda>e. snd e \<noteq> WsPong) es) = (T, err)"
proof -
  from read_until_spec [OF assms(1-3) assms(4) [unfolded readLoop_def]]
  have "T = last_heard start es T + idle \<and> err = ReadTimeout \<or> T \<le> last_heard start es T + idle \<and> (T, WsFails err) \<in> set es" .
  moreover have "readLoop idle start (filter (\<lambda>e. snd e \<noteq> WsPong) es) = (T, err)"
    using read_until_pongs [OF assms(1)] assms(4) by (simp add: readLoop_def)
  ultimately show ?thesis by (auto simp: closeReason_def)
qed

theorem watchdog_exact_witness:
  "readLoop 90 0 [(10, WsMessage None), (40, WsPong), (70, WsPong), (99, WsPong)] = (100, ReadTimeout)
   \<and> readLoop 90 0 [(10, WsMessage None)] = (100, ReadTimeout)"
proof -
  let ?es = "[(10, WsMessage None), (40, WsPong), (70, WsPong), (99, WsPong)]"
  have r: "readLoop 90 0 ?es = (100, ReadTimeout)" by (simp add: readLoop_def)
  have "readLoop 90 0 (filter (\<lambda>e. snd e \<noteq> WsPong) ?es) = (100, ReadTimeout)"
    using watchdog_exact [OF _ _ _ r] by simp
  with r show ?thesis by simp
qed

section \<open>The simulated station and the daemon\<close>

lemma run_handshake_offers:
  assumes "parse_config parse_url y = Inr cfg" and "ch_ID (cfg_Charger cfg) \<notin> {''.'', ''..''}"
  shows "run_handshake cfg (''/ocpp/'' @ ch_ID (cfg_Charger cfg)) [Subprotocol Version16]
    = Upgrade (ch_ID (cfg_Charger cfg)) Version16 (Subprotocol Version16)"
proof -
  have "valid_config parse_url cfg" using assms(1) by (auto simp: parse_config_Inr valid_resolve_Config)
  moreover have "ch_ID (cfg_Charger cfg) \<noteq> ''.''" "ch_ID (cfg_Charger cfg) \<noteq> ''..''" using assms(2) by blast+
  ultimately show ?thesis by (rule run_handshake_accepts)
qed

text \<open>
  C40. \<open>cpms run\<close> in one terminal and \<open>cpms simulate charger\<close> in another are a working pair, with a configuration that loads, for OCPP 1.6,
  whose id is not a dot or two dots, whose EVSEs an int can count, whose interval is a second or more and whose bind address gives a ws URL without a path. The daemon starts if its lock, file, socket and
  ports are to be had; the simulator without flags is made, dials a path whose handshake the daemon accepts
  for the configured id, and makes these calls, all of them answered with success: its boot, in which it is told it is accepted, then a status report of the
  station and one of each connector, as many as there are EVSEs, all Available. It is
  left with an open connection and its heartbeat started. The interval it was told keeps the connection alive: as long as a heartbeat is
  answered before the timeout, the watchdog runs out only when the heartbeats have stopped for the whole timeout.
\<close>

theorem paired_station:
  assumes "parse_config parse_url y = Inr cfg" and "ch_ID (cfg_Charger cfg) \<notin> {''.'', ''..''}"
    and "Second \<le> dur_dur (ch_HeartbeatInterval (cfg_Charger cfg))" and "int64_range (int (length (cfg_EVSEs cfg)))"
    and "parse_ws (csmsURLFromBind (ls_OCPPBind (cfg_Server cfg))) = Some u" and "u_Scheme u = ''ws''" and "u_Path u \<in> {[], ''/''}"
    and "answered_by cfg i p" and "ch_OCPPVersion (cfg_Charger cfg) = Version16"
    and "\<forall>r \<in> set rounds. 0 \<le> fst r \<and> dur_dur (ch_HeartbeatInterval (cfg_Charger cfg)) + fst r < dur_dur (ch_HeartbeatTimeout (cfg_Charger cfg))"
  shows "snd (run_daemon \<lparr>re_version = ch_OCPPVersion (cfg_Charger cfg), re_lock_ok = True, re_open_ok = True, re_listen_ok = True,
        re_csms_ok = True, re_start_ok = True, re_ocpi_ok = True\<rparr>) = None
    \<and> (\<exists>s S w' calls ts. simulate_New (Some cfg) default_args = Inr s
    \<and> sim_Connect parse_ws (\<lambda>v sub. run_handshake cfg (u_Path v) [sub] = Upgrade (ch_ID (cfg_Charger cfg)) Version16 sub) (logged p)
        (new_session s) (w, []) = (S, (w', calls), None)
    \<and> length ts = Suc (length (cfg_EVSEs cfg))
    \<and> calls = (''BootNotification'', enc_BootNotificationReq (boot_req (sim_opts s)))
        # map2 (\<lambda>n t. (''StatusNotification'', enc_StatusNotificationReq (status_req t n ''Available''))) [0 .. int (length (cfg_EVSEs cfg))] ts
    \<and> ss_conn S = Some False \<and> ss_beating S
    \<and> readLoop (dur_dur (ch_HeartbeatTimeout (cfg_Charger cfg))) t0 (beats m (heartbeatLoop (ss_sim S) t0 rounds))
        = (last (t0 # heartbeatLoop (ss_sim S) t0 rounds) + dur_dur (ch_HeartbeatTimeout (cfg_Charger cfg)), ReadTimeout))"
proof -
  note d = loaded_durations [OF assms(1)]
  let ?d = "dur_dur (ch_HeartbeatInterval (cfg_Charger cfg))" and ?idle = "dur_dur (ch_HeartbeatTimeout (cfg_Charger cfg))"
  let ?dials = "\<lambda>v sub. run_handshake cfg (u_Path v) [sub] = Upgrade (ch_ID (cfg_Charger cfg)) Version16 sub"
  have v: "valid_config parse_url cfg" using assms(1) by (auto simp: parse_config_Inr valid_resolve_Config)
  have h: "?dials (u\<lparr>u_Path := ''/ocpp/'' @ ch_ID (cfg_Charger cfg)\<rparr>) (Subprotocol Version16)"
    using run_handshake_offers [OF assms(1,2)] by simp
  obtain s S w' calls where S: "simulate_New (Some cfg) default_args = Inr s"
      "sim_Connect parse_ws ?dials (logged p) (new_session s) (w, []) = (S, (w', calls), None)"
      "ss_conn S = Some False" "ss_beating S" "so_Scenario (sim_opts (ss_sim S)) = ScenarioNormal"
      "sim_heartbeat (ss_sim S) = whole_seconds ?d * Second"
    using simulate_connects [where p = "logged p" and w = "(w, [])" and dials = ?dials and u = u and parse_ws = parse_ws,
        OF v less_imp_le [OF d(1)] d(2) assms(3,4) logged_answered [OF assms(8)] assms(5,6,7) h refl] by auto
  have w: "0 \<le> whole_seconds ?d * Second" "whole_seconds ?d * Second \<le> ?d"
    using whole_seconds_bounds [OF less_imp_le [OF d(1)]] by (simp_all add: Second_def)
  have "read_until ?idle (t0 + ?idle) (beats m (heartbeat_rounds (whole_seconds ?d * Second) (t0 + 0) rounds))
      = (last (t0 # heartbeat_rounds (whole_seconds ?d * Second) (t0 + 0) rounds) + ?idle, ReadTimeout)"
    using assms(10) w d(3) by (intro beats_heard) fastforce+
  then have beat: "readLoop ?idle t0 (beats m (heartbeatLoop (ss_sim S) t0 rounds)) = (last (t0 # heartbeatLoop (ss_sim S) t0 rounds) + ?idle, ReadTimeout)"
    using S(5,6) by (simp add: readLoop_def heartbeatLoop_def)
  have "\<exists>ts. length ts = Suc (length (cfg_EVSEs cfg)) \<and> calls = (''BootNotification'', enc_BootNotificationReq (boot_req (sim_opts s)))
      # map2 (\<lambda>n t. (''StatusNotification'', enc_StatusNotificationReq (status_req t n ''Available''))) [0 .. int (length (cfg_EVSEs cfg))] ts"
    by (rule simulate_calls [OF v S(1,2)])
  moreover have "snd (run_daemon \<lparr>re_version = ch_OCPPVersion (cfg_Charger cfg), re_lock_ok = True, re_open_ok = True, re_listen_ok = True,
        re_csms_ok = True, re_start_ok = True, re_ocpi_ok = True\<rparr>) = None"
    using assms(9) by (simp add: run_daemon_def Let_def)
  ultimately show ?thesis using S(1-4) beat by blast
qed

text \<open>
  An interval under a second passes validation and is told as 0, which leaves the interval to the
  station: the simulator keeps its own of a minute, and a timeout below that drops it.
\<close>

lemma subsecond_interval_dropped:
  assumes "parse_config parse_url y = Inr cfg" and "dur_dur (ch_HeartbeatInterval (cfg_Charger cfg)) < Second"
    and "so_Vendor (sim_opts s) \<noteq> []" and "so_Model (sim_opts s) \<noteq> []" and "sim_heartbeat s = fallbackHeartbeat"
    and "dur_dur (ch_HeartbeatTimeout (cfg_Charger cfg)) \<le> fallbackHeartbeat" and "answered_by cfg i p"
  shows "(\<exists>w'. boot p s w = (s, w', None))
    \<and> readLoop (dur_dur (ch_HeartbeatTimeout (cfg_Charger cfg))) t0 (beats m (heartbeatLoop s t0 rounds))
        = (t0 + dur_dur (ch_HeartbeatTimeout (cfg_Charger cfg)), ReadTimeout)"
proof -
  note d = loaded_durations [OF assms(1)]
  have "\<exists>w'. boot p s w = (s, w', None)"
    using boot_paired [OF assms(3,4) less_imp_le [OF d(1)] d(2) assms(7), of w] assms(2) by simp
  moreover have "readLoop idle t0 (beats m (heartbeat_rounds fallbackHeartbeat t0 rounds)) = (t0 + idle, ReadTimeout)"
    if "idle \<le> fallbackHeartbeat" for idle
    using that by (cases rounds) (auto simp: readLoop_def beats_def)
  ultimately show ?thesis using assms(5,6) by (auto simp: heartbeatLoop_def readLoop_def beats_def)
qed

definition paired_url :: url_parser where
  "paired_url raw = Some \<lparr>u_Scheme = ''ws'', u_Host = ''127.0.0.1:9000'', u_Path = [], u_RawQuery = [], u_Fragment = []\<rparr>"

definition paired_env :: call_env where
  "paired_env = \<lparr>ce_now = example_now, ce_write1 = example_env, ce_write2 = example_env, ce_jsonErr = []\<rparr>"

definition paired_daemon :: "daemon peer" where
  "paired_daemon = daemon_peer good_loaded (\<lambda>_. paired_env) (\<lambda>_ s. s) ''CP1'' (\<lambda>_. example_now)"

theorem paired_station_witness:
  "\<exists>s S w'. simulate_New (Some good_loaded) default_args = Inr s
     \<and> sim_Connect paired_url (\<lambda>v sub. run_handshake good_loaded (u_Path v) [sub] = Upgrade ''CP1'' Version16 sub) (logged paired_daemon)
         (new_session s) (\<lparr>dm_core = example_svc, dm_calls = 0\<rparr>, []) = (S, w', None)
     \<and> map fst (snd w') = [''BootNotification'', ''StatusNotification'', ''StatusNotification'', ''StatusNotification'']
     \<and> ss_conn S = Some False \<and> ss_beating S
     \<and> readLoop (90 * Second) 0 (beats None (heartbeatLoop (ss_sim S) 0 [(Second, True), (2 * Second, False)]))
         = (last (0 # heartbeatLoop (ss_sim S) 0 [(Second, True), (2 * Second, False)]) + 90 * Second, ReadTimeout)"
proof -
  let ?rounds = "[(Second, True), (2 * Second, False)]" and ?w = "\<lparr>dm_core = example_svc, dm_calls = 0\<rparr>"
  have p: "paired_url raw = Some (the (paired_url []))" "u_Scheme (the (paired_url [])) = ''ws''"
    "u_Path (the (paired_url [])) \<in> {[], ''/''}" for raw by (simp_all add: paired_url_def)
  have a: "answered_by good_loaded ''CP1'' paired_daemon" unfolding paired_daemon_def by (rule daemon_answers)
  have l: "length (cfg_EVSEs good_loaded) = 2" "ch_OCPPVersion (cfg_Charger good_loaded) = Version16"
    by (simp_all add: good_loaded_def good_raw_def resolve_Config_def applyDefaults_def normalize_Config_def
        default_str_def DefaultOCPPVersion_def Version16_def)
  then have n: "int64_range (int (length (cfg_EVSEs good_loaded)))" by (simp add: int64_range_def)
  obtain s S w' calls ts where c: "simulate_New (Some good_loaded) default_args = Inr s"
    "sim_Connect paired_url (\<lambda>v sub. run_handshake good_loaded (u_Path v) [sub] = Upgrade ''CP1'' Version16 sub) (logged paired_daemon)
         (new_session s) (?w, []) = (S, (w', calls), None)"
    "length ts = Suc 2" "calls = (''BootNotification'', enc_BootNotificationReq (boot_req (sim_opts s)))
        # map2 (\<lambda>n t. (''StatusNotification'', enc_StatusNotificationReq (status_req t n ''Available''))) [0 .. 2] ts"
    "ss_conn S = Some False" "ss_beating S"
    "readLoop (90 * Second) 0 (beats None (heartbeatLoop (ss_sim S) 0 ?rounds)) = (last (0 # heartbeatLoop (ss_sim S) 0 ?rounds) + 90 * Second, ReadTimeout)"
    using paired_station [where parse_ws = paired_url and w = ?w, OF good_loads _ _ n p a l(2), of ?rounds 0 None] good_loaded_parts l(1)
    by (auto simp: Second_def)
  obtain t0 t1 t2 where "ts = [t0, t1, t2]" using c(3) by (auto simp: length_Suc_conv numeral_2_eq_2)
  then have "map fst calls = [''BootNotification'', ''StatusNotification'', ''StatusNotification'', ''StatusNotification'']" using c(4) by (simp add: upto_rec1)
  with c(1,2,5-7) show ?thesis by fastforce
qed

section \<open>A session from command to command\<close>

lemma loaded_EVSE:
  assumes "parse_config parse_url y = Inr cfg" and "e \<in> set (cfg_EVSEs cfg)"
  shows "EVSEByUID cfg (e_UID e) = Some e" and "EVSEByConnectorID cfg (e_OCPPConnectorID e) = Some e"
proof -
  have "valid_config parse_url cfg" using assms(1) by (auto simp: parse_config_Inr valid_resolve_Config)
  from valid_addressing [OF this assms(2)]
  show "EVSEByUID cfg (e_UID e) = Some e" "EVSEByConnectorID cfg (e_OCPPConnectorID e) = Some e" by simp_all
qed

text \<open>
  C9. A session by remote control. \<open>cpms start\<close> on a free EVSE of the configuration, with a tag cpms knows, is accepted by the idle station, provided the station has that EVSE's connector and the
  id of the remote start can be written to the state file; and the
  work the station then does, against the daemon that asked for it, leaves exactly one running session on the EVSE:
  that tag's, under the transaction id the charging connector keeps. \<open>cpms stop\<close> is then accepted, and the station's work
  ends that session with its reading and the reason Remote: none runs on the EVSE, and the connector
  is available. Other goroutines of the daemon that leave the sessions alone may run between any two reports.
\<close>

theorem remote_session:
  fixes clock :: "nat \<Rightarrow> gotime"
  assumes cfg: "parse_config parse_url y = Inr cfg" "e \<in> set (cfg_EVSEs cfg)"
    and station: "sim_wf s" "map_of (sim_connectors s) (e_OCPPConnectorID e) = Some c" "sc_transactionID c = 0"
      "\<forall>j c'. map_of (sim_connectors s) j = Some c' \<longrightarrow> sc_transactionID c' < svc_nextTransactionID core"
    and core: "svc_inv core" "svc_cfg core = Some cfg" "ActiveTransactions core (e_UID e) = []"
      "svc_nextTransactionID core < max_int64" "svc_nextRemoteStartID core < max_int64" "NextRemoteStartID w core = (core1, Inr k)"
    and tag: "tagOrDefault cfg tag \<noteq> []" "knownTag cfg (tagOrDefault cfg tag)"
    and env: "quiet others" "\<forall>n. \<not> IsZero (ce_now (env n))"
  defines "i \<equiv> ch_ID (cfg_Charger cfg)" and "n \<equiv> e_OCPPConnectorID e"
  defines "p \<equiv> daemon_peer cfg env others i clock"
  shows "\<exists>s2 d2 tx. Start w cfg (sim_commander je i cfg s) (e_UID e) tag core = (core1, None)
    \<and> run_work p (sim_work je ActionRemoteStartTransaction (remote_start_payload n (tagOrDefault cfg tag)) s) s
        \<lparr>dm_core = core1, dm_calls = calls\<rparr> = (s2, d2)
    \<and> ActiveTransactions (dm_core d2) (e_UID e) = [tx] \<and> tx_IDTag tx = tagOrDefault cfg tag
    \<and> tx_ID tx = Itoa (sim_TransactionID s2 n) \<and> ConnectorStatus s2 n = ''Charging''
    \<and> Stop cfg (sim_commander je i cfg s2) (e_UID e) (dm_core d2) = None
    \<and> (\<exists>s3 d3 t. run_work p (sim_work je ActionRemoteStopTransaction (enc_RemoteStopTransactionReq (sim_TransactionID s2 n)) s2) s2 d2 = (s3, d3)
         \<and> ActiveTransactions (dm_core d3) (e_UID e) = [] \<and> sessions (dm_core d3) i (tx_ID tx) = Some t
         \<and> tx_MeterStop t = wrap64 (sc_meter c + 1000) \<and> tx_Reason t = ''Remote''
         \<and> sim_TransactionID s3 n = 0 \<and> ConnectorStatus s3 n = ''Available'')"
proof -
  let ?tag = "tagOrDefault cfg tag" and ?d = "\<lparr>dm_core = core1, dm_calls = calls\<rparr>"
  note a = loaded_EVSE [OF cfg, folded n_def]
  note st = station(1) station(2) [folded n_def]
  have en: "e_OCPPConnectorID e = n" by (simp add: n_def)
  note o1 = operator_start(1,2) [where je = je and tag = tag, OF st station(3) a(1) en core(1,5,6), folded i_def]
    and same = operator_start(3) [OF st station(3) a(1) en core(1,5,6)]
  define txid where "txid = svc_nextTransactionID core"
  have c1: "svc_inv (dm_core ?d)" "svc_nextTransactionID (dm_core ?d) = txid" "svc_nextTransactionID (dm_core ?d) < max_int64"
    "svc_cfg core1 = Some cfg" using same core(2,4) by (simp_all add: same_sessions_def txid_def)
  have r: "txid \<noteq> 0" "int64_range txid"
    using core(1,4) by (auto simp: txid_def svc_inv_def ids_inv_def int64_range_def max_int64_def)
  have u: "evseUID (dm_core ?d) i n = e_UID e" using c1(4) a(2) by (simp add: evseUID_def i_def)
  define s2 where "s2 = put_connector n (c\<lparr>sc_transactionID := txid, sc_reservationID := 0, sc_status := ''Charging''\<rparr>) s"
  obtain d2 tx where run1: "run_effect p (StartSession n ?tag) s ?d = (s2, d2)"
      and d2: "svc_inv (dm_core d2)" "sessions (dm_core d2) = (sessions core1)(i := (sessions core1 i)(Itoa txid \<mapsto> tx))"
      and tx: "tx_Active tx" "tx_ID tx = Itoa txid" "tx_IDTag tx = ?tag" "tx_EVSEUID tx = e_UID e"
    using station_starts [OF st env(1) c1(1,3) tag, of env i clock] unfolding p_def s2_def c1(2) u by auto
  have "running_on core1 (e_UID e) = {}" using core(1,3) same by (simp add: running_on_same ActiveTransactions_none)
  from running_on_start [OF this d2(2) tx(1,4)] have on: "running_on (dm_core d2) (e_UID e) = {(i, Itoa txid, tx)}" .
  note act = ActiveTransactions_one [OF d2(1) on]
  let ?c2 = "c\<lparr>sc_transactionID := txid, sc_reservationID := 0, sc_status := ''Charging''\<rparr>"
  have m2: "map_of (sim_connectors s2) n = Some ?c2" by (simp add: s2_def)
  have w2: "sim_wf s2" unfolding s2_def using st sim_wf_lookup(3) [OF st] by (intro put_connector_wf) auto
  have only: "j = n" if "map_of (sim_connectors s2) j = Some c'" and "sc_transactionID c' = txid" for j c'
    using that station(4) [rule_format, of j c'] by (cases "j = n") (auto simp: s2_def txid_def)
  note o2 = operator_stop [where je = je, OF w2 m2 _ r only a(1) act tx(2), folded i_def]
  have t0: "sessions (dm_core d2) i (Itoa (sc_transactionID ?c2)) = Some tx" using d2(2) by simp
  obtain d3 t where run2: "run_effect p (StopSession n ''Remote'') s2 d2
        = (put_connector n (?c2\<lparr>sc_meter := wrap64 (sc_meter ?c2 + 1000), sc_transactionID := 0, sc_status := ''Available''\<rparr>) s2, d3)"
      and d3: "svc_inv (dm_core d3)" "sessions (dm_core d3) = (sessions (dm_core d2))(i := (sessions (dm_core d2) i)(Itoa (sc_transactionID ?c2) \<mapsto> t))"
      and t: "\<not> tx_Active t" "tx_MeterStop t = wrap64 (sc_meter ?c2 + 1000)" "tx_Reason t = ''Remote''"
    using station_stops [where env = env and reason = "''Remote''" and cfg = cfg and clock = clock, OF w2 m2 env(1) d2(1) _ _ _ t0 tx(1)] r env(2)
    unfolding p_def by auto
  have "running_on (dm_core d3) (e_UID e) = {}" using running_on_stop [OF on _ t(1)] d3(2) by simp
  then have "ActiveTransactions (dm_core d3) (e_UID e) = []" using ActiveTransactions_none [OF d3(1)] by simp
  moreover have id: "sim_TransactionID s2 n = txid" by (simp add: sim_TransactionID_def m2)
  ultimately show ?thesis using o1(1,2) run1 act tx o2 run2 d3 t
    by (auto simp: run_work_def id ConnectorStatus_def sim_TransactionID_def m2)
qed

definition remote_core :: Service where
  "remote_core = New_memory (Some good_loaded) None"

definition remote_EVSE :: EVSE where
  "remote_EVSE = hd (cfg_EVSEs good_loaded)"

theorem remote_session_witness:
  "\<exists>s s2 d2 tx. simulate_New (Some good_loaded) default_args = Inr s
     \<and> run_work paired_daemon (sim_work [] ActionRemoteStartTransaction (remote_start_payload 1 ''TAG'') s) s
         \<lparr>dm_core = fst (NextRemoteStartID example_env remote_core), dm_calls = 0\<rparr> = (s2, d2)
     \<and> ActiveTransactions (dm_core d2) (e_UID remote_EVSE) = [tx] \<and> tx_IDTag tx = ''TAG'' \<and> ConnectorStatus s2 1 = ''Charging''"
proof -
  have e: "remote_EVSE \<in> set (cfg_EVSEs good_loaded)" "e_OCPPConnectorID remote_EVSE = 1" "length (cfg_EVSEs good_loaded) = 2"
    by (simp_all add: remote_EVSE_def good_loaded_def good_raw_def resolve_Config_def applyDefaults_def normalize_Config_def
        normalize_EVSE_def good_evse_def)
  have v: "valid_config good_url good_loaded" using good_valid by (simp add: good_loaded_def valid_resolve_Config)
  obtain s where s: "simulate_New (Some good_loaded) default_args = Inr s" "so_Connectors (sim_opts s) = 2"
      "sim_connectors s = [(1, new_connector), (2, new_connector)]"
    using simulate_New_default [OF v] e(3) by (auto simp: upto.simps)
  have "TrimSpace ''TAG'' = ''TAG''" by code_simp
  then have t: "tagOrDefault good_loaded [] = ''TAG''" "knownTag good_loaded ''TAG''"
    by (simp_all add: tagOrDefault_def knownTag_def good_loaded_def good_raw_def resolve_Config_def applyDefaults_def normalize_Config_def EqualFold_def)
  have i: "svc_inv remote_core" by (simp add: remote_core_def New_memory_inv)
  have f: "svc_cfg remote_core = Some good_loaded" "svc_nextTransactionID remote_core = 1" "svc_nextRemoteStartID remote_core = 1"
    by (simp_all add: remote_core_def New_memory_def Let_def put_cp_def)
  have a: "ActiveTransactions remote_core uid = []" for uid
    by (simp add: remote_core_def New_memory_def Let_def put_cp_def ActiveTransactions_def fold_addEVSE_transactions newChargePoint_def)
  have n: "NextRemoteStartID example_env remote_core = (fst (NextRemoteStartID example_env remote_core), Inr 1)"
    by (simp add: NextRemoteStartID_def NextRemoteStartID_locked_def f persist_def remote_core_def New_memory_def Let_def put_cp_def)
  have w: "sim_wf s" by (simp add: sim_wf_def s new_connector_def int64_range_def upto.simps)
  have c: "map_of (sim_connectors s) (e_OCPPConnectorID remote_EVSE) = Some new_connector" "sc_transactionID new_connector = 0"
    "\<forall>j c'. map_of (sim_connectors s) j = Some c' \<longrightarrow> sc_transactionID c' < svc_nextTransactionID remote_core"
    by (simp_all add: s e(2) f(2) new_connector_def)
  have q: "quiet (\<lambda>_ s. s)" by (simp add: quiet_def same_sessions_refl)
  have z: "\<forall>n. \<not> IsZero (ce_now ((\<lambda>_. paired_env) n))" unfolding paired_env_def by simp code_simp
  have m: "svc_nextTransactionID remote_core < max_int64" "svc_nextRemoteStartID remote_core < max_int64"
    by (simp_all add: f max_int64_def)
  have tg: "tagOrDefault good_loaded [] \<noteq> []" "knownTag good_loaded (tagOrDefault good_loaded [])" using t by simp_all
  show ?thesis
    using remote_session [where je = "[]" and clock = "\<lambda>_. example_now" and calls = 0, OF good_loads e(1) w c i f(1) a m n tg q z] s(1)
    unfolding paired_daemon_def e(2) t(1) good_loaded_parts(1) by blast
qed

end
