(* ===== verification/Cli_Main.thy ===== *)
theory Cli_Main
  imports Cli_Probe Run
begin

text \<open>
  The commands as the operator types them (\<open>newStationCommands\<close> in \<open>station.go\<close>, \<open>newRunCommand\<close> in \<open>run.go\<close>, \<open>version.go\<close>), what they print when they
  succeed, the times they show, and \<open>cmd/cpms/main.go\<close>, which turns the error of a command into what is said and the exit code.
\<close>

section \<open>Times for a person (station.go)\<close>

text \<open>The local zone is a function from instants to offsets, since the offset may change over the year.\<close>

definition time_Local :: "(int \<Rightarrow> int) \<Rightarrow> gotime \<Rightarrow> gotime" where
  "time_Local tz t = GoTime (instant t) (tz (instant t))"

definition civil_date :: "gotime \<Rightarrow> int \<times> nat \<times> int" where
  "civil_date t =
     (let secs = instant t div Second + zone t; (y, yday) = year_of_days (secs div 86400)
      in (y, month_day (month_lengths (leap_year y)) yday))"

definition date_string :: "gotime \<Rightarrow> string" where
  "date_string t = (case civil_date t of (y, m, d) \<Rightarrow>
     pad_digits 4 (nat y) @ ''-'' @ pad_digits 2 (m + 1) @ ''-'' @ pad_digits 2 (nat d + 1))"

definition clock_string :: "gotime \<Rightarrow> string" where
  "clock_string t =
     (let sod = nat ((instant t div Second + zone t) mod 86400)
      in pad_digits 2 (sod div 3600) @ '':'' @ pad_digits 2 (sod div 60 mod 60) @ '':'' @ pad_digits 2 (sod mod 60))"

definition localTime :: "(int \<Rightarrow> int) \<Rightarrow> gotime \<Rightarrow> gotime \<Rightarrow> string" where
  "localTime tz now t0 =
     (let t = time_Local tz t0
      in if civil_date t = civil_date (time_Local tz now) then clock_string t else date_string t @ '' '' @ clock_string t)"

lemma rfc3339_parts: "format_rfc3339 (GoTime i 0) = date_string (GoTime i 0) @ ''T'' @ clock_string (GoTime i 0) @ ''Z''"
  by (simp add: format_rfc3339_def format_civil_def date_string_def civil_date_def clock_string_def Let_def split: prod.split)

lemma wall_clock:
  "civil_date (GoTime i z) = civil_date (GoTime (i + z * Second) 0)" "date_string (GoTime i z) = date_string (GoTime (i + z * Second) 0)"
  "clock_string (GoTime i z) = clock_string (GoTime (i + z * Second) 0)"
proof -
  have "(i + z * Second) div Second = i div Second + z" by (simp add: Second_def)
  then show d: "civil_date (GoTime i z) = civil_date (GoTime (i + z * Second) 0)"
    "clock_string (GoTime i z) = clock_string (GoTime (i + z * Second) 0)" by (simp_all add: civil_date_def clock_string_def)
  then show "date_string (GoTime i z) = date_string (GoTime (i + z * Second) 0)" by (simp add: date_string_def)
qed

text \<open>
  What is shown can be told apart: two instants with the same offset that are shown alike, on the same day, are
  the same second. The short form is used on the day itself, so it too says which second is meant.
\<close>

lemma date_clock_second:
  assumes "four_digit_year (GoTime (i + z * Second) 0)" and "four_digit_year (GoTime (j + z * Second) 0)"
    and "date_string (GoTime i z) = date_string (GoTime j z)" and "clock_string (GoTime i z) = clock_string (GoTime j z)"
  shows "i div Second = j div Second"
proof -
  let ?i = "GoTime (i + z * Second) 0" and ?j = "GoTime (j + z * Second) 0"
  have "format_rfc3339 ?i = format_rfc3339 ?j" using assms(3,4) unfolding rfc3339_parts wall_clock [of i z] wall_clock [of j z] by simp
  then have "parse_rfc3339 (format_rfc3339 (UTC ?i)) = parse_rfc3339 (format_rfc3339 (UTC ?j))" by (simp add: UTC_def)
  then have "(i + z * Second) div Second * Second = (j + z * Second) div Second * Second"
    unfolding parse_format_rfc3339 [OF assms(1)] parse_format_rfc3339 [OF assms(2)] by simp
  then show ?thesis by (simp add: Second_def)
qed

lemma clock_length: "length (clock_string t) = 8"
  by (simp add: clock_string_def Let_def length_pad_digits)

lemma localTime_second:
  assumes "localTime tz now t = localTime tz now u" and "tz (instant t) = tz (instant u)"
    and "four_digit_year (GoTime (instant t + tz (instant t) * Second) 0)" and "four_digit_year (GoTime (instant u + tz (instant u) * Second) 0)"
  shows "instant t div Second = instant u div Second"
proof -
  let ?t = "time_Local tz t" and ?u = "time_Local tz u" and ?n = "civil_date (time_Local tz now)"
  have l: "length (localTime tz now v) = 8 \<longleftrightarrow> civil_date (time_Local tz v) = ?n" for v
    by (simp add: localTime_def Let_def clock_length)
  have "date_string ?t = date_string ?u \<and> clock_string ?t = clock_string ?u"
  proof (cases "civil_date ?t = ?n")
    case True
    then have "civil_date ?u = ?n" using l assms(1) by metis
    with True assms(1) show ?thesis by (simp add: localTime_def Let_def date_string_def)
  next
    case False
    then have "civil_date ?u \<noteq> ?n" using l assms(1) by metis
    with False assms(1) have "(date_string ?t @ '' '') @ clock_string ?t = (date_string ?u @ '' '') @ clock_string ?u"
      by (simp add: localTime_def Let_def)
    moreover have "length (clock_string ?t) = length (clock_string ?u)" by (simp add: clock_length)
    ultimately show ?thesis by simp
  qed
  then show ?thesis
    using date_clock_second [of "instant t" "tz (instant t)" "instant u"] assms(2-4) by (simp add: time_Local_def)
qed

section \<open>The commands (station.go)\<close>

definition newline_text :: string where
  "newline_text = [CHR 0x0A]"

text \<open>What a simple command prints, and its error: the format names the EVSE.\<close>

definition printed :: "string \<Rightarrow> cli_error + stationEnv \<Rightarrow> cli_error option \<Rightarrow> string" where
  "printed text env r = (case (env, r) of (Inr e, None) \<Rightarrow> env_evse e @ text @ newline_text | _ \<Rightarrow> [])"

definition cancelCommand :: "(client_error \<Rightarrow> string) \<Rightarrow> (json \<Rightarrow> duration \<Rightarrow> transport) \<Rightarrow> cli_error + stationEnv \<Rightarrow> string \<times> cli_error option" where
  "cancelCommand txt_of run env = (let r = simpleCommand txt_of run env OpCancel_s [] in (printed '' reservation cancelled'' env r, r))"

definition startCommand :: "(client_error \<Rightarrow> string) \<Rightarrow> (json \<Rightarrow> duration \<Rightarrow> transport) \<Rightarrow> string \<Rightarrow> cli_error + stationEnv \<Rightarrow> string \<times> cli_error option" where
  "startCommand txt_of run startTag env = (let r = simpleCommand txt_of run env OpStart_s startTag in (printed '' remote start accepted'' env r, r))"

definition stopCommand :: "(client_error \<Rightarrow> string) \<Rightarrow> (json \<Rightarrow> duration \<Rightarrow> transport) \<Rightarrow> cli_error + stationEnv \<Rightarrow> string \<times> cli_error option" where
  "stopCommand txt_of run env = (let r = simpleCommand txt_of run env OpStop_s [] in (printed '' remote stop accepted'' env r, r))"

definition unlockCommand :: "(client_error \<Rightarrow> string) \<Rightarrow> (json \<Rightarrow> duration \<Rightarrow> transport) \<Rightarrow> cli_error + stationEnv \<Rightarrow> string \<times> cli_error option" where
  "unlockCommand txt_of run env = (let r = simpleCommand txt_of run env OpUnlock_s [] in (printed '' unlocked'' env r, r))"

definition reserve_line :: "(gotime \<Rightarrow> string) \<Rightarrow> ReserveResult \<Rightarrow> string" where
  "reserve_line show_time r = rr_EVSE r @ '' reserved for '' @ rr_IDTag r @ '' until '' @ show_time (rr_ExpiresAt r)
     @ '' (reservation '' @ Itoa (rr_ReservationID r) @ '')'' @ newline_text"

text \<open>The status is printed as JSON or for a person.\<close>

definition status_output :: "(gotime \<Rightarrow> string) \<Rightarrow> bool \<Rightarrow> Status \<Rightarrow> json + string \<times> string list list" where
  "status_output show_time statusJSON st = (if statusJSON then Inl (enc_Status st) else Inr (printStatus show_time st))"

text \<open>A command says it is done exactly if it exits 0, whatever the daemon and the connection to it do.\<close>

lemma exitFor_nonzero: "0 < ExitCode (Some (exitFor txt_of op evse e))"
  by (auto simp: exitFor_def ExitCode_def exit_defs Let_def split: client_error.split Code.split)

lemma simpleCommand_exit:
  assumes "\<And>e. env = Inl e \<Longrightarrow> 0 < ExitCode (Some e)"
  shows "ExitCode (simpleCommand txt_of run env op tag) = ExitOK \<longleftrightarrow> simpleCommand txt_of run env op tag = None"
  using assms exitFor_nonzero
  by (auto simp: simpleCommand_def env_call_def ExitCode_def exit_defs split: sum.split) (metis less_irrefl)+

lemma printed_iff:
  assumes "r = simpleCommand txt_of run env op tag" and "t \<noteq> []"
  shows "printed t env r \<noteq> [] \<longleftrightarrow> r = None"
  using assms by (auto simp: printed_def simpleCommand_def newline_text_def split: sum.splits option.splits)

section \<open>Run and version\<close>

datatype run_outcome = RunRefused cli_error | RunBadLevel | Ran "run_event list" "run_error option"

definition runCommand :: "(string \<times> msg_arg list \<Rightarrow> string) \<Rightarrow> string \<Rightarrow> load_error + Config \<Rightarrow> string \<Rightarrow> (Config \<Rightarrow> run_env) \<Rightarrow> string list \<times> run_outcome" where
  "runCommand render configPath loaded logLevel env_of = (case loadConfig render configPath loaded of
       (report, Inl e) \<Rightarrow> (report, RunRefused e)
     | (report, Inr cfg) \<Rightarrow> (case newLogger logLevel of
           None \<Rightarrow> (report, RunBadLevel)
         | Some _ \<Rightarrow> (case run_daemon (env_of cfg) of (trace, e) \<Rightarrow> (report, Ran trace e))))"

text \<open>Nothing is claimed before the configuration and the flags are known to be good.\<close>

lemma runCommand_refuses:
  assumes "\<not> (\<exists>cfg. loaded = Inr cfg) \<or> newLogger logLevel = None"
  shows "\<nexists>trace e. snd (runCommand render configPath loaded logLevel env_of) = Ran trace e"
  using assms by (auto simp: runCommand_def loadConfig_def split: sum.split option.split load_error.split prod.split)

definition versionCommand :: "Info \<Rightarrow> (string \<times> string) list option \<Rightarrow> string" where
  "versionCommand stamped settings = Info_String (buildinfo_Get stamped settings) @ newline_text"

section \<open>main\<close>

definition error_text :: "cli_error \<Rightarrow> string" where
  "error_text e = (case e of ExitStatus c t \<Rightarrow> t | OtherCliError t \<Rightarrow> t)"

text \<open>What is written to standard error, and the exit code.\<close>

definition cpms_main :: "cli_error option \<Rightarrow> string \<times> int" where
  "cpms_main err = (case err of
       None \<Rightarrow> ([], 0)
     | Some e \<Rightarrow> (if e = ErrSilent then [] else ''cpms: '' @ error_text e @ newline_text, ExitCode (Some e)))"

text \<open>Every failure of a simple command is said, and by its own exit code.\<close>

lemma main_says_why:
  assumes "simpleCommand txt_of run env op tag = Some e" and "e \<noteq> ErrSilent"
  shows "fst (cpms_main (Some e)) \<noteq> [] \<and> snd (cpms_main (Some e)) = ExitCode (simpleCommand txt_of run env op tag)"
  using assms by (simp add: cpms_main_def)

text \<open>An invalid configuration is reported once: by the report, and not again by main.\<close>

lemma invalid_config_once:
  assumes "loaded = Inl (LoadInvalid errs)"
  shows "length (fst (configValidate render p q loaded)) = length errs + 4
    \<and> cpms_main (snd (snd (configValidate render p q loaded))) = ([], ExitError)"
  using assms by (simp add: configValidate_def loadConfig_def cpms_main_def ExitCode_def ErrSilent_def printValidationReport_lines)

end
