(* ===== verification/Cli_Commands.thy ===== *)
theory Cli_Commands
  imports Simulate Cli_Main
begin

text \<open>
  The command tree of \<open>cpms\<close> (\<open>internal/cli\<close>: \<open>NewRootCommand\<close> and the constructors it calls): names, flags and their defaults, without
  the help texts. Every command that runs, but the root, takes no arguments (\<open>cobra.NoArgs\<close>). Parsing is \<open>cobra\<close>'s; what cpms must give it is a tree it does not panic on and finds every command in.
\<close>

section \<open>The tree\<close>

datatype flag_default = FString string | FBool bool | FInt int | FDuration duration

record cli_flag =
  fl_name :: string
  fl_short :: string
  fl_default :: flag_default

definition flag :: "string \<Rightarrow> flag_default \<Rightarrow> cli_flag" where
  "flag name d = \<lparr>fl_name = name, fl_short = [], fl_default = d\<rparr>"

text \<open>A command: its name, whether it has a \<open>RunE\<close>, the flags it hands down, its own, and its subcommands.\<close>

datatype cli_command =
  CliCommand (cc_use: string) (cc_runs: bool) (cc_persistent: "cli_flag list") (cc_flags: "cli_flag list") (cc_subs: "cli_command list")

definition DefaultConfigPath :: string where
  "DefaultConfigPath = ''config.yaml''"

definition newRunCommand :: cli_command where
  "newRunCommand = CliCommand ''run'' True [] [flag ''log-level'' (FString ''info'')] []"

definition newSimulateChargerCommand :: cli_command where
  "newSimulateChargerCommand = CliCommand ''charger'' True []
     [flag ''csms'' (FString []), flag ''id'' (FString []), flag ''ocpp'' (FString Version16), flag ''connectors'' (FInt 0),
      flag ''scenario'' (FString (scenario_string ScenarioNormal)), flag ''tag'' (FString []), flag ''vendor'' (FString []),
      flag ''model'' (FString []), flag ''log-level'' (FString ''info'')] []"

definition newSimulateCommand :: cli_command where
  "newSimulateCommand = CliCommand ''simulate'' False [] [] [newSimulateChargerCommand]"

definition newVersionCommand :: cli_command where
  "newVersionCommand = CliCommand ''version'' True [] [] []"

definition newConfigValidateCommand :: cli_command where
  "newConfigValidateCommand = CliCommand ''validate'' True [] [] []"

definition newConfigCommand :: cli_command where
  "newConfigCommand = CliCommand ''config'' False [] [] [newConfigValidateCommand]"

text \<open>The loop at the end of \<open>newStationCommands\<close> adds \<open>--evse\<close> to all of them but \<open>status\<close>.\<close>

definition with_evse :: "cli_command \<Rightarrow> cli_command" where
  "with_evse c = (case c of CliCommand u r p fs subs \<Rightarrow> CliCommand u r p (fs @ [flag ''evse'' (FString [])]) subs)"

definition newStationCommands :: "cli_command list" where
  "newStationCommands =
     map with_evse
       [CliCommand ''reserve'' True [] [flag ''tag'' (FString []), flag ''expires'' (FDuration 0)] [],
        CliCommand ''cancel'' True [] [] [],
        CliCommand ''start'' True [] [flag ''tag'' (FString [])] [],
        CliCommand ''stop'' True [] [] [],
        CliCommand ''unlock'' True [] [] []]
     @ [CliCommand ''status'' True [] [flag ''json'' (FBool False)] []]"

definition newProbeCommand :: cli_command where
  "newProbeCommand = CliCommand ''probe'' True [] [flag ''json'' (FBool False), flag ''raw'' (FBool False)] []"

definition NewRootCommand :: cli_command where
  "NewRootCommand = CliCommand ''cpms'' True
     [\<lparr>fl_name = ''config'', fl_short = ''c'', fl_default = FString DefaultConfigPath\<rparr>, flag ''state'' (FString []), flag ''socket'' (FString [])]
     []
     ([newRunCommand, newSimulateCommand, newVersionCommand, newConfigCommand] @ newStationCommands @ [newProbeCommand])"

lemmas command_defs = NewRootCommand_def newRunCommand_def newSimulateCommand_def newSimulateChargerCommand_def newVersionCommand_def
  newConfigCommand_def newConfigValidateCommand_def newStationCommands_def newProbeCommand_def with_evse_def flag_def

section \<open>What cobra asks of it\<close>

text \<open>
  The command a path of names leads to, with the flags it takes: its own and the persistent ones on the way.
\<close>

fun find_command :: "cli_flag list \<Rightarrow> cli_command \<Rightarrow> string list \<Rightarrow> (cli_command \<times> cli_flag list) option" where
  "find_command inherited c [] = Some (c, inherited @ cc_persistent c @ cc_flags c)"
| "find_command inherited c (name # names) =
     (case List.find (\<lambda>s. cc_use s = name) (cc_subs c) of
        None \<Rightarrow> None
      | Some s \<Rightarrow> find_command (inherited @ cc_persistent c) s names)"

text \<open>
  \<open>pflag\<close> panics when a name or a shorthand is defined twice, \<open>cobra\<close> adds \<open>--help\<close> and \<open>-h\<close> itself, and commands \<open>help\<close> and
  \<open>completion\<close>; two subcommands of one name would hide one another.
\<close>

definition flags_ok :: "cli_flag list \<Rightarrow> bool" where
  "flags_ok fs \<longleftrightarrow> distinct (''help'' # map fl_name fs) \<and> distinct (''h'' # filter (\<lambda>x. x \<noteq> []) (map fl_short fs))"

fun tree_ok :: "cli_flag list \<Rightarrow> cli_command \<Rightarrow> bool" where
  "tree_ok inherited (CliCommand u r p fs subs) \<longleftrightarrow> flags_ok (inherited @ p @ fs)
     \<and> distinct ([''help'', ''completion''] @ map cc_use subs) \<and> (r \<or> subs \<noteq> []) \<and> list_all (tree_ok (inherited @ p)) subs"

lemma find_in_tree: "tree_ok inherited c \<Longrightarrow> find_command inherited c path = Some (d, fs) \<Longrightarrow> flags_ok fs"
proof (induction path arbitrary: inherited c)
  case Nil
  then show ?case by (cases c) auto
next
  case (Cons name path)
  obtain u r p gs subs where c: "c = CliCommand u r p gs subs" by (cases c)
  obtain s where s: "List.find (\<lambda>s. cc_use s = name) subs = Some s" "find_command (inherited @ p) s path = Some (d, fs)"
    using Cons.prems(2) c by (auto split: option.splits)
  then have "s \<in> set subs" by (auto dest: find_in_set)
  then have "tree_ok (inherited @ p) s" using Cons.prems(1) c by (auto simp: list_all_iff)
  then show ?case using Cons.IH s(2) by blast
qed

text \<open>The tree of cpms is one cobra takes, and every command of it is found under its own name.\<close>

lemma root_tree_ok: "tree_ok [] NewRootCommand"
  by code_simp

lemma root_commands:
  "map cc_use (cc_subs NewRootCommand)
     = [''run'', ''simulate'', ''version'', ''config'', ''reserve'', ''cancel'', ''start'', ''stop'', ''unlock'', ''status'', ''probe'']"
  by code_simp

lemma command_found:
  assumes "tree_ok inherited c" and "s \<in> set (cc_subs c)"
  shows "find_command inherited c [cc_use s] = Some (s, (inherited @ cc_persistent c) @ cc_persistent s @ cc_flags s)"
proof -
  have d: "distinct (map cc_use (cc_subs c))" using assms(1) by (cases c) auto
  obtain s' where s': "List.find (\<lambda>x. cc_use x = cc_use s) (cc_subs c) = Some s'"
    using assms(2) by (cases "List.find (\<lambda>x. cc_use x = cc_use s) (cc_subs c)") (auto simp: find_None_iff)
  then have "s' \<in> set (cc_subs c)" "cc_use s' = cc_use s" by (auto dest: find_in_set)
  then have "s' = s" using d assms(2) by (auto simp: distinct_map inj_on_def)
  with s' show ?thesis by simp
qed

section \<open>Defaults\<close>

text \<open>The commands without flags, as they are modelled elsewhere, are the commands with the defaults of the tree.\<close>

definition default_of :: "string list \<Rightarrow> string \<Rightarrow> flag_default option" where
  "default_of path name = (case find_command [] NewRootCommand path of
       None \<Rightarrow> None
     | Some (_, fs) \<Rightarrow> map_option fl_default (List.find (\<lambda>f. fl_name f = name) fs))"

lemma simulate_default_args:
  "default_of [''simulate'', ''charger''] ''csms'' = Some (FString (sf_csms (sa_flags default_args)))"
  "default_of [''simulate'', ''charger''] ''id'' = Some (FString (sf_id (sa_flags default_args)))"
  "default_of [''simulate'', ''charger''] ''tag'' = Some (FString (sf_tag (sa_flags default_args)))"
  "default_of [''simulate'', ''charger''] ''connectors'' = Some (FInt (sf_connectors (sa_flags default_args)))"
  "default_of [''simulate'', ''charger''] ''ocpp'' = Some (FString (sa_ocpp default_args))"
  "default_of [''simulate'', ''charger''] ''scenario'' = Some (FString (sa_scenario default_args))"
  "default_of [''simulate'', ''charger''] ''vendor'' = Some (FString (sa_vendor default_args))"
  "default_of [''simulate'', ''charger''] ''model'' = Some (FString (sa_model default_args))"
  "default_of [''simulate'', ''charger''] ''log-level'' = Some (FString (sa_logLevel default_args))"
  by code_simp+

text \<open>Exactly the five commands that act on one EVSE take \<open>--evse\<close>, and every command takes \<open>--config\<close>, \<open>--state\<close> and \<open>--socket\<close>.\<close>

lemma evse_commands:
  "filter (\<lambda>name. default_of [name] ''evse'' \<noteq> None) (map cc_use (cc_subs NewRootCommand))
     = [''reserve'', ''cancel'', ''start'', ''stop'', ''unlock'']"
  by code_simp

lemma shared_flags:
  "list_all (\<lambda>s. list_all (\<lambda>name. default_of [cc_use s] name \<noteq> None) [''config'', ''state'', ''socket'']) (cc_subs NewRootCommand)"
  by code_simp

end
