(* ===== verification/Csms_Life.thy ===== *)
theory Csms_Life
  imports Csms_Server
begin

text \<open>
  The OCPP listener from \<open>Start\<close> to the return of \<open>Shutdown\<close> (\<open>internal/ocpp/csms/server.go\<close>), with the goroutines it waits for: the one of
  \<open>Serve\<close>, the requests \<open>net/http\<close> runs, and the connections made of them. Upgrading a request takes it out of the sight of
  \<open>http.Server.Shutdown\<close>, and only then does \<open>ServeHTTP\<close> count it in the wait group.
\<close>

section \<open>Starting\<close>

datatype csms_start_error = ListenFailed string

text \<open>The phases of a call of \<open>Shutdown\<close>; in \<open>Joining\<close> it remembers whether \<open>http.Server.Shutdown\<close> gave an error.\<close>

datatype csms_phase = Serving | Cancelled | ConnsClosed | DrainingHTTP | Joining bool | StoppedOk | StoppedError

record csms_life =
  lf_addr :: "string option"
  lf_listening :: bool
  lf_serve :: bool
  lf_requests :: "nat list"
  lf_hijacked :: "nat list"
  lf_conns :: "nat list"
  lf_registered :: "nat list"
  lf_told :: "nat list"
  lf_deadline :: bool
  lf_phase :: csms_phase

definition csms_unstarted :: csms_life where
  "csms_unstarted = \<lparr>lf_addr = None, lf_listening = False, lf_serve = False, lf_requests = [], lf_hijacked = [], lf_conns = [],
     lf_registered = [], lf_told = [], lf_deadline = False, lf_phase = Serving\<rparr>"

text \<open>\<open>listen\<close> is \<open>net.Listen\<close>: the address bound, or an error.\<close>

definition csms_Start :: "(string \<Rightarrow> string option) \<Rightarrow> string \<Rightarrow> csms_life \<Rightarrow> csms_life \<times> csms_start_error option" where
  "csms_Start listen addr0 v = (case listen addr0 of
       None \<Rightarrow> (v, Some (ListenFailed addr0))
     | Some addr \<Rightarrow> (v\<lparr>lf_addr := Some addr, lf_listening := True, lf_serve := True\<rparr>, None))"

definition csms_Addr :: "string \<Rightarrow> csms_life \<Rightarrow> string" where
  "csms_Addr addr0 v = (case lf_addr v of None \<Rightarrow> addr0 | Some a \<Rightarrow> a)"

section \<open>Serving and shutting down\<close>

text \<open>
  A request arrives while the listener is open, and is answered with an error or upgraded; an upgraded one is counted (\<open>wg.Add\<close>) and becomes a
  connection, which registers and ends when its \<open>Run\<close> does: when its peer goes, or because it was told to close. \<open>Shutdown\<close> cancels the context, tells the
  registered connections to close, has \<open>net/http\<close> close the listener and wait for its requests or the deadline, and then waits for the
  wait group or the deadline. The goroutine of \<open>Serve\<close> ends once the listener is closed.
\<close>

inductive csms_life_step :: "csms_life \<Rightarrow> csms_life \<Rightarrow> bool" where
  arrives: "lf_listening v \<Longrightarrow> n \<notin> set (lf_requests v @ lf_hijacked v @ lf_conns v) \<Longrightarrow> csms_life_step v (v\<lparr>lf_requests := n # lf_requests v\<rparr>)"
| refused: "n \<in> set (lf_requests v) \<Longrightarrow> csms_life_step v (v\<lparr>lf_requests := remove1 n (lf_requests v)\<rparr>)"
| upgrades: "n \<in> set (lf_requests v)
    \<Longrightarrow> csms_life_step v (v\<lparr>lf_requests := remove1 n (lf_requests v), lf_hijacked := n # lf_hijacked v\<rparr>)"
| counted: "n \<in> set (lf_hijacked v)
    \<Longrightarrow> csms_life_step v (v\<lparr>lf_hijacked := remove1 n (lf_hijacked v), lf_conns := n # lf_conns v\<rparr>)"
| registers: "n \<in> set (lf_conns v) \<Longrightarrow> n \<notin> set (lf_registered v) \<Longrightarrow> csms_life_step v (v\<lparr>lf_registered := n # lf_registered v\<rparr>)"
| conn_ends: "n \<in> set (lf_conns v)
    \<Longrightarrow> csms_life_step v (v\<lparr>lf_conns := remove1 n (lf_conns v), lf_registered := removeAll n (lf_registered v)\<rparr>)"
| serve_ends: "\<not> lf_listening v \<Longrightarrow> csms_life_step v (v\<lparr>lf_serve := False\<rparr>)"
| deadline: "csms_life_step v (v\<lparr>lf_deadline := True\<rparr>)"
| cancels: "lf_phase v = Serving \<Longrightarrow> csms_life_step v (v\<lparr>lf_phase := Cancelled\<rparr>)"
| tells: "lf_phase v = Cancelled \<Longrightarrow> csms_life_step v (v\<lparr>lf_told := lf_registered v @ lf_told v, lf_phase := ConnsClosed\<rparr>)"
| http_closes: "lf_phase v = ConnsClosed \<Longrightarrow> csms_life_step v (v\<lparr>lf_listening := False, lf_phase := DrainingHTTP\<rparr>)"
| drained: "lf_phase v = DrainingHTTP \<Longrightarrow> lf_requests v = [] \<Longrightarrow> csms_life_step v (v\<lparr>lf_phase := Joining False\<rparr>)"
| drain_fails: "lf_phase v = DrainingHTTP \<Longrightarrow> lf_deadline v \<Longrightarrow> csms_life_step v (v\<lparr>lf_phase := Joining True\<rparr>)"
| joined: "lf_phase v = Joining err \<Longrightarrow> \<not> lf_serve v \<Longrightarrow> lf_conns v = []
    \<Longrightarrow> csms_life_step v (v\<lparr>lf_phase := if err then StoppedError else StoppedOk\<rparr>)"
| join_fails: "lf_phase v = Joining err \<Longrightarrow> lf_deadline v \<Longrightarrow> csms_life_step v (v\<lparr>lf_phase := StoppedError\<rparr>)"

definition csms_started :: "csms_life \<Rightarrow> bool" where
  "csms_started v \<longleftrightarrow> (\<exists>listen addr0. csms_Start listen addr0 csms_unstarted = (v, None))"

definition csms_life_inv :: "csms_life \<Rightarrow> bool" where
  [inv_defs]: "csms_life_inv v \<longleftrightarrow>
     (lf_phase v \<in> {DrainingHTTP, Joining False, Joining True, StoppedOk, StoppedError} \<longrightarrow> \<not> lf_listening v)
     \<and> (lf_phase v \<in> {Joining False, StoppedOk} \<longrightarrow> lf_requests v = [])
     \<and> (lf_phase v = StoppedOk \<longrightarrow> \<not> lf_serve v)
     \<and> (lf_phase v \<in> {Joining True, StoppedError} \<longrightarrow> lf_deadline v)"

lemma csms_life_inv_start: "csms_started v \<Longrightarrow> csms_life_inv v"
  by (auto simp: csms_started_def csms_Start_def csms_unstarted_def csms_life_inv_def split: option.splits)

lemma csms_life_inv_step: "csms_life_inv v \<Longrightarrow> csms_life_step v v' \<Longrightarrow> csms_life_inv v'"
  by (erule csms_life_step.cases) (auto simp: csms_life_inv_def)

interpretation csms_life: transition_system csms_started csms_life_step csms_life_inv
  by unfold_locales (auto intro: csms_life_inv_start csms_life_inv_step)

text \<open>
  \<open>Shutdown\<close> returns an error only after its deadline; when it returns without one, the listener is closed, \<open>Serve\<close> has ended and no request is in
  flight, and unless a request was between its upgrade and the wait group, no connection runs then or ever after.
\<close>

definition quiet_server :: "csms_life \<Rightarrow> bool" where
  "quiet_server v \<longleftrightarrow> \<not> lf_listening v \<and> \<not> lf_serve v \<and> lf_requests v = [] \<and> lf_hijacked v = [] \<and> lf_conns v = []"

lemma quiet_server_step: "csms_life_step v v' \<Longrightarrow> quiet_server v \<Longrightarrow> quiet_server v'"
  by (erule csms_life_step.cases) (auto simp: quiet_server_def)

lemma quiet_server_stays: "csms_life_step\<^sup>*\<^sup>* v v' \<Longrightarrow> quiet_server v \<Longrightarrow> quiet_server v'"
  by (induction rule: rtranclp_induct) (auto intro: quiet_server_step)

lemma csms_Shutdown:
  assumes "csms_started v0" and "csms_life_step\<^sup>*\<^sup>* v0 v"
  shows "lf_phase v = StoppedError \<Longrightarrow> lf_deadline v"
    and "lf_phase v = StoppedOk \<Longrightarrow> \<not> lf_listening v \<and> \<not> lf_serve v \<and> lf_requests v = []"
  using csms_life.inv_reachable [OF assms] by (auto simp: csms_life_inv_def)

lemma csms_Shutdown_quiet:
  assumes "csms_started v0" and "csms_life_step\<^sup>*\<^sup>* v0 v" and "lf_phase v = Joining False" and "lf_hijacked v = []"
    and "csms_life_step v v'" and "lf_phase v' = StoppedOk" and "csms_life_step\<^sup>*\<^sup>* v' v''"
  shows "quiet_server v''"
proof -
  have "csms_life_inv v" using csms_life.inv_reachable [OF assms(1,2)] .
  then have "quiet_server v'" using assms(3-6)
    by (cases rule: csms_life_step.cases [OF assms(5)]) (auto simp: csms_life_inv_def quiet_server_def split: if_splits)
  then show ?thesis using quiet_server_stays [OF assms(7)] by simp
qed

text \<open>
  A request between the two is not waited for: \<open>Shutdown\<close> returns without an error, and the connection runs on.
\<close>

definition missed_upgrade :: "csms_life \<Rightarrow> nat \<Rightarrow> csms_life" where
  "missed_upgrade v n = v\<lparr>lf_listening := False, lf_serve := False, lf_conns := [n], lf_phase := StoppedOk\<rparr>"

lemma Shutdown_misses_upgrade:
  assumes "csms_Start listen addr0 csms_unstarted = (v, None)"
  shows "csms_life_step\<^sup>*\<^sup>* v (missed_upgrade v n)"
proof -
  obtain addr where v: "v = csms_unstarted\<lparr>lf_addr := Some addr, lf_listening := True, lf_serve := True\<rparr>"
    using assms by (auto simp: csms_Start_def split: option.splits)
  let ?st = "\<lambda>l sv req hj cn ph. \<lparr>lf_addr = Some addr, lf_listening = l, lf_serve = sv, lf_requests = req, lf_hijacked = hj,
    lf_conns = cn, lf_registered = [], lf_told = [], lf_deadline = False, lf_phase = ph\<rparr>"
  note e = v csms_unstarted_def missed_upgrade_def
  have "csms_life_step v (?st True True [n] [] [] Serving)" using arrives [of v n] by (simp add: e)
  moreover have "csms_life_step (?st True True [n] [] [] Serving) (?st True True [n] [] [] Cancelled)"
    using cancels [of "?st True True [n] [] [] Serving"] by simp
  moreover have "csms_life_step (?st True True [n] [] [] Cancelled) (?st True True [n] [] [] ConnsClosed)"
    using tells [of "?st True True [n] [] [] Cancelled"] by simp
  moreover have "csms_life_step (?st True True [n] [] [] ConnsClosed) (?st False True [n] [] [] DrainingHTTP)"
    using http_closes [of "?st True True [n] [] [] ConnsClosed"] by simp
  moreover have "csms_life_step (?st False True [n] [] [] DrainingHTTP) (?st False True [] [n] [] DrainingHTTP)"
    using upgrades [of n "?st False True [n] [] [] DrainingHTTP"] by simp
  moreover have "csms_life_step (?st False True [] [n] [] DrainingHTTP) (?st False True [] [n] [] (Joining False))"
    using drained [of "?st False True [] [n] [] DrainingHTTP"] by simp
  moreover have "csms_life_step (?st False True [] [n] [] (Joining False)) (?st False False [] [n] [] (Joining False))"
    using serve_ends [of "?st False True [] [n] [] (Joining False)"] by simp
  moreover have "csms_life_step (?st False False [] [n] [] (Joining False)) (?st False False [] [n] [] StoppedOk)"
    using joined [of "?st False False [] [n] [] (Joining False)" False] by simp
  moreover have "csms_life_step (?st False False [] [n] [] StoppedOk) (missed_upgrade v n)"
    using counted [of n "?st False False [] [n] [] StoppedOk"] by (simp add: e)
  ultimately show ?thesis by (meson converse_rtranclp_into_rtranclp rtranclp.rtrancl_refl)
qed

end
