(* ===== verification/Error_Values.thy ===== *)
theory Error_Values
  imports Cli_Main Ocppj_Life
begin

text \<open>
  The error values the packages define, as \<open>errors.Is\<close> and a log line see them (\<open>ocppj/conn.go\<close>, \<open>control/errors.go\<close>,
  \<open>config/errors.go\<close>). The model's commands return the sentinels of package \<open>ocpp\<close>; the first section says why that loses nothing the
  program looks at.
\<close>

section \<open>Errors of a call\<close>

datatype conn_error = ConnClosedError | TimeoutError string duration

definition conn_error_Error :: "conn_error \<Rightarrow> string" where
  "conn_error_Error e = (case e of
       ConnClosedError \<Rightarrow> ''ocpp: connection closed''
     | TimeoutError action d \<Rightarrow> action @ '': no answer within '' @ duration_string d)"

definition conn_error_Is :: "conn_error \<Rightarrow> ocpp_error \<Rightarrow> bool" where
  "conn_error_Is e target \<longleftrightarrow> (case e of ConnClosedError \<Rightarrow> target = ErrNotConnected | TimeoutError action d \<Rightarrow> target = ErrTimeout)"

text \<open>What is left of such an error in the model, and that \<open>errors.Is\<close> with a sentinel cannot tell the two apart.\<close>

definition ocpp_error_of :: "conn_error \<Rightarrow> ocpp_error" where
  "ocpp_error_of e = (case e of ConnClosedError \<Rightarrow> ErrNotConnected | TimeoutError action d \<Rightarrow> ErrTimeout)"

lemma conn_error_Is_iff: "conn_error_Is e target \<longleftrightarrow> ocpp_error_of e = target"
  by (cases e) (auto simp: conn_error_Is_def ocpp_error_of_def)

lemma conn_error_classified:
  "se_Code (classify render (StationError (ocpp_error_of e))) = (if conn_error_Is e ErrTimeout then CodeTimeout else CodeNotConnected)"
  "endReason (ocpp_error_of e) = (if conn_error_Is e ErrTimeout then ReservationTimeout else ReservationFailed)"
  by (cases e; simp add: classify_def conn_error_Is_def ocpp_error_of_def endReason_def)+

section \<open>Refusals\<close>

definition op_string :: "Op \<Rightarrow> string" where
  "op_string op = (case op of OpReserve \<Rightarrow> ''reserve'' | OpCancel \<Rightarrow> ''cancel'' | OpStart' \<Rightarrow> ''start'' | OpStop' \<Rightarrow> ''stop''
     | OpUnlock \<Rightarrow> ''unlock'' | OpTriggerStatus \<Rightarrow> ''trigger status'')"

definition RefusedError_Error :: "Op \<Rightarrow> string \<Rightarrow> string \<Rightarrow> string" where
  "RefusedError_Error op uid raw = op_string op @ '' '' @ uid @ '': the station refused ('' @ raw @ '')''"

text \<open>The text tells the operation and the station's own word apart, whatever the EVSE.\<close>

lemma op_string_inj: "op_string a = op_string b \<Longrightarrow> a = b"
  by (cases a; cases b) (simp_all add: op_string_def)

lemma RefusedError_Error_raw: "RefusedError_Error op uid raw = RefusedError_Error op uid raw' \<Longrightarrow> raw = raw'"
  by (simp add: RefusedError_Error_def)

section \<open>Problems of a configuration\<close>

definition FieldError_Error :: "(string \<times> msg_arg list \<Rightarrow> string) \<Rightarrow> FieldError \<Rightarrow> string" where
  "FieldError_Error render e = fe_Path e @ '': '' @ render (fe_Msg e)"

definition ValidationErrors_Error :: "(string \<times> msg_arg list \<Rightarrow> string) \<Rightarrow> ValidationErrors \<Rightarrow> string" where
  "ValidationErrors_Error render es =
     (if es = [] then ''config: no problems''
      else (if length es = 1 then ''config: 1 problem:'' else ''config: '' @ Itoa (int (length es)) @ '' problems:'')
           @ concat (map (\<lambda>e. CHR 0x0A # ''  - '' @ FieldError_Error render e) es))"

text \<open>Every problem is a line of the text, in the order of the report.\<close>

lemma ValidationErrors_Error_lines:
  assumes "e \<in> set es"
  shows "\<exists>before after. ValidationErrors_Error render es = before @ CHR 0x0A # ''  - '' @ FieldError_Error render e @ after"
proof -
  obtain xs ys where es: "es = xs @ e # ys" using split_list [OF assms] by blast
  let ?line = "\<lambda>e. CHR 0x0A # ''  - '' @ FieldError_Error render e"
  show ?thesis
    by (rule exI [of _ "(if length es = 1 then ''config: 1 problem:'' else ''config: '' @ Itoa (int (length es)) @ '' problems:'')
            @ concat (map ?line xs)"], rule exI [of _ "concat (map ?line ys)"])
       (simp add: ValidationErrors_Error_def es)
qed

end
