(* ===== verification/Socket_Serve.thy ===== *)
theory Socket_Serve
  imports Socket
begin

text \<open>
  The life of the control socket's server (\<open>Serve\<close> and \<open>Close\<close> of \<open>internal/control/socket/server.go\<close>): the accept loop, one goroutine per
  request, the goroutine that closes the listener when the context ends, and a \<open>Close\<close> in the middle of all this.
  The wait group is a counter of its own, so that it has to be shown what it counts.
\<close>

datatype closer = NotClosing | ListenerNext | WaitsForRequests | HasClosed

record serving =
  sl_served :: bool
  sl_accepting :: bool
  sl_handling :: "nat list"
  sl_wg :: nat
  sl_open :: bool
  sl_cancelled :: bool
  sl_closer :: closer

text \<open>What \<open>Listen\<close> returns: the socket is bound, nothing accepts yet.\<close>

definition listening :: serving where
  "listening = \<lparr>sl_served = False, sl_accepting = False, sl_handling = [], sl_wg = 0, sl_open = True, sl_cancelled = False,
     sl_closer = NotClosing\<rparr>"

definition sock_Serve :: "serving \<Rightarrow> serving" where
  "sock_Serve v = v\<lparr>sl_served := True, sl_accepting := True, sl_wg := sl_wg v + 1\<rparr>"

definition accept_one :: "nat \<Rightarrow> serving \<Rightarrow> serving" where
  "accept_one conn v = v\<lparr>sl_handling := conn # sl_handling v, sl_wg := sl_wg v + 1\<rparr>"

definition accept_ends :: "serving \<Rightarrow> serving" where
  "accept_ends v = v\<lparr>sl_accepting := False, sl_wg := sl_wg v - 1\<rparr>"

definition request_ends :: "nat \<Rightarrow> serving \<Rightarrow> serving" where
  "request_ends conn v = v\<lparr>sl_handling := remove1 conn (sl_handling v), sl_wg := sl_wg v - 1\<rparr>"

text \<open>\<open>Close\<close> in its three parts; before \<open>Serve\<close> there is no context to cancel.\<close>

definition close_cancel :: "serving \<Rightarrow> serving" where
  "close_cancel v = v\<lparr>sl_cancelled := sl_cancelled v \<or> sl_served v, sl_closer := ListenerNext\<rparr>"

definition close_listener :: "serving \<Rightarrow> serving" where
  "close_listener v = v\<lparr>sl_open := False, sl_closer := WaitsForRequests\<rparr>"

inductive serve_step :: "serving \<Rightarrow> serving \<Rightarrow> bool" where
  serve: "\<not> sl_served v \<Longrightarrow> sl_closer v = NotClosing \<Longrightarrow> serve_step v (sock_Serve v)"
| accept: "sl_accepting v \<Longrightarrow> sl_open v \<Longrightarrow> serve_step v (accept_one conn v)"
| accept_fails: "sl_accepting v \<Longrightarrow> serve_step v (accept_ends v)"
| request: "conn \<in> set (sl_handling v) \<Longrightarrow> serve_step v (request_ends conn v)"
| context_ends: "sl_served v \<Longrightarrow> \<not> sl_cancelled v \<Longrightarrow> serve_step v (v\<lparr>sl_cancelled := True\<rparr>)"
| watcher: "sl_cancelled v \<Longrightarrow> sl_open v \<Longrightarrow> serve_step v (v\<lparr>sl_open := False\<rparr>)"
| closes: "sl_closer v = NotClosing \<Longrightarrow> serve_step v (close_cancel v)"
| closes_listener: "sl_closer v = ListenerNext \<Longrightarrow> serve_step v (close_listener v)"
| close_returns: "sl_closer v = WaitsForRequests \<Longrightarrow> sl_wg v = 0 \<Longrightarrow> serve_step v (v\<lparr>sl_closer := HasClosed\<rparr>)"

section \<open>What the wait group counts\<close>

definition serving_inv :: "serving \<Rightarrow> bool" where
  [inv_defs]: "serving_inv v \<longleftrightarrow> sl_wg v = (if sl_accepting v then 1 else 0) + length (sl_handling v)
     \<and> (sl_accepting v \<longrightarrow> sl_served v)
     \<and> (sl_closer v \<in> {WaitsForRequests, HasClosed} \<longrightarrow> \<not> sl_open v) \<and> (sl_closer v = HasClosed \<longrightarrow> sl_wg v = 0)"

lemmas serving_defs = sock_Serve_def accept_one_def accept_ends_def request_ends_def close_cancel_def close_listener_def

lemma removed_length: "conn \<in> set xs \<Longrightarrow> length xs = Suc (length (remove1 conn xs))"
  by (induction xs) auto

lemma serving_inv_step:
  assumes "serving_inv v" and "serve_step v v'"
  shows "serving_inv v'"
  using assms(2,1)
proof cases
  case (request conn)
  with assms(1) removed_length [OF request(2)] show ?thesis by (auto simp: serving_inv_def serving_defs)
qed (auto simp: serving_inv_def serving_defs split: if_splits)

interpretation socket_life: transition_system "\<lambda>v. v = listening" serve_step serving_inv
  by unfold_locales (simp add: listening_def serving_inv_def, rule serving_inv_step)

text \<open>When \<open>Close\<close> returns, nobody accepts and no request is in flight, and that stays so.\<close>

lemma closed_is_quiet:
  assumes "serve_step\<^sup>*\<^sup>* listening v" and "sl_closer v = HasClosed" and "serve_step\<^sup>*\<^sup>* v v'"
  shows "\<not> sl_accepting v' \<and> sl_handling v' = [] \<and> \<not> sl_open v' \<and> sl_closer v' = HasClosed"
proof -
  have s: "serving_inv u' \<and> sl_closer u' = HasClosed" if "serving_inv u \<and> sl_closer u = HasClosed" and "serve_step u u'" for u u'
    using that(2,1) serving_inv_step [of u u']
    by (cases rule: serve_step.cases) (auto simp: serving_inv_def serving_defs split: if_splits)
  from assms(3) have "serving_inv v' \<and> sl_closer v' = HasClosed"
    by (induction rule: rtranclp_induct) (use socket_life.inv_reachable [OF refl assms(1)] assms(2) s in blast)+
  then show ?thesis by (auto simp: serving_inv_def split: if_splits)
qed

text \<open>Every addition to the counter happens while it is positive, or before \<open>Close\<close>, as a wait group demands.\<close>

lemma wait_group_used_well:
  assumes "serve_step\<^sup>*\<^sup>* listening v" and "serve_step v v'" and "sl_wg v < sl_wg v'"
  shows "0 < sl_wg v \<or> sl_closer v = NotClosing"
proof -
  have "serving_inv v" using socket_life.inv_reachable [OF refl assms(1)] .
  with assms(2,3) show ?thesis by (cases rule: serve_step.cases) (auto simp: serving_inv_def serving_defs)
qed

section \<open>Close returns\<close>

text \<open>
  Once the listener is closed, what is left are the end of the accept loop, the end of each request in flight and
  \<open>Close\<close> itself; when nothing is left to do, \<open>Close\<close> has returned.
\<close>

definition serving_left :: "serving \<Rightarrow> nat" where
  "serving_left v = sl_wg v + (if sl_cancelled v then 0 else 1) + (if sl_closer v = WaitsForRequests then 1 else 0)"

lemma closing_decreases:
  assumes "serving_inv v" and "sl_closer v = WaitsForRequests" and "serve_step v v'"
  shows "serving_left v' < serving_left v \<and> (sl_closer v' = WaitsForRequests \<or> sl_closer v' = HasClosed)"
  using assms(3,1,2)
proof cases
  case (request conn)
  with assms(1,2) removed_length [OF request(2)] show ?thesis by (auto simp: serving_inv_def serving_left_def serving_defs)
qed (auto simp: serving_inv_def serving_left_def serving_defs split: if_splits)

lemma closed_decreases:
  assumes "serving_inv v" and "sl_closer v = HasClosed" and "serve_step v v'"
  shows "serving_left v' < serving_left v \<and> sl_closer v' = HasClosed"
  using assms(3,1,2)
  by (cases rule: serve_step.cases) (auto simp: serving_inv_def serving_left_def serving_defs split: if_splits)

lemma closing_steps:
  assumes "(serve_step ^^ n) v v'" and "serving_inv v" and "sl_closer v \<in> {WaitsForRequests, HasClosed}"
  shows "n + serving_left v' \<le> serving_left v \<and> serving_inv v' \<and> sl_closer v' \<in> {WaitsForRequests, HasClosed}"
  using assms
proof (induction n arbitrary: v')
  case (Suc n)
  then obtain u where u: "(serve_step ^^ n) v u" "serve_step u v'" by auto
  from Suc.IH [OF u(1) Suc.prems(2,3)] have i: "n + serving_left u \<le> serving_left v" "serving_inv u" "sl_closer u \<in> {WaitsForRequests, HasClosed}" by auto
  then have "serving_left v' < serving_left u \<and> sl_closer v' \<in> {WaitsForRequests, HasClosed}"
    using closing_decreases [OF i(2) _ u(2)] closed_decreases [OF i(2) _ u(2)] by blast
  with i serving_inv_step [OF i(2) u(2)] show ?case by auto
qed simp

lemma Close_returns:
  assumes "serve_step\<^sup>*\<^sup>* listening v" and "sl_closer v = WaitsForRequests"
  shows "(\<forall>n v'. (serve_step ^^ n) v v' \<longrightarrow> n \<le> length (sl_handling v) + 3)
    \<and> (\<forall>v'. serve_step\<^sup>*\<^sup>* v v' \<and> (\<nexists>u. serve_step v' u) \<longrightarrow> sl_closer v' = HasClosed)"
proof (intro conjI allI impI)
  have inv: "serving_inv v" using socket_life.inv_reachable [OF refl assms(1)] .
  fix n v' assume "(serve_step ^^ n) v v'"
  from closing_steps [OF this inv] assms(2) have "n \<le> serving_left v" by simp
  also have "\<dots> \<le> length (sl_handling v) + 3" using inv by (simp add: serving_left_def serving_inv_def)
  finally show "n \<le> length (sl_handling v) + 3" .
next
  have inv: "serving_inv v" using socket_life.inv_reachable [OF refl assms(1)] .
  fix v' assume a: "serve_step\<^sup>*\<^sup>* v v' \<and> (\<nexists>u. serve_step v' u)"
  then obtain n where "(serve_step ^^ n) v v'" by (auto simp: rtranclp_power)
  from closing_steps [OF this inv] assms(2) have i: "serving_inv v'" "sl_closer v' \<in> {WaitsForRequests, HasClosed}" by auto
  have "\<not> sl_accepting v'" using accept_fails a by blast
  moreover have "sl_handling v' = []" using request [of "hd (sl_handling v')" v'] a by (meson list.set_sel(1))
  ultimately have "sl_wg v' = 0" using i(1) by (simp add: serving_inv_def)
  with i(2) a close_returns [of v'] show "sl_closer v' = HasClosed" by blast
qed

text \<open>
  \<open>Serve\<close> says it answers requests until the context ends or \<open>Close\<close> is called. The accept loop ends at the first
  error of \<open>Accept\<close>, whatever it is: the server goes on with an open listener that nobody accepts from.
\<close>

lemma socket_goes_deaf:
  "\<exists>v. serve_step\<^sup>*\<^sup>* listening v \<and> sl_open v \<and> \<not> sl_cancelled v \<and> sl_closer v = NotClosing
     \<and> (\<forall>v'. serve_step\<^sup>*\<^sup>* v v' \<longrightarrow> sl_handling v' = [])"
proof -
  let ?v = "accept_ends (sock_Serve listening)"
  have "serve_step listening (sock_Serve listening)" by (rule serve) (simp_all add: listening_def)
  moreover have "serve_step (sock_Serve listening) ?v" by (rule accept_fails) (simp add: sock_Serve_def)
  ultimately have r: "serve_step\<^sup>*\<^sup>* listening ?v" by (meson rtranclp.rtrancl_into_rtrancl r_into_rtranclp)
  have "sl_handling v' = [] \<and> \<not> sl_accepting v' \<and> sl_served v'" if "serve_step\<^sup>*\<^sup>* ?v v'" for v'
    using that
  proof (induction rule: rtranclp_induct)
    case (step u u')
    from step(2,3) show ?case by (cases rule: serve_step.cases) (auto simp: serving_defs)
  qed (simp add: serving_defs listening_def)
  with r show ?thesis by (intro exI [of _ ?v]) (auto simp: serving_defs listening_def)
qed

end
