(* ===== verification/Ocpi_Transport.thy ===== *)
theory Ocpi_Transport
  imports Ocpi
begin

text \<open>
  The rest of \<open>internal/ocpi/server.go\<close>, and \<open>context.go\<close>: the writer that remembers a status for the request log, the ids a
  handler reads from its context, and \<open>Shutdown\<close>.
\<close>

section \<open>Writers\<close>

text \<open>
  A response as the calls a handler makes on its writer. \<open>rw_call\<close> is \<open>responseWriter\<close> and, without sending anything, \<open>capture\<close>; a code
  of 0 is none yet. \<open>http_call\<close> is what \<open>net/http\<close> sends: the first final status, where an informational one is not final.
\<close>

datatype writer_call = WriteHeader int | WriteBytes

definition rw_call :: "writer_call \<Rightarrow> int \<Rightarrow> int" where
  "rw_call c code = (case c of WriteHeader k \<Rightarrow> if code = 0 then k else code | WriteBytes \<Rightarrow> if code = 0 then 200 else code)"

definition rw_status :: "int \<Rightarrow> int" where
  "rw_status code = (if code = 0 then 200 else code)"

definition capture_code :: "writer_call list \<Rightarrow> int" where
  "capture_code calls = fold rw_call calls 0"

definition http_call :: "writer_call \<Rightarrow> int option \<Rightarrow> int option" where
  "http_call c sent = (case sent of Some k \<Rightarrow> Some k
     | None \<Rightarrow> (case c of WriteHeader k \<Rightarrow> if 100 \<le> k \<and> k \<le> 199 \<and> k \<noteq> 101 then None else Some k | WriteBytes \<Rightarrow> Some 200))"

definition http_sent :: "int option \<Rightarrow> int" where
  "http_sent sent = (case sent of None \<Rightarrow> 200 | Some k \<Rightarrow> k)"

text \<open>A handler that writes no informational status is logged with the status the peer got.\<close>

lemma rw_fold_set: "code \<noteq> 0 \<Longrightarrow> fold rw_call calls code = code"
  by (induction calls) (auto simp: rw_call_def split: writer_call.splits)

lemma http_fold_set: "fold http_call calls (Some k) = Some k"
  by (induction calls) (auto simp: http_call_def)

lemma status_logged:
  assumes "\<forall>k. WriteHeader k \<in> set calls \<longrightarrow> 200 \<le> k"
  shows "rw_status (fold rw_call calls 0) = http_sent (fold http_call calls None)"
proof (cases calls)
  case (Cons c cs)
  show ?thesis
  proof (cases c)
    case (WriteHeader k)
    with assms Cons have "200 \<le> k" by auto
    with Cons WriteHeader show ?thesis
      by (simp add: rw_call_def http_call_def rw_fold_set http_fold_set rw_status_def http_sent_def)
  next
    case WriteBytes
    with Cons show ?thesis by (simp add: rw_call_def http_call_def rw_fold_set http_fold_set rw_status_def http_sent_def)
  qed
qed (simp add: rw_status_def http_sent_def)

text \<open>The answers of the model, as calls.\<close>

definition answer_calls :: "http_answer \<Rightarrow> writer_call list" where
  "answer_calls a = WriteHeader (ha_status a) # (case ha_body a of None \<Rightarrow> [] | Some _ \<Rightarrow> [WriteBytes])"

lemma answer_logged: "ha_status a \<noteq> 0 \<Longrightarrow> rw_status (fold rw_call (answer_calls a) 0) = ha_status a"
  by (simp add: answer_calls_def rw_call_def rw_fold_set rw_status_def)

section \<open>The context of a request\<close>

datatype ctx_key = RequestIDKey | CorrelationIDKey

text \<open>A chain of \<open>context.WithValue\<close>, the innermost value first.\<close>

type_synonym go_context = "(ctx_key \<times> string) list"

definition WithRequestID :: "go_context \<Rightarrow> string \<Rightarrow> go_context" where
  "WithRequestID ctx i = (RequestIDKey, i) # ctx"

definition WithCorrelationID :: "go_context \<Rightarrow> string \<Rightarrow> go_context" where
  "WithCorrelationID ctx i = (CorrelationIDKey, i) # ctx"

definition RequestID :: "go_context \<Rightarrow> string" where
  "RequestID ctx = (case map_of ctx RequestIDKey of Some i \<Rightarrow> i | None \<Rightarrow> [])"

definition CorrelationID :: "go_context \<Rightarrow> string" where
  "CorrelationID ctx = (case map_of ctx CorrelationIDKey of Some i \<Rightarrow> i | None \<Rightarrow> [])"

definition request_context :: "serve_env \<Rightarrow> http_request \<Rightarrow> go_context \<Rightarrow> go_context" where
  "request_context env r ctx =
     WithCorrelationID (WithRequestID ctx (headerOrNewID (fst (sv_uuid env)) r ''X-Request-ID''))
       (headerOrNewID (snd (sv_uuid env)) r ''X-Correlation-ID'')"

text \<open>The handler reads the ids the peer gets back, and they are the peer's own where it sent any.\<close>

lemma request_ids:
  "map_of (ha_headers (fst (ocpi_ServeHTTP env s r))) ''X-Request-ID'' = Some (RequestID (request_context env r ctx))"
  "map_of (ha_headers (fst (ocpi_ServeHTTP env s r))) ''X-Correlation-ID'' = Some (CorrelationID (request_context env r ctx))"
  by (simp_all add: ocpi_ServeHTTP_def request_context_def RequestID_def CorrelationID_def WithRequestID_def WithCorrelationID_def
      Let_def split: prod.split)

lemma request_id_kept:
  "TrimSpace (hq_header r ''X-Request-ID'') \<noteq> [] \<Longrightarrow> RequestID (request_context env r ctx) = TrimSpace (hq_header r ''X-Request-ID'')"
  by (simp add: request_context_def RequestID_def WithRequestID_def WithCorrelationID_def headerOrNewID_def Let_def)

section \<open>Timeouts and address\<close>

definition DefaultReadHeaderTimeout :: duration where "DefaultReadHeaderTimeout = 10 * Second"
definition DefaultReadTimeout :: duration where "DefaultReadTimeout = 30 * Second"
definition DefaultWriteTimeout :: duration where "DefaultWriteTimeout = 60 * Second"
definition DefaultIdleTimeout :: duration where "DefaultIdleTimeout = 120 * Second"

record ocpi_timeouts =
  ot_readHeader :: duration
  ot_read :: duration
  ot_write :: duration
  ot_idle :: duration

text \<open>The timeouts of the \<open>http.Server\<close> that \<open>New\<close> makes, from those of the options.\<close>

definition server_timeouts :: "duration \<Rightarrow> duration \<Rightarrow> duration \<Rightarrow> ocpi_timeouts" where
  "server_timeouts read write idle = \<lparr>ot_readHeader = DefaultReadHeaderTimeout,
     ot_read = (if read \<le> 0 then DefaultReadTimeout else read), ot_write = (if write \<le> 0 then DefaultWriteTimeout else write),
     ot_idle = (if idle \<le> 0 then DefaultIdleTimeout else idle)\<rparr>"

text \<open>None is left at zero, which \<open>net/http\<close> would take for no limit.\<close>

lemma server_timeouts_bound:
  "0 < ot_readHeader (server_timeouts r w i) \<and> 0 < ot_read (server_timeouts r w i) \<and> 0 < ot_write (server_timeouts r w i)
     \<and> 0 < ot_idle (server_timeouts r w i)"
  by (simp add: server_timeouts_def DefaultReadHeaderTimeout_def DefaultReadTimeout_def DefaultWriteTimeout_def DefaultIdleTimeout_def Second_def)

definition ocpi_Addr :: "string \<Rightarrow> string option \<Rightarrow> string" where
  "ocpi_Addr listen_on bound = (case bound of None \<Rightarrow> listen_on | Some a \<Rightarrow> a)"

section \<open>Shutting down\<close>

datatype ocpi_phase = Up | Draining | JoiningServe | DownOk | DownError

text \<open>
  The goroutine of \<open>Serve\<close>, the requests in flight, and a \<open>Shutdown\<close>; \<open>ol_deadline\<close> is the end of the context \<open>Shutdown\<close> was given.
  \<open>http.Server.Shutdown\<close> closes the listener and waits for the requests or the deadline.
\<close>

record ocpi_life =
  ol_cancelled :: bool
  ol_listening :: bool
  ol_serving :: bool
  ol_inflight :: "nat list"
  ol_deadline :: bool
  ol_phase :: ocpi_phase

definition ocpi_up :: ocpi_life where
  "ocpi_up = \<lparr>ol_cancelled = False, ol_listening = True, ol_serving = True, ol_inflight = [], ol_deadline = False, ol_phase = Up\<rparr>"

inductive ocpi_life_step :: "ocpi_life \<Rightarrow> ocpi_life \<Rightarrow> bool" where
  arrives: "ol_listening v \<Longrightarrow> ol_serving v \<Longrightarrow> ocpi_life_step v (v\<lparr>ol_inflight := n # ol_inflight v\<rparr>)"
| answered: "n \<in> set (ol_inflight v) \<Longrightarrow> ocpi_life_step v (v\<lparr>ol_inflight := remove1 n (ol_inflight v)\<rparr>)"
| serve_ends: "\<not> ol_listening v \<Longrightarrow> ocpi_life_step v (v\<lparr>ol_serving := False\<rparr>)"
| deadline: "ocpi_life_step v (v\<lparr>ol_deadline := True\<rparr>)"
| shutdown_cancels: "ol_phase v = Up \<Longrightarrow> ocpi_life_step v (v\<lparr>ol_cancelled := True, ol_listening := False, ol_phase := Draining\<rparr>)"
| drained: "ol_phase v = Draining \<Longrightarrow> ol_inflight v = [] \<Longrightarrow> ocpi_life_step v (v\<lparr>ol_phase := JoiningServe\<rparr>)"
| drain_fails: "ol_phase v = Draining \<Longrightarrow> ol_deadline v \<Longrightarrow> ocpi_life_step v (v\<lparr>ol_phase := DownError\<rparr>)"
| joined: "ol_phase v = JoiningServe \<Longrightarrow> \<not> ol_serving v \<Longrightarrow> ocpi_life_step v (v\<lparr>ol_phase := DownOk\<rparr>)"
| join_fails: "ol_phase v = JoiningServe \<Longrightarrow> ol_deadline v \<Longrightarrow> ocpi_life_step v (v\<lparr>ol_phase := DownError\<rparr>)"

definition ocpi_life_inv :: "ocpi_life \<Rightarrow> bool" where
  [inv_defs]: "ocpi_life_inv v \<longleftrightarrow> (ol_phase v \<noteq> Up \<longrightarrow> ol_cancelled v \<and> \<not> ol_listening v)
     \<and> (ol_phase v \<in> {JoiningServe, DownOk} \<longrightarrow> ol_inflight v = []) \<and> (ol_phase v = DownOk \<longrightarrow> \<not> ol_serving v)
     \<and> (ol_phase v = DownError \<longrightarrow> ol_deadline v)"

lemma ocpi_life_inv_step: "ocpi_life_inv v \<Longrightarrow> ocpi_life_step v v' \<Longrightarrow> ocpi_life_inv v'"
  by (erule ocpi_life_step.cases) (auto simp: ocpi_life_inv_def)

interpretation ocpi_life: transition_system "\<lambda>v. v = ocpi_up" ocpi_life_step ocpi_life_inv
  by unfold_locales (simp add: ocpi_up_def ocpi_life_inv_def, rule ocpi_life_inv_step)

text \<open>
  From the moment \<open>Shutdown\<close> is called every handler is told to stop and no request comes in; it returns without an error only when
  all are gone, and with one only when its deadline has passed.
\<close>

lemma ocpi_Shutdown:
  assumes "ocpi_life_step\<^sup>*\<^sup>* ocpi_up v"
  shows "ol_phase v \<noteq> Up \<Longrightarrow> ol_cancelled v \<and> \<not> (\<exists>n. ocpi_life_step v (v\<lparr>ol_inflight := n # ol_inflight v\<rparr>))"
    and "ol_phase v = DownOk \<Longrightarrow> ol_inflight v = [] \<and> \<not> ol_serving v"
    and "ol_phase v = DownError \<Longrightarrow> ol_deadline v"
proof -
  have inv: "ocpi_life_inv v" by (rule ocpi_life.inv_reachable [OF refl assms])
  show "ol_phase v = DownOk \<Longrightarrow> ol_inflight v = [] \<and> \<not> ol_serving v" "ol_phase v = DownError \<Longrightarrow> ol_deadline v"
    using inv by (auto simp: ocpi_life_inv_def)
  show "ol_cancelled v \<and> \<not> (\<exists>n. ocpi_life_step v (v\<lparr>ol_inflight := n # ol_inflight v\<rparr>))" if "ol_phase v \<noteq> Up"
  proof -
    have l: "\<not> ol_listening v" "ol_cancelled v" using inv that by (auto simp: ocpi_life_inv_def)
    have "length (ol_inflight u) \<le> length (ol_inflight v)" if "ocpi_life_step v u" for u
      using that l by (cases rule: ocpi_life_step.cases) (auto simp: length_remove1)
    then have "\<not> ocpi_life_step v (v\<lparr>ol_inflight := n # ol_inflight v\<rparr>)" for n by fastforce
    with l show ?thesis by blast
  qed
qed

end
