(* ===== verification/Clocktest.thy ===== *)
theory Clocktest
  imports Cpms_Prelude
begin

text \<open>
  \<open>internal/clocktest/clock.go\<close>: the clock of the tests, which stands still until it is advanced. Timers are shared by pointer
  between the clock's list and the caller who may stop them, so they live in a store and the list holds
  their addresses. A callback is a value of type \<open>'f\<close>; \<open>Advance\<close> gives the timers whose callbacks run, in order.
\<close>

record 'f Timer =
  tm_at :: gotime
  tm_fn :: 'f
  tm_stopped :: bool

record 'f Clock =
  ck_now :: gotime
  ck_heap :: "'f Timer list"
  ck_timers :: "nat list"

definition clock_New :: "gotime \<Rightarrow> 'f Clock" where
  "clock_New start = \<lparr>ck_now = start, ck_heap = [], ck_timers = []\<rparr>"

definition stop_at :: "nat \<Rightarrow> 'f Timer list \<Rightarrow> 'f Timer list" where
  "stop_at t heap = heap[t := (heap ! t)\<lparr>tm_stopped := True\<rparr>]"

definition timer_Stop :: "nat \<Rightarrow> 'f Clock \<Rightarrow> 'f Clock \<times> bool" where
  "timer_Stop t c = (if tm_stopped (ck_heap c ! t) then (c, False) else (c\<lparr>ck_heap := stop_at t (ck_heap c)\<rparr>, True))"

definition clock_AfterFunc :: "duration \<Rightarrow> 'f \<Rightarrow> 'f Clock \<Rightarrow> 'f Clock \<times> nat" where
  "clock_AfterFunc d fn c =
     (c\<lparr>ck_heap := ck_heap c @ [\<lparr>tm_at = time_Add (ck_now c) d, tm_fn = fn, tm_stopped = False\<rparr>],
        ck_timers := ck_timers c @ [length (ck_heap c)]\<rparr>, length (ck_heap c))"

text \<open>The loop of \<open>Advance\<close> over the timers: those due, those pending, and the store with the due ones stopped.\<close>

fun advance_loop :: "gotime \<Rightarrow> nat list \<Rightarrow> 'f Timer list \<Rightarrow> nat list \<times> nat list \<times> 'f Timer list" where
  "advance_loop now [] heap = ([], [], heap)"
| "advance_loop now (t # ts) heap =
     (if tm_stopped (heap ! t) then advance_loop now ts heap
      else if \<not> time_After (tm_at (heap ! t)) now
      then (case advance_loop now ts (stop_at t heap) of (due, pending, heap') \<Rightarrow> (t # due, pending, heap'))
      else (case advance_loop now ts heap of (due, pending, heap') \<Rightarrow> (due, t # pending, heap')))"

definition Advance :: "duration \<Rightarrow> 'f Clock \<Rightarrow> 'f Clock \<times> nat list" where
  "Advance d c =
     (let now = time_Add (ck_now c) d
      in case advance_loop now (ck_timers c) (ck_heap c) of
           (due, pending, heap) \<Rightarrow>
             (\<lparr>ck_now = now, ck_heap = heap, ck_timers = pending\<rparr>, sort_key (\<lambda>t. instant (tm_at (heap ! t))) due))"

definition clock_Pending :: "'f Clock \<Rightarrow> nat" where
  "clock_Pending c = length (filter (\<lambda>t. \<not> tm_stopped (ck_heap c ! t)) (ck_timers c))"

section \<open>Invariant\<close>

text \<open>A timer is listed once, and one that is neither fired nor stopped is listed.\<close>

definition clock_inv :: "'f Clock \<Rightarrow> bool" where
  [inv_defs]: "clock_inv c \<longleftrightarrow> distinct (ck_timers c) \<and> (\<forall>t \<in> set (ck_timers c). t < length (ck_heap c))
     \<and> (\<forall>t < length (ck_heap c). \<not> tm_stopped (ck_heap c ! t) \<longrightarrow> t \<in> set (ck_timers c))"

definition waiting :: "'f Clock \<Rightarrow> nat \<Rightarrow> bool" where
  "waiting c t \<longleftrightarrow> t < length (ck_heap c) \<and> \<not> tm_stopped (ck_heap c ! t)"

lemma stop_at_simps [simp]:
  "length (stop_at t heap) = length heap"
  "u < length heap \<Longrightarrow> stop_at t heap ! u = (if u = t then (heap ! t)\<lparr>tm_stopped := True\<rparr> else heap ! u)"
  by (auto simp: stop_at_def nth_list_update)

lemma clock_inv_New: "clock_inv (clock_New start)"
  by (simp add: clock_inv_def clock_New_def)

lemma clock_inv_AfterFunc: "clock_inv c \<Longrightarrow> clock_inv (fst (clock_AfterFunc d fn c))"
  by (auto simp: clock_inv_def clock_AfterFunc_def nth_append less_Suc_eq)

lemma clock_inv_Stop: "clock_inv c \<Longrightarrow> t < length (ck_heap c) \<Longrightarrow> clock_inv (fst (timer_Stop t c))"
  by (auto simp: clock_inv_def timer_Stop_def split: if_splits)

text \<open>\<open>Stop\<close> reports whether it was the one to stop the timer.\<close>

lemma timer_Stop_waiting:
  assumes "t < length (ck_heap c)" and "timer_Stop t c = (c', stopped)"
  shows "stopped \<longleftrightarrow> waiting c t" and "waiting c' u \<longleftrightarrow> waiting c u \<and> u \<noteq> t"
  using assms by (auto simp: timer_Stop_def waiting_def split: if_splits)

section \<open>Advancing\<close>

text \<open>The loop as two filters.\<close>

lemma advance_loop_filters:
  assumes "distinct ts" and "\<forall>t \<in> set ts. t < length heap" and "advance_loop now ts heap = (due, pending, heap')"
  shows "due = filter (\<lambda>t. \<not> tm_stopped (heap ! t) \<and> \<not> time_After (tm_at (heap ! t)) now) ts
    \<and> pending = filter (\<lambda>t. \<not> tm_stopped (heap ! t) \<and> time_After (tm_at (heap ! t)) now) ts
    \<and> length heap' = length heap
    \<and> (\<forall>u < length heap. heap' ! u = (if u \<in> set due then (heap ! u)\<lparr>tm_stopped := True\<rparr> else heap ! u))"
  using assms
proof (induction now ts heap arbitrary: due pending heap' rule: advance_loop.induct)
  case (2 now t ts heap)
  show ?case
  proof (cases "\<not> tm_stopped (heap ! t) \<and> \<not> time_After (tm_at (heap ! t)) now")
    case True
    obtain d p h where r: "advance_loop now ts (stop_at t heap) = (d, p, h)" by (metis prod_cases3)
    have o: "u < length heap" "u \<noteq> t" if "u \<in> set ts" for u using 2(4,5) that by auto
    have "filter (P (stop_at t heap)) ts = filter (P heap) ts" if "\<And>u. u \<in> set ts \<Longrightarrow> P (stop_at t heap) u = P heap u" for P
      using that by (intro filter_cong) auto
    note f = this [of "\<lambda>h t. \<not> tm_stopped (h ! t) \<and> \<not> time_After (tm_at (h ! t)) now"] this [of "\<lambda>h t. \<not> tm_stopped (h ! t) \<and> time_After (tm_at (h ! t)) now"]
    from 2(2) [OF _ _ _ _ r] True 2(4,5) f o have "d = filter (\<lambda>t. \<not> tm_stopped (heap ! t) \<and> \<not> time_After (tm_at (heap ! t)) now) ts
      \<and> p = filter (\<lambda>t. \<not> tm_stopped (heap ! t) \<and> time_After (tm_at (heap ! t)) now) ts \<and> length h = length heap
      \<and> (\<forall>u < length heap. h ! u = (if u \<in> set d then (stop_at t heap ! u)\<lparr>tm_stopped := True\<rparr> else stop_at t heap ! u))" by simp
    with True r 2(6) show ?thesis by auto
  next
    case False
    show ?thesis
    proof (cases "tm_stopped (heap ! t)")
      case True
      with 2(1) [OF True] 2(4-6) show ?thesis by simp
    next
      case s: False
      obtain d p h where r: "advance_loop now ts heap = (d, p, h)" by (metis prod_cases3)
      with 2(3) [OF s _ _ _ r] False s 2(4-6) show ?thesis by auto
    qed
  qed
qed simp

text \<open>
  Advancing fires exactly the timers that wait and have come due, each once and in the order of their deadlines, those with the
  same deadline in the order they were made; the others go on waiting.
\<close>

lemma Advance_fires:
  assumes "clock_inv c" and "Advance d c = (c', fired)"
  shows "clock_inv c'" and "ck_now c' = time_Add (ck_now c) d"
    and "distinct fired" and "set fired = {t. waiting c t \<and> instant (tm_at (ck_heap c ! t)) \<le> instant (ck_now c')}"
    and "sorted (map (\<lambda>t. instant (tm_at (ck_heap c ! t))) fired)"
    and "waiting c' t \<longleftrightarrow> waiting c t \<and> t \<notin> set fired"
    and "filter (\<lambda>t. instant (tm_at (ck_heap c ! t)) = k) fired = filter (\<lambda>t. instant (tm_at (ck_heap c ! t)) = k \<and> t \<in> set fired) (ck_timers c)"
proof -
  let ?now = "time_Add (ck_now c) d" and ?at = "\<lambda>h t. instant (tm_at (h ! t))"
  obtain due pending heap where l: "advance_loop ?now (ck_timers c) (ck_heap c) = (due, pending, heap)" by (metis prod_cases3)
  have inv: "distinct (ck_timers c)" "\<forall>t \<in> set (ck_timers c). t < length (ck_heap c)" using assms(1) by (auto simp: clock_inv_def)
  note f = advance_loop_filters [OF inv l]
  have c': "c' = \<lparr>ck_now = ?now, ck_heap = heap, ck_timers = pending\<rparr>" and fired: "fired = sort_key (?at heap) due"
    using assms(2) l by (auto simp: Advance_def Let_def)
  have at: "?at heap t = ?at (ck_heap c) t" if "t \<in> set due" for t using f inv(2) that by auto
  show "clock_inv c'" using assms(1) f by (auto simp: clock_inv_def c')
  show now: "ck_now c' = ?now" by (simp add: c')
  show "distinct fired" using f inv by (simp add: fired)
  show s: "set fired = {t. waiting c t \<and> ?at (ck_heap c) t \<le> instant (ck_now c')}"
    using f assms(1) by (auto simp: fired waiting_def clock_inv_def time_After_def c')
  have "map (?at heap) fired = map (?at (ck_heap c)) fired" using at by (simp add: fired)
  moreover have "sorted (map (?at heap) fired)" unfolding fired by (rule sorted_sort_key)
  ultimately show "sorted (map (?at (ck_heap c)) fired)" by (simp only:)
  have "tm_stopped (heap ! t) \<longleftrightarrow> tm_stopped (ck_heap c ! t) \<or> t \<in> set due" if "t < length (ck_heap c)"
  proof -
    have "heap ! t = (if t \<in> set due then (ck_heap c ! t)\<lparr>tm_stopped := True\<rparr> else ck_heap c ! t)" using f that by blast
    then show ?thesis by (cases "t \<in> set due") simp_all
  qed
  with f show "waiting c' t \<longleftrightarrow> waiting c t \<and> t \<notin> set fired" unfolding waiting_def c' fired by auto
  have "filter (\<lambda>t. ?at (ck_heap c) t = k) fired = filter (\<lambda>t. ?at heap t = k) fired" using at by (intro filter_cong) (auto simp: fired)
  also have "\<dots> = filter (\<lambda>t. ?at heap t = k) due" unfolding fired by (rule sort_key_stable)
  also have "\<dots> = filter (\<lambda>t. ?at (ck_heap c) t = k) due" using at by (intro filter_cong) auto
  also have "\<dots> = filter (\<lambda>t. ?at (ck_heap c) t = k \<and> t \<in> set fired) (ck_timers c)"
    using f by (auto simp: fired intro: filter_cong)
  finally show "filter (\<lambda>t. ?at (ck_heap c) t = k) fired = filter (\<lambda>t. ?at (ck_heap c) t = k \<and> t \<in> set fired) (ck_timers c)" .
qed

text \<open>A timer due at or before the new time fires on this advance, or, made later, on the next one, even by nothing.\<close>

lemma AfterFunc_due:
  assumes "clock_inv c" and "clock_AfterFunc d fn c = (c1, t)" and "d \<le> e" and "Advance e c1 = (c2, fired)"
  shows "t \<in> set fired"
proof -
  have i: "clock_inv c1" using clock_inv_AfterFunc [OF assms(1), of d fn] assms(2) by simp
  have "waiting c1 t" "tm_at (ck_heap c1 ! t) = time_Add (ck_now c) d" "ck_now c1 = ck_now c"
    using assms(2) by (auto simp: clock_AfterFunc_def waiting_def)
  then show ?thesis unfolding Advance_fires(4) [OF i assms(4)] Advance_fires(2) [OF i assms(4)]
    using assms(3) by (simp add: time_Add_def)
qed

lemma clock_Pending_waiting: "clock_inv c \<Longrightarrow> clock_Pending c = card {t. waiting c t}"
proof -
  assume i: "clock_inv c"
  then have w: "{t. waiting c t} = set (filter (\<lambda>t. \<not> tm_stopped (ck_heap c ! t)) (ck_timers c))"
    by (auto simp: waiting_def clock_inv_def)
  have "distinct (filter (\<lambda>t. \<not> tm_stopped (ck_heap c ! t)) (ck_timers c))" using i by (simp add: clock_inv_def)
  then show ?thesis unfolding w clock_Pending_def by (rule distinct_card [symmetric])
qed

end
