(* ===== verification/Statetest.thy ===== *)
theory Statetest
  imports State
begin

text \<open>
  Two things beside the store: \<open>jsonProblem\<close> of \<open>internal/state/store.go\<close>, which tells the operator the line of a syntax error, and
  \<open>internal/statetest/statetest.go\<close>, the store of the tests whose writes can be made to fail. The latter keeps
  the contract core relies on, so what the tests show of core holds for it.
\<close>

section \<open>The line of a problem\<close>

datatype decode_failure = SyntaxFailure int | TypeFailure int | OtherFailure

definition failure_offset :: "decode_failure \<Rightarrow> int" where
  "failure_offset e = (case e of SyntaxFailure n \<Rightarrow> n | TypeFailure n \<Rightarrow> n | OtherFailure \<Rightarrow> - 1)"

definition jsonProblem :: "string \<Rightarrow> decode_failure \<Rightarrow> nat option" where
  "jsonProblem data e =
     (if failure_offset e < 0 then None
      else Some (1 + length (filter (\<lambda>c. c = CHR 0x0A) (take (min (nat (failure_offset e)) (length data)) data))))"

lemma length_split_on: "length (split_on c s) = Suc (length (filter (\<lambda>x. x = c) s))"
proof (induction s)
  case (Cons x s)
  then show ?case by (cases "split_on c s") auto
qed simp

text \<open>
  The line is the number of lines up to the offset, hence a line of the file; an offset past the
  end gives the last one.
\<close>

lemma jsonProblem_line:
  assumes "jsonProblem data e = Some n"
  shows "n = length (split_on (CHR 0x0A) (take (nat (failure_offset e)) data))"
    and "1 \<le> n" and "n \<le> length (split_on (CHR 0x0A) data)"
    and "length data \<le> nat (failure_offset e) \<Longrightarrow> n = length (split_on (CHR 0x0A) data)"
proof -
  let ?k = "nat (failure_offset e)"
  have "take (min ?k (length data)) data = take ?k data" by (cases "?k \<le> length data") simp_all
  then show n: "n = length (split_on (CHR 0x0A) (take ?k data))"
    using assms by (auto simp: jsonProblem_def length_split_on split: if_splits)
  then show "1 \<le> n" by (simp add: length_split_on)
  have "length (filter (\<lambda>x. x = CHR 0x0A) data) = length (filter (\<lambda>x. x = CHR 0x0A) (take ?k data @ drop ?k data))" by simp
  then show "n \<le> length (split_on (CHR 0x0A) data)" unfolding n length_split_on filter_append length_append by linarith
  show "n = length (split_on (CHR 0x0A) data)" if "length data \<le> ?k" using n that by simp
qed

section \<open>A store that fails on demand\<close>

record TestStore =
  te_store :: Store
  te_fail :: bool

datatype test_store_error = ErrInjected | StoreError "unit + state_error"

definition statetest_Open :: "bool \<Rightarrow> string \<Rightarrow> directory \<Rightarrow> TestStore option" where
  "statetest_Open read_ok path dir = (case Open read_ok path dir of
       Inl _ \<Rightarrow> None
     | Inr st \<Rightarrow> Some \<lparr>te_store = st, te_fail = False\<rparr>)"

definition store_Fail :: "bool \<Rightarrow> TestStore \<Rightarrow> TestStore" where
  "store_Fail fail s = s\<lparr>te_fail := fail\<rparr>"

definition statetest_Update :: "write_env \<Rightarrow> (State \<Rightarrow> State) \<Rightarrow> TestStore \<Rightarrow> TestStore \<times> test_store_error option" where
  "statetest_Update w f s =
     (if te_fail s then (s, Some ErrInjected)
      else case update_State w f (te_store s) of (st, e) \<Rightarrow> (s\<lparr>te_store := st\<rparr>, map_option StoreError e))"

definition test_reopen :: "TestStore \<Rightarrow> TestStore option" where
  "test_reopen s = map_option (\<lambda>st. s\<lparr>te_store := st\<rparr>) (reopen (te_store s))"

interpretation test_store: durable_store "\<lambda>s. Get (te_store s)" statetest_Update test_reopen
  "\<lambda>s. store_inv (te_store s)" "\<lambda>w s. fresh_tmp w (te_store s)"
proof
  show "s' = s" if "fresh_tmp w (te_store s)" and "statetest_Update w f s = (s', Some e)" for w s f s' e
    using that file_store.upd_fail [OF that(1), of f] by (auto simp: statetest_Update_def split: if_splits prod.splits)
  show "Get (te_store s') = clone_State (normalize_State (f (Get (te_store s))))"
    if "fresh_tmp w (te_store s)" and "statetest_Update w f s = (s', None)" for w s f s'
    using that file_store.upd_get [OF that(1), of f] by (auto simp: statetest_Update_def split: if_splits prod.splits)
  show "store_inv (te_store (fst (statetest_Update w f s)))"
    if "fresh_tmp w (te_store s)" and "store_inv (te_store s)" and "state_ok (f (Get (te_store s)))" for w s f
    using that file_store.upd_valid [where w = w and s = "te_store s" and f = f, OF that] by (auto simp: statetest_Update_def split: prod.splits)
  show "test_reopen s = Some s" if "store_inv (te_store s)" for s
    using file_store.reload_valid [OF that] by (simp add: test_reopen_def)
qed

end
