(* ===== verification/Divergences.thy ===== *)
theory Divergences
  imports Remote_Session
begin

text \<open>
  Places where the code does not do what its comments or its purpose say, each shown on the model: two in the
  simulated station's reservations (\<open>internal/simulator/handlers.go\<close>), one in the statuses of core (\<open>internal/core/service.go\<close>).
\<close>

declare map_of_eq_Some_iff [simp del] Some_eq_map_of_iff [simp del]

section \<open>Reservations of the simulator\<close>

text \<open>
  The comment in \<open>reserveNow\<close> says that a connector already held cannot be reserved. One that is held
  takes a second reservation, which replaces the first: the id of the first is gone from the connector.
\<close>

lemma held_connector_reserved_again:
  assumes "int64_range (rn_ConnectorID req)" and "int64_range (rn_ReservationID req)" and "so_Scenario (sim_opts s) = ScenarioNormal"
    and "map_of (sim_connectors s) (rn_ConnectorID req) = Some c" and "sc_status c = ''Reserved''" and "sc_transactionID c = 0"
    and "sc_reservationID c = first" and "first \<noteq> rn_ReservationID req"
  shows "\<exists>s'. sim_reserveNow je (Some (enc_ReserveNowReq req)) s
      = (s', Inr (StatusConf ''Accepted''), [SendStatus (rn_ConnectorID req) ''Reserved''])
    \<and> (\<forall>c'. map_of (sim_connectors s') (rn_ConnectorID req) = Some c' \<longrightarrow> sc_reservationID c' \<noteq> first)"
  using assms dec_enc_ReserveNowReq [OF assms(1,2)]
  by (auto simp: sim_reserveNow_def decode_req_def put_connector_def)

text \<open>
  An idle connector has reservation id 0, and \<open>cancelReservation\<close> compares every connector's id with that of the request: a cancellation
  of reservation 0 is accepted, and makes the first connector without a reservation Available, also while it charges.
\<close>

lemma cancel_zero_frees_session:
  assumes "sim_connectors s = (k, c) # cs" and "k \<noteq> 0" and "sc_reservationID c = 0" and "sc_status c = ''Charging''"
  shows "\<exists>s'. sim_cancelReservation je (Some (enc_CancelReservationReq 0)) s
      = (s', Inr (StatusConf ''Accepted''), [SendStatus k ''Available''])
    \<and> ConnectorStatus s' k = ''Available'' \<and> sim_TransactionID s' k = sc_transactionID c"
  using assms dec_enc_int_reqs(1) [of 0]
  by (auto simp: sim_cancelReservation_def decode_req_def put_connector_def ConnectorStatus_def sim_TransactionID_def int64_range_def)

text \<open>
  The comment of \<open>after\<close> says that \<open>Close\<close> waits for the work it tracks. \<open>Close\<close> returns at once, and what waits may then be dropped: an accepted
  remote start whose connection ends within \<open>commandSettle\<close> never reaches the CSMS, and \<open>Wait\<close> returns.
\<close>

lemma accepted_start_dropped:
  assumes "map_of (sim_connectors (ss_sim S)) n = Some c" and "sc_transactionID c = 0" and "int64_range n"
  shows "snd (sim_HandleCall Elapsed je ActionRemoteStartTransaction (Some (remote_start_payload n tag)) (ss_sim S))
      = (Inr (StatusConf ''Accepted''), [StartSession n tag])
    \<and> (\<exists>R. (work_step p)\<^sup>*\<^sup>* (start_run S w) R \<and> Wait_returns R \<and> sr_world R = w \<and> ss_sim (sr_session R) = ss_sim S)"
proof -
  let ?R1 = "(start_run S w)\<lparr>sr_pending := [StartSession n tag]\<rparr>" and ?R2 = "(start_run S w)\<lparr>sr_pending := [StartSession n tag], sr_session := sim_Close S\<rparr>"
  note h = remote_start_handled [OF assms, of je tag]
  have "work_step p (start_run S w) ?R1"
    using work_step.command [of "start_run S w" Elapsed je _ _ "ss_sim S" _ "[StartSession n tag]" p] h by (simp add: start_run_def)
  moreover have "work_step p ?R1 ?R2" using work_step.close [of p ?R1] by (simp add: start_run_def)
  moreover obtain R where "(work_step p)\<^sup>*\<^sup>* ?R2 R" "Wait_returns R" "sr_world R = w" "ss_sim (sr_session R) = ss_sim S"
    using shutdown_completes [of ?R2 p] by (auto simp: start_run_def)
  ultimately show ?thesis using h by (metis (no_types, lifting) converse_rtranclp_into_rtranclp snd_conv)
qed

section \<open>A status that is not recomputed\<close>

text \<open>
  A station that has reported itself out of order makes all its EVSEs so. A meter value for a connector not heard of before
  adds an EVSE without recomputing: it reads UNKNOWN, while the same station's next report of any kind shows it out of order.
\<close>

lemma meter_values_leave_unknown:
  assumes "map_of (svc_cps s) i = Some cp" and "cp_online cp" and "cp_station cp = StatusOutOfOrder"
    and "map_of (cp_effective cp) (evseUID s i n) = None"
  shows "\<exists>cp'. map_of (svc_cps (RecordMeterValues now i n summary s)) i = Some cp'
    \<and> map_of (cp_effective cp') (evseUID s i n) = Some StatusUnknown \<and> wanted cp' (evseUID s i n) = StatusOutOfOrder"
  using assms
  by (simp add: RecordMeterValues_def put_cp_def ensure_def addEVSE_def Let_def wanted_def effectiveStatus_def)

end
