(* ===== verification/Spec2Isabelle.thy ===== *)
theory Spec2Isabelle
  imports Core_Properties Service_Properties Protocol_Properties Config_Properties Interface_Properties
    Life_Properties Cli_Commands Csms_Life Error_Values Socket_Serve Ocpi_Transport Clocktest Statetest Divergences
begin

text \<open>
  A verification development for \<open>cpms\<close>, a charge point management system for one OCPP charging station (package
  tree \<open>src/internal\<close>, written in Go).

  \<^bold>\<open>The program.\<close> A charge point dials in over a WebSocket (\<open>ocpp/csms\<close>), the OCPP-J layer (\<open>ocpp/ocppj\<close>) turns messages
  into calls and answers, the version handler (\<open>ocpp/v16\<close>) turns calls into changes of the domain state (\<open>core\<close>), and
  \<open>core\<close> writes what must survive a restart to a JSON file (\<open>state\<close>) and publishes events to its subscribers.
  In the other direction the operator's commands (\<open>control\<close>) reserve, start, stop and unlock: they record the intent in
  core, send a command through the adapter of \<open>ocpp/v16\<close>, and settle the record by the answer. They come from one-shot
  processes (\<open>cli\<close>) over a Unix socket (\<open>control/socket\<close>). A second listener (\<open>ocpi\<close>) serves the OCPI endpoints of a counterparty that
  holds a token. \<open>simulator\<close> is a charge point for tests; \<open>config\<close> is what all of them are configured with.

  \<^bold>\<open>The theories.\<close>
  \<^item> \<open>Cpms_Prelude\<close>: 64-bit counters with their wrap-around, Go times, strings, decimal numbers, Go maps as association
    lists, nil slices, and the locale \<open>transition_system\<close> with its invariant rule.
  \<^item> \<open>Go_Time\<close>, \<open>Json\<close>: the parts of Go's \<open>time\<close> and \<open>encoding/json\<close> the program uses (durations, RFC 3339, decoding into
    structs with case-insensitive keys).
  \<^item> \<open>Go_Net\<close>: what is used of \<open>regexp\<close>, \<open>net\<close>, \<open>path\<close> and \<open>strconv.Quote\<close>. A pattern is a list of character classes with their
    repetitions; \<open>language\<close> is its meaning and \<open>MatchString\<close> is shown to decide it.
  \<^item> \<open>Config\<close>: \<open>config/config.go\<close>, \<open>duration.go\<close>, and \<open>normalize\<close> of \<open>load.go\<close>. \<open>Config_Validate\<close>: \<open>validate.go\<close>, \<open>enums.go\<close>,
    \<open>errors.go\<close> and the rest of \<open>load.go\<close>, each check in the order of the code. \<open>Config_Sound\<close>: the predicates \<open>valid_charger\<close> to \<open>valid_config\<close> say what a
    usable configuration is; the locale \<open>field_check\<close> is the contract of a check (it only appends, and appends nothing exactly if
    its predicate holds), interpreted on every part of the validation.
  \<^item> \<open>State\<close>: \<open>state/state.go\<close> and \<open>store.go\<close>. A directory is a function from names to contents and a write is the list of directories it goes
    through, so that a crash is a choice from that list. The locale \<open>durable_store\<close> is what core relies on; it is interpreted on the
    file store.
  \<^item> \<open>State_Lock\<close>: \<open>state/lock_unix.go\<close>: several processes that open, lock, compare, remove and close the lock file, one system call a step.
  \<^item> \<open>Core_Bus\<close>, \<open>Core_Service\<close>, \<open>Core_Persist\<close>, \<open>Core_Reservations\<close>, \<open>Core_Transactions\<close>: package \<open>core\<close>, file by file.
    The service is the record \<open>Service\<close>; a method that takes the lock is a function of the state, the clock reading is an argument,
    and a method that writes to the store outside the lock is split into its locked section (\<open>_locked\<close>) and the rest.
  \<^item> \<open>Core_Invariant\<close>: \<open>svc_inv\<close> and its preservation by every operation, and by a restart. \<open>Core_Restart\<close>: what a restart brings back.
  \<^item> \<open>Core_Interleaving\<close>: the methods as goroutines run them. \<open>core_exec\<close> is one locked section, \<open>core_step\<close> interleaves sections with the start
    and the end of writes, failed writes and their undoing, restarts and crashes in the middle of a write. Interpreted as a \<open>transition_system\<close>.
  \<^item> \<open>Ocpp\<close>, \<open>Ocppj_Conn\<close>: the common types, frames, and a connection as a step relation over its pending calls and its queues. The locale
    \<open>rpc_handler\<close> is the interface \<open>ocpp.Handler\<close>; it is interpreted on the 1.6 handler and on the simulator.
  \<^item> \<open>V16_Messages\<close>, \<open>V16_Handler\<close>, \<open>V16_ChargePoint\<close>: package \<open>v16\<close>: payloads, the inbound handler, the outbound adapter.
  \<^item> \<open>Control\<close>: package \<open>control\<close>. What other goroutines do while a command waits for the station is the function \<open>others\<close>, any run of
    sections that leaves the call's own reservation alone (\<open>interference\<close>).
  \<^item> \<open>Simulator\<close>, \<open>Csms\<close>: the simulated station, and the server's handshake and registry.
  \<^item> \<open>Ocppj_Life\<close>: \<open>Run\<close> and its three loops: the idle watchdog as a function of what arrives when, and the goroutines as a step
    relation with a measure that bounds what a closed connection still does. \<open>Csms_Server\<close>: the server's options, \<open>Command\<close> and \<open>Shutdown\<close>.
    \<open>Csms_Life\<close>: its listener from \<open>Start\<close> to the
    return of \<open>Shutdown\<close>, with the requests \<open>net/http\<close> waits for and the connections the wait group counts.
  \<^item> \<open>Simulator_Life\<close>: \<open>Connect\<close>, \<open>Run\<close>, \<open>Close\<close> and the heartbeats, and the daemon as the simulator's other end: its calls change core (\<open>daemon_peer\<close>). \<open>Simulator_Work\<close>:
    the work that follows a command, and the goroutines \<open>Wait\<close> waits for. \<open>Simulate\<close>: \<open>cpms simulate charger\<close> from its flags to a connected station.
    \<open>Remote_Session\<close>: a session from the operator's start to the operator's stop, through \<open>control\<close>, the adapter, the station, the handler and core.
  \<^item> \<open>Socket_Protocol\<close>, \<open>Socket\<close>: package \<open>socket\<close>: the lines with their JSON form, the status and the probe as they are shown, one request
    (\<open>sock_handle\<close>, \<open>sock_dispatch\<close>, \<open>classify\<close>), claiming the path, the client.
    \<open>Socket_Serve\<close>: the accept loop, the requests in flight, \<open>Close\<close> and the wait group between them as a step relation.
  \<^item> \<open>Cli\<close>, \<open>Cli_Probe\<close>, \<open>Run\<close>: package \<open>cli\<close>: exit codes, commands, what is printed (by its cells), the verdict on a probe, the daemon's
    wiring and its start and end as a trace; \<open>buildinfo\<close>. \<open>Cli_Main\<close>: the commands with what they print, the times they show, and \<open>main\<close>.
    \<open>Cli_Commands\<close>: the command tree with its flags and defaults. \<open>Error_Values\<close>: the error values of several packages as \<open>errors.Is\<close> and a log line see them.
  \<^item> \<open>Ocpi\<close>: package \<open>ocpi\<close>: tokens and base64, envelopes, modules, and the server as a \<open>transition_system\<close> of registrations.
    \<open>Ocpi_Transport\<close>: the writer behind the request log, the ids in a request's context, timeouts, \<open>Shutdown\<close>.
    The access levels are an instance of \<open>linorder\<close>, as the code compares them.
  \<^item> \<open>Ocpptest\<close>, \<open>Clocktest\<close>, \<open>Statetest\<close>: the packages the tests rest on: the raw client with its own framing, the clock that is advanced by
    hand, and the store that fails on demand, which is a second interpretation of \<open>durable_store\<close>.
  \<^item> \<open>Examples\<close>: a small installation on which the properties are evaluated. \<open>Core_Properties\<close>, \<open>Service_Properties\<close>,
    \<open>Protocol_Properties\<close>, \<open>Config_Properties\<close>, \<open>Interface_Properties\<close>, \<open>Life_Properties\<close>: the properties, each after a text that states it.

  \<^bold>\<open>What is shown.\<close> Reservations are exclusive and their ids unique in every reachable world, crashes included; the end of each is reported
  once; a command settles its record by the station's answer, and an unanswered one is cleaned up in the background; what was
  written is what a restart reads, and a crash leaves the old or the new file; statuses follow from reports, and the events
  are a log from which they can be rebuilt; a slow subscriber loses events but never their order or count; every call is answered once under its
  id, and a call returns only what the peer answered to it; two independent framings agree; payloads, timestamps and the state file survive a round
  trip; a station is online exactly while it has a running connection, provided reports are not overtaken, and \<open>reconnect_race\<close> shows what
  happens when they are. Validation decides exactly the usable configurations, and one that loads makes the two addressing schemes
  translate into each other and the URL told to the operator lead to the station; a command's exit code is that of what
  \<open>control\<close> did, through dispatch, classification, encoding and decoding; the status shown is the state of core; the OCPI endpoints serve
  the holder of TOKEN_A only. One process at a time holds the lock of a state file; a closed connection ends after a bounded number of steps;
  a session started and stopped by remote control leaves in core exactly what the station did; the watchdog drops a station exactly the idle timeout after its last OCPP message, whatever its transport answers; \<open>cpms simulate charger\<close> and
  \<open>cpms run\<close> agree on the path, the boot and an interval that keeps the connection. \<open>dotted_id_unreachable\<close> and \<open>dirty_not_shown\<close> prove two places where the code falls short of its comments,
  \<open>subsecond_interval_dropped\<close>, \<open>late_connection_open\<close>, \<open>Shutdown_misses_upgrade\<close> and \<open>socket_goes_deaf\<close> four more; \<open>Divergences\<close> has those of the simulator and of core.

  \<^bold>\<open>Bounds.\<close> Counters are Go ints with their wrap-around written out; the properties assume that a counter that is about to be advanced is
  not at its last value. Loops are structural recursion or have a measure; there is no fuel.

  \<^bold>\<open>Arguments.\<close> What the program calls and the development cannot read is an argument: the YAML decoder's result, \<open>url.Parse\<close>, SHA-256,
  the pattern \<open>ServeMux\<close> picks, the connection a client talks over, the clock, the texts of errors. A property that needs something of one
  says so in its premises.

  \<^bold>\<open>Simplified.\<close> \<open>EqualFold\<close> folds ASCII, the Kelvin sign and the long s, the only letters outside ASCII that fold to one in it, which is exact whenever
  either side is ASCII, as JSON keys and configured tags are. \<open>quote\<close> is \<open>%q\<close> of a text without control characters. Whole seconds of a duration are an exact quotient, which differs from the float64 of the code
  only beyond 97 days. A loop over a Go map takes the association list's order. The handler of a message is one step for the reader
  of a connection, so \<open>readLoop\<close> does not wait for a full queue; the queues themselves are in \<open>conn_step\<close> and \<open>life_step\<close>. Closing the service, which
  happens when the process ends, is \<open>svc_Close\<close>, not a step of \<open>core_step\<close>. \<open>csms_step\<close> has the goroutines of the server with all
  their interleavings; \<open>calm_step\<close> is the same relation without the steps by which one station connects while it is not settled.

  \<^bold>\<open>Not modelled.\<close> Sockets, HTTP and signals, which are the operating system's and \<open>net/http\<close>'s; the YAML library; logging, which changes no state; the
  timing of tickers and deadlines other than the read deadline and the heartbeats (a timer is a record of what it will call, and any
  interleaving may run it); \<open>fsync\<close> of a directory; laying text out in columns (\<open>text/tabwriter\<close>) and parsing the command line (\<open>cobra\<close>). The
  work of one command of the simulator is one step, not interleaved with that of another. On Windows \<open>LockPath\<close> does nothing, and \<open>lock_exclusive\<close>
  does not apply there.
\<close>

end
